(* ===== verification/Prelude.thy ===== *)
theory Prelude
  imports Complex_Main "HOL-Library.Finite_Map" "HOL-Library.Word"
    "HOL-Library.Product_Lexorder" "HOL-Library.List_Lexorder" "HOL-Library.Char_ord"
begin

text \<open>
  Shared ground of the development: results and effects as the Rust code has them
  (\<open>Ok\<close>, \<open>Err\<close>, a panic), the simulation relation between two effectful programs and
  the rules that lift it through the control structures, \<open>i64\<close> arithmetic, and decimal
  numerals as Rust and Redis print and parse them.
\<close>

section \<open>Rule collections\<close>

named_theorems io_simps
  \<open>unfolding rules of the effect combinators\<close>
named_theorems sim_rules
  \<open>introduction rules of the simulation relation between effectful programs\<close>

section \<open>Results and effects\<close>

text \<open>
  An error is an \<open>anyhow::Error\<close>: either a reply of the Redis client or a message the
  code builds itself. Rust code that reads an error reads its text only.
\<close>

datatype error = RedisErr string | Bail string

primrec err_text :: "error \<Rightarrow> string" where
  "err_text (RedisErr m) = m"
| "err_text (Bail m) = m"

text \<open>
  An effectful computation takes the state of the world it acts on and returns a result
  and the new state; the state is returned on errors too, since a command that has been
  executed is not rolled back.
\<close>

datatype 'a res = Ok 'a | Err error | Panic string

type_synonym ('s, 'a) io = "'s \<Rightarrow> 'a res \<times> 's"

definition ret :: "'a \<Rightarrow> ('s, 'a) io" where
  "ret x s = (Ok x, s)"

definition fail :: "error \<Rightarrow> ('s, 'a) io" where
  "fail e s = (Err e, s)"

definition panic :: "string \<Rightarrow> ('s, 'a) io" where
  "panic m s = (Panic m, s)"

text \<open>Sequencing with \<open>?\<close>: the rest runs on \<open>Ok\<close> only.\<close>

definition andThen :: "('s, 'a) io \<Rightarrow> ('a \<Rightarrow> ('s, 'b) io) \<Rightarrow> ('s, 'b) io" where
  "andThen m f s = (case m s of
     (Ok x, s') \<Rightarrow> f x s'
   | (Err e, s') \<Rightarrow> (Err e, s')
   | (Panic p, s') \<Rightarrow> (Panic p, s'))"

text \<open>
  A \<open>match\<close> (or \<open>let _ =\<close>, or \<open>if let Err\<close>) on the result of a call: the error
  becomes a value and the code goes on. A panic is not caught.
\<close>

definition attempt :: "('s, 'a) io \<Rightarrow> ('s, error + 'a) io" where
  "attempt m s = (case m s of
     (Ok x, s') \<Rightarrow> (Ok (Inr x), s')
   | (Err e, s') \<Rightarrow> (Ok (Inl e), s')
   | (Panic p, s') \<Rightarrow> (Panic p, s'))"

text \<open>\<open>for x in xs { body }\<close>, left by the first error.\<close>

fun forEach :: "'b list \<Rightarrow> ('b \<Rightarrow> ('s, unit) io) \<Rightarrow> ('s, unit) io" where
  "forEach [] f = ret ()"
| "forEach (x # xs) f = andThen (f x) (\<lambda>_. forEach xs f)"

text \<open>The same with an accumulator that the body updates.\<close>

fun foldIO :: "('b \<Rightarrow> 'a \<Rightarrow> ('s, 'a) io) \<Rightarrow> 'b list \<Rightarrow> 'a \<Rightarrow> ('s, 'a) io" where
  "foldIO f [] a = ret a"
| "foldIO f (x # xs) a = andThen (f x a) (\<lambda>a'. foldIO f xs a')"

definition is_ok :: "'a res \<Rightarrow> bool" where
  "is_ok r = (case r of Ok _ \<Rightarrow> True | _ \<Rightarrow> False)"

lemma is_ok_simps [simp]: "is_ok (Ok x)" "\<not> is_ok (Err e)" "\<not> is_ok (Panic p)"
  by (simp_all add: is_ok_def)

lemma is_ok_iff: "is_ok r \<longleftrightarrow> (\<exists>x. r = Ok x)"
  by (cases r) auto

lemmas [io_simps] = ret_def fail_def panic_def andThen_def attempt_def

lemma andThen_ret [simp]: "andThen (ret x) f = f x"
  by (rule ext) (simp add: io_simps)

lemma andThen_fail [simp]: "andThen (fail e) f = fail e"
  by (rule ext) (simp add: io_simps)

lemma andThen_Ok: "m s = (Ok x, s') \<Longrightarrow> andThen m f s = f x s'"
  by (simp add: andThen_def)

lemma andThen_Err: "m s = (Err e, s') \<Longrightarrow> andThen m f s = (Err e, s')"
  by (simp add: andThen_def)

lemma attempt_Ok: "m s = (Ok x, s') \<Longrightarrow> attempt m s = (Ok (Inr x), s')"
  by (simp add: attempt_def)

lemma attempt_Err: "m s = (Err e, s') \<Longrightarrow> attempt m s = (Ok (Inl e), s')"
  by (simp add: attempt_def)

lemma andThen_assoc: "andThen (andThen m f) g = andThen m (\<lambda>x. andThen (f x) g)"
  by (rule ext) (simp add: andThen_def split: prod.splits res.splits)

lemma andThen_OkE:
  assumes "andThen m f s = (Ok y, s'')"
  obtains x s' where "m s = (Ok x, s')" "f x s' = (Ok y, s'')"
  using assms by (auto simp: andThen_def split: prod.splits res.splits)

section \<open>Simulation\<close>

text \<open>
  \<open>sim d m n\<close>: the program \<open>m\<close> on concrete states does, seen through the
  abstraction \<open>d\<close>, what \<open>n\<close> does on abstract ones, result and state. It is kept by
  every control structure, so a program that reaches the world through commands that are
  simulated is simulated as a whole.
\<close>

definition sim :: "('s \<Rightarrow> 't) \<Rightarrow> ('s, 'a) io \<Rightarrow> ('t, 'a) io \<Rightarrow> bool" where
  "sim d m n \<longleftrightarrow> (\<forall>s. fst (m s) = fst (n (d s)) \<and> d (snd (m s)) = snd (n (d s)))"

lemma sim_id [simp]: "sim id m m"
  by (simp add: sim_def)

lemma simD: "sim d m n \<Longrightarrow> m s = (r, s') \<Longrightarrow> n (d s) = (r, d s')"
  unfolding sim_def by (metis fst_conv snd_conv prod.collapse)

lemma simI: "(\<And>s r s'. m s = (r, s') \<Longrightarrow> n (d s) = (r, d s')) \<Longrightarrow> sim d m n"
  unfolding sim_def by (metis fst_conv snd_conv prod.collapse)

text \<open>How a property of the abstract program becomes one of the concrete program.\<close>

lemma sim_transfer:
  assumes "sim d m n"
  shows "\<exists>r s'. m s = (r, s') \<and> n (d s) = (r, d s')"
  by (metis assms prod.exhaust simD)

lemma sim_run: "sim d m n \<Longrightarrow> n (d s) = (r, t) \<Longrightarrow> \<exists>s'. m s = (r, s') \<and> d s' = t"
  by (cases "m s") (auto dest: simD)

lemma sim_fst: "sim d m n \<Longrightarrow> fst (m s) = fst (n (d s))"
  by (simp add: sim_def)

lemma sim_snd: "sim d m n \<Longrightarrow> d (snd (m s)) = snd (n (d s))"
  by (simp add: sim_def)

lemma sim_ret [sim_rules]: "sim d (ret x) (ret x)"
  by (simp add: sim_def ret_def)

lemma sim_fail [sim_rules]: "sim d (fail e) (fail e)"
  by (simp add: sim_def fail_def)

lemma sim_panic [sim_rules]: "sim d (panic p) (panic p)"
  by (simp add: sim_def panic_def)

lemma sim_andThen [sim_rules]:
  assumes "sim d m n" "\<And>x. sim d (f x) (g x)"
  shows "sim d (andThen m f) (andThen n g)"
proof (rule simI)
  fix s r s'
  assume run: "andThen m f s = (r, s')"
  obtain q t where m: "m s = (q, t)" and n: "n (d s) = (q, d t)"
    using sim_transfer [OF assms(1), of s] by blast
  show "andThen n g (d s) = (r, d s')"
    using run m n simD [OF assms(2)] by (cases q) (simp_all add: andThen_def)
qed

lemma sim_attempt [sim_rules]:
  assumes "sim d m n"
  shows "sim d (attempt m) (attempt n)"
proof (rule simI)
  fix s r s'
  assume run: "attempt m s = (r, s')"
  obtain q t where "m s = (q, t)" "n (d s) = (q, d t)"
    using sim_transfer [OF assms, of s] by blast
  then show "attempt n (d s) = (r, d s')"
    using run by (cases q) (simp_all add: attempt_def)
qed

lemma sim_if [sim_rules]:
  "(b \<Longrightarrow> sim d m n) \<Longrightarrow> (\<not> b \<Longrightarrow> sim d m' n') \<Longrightarrow>
   sim d (if b then m else m') (if b then n else n')"
  by simp

lemma sim_case_option [sim_rules]:
  "sim d m n \<Longrightarrow> (\<And>x. sim d (f x) (g x)) \<Longrightarrow>
   sim d (case z of None \<Rightarrow> m | Some x \<Rightarrow> f x) (case z of None \<Rightarrow> n | Some x \<Rightarrow> g x)"
  by (cases z) simp_all

lemma sim_case_sum [sim_rules]:
  "(\<And>e. sim d (m e) (n e)) \<Longrightarrow> (\<And>x. sim d (f x) (g x)) \<Longrightarrow>
   sim d (case z of Inl e \<Rightarrow> m e | Inr x \<Rightarrow> f x) (case z of Inl e \<Rightarrow> n e | Inr x \<Rightarrow> g x)"
  by (cases z) simp_all

lemma sim_case_prod [sim_rules]:
  "(\<And>x y. sim d (f x y) (g x y)) \<Longrightarrow>
   sim d (case z of (x, y) \<Rightarrow> f x y) (case z of (x, y) \<Rightarrow> g x y)"
  by (cases z) simp_all

lemma sim_case_list [sim_rules]:
  "sim d m n \<Longrightarrow> (\<And>x xs. sim d (f x xs) (g x xs)) \<Longrightarrow>
   sim d (case z of [] \<Rightarrow> m | x # xs \<Rightarrow> f x xs) (case z of [] \<Rightarrow> n | x # xs \<Rightarrow> g x xs)"
  by (cases z) simp_all

lemma sim_Let [sim_rules]: "(\<And>x. sim d (f x) (g x)) \<Longrightarrow> sim d (Let z f) (Let z g)"
  by simp

lemma sim_forEach [sim_rules]:
  "(\<And>x. sim d (f x) (g x)) \<Longrightarrow> sim d (forEach xs f) (forEach xs g)"
  by (induction xs) (auto intro: sim_rules)

lemma sim_foldIO [sim_rules]:
  "(\<And>x a. sim d (f x a) (g x a)) \<Longrightarrow> sim d (foldIO f xs a) (foldIO g xs a)"
  by (induction xs arbitrary: a) (auto intro: sim_rules)

section \<open>Options\<close>

text \<open>\<open>unwrap_or\<close>.\<close>

definition or_default :: "'a option \<Rightarrow> 'a \<Rightarrow> 'a" where
  "or_default v d = (case v of None \<Rightarrow> d | Some x \<Rightarrow> x)"

lemma or_default_simps [simp]: "or_default None d = d" "or_default (Some x) d = x"
  by (simp_all add: or_default_def)

section \<open>Machine integers\<close>

text \<open>
  An \<open>i64\<close> is an \<open>int\<close> in range; \<open>checked_add\<close> and \<open>checked_mul\<close> are \<open>None\<close> on
  overflow, and a plain \<open>+\<close> wraps in a release build (\<open>wrap64\<close>). The same for \<open>u32\<close>
  where the code computes port ranges.
\<close>

definition i64_ok :: "int \<Rightarrow> bool" where
  "i64_ok n \<longleftrightarrow> - 9223372036854775808 \<le> n \<and> n \<le> 9223372036854775807"

definition checked_i64 :: "int \<Rightarrow> int option" where
  "checked_i64 n = (if i64_ok n then Some n else None)"

definition wrap64 :: "int \<Rightarrow> int" where
  "wrap64 n = (n + 9223372036854775808) mod 18446744073709551616 - 9223372036854775808"

lemma wrap64_id: "i64_ok n \<Longrightarrow> wrap64 n = n"
  by (simp add: wrap64_def i64_ok_def)

lemma i64_ok_wrap64: "i64_ok (wrap64 n)"
  by (simp add: wrap64_def i64_ok_def)

lemma checked_i64_Some_iff [simp]: "checked_i64 n = Some m \<longleftrightarrow> i64_ok n \<and> m = n"
  by (auto simp: checked_i64_def)

lemma checked_i64_None_iff [simp]: "checked_i64 n = None \<longleftrightarrow> \<not> i64_ok n"
  by (simp add: checked_i64_def)

section \<open>Decimal numerals\<close>

definition digit :: "nat \<Rightarrow> char" where
  "digit n = char_of (48 + n)"

fun show_nat :: "nat \<Rightarrow> string" where
  "show_nat n = (if n < 10 then [digit n] else show_nat (n div 10) @ [digit (n mod 10)])"

declare show_nat.simps [simp del]

definition show_int :: "int \<Rightarrow> string" where
  "show_int i = (if i < 0 then CHR ''-'' # show_nat (nat (- i)) else show_nat (nat i))"

definition digit_val :: "char \<Rightarrow> nat option" where
  "digit_val c = (let k = of_char c :: nat in if 48 \<le> k \<and> k \<le> 57 then Some (k - 48) else None)"

fun digits_val :: "nat \<Rightarrow> string \<Rightarrow> nat option" where
  "digits_val a [] = Some a"
| "digits_val a (c # cs) = (case digit_val c of None \<Rightarrow> None | Some v \<Rightarrow> digits_val (10 * a + v) cs)"

text \<open>
  \<open>str::parse::<i64>\<close>: an optional sign, at least one digit, leading zeros accepted, the
  value in range.
\<close>

definition parse_i64 :: "string \<Rightarrow> int option" where
  "parse_i64 s = (case s of [] \<Rightarrow> None
     | c # cs \<Rightarrow>
         if c = CHR ''-'' \<or> c = CHR ''+'' then
           if cs = [] then None
           else (case digits_val 0 cs of None \<Rightarrow> None
                 | Some v \<Rightarrow> checked_i64 (if c = CHR ''-'' then - int v else int v))
         else (case digits_val 0 s of None \<Rightarrow> None | Some v \<Rightarrow> checked_i64 (int v)))"

text \<open>
  \<open>str::parse::<u16>\<close>: the same without the minus sign (a lone sign or an empty string is
  an error).
\<close>

definition parse_u16 :: "string \<Rightarrow> nat option" where
  "parse_u16 s = (let ds = (case s of c # cs \<Rightarrow> if c = CHR ''+'' then cs else s | [] \<Rightarrow> [])
     in if ds = [] then None
        else (case digits_val 0 ds of None \<Rightarrow> None
              | Some v \<Rightarrow> if v \<le> 65535 then Some v else None))"

lemma digit_val_digit [simp]: "n < 10 \<Longrightarrow> digit_val (digit n) = Some n"
  by (simp add: digit_val_def digit_def)

lemma digits_val_append:
  "digits_val a (xs @ ys) = (case digits_val a xs of None \<Rightarrow> None | Some b \<Rightarrow> digits_val b ys)"
  by (induction xs arbitrary: a) (auto split: option.splits)

lemma digits_val_show_nat [simp]: "digits_val 0 (show_nat n) = Some n"
proof (induction n rule: show_nat.induct)
  case (1 n)
  then show ?case
    by (subst show_nat.simps) (auto simp: digits_val_append)
qed

lemma show_nat_hd: "\<exists>k cs. k < 10 \<and> show_nat n = digit k # cs"
proof (induction n rule: show_nat.induct)
  case (1 n)
  then show ?case
    by (subst show_nat.simps) fastforce
qed

lemma of_char_digit: "n < 10 \<Longrightarrow> of_char (digit n) = (48 + n :: nat)"
  by (simp add: digit_def)

lemma digit_not_sign [simp]:
  assumes "k < 10"
  shows "digit k \<noteq> CHR ''-''" "digit k \<noteq> CHR ''+''"
proof -
  have "of_char (digit k) \<noteq> (of_char CHR ''-'' :: nat)"
    and "of_char (digit k) \<noteq> (of_char CHR ''+'' :: nat)"
    using assms by (simp_all add: of_char_digit)
  then show "digit k \<noteq> CHR ''-''" "digit k \<noteq> CHR ''+''" by auto
qed

lemma show_nat_not_Nil [simp]: "show_nat n \<noteq> []"
  using show_nat_hd [of n] by auto

lemma parse_i64_show_int [simp]: "i64_ok i \<Longrightarrow> parse_i64 (show_int i) = Some i"
proof (cases "i < 0")
  case True
  then show "i64_ok i \<Longrightarrow> parse_i64 (show_int i) = Some i"
    by (simp add: parse_i64_def show_int_def)
next
  case False
  obtain k cs where k: "k < 10" "show_nat (nat i) = digit k # cs"
    using show_nat_hd by blast
  have "digits_val 0 (digit k # cs) = Some (nat i)"
    by (metis k(2) digits_val_show_nat)
  with False k show "i64_ok i \<Longrightarrow> parse_i64 (show_int i) = Some i"
    by (simp add: parse_i64_def show_int_def del: digits_val.simps)
qed

lemma show_int_not_Nil [simp]: "show_int i \<noteq> []"
  by (simp add: show_int_def)

text \<open>Rounding as Rust rounds a number to a text or to nanoseconds: to the nearest, ties to even.\<close>

definition round_half_even :: "rat \<Rightarrow> int" where
  "round_half_even r =
     (let f = \<lfloor>r\<rfloor>; d = r - of_int f in if d < 1 / 2 \<or> (d = 1 / 2 \<and> even f) then f else f + 1)"

text \<open>
  \<open>Duration::from_secs_f64\<close>, in nanoseconds, which panics for a negative number and for one of \<open>2\<^sup>64\<close> or more, and the
  sum of an \<open>Instant\<close> and a \<open>Duration\<close>, which panics when its seconds are not an \<open>i64\<close>.
\<close>

definition duration_from_secs_f64 :: "rat \<Rightarrow> nat res" where
  "duration_from_secs_f64 s =
     (if s < 0 \<or> 18446744073709551616 \<le> s then Panic ''Duration::from_secs_f64''
      else Ok (nat (round_half_even (s * 1000000000))))"

definition instant_add :: "int \<Rightarrow> nat \<Rightarrow> int res" where
  "instant_add t d =
     (if 9223372036854775808000000000 \<le> t + int d then Panic ''overflow when adding duration to instant''
      else Ok (t + int d))"

end
