(* ===== verification/Redis.thy ===== *)
theory Redis
  imports Prelude
begin

text \<open>
  The Redis server. It is not code of the repository, so it is a parameter: a record of the
  commands the code sends (\<open>redis\<close>), and an interface (\<open>redis_server\<close>) that says,
  through an abstraction to a keyspace, what the Redis documentation promises of each
  command. The documented behaviour is written as functions on the keyspace
  (\<open>ks_...\<close>), which make a reference server (\<open>ks_redis\<close>) that meets the interface and
  on which witnesses compute. A command is atomic and takes no time; the passage of time is
  the separate step \<open>ks_elapse\<close>, which runs the time-to-live of keys down and removes the
  expired ones.
\<close>

section \<open>The keyspace\<close>

type_synonym rhash = "(string, string) fmap"
type_synonym zset = "(rat \<times> string) list" \<comment> \<open>ordered by score, then member\<close>

datatype rvalue =
    RString string
  | RHash rhash
  | RZset zset
  | RList "string list"
  | RStream "(string \<times> string) list list"

text \<open>A key holds a value and, if it is volatile, its remaining time to live in ms.\<close>

type_synonym keyspace = "string \<Rightarrow> (rvalue \<times> int option) option"

datatype expiry = NoExpiry | ExSec int | PxMs int

definition wrongtype :: error where
  "wrongtype = RedisErr ''WRONGTYPE: Operation against a key holding the wrong kind of value''"

definition invalid_expire :: error where
  "invalid_expire = RedisErr ''ERR: invalid expire time''"

definition ks_elapse :: "int \<Rightarrow> keyspace \<Rightarrow> keyspace" where
  "ks_elapse d ks = (\<lambda>k. case ks k of
      Some (v, Some t) \<Rightarrow> if t \<le> d then None else Some (v, Some (t - d))
    | e \<Rightarrow> e)"

section \<open>Documented behaviour of the commands\<close>

subsection \<open>Keys\<close>

definition ks_exists :: "string \<Rightarrow> (keyspace, bool) io" where
  "ks_exists k ks = (Ok (ks k \<noteq> None), ks)"

definition ks_del :: "string \<Rightarrow> (keyspace, int) io" where
  "ks_del k ks = (case ks k of None \<Rightarrow> (Ok 0, ks) | Some _ \<Rightarrow> (Ok 1, ks(k := None)))"

definition ks_pexpire :: "string \<Rightarrow> int \<Rightarrow> (keyspace, bool) io" where
  "ks_pexpire k ms ks = (case ks k of
      None \<Rightarrow> (Ok False, ks)
    | Some (v, _) \<Rightarrow> (Ok True, if ms \<le> 0 then ks(k := None) else ks(k \<mapsto> (v, Some ms))))"

definition ks_expire :: "string \<Rightarrow> int \<Rightarrow> (keyspace, bool) io" where
  "ks_expire k sec ks =
     (if i64_ok (sec * 1000) then ks_pexpire k (sec * 1000) ks else (Err invalid_expire, ks))"

definition ks_persist :: "string \<Rightarrow> (keyspace, bool) io" where
  "ks_persist k ks = (case ks k of
      Some (v, Some _) \<Rightarrow> (Ok True, ks(k \<mapsto> (v, None)))
    | _ \<Rightarrow> (Ok False, ks))"

text \<open>\<open>TTL\<close>: seconds, rounded; \<open>-1\<close> without expiry, \<open>-2\<close> without key.\<close>

definition ks_ttl :: "string \<Rightarrow> (keyspace, int) io" where
  "ks_ttl k ks = (Ok (case ks k of
      None \<Rightarrow> -2 | Some (_, None) \<Rightarrow> -1 | Some (_, Some t) \<Rightarrow> (t + 500) div 1000), ks)"

subsection \<open>Strings\<close>

definition ks_get :: "string \<Rightarrow> (keyspace, string option) io" where
  "ks_get k ks = (case ks k of
      None \<Rightarrow> (Ok None, ks)
    | Some (RString v, _) \<Rightarrow> (Ok (Some v), ks)
    | Some _ \<Rightarrow> (Err wrongtype, ks))"

definition expiry_ms :: "expiry \<Rightarrow> int option option" where
  "expiry_ms e = (case e of
      NoExpiry \<Rightarrow> Some None
    | ExSec n \<Rightarrow> if 0 < n \<and> i64_ok (n * 1000) then Some (Some (n * 1000)) else None
    | PxMs n \<Rightarrow> if 0 < n \<and> i64_ok n then Some (Some n) else None)"

text \<open>\<open>SET k v [NX] [EX n | PX n]\<close>: \<open>False\<close> is the nil reply of a failed \<open>NX\<close>.\<close>

definition ks_set :: "string \<Rightarrow> string \<Rightarrow> bool \<Rightarrow> expiry \<Rightarrow> (keyspace, bool) io" where
  "ks_set k v nx e ks = (case expiry_ms e of
      None \<Rightarrow> (Err invalid_expire, ks)
    | Some t \<Rightarrow> if nx \<and> ks k \<noteq> None then (Ok False, ks) else (Ok True, ks(k \<mapsto> (RString v, t))))"

subsection \<open>Hashes\<close>

text \<open>
  Typed access: a missing key reads as the empty collection, a key of another type is an
  error, and a collection that becomes empty is removed with its key.
\<close>

definition read_hash :: "string \<Rightarrow> (rhash \<Rightarrow> 'a) \<Rightarrow> (keyspace, 'a) io" where
  "read_hash k f ks = (case ks k of
      None \<Rightarrow> (Ok (f fmempty), ks)
    | Some (RHash h, _) \<Rightarrow> (Ok (f h), ks)
    | Some _ \<Rightarrow> (Err wrongtype, ks))"

definition write_hash :: "string \<Rightarrow> (rhash \<Rightarrow> rhash) \<Rightarrow> (keyspace, unit) io" where
  "write_hash k f ks = (case ks k of
      None \<Rightarrow> (Ok (), if f fmempty = fmempty then ks else ks(k \<mapsto> (RHash (f fmempty), None)))
    | Some (RHash h, t) \<Rightarrow> (Ok (), if f h = fmempty then ks(k := None) else ks(k \<mapsto> (RHash (f h), t)))
    | Some _ \<Rightarrow> (Err wrongtype, ks))"

definition hash_put :: "(string \<times> string) list \<Rightarrow> rhash \<Rightarrow> rhash" where
  "hash_put fvs h = fold (\<lambda>(f, v). fmupd f v) fvs h"

definition hash_del :: "string list \<Rightarrow> rhash \<Rightarrow> rhash" where
  "hash_del fs h = fold fmdrop fs h"

definition ks_hset :: "string \<Rightarrow> (string \<times> string) list \<Rightarrow> (keyspace, unit) io" where
  "ks_hset k fvs = (if fvs = [] then fail (RedisErr ''ERR: wrong number of arguments'')
     else write_hash k (hash_put fvs))"

definition ks_hdel :: "string \<Rightarrow> string list \<Rightarrow> (keyspace, unit) io" where
  "ks_hdel k fs = write_hash k (hash_del fs)"

definition ks_hget :: "string \<Rightarrow> string \<Rightarrow> (keyspace, string option) io" where
  "ks_hget k f = read_hash k (\<lambda>h. fmlookup h f)"

definition ks_hgetall :: "string \<Rightarrow> (keyspace, rhash) io" where
  "ks_hgetall k = read_hash k (\<lambda>h. h)"

text \<open>The integers Redis accepts in a hash field are the canonical decimals of an \<open>i64\<close>.\<close>

definition redis_int :: "string \<Rightarrow> int option" where
  "redis_int s = (case parse_i64 s of
      None \<Rightarrow> None | Some n \<Rightarrow> if show_int n = s then Some n else None)"

definition ks_hincrby :: "string \<Rightarrow> string \<Rightarrow> int \<Rightarrow> (keyspace, int) io" where
  "ks_hincrby k f d = andThen (read_hash k (\<lambda>h. fmlookup h f)) (\<lambda>v.
     case (case v of None \<Rightarrow> Some 0 | Some s \<Rightarrow> redis_int s) of
       None \<Rightarrow> fail (RedisErr ''ERR: hash value is not an integer'')
     | Some n \<Rightarrow>
         if i64_ok (n + d)
         then andThen (write_hash k (hash_put [(f, show_int (n + d))])) (\<lambda>_. ret (n + d))
         else fail (RedisErr ''ERR: increment or decrement would overflow''))"

subsection \<open>Sorted sets\<close>

definition zs_del :: "string \<Rightarrow> zset \<Rightarrow> zset" where
  "zs_del m zs = filter (\<lambda>p. snd p \<noteq> m) zs"

definition zs_put :: "rat \<Rightarrow> string \<Rightarrow> zset \<Rightarrow> zset" where
  "zs_put sc m zs = insort (sc, m) (zs_del m zs)"

definition zs_score :: "string \<Rightarrow> zset \<Rightarrow> rat option" where
  "zs_score m zs = map_option fst (find (\<lambda>p. snd p = m) zs)"

definition zs_upto :: "rat \<Rightarrow> zset \<Rightarrow> string list" where
  "zs_upto mx zs = map snd (filter (\<lambda>p. fst p \<le> mx) zs)"

definition redis_slice :: "int \<Rightarrow> int \<Rightarrow> 'a list \<Rightarrow> 'a list" where
  "redis_slice start stop xs =
     (let n = int (length xs);
          i = max 0 (if start < 0 then n + start else start);
          j = (if stop < 0 then n + stop else stop)
      in take (nat (j + 1 - i)) (drop (nat i) xs))"

definition read_zset :: "string \<Rightarrow> (zset \<Rightarrow> 'a) \<Rightarrow> (keyspace, 'a) io" where
  "read_zset k f ks = (case ks k of
      None \<Rightarrow> (Ok (f []), ks)
    | Some (RZset z, _) \<Rightarrow> (Ok (f z), ks)
    | Some _ \<Rightarrow> (Err wrongtype, ks))"

definition write_zset :: "string \<Rightarrow> (zset \<Rightarrow> zset) \<Rightarrow> (keyspace, unit) io" where
  "write_zset k f ks = (case ks k of
      None \<Rightarrow> (Ok (), if f [] = [] then ks else ks(k \<mapsto> (RZset (f []), None)))
    | Some (RZset z, t) \<Rightarrow> (Ok (), if f z = [] then ks(k := None) else ks(k \<mapsto> (RZset (f z), t)))
    | Some _ \<Rightarrow> (Err wrongtype, ks))"

definition ks_zadd :: "string \<Rightarrow> rat \<Rightarrow> string \<Rightarrow> (keyspace, unit) io" where
  "ks_zadd k sc m = write_zset k (zs_put sc m)"

text \<open>\<open>ZREM\<close> replies the number of members removed.\<close>

definition ks_zrem :: "string \<Rightarrow> string \<Rightarrow> (keyspace, int) io" where
  "ks_zrem k m = andThen (read_zset k (zs_score m)) (\<lambda>sc.
     case sc of None \<Rightarrow> ret 0 | Some _ \<Rightarrow> andThen (write_zset k (zs_del m)) (\<lambda>_. ret 1))"

definition ks_zscore :: "string \<Rightarrow> string \<Rightarrow> (keyspace, rat option) io" where
  "ks_zscore k m = read_zset k (zs_score m)"

text \<open>\<open>ZRANGEBYSCORE k -inf mx LIMIT 0 n\<close>.\<close>

definition ks_zrangebyscore :: "string \<Rightarrow> rat \<Rightarrow> nat \<Rightarrow> (keyspace, string list) io" where
  "ks_zrangebyscore k mx n = read_zset k (\<lambda>z. take n (zs_upto mx z))"

definition ks_zcard :: "string \<Rightarrow> (keyspace, int) io" where
  "ks_zcard k = read_zset k (\<lambda>z. int (length z))"

definition ks_zrange :: "string \<Rightarrow> int \<Rightarrow> int \<Rightarrow> (keyspace, (string \<times> rat) list) io" where
  "ks_zrange k i j = read_zset k (\<lambda>z. map prod.swap (redis_slice i j z))"

subsection \<open>Lists and streams\<close>

definition read_list :: "string \<Rightarrow> (string list \<Rightarrow> 'a) \<Rightarrow> (keyspace, 'a) io" where
  "read_list k f ks = (case ks k of
      None \<Rightarrow> (Ok (f []), ks)
    | Some (RList l, _) \<Rightarrow> (Ok (f l), ks)
    | Some _ \<Rightarrow> (Err wrongtype, ks))"

definition write_list :: "string \<Rightarrow> (string list \<Rightarrow> string list) \<Rightarrow> (keyspace, unit) io" where
  "write_list k f ks = (case ks k of
      None \<Rightarrow> (Ok (), if f [] = [] then ks else ks(k \<mapsto> (RList (f []), None)))
    | Some (RList l, t) \<Rightarrow> (Ok (), if f l = [] then ks(k := None) else ks(k \<mapsto> (RList (f l), t)))
    | Some _ \<Rightarrow> (Err wrongtype, ks))"

definition ks_lpush :: "string \<Rightarrow> string \<Rightarrow> (keyspace, unit) io" where
  "ks_lpush k x = write_list k (\<lambda>l. x # l)"

text \<open>\<open>LREM k 1 x\<close>: removes the first occurrence.\<close>

definition ks_lrem :: "string \<Rightarrow> string \<Rightarrow> (keyspace, int) io" where
  "ks_lrem k x = andThen (read_list k (\<lambda>l. x \<in> set l)) (\<lambda>b.
     if b then andThen (write_list k (remove1 x)) (\<lambda>_. ret 1) else ret 0)"

definition ks_llen :: "string \<Rightarrow> (keyspace, int) io" where
  "ks_llen k = read_list k (\<lambda>l. int (length l))"

definition ks_lrange :: "string \<Rightarrow> int \<Rightarrow> int \<Rightarrow> (keyspace, string list) io" where
  "ks_lrange k i j = read_list k (redis_slice i j)"

definition ks_xadd :: "string \<Rightarrow> (string \<times> string) list \<Rightarrow> (keyspace, unit) io" where
  "ks_xadd k fvs ks = (case ks k of
      None \<Rightarrow> (Ok (), ks(k \<mapsto> (RStream [fvs], None)))
    | Some (RStream es, t) \<Rightarrow> (Ok (), ks(k \<mapsto> (RStream (es @ [fvs]), t)))
    | Some _ \<Rightarrow> (Err wrongtype, ks))"

definition ks_flushdb :: "(keyspace, unit) io" where
  "ks_flushdb ks = (Ok (), (\<lambda>_. None))"

section \<open>The server as a parameter\<close>

text \<open>
  The commands the code sends, on a connection whose state is of any type \<open>'r\<close>.
\<close>

record 'r redis =
  r_exists :: "string \<Rightarrow> ('r, bool) io"
  r_del :: "string \<Rightarrow> ('r, int) io"
  r_expire :: "string \<Rightarrow> int \<Rightarrow> ('r, bool) io"
  r_pexpire :: "string \<Rightarrow> int \<Rightarrow> ('r, bool) io"
  r_persist :: "string \<Rightarrow> ('r, bool) io"
  r_ttl :: "string \<Rightarrow> ('r, int) io"
  r_get :: "string \<Rightarrow> ('r, string option) io"
  r_set :: "string \<Rightarrow> string \<Rightarrow> bool \<Rightarrow> expiry \<Rightarrow> ('r, bool) io"
  r_hset :: "string \<Rightarrow> (string \<times> string) list \<Rightarrow> ('r, unit) io"
  r_hdel :: "string \<Rightarrow> string list \<Rightarrow> ('r, unit) io"
  r_hget :: "string \<Rightarrow> string \<Rightarrow> ('r, string option) io"
  r_hgetall :: "string \<Rightarrow> ('r, rhash) io"
  r_hincrby :: "string \<Rightarrow> string \<Rightarrow> int \<Rightarrow> ('r, int) io"
  r_zadd :: "string \<Rightarrow> rat \<Rightarrow> string \<Rightarrow> ('r, unit) io"
  r_zrem :: "string \<Rightarrow> string \<Rightarrow> ('r, int) io"
  r_zscore :: "string \<Rightarrow> string \<Rightarrow> ('r, rat option) io"
  r_zrangebyscore :: "string \<Rightarrow> rat \<Rightarrow> nat \<Rightarrow> ('r, string list) io"
  r_zcard :: "string \<Rightarrow> ('r, int) io"
  r_zrange :: "string \<Rightarrow> int \<Rightarrow> int \<Rightarrow> ('r, (string \<times> rat) list) io"
  r_lpush :: "string \<Rightarrow> string \<Rightarrow> ('r, unit) io"
  r_lrem :: "string \<Rightarrow> string \<Rightarrow> ('r, int) io"
  r_llen :: "string \<Rightarrow> ('r, int) io"
  r_lrange :: "string \<Rightarrow> int \<Rightarrow> int \<Rightarrow> ('r, string list) io"
  r_xadd :: "string \<Rightarrow> (string \<times> string) list \<Rightarrow> ('r, unit) io"
  r_flushdb :: "('r, unit) io"

text \<open>The interface: what the code relies on.\<close>

locale redis_server =
  fixes R :: "'r redis" and db :: "'r \<Rightarrow> keyspace"
  assumes exists_law: "sim db (r_exists R k) (ks_exists k)"
    and del_law: "sim db (r_del R k) (ks_del k)"
    and expire_law: "sim db (r_expire R k n) (ks_expire k n)"
    and pexpire_law: "sim db (r_pexpire R k n) (ks_pexpire k n)"
    and persist_law: "sim db (r_persist R k) (ks_persist k)"
    and ttl_law: "sim db (r_ttl R k) (ks_ttl k)"
    and get_law: "sim db (r_get R k) (ks_get k)"
    and set_law: "sim db (r_set R k v nx e) (ks_set k v nx e)"
    and hset_law: "sim db (r_hset R k fvs) (ks_hset k fvs)"
    and hdel_law: "sim db (r_hdel R k fs) (ks_hdel k fs)"
    and hget_law: "sim db (r_hget R k f) (ks_hget k f)"
    and hgetall_law: "sim db (r_hgetall R k) (ks_hgetall k)"
    and hincrby_law: "sim db (r_hincrby R k f n) (ks_hincrby k f n)"
    and zadd_law: "sim db (r_zadd R k sc m) (ks_zadd k sc m)"
    and zrem_law: "sim db (r_zrem R k m) (ks_zrem k m)"
    and zscore_law: "sim db (r_zscore R k m) (ks_zscore k m)"
    and zrangebyscore_law: "sim db (r_zrangebyscore R k mx c) (ks_zrangebyscore k mx c)"
    and zcard_law: "sim db (r_zcard R k) (ks_zcard k)"
    and zrange_law: "sim db (r_zrange R k i j) (ks_zrange k i j)"
    and lpush_law: "sim db (r_lpush R k x) (ks_lpush k x)"
    and lrem_law: "sim db (r_lrem R k x) (ks_lrem k x)"
    and llen_law: "sim db (r_llen R k) (ks_llen k)"
    and lrange_law: "sim db (r_lrange R k i j) (ks_lrange k i j)"
    and xadd_law: "sim db (r_xadd R k fvs) (ks_xadd k fvs)"
    and flushdb_law: "sim db (r_flushdb R) ks_flushdb"

text \<open>The reference server: the documented behaviour itself.\<close>

definition ks_redis :: "keyspace redis" where
  "ks_redis = \<lparr> r_exists = ks_exists, r_del = ks_del, r_expire = ks_expire,
     r_pexpire = ks_pexpire, r_persist = ks_persist, r_ttl = ks_ttl, r_get = ks_get,
     r_set = ks_set, r_hset = ks_hset, r_hdel = ks_hdel, r_hget = ks_hget,
     r_hgetall = ks_hgetall, r_hincrby = ks_hincrby, r_zadd = ks_zadd, r_zrem = ks_zrem,
     r_zscore = ks_zscore, r_zrangebyscore = ks_zrangebyscore, r_zcard = ks_zcard,
     r_zrange = ks_zrange, r_lpush = ks_lpush, r_lrem = ks_lrem, r_llen = ks_llen,
     r_lrange = ks_lrange, r_xadd = ks_xadd, r_flushdb = ks_flushdb \<rparr>"

lemma ks_redis_sel [simp]:
  "r_exists ks_redis = ks_exists" "r_del ks_redis = ks_del" "r_expire ks_redis = ks_expire"
  "r_pexpire ks_redis = ks_pexpire" "r_persist ks_redis = ks_persist" "r_ttl ks_redis = ks_ttl"
  "r_get ks_redis = ks_get" "r_set ks_redis = ks_set" "r_hset ks_redis = ks_hset"
  "r_hdel ks_redis = ks_hdel" "r_hget ks_redis = ks_hget" "r_hgetall ks_redis = ks_hgetall"
  "r_hincrby ks_redis = ks_hincrby" "r_zadd ks_redis = ks_zadd" "r_zrem ks_redis = ks_zrem"
  "r_zscore ks_redis = ks_zscore" "r_zrangebyscore ks_redis = ks_zrangebyscore"
  "r_zcard ks_redis = ks_zcard" "r_zrange ks_redis = ks_zrange" "r_lpush ks_redis = ks_lpush"
  "r_lrem ks_redis = ks_lrem" "r_llen ks_redis = ks_llen" "r_lrange ks_redis = ks_lrange"
  "r_xadd ks_redis = ks_xadd" "r_flushdb ks_redis = ks_flushdb"
  by (simp_all add: ks_redis_def)

interpretation reference: redis_server ks_redis id
  by unfold_locales simp_all

text \<open>
  The laws as simulations against the reference server: with \<open>sim_rules\<close> they prove, for
  every operation built from commands, that it refines the same operation on keyspaces.
\<close>

context redis_server
begin

lemma command_sims [sim_rules]:
  "sim db (r_exists R k) (r_exists ks_redis k)"
  "sim db (r_del R k) (r_del ks_redis k)"
  "sim db (r_expire R k n) (r_expire ks_redis k n)"
  "sim db (r_pexpire R k n) (r_pexpire ks_redis k n)"
  "sim db (r_persist R k) (r_persist ks_redis k)"
  "sim db (r_ttl R k) (r_ttl ks_redis k)"
  "sim db (r_get R k) (r_get ks_redis k)"
  "sim db (r_set R k v nx e) (r_set ks_redis k v nx e)"
  "sim db (r_hset R k fvs) (r_hset ks_redis k fvs)"
  "sim db (r_hdel R k fs) (r_hdel ks_redis k fs)"
  "sim db (r_hget R k f) (r_hget ks_redis k f)"
  "sim db (r_hgetall R k) (r_hgetall ks_redis k)"
  "sim db (r_hincrby R k f n) (r_hincrby ks_redis k f n)"
  "sim db (r_zadd R k sc m) (r_zadd ks_redis k sc m)"
  "sim db (r_zrem R k m) (r_zrem ks_redis k m)"
  "sim db (r_zscore R k m) (r_zscore ks_redis k m)"
  "sim db (r_zrangebyscore R k mx c) (r_zrangebyscore ks_redis k mx c)"
  "sim db (r_zcard R k) (r_zcard ks_redis k)"
  "sim db (r_zrange R k i j) (r_zrange ks_redis k i j)"
  "sim db (r_lpush R k x) (r_lpush ks_redis k x)"
  "sim db (r_lrem R k x) (r_lrem ks_redis k x)"
  "sim db (r_llen R k) (r_llen ks_redis k)"
  "sim db (r_lrange R k i j) (r_lrange ks_redis k i j)"
  "sim db (r_xadd R k fvs) (r_xadd ks_redis k fvs)"
  "sim db (r_flushdb R) (r_flushdb ks_redis)"
  by (simp_all add: exists_law del_law expire_law pexpire_law persist_law ttl_law get_law
      set_law hset_law hdel_law hget_law hgetall_law hincrby_law zadd_law zrem_law zscore_law
      zrangebyscore_law zcard_law zrange_law lpush_law lrem_law llen_law lrange_law xadd_law
      flushdb_law)

end

section \<open>Views of the keyspace and the effect of commands on them\<close>

text \<open>
  What a key holds, read as each type (empty when the key is free or of another type), its
  time to live, and the predicates that say a key is free or of a type, so that a command
  of that type cannot fail on it.
\<close>

definition hash_at :: "keyspace \<Rightarrow> string \<Rightarrow> rhash" where
  "hash_at ks k = (case ks k of Some (RHash h, _) \<Rightarrow> h | _ \<Rightarrow> fmempty)"

definition zset_at :: "keyspace \<Rightarrow> string \<Rightarrow> zset" where
  "zset_at ks k = (case ks k of Some (RZset z, _) \<Rightarrow> z | _ \<Rightarrow> [])"

definition list_at :: "keyspace \<Rightarrow> string \<Rightarrow> string list" where
  "list_at ks k = (case ks k of Some (RList l, _) \<Rightarrow> l | _ \<Rightarrow> [])"

definition string_at :: "keyspace \<Rightarrow> string \<Rightarrow> string option" where
  "string_at ks k = (case ks k of Some (RString v, _) \<Rightarrow> Some v | _ \<Rightarrow> None)"

definition stream_at :: "keyspace \<Rightarrow> string \<Rightarrow> (string \<times> string) list list" where
  "stream_at ks k = (case ks k of Some (RStream es, _) \<Rightarrow> es | _ \<Rightarrow> [])"

definition ttl_at :: "keyspace \<Rightarrow> string \<Rightarrow> int option" where
  "ttl_at ks k = (case ks k of Some (_, t) \<Rightarrow> t | None \<Rightarrow> None)"

definition is_hash :: "keyspace \<Rightarrow> string \<Rightarrow> bool" where
  "is_hash ks k = (case ks k of None \<Rightarrow> True | Some (RHash h, _) \<Rightarrow> h \<noteq> fmempty | _ \<Rightarrow> False)"

definition zs_ok :: "zset \<Rightarrow> bool" where
  "zs_ok z \<longleftrightarrow> sorted z \<and> distinct (map snd z)"

definition is_zset :: "keyspace \<Rightarrow> string \<Rightarrow> bool" where
  "is_zset ks k = (case ks k of None \<Rightarrow> True | Some (RZset z, _) \<Rightarrow> z \<noteq> [] \<and> zs_ok z | _ \<Rightarrow> False)"

definition is_list :: "keyspace \<Rightarrow> string \<Rightarrow> bool" where
  "is_list ks k = (case ks k of None \<Rightarrow> True | Some (RList l, _) \<Rightarrow> l \<noteq> [] | _ \<Rightarrow> False)"

definition is_string :: "keyspace \<Rightarrow> string \<Rightarrow> bool" where
  "is_string ks k = (case ks k of None \<Rightarrow> True | Some (RString v, _) \<Rightarrow> True | _ \<Rightarrow> False)"

definition is_stream :: "keyspace \<Rightarrow> string \<Rightarrow> bool" where
  "is_stream ks k = (case ks k of None \<Rightarrow> True | Some (RStream v, _) \<Rightarrow> v \<noteq> [] | _ \<Rightarrow> False)"

text \<open>Storing a collection under a key: the time to live is kept, an empty one is removed.\<close>

definition put_hash :: "string \<Rightarrow> rhash \<Rightarrow> keyspace \<Rightarrow> keyspace" where
  "put_hash k h ks = ks(k := if h = fmempty then None else Some (RHash h, ttl_at ks k))"

definition put_zset :: "string \<Rightarrow> zset \<Rightarrow> keyspace \<Rightarrow> keyspace" where
  "put_zset k z ks = ks(k := if z = [] then None else Some (RZset z, ttl_at ks k))"

definition put_list :: "string \<Rightarrow> string list \<Rightarrow> keyspace \<Rightarrow> keyspace" where
  "put_list k l ks = ks(k := if l = [] then None else Some (RList l, ttl_at ks k))"

definition put_stream :: "string \<Rightarrow> (string \<times> string) list list \<Rightarrow> keyspace \<Rightarrow> keyspace" where
  "put_stream k l ks = ks(k := Some (RStream l, ttl_at ks k))"

definition put_string :: "string \<Rightarrow> string \<Rightarrow> int option \<Rightarrow> keyspace \<Rightarrow> keyspace" where
  "put_string k v t ks = ks(k \<mapsto> (RString v, t))"

definition del_key :: "string \<Rightarrow> keyspace \<Rightarrow> keyspace" where
  "del_key k ks = ks(k := None)"

definition put_ttl :: "string \<Rightarrow> int option \<Rightarrow> keyspace \<Rightarrow> keyspace" where
  "put_ttl k t ks = ks(k := map_option (\<lambda>(v, _). (v, t)) (ks k))"

lemmas view_defs = hash_at_def zset_at_def list_at_def string_at_def stream_at_def ttl_at_def
  is_hash_def is_zset_def is_list_def is_string_def is_stream_def
lemmas put_defs = put_hash_def put_zset_def put_list_def put_stream_def put_string_def
  del_key_def put_ttl_def

lemma put_lookup_other [simp]:
  "k' \<noteq> k \<Longrightarrow> put_hash k h ks k' = ks k'" "k' \<noteq> k \<Longrightarrow> put_zset k z ks k' = ks k'"
  "k' \<noteq> k \<Longrightarrow> put_list k l ks k' = ks k'" "k' \<noteq> k \<Longrightarrow> put_stream k es ks k' = ks k'"
  "k' \<noteq> k \<Longrightarrow> put_string k v t ks k' = ks k'" "k' \<noteq> k \<Longrightarrow> del_key k ks k' = ks k'"
  "k' \<noteq> k \<Longrightarrow> put_ttl k t ks k' = ks k'"
  by (simp_all add: put_defs)

text \<open>Every view at every key, after every store.\<close>

lemma view_put_hash [simp]:
  "hash_at (put_hash k h ks) k' = (if k' = k then h else hash_at ks k')"
  "zset_at (put_hash k h ks) k' = (if k' = k then [] else zset_at ks k')"
  "list_at (put_hash k h ks) k' = (if k' = k then [] else list_at ks k')"
  "string_at (put_hash k h ks) k' = (if k' = k then None else string_at ks k')"
  "stream_at (put_hash k h ks) k' = (if k' = k then [] else stream_at ks k')"
  "is_hash (put_hash k h ks) k' = (k' = k \<or> is_hash ks k')"
  "k' \<noteq> k \<Longrightarrow> is_zset (put_hash k h ks) k' = is_zset ks k'"
  "k' \<noteq> k \<Longrightarrow> is_list (put_hash k h ks) k' = is_list ks k'"
  "k' \<noteq> k \<Longrightarrow> is_string (put_hash k h ks) k' = is_string ks k'"
  "k' \<noteq> k \<Longrightarrow> is_stream (put_hash k h ks) k' = is_stream ks k'"
  by (auto simp: view_defs put_hash_def)

lemma view_put_zset [simp]:
  "zset_at (put_zset k z ks) k' = (if k' = k then z else zset_at ks k')"
  "hash_at (put_zset k z ks) k' = (if k' = k then fmempty else hash_at ks k')"
  "list_at (put_zset k z ks) k' = (if k' = k then [] else list_at ks k')"
  "string_at (put_zset k z ks) k' = (if k' = k then None else string_at ks k')"
  "stream_at (put_zset k z ks) k' = (if k' = k then [] else stream_at ks k')"
  "is_zset (put_zset k z ks) k' = (if k' = k then zs_ok z else is_zset ks k')"
  "k' \<noteq> k \<Longrightarrow> is_hash (put_zset k z ks) k' = is_hash ks k'"
  "k' \<noteq> k \<Longrightarrow> is_list (put_zset k z ks) k' = is_list ks k'"
  "k' \<noteq> k \<Longrightarrow> is_string (put_zset k z ks) k' = is_string ks k'"
  "k' \<noteq> k \<Longrightarrow> is_stream (put_zset k z ks) k' = is_stream ks k'"
  by (auto simp: view_defs put_zset_def zs_ok_def)

lemma view_put_list [simp]:
  "list_at (put_list k l ks) k' = (if k' = k then l else list_at ks k')"
  "hash_at (put_list k l ks) k' = (if k' = k then fmempty else hash_at ks k')"
  "zset_at (put_list k l ks) k' = (if k' = k then [] else zset_at ks k')"
  "string_at (put_list k l ks) k' = (if k' = k then None else string_at ks k')"
  "stream_at (put_list k l ks) k' = (if k' = k then [] else stream_at ks k')"
  "is_list (put_list k l ks) k' = (k' = k \<or> is_list ks k')"
  "k' \<noteq> k \<Longrightarrow> is_hash (put_list k l ks) k' = is_hash ks k'"
  "k' \<noteq> k \<Longrightarrow> is_zset (put_list k l ks) k' = is_zset ks k'"
  "k' \<noteq> k \<Longrightarrow> is_string (put_list k l ks) k' = is_string ks k'"
  "k' \<noteq> k \<Longrightarrow> is_stream (put_list k l ks) k' = is_stream ks k'"
  by (auto simp: view_defs put_list_def)

lemma view_put_stream [simp]:
  "stream_at (put_stream k es ks) k' = (if k' = k then es else stream_at ks k')"
  "hash_at (put_stream k es ks) k' = (if k' = k then fmempty else hash_at ks k')"
  "zset_at (put_stream k es ks) k' = (if k' = k then [] else zset_at ks k')"
  "list_at (put_stream k es ks) k' = (if k' = k then [] else list_at ks k')"
  "string_at (put_stream k es ks) k' = (if k' = k then None else string_at ks k')"
  "is_stream (put_stream k es ks) k' = (if k' = k then es \<noteq> [] else is_stream ks k')"
  "k' \<noteq> k \<Longrightarrow> is_hash (put_stream k es ks) k' = is_hash ks k'"
  "k' \<noteq> k \<Longrightarrow> is_zset (put_stream k es ks) k' = is_zset ks k'"
  "k' \<noteq> k \<Longrightarrow> is_list (put_stream k es ks) k' = is_list ks k'"
  "k' \<noteq> k \<Longrightarrow> is_string (put_stream k es ks) k' = is_string ks k'"
  by (auto simp: view_defs put_stream_def)

lemma view_put_string [simp]:
  "string_at (put_string k v t ks) k' = (if k' = k then Some v else string_at ks k')"
  "hash_at (put_string k v t ks) k' = (if k' = k then fmempty else hash_at ks k')"
  "zset_at (put_string k v t ks) k' = (if k' = k then [] else zset_at ks k')"
  "list_at (put_string k v t ks) k' = (if k' = k then [] else list_at ks k')"
  "stream_at (put_string k v t ks) k' = (if k' = k then [] else stream_at ks k')"
  "is_string (put_string k v t ks) k' = (k' = k \<or> is_string ks k')"
  "k' \<noteq> k \<Longrightarrow> is_hash (put_string k v t ks) k' = is_hash ks k'"
  "k' \<noteq> k \<Longrightarrow> is_zset (put_string k v t ks) k' = is_zset ks k'"
  "k' \<noteq> k \<Longrightarrow> is_list (put_string k v t ks) k' = is_list ks k'"
  "k' \<noteq> k \<Longrightarrow> is_stream (put_string k v t ks) k' = is_stream ks k'"
  by (auto simp: view_defs put_string_def)

lemma view_del_key [simp]:
  "string_at (del_key k ks) k' = (if k' = k then None else string_at ks k')"
  "hash_at (del_key k ks) k' = (if k' = k then fmempty else hash_at ks k')"
  "zset_at (del_key k ks) k' = (if k' = k then [] else zset_at ks k')"
  "list_at (del_key k ks) k' = (if k' = k then [] else list_at ks k')"
  "stream_at (del_key k ks) k' = (if k' = k then [] else stream_at ks k')"
  "is_string (del_key k ks) k' = (k' = k \<or> is_string ks k')"
  "is_hash (del_key k ks) k' = (k' = k \<or> is_hash ks k')"
  "is_zset (del_key k ks) k' = (k' = k \<or> is_zset ks k')"
  "is_list (del_key k ks) k' = (k' = k \<or> is_list ks k')"
  "is_stream (del_key k ks) k' = (k' = k \<or> is_stream ks k')"
  "del_key k ks k = None"
  by (auto simp: view_defs del_key_def)

lemma view_put_ttl [simp]:
  "string_at (put_ttl k t ks) = string_at ks" "hash_at (put_ttl k t ks) = hash_at ks"
  "zset_at (put_ttl k t ks) = zset_at ks" "list_at (put_ttl k t ks) = list_at ks"
  "stream_at (put_ttl k t ks) = stream_at ks" "is_string (put_ttl k t ks) = is_string ks"
  "is_hash (put_ttl k t ks) = is_hash ks" "is_zset (put_ttl k t ks) = is_zset ks"
  "is_list (put_ttl k t ks) = is_list ks" "is_stream (put_ttl k t ks) = is_stream ks"
  "put_ttl k t ks k' = None \<longleftrightarrow> ks k' = None"
  by (auto simp: view_defs put_ttl_def fun_eq_iff split: option.splits)

lemma view_none [simp]:
  "ks k = None \<Longrightarrow> hash_at ks k = fmempty" "ks k = None \<Longrightarrow> zset_at ks k = []"
  "ks k = None \<Longrightarrow> string_at ks k = None" "ks k = None \<Longrightarrow> list_at ks k = []"
  by (simp_all add: view_defs)

lemma ttl_at_put [simp]:
  "k' \<noteq> k \<Longrightarrow> ttl_at (put_hash k h ks) k' = ttl_at ks k'" "k' \<noteq> k \<Longrightarrow> ttl_at (put_zset k z ks) k' = ttl_at ks k'"
  "k' \<noteq> k \<Longrightarrow> ttl_at (put_list k l ks) k' = ttl_at ks k'" "k' \<noteq> k \<Longrightarrow> ttl_at (put_stream k es ks) k' = ttl_at ks k'"
  "k' \<noteq> k \<Longrightarrow> ttl_at (put_string k v t ks) k' = ttl_at ks k'" "k' \<noteq> k \<Longrightarrow> ttl_at (del_key k ks) k' = ttl_at ks k'"
  "ttl_at (put_ttl k t ks) k' = (if k' = k then if ks k = None then None else t else ttl_at ks k')"
  "h \<noteq> fmempty \<Longrightarrow> ttl_at (put_hash k h ks) k = ttl_at ks k"
  "put_hash k h ks k = None \<longleftrightarrow> h = fmempty" "put_stream k es ks k \<noteq> None"
  by (auto simp: put_defs ttl_at_def split: option.splits)

lemma put_string_same [simp]:
  "put_string k v t ks k = Some (RString v, t)" "ttl_at (put_string k v t ks) k = t"
  by (simp_all add: put_string_def ttl_at_def)

end
