(* ===== verification/Redis_Effects.thy ===== *)
theory Redis_Effects
  imports Redis "HOL-Library.Multiset"
begin

text \<open>
  What each command of the reference server does, as equations over the views of
  \<^theory_text>\<open>Redis\<close>: under the hypothesis that the key is free or of the command's type, the
  reply and the new keyspace. They are simp rules (\<open>effects\<close>), so that a script or a handler
  evaluates by rewriting; the sorted-set facts the scripts rely on are here too.
\<close>

named_theorems effects
  \<open>reply and new keyspace of a command\<close>

section \<open>Sorted sets\<close>

definition zs_members :: "zset \<Rightarrow> string set" where
  "zs_members z = snd ` set z"

lemma zs_members_simps [simp]:
  "zs_members [] = {}"
  "zs_members (zs_del m z) = zs_members z - {m}"
  "zs_members (zs_put sc m z) = insert m (zs_members z)"
  by (auto simp: zs_members_def zs_del_def zs_put_def set_insort_key)

lemma set_zs_put [simp]: "set (zs_put sc m z) = insert (sc, m) (set (zs_del m z))"
  by (simp add: zs_put_def set_insort_key)

lemma zs_put_not_Nil [simp]: "zs_put sc m z \<noteq> []"
  by (simp add: zs_put_def)

lemma zs_ok_Nil [simp]: "zs_ok []"
  by (simp add: zs_ok_def)

lemma zs_ok_del [simp]: "zs_ok z \<Longrightarrow> zs_ok (zs_del m z)"
  unfolding zs_ok_def zs_del_def
  by (auto intro: sorted_wrt_filter distinct_map_filter)

lemma zs_ok_put [simp]:
  assumes "zs_ok z"
  shows "zs_ok (zs_put sc m z)"
proof -
  have d: "sorted (zs_del m z)" "distinct (map snd (zs_del m z))" "m \<notin> snd ` set (zs_del m z)"
    using zs_ok_del [OF assms, of m] by (auto simp: zs_ok_def zs_del_def)
  have "mset (map snd (zs_put sc m z)) = mset (m # map snd (zs_del m z))"
    by (simp add: zs_put_def)
  then have "distinct (map snd (zs_put sc m z)) = distinct (m # map snd (zs_del m z))"
    by (rule mset_eq_imp_distinct_iff)
  with d show ?thesis
    by (simp add: zs_ok_def zs_put_def sorted_insort)
qed

lemma zs_score_None_iff: "zs_score m z = None \<longleftrightarrow> m \<notin> zs_members z"
  by (force simp: zs_score_def zs_members_def find_None_iff)

lemma zs_score_eq_Some:
  assumes "zs_ok z"
  shows "zs_score m z = Some sc \<longleftrightarrow> (sc, m) \<in> set z"
  using assms unfolding zs_ok_def zs_score_def
  by (induction z) (auto split: if_splits simp: rev_image_eqI)

lemma zs_score_simps [simp]:
  "zs_score m [] = None"
  "zs_score m (zs_del m' z) = (if m = m' then None else zs_score m z)"
proof -
  show "zs_score m [] = None" by (simp add: zs_score_def)
  show "zs_score m (zs_del m' z) = (if m = m' then None else zs_score m z)"
    by (induction z) (auto simp: zs_score_def zs_del_def)
qed

lemma zs_score_put [simp]:
  assumes "zs_ok z"
  shows "zs_score m (zs_put sc m' z) = (if m = m' then Some sc else zs_score m z)"
proof (cases "zs_score m (zs_put sc m' z)")
  case None
  then have "m \<noteq> m'" "m \<notin> zs_members z"
    by (simp_all add: zs_score_None_iff)
  moreover from this have "zs_score m z = None" by (simp add: zs_score_None_iff)
  ultimately show ?thesis using None by simp
next
  case (Some sc')
  then have "(sc', m) \<in> set (zs_put sc m' z)"
    using assms by (simp add: zs_score_eq_Some)
  then have "m = m' \<and> sc' = sc \<or> m \<noteq> m' \<and> (sc', m) \<in> set z"
    by (auto simp: zs_del_def)
  then show ?thesis
    using Some zs_score_eq_Some [OF assms, of m sc'] by auto
qed

lemma zs_del_absent [simp]: "m \<notin> zs_members z \<Longrightarrow> zs_del m z = z"
  by (auto simp: zs_del_def zs_members_def filter_id_conv)

lemma set_zs_upto: "set (zs_upto mx z) = {m. \<exists>sc. (sc, m) \<in> set z \<and> sc \<le> mx}"
  by (force simp: zs_upto_def)

lemma distinct_zs_upto: "zs_ok z \<Longrightarrow> distinct (zs_upto mx z)"
  by (auto simp: zs_upto_def zs_ok_def distinct_map_filter)

lemma zs_upto_score: "zs_ok z \<Longrightarrow> m \<in> set (zs_upto mx z) \<longleftrightarrow> (\<exists>sc. zs_score m z = Some sc \<and> sc \<le> mx)"
  by (auto simp: set_zs_upto zs_score_eq_Some)

section \<open>Hashes\<close>

lemma hash_put_simps [simp]:
  "hash_put [] h = h" "hash_put ((f, v) # fvs) h = hash_put fvs (fmupd f v h)"
  by (simp_all add: hash_put_def)

lemma hash_del_simps [simp]: "hash_del [] h = h" "hash_del (f # fs) h = hash_del fs (fmdrop f h)"
  by (simp_all add: hash_del_def)

lemma hash_del_empty [simp]: "hash_del fs fmempty = fmempty"
  by (induction fs) simp_all

lemma hash_put_lookup:
  "fmlookup (hash_put fvs h) f = (case map_of (rev fvs) f of None \<Rightarrow> fmlookup h f | Some v \<Rightarrow> Some v)"
  by (induction fvs arbitrary: h) (auto simp: map_add_def split: option.splits)

lemma hash_del_lookup: "fmlookup (hash_del fs h) f = (if f \<in> set fs then None else fmlookup h f)"
  by (induction fs arbitrary: h) auto

lemma fmempty_iff: "h = fmempty \<longleftrightarrow> (\<forall>f. fmlookup h f = None)"
  by (metis fmap_ext fmempty_lookup)

lemma fmupd_not_empty [simp]: "fmupd k v h \<noteq> fmempty"
  by (metis fmupd_lookup fmempty_lookup option.distinct(1))

lemma hash_put_not_empty [simp]: "hash_put fvs h = fmempty \<longleftrightarrow> fvs = [] \<and> h = fmempty"
proof (induction fvs arbitrary: h)
  case (Cons p fvs)
  then show ?case by (cases p) simp
qed simp

section \<open>Effects of the commands\<close>

lemma ks_hset_effect [effects]:
  "is_hash ks k \<Longrightarrow> fvs \<noteq> [] \<Longrightarrow>
   ks_hset k fvs ks = (Ok (), put_hash k (hash_put fvs (hash_at ks k)) ks)"
  by (auto simp: ks_hset_def write_hash_def view_defs put_hash_def split: option.splits rvalue.splits)

lemma ks_hdel_effect [effects]:
  "is_hash ks k \<Longrightarrow> ks_hdel k fs ks = (Ok (), put_hash k (hash_del fs (hash_at ks k)) ks)"
  by (auto simp: ks_hdel_def write_hash_def view_defs put_hash_def split: option.splits rvalue.splits)

lemma ks_hget_effect [effects]:
  "is_hash ks k \<Longrightarrow> ks_hget k f ks = (Ok (fmlookup (hash_at ks k) f), ks)"
  by (auto simp: ks_hget_def read_hash_def view_defs split: option.splits rvalue.splits)

lemma ks_hgetall_effect [effects]:
  "is_hash ks k \<Longrightarrow> ks_hgetall k ks = (Ok (hash_at ks k), ks)"
  by (auto simp: ks_hgetall_def read_hash_def view_defs split: option.splits rvalue.splits)

lemma write_hash_effect:
  "is_hash ks k \<Longrightarrow> f fmempty \<noteq> fmempty \<Longrightarrow>
   write_hash k f ks = (Ok (), put_hash k (f (hash_at ks k)) ks)"
  by (auto simp: write_hash_def view_defs put_hash_def split: option.splits rvalue.splits)

text \<open>The integer a counter field holds; a missing field counts as 0.\<close>

definition hash_int :: "rhash \<Rightarrow> string \<Rightarrow> int option" where
  "hash_int h f = (case fmlookup h f of None \<Rightarrow> Some 0 | Some s \<Rightarrow> redis_int s)"

lemma redis_int_show [simp]: "i64_ok n \<Longrightarrow> redis_int (show_int n) = Some n"
  by (simp add: redis_int_def)

lemma ks_hincrby_effect [effects]:
  assumes "is_hash ks k" "hash_int (hash_at ks k) f = Some n" "i64_ok (n + d)"
  shows "ks_hincrby k f d ks = (Ok (n + d), put_hash k (fmupd f (show_int (n + d)) (hash_at ks k)) ks)"
proof -
  have "read_hash k (\<lambda>h. fmlookup h f) ks = (Ok (fmlookup (hash_at ks k) f), ks)"
    using assms(1) by (auto simp: read_hash_def view_defs split: option.splits rvalue.splits)
  then show ?thesis
    using assms by (auto simp: ks_hincrby_def andThen_def ret_def hash_int_def write_hash_effect
        split: option.splits)
qed

lemma ks_zadd_effect [effects]:
  "is_zset ks k \<Longrightarrow> ks_zadd k sc m ks = (Ok (), put_zset k (zs_put sc m (zset_at ks k)) ks)"
  by (auto simp: ks_zadd_def write_zset_def view_defs put_zset_def split: option.splits rvalue.splits)

lemma read_zset_effect [effects]:
  "is_zset ks k \<Longrightarrow> read_zset k f ks = (Ok (f (zset_at ks k)), ks)"
  by (auto simp: read_zset_def view_defs split: option.splits rvalue.splits)

lemma write_zset_effect:
  "is_zset ks k \<Longrightarrow> f [] = [] \<Longrightarrow> write_zset k f ks = (Ok (), put_zset k (f (zset_at ks k)) ks)"
  by (auto simp: write_zset_def view_defs put_zset_def split: option.splits rvalue.splits)

lemma put_zset_same: "is_zset ks k \<Longrightarrow> put_zset k (zset_at ks k) ks = ks"
  by (rule ext) (auto simp: view_defs put_zset_def split: option.splits rvalue.splits)

lemma ks_zrem_effect [effects]:
  assumes "is_zset ks k"
  shows "ks_zrem k m ks = (Ok (if m \<in> zs_members (zset_at ks k) then 1 else 0),
           put_zset k (zs_del m (zset_at ks k)) ks)"
proof (cases "m \<in> zs_members (zset_at ks k)")
  case True
  then obtain sc where "zs_score m (zset_at ks k) = Some sc"
    using zs_score_None_iff by fastforce
  with True assms show ?thesis
    by (simp add: ks_zrem_def andThen_def ret_def read_zset_effect write_zset_effect zs_del_def)
next
  case False
  with assms show ?thesis
    by (simp add: ks_zrem_def andThen_def ret_def read_zset_effect zs_score_None_iff [THEN iffD2] put_zset_same)
qed

lemma ks_zscore_effect [effects]:
  "is_zset ks k \<Longrightarrow> ks_zscore k m ks = (Ok (zs_score m (zset_at ks k)), ks)"
  by (simp add: ks_zscore_def read_zset_effect)

lemma ks_zrangebyscore_effect [effects]:
  "is_zset ks k \<Longrightarrow> ks_zrangebyscore k mx c ks = (Ok (take c (zs_upto mx (zset_at ks k))), ks)"
  by (simp add: ks_zrangebyscore_def read_zset_effect)

lemma ks_exists_effect [effects]: "ks_exists k ks = (Ok (ks k \<noteq> None), ks)"
  by (simp add: ks_exists_def)

lemma ks_del_effect [effects]: "ks_del k ks = (Ok (if ks k = None then 0 else 1), del_key k ks)"
  by (auto simp: ks_del_def del_key_def split: option.splits)

lemma ks_get_effect [effects]: "is_string ks k \<Longrightarrow> ks_get k ks = (Ok (string_at ks k), ks)"
  by (auto simp: ks_get_def view_defs split: option.splits rvalue.splits)

lemma ks_set_effect [effects]:
  "expiry_ms e = Some t \<Longrightarrow> ks_set k v nx e ks =
     (if nx \<and> ks k \<noteq> None then (Ok False, ks) else (Ok True, put_string k v t ks))"
  by (simp add: ks_set_def put_string_def)

lemma ks_set_invalid [effects]: "expiry_ms e = None \<Longrightarrow> ks_set k v nx e ks = (Err invalid_expire, ks)"
  by (simp add: ks_set_def)

lemma ks_pexpire_effect [effects]:
  "0 < n \<Longrightarrow> ks_pexpire k n ks = (Ok (ks k \<noteq> None), put_ttl k (Some n) ks)"
  by (auto simp: ks_pexpire_def put_ttl_def split: option.splits)

lemma ks_expire_effect [effects]:
  "0 < n \<Longrightarrow> i64_ok (n * 1000) \<Longrightarrow>
   ks_expire k n ks = (Ok (ks k \<noteq> None), put_ttl k (Some (n * 1000)) ks)"
  by (simp add: ks_expire_def ks_pexpire_effect)

lemma ks_persist_effect [effects]:
  "ks_persist k ks = (Ok (ttl_at ks k \<noteq> None), put_ttl k None ks)"
  by (auto simp: ks_persist_def put_ttl_def view_defs fun_eq_iff split: option.splits)

lemma ks_ttl_effect [effects]:
  "ks_ttl k ks = (Ok (case ks k of None \<Rightarrow> -2 | Some _ \<Rightarrow>
     (case ttl_at ks k of None \<Rightarrow> -1 | Some t \<Rightarrow> (t + 500) div 1000)), ks)"
  by (auto simp: ks_ttl_def ttl_at_def split: option.splits)

lemma ks_lpush_effect [effects]:
  "is_list ks k \<Longrightarrow> ks_lpush k x ks = (Ok (), put_list k (x # list_at ks k) ks)"
  by (auto simp: ks_lpush_def write_list_def view_defs put_list_def split: option.splits rvalue.splits)

lemma ks_xadd_effect [effects]:
  "is_stream ks k \<Longrightarrow> ks_xadd k fvs ks = (Ok (), put_stream k (stream_at ks k @ [fvs]) ks)"
  by (auto simp: ks_xadd_def view_defs put_stream_def split: option.splits rvalue.splits)

lemma read_list_effect [effects]:
  "is_list ks k \<Longrightarrow> read_list k f ks = (Ok (f (list_at ks k)), ks)"
  by (auto simp: read_list_def view_defs split: option.splits rvalue.splits)

lemma ks_lrem_effect [effects]:
  assumes "is_list ks k"
  shows "ks_lrem k x ks = (Ok (if x \<in> set (list_at ks k) then 1 else 0),
           put_list k (remove1 x (list_at ks k)) ks)"
proof -
  have same: "put_list k (list_at ks k) ks = ks"
    using assms by (intro ext) (auto simp: view_defs put_list_def split: option.splits rvalue.splits)
  have "write_list k (remove1 x) ks = (Ok (), put_list k (remove1 x (list_at ks k)) ks)"
    using assms by (auto simp: write_list_def view_defs put_list_def split: option.splits rvalue.splits)
  then show ?thesis
    using assms same by (auto simp: ks_lrem_def andThen_def ret_def read_list_effect remove1_idem)
qed

end
