(* ===== verification/Keys.thy ===== *)
theory Keys
  imports Prelude "HOL-Library.Sublist"
begin

text \<open>
  The names of the Redis keys (\<open>constants.rs\<close>, \<open>defaults.rs\<close>, the \<open>format_...\<close> helpers
  of \<open>store.rs\<close> and \<open>producer/src/lib.rs\<close>) and queue-name normalisation
  (\<open>config/src/queue.rs\<close>), with the facts that keys of different kinds never clash and
  that keys of one kind are as distinct as their identifiers.
\<close>

section \<open>String primitives\<close>

text \<open>\<open>str::starts_with\<close> and \<open>str::strip_prefix\<close>.\<close>

definition starts_with :: "string \<Rightarrow> string \<Rightarrow> bool" where
  "starts_with s p \<longleftrightarrow> take (length p) s = p"

definition strip_prefix :: "string \<Rightarrow> string \<Rightarrow> string option" where
  "strip_prefix s p = (if starts_with s p then Some (drop (length p) s) else None)"

text \<open>\<open>str::trim_start_matches(prefix)\<close> removes the prefix as often as it stands there.\<close>

function trim_start_matches :: "string \<Rightarrow> string \<Rightarrow> string" where
  "trim_start_matches p s =
     (if p \<noteq> [] \<and> starts_with s p then trim_start_matches p (drop (length p) s) else s)"
  by pat_completeness auto
termination
  by (relation "measure (\<lambda>(p, s). length s)") (auto simp: starts_with_def intro!: diff_less)

declare trim_start_matches.simps [simp del]

lemma starts_with_append [simp]: "starts_with (p @ s) p"
  by (simp add: starts_with_def)

lemma strip_prefix_append [simp]: "strip_prefix (p @ s) p = Some s"
  by (simp add: strip_prefix_def)

lemma starts_with_iff: "starts_with s p \<longleftrightarrow> (\<exists>t. s = p @ t)"
  by (metis append_eq_conv_conj starts_with_def)

lemma strip_prefix_Some_iff: "strip_prefix s p = Some t \<longleftrightarrow> s = p @ t"
  by (auto simp: strip_prefix_def starts_with_iff)

section \<open>Constants\<close>

definition JOB_KEY_PREFIX :: string where "JOB_KEY_PREFIX = ''rrq:job:''"
definition JOB_EVENTS_KEY_PREFIX :: string where "JOB_EVENTS_KEY_PREFIX = ''rrq:events:job:''"
definition QUEUE_KEY_PREFIX :: string where "QUEUE_KEY_PREFIX = ''rrq:queue:''"
definition DLQ_KEY_PREFIX :: string where "DLQ_KEY_PREFIX = ''rrq:dlq:''"
definition ACTIVE_JOBS_PREFIX :: string where "ACTIVE_JOBS_PREFIX = ''rrq:active:jobs:''"
definition LOCK_KEY_PREFIX :: string where "LOCK_KEY_PREFIX = ''rrq:lock:job:''"
definition UNIQUE_JOB_LOCK_PREFIX :: string where "UNIQUE_JOB_LOCK_PREFIX = ''rrq:lock:unique:''"
definition HEALTH_KEY_PREFIX :: string where "HEALTH_KEY_PREFIX = ''rrq:health:worker:''"

definition DEFAULT_DLQ_RESULT_TTL_SECONDS :: int where
  "DEFAULT_DLQ_RESULT_TTL_SECONDS = 60 * 60 * 24 * 7"

lemmas key_prefix_defs = JOB_KEY_PREFIX_def JOB_EVENTS_KEY_PREFIX_def QUEUE_KEY_PREFIX_def
  DLQ_KEY_PREFIX_def ACTIVE_JOBS_PREFIX_def LOCK_KEY_PREFIX_def UNIQUE_JOB_LOCK_PREFIX_def
  HEALTH_KEY_PREFIX_def

section \<open>Key formats\<close>

definition format_job_key :: "string \<Rightarrow> string" where
  "format_job_key job_id = JOB_KEY_PREFIX @ job_id"

definition format_job_events_key :: "string \<Rightarrow> string" where
  "format_job_events_key job_id = JOB_EVENTS_KEY_PREFIX @ job_id"

definition active_jobs_key :: "string \<Rightarrow> string" where
  "active_jobs_key worker_id = ACTIVE_JOBS_PREFIX @ worker_id"

definition format_lock_key :: "string \<Rightarrow> string" where
  "format_lock_key job_id = LOCK_KEY_PREFIX @ job_id"

definition format_unique_key :: "string \<Rightarrow> string" where
  "format_unique_key unique_key = UNIQUE_JOB_LOCK_PREFIX @ unique_key"

definition format_health_key :: "string \<Rightarrow> string" where
  "format_health_key worker_id = HEALTH_KEY_PREFIX @ worker_id"

text \<open>A queue or DLQ name may be given with its prefix or bare.\<close>

definition format_queue_key :: "string \<Rightarrow> string" where
  "format_queue_key queue_name =
     (if starts_with queue_name QUEUE_KEY_PREFIX then queue_name else QUEUE_KEY_PREFIX @ queue_name)"

definition format_dlq_key :: "string \<Rightarrow> string" where
  "format_dlq_key dlq_name =
     (if starts_with dlq_name DLQ_KEY_PREFIX then dlq_name else DLQ_KEY_PREFIX @ dlq_name)"

definition normalize_queue_name :: "string \<Rightarrow> string" where
  "normalize_queue_name queue_name =
     (if starts_with queue_name QUEUE_KEY_PREFIX then queue_name else QUEUE_KEY_PREFIX @ queue_name)"

lemmas key_defs = format_job_key_def format_job_events_key_def active_jobs_key_def
  format_lock_key_def format_unique_key_def format_health_key_def

lemma format_queue_key_normalize: "format_queue_key q = normalize_queue_name q"
  by (simp add: format_queue_key_def normalize_queue_name_def)

lemma format_queue_key_form: "\<exists>q'. format_queue_key q = ''rrq:queue:'' @ q'"
  by (auto simp: format_queue_key_def starts_with_iff QUEUE_KEY_PREFIX_def)

lemma format_dlq_key_form: "\<exists>q'. format_dlq_key q = ''rrq:dlq:'' @ q'"
  by (auto simp: format_dlq_key_def starts_with_iff DLQ_KEY_PREFIX_def)

lemma normalize_idem [simp]: "normalize_queue_name (normalize_queue_name q) = normalize_queue_name q"
  by (simp add: normalize_queue_name_def)

section \<open>Keys do not clash\<close>

text \<open>
  The kind of a key is read off its first characters; two keys of different kinds differ.
\<close>

lemma key_inj [simp]:
  "format_job_key a = format_job_key b \<longleftrightarrow> a = b"
  "format_job_events_key a = format_job_events_key b \<longleftrightarrow> a = b"
  "active_jobs_key a = active_jobs_key b \<longleftrightarrow> a = b"
  "format_lock_key a = format_lock_key b \<longleftrightarrow> a = b"
  "format_unique_key a = format_unique_key b \<longleftrightarrow> a = b"
  "format_health_key a = format_health_key b \<longleftrightarrow> a = b"
  by (simp_all add: key_defs)

lemma key_distinct_job [simp]:
  "format_job_key a \<noteq> format_job_events_key b" "format_job_events_key b \<noteq> format_job_key a"
  "format_job_key a \<noteq> active_jobs_key b" "active_jobs_key b \<noteq> format_job_key a"
  "format_job_key a \<noteq> format_lock_key b" "format_lock_key b \<noteq> format_job_key a"
  "format_job_key a \<noteq> format_unique_key b" "format_unique_key b \<noteq> format_job_key a"
  "format_job_key a \<noteq> format_health_key b" "format_health_key b \<noteq> format_job_key a"
  by (simp_all add: key_defs key_prefix_defs)

lemma key_distinct_rest [simp]:
  "format_job_events_key a \<noteq> active_jobs_key b" "active_jobs_key b \<noteq> format_job_events_key a"
  "format_job_events_key a \<noteq> format_lock_key b" "format_lock_key b \<noteq> format_job_events_key a"
  "format_job_events_key a \<noteq> format_unique_key b" "format_unique_key b \<noteq> format_job_events_key a"
  "format_job_events_key a \<noteq> format_health_key b" "format_health_key b \<noteq> format_job_events_key a"
  "active_jobs_key a \<noteq> format_lock_key b" "format_lock_key b \<noteq> active_jobs_key a"
  "active_jobs_key a \<noteq> format_unique_key b" "format_unique_key b \<noteq> active_jobs_key a"
  "active_jobs_key a \<noteq> format_health_key b" "format_health_key b \<noteq> active_jobs_key a"
  "format_lock_key a \<noteq> format_unique_key b" "format_unique_key b \<noteq> format_lock_key a"
  "format_lock_key a \<noteq> format_health_key b" "format_health_key b \<noteq> format_lock_key a"
  "format_unique_key a \<noteq> format_health_key b" "format_health_key b \<noteq> format_unique_key a"
  by (simp_all add: key_defs key_prefix_defs)

lemma key_distinct_queue [simp]:
  "format_queue_key q \<noteq> format_job_key b" "format_job_key b \<noteq> format_queue_key q"
  "format_queue_key q \<noteq> format_job_events_key b" "format_job_events_key b \<noteq> format_queue_key q"
  "format_queue_key q \<noteq> active_jobs_key b" "active_jobs_key b \<noteq> format_queue_key q"
  "format_queue_key q \<noteq> format_lock_key b" "format_lock_key b \<noteq> format_queue_key q"
  "format_queue_key q \<noteq> format_unique_key b" "format_unique_key b \<noteq> format_queue_key q"
  "format_queue_key q \<noteq> format_health_key b" "format_health_key b \<noteq> format_queue_key q"
  using format_queue_key_form [of q] by (auto simp: key_defs key_prefix_defs)

lemma key_distinct_dlq [simp]:
  "format_dlq_key q \<noteq> format_job_key b" "format_job_key b \<noteq> format_dlq_key q"
  "format_dlq_key q \<noteq> format_job_events_key b" "format_job_events_key b \<noteq> format_dlq_key q"
  "format_dlq_key q \<noteq> active_jobs_key b" "active_jobs_key b \<noteq> format_dlq_key q"
  "format_dlq_key q \<noteq> format_lock_key b" "format_lock_key b \<noteq> format_dlq_key q"
  "format_dlq_key q \<noteq> format_unique_key b" "format_unique_key b \<noteq> format_dlq_key q"
  "format_dlq_key q \<noteq> format_health_key b" "format_health_key b \<noteq> format_dlq_key q"
  "format_dlq_key q \<noteq> format_queue_key q'" "format_queue_key q' \<noteq> format_dlq_key q"
  using format_dlq_key_form [of q] format_queue_key_form [of q']
  by (auto simp: key_defs key_prefix_defs)

end
