(* ===== verification/Codec.thy ===== *)
theory Codec
  imports Prelude
begin

text \<open>
  The data formats of third-party crates: JSON text (\<open>serde_json\<close>) and RFC 3339 timestamps
  (\<open>chrono\<close>). They are a parameter (\<open>codec\<close>) with their documented round trips as an
  interface (\<open>codec_laws\<close>), interpreted on a simple codec that computes. A
  \<open>DateTime<Utc>\<close> is its number of nanoseconds since the epoch.
\<close>

section \<open>Values\<close>

datatype json =
    JNull
  | JBool bool
  | JInt int
  | JFloat string \<comment> \<open>any other number, by its text\<close>
  | JStr string
  | JArr "json list"
  | JObj "(string \<times> json) list"

type_synonym params = "(string \<times> json) list" \<comment> \<open>\<open>serde_json::Map\<close>\<close>
type_synonym strmap = "(string \<times> string) list" \<comment> \<open>\<open>HashMap<String, String>\<close>\<close>
type_synonym datetime = int

text \<open>
  A value that \<open>serde_json\<close> prints and reads back unchanged: objects have distinct keys
  (they are maps), and numbers are integers (floats may lose a last digit).
\<close>

fun json_ok :: "json \<Rightarrow> bool" where
  "json_ok (JFloat _) = False"
| "json_ok (JArr vs) = list_all json_ok vs"
| "json_ok (JObj kvs) = (distinct (map fst kvs) \<and> list_all (\<lambda>kv. json_ok (snd kv)) kvs)"
| "json_ok (JInt n) = i64_ok n"
| "json_ok _ = True"

text \<open>
  What \<open>serde_json\<close> reads back of any value it prints: the same, but for the text of a float, which \<open>f\<close> gives. A value
  has distinct keys and integers that a \<open>Number\<close> holds; and it is read only if it is nested less than 128 deep.
\<close>

fun json_sent :: "json \<Rightarrow> bool" where
  "json_sent (JArr vs) = list_all json_sent vs"
| "json_sent (JObj kvs) = (distinct (map fst kvs) \<and> list_all (\<lambda>kv. json_sent (snd kv)) kvs)"
| "json_sent (JInt n) = (- 9223372036854775808 \<le> n \<and> n < 18446744073709551616)"
| "json_sent _ = True"

fun nests :: "nat \<Rightarrow> json \<Rightarrow> bool" where
  "nests n (JArr vs) = (n \<noteq> 0 \<and> (\<forall>v \<in> set vs. nests (n - 1) v))"
| "nests n (JObj kvs) = (n \<noteq> 0 \<and> (\<forall>kv \<in> set kvs. nests (n - 1) (snd kv)))"
| "nests n _ = True"

fun reread :: "(string \<Rightarrow> string) \<Rightarrow> json \<Rightarrow> json" where
  "reread f (JFloat s) = JFloat (f s)"
| "reread f (JArr vs) = JArr (map (reread f) vs)"
| "reread f (JObj kvs) = JObj (map (\<lambda>kv. (fst kv, reread f (snd kv))) kvs)"
| "reread f v = v"

lemma json_ok_reread: "json_ok v \<Longrightarrow> reread f v = v"
  by (induction v) (force simp: list_all_iff intro!: map_idI)+

lemma json_ok_sent: "json_ok v \<Longrightarrow> json_sent v"
  by (induction v) (force simp: list_all_iff i64_ok_def)+

lemma reread_null [simp]: "reread f v = JNull \<longleftrightarrow> v = JNull"
  by (cases v) auto

definition json_of_strmap :: "strmap \<Rightarrow> json" where
  "json_of_strmap m = JObj (map (\<lambda>(k, v). (k, JStr v)) m)"

text \<open>Reading a JSON value as \<open>Map<String, Value>\<close> and as \<open>HashMap<String, String>\<close>.\<close>

definition params_of_json :: "json \<Rightarrow> params option" where
  "params_of_json v = (case v of JObj kvs \<Rightarrow> Some kvs | _ \<Rightarrow> None)"

fun strs_of_json :: "(string \<times> json) list \<Rightarrow> strmap option" where
  "strs_of_json [] = Some []"
| "strs_of_json ((k, JStr v) # kvs) = map_option ((#) (k, v)) (strs_of_json kvs)"
| "strs_of_json (_ # kvs) = None"

definition strmap_of_json :: "json \<Rightarrow> strmap option" where
  "strmap_of_json v = (case v of JObj kvs \<Rightarrow> strs_of_json kvs | _ \<Rightarrow> None)"

lemma strmap_of_json_of_strmap [simp]: "strmap_of_json (json_of_strmap m) = Some m"
  by (induction m) (auto simp: strmap_of_json_def json_of_strmap_def)

lemma json_ok_strmap [simp]: "json_ok (json_of_strmap m) \<longleftrightarrow> distinct (map fst m)"
  by (auto simp: json_of_strmap_def list_all_iff comp_def split_def)

section \<open>Timestamps\<close>

definition timestamp_millis :: "datetime \<Rightarrow> int" where
  "timestamp_millis t = t div 1000000"

definition timestamp_secs :: "datetime \<Rightarrow> int" where
  "timestamp_secs t = t div 1000000000"

definition secs :: "int \<Rightarrow> int" where
  "secs n = n * 1000000000" \<comment> \<open>\<open>Duration::seconds(n)\<close> in nanoseconds\<close>

section \<open>The codec as a parameter\<close>

record codec =
  json_text :: "json \<Rightarrow> string"
  json_parse :: "string \<Rightarrow> json option"
  to_rfc3339 :: "datetime \<Rightarrow> string"
  from_rfc3339 :: "string \<Rightarrow> datetime option"
  time_text :: "datetime \<Rightarrow> string" \<comment> \<open>how \<open>chrono\<close> serialises a \<open>DateTime<Utc>\<close>\<close>
  time_parse :: "string \<Rightarrow> datetime option"
  float_text :: "rat \<Rightarrow> string"
  float_parse :: "string \<Rightarrow> rat option"
  float_reread :: "string \<Rightarrow> string" \<comment> \<open>a number that has been printed and read, printed again\<close>

definition ascii_lower :: "char \<Rightarrow> char" where
  "ascii_lower c = (let k = of_char c :: nat in if 65 \<le> k \<and> k \<le> 90 then char_of (k + 32) else c)"

text \<open>\<open>str::eq_ignore_ascii_case\<close>.\<close>

definition eq_ignore_case :: "string \<Rightarrow> string \<Rightarrow> bool" where
  "eq_ignore_case s t \<longleftrightarrow> map ascii_lower s = map ascii_lower t"

locale codec_laws =
  fixes C :: codec
  assumes json_roundtrip: "json_ok v \<Longrightarrow> json_parse C (json_text C v) = Some v"
    and json_reread: "json_sent v \<Longrightarrow> nests 127 v \<Longrightarrow> json_parse C (json_text C v) = Some (reread (float_reread C) v)"
    and float_read: "float_parse C (float_reread C (float_text C r)) \<noteq> None"
    and json_null: "json_text C JNull = ''null''"
    and json_null_only: "eq_ignore_case (json_text C v) ''null'' \<Longrightarrow> v = JNull"
    and json_not_empty: "json_text C v \<noteq> []"
    and rfc3339_roundtrip: "from_rfc3339 C (to_rfc3339 C t) = Some t"
    and time_roundtrip: "time_parse C (time_text C t) = Some t"

section \<open>A codec that computes\<close>

text \<open>
  Values in reverse Polish form with explicit lengths, read back by a stack machine; the
  fuel is the length of the text, since every token takes at least one character.
\<close>

fun enc :: "json \<Rightarrow> string" where
  "enc JNull = ''null''"
| "enc (JBool b) = (if b then ''t'' else ''f'')"
| "enc (JInt i) = CHR ''i'' # show_int i @ '';''"
| "enc (JFloat s) = CHR ''d'' # show_nat (length s) @ '';'' @ s"
| "enc (JStr s) = CHR ''s'' # show_nat (length s) @ '';'' @ s"
| "enc (JArr vs) = concat (map enc vs) @ CHR ''a'' # show_nat (length vs) @ '';''"
| "enc (JObj kvs) = concat (map (\<lambda>kv. enc (snd kv)) kvs)
     @ concat (map (\<lambda>kv. CHR ''s'' # show_nat (length (fst kv)) @ '';'' @ fst kv) kvs)
     @ CHR ''o'' # show_nat (length kvs) @ '';''"

definition token_num :: "string \<Rightarrow> string" where
  "token_num cs = takeWhile (\<lambda>c. c \<noteq> CHR '';'') cs"

definition token_rest :: "string \<Rightarrow> string" where
  "token_rest cs = tl (dropWhile (\<lambda>c. c \<noteq> CHR '';'') cs)"

definition str_of :: "json \<Rightarrow> string" where
  "str_of v = (case v of JStr s \<Rightarrow> s | _ \<Rightarrow> [])"

definition int_of_text :: "string \<Rightarrow> int option" where
  "int_of_text s = (case s of
      c # cs \<Rightarrow> if c = CHR ''-'' then map_option (\<lambda>v. - int v) (digits_val 0 cs)
                else map_option int (digits_val 0 s)
    | [] \<Rightarrow> None)"

fun dec :: "nat \<Rightarrow> string \<Rightarrow> json list \<Rightarrow> json option" where
  "dec 0 cs st = None"
| "dec (Suc n) [] st = (case st of [v] \<Rightarrow> Some v | _ \<Rightarrow> None)"
| "dec (Suc n) (c # cs) st =
     (if c = CHR ''n'' then dec n (drop 3 cs) (JNull # st)
      else if c = CHR ''t'' then dec n cs (JBool True # st)
      else if c = CHR ''f'' then dec n cs (JBool False # st)
      else if c = CHR ''i'' then
        (case int_of_text (token_num cs) of None \<Rightarrow> None
         | Some i \<Rightarrow> dec n (token_rest cs) (JInt i # st))
      else (case digits_val 0 (token_num cs) of None \<Rightarrow> None
        | Some k \<Rightarrow>
            let r = token_rest cs in
            if c = CHR ''d'' then dec n (drop k r) (JFloat (take k r) # st)
            else if c = CHR ''s'' then dec n (drop k r) (JStr (take k r) # st)
            else if c = CHR ''a'' then dec n r (JArr (rev (take k st)) # drop k st)
            else if c = CHR ''o'' then
              dec n r (JObj (zip (map str_of (rev (take k st))) (rev (take k (drop k st)))) # drop (2 * k) st)
            else None))"

definition simple_codec :: codec where
  "simple_codec = \<lparr> json_text = enc, json_parse = (\<lambda>s. dec (Suc (length s)) s []),
     to_rfc3339 = show_int, from_rfc3339 = int_of_text, time_text = show_int, time_parse = int_of_text,
     float_text = (\<lambda>x. show_int (floor x)), float_parse = (\<lambda>s. map_option of_int (int_of_text s)),
     float_reread = (\<lambda>s. s) \<rparr>"

subsection \<open>It meets the laws\<close>

fun ntok :: "json \<Rightarrow> nat" where
  "ntok (JArr vs) = sum_list (map ntok vs) + 1"
| "ntok (JObj kvs) = sum_list (map (\<lambda>kv. ntok (snd kv)) kvs) + length kvs + 1"
| "ntok _ = 1"

lemma show_nat_digits: "c \<in> set (show_nat n) \<Longrightarrow> \<exists>k < 10. c = digit k"
proof (induction n rule: show_nat.induct)
  case (1 n)
  then show ?case
    by (cases "n < 10") (auto simp: show_nat.simps [of n] intro: exI [of _ "n mod 10"])
qed

lemma show_nat_no_semicolon [simp]: "c \<in> set (show_nat n) \<Longrightarrow> c \<noteq> CHR '';''"
proof -
  assume "c \<in> set (show_nat n)"
  then obtain k where "k < 10" "c = digit k" using show_nat_digits by blast
  then have "of_char c \<noteq> (of_char CHR '';'' :: nat)"
    by (simp add: of_char_digit)
  then show ?thesis by auto
qed

lemma token_show [simp]:
  "token_num (show_nat n @ CHR '';'' # r) = show_nat n"
  "token_rest (show_nat n @ CHR '';'' # r) = r"
  by (simp_all add: token_num_def token_rest_def takeWhile_append2 dropWhile_append2)

lemma show_int_no_semicolon: "c \<in> set (show_int i) \<Longrightarrow> c \<noteq> CHR '';''"
  by (auto simp: show_int_def split: if_splits dest: show_nat_no_semicolon)

lemma token_show_int [simp]:
  "token_num (show_int i @ CHR '';'' # r) = show_int i"
  "token_rest (show_int i @ CHR '';'' # r) = r"
  by (simp_all add: token_num_def token_rest_def takeWhile_append2 dropWhile_append2 show_int_no_semicolon)

lemma dec_keys:
  "dec (length ks + n) (concat (map (\<lambda>kv. CHR ''s'' # show_nat (length (fst kv)) @ '';'' @ fst kv) ks) @ rest) st
   = dec n rest (rev (map (\<lambda>kv. JStr (fst kv)) ks) @ st)"
  by (induction ks arbitrary: st) (simp_all add: Let_def)

lemma zip_fst_snd: "zip (map fst kvs) (map snd kvs) = kvs"
  by (induction kvs) auto

lemma str_of_keys: "map str_of (map (\<lambda>kv. JStr (fst kv)) kvs) = map fst kvs"
  by (induction kvs) (simp_all add: str_of_def)

lemma dec_list:
  assumes "\<And>v n st rest. v \<in> set vs \<Longrightarrow> dec (ntok v + n) (enc v @ rest) st = dec n rest (v # st)"
  shows "dec (sum_list (map ntok vs) + n) (concat (map enc vs) @ rest) st = dec n rest (rev vs @ st)"
  using assms
proof (induction vs arbitrary: n st)
  case (Cons v vs)
  have "dec (ntok v + (sum_list (map ntok vs) + n)) (enc v @ concat (map enc vs) @ rest) st
      = dec (sum_list (map ntok vs) + n) (concat (map enc vs) @ rest) (v # st)"
    by (rule Cons.prems) simp
  with Cons show ?case by (simp add: add.assoc)
qed simp

lemma int_of_text_show_int [simp]: "int_of_text (show_int t) = Some t"
proof (cases "t < 0")
  case True
  then show ?thesis by (simp add: int_of_text_def show_int_def)
next
  case False
  obtain k cs where k: "k < 10" "show_nat (nat t) = digit k # cs"
    using show_nat_hd by blast
  have "digits_val 0 (digit k # cs) = Some (nat t)"
    by (metis k(2) digits_val_show_nat)
  with False k show ?thesis
    by (simp add: int_of_text_def show_int_def del: digits_val.simps)
qed

lemma dec_enc: "json_sent v \<Longrightarrow> dec (ntok v + n) (enc v @ rest) st = dec n rest (v # st)"
proof (induction v arbitrary: n rest st)
  case (JArr vs)
  have "dec (sum_list (map ntok vs) + Suc n) (concat (map enc vs) @ CHR ''a'' # show_nat (length vs) @ CHR '';'' # rest) st
     = dec (Suc n) (CHR ''a'' # show_nat (length vs) @ CHR '';'' # rest) (rev vs @ st)"
    using JArr by (intro dec_list) (auto simp: list_all_iff)
  then show ?case by (simp add: Let_def)
next
  case (JObj kvs)
  let ?ks = "concat (map (\<lambda>kv. CHR ''s'' # show_nat (length (fst kv)) @ '';'' @ fst kv) kvs)"
  let ?o = "CHR ''o'' # show_nat (length kvs) @ CHR '';'' # rest"
  have "dec (sum_list (map ntok (map snd kvs)) + (length kvs + Suc n)) (concat (map enc (map snd kvs)) @ ?ks @ ?o) st
     = dec (length kvs + Suc n) (?ks @ ?o) (rev (map snd kvs) @ st)"
    using JObj by (intro dec_list) (force simp: list_all_iff)
  also have "\<dots> = dec (Suc n) ?o (rev (map (\<lambda>kv. JStr (fst kv)) kvs) @ rev (map snd kvs) @ st)"
    by (rule dec_keys)
  also have "\<dots> = dec n rest (JObj kvs # st)"
    by (simp add: Let_def zip_fst_snd str_of_keys [simplified] comp_def str_of_def)
  finally show ?case by (simp add: comp_def add.assoc)
qed (simp_all add: Let_def)

lemma ntok_le: "ntok v \<le> length (enc v)"
proof (induction v)
  case (JArr vs)
  then have "sum_list (map ntok vs) \<le> sum_list (map (length \<circ> enc) vs)"
    by (intro sum_list_mono) simp
  then show ?case by (simp add: length_concat comp_def)
next
  case (JObj kvs)
  have "sum_list (map (\<lambda>kv. ntok (snd kv)) kvs) \<le> sum_list (map (\<lambda>kv. length (enc (snd kv))) kvs)"
    using JObj by (intro sum_list_mono) (metis snds.intros prod.collapse)
  moreover have "length kvs \<le> sum_list (map (\<lambda>kv. Suc (Suc (length (show_nat (length (fst kv))) + length (fst kv)))) kvs)"
    by (induction kvs) auto
  ultimately show ?case by (simp add: length_concat comp_def)
qed auto

lemma enc_not_Nil [simp]: "enc v \<noteq> []"
  by (cases v) auto

lemma enc_null_only: "eq_ignore_case (enc v) ''null'' \<Longrightarrow> v = JNull"
proof (cases v)
  case (JArr vs)
  assume "eq_ignore_case (enc v) ''null''"
  then have "last (map ascii_lower (enc v)) = last (map ascii_lower ''null'')"
    by (simp add: eq_ignore_case_def)
  then show ?thesis using JArr by (simp add: last_map ascii_lower_def)
next
  case (JObj kvs)
  assume "eq_ignore_case (enc v) ''null''"
  then have "last (map ascii_lower (enc v)) = last (map ascii_lower ''null'')"
    by (simp add: eq_ignore_case_def)
  then show ?thesis using JObj by (simp add: last_map ascii_lower_def)
qed (auto simp: eq_ignore_case_def ascii_lower_def split: if_splits)

lemma reread_same [simp]: "reread (\<lambda>s. s) v = v"
  by (induction v) (force intro!: map_idI)+

lemma simple_reads: "json_sent v \<Longrightarrow> json_parse simple_codec (json_text simple_codec v) = Some v"
proof -
  assume sent: "json_sent v"
  have "Suc (length (enc v)) = ntok v + Suc (length (enc v) - ntok v)"
    using ntok_le [of v] by simp
  then show ?thesis
    using dec_enc [OF sent, of "Suc (length (enc v) - ntok v)" "[]" "[]"]
    by (simp add: simple_codec_def)
qed

interpretation simple: codec_laws simple_codec
proof unfold_locales
  fix v t r
  show "json_ok v \<Longrightarrow> json_parse simple_codec (json_text simple_codec v) = Some v"
    by (rule simple_reads) (rule json_ok_sent)
  show "json_sent v \<Longrightarrow> json_parse simple_codec (json_text simple_codec v) = Some (reread (float_reread simple_codec) v)"
    using simple_reads by (simp add: simple_codec_def)
  show "float_parse simple_codec (float_reread simple_codec (float_text simple_codec r)) \<noteq> None"
    by (simp add: simple_codec_def)
  show "json_text simple_codec JNull = ''null''" by (simp add: simple_codec_def)
  show "eq_ignore_case (json_text simple_codec v) ''null'' \<Longrightarrow> v = JNull"
    by (simp add: simple_codec_def enc_null_only)
  show "json_text simple_codec v \<noteq> []" by (simp add: simple_codec_def)
  show "from_rfc3339 simple_codec (to_rfc3339 simple_codec t) = Some t"
    "time_parse simple_codec (time_text simple_codec t) = Some t"
    by (simp_all add: simple_codec_def int_of_text_show_int)
qed

end
