(* ===== verification/Job.thy ===== *)
theory Job
  imports Redis_Effects Codec
begin

text \<open>
  The job (\<open>orchestrator/src/job.rs\<close>) and its representation as a Redis hash: the field
  list \<open>build_job_mapping\<close> writes and \<open>parse_job_map\<close> reads (\<open>store.rs\<close>).
\<close>

section \<open>Job status\<close>

datatype JobStatus = Pending | Active | Completed | Failed | Retrying | Cancelled

definition as_str :: "JobStatus \<Rightarrow> string" where
  "as_str st = (case st of
      Pending \<Rightarrow> ''PENDING'' | Active \<Rightarrow> ''ACTIVE'' | Completed \<Rightarrow> ''COMPLETED''
    | Failed \<Rightarrow> ''FAILED'' | Retrying \<Rightarrow> ''RETRYING'' | Cancelled \<Rightarrow> ''CANCELLED'')"

definition parse_status :: "string \<Rightarrow> JobStatus option" where
  "parse_status v =
     (if v = ''PENDING'' then Some Pending
      else if v = ''ACTIVE'' then Some Active
      else if v = ''COMPLETED'' then Some Completed
      else if v = ''FAILED'' then Some Failed
      else if v = ''RETRYING'' then Some Retrying
      else if v = ''CANCELLED'' then Some Cancelled
      else None)"

lemma parse_as_str [simp]: "parse_status (as_str st) = Some st"
  by (cases st) (simp_all add: parse_status_def as_str_def)

lemma parse_status_Some: "parse_status v = Some st \<Longrightarrow> v = as_str st"
  by (auto simp: parse_status_def as_str_def split: if_splits)

instantiation JobStatus :: linorder
begin

definition status_index :: "JobStatus \<Rightarrow> nat" where
  "status_index st = (case st of Pending \<Rightarrow> 0 | Active \<Rightarrow> 1 | Completed \<Rightarrow> 2
     | Failed \<Rightarrow> 3 | Retrying \<Rightarrow> 4 | Cancelled \<Rightarrow> 5)"

definition less_eq_JobStatus :: "JobStatus \<Rightarrow> JobStatus \<Rightarrow> bool" where
  "less_eq_JobStatus a b \<longleftrightarrow> status_index a \<le> status_index b"

definition less_JobStatus :: "JobStatus \<Rightarrow> JobStatus \<Rightarrow> bool" where
  "less_JobStatus a b \<longleftrightarrow> status_index a < status_index b"

instance
proof
  fix a b :: JobStatus
  show "a \<le> b \<Longrightarrow> b \<le> a \<Longrightarrow> a = b"
    by (cases a; cases b) (simp_all add: less_eq_JobStatus_def status_index_def)
qed (auto simp: less_eq_JobStatus_def less_JobStatus_def)

end

section \<open>The job record\<close>

record job =
  j_id :: string
  j_function_name :: string
  j_params :: params
  j_enqueue_time :: datetime
  j_start_time :: "datetime option"
  j_status :: JobStatus
  j_current_retries :: int
  j_next_scheduled_run_time :: "datetime option"
  j_max_retries :: int
  j_job_timeout_seconds :: "int option"
  j_result_ttl_seconds :: "int option"
  j_unique_key :: "string option"
  j_completion_time :: "datetime option"
  j_result :: "json option"
  j_last_error :: "string option"
  j_queue_name :: "string option"
  j_dlq_name :: "string option"
  j_worker_id :: "string option"
  j_trace_context :: "strmap option"
  j_correlation_context :: "strmap option"

section \<open>Writing and reading the hash\<close>

text \<open>\<open>if let Some(value) = ... { mapping.push((field, show(value))) }\<close>\<close>

definition opt_field :: "string \<Rightarrow> ('a \<Rightarrow> string) \<Rightarrow> 'a option \<Rightarrow> (string \<times> string) list" where
  "opt_field f sh v = (case v of None \<Rightarrow> [] | Some x \<Rightarrow> [(f, sh x)])"

definition build_job_mapping :: "codec \<Rightarrow> job \<Rightarrow> (string \<times> string) list" where
  "build_job_mapping C job =
     [(''id'', j_id job),
      (''function_name'', j_function_name job),
      (''job_params'', json_text C (JObj (j_params job))),
      (''enqueue_time'', to_rfc3339 C (j_enqueue_time job)),
      (''status'', as_str (j_status job)),
      (''current_retries'', show_int (j_current_retries job)),
      (''max_retries'', show_int (j_max_retries job)),
      (''result'', json_text C (case j_result job of None \<Rightarrow> JNull | Some v \<Rightarrow> v))]
     @ opt_field ''queue_name'' (\<lambda>v. v) (j_queue_name job)
     @ opt_field ''next_scheduled_run_time'' (to_rfc3339 C) (j_next_scheduled_run_time job)
     @ opt_field ''start_time'' (to_rfc3339 C) (j_start_time job)
     @ opt_field ''job_timeout_seconds'' show_int (j_job_timeout_seconds job)
     @ opt_field ''result_ttl_seconds'' show_int (j_result_ttl_seconds job)
     @ opt_field ''job_unique_key'' (\<lambda>v. v) (j_unique_key job)
     @ opt_field ''completion_time'' (to_rfc3339 C) (j_completion_time job)
     @ opt_field ''last_error'' (\<lambda>v. v) (j_last_error job)
     @ opt_field ''dlq_name'' (\<lambda>v. v) (j_dlq_name job)
     @ opt_field ''worker_id'' (\<lambda>v. v) (j_worker_id job)
     @ opt_field ''trace_context'' (\<lambda>m. json_text C (json_of_strmap m)) (j_trace_context job)
     @ opt_field ''correlation_context'' (\<lambda>m. json_text C (json_of_strmap m)) (j_correlation_context job)"

definition parse_json :: "codec \<Rightarrow> string \<Rightarrow> json option" where
  "parse_json C raw =
     (if raw = [] \<or> eq_ignore_case raw ''null'' then None else json_parse C raw)"

definition parse_context :: "codec \<Rightarrow> string \<Rightarrow> strmap option" where
  "parse_context C value =
     (if eq_ignore_case value ''null'' then None
      else Option.bind (json_parse C value) strmap_of_json)"

definition parse_job_map :: "codec \<Rightarrow> rhash \<Rightarrow> string \<Rightarrow> int \<Rightarrow> error + job" where
  "parse_job_map C raw fallback_id default_max_retries =
     (let job_params = (case Option.bind (fmlookup raw ''job_params'')
                               (\<lambda>v. Option.bind (json_parse C v) params_of_json) of
                          None \<Rightarrow> [] | Some p \<Rightarrow> p);
          result = Option.bind (fmlookup raw ''result'') (parse_json C);
          trace = Option.bind (fmlookup raw ''trace_context'') (parse_context C);
          correlation = Option.bind (fmlookup raw ''correlation_context'') (parse_context C)
      in case Option.bind (fmlookup raw ''status'') parse_status of
           None \<Rightarrow> Inl (Bail ''invalid job status'')
         | Some status \<Rightarrow>
             (case Option.bind (fmlookup raw ''enqueue_time'') (from_rfc3339 C) of
                None \<Rightarrow> Inl (Bail ''missing enqueue_time'')
              | Some enqueue_time \<Rightarrow>
                  let current_retries = (case Option.bind (fmlookup raw ''current_retries'') parse_i64 of
                                           None \<Rightarrow> 0 | Some n \<Rightarrow> n);
                      max_retries = (case Option.bind (fmlookup raw ''max_retries'') parse_i64 of
                                       None \<Rightarrow> default_max_retries | Some n \<Rightarrow> n)
                  in Inr \<lparr> j_id = (case fmlookup raw ''id'' of None \<Rightarrow> fallback_id | Some v \<Rightarrow> v),
                       j_function_name = (case fmlookup raw ''function_name'' of None \<Rightarrow> [] | Some v \<Rightarrow> v),
                       j_params = job_params,
                       j_enqueue_time = enqueue_time,
                       j_start_time = Option.bind (fmlookup raw ''start_time'') (from_rfc3339 C),
                       j_status = status,
                       j_current_retries = current_retries,
                       j_next_scheduled_run_time =
                         Option.bind (fmlookup raw ''next_scheduled_run_time'') (from_rfc3339 C),
                       j_max_retries = max_retries,
                       j_job_timeout_seconds = Option.bind (fmlookup raw ''job_timeout_seconds'') parse_i64,
                       j_result_ttl_seconds = Option.bind (fmlookup raw ''result_ttl_seconds'') parse_i64,
                       j_unique_key = fmlookup raw ''job_unique_key'',
                       j_completion_time = Option.bind (fmlookup raw ''completion_time'') (from_rfc3339 C),
                       j_result = result,
                       j_last_error = fmlookup raw ''last_error'',
                       j_queue_name = fmlookup raw ''queue_name'',
                       j_dlq_name = fmlookup raw ''dlq_name'',
                       j_worker_id = fmlookup raw ''worker_id'',
                       j_trace_context = trace,
                       j_correlation_context = correlation \<rparr>))"

section \<open>Round trip\<close>

text \<open>The jobs the program holds: numbers are \<open>i64\<close> values, maps have distinct keys.\<close>

definition job_ok :: "job \<Rightarrow> bool" where
  "job_ok job \<longleftrightarrow>
     json_ok (JObj (j_params job))
     \<and> (case j_result job of None \<Rightarrow> True | Some v \<Rightarrow> json_ok v \<and> v \<noteq> JNull)
     \<and> i64_ok (j_current_retries job) \<and> i64_ok (j_max_retries job)
     \<and> pred_option i64_ok (j_job_timeout_seconds job)
     \<and> pred_option i64_ok (j_result_ttl_seconds job)
     \<and> pred_option (\<lambda>m. distinct (map fst m)) (j_trace_context job)
     \<and> pred_option (\<lambda>m. distinct (map fst m)) (j_correlation_context job)"

lemma map_of_opt_field [simp]:
  "map_of (opt_field f sh v) g = (if f = g then map_option sh v else None)"
  by (simp add: opt_field_def split: option.splits)

lemma rev_opt_field [simp]: "rev (opt_field f sh v) = opt_field f sh v"
  by (simp add: opt_field_def split: option.splits)

lemma build_job_mapping_not_Nil [simp]: "build_job_mapping C job \<noteq> []"
  by (simp add: build_job_mapping_def)

text \<open>What the stored hash holds in each field.\<close>

definition job_hash :: "codec \<Rightarrow> job \<Rightarrow> rhash" where
  "job_hash C job = hash_put (build_job_mapping C job) fmempty"

lemma job_hash_not_empty [simp]: "job_hash C job \<noteq> fmempty"
  by (simp add: job_hash_def)

lemma case_option_eta: "(case z of None \<Rightarrow> None | Some v \<Rightarrow> Some v) = z"
  by (cases z) simp_all

lemma job_hash_lookups [simp]:
  "fmlookup (job_hash C job) ''id'' = Some (j_id job)"
  "fmlookup (job_hash C job) ''function_name'' = Some (j_function_name job)"
  "fmlookup (job_hash C job) ''job_params'' = Some (json_text C (JObj (j_params job)))"
  "fmlookup (job_hash C job) ''enqueue_time'' = Some (to_rfc3339 C (j_enqueue_time job))"
  "fmlookup (job_hash C job) ''status'' = Some (as_str (j_status job))"
  "fmlookup (job_hash C job) ''current_retries'' = Some (show_int (j_current_retries job))"
  "fmlookup (job_hash C job) ''max_retries'' = Some (show_int (j_max_retries job))"
  "fmlookup (job_hash C job) ''result'' =
     Some (json_text C (case j_result job of None \<Rightarrow> JNull | Some v \<Rightarrow> v))"
  by (simp_all add: job_hash_def hash_put_lookup build_job_mapping_def map_add_def)

lemma job_hash_opt_lookups [simp]:
  "fmlookup (job_hash C job) ''queue_name'' = j_queue_name job"
  "fmlookup (job_hash C job) ''next_scheduled_run_time''
     = map_option (to_rfc3339 C) (j_next_scheduled_run_time job)"
  "fmlookup (job_hash C job) ''start_time'' = map_option (to_rfc3339 C) (j_start_time job)"
  "fmlookup (job_hash C job) ''job_timeout_seconds'' = map_option show_int (j_job_timeout_seconds job)"
  "fmlookup (job_hash C job) ''result_ttl_seconds'' = map_option show_int (j_result_ttl_seconds job)"
  "fmlookup (job_hash C job) ''job_unique_key'' = j_unique_key job"
  "fmlookup (job_hash C job) ''completion_time'' = map_option (to_rfc3339 C) (j_completion_time job)"
  "fmlookup (job_hash C job) ''last_error'' = j_last_error job"
  "fmlookup (job_hash C job) ''dlq_name'' = j_dlq_name job"
  "fmlookup (job_hash C job) ''worker_id'' = j_worker_id job"
  "fmlookup (job_hash C job) ''trace_context''
     = map_option (\<lambda>m. json_text C (json_of_strmap m)) (j_trace_context job)"
  "fmlookup (job_hash C job) ''correlation_context''
     = map_option (\<lambda>m. json_text C (json_of_strmap m)) (j_correlation_context job)"
  by (simp_all add: job_hash_def hash_put_lookup build_job_mapping_def map_add_def option.map_ident case_option_eta
      map_option_case comp_def cong: option.case_cong)

context codec_laws
begin

lemma parse_context_roundtrip:
  assumes "distinct (map fst m)"
  shows "parse_context C (json_text C (json_of_strmap m)) = Some m"
proof -
  have "\<not> eq_ignore_case (json_text C (json_of_strmap m)) ''null''"
    using json_null_only by (metis json.distinct(11) json_of_strmap_def)
  with assms show ?thesis
    by (simp add: parse_context_def json_roundtrip)
qed

lemma parse_json_roundtrip:
  assumes "case r of None \<Rightarrow> True | Some v \<Rightarrow> json_ok v \<and> v \<noteq> JNull"
  shows "parse_json C (json_text C (case r of None \<Rightarrow> JNull | Some v \<Rightarrow> v)) = r"
proof (cases r)
  case None
  then show ?thesis by (simp add: parse_json_def json_null eq_ignore_case_def)
next
  case (Some v)
  with assms have "\<not> eq_ignore_case (json_text C v) ''null''"
    using json_null_only by auto
  with Some assms show ?thesis
    by (simp add: parse_json_def json_roundtrip json_not_empty)
qed

lemma parse_job_hash:
  assumes "job_ok job"
  shows "parse_job_map C (job_hash C job) fid dmr = Inr job"
proof -
  note ok = assms [unfolded job_ok_def]
  have "parse_json C (json_text C (case j_result job of None \<Rightarrow> JNull | Some v \<Rightarrow> v)) = j_result job"
    using ok by (intro parse_json_roundtrip) simp
  moreover have "json_parse C (json_text C (JObj (j_params job))) = Some (JObj (j_params job))"
    using ok by (intro json_roundtrip) simp
  moreover have "Option.bind (map_option (\<lambda>m. json_text C (json_of_strmap m)) c) (parse_context C) = c"
    if "pred_option (\<lambda>m. distinct (map fst m)) c" for c
    using that by (cases c) (simp_all add: parse_context_roundtrip)
  moreover have "Option.bind (map_option show_int n) parse_i64 = n" if "pred_option i64_ok n" for n
    using that by (cases n) simp_all
  moreover have "Option.bind (map_option (to_rfc3339 C) t) (from_rfc3339 C) = t" for t
    by (cases t) (simp_all add: rfc3339_roundtrip)
  ultimately show ?thesis
    using ok by (simp add: parse_job_map_def params_of_json_def rfc3339_roundtrip Let_def)
qed

end

end
