(* ===== verification/Framing.thy ===== *)
theory Framing
  imports Redis_Effects Keys
begin

text \<open>
  Three judgements on programs over the keyspace, with rules for every command and control
  structure: \<open>calm m\<close> (\<open>m\<close> never panics), \<open>keeps I m\<close> (the invariant \<open>I\<close> survives \<open>m\<close>, whatever it returns) and
  \<open>touches K m\<close> (\<open>m\<close> changes no key outside \<open>K\<close>). The first invariant is the typing of
  the keyspace: every key of the program holds the type its prefix says.
\<close>

named_theorems keep_rules
  \<open>introduction rules of \<open>keeps\<close>\<close>
named_theorems touch_rules
  \<open>introduction rules of \<open>touches\<close>\<close>
named_theorems calm_rules
  \<open>introduction rules of \<open>calm\<close>\<close>

section \<open>Invariants\<close>

definition keeps :: "('s \<Rightarrow> bool) \<Rightarrow> ('s, 'a) io \<Rightarrow> bool" where
  "keeps I m \<longleftrightarrow> (\<forall>s. I s \<longrightarrow> I (snd (m s)))"

lemma keepsI: "(\<And>s r s'. I s \<Longrightarrow> m s = (r, s') \<Longrightarrow> I s') \<Longrightarrow> keeps I m"
  unfolding keeps_def by (metis prod.collapse)

lemma keepsD: "keeps I m \<Longrightarrow> I s \<Longrightarrow> m s = (r, s') \<Longrightarrow> I s'"
  unfolding keeps_def by (metis snd_conv)

lemma keeps_basic [keep_rules]: "keeps I (ret x)" "keeps I (fail e)" "keeps I (panic p)"
  by (simp_all add: keeps_def io_simps)

lemma keeps_andThen [keep_rules]: "keeps I m \<Longrightarrow> (\<And>x. keeps I (f x)) \<Longrightarrow> keeps I (andThen m f)"
  by (auto simp: keeps_def andThen_def split: prod.splits res.splits)

lemma keeps_attempt [keep_rules]: "keeps I m \<Longrightarrow> keeps I (attempt m)"
  by (auto simp: keeps_def attempt_def split: prod.splits res.splits)

lemma keeps_if [keep_rules]:
  "(b \<Longrightarrow> keeps I m) \<Longrightarrow> (\<not> b \<Longrightarrow> keeps I n) \<Longrightarrow> keeps I (if b then m else n)"
  by simp

lemma keeps_cases [keep_rules]:
  "keeps I m \<Longrightarrow> (\<And>x. keeps I (f x)) \<Longrightarrow> keeps I (case z of None \<Rightarrow> m | Some x \<Rightarrow> f x)"
  "(\<And>e. keeps I (g e)) \<Longrightarrow> (\<And>x. keeps I (h x)) \<Longrightarrow> keeps I (case u of Inl e \<Rightarrow> g e | Inr x \<Rightarrow> h x)"
  "(\<And>x y. keeps I (p x y)) \<Longrightarrow> keeps I (case w of (x, y) \<Rightarrow> p x y)"
  "keeps I m \<Longrightarrow> (\<And>x xs. keeps I (q x xs)) \<Longrightarrow> keeps I (case l of [] \<Rightarrow> m | x # xs \<Rightarrow> q x xs)"
  "(\<And>x. keeps I (k x)) \<Longrightarrow> keeps I (Let t k)"
  by (simp_all split: option.split sum.split prod.split list.split)

lemma keeps_loops [keep_rules]:
  "(\<And>x. keeps I (f x)) \<Longrightarrow> keeps I (forEach xs f)"
  "(\<And>x a. keeps I (g x a)) \<Longrightarrow> keeps I (foldIO g xs a)"
  by (induction xs arbitrary: a) (auto intro: keep_rules)

section \<open>No panics\<close>

definition calm :: "('s, 'a) io \<Rightarrow> bool" where
  "calm m \<longleftrightarrow> (\<forall>s p. fst (m s) \<noteq> Panic p)"

lemma calmD: "calm m \<Longrightarrow> m s = (r, s') \<Longrightarrow> r = Panic p \<Longrightarrow> False"
  unfolding calm_def by (metis fst_conv)

lemma calm_basic [calm_rules]: "calm (ret x)" "calm (fail e)"
  by (simp_all add: calm_def io_simps)

lemma calm_andThen [calm_rules]:
  assumes "calm m" "\<And>x. calm (f x)"
  shows "calm (andThen m f)"
  unfolding calm_def
proof (intro allI)
  fix s p
  obtain q t where m: "m s = (q, t)" by (cases "m s")
  then have "q \<noteq> Panic p'" for p' using calmD [OF assms(1)] by blast
  then show "fst (andThen m f s) \<noteq> Panic p"
    using m assms(2) [unfolded calm_def] by (cases q) (simp_all add: andThen_def)
qed

lemma calm_attempt [calm_rules]:
  assumes "calm m"
  shows "calm (attempt m)"
  unfolding calm_def
proof (intro allI)
  fix s p
  obtain q t where m: "m s = (q, t)" by (cases "m s")
  then have "q \<noteq> Panic p'" for p' using calmD [OF assms(1)] by blast
  then show "fst (attempt m s) \<noteq> Panic p"
    using m by (cases q) (simp_all add: attempt_def)
qed

lemma calm_cases [calm_rules]:
  "(b \<Longrightarrow> calm m) \<Longrightarrow> (\<not> b \<Longrightarrow> calm n) \<Longrightarrow> calm (if b then m else n)"
  "calm m \<Longrightarrow> (\<And>x. calm (f x)) \<Longrightarrow> calm (case z of None \<Rightarrow> m | Some x \<Rightarrow> f x)"
  "(\<And>e. calm (g e)) \<Longrightarrow> (\<And>x. calm (h x)) \<Longrightarrow> calm (case u of Inl e \<Rightarrow> g e | Inr x \<Rightarrow> h x)"
  "(\<And>x y. calm (p x y)) \<Longrightarrow> calm (case w of (x, y) \<Rightarrow> p x y)"
  "(\<And>x. calm (k x)) \<Longrightarrow> calm (Let t k)"
  by (simp_all split: option.split sum.split prod.split)

lemma calm_loops [calm_rules]:
  "(\<And>x. calm (f x)) \<Longrightarrow> calm (forEach xs f)"
  "(\<And>x a. calm (g x a)) \<Longrightarrow> calm (foldIO g xs a)"
  by (induction xs arbitrary: a) (auto intro: calm_rules)

lemma calm_access [calm_rules]:
  "calm (read_hash k f)" "calm (write_hash k g)" "calm (read_zset k h)" "calm (write_zset k l)"
  "calm (read_list k m)" "calm (write_list k n)"
  by (auto simp: calm_def read_hash_def write_hash_def read_zset_def write_zset_def
      read_list_def write_list_def split: option.splits rvalue.splits prod.splits)

lemma calm_commands [calm_rules]:
  "calm (ks_exists k)" "calm (ks_del k)" "calm (ks_pexpire k n)" "calm (ks_expire k n)" "calm (ks_persist k)"
  "calm (ks_ttl k)" "calm (ks_get k)" "calm (ks_set k v nx e)" "calm (ks_xadd k fvs)" "calm ks_flushdb"
  by (auto simp: calm_def ks_exists_def ks_del_def ks_pexpire_def ks_expire_def ks_persist_def ks_ttl_def
      ks_get_def ks_set_def ks_xadd_def ks_flushdb_def split: option.splits rvalue.splits prod.splits)

lemma calm_collection_commands [calm_rules]:
  "calm (ks_hset k fvs)" "calm (ks_hdel k fs)" "calm (ks_hget k f)" "calm (ks_hgetall k)"
  "calm (ks_hincrby k f n)" "calm (ks_zadd k sc m)" "calm (ks_zrem k m)" "calm (ks_zscore k m)"
  "calm (ks_zrangebyscore k mx c)" "calm (ks_zcard k)" "calm (ks_zrange k i j)" "calm (ks_lpush k x)"
  "calm (ks_lrem k x)" "calm (ks_llen k)" "calm (ks_lrange k i j)"
  unfolding ks_hset_def ks_hdel_def ks_hget_def ks_hgetall_def ks_hincrby_def ks_zadd_def ks_zrem_def
    ks_zscore_def ks_zrangebyscore_def ks_zcard_def ks_zrange_def ks_lpush_def ks_lrem_def ks_llen_def
    ks_lrange_def
  by (intro calm_rules)+

section \<open>Footprints\<close>

definition touches :: "string set \<Rightarrow> (keyspace, 'a) io \<Rightarrow> bool" where
  "touches K m \<longleftrightarrow> (\<forall>ks k. k \<notin> K \<longrightarrow> snd (m ks) k = ks k)"

lemma touchesD: "touches K m \<Longrightarrow> k \<notin> K \<Longrightarrow> m ks = (r, ks') \<Longrightarrow> ks' k = ks k"
  unfolding touches_def by (metis snd_conv)

lemma touchesI: "(\<And>ks r ks' k. m ks = (r, ks') \<Longrightarrow> k \<notin> K \<Longrightarrow> ks' k = ks k) \<Longrightarrow> touches K m"
  unfolding touches_def by (metis prod.collapse)

lemma touches_mono: "touches K m \<Longrightarrow> K \<subseteq> L \<Longrightarrow> touches L m"
  by (auto simp: touches_def)

lemma touches_basic [touch_rules]: "touches K (ret x)" "touches K (fail e)" "touches K (panic p)"
  by (simp_all add: touches_def io_simps)

lemma touches_andThen [touch_rules]:
  assumes "touches K m" "\<And>x. touches K (f x)"
  shows "touches K (andThen m f)"
proof (rule touchesI)
  fix ks r ks' k
  assume run: "andThen m f ks = (r, ks')" and k: "k \<notin> K"
  obtain q ks1 where m: "m ks = (q, ks1)" by (cases "m ks")
  have 1: "ks1 k = ks k" by (rule touchesD [OF assms(1) k m])
  have 2: "\<And>x. f x ks1 = (r, ks') \<Longrightarrow> ks' k = ks1 k" by (rule touchesD [OF assms(2) k])
  show "ks' k = ks k"
    using run m 1 2 by (cases q) (simp_all add: andThen_def)
qed

lemma touches_attempt [touch_rules]:
  assumes "touches K m"
  shows "touches K (attempt m)"
proof (rule touchesI)
  fix ks r ks' k
  assume run: "attempt m ks = (r, ks')" and k: "k \<notin> K"
  obtain q ks1 where m: "m ks = (q, ks1)" by (cases "m ks")
  show "ks' k = ks k"
    using run m touchesD [OF assms k m] by (cases q) (simp_all add: attempt_def)
qed

lemma touches_cases [touch_rules]:
  "(b \<Longrightarrow> touches K m1) \<Longrightarrow> (\<not> b \<Longrightarrow> touches K m2) \<Longrightarrow> touches K (if b then m1 else m2)"
  "touches K m3 \<Longrightarrow> (\<And>x. touches K (g x)) \<Longrightarrow> touches K (case z of None \<Rightarrow> m3 | Some x \<Rightarrow> g x)"
  "(\<And>e. touches K (h1 e)) \<Longrightarrow> (\<And>x. touches K (h2 x)) \<Longrightarrow>
   touches K (case u of Inl e \<Rightarrow> h1 e | Inr x \<Rightarrow> h2 x)"
  "(\<And>x y. touches K (h x y)) \<Longrightarrow> touches K (case w of (x, y) \<Rightarrow> h x y)"
  "(\<And>x. touches K (l x)) \<Longrightarrow> touches K (Let t l)"
  by (simp_all split: option.split sum.split prod.split)

lemma touches_loops [touch_rules]:
  "(\<And>x. touches K (f x)) \<Longrightarrow> touches K (forEach xs f)"
  "(\<And>x a. touches K (g x a)) \<Longrightarrow> touches K (foldIO g xs a)"
  by (induction xs arbitrary: a) (auto intro: touch_rules)

lemma typed_access_touches:
  "touches K (read_hash k f)" "k \<in> K \<Longrightarrow> touches K (write_hash k g)"
  "touches K (read_zset k h)" "k \<in> K \<Longrightarrow> touches K (write_zset k l)"
  "touches K (read_list k m)" "k \<in> K \<Longrightarrow> touches K (write_list k n)"
  by (auto intro!: touchesI simp: read_hash_def write_hash_def read_zset_def write_zset_def
      read_list_def write_list_def split: option.splits rvalue.splits prod.splits if_splits)

lemma command_touches [touch_rules]:
  "touches K (ks_exists k)" "touches K (ks_get k)" "touches K (ks_ttl k)"
  "touches K (ks_hget k f)" "touches K (ks_hgetall k)" "touches K (ks_zscore k m)"
  "touches K (ks_zrangebyscore k mx c)" "touches K (ks_zcard k)" "touches K (ks_zrange k i j)"
  "touches K (ks_llen k)" "touches K (ks_lrange k i j)"
  by (auto simp: ks_hget_def ks_hgetall_def ks_zscore_def ks_zrangebyscore_def ks_zcard_def
      ks_zrange_def ks_llen_def ks_lrange_def typed_access_touches)
    (auto intro!: touchesI simp: ks_exists_def ks_get_def ks_ttl_def split: option.splits rvalue.splits)

lemma command_writes [touch_rules]:
  "k \<in> K \<Longrightarrow> touches K (ks_del k)" "k \<in> K \<Longrightarrow> touches K (ks_expire k n)"
  "k \<in> K \<Longrightarrow> touches K (ks_pexpire k n)" "k \<in> K \<Longrightarrow> touches K (ks_persist k)"
  "k \<in> K \<Longrightarrow> touches K (ks_set k v nx e)" "k \<in> K \<Longrightarrow> touches K (ks_xadd k fvs)"
  by (auto intro!: touchesI simp: ks_del_def ks_expire_def ks_pexpire_def ks_persist_def ks_set_def
      ks_xadd_def split: option.splits rvalue.splits if_splits prod.splits)

lemma collection_writes [touch_rules]:
  "k \<in> K \<Longrightarrow> touches K (ks_hset k fvs)" "k \<in> K \<Longrightarrow> touches K (ks_hdel k fs)"
  "k \<in> K \<Longrightarrow> touches K (ks_hincrby k f n)" "k \<in> K \<Longrightarrow> touches K (ks_zadd k sc m)"
  "k \<in> K \<Longrightarrow> touches K (ks_zrem k m)" "k \<in> K \<Longrightarrow> touches K (ks_lpush k x)"
  "k \<in> K \<Longrightarrow> touches K (ks_lrem k x)"
  unfolding ks_hset_def ks_hdel_def ks_hincrby_def ks_zadd_def ks_zrem_def ks_lpush_def ks_lrem_def
  by (auto intro!: touch_rules typed_access_touches split: option.splits)

text \<open>A key outside the footprint reads as before, through every view.\<close>

lemma view_cong:
  assumes "ks' k = ks k"
  shows "hash_at ks' k = hash_at ks k" "zset_at ks' k = zset_at ks k" "list_at ks' k = list_at ks k"
    "string_at ks' k = string_at ks k" "stream_at ks' k = stream_at ks k" "ttl_at ks' k = ttl_at ks k"
    "is_hash ks' k = is_hash ks k" "is_zset ks' k = is_zset ks k" "is_list ks' k = is_list ks k"
    "is_string ks' k = is_string ks k" "is_stream ks' k = is_stream ks k"
  using assms by (simp_all add: view_defs)

section \<open>The typing of the keyspace\<close>

definition well_typed :: "keyspace \<Rightarrow> bool" where
  "well_typed ks \<longleftrightarrow>
     (\<forall>j. is_hash ks (format_job_key j)) \<and> (\<forall>j. is_stream ks (format_job_events_key j))
     \<and> (\<forall>w. is_zset ks (active_jobs_key w)) \<and> (\<forall>j. is_string ks (format_lock_key j))
     \<and> (\<forall>u. is_string ks (format_unique_key u)) \<and> (\<forall>w. is_string ks (format_health_key w))
     \<and> (\<forall>q. is_zset ks (format_queue_key q)) \<and> (\<forall>d. is_list ks (format_dlq_key d))"

lemma well_typedD [simp]:
  assumes "well_typed ks"
  shows "is_hash ks (format_job_key j)" "is_stream ks (format_job_events_key j)"
    "is_zset ks (active_jobs_key w)" "is_string ks (format_lock_key j)"
    "is_string ks (format_unique_key u)" "is_string ks (format_health_key w)"
    "is_zset ks (format_queue_key q)" "is_list ks (format_dlq_key d)"
  using assms by (simp_all add: well_typed_def)

lemma is_zset_zs_ok [simp]: "is_zset ks k \<Longrightarrow> zs_ok (zset_at ks k)"
  by (auto simp: view_defs split: option.splits rvalue.splits)

lemma well_typed_empty [simp]: "well_typed (\<lambda>_. None)"
  by (simp add: well_typed_def view_defs)

lemma well_typed_put [simp]:
  assumes wt: "well_typed ks"
  shows "well_typed (put_hash (format_job_key j) h ks)"
    "zs_ok z \<Longrightarrow> well_typed (put_zset (active_jobs_key w) z ks)"
    "zs_ok z \<Longrightarrow> well_typed (put_zset (format_queue_key q) z ks)"
    "well_typed (put_list (format_dlq_key d) l ks)"
    "es \<noteq> [] \<Longrightarrow> well_typed (put_stream (format_job_events_key j) es ks)"
    "well_typed (put_string (format_lock_key j) v t ks)"
    "well_typed (put_string (format_unique_key u) v t ks)"
    "well_typed (put_string (format_health_key w) v t ks)"
    "well_typed (del_key k ks)" "well_typed (put_ttl k t ks)"
  by (subst well_typed_def; simp add: well_typedD [OF wt])+

lemma elapse_at:
  "ks_elapse d ks k = None \<or> (\<exists>v t t'. ks k = Some (v, t) \<and> ks_elapse d ks k = Some (v, t'))"
  by (auto simp: ks_elapse_def split: option.splits prod.splits)

lemma typed_elapse:
  "is_hash ks k \<Longrightarrow> is_hash (ks_elapse d ks) k" "is_zset ks k \<Longrightarrow> is_zset (ks_elapse d ks) k"
  "is_list ks k \<Longrightarrow> is_list (ks_elapse d ks) k" "is_string ks k \<Longrightarrow> is_string (ks_elapse d ks) k"
  "is_stream ks k \<Longrightarrow> is_stream (ks_elapse d ks) k"
  using elapse_at [of d ks k]
  by (auto simp: is_hash_def is_zset_def is_list_def is_string_def is_stream_def)

lemma well_typed_elapse [simp]: "well_typed ks \<Longrightarrow> well_typed (ks_elapse d ks)"
  unfolding well_typed_def by (simp add: typed_elapse)

end
