(* ===== verification/Scripts.thy ===== *)
theory Scripts
  imports Framing
begin

text \<open>
  The Lua scripts of the store (\<open>orchestrator/src/lua/\<close>), each a program over the commands
  of the server with its \<open>KEYS\<close> and \<open>ARGV\<close> as arguments. A script runs as one atomic
  step; an error of a command ends it with the effects of the commands before, which
  \<open>pcall\<close> turns into the reply \<open>-1\<close> in \<open>move_to_dlq\<close> and \<open>requeue_job\<close>. Arguments that
  the caller passes as numbers are numbers here; \<open>tonumber\<close> is modelled on the decimal
  integers the program writes, below the \<open>2^53\<close> a Lua number holds exactly. Above that a timeout is rounded, and
  from \<open>10^17\<close> milliseconds on, three million years, it depends on the version of Redis whether a script passes
  it to \<open>SET PX\<close> with an exponent, which the command refuses; that is not modelled.
\<close>

section \<open>Lua values\<close>

definition lua_tonumber :: "string option \<Rightarrow> int option" where
  "lua_tonumber v = (case v of
      None \<Rightarrow> None
    | Some s \<Rightarrow> (case s of
        [] \<Rightarrow> None
      | c # cs \<Rightarrow>
          if c = CHR ''-'' then (if cs = [] then None else map_option (\<lambda>n. - int n) (digits_val 0 cs))
          else map_option int (digits_val 0 s)))"

text \<open>\<open>pcall(run)\<close> with the sentinel reply.\<close>

definition lua_pcall :: "('s, int) io \<Rightarrow> ('s, int) io" where
  "lua_pcall run = andThen (attempt run) (\<lambda>r. case r of Inl _ \<Rightarrow> ret (- 1) | Inr v \<Rightarrow> ret v)"

lemma lua_tonumber_show [simp]: "lua_tonumber (Some (show_int i)) = Some i"
proof (cases "i < 0")
  case True
  then show ?thesis by (simp add: lua_tonumber_def show_int_def)
next
  case False
  obtain k cs where k: "k < 10" "show_nat (nat i) = digit k # cs"
    using show_nat_hd by blast
  have "digits_val 0 (digit k # cs) = Some (nat i)"
    by (metis k(2) digits_val_show_nat)
  with False k show ?thesis
    by (simp add: lua_tonumber_def show_int_def del: digits_val.simps)
qed

section \<open>The scripts\<close>

definition lua_enqueue ::
  "'r redis \<Rightarrow> string \<Rightarrow> string \<Rightarrow> (string \<times> string) list \<Rightarrow> rat \<Rightarrow> string \<Rightarrow> ('r, int) io" where
  "lua_enqueue R job_key queue_key mapping score job_id =
     andThen (r_exists R job_key) (\<lambda>there.
       if there then ret 0
       else andThen (r_hset R job_key mapping) (\<lambda>_.
            andThen (r_zadd R queue_key score job_id) (\<lambda>_. ret 1)))"

definition lua_lock_and_start ::
  "'r redis \<Rightarrow> string \<Rightarrow> string \<Rightarrow> string \<Rightarrow> string \<Rightarrow> string \<Rightarrow> int \<Rightarrow> string \<Rightarrow> string \<Rightarrow> rat
    \<Rightarrow> ('r, int \<times> int) io" where
  "lua_lock_and_start R lock_key queue_key job_key active_key worker_id lock_timeout_ms job_id
       start_time active_score =
     andThen (r_set R lock_key worker_id True (PxMs lock_timeout_ms)) (\<lambda>lock_result.
       if lock_result then
         andThen (r_zrem R queue_key job_id) (\<lambda>removed_count.
           if removed_count = 0 then andThen (r_del R lock_key) (\<lambda>_. ret (0, 0))
           else
             andThen (r_hset R job_key [(''status'', ''ACTIVE''), (''start_time'', start_time),
                        (''worker_id'', worker_id)]) (\<lambda>_.
             andThen (r_zadd R active_key active_score job_id) (\<lambda>_. ret (1, removed_count))))
       else ret (0, 0))"

definition claim_lock_timeout_ms :: "int \<Rightarrow> int \<Rightarrow> string option \<Rightarrow> int" where
  "claim_lock_timeout_ms default_lock_timeout_ms lock_extension_seconds raw =
     (case lua_tonumber raw of
        None \<Rightarrow> default_lock_timeout_ms
      | Some job_timeout_seconds \<Rightarrow>
          if 0 < job_timeout_seconds then
            let candidate_timeout_ms = (job_timeout_seconds + lock_extension_seconds) * 1000
            in if 0 < candidate_timeout_ms \<and> candidate_timeout_ms \<le> 9223372036854775807
               then candidate_timeout_ms else default_lock_timeout_ms
          else default_lock_timeout_ms)"

definition claim_candidate ::
  "'r redis \<Rightarrow> string \<Rightarrow> string \<Rightarrow> string \<Rightarrow> nat \<Rightarrow> int \<Rightarrow> int \<Rightarrow> string \<Rightarrow> rat
    \<Rightarrow> string \<Rightarrow> string list \<Rightarrow> ('r, string list) io" where
  "claim_candidate R queue_key active_key worker_id max_claims default_lock_timeout_ms
       lock_extension_seconds start_time active_score job_id claimed =
     (if max_claims \<le> length claimed then ret claimed
      else
        let job_key = ''rrq:job:'' @ job_id;
            lock_key = ''rrq:lock:job:'' @ job_id
        in andThen (r_exists R job_key) (\<lambda>there.
          if \<not> there then andThen (r_zrem R queue_key job_id) (\<lambda>_. ret claimed)
          else
            andThen (r_hget R job_key ''job_timeout_seconds'') (\<lambda>raw.
            andThen (r_set R lock_key worker_id True
                (PxMs (claim_lock_timeout_ms default_lock_timeout_ms lock_extension_seconds raw)))
              (\<lambda>lock_ok.
              if lock_ok then
                andThen (r_zrem R queue_key job_id) (\<lambda>removed.
                  if removed = 1 then
                    andThen (r_hset R job_key [(''status'', ''ACTIVE''), (''start_time'', start_time),
                               (''worker_id'', worker_id)]) (\<lambda>_.
                    andThen (r_zadd R active_key active_score job_id) (\<lambda>_.
                    ret (claimed @ [job_id])))
                  else andThen (r_del R lock_key) (\<lambda>_. ret claimed))
              else ret claimed))))"

definition lua_claim_ready ::
  "'r redis \<Rightarrow> string \<Rightarrow> string \<Rightarrow> string \<Rightarrow> rat \<Rightarrow> nat \<Rightarrow> int \<Rightarrow> int \<Rightarrow> string \<Rightarrow> rat
    \<Rightarrow> ('r, string list) io" where
  "lua_claim_ready R queue_key active_key worker_id now_ms max_claims default_lock_timeout_ms
       lock_extension_seconds start_time active_score =
     (if max_claims = 0 then ret []
      else if default_lock_timeout_ms \<le> 0 then ret []
      else
        let scan_count = max (max_claims * 4) max_claims
        in andThen (r_zrangebyscore R queue_key now_ms scan_count) (\<lambda>candidates.
           foldIO (claim_candidate R queue_key active_key worker_id max_claims default_lock_timeout_ms
                     lock_extension_seconds start_time active_score) candidates []))"

definition lua_refresh_lock :: "'r redis \<Rightarrow> string \<Rightarrow> string \<Rightarrow> int \<Rightarrow> ('r, int) io" where
  "lua_refresh_lock R lock_key worker_id lock_timeout_ms =
     andThen (r_get R lock_key) (\<lambda>v.
       if v \<noteq> Some worker_id then ret 0
       else andThen (r_pexpire R lock_key lock_timeout_ms) (\<lambda>b. ret (if b then 1 else 0)))"

definition lua_release_lock_if_owner :: "'r redis \<Rightarrow> string \<Rightarrow> string \<Rightarrow> ('r, int) io" where
  "lua_release_lock_if_owner R lock_key worker_id =
     andThen (r_get R lock_key) (\<lambda>v.
       if v \<noteq> Some worker_id then ret 0
       else andThen (r_del R lock_key) (\<lambda>_. ret 1))"

definition lua_retry ::
  "'r redis \<Rightarrow> string \<Rightarrow> string \<Rightarrow> string \<Rightarrow> rat \<Rightarrow> string \<Rightarrow> string \<Rightarrow> ('r, int) io" where
  "lua_retry R job_key queue_key job_id retry_at_score error_message status =
     andThen (r_hincrby R job_key ''current_retries'' 1) (\<lambda>new_retry_count.
     andThen (r_hset R job_key [(''status'', status), (''last_error'', error_message)]) (\<lambda>_.
     andThen (r_zadd R queue_key retry_at_score job_id) (\<lambda>_. ret new_retry_count)))"

definition lua_move_to_dlq_run ::
  "'r redis \<Rightarrow> string \<Rightarrow> string \<Rightarrow> string \<Rightarrow> string \<Rightarrow> string \<Rightarrow> string \<Rightarrow> string \<Rightarrow> int \<Rightarrow> ('r, int) io" where
  "lua_move_to_dlq_run R job_key events_key dlq_key unique_lock_key job_id error_message
       completion_time dlq_ttl =
     andThen (r_hincrby R job_key ''current_retries'' 1) (\<lambda>new_retry_count.
     andThen (r_hset R job_key [(''status'', ''FAILED''), (''last_error'', error_message),
                (''completion_time'', completion_time)]) (\<lambda>_.
     andThen (r_xadd R events_key [(''event'', ''failed''), (''job_id'', job_id),
                (''status'', ''FAILED'')]) (\<lambda>_.
     andThen (r_lpush R dlq_key job_id) (\<lambda>_.
     andThen (if 0 < dlq_ttl then
                andThen (r_expire R job_key dlq_ttl) (\<lambda>_.
                andThen (r_expire R events_key dlq_ttl) (\<lambda>_. ret ()))
              else ret ()) (\<lambda>_.
     andThen (if unique_lock_key \<noteq> [] then andThen (r_del R unique_lock_key) (\<lambda>_. ret ()) else ret ())
       (\<lambda>_. ret new_retry_count))))))"

definition lua_move_to_dlq ::
  "'r redis \<Rightarrow> string \<Rightarrow> string \<Rightarrow> string \<Rightarrow> string \<Rightarrow> string \<Rightarrow> string \<Rightarrow> string \<Rightarrow> int \<Rightarrow> ('r, int) io" where
  "lua_move_to_dlq R job_key events_key dlq_key unique_lock_key job_id error_message
       completion_time dlq_ttl =
     lua_pcall (lua_move_to_dlq_run R job_key events_key dlq_key unique_lock_key job_id error_message
       completion_time dlq_ttl)"

text \<open>\<open>if releasing_owner ~= '' then if GET lock == releasing_owner then DEL lock\<close>.\<close>

definition lua_release_owned :: "'r redis \<Rightarrow> string \<Rightarrow> string \<Rightarrow> ('r, unit) io" where
  "lua_release_owned R lock_key releasing_owner =
     (if releasing_owner \<noteq> [] then
        andThen (r_get R lock_key) (\<lambda>v.
          if v = Some releasing_owner then andThen (r_del R lock_key) (\<lambda>_. ret ()) else ret ())
      else ret ())"

text \<open>\<open>if current_status == 'ACTIVE' ... else ... end\<close>: demote the hash, or note the reason.\<close>

definition lua_demote :: "'r redis \<Rightarrow> string \<Rightarrow> string option \<Rightarrow> string \<Rightarrow> ('r, unit) io" where
  "lua_demote R job_key current_status requeue_message =
     (if current_status = Some ''ACTIVE'' then
        andThen (r_hset R job_key [(''status'', ''PENDING''), (''last_error'', requeue_message)])
          (\<lambda>_. r_hdel R job_key [''start_time'', ''worker_id''])
      else if requeue_message \<noteq> [] then r_hset R job_key [(''last_error'', requeue_message)]
      else ret ())"

definition lua_drop_active :: "'r redis \<Rightarrow> string \<Rightarrow> string \<Rightarrow> ('r, unit) io" where
  "lua_drop_active R active_key job_id =
     (if active_key \<noteq> [] then andThen (r_zrem R active_key job_id) (\<lambda>_. ret ()) else ret ())"

definition lua_restore_schedule :: "'r redis \<Rightarrow> string \<Rightarrow> string \<Rightarrow> ('r, unit) io" where
  "lua_restore_schedule R job_key next_scheduled =
     (if next_scheduled \<noteq> [] then r_hset R job_key [(''next_scheduled_run_time'', next_scheduled)]
      else ret ())"

definition lua_requeue_job_run ::
  "'r redis \<Rightarrow> string \<Rightarrow> string \<Rightarrow> string \<Rightarrow> string \<Rightarrow> string \<Rightarrow> rat \<Rightarrow> string \<Rightarrow> string \<Rightarrow> string
    \<Rightarrow> ('r, int) io" where
  "lua_requeue_job_run R job_key queue_key active_key lock_key job_id score requeue_message
       releasing_owner next_scheduled =
     andThen (r_exists R job_key) (\<lambda>there.
       if \<not> there then ret 0
       else
         andThen (r_hget R job_key ''status'') (\<lambda>current_status.
         andThen (lua_demote R job_key current_status requeue_message) (\<lambda>_.
         andThen (r_zscore R queue_key job_id) (\<lambda>queued.
           if queued \<noteq> None then
             andThen (lua_drop_active R active_key job_id) (\<lambda>_.
             andThen (lua_release_owned R lock_key releasing_owner) (\<lambda>_. ret 2))
           else
             andThen (r_zadd R queue_key score job_id) (\<lambda>_.
             andThen (lua_drop_active R active_key job_id) (\<lambda>_.
             andThen (lua_restore_schedule R job_key next_scheduled) (\<lambda>_.
             andThen (lua_release_owned R lock_key releasing_owner) (\<lambda>_. ret 1))))))))"

definition lua_requeue_job ::
  "'r redis \<Rightarrow> string \<Rightarrow> string \<Rightarrow> string \<Rightarrow> string \<Rightarrow> string \<Rightarrow> rat \<Rightarrow> string \<Rightarrow> string \<Rightarrow> string
    \<Rightarrow> ('r, int) io" where
  "lua_requeue_job R job_key queue_key active_key lock_key job_id score requeue_message
       releasing_owner next_scheduled =
     lua_pcall (lua_requeue_job_run R job_key queue_key active_key lock_key job_id score requeue_message
       releasing_owner next_scheduled)"

lemmas script_defs = lua_enqueue_def lua_lock_and_start_def lua_claim_ready_def claim_candidate_def
  lua_refresh_lock_def lua_release_lock_if_owner_def lua_retry_def lua_move_to_dlq_def
  lua_move_to_dlq_run_def lua_requeue_job_def lua_requeue_job_run_def lua_release_owned_def
  lua_demote_def lua_drop_active_def lua_restore_schedule_def
  lua_pcall_def

section \<open>Refinement\<close>

text \<open>On any server that meets the interface a script does what it does on keyspaces.\<close>

context redis_server
begin

lemma script_sims [sim_rules]:
  "sim db (lua_enqueue R jk qk fs sc j) (lua_enqueue ks_redis jk qk fs sc j)"
  "sim db (lua_lock_and_start R lk qk jk ak w ms j st asc) (lua_lock_and_start ks_redis lk qk jk ak w ms j st asc)"
  "sim db (lua_claim_ready R qk ak w now n ms ext st asc) (lua_claim_ready ks_redis qk ak w now n ms ext st asc)"
  "sim db (lua_refresh_lock R lk w ms) (lua_refresh_lock ks_redis lk w ms)"
  "sim db (lua_release_lock_if_owner R lk w) (lua_release_lock_if_owner ks_redis lk w)"
  "sim db (lua_retry R jk qk j sc e st) (lua_retry ks_redis jk qk j sc e st)"
  "sim db (lua_move_to_dlq R jk ek dk uk j e ct ttl) (lua_move_to_dlq ks_redis jk ek dk uk j e ct ttl)"
  "sim db (lua_requeue_job R jk qk ak lk j sc e ow ns) (lua_requeue_job ks_redis jk qk ak lk j sc e ow ns)"
  unfolding script_defs by (intro sim_rules)+

end

end
