(* ===== verification/Script_Facts.thy ===== *)
theory Script_Facts
  imports Scripts
begin

text \<open>
  What the scripts do on a well-typed keyspace: typing is kept, footprints, and the effect of
  each script on each of its branches. \<open>claim_ready\<close> is a loop; its invariant and the
  resulting specification are here.
\<close>

section \<open>Typing is kept by every command on a key of its type\<close>

lemma write_hash_state: "is_hash ks k \<Longrightarrow> snd (write_hash k f ks) = put_hash k (f (hash_at ks k)) ks"
  by (auto simp: write_hash_def view_defs put_hash_def split: option.splits rvalue.splits)

lemma read_only_keeps [keep_rules]:
  "keeps I (ks_exists k)" "keeps I (ks_get k)" "keeps I (ks_ttl k)" "keeps I (ks_hget k f)"
  "keeps I (ks_hgetall k)" "keeps I (ks_zscore k m)" "keeps I (ks_zrangebyscore k mx c)"
  "keeps I (ks_zcard k)" "keeps I (ks_zrange k i j)" "keeps I (ks_llen k)" "keeps I (ks_lrange k i j)"
  "keeps I (read_hash k g)"
  by (auto simp: keeps_def ks_exists_def ks_get_def ks_ttl_def ks_hget_def ks_hgetall_def
      ks_zscore_def ks_zrangebyscore_def ks_zcard_def ks_zrange_def ks_llen_def ks_lrange_def
      read_hash_def read_zset_def read_list_def split: option.splits rvalue.splits)

lemma hash_keeps [keep_rules]:
  "keeps well_typed (write_hash (format_job_key j) g)"
  "keeps well_typed (ks_hset (format_job_key j) fvs)"
  "keeps well_typed (ks_hdel (format_job_key j) fs)"
  "keeps well_typed (ks_hincrby (format_job_key j) f n)"
proof -
  show w: "keeps well_typed (write_hash (format_job_key j) g)" for g
    by (simp add: keeps_def write_hash_state)
  show "keeps well_typed (ks_hset (format_job_key j) fvs)"
    unfolding ks_hset_def by (intro keep_rules w)
  show "keeps well_typed (ks_hdel (format_job_key j) fs)"
    unfolding ks_hdel_def by (rule w)
  show "keeps well_typed (ks_hincrby (format_job_key j) f n)"
    unfolding ks_hincrby_def by (intro keep_rules w)
qed

lemma zset_list_stream_keeps [keep_rules]:
  "keeps well_typed (ks_zadd (format_queue_key q) sc m)"
  "keeps well_typed (ks_zadd (active_jobs_key w) sc m)"
  "keeps well_typed (ks_zrem (format_queue_key q) m)"
  "keeps well_typed (ks_zrem (active_jobs_key w) m)"
  "keeps well_typed (ks_lpush (format_dlq_key d) x)"
  "keeps well_typed (ks_lrem (format_dlq_key d) x)"
  "keeps well_typed (ks_xadd (format_job_events_key j) fvs)"
  by (auto simp: keeps_def effects)

lemma key_keeps [keep_rules]:
  "keeps well_typed (ks_set (format_lock_key j) v nx e)"
  "keeps well_typed (ks_set (format_unique_key u) v nx e)"
  "keeps well_typed (ks_set (format_health_key w) v nx e)"
  "keeps well_typed (ks_del k)" "keeps well_typed (ks_persist k)"
  "keeps well_typed (ks_pexpire k n)" "keeps well_typed (ks_expire k n)"
proof -
  show "keeps well_typed (ks_set (format_lock_key j) v nx e)"
    "keeps well_typed (ks_set (format_unique_key u) v nx e)"
    "keeps well_typed (ks_set (format_health_key w) v nx e)"
    by (cases "expiry_ms e"; simp add: keeps_def effects)+
  show "keeps well_typed (ks_del k)" "keeps well_typed (ks_persist k)"
    by (simp_all add: keeps_def effects)
  show p: "keeps well_typed (ks_pexpire k n)" for n
  proof (cases "0 < n")
    case True
    then show ?thesis by (simp add: keeps_def effects)
  next
    case False
    then have "snd (ks_pexpire k n ks) = del_key k ks" for ks
      by (auto simp: ks_pexpire_def del_key_def split: option.splits)
    then show ?thesis by (simp add: keeps_def)
  qed
  show "keeps well_typed (ks_expire k n)"
    using p by (simp add: keeps_def ks_expire_def)
qed

section \<open>Claiming ready jobs\<close>

lemma lua_key_literals:
  "''rrq:job:'' @ j = format_job_key j" "''rrq:lock:job:'' @ j = format_lock_key j"
  by (simp_all add: key_defs key_prefix_defs)

lemma claim_lock_timeout_valid:
  "0 < ms \<Longrightarrow> i64_ok ms \<Longrightarrow> expiry_ms (PxMs (claim_lock_timeout_ms ms ext raw))
     = Some (Some (claim_lock_timeout_ms ms ext raw))"
  by (auto simp: claim_lock_timeout_ms_def expiry_ms_def i64_ok_def Let_def split: option.splits)

text \<open>The keyspace after job \<open>j\<close> has been claimed by \<open>w\<close>.\<close>

definition claim_state ::
  "string \<Rightarrow> string \<Rightarrow> string \<Rightarrow> rat \<Rightarrow> int \<Rightarrow> string \<Rightarrow> keyspace \<Rightarrow> keyspace" where
  "claim_state q w start_time active_score ms j ks =
     put_zset (active_jobs_key w) (zs_put active_score j (zset_at ks (active_jobs_key w)))
       (put_hash (format_job_key j)
          (hash_put [(''status'', ''ACTIVE''), (''start_time'', start_time), (''worker_id'', w)]
             (hash_at ks (format_job_key j)))
          (put_zset (format_queue_key q) (zs_del j (zset_at ks (format_queue_key q)))
             (put_string (format_lock_key j) w (Some ms) ks)))"

lemma put_zset_id: "is_zset ks k \<Longrightarrow> z = zset_at ks k \<Longrightarrow> put_zset k z ks = ks"
  by (simp add: put_zset_same)

lemma del_put_fresh: "ks k = None \<Longrightarrow> del_key k (put_string k v t ks) = ks"
  by (simp add: del_key_def put_string_def fun_upd_idem)

lemma claim_candidate_effect:
  assumes "well_typed ks" "0 < ms" "i64_ok ms"
  shows "claim_candidate ks_redis (format_queue_key q) (active_jobs_key w) w n ms ext st asc j claimed ks =
    (if n \<le> length claimed then (Ok claimed, ks)
     else if ks (format_job_key j) = None then
       (Ok claimed, put_zset (format_queue_key q) (zs_del j (zset_at ks (format_queue_key q))) ks)
     else if ks (format_lock_key j) \<noteq> None then (Ok claimed, ks)
     else if j \<in> zs_members (zset_at ks (format_queue_key q)) then
       (Ok (claimed @ [j]),
        claim_state q w st asc
          (claim_lock_timeout_ms ms ext (fmlookup (hash_at ks (format_job_key j)) ''job_timeout_seconds'')) j ks)
     else (Ok claimed, ks))"
  using assms unfolding claim_candidate_def lua_key_literals Let_def
  by (auto simp: andThen_def ret_def effects claim_lock_timeout_valid claim_state_def
      put_zset_id del_put_fresh simp del: not_None_eq)

text \<open>
  The invariant of the loop over the candidates, relative to the keyspace \<open>ks0\<close> before the
  script: \<open>vis\<close> are the candidates visited, \<open>claimed\<close> the result so far.
\<close>

definition claimed_from :: "keyspace \<Rightarrow> keyspace \<Rightarrow> string \<Rightarrow> string \<Rightarrow> string \<Rightarrow> string \<Rightarrow> bool" where
  "claimed_from ks0 ks q w start_time j \<longleftrightarrow>
     ks0 (format_job_key j) \<noteq> None \<and> ks0 (format_lock_key j) = None
     \<and> j \<in> zs_members (zset_at ks0 (format_queue_key q))
     \<and> string_at ks (format_lock_key j) = Some w
     \<and> hash_at ks (format_job_key j)
         = hash_put [(''status'', ''ACTIVE''), (''start_time'', start_time), (''worker_id'', w)]
             (hash_at ks0 (format_job_key j))"

definition claim_inv ::
  "string \<Rightarrow> string \<Rightarrow> string \<Rightarrow> nat \<Rightarrow> keyspace \<Rightarrow> string set \<Rightarrow> string list \<Rightarrow> keyspace \<Rightarrow> bool" where
  "claim_inv q w start_time n ks0 vis claimed ks \<longleftrightarrow>
     well_typed ks \<and> length claimed \<le> n \<and> distinct claimed \<and> set claimed \<subseteq> vis
     \<and> (\<forall>j \<in> set claimed. claimed_from ks0 ks q w start_time j)
     \<and> (\<forall>j. j \<notin> set claimed \<longrightarrow> ks (format_job_key j) = ks0 (format_job_key j)
                               \<and> ks (format_lock_key j) = ks0 (format_lock_key j))
     \<and> (\<exists>gone. (\<forall>j \<in> gone. ks0 (format_job_key j) = None)
          \<and> zset_at ks (format_queue_key q)
              = filter (\<lambda>p. snd p \<notin> set claimed \<and> snd p \<notin> gone) (zset_at ks0 (format_queue_key q)))
     \<and> zs_members (zset_at ks (active_jobs_key w))
         = zs_members (zset_at ks0 (active_jobs_key w)) \<union> set claimed"

lemma zs_del_filter: "zs_del j (filter P z) = filter (\<lambda>p. P p \<and> snd p \<noteq> j) z"
  by (simp add: zs_del_def conj_commute)

lemma claim_inv_mono: "claim_inv q w st n ks0 vis claimed ks \<Longrightarrow> vis \<subseteq> vis' \<Longrightarrow>
  claim_inv q w st n ks0 vis' claimed ks"
  by (auto simp: claim_inv_def)

lemma claim_inv_gone:
  assumes inv: "claim_inv q w st n ks0 vis claimed ks" and j: "ks0 (format_job_key j) = None"
  shows "claim_inv q w st n ks0 vis claimed
    (put_zset (format_queue_key q) (zs_del j (zset_at ks (format_queue_key q))) ks)"
proof -
  obtain gone where g: "\<forall>i \<in> gone. ks0 (format_job_key i) = None"
    "zset_at ks (format_queue_key q)
       = filter (\<lambda>p. snd p \<notin> set claimed \<and> snd p \<notin> gone) (zset_at ks0 (format_queue_key q))"
    using inv by (auto simp: claim_inv_def)
  have "\<exists>gone. (\<forall>i \<in> gone. ks0 (format_job_key i) = None)
      \<and> zs_del j (zset_at ks (format_queue_key q))
          = filter (\<lambda>p. snd p \<notin> set claimed \<and> snd p \<notin> gone) (zset_at ks0 (format_queue_key q))"
    using g j by (intro exI [of _ "insert j gone"]) (auto simp: zs_del_filter intro: filter_cong)
  with inv show ?thesis
    by (simp add: claim_inv_def claimed_from_def)
qed

lemma claim_inv_claim:
  assumes inv: "claim_inv q w st n ks0 vis claimed ks" and j: "j \<notin> vis" "length claimed < n"
    and free: "ks (format_job_key j) \<noteq> None" "ks (format_lock_key j) = None"
    and queued: "j \<in> zs_members (zset_at ks (format_queue_key q))"
  shows "claim_inv q w st n ks0 (insert j vis) (claimed @ [j]) (claim_state q w st asc ms j ks)"
proof -
  have wt: "well_typed ks" and nc: "j \<notin> set claimed" using inv j by (auto simp: claim_inv_def)
  have same: "ks (format_job_key j) = ks0 (format_job_key j)" "ks (format_lock_key j) = ks0 (format_lock_key j)"
    using inv nc by (auto simp: claim_inv_def)
  have h: "hash_at ks (format_job_key j) = hash_at ks0 (format_job_key j)"
    using same(1) by (rule view_cong)
  obtain gone where g: "\<forall>i \<in> gone. ks0 (format_job_key i) = None"
    "zset_at ks (format_queue_key q)
       = filter (\<lambda>p. snd p \<notin> set claimed \<and> snd p \<notin> gone) (zset_at ks0 (format_queue_key q))"
    using inv by (auto simp: claim_inv_def)
  have "zs_del j (zset_at ks (format_queue_key q))
     = filter (\<lambda>p. snd p \<notin> set (claimed @ [j]) \<and> snd p \<notin> gone) (zset_at ks0 (format_queue_key q))"
    using g by (auto simp: zs_del_filter intro: filter_cong)
  then have q': "\<exists>gone. (\<forall>i \<in> gone. ks0 (format_job_key i) = None)
      \<and> zs_del j (zset_at ks (format_queue_key q))
        = filter (\<lambda>p. snd p \<notin> set (claimed @ [j]) \<and> snd p \<notin> gone) (zset_at ks0 (format_queue_key q))"
    using g by blast
  have m0: "j \<in> zs_members (zset_at ks0 (format_queue_key q))"
    using queued g by (auto simp: zs_members_def)
  have old: "\<forall>i \<in> set claimed. claimed_from ks0 (claim_state q w st asc ms j ks) q w st i"
    using inv nc by (auto simp: claim_inv_def claimed_from_def claim_state_def)
  have new: "claimed_from ks0 (claim_state q w st asc ms j ks) q w st j"
    using free same h m0 by (auto simp: claimed_from_def claim_state_def)
  have other: "claim_state q w st asc ms j ks (format_job_key i) = ks (format_job_key i)"
    "claim_state q w st asc ms j ks (format_lock_key i) = ks (format_lock_key i)" if "i \<noteq> j" for i
    using that by (simp_all add: claim_state_def)
  show ?thesis
    unfolding claim_inv_def
  proof (intro conjI)
    show "well_typed (claim_state q w st asc ms j ks)"
      using wt by (simp add: claim_state_def)
    show "length (claimed @ [j]) \<le> n" "distinct (claimed @ [j])" "set (claimed @ [j]) \<subseteq> insert j vis"
      using inv j nc by (auto simp: claim_inv_def)
    show "\<forall>i \<in> set (claimed @ [j]). claimed_from ks0 (claim_state q w st asc ms j ks) q w st i"
      using old new by simp
    show "\<forall>i. i \<notin> set (claimed @ [j]) \<longrightarrow>
        claim_state q w st asc ms j ks (format_job_key i) = ks0 (format_job_key i)
      \<and> claim_state q w st asc ms j ks (format_lock_key i) = ks0 (format_lock_key i)"
      using inv other by (simp add: claim_inv_def)
    show "\<exists>gone. (\<forall>i \<in> gone. ks0 (format_job_key i) = None)
      \<and> zset_at (claim_state q w st asc ms j ks) (format_queue_key q)
        = filter (\<lambda>p. snd p \<notin> set (claimed @ [j]) \<and> snd p \<notin> gone) (zset_at ks0 (format_queue_key q))"
      using q' by (simp add: claim_state_def)
    show "zs_members (zset_at (claim_state q w st asc ms j ks) (active_jobs_key w))
        = zs_members (zset_at ks0 (active_jobs_key w)) \<union> set (claimed @ [j])"
      using inv by (simp add: claim_inv_def claim_state_def)
  qed
qed

lemma claim_candidate_inv:
  assumes inv: "claim_inv q w st n ks0 vis claimed ks" and j: "j \<notin> vis" and ms: "0 < ms" "i64_ok ms"
    and run: "claim_candidate ks_redis (format_queue_key q) (active_jobs_key w) w n ms ext st asc j claimed ks
      = (r, ks')"
  shows "\<exists>claimed'. r = Ok claimed' \<and> claim_inv q w st n ks0 (insert j vis) claimed' ks'"
proof -
  have wt: "well_typed ks" and same: "ks (format_job_key j) = ks0 (format_job_key j)"
    using inv j by (auto simp: claim_inv_def)
  have inv': "claim_inv q w st n ks0 (insert j vis) claimed ks"
    by (rule claim_inv_mono [OF inv]) blast
  note effect = run [unfolded claim_candidate_effect [OF wt ms]]
  consider (full) "n \<le> length claimed" | (gone) "length claimed < n" "ks (format_job_key j) = None"
    | (locked) "length claimed < n" "ks (format_job_key j) \<noteq> None" "ks (format_lock_key j) \<noteq> None"
    | (claim) "length claimed < n" "ks (format_job_key j) \<noteq> None" "ks (format_lock_key j) = None"
        "j \<in> zs_members (zset_at ks (format_queue_key q))"
    | (absent) "length claimed < n" "ks (format_job_key j) \<noteq> None" "ks (format_lock_key j) = None"
        "j \<notin> zs_members (zset_at ks (format_queue_key q))"
    by (cases "n \<le> length claimed"; cases "ks (format_job_key j) = None";
        cases "ks (format_lock_key j) = None"; cases "j \<in> zs_members (zset_at ks (format_queue_key q))")
      (simp_all add: not_le)
  then show ?thesis
  proof cases
    case gone
    then show ?thesis
      using effect claim_inv_gone [OF inv', of j] same by auto
  next
    case claim
    then show ?thesis
      using effect claim_inv_claim [OF inv j claim] by auto
  qed (use effect inv' in auto)
qed

lemma claim_loop_inv:
  assumes "claim_inv q w st n ks0 vis claimed ks" "distinct cs" "set cs \<inter> vis = {}" "0 < ms" "i64_ok ms"
    and "foldIO (claim_candidate ks_redis (format_queue_key q) (active_jobs_key w) w n ms ext st asc)
           cs claimed ks = (r, ks')"
  shows "\<exists>claimed'. r = Ok claimed' \<and> claim_inv q w st n ks0 (vis \<union> set cs) claimed' ks'"
  using assms
proof (induction cs arbitrary: vis claimed ks)
  case Nil
  then show ?case by (auto simp: ret_def)
next
  case (Cons j cs)
  obtain q1 ks1 where step: "claim_candidate ks_redis (format_queue_key q) (active_jobs_key w) w n ms ext
      st asc j claimed ks = (q1, ks1)" by fastforce
  obtain c1 where c1: "q1 = Ok c1" "claim_inv q w st n ks0 (insert j vis) c1 ks1"
    using claim_candidate_inv [OF Cons.prems(1) _ Cons.prems(4,5) step] Cons.prems(3) by auto
  have "foldIO (claim_candidate ks_redis (format_queue_key q) (active_jobs_key w) w n ms ext st asc)
      cs c1 ks1 = (r, ks')"
    using Cons.prems(6) step c1 by (simp add: andThen_Ok)
  moreover have "distinct cs" "set cs \<inter> insert j vis = {}" using Cons.prems by auto
  ultimately show ?case
    using Cons.IH [OF c1(2) _ _ Cons.prems(4,5)] by simp
qed

lemma claim_inv_init: "well_typed ks \<Longrightarrow> claim_inv q w st n ks {} [] ks"
  by (auto simp: claim_inv_def intro!: exI [of _ "{}"])

lemma lua_claim_ready_spec:
  assumes "well_typed ks" "0 < ms" "i64_ok ms"
    and run: "lua_claim_ready ks_redis (format_queue_key q) (active_jobs_key w) w now n ms ext st asc ks = (r, ks')"
  shows "\<exists>claimed. r = Ok claimed
    \<and> claim_inv q w st n ks (set (zs_upto now (zset_at ks (format_queue_key q)))) claimed ks'"
proof (cases "n = 0")
  case True
  with run show ?thesis
    using claim_inv_mono [OF claim_inv_init [OF assms(1)]] by (auto simp: lua_claim_ready_def ret_def)
next
  case False
  let ?cs = "take (max (n * 4) n) (zs_upto now (zset_at ks (format_queue_key q)))"
  have "foldIO (claim_candidate ks_redis (format_queue_key q) (active_jobs_key w) w n ms ext st asc)
      ?cs [] ks = (r, ks')"
    using run False assms by (simp add: lua_claim_ready_def Let_def andThen_def effects)
  moreover have "distinct ?cs"
    using assms(1) by (intro distinct_take distinct_zs_upto) simp
  ultimately obtain claimed where "r = Ok claimed" "claim_inv q w st n ks ({} \<union> set ?cs) claimed ks'"
    using claim_loop_inv [OF claim_inv_init [OF assms(1)] _ _ assms(2,3)] by blast
  moreover have "{} \<union> set ?cs \<subseteq> set (zs_upto now (zset_at ks (format_queue_key q)))"
    by (simp add: set_take_subset)
  ultimately show ?thesis
    by (intro exI [of _ claimed] conjI) (simp, rule claim_inv_mono)
qed

text \<open>What the invariant says at the end, in terms of the views.\<close>

lemma zs_score_filter:
  "(\<And>p. p \<in> set z \<Longrightarrow> snd p = j \<Longrightarrow> P p) \<Longrightarrow> zs_score j (filter P z) = zs_score j z"
  by (induction z) (auto simp: zs_score_def)

lemma claim_inv_facts:
  assumes inv: "claim_inv q w st n ks0 vis claimed ks"
  shows "length claimed \<le> n" "distinct claimed"
    "j \<in> set claimed \<Longrightarrow> j \<in> vis"
    "j \<in> set claimed \<Longrightarrow> ks0 (format_job_key j) \<noteq> None"
    "j \<in> set claimed \<Longrightarrow> ks0 (format_lock_key j) = None"
    "j \<in> set claimed \<Longrightarrow> string_at ks (format_lock_key j) = Some w"
    "j \<in> set claimed \<Longrightarrow> fmlookup (hash_at ks (format_job_key j)) ''status'' = Some ''ACTIVE''"
    "j \<in> set claimed \<Longrightarrow> fmlookup (hash_at ks (format_job_key j)) ''worker_id'' = Some w"
    "j \<in> set claimed \<Longrightarrow> j \<in> zs_members (zset_at ks (active_jobs_key w))"
    "j \<in> set claimed \<Longrightarrow> j \<notin> zs_members (zset_at ks (format_queue_key q))"
    "j \<notin> set claimed \<Longrightarrow> ks (format_job_key j) = ks0 (format_job_key j)"
    "j \<notin> set claimed \<Longrightarrow> ks (format_lock_key j) = ks0 (format_lock_key j)"
    "j \<notin> set claimed \<Longrightarrow> ks0 (format_job_key j) \<noteq> None \<Longrightarrow>
       zs_score j (zset_at ks (format_queue_key q)) = zs_score j (zset_at ks0 (format_queue_key q))"
proof -
  obtain gone where g: "\<forall>i \<in> gone. ks0 (format_job_key i) = None"
    "zset_at ks (format_queue_key q)
       = filter (\<lambda>p. snd p \<notin> set claimed \<and> snd p \<notin> gone) (zset_at ks0 (format_queue_key q))"
    using inv by (auto simp: claim_inv_def)
  show "j \<in> set claimed \<Longrightarrow> j \<notin> zs_members (zset_at ks (format_queue_key q))"
    by (auto simp: g(2) zs_members_def)
  show "j \<notin> set claimed \<Longrightarrow> ks0 (format_job_key j) \<noteq> None \<Longrightarrow>
       zs_score j (zset_at ks (format_queue_key q)) = zs_score j (zset_at ks0 (format_queue_key q))"
    using g(1) by (subst g(2)) (rule zs_score_filter, auto)
qed (use inv in \<open>auto simp: claim_inv_def claimed_from_def\<close>)

end
