(* ===== verification/Store.thy ===== *)
theory Store
  imports Script_Facts Job
begin

text \<open>
  The job store (\<open>orchestrator/src/store.rs\<close>), one definition per operation. The store's
  connection is the server \<open>R\<close>, its serialisation the codec \<open>C\<close>, and of its settings it
  reads \<open>default_max_retries\<close>. The clock (\<open>Utc::now()\<close>) is an argument \<open>now\<close>; a loop over
  \<open>SCAN\<close> takes the pages of keys the server replied.
\<close>

section \<open>Transactions\<close>

text \<open>
  \<open>MULTI ... EXEC\<close> (an atomic pipeline): every command runs, in order and without
  interruption; the call returns the first error.
\<close>

fun multi :: "('s, unit) io list \<Rightarrow> ('s, unit) io" where
  "multi [] = ret ()"
| "multi (m # ms) =
     andThen (attempt m) (\<lambda>r. andThen (attempt (multi ms)) (\<lambda>q.
       case r of Inl e \<Rightarrow> fail e
       | Inr _ \<Rightarrow> (case q of Inl e \<Rightarrow> fail e | Inr _ \<Rightarrow> ret ())))"

definition ignore :: "('s, 'a) io \<Rightarrow> ('s, unit) io" where
  "ignore m = andThen m (\<lambda>_. ret ())"

section \<open>Job definitions\<close>

definition save_job_definition :: "'r redis \<Rightarrow> codec \<Rightarrow> job \<Rightarrow> ('r, unit) io" where
  "save_job_definition R C job = r_hset R (format_job_key (j_id job)) (build_job_mapping C job)"

definition atomic_enqueue_job :: "'r redis \<Rightarrow> codec \<Rightarrow> job \<Rightarrow> string \<Rightarrow> rat \<Rightarrow> ('r, bool) io" where
  "atomic_enqueue_job R C job queue_name score_ms =
     andThen (lua_enqueue R (format_job_key (j_id job)) (format_queue_key queue_name)
                (build_job_mapping C job) score_ms (j_id job))
       (\<lambda>created. ret (created = 1))"

definition get_job_definition :: "'r redis \<Rightarrow> codec \<Rightarrow> int \<Rightarrow> string \<Rightarrow> ('r, job option) io" where
  "get_job_definition R C default_max_retries job_id =
     andThen (r_hgetall R (format_job_key job_id)) (\<lambda>raw.
       if raw = fmempty then ret None
       else case parse_job_map C raw job_id default_max_retries of
              Inl e \<Rightarrow> fail e
            | Inr job \<Rightarrow> ret (Some job))"

definition get_job_data_map_by_key :: "'r redis \<Rightarrow> string \<Rightarrow> ('r, rhash option) io" where
  "get_job_data_map_by_key R job_key =
     andThen (r_hgetall R job_key) (\<lambda>raw. ret (if raw = fmempty then None else Some raw))"

definition get_job_data_map :: "'r redis \<Rightarrow> string \<Rightarrow> ('r, rhash option) io" where
  "get_job_data_map R job_id = get_job_data_map_by_key R (format_job_key job_id)"

definition get_job_data_maps :: "'r redis \<Rightarrow> string list \<Rightarrow> ('r, rhash option list) io" where
  "get_job_data_maps R job_ids =
     foldIO (\<lambda>job_id maps. andThen (r_hgetall R (format_job_key job_id)) (\<lambda>raw.
       ret (maps @ [if raw = fmempty then None else Some raw]))) job_ids []"

definition get_job_definitions ::
  "'r redis \<Rightarrow> codec \<Rightarrow> int \<Rightarrow> string list \<Rightarrow> ('r, job option list) io" where
  "get_job_definitions R C default_max_retries job_ids =
     andThen (get_job_data_maps R job_ids) (\<lambda>maps.
       ret (map (\<lambda>(job_id, m). case m of
                    Some raw \<Rightarrow> (case parse_job_map C raw job_id default_max_retries of
                                   Inl _ \<Rightarrow> None | Inr job \<Rightarrow> Some job)
                  | None \<Rightarrow> None) (zip job_ids maps)))"

definition update_job_status :: "'r redis \<Rightarrow> string \<Rightarrow> JobStatus \<Rightarrow> ('r, unit) io" where
  "update_job_status R job_id status =
     r_hset R (format_job_key job_id) [(''status'', as_str status)]"

definition update_job_fields :: "'r redis \<Rightarrow> string \<Rightarrow> (string \<times> string) list \<Rightarrow> ('r, unit) io" where
  "update_job_fields R job_id fvs =
     (if fvs = [] then ret () else r_hset R (format_job_key job_id) fvs)"

section \<open>Queues\<close>

definition add_job_to_queue :: "'r redis \<Rightarrow> string \<Rightarrow> string \<Rightarrow> rat \<Rightarrow> ('r, unit) io" where
  "add_job_to_queue R queue_name job_id score_ms = r_zadd R (format_queue_key queue_name) score_ms job_id"

definition queue_exists :: "'r redis \<Rightarrow> string \<Rightarrow> ('r, bool) io" where
  "queue_exists R queue_name = r_exists R (format_queue_key queue_name)"

definition get_ready_job_ids :: "'r redis \<Rightarrow> datetime \<Rightarrow> string \<Rightarrow> nat \<Rightarrow> ('r, string list) io" where
  "get_ready_job_ids R now queue_name max_ids =
     (if max_ids = 0 then ret []
      else r_zrangebyscore R (format_queue_key queue_name) (of_int (timestamp_millis now)) max_ids)"

definition remove_job_from_queue :: "'r redis \<Rightarrow> string \<Rightarrow> string \<Rightarrow> ('r, int) io" where
  "remove_job_from_queue R queue_name job_id = r_zrem R (format_queue_key queue_name) job_id"

definition queue_size :: "'r redis \<Rightarrow> string \<Rightarrow> ('r, int) io" where
  "queue_size R queue_name = r_zcard R (format_queue_key queue_name)"

definition queue_range_with_scores ::
  "'r redis \<Rightarrow> string \<Rightarrow> int \<Rightarrow> int \<Rightarrow> ('r, (string \<times> rat) list) io" where
  "queue_range_with_scores R queue_name start stop = r_zrange R (format_queue_key queue_name) start stop"

definition is_job_queued :: "'r redis \<Rightarrow> string \<Rightarrow> string \<Rightarrow> ('r, bool) io" where
  "is_job_queued R queue_name job_id =
     andThen (r_zscore R (format_queue_key queue_name) job_id) (\<lambda>score. ret (score \<noteq> None))"

section \<open>Claiming and locks\<close>

definition atomic_lock_and_start_job ::
  "'r redis \<Rightarrow> codec \<Rightarrow> string \<Rightarrow> string \<Rightarrow> string \<Rightarrow> int \<Rightarrow> datetime \<Rightarrow> ('r, bool \<times> int) io" where
  "atomic_lock_and_start_job R C job_id queue_name worker_id lock_timeout_ms start_time =
     andThen (lua_lock_and_start R (format_lock_key job_id) (format_queue_key queue_name)
                (format_job_key job_id) (active_jobs_key worker_id) worker_id lock_timeout_ms job_id
                (to_rfc3339 C start_time) (of_int (timestamp_secs start_time)))
       (\<lambda>(r0, r1). ret (r0 \<noteq> 0, r1))"

definition atomic_claim_ready_jobs ::
  "'r redis \<Rightarrow> codec \<Rightarrow> datetime \<Rightarrow> string \<Rightarrow> string \<Rightarrow> int \<Rightarrow> int \<Rightarrow> nat \<Rightarrow> datetime
    \<Rightarrow> ('r, string list) io" where
  "atomic_claim_ready_jobs R C now queue_name worker_id default_lock_timeout_ms
       lock_timeout_extension_seconds max_claims start_time =
     (if max_claims = 0 then ret []
      else if default_lock_timeout_ms \<le> 0 then fail (Bail ''lock_timeout_ms must be positive'')
      else if lock_timeout_extension_seconds < 0
           then fail (Bail ''lock_timeout_extension_seconds must be >= 0'')
      else lua_claim_ready R (format_queue_key queue_name) (active_jobs_key worker_id) worker_id
             (of_int (timestamp_millis now)) max_claims default_lock_timeout_ms
             lock_timeout_extension_seconds (to_rfc3339 C start_time) (of_int (timestamp_secs start_time)))"

definition refresh_job_lock_timeout :: "'r redis \<Rightarrow> string \<Rightarrow> string \<Rightarrow> int \<Rightarrow> ('r, bool) io" where
  "refresh_job_lock_timeout R job_id worker_id lock_timeout_ms =
     (if lock_timeout_ms \<le> 0 then fail (Bail ''lock_timeout_ms must be positive'')
      else andThen (lua_refresh_lock R (format_lock_key job_id) worker_id lock_timeout_ms)
             (\<lambda>refreshed. ret (refreshed \<noteq> 0)))"

definition release_job_lock :: "'r redis \<Rightarrow> string \<Rightarrow> ('r, unit) io" where
  "release_job_lock R job_id = ignore (r_del R (format_lock_key job_id))"

definition release_job_lock_if_owner :: "'r redis \<Rightarrow> string \<Rightarrow> string \<Rightarrow> ('r, bool) io" where
  "release_job_lock_if_owner R job_id worker_id =
     andThen (lua_release_lock_if_owner R (format_lock_key job_id) worker_id)
       (\<lambda>released. ret (released \<noteq> 0))"

definition try_lock_job :: "'r redis \<Rightarrow> string \<Rightarrow> string \<Rightarrow> int \<Rightarrow> ('r, bool) io" where
  "try_lock_job R job_id worker_id lock_timeout_ms =
     r_set R (format_lock_key job_id) worker_id True (PxMs lock_timeout_ms)"

definition get_job_lock_owner :: "'r redis \<Rightarrow> string \<Rightarrow> ('r, string option) io" where
  "get_job_lock_owner R job_id = r_get R (format_lock_key job_id)"

definition acquire_unique_job_lock :: "'r redis \<Rightarrow> string \<Rightarrow> string \<Rightarrow> int \<Rightarrow> ('r, bool) io" where
  "acquire_unique_job_lock R unique_key job_id lock_ttl_seconds =
     r_set R (format_unique_key unique_key) job_id True (ExSec lock_ttl_seconds)"

definition release_unique_job_lock :: "'r redis \<Rightarrow> string \<Rightarrow> ('r, unit) io" where
  "release_unique_job_lock R unique_key = ignore (r_del R (format_unique_key unique_key))"

definition get_lock_ttl :: "'r redis \<Rightarrow> string \<Rightarrow> ('r, int) io" where
  "get_lock_ttl R unique_key =
     andThen (r_ttl R (format_unique_key unique_key)) (\<lambda>ttl. ret (if 0 < ttl then ttl else 0))"

section \<open>Active jobs\<close>

definition track_active_job :: "'r redis \<Rightarrow> string \<Rightarrow> string \<Rightarrow> datetime \<Rightarrow> ('r, unit) io" where
  "track_active_job R worker_id job_id start_time =
     r_zadd R (active_jobs_key worker_id) (of_int (timestamp_secs start_time)) job_id"

definition remove_active_job :: "'r redis \<Rightarrow> string \<Rightarrow> string \<Rightarrow> ('r, unit) io" where
  "remove_active_job R worker_id job_id = ignore (r_zrem R (active_jobs_key worker_id) job_id)"

definition get_active_job_ids :: "'r redis \<Rightarrow> string \<Rightarrow> ('r, string list) io" where
  "get_active_job_ids R worker_id =
     andThen (r_zrange R (active_jobs_key worker_id) 0 (- 1)) (\<lambda>es. ret (map fst es))"

section \<open>Job transitions\<close>

definition mark_job_started :: "'r redis \<Rightarrow> codec \<Rightarrow> string \<Rightarrow> string \<Rightarrow> datetime \<Rightarrow> ('r, unit) io" where
  "mark_job_started R C job_id worker_id start_time =
     andThen (r_hset R (format_job_key job_id)
                [(''status'', as_str Active), (''start_time'', to_rfc3339 C start_time),
                 (''worker_id'', worker_id)])
       (\<lambda>_. track_active_job R worker_id job_id start_time)"

definition mark_job_pending :: "'r redis \<Rightarrow> string \<Rightarrow> string option \<Rightarrow> ('r, unit) io" where
  "mark_job_pending R job_id last_error =
     (let job_key = format_job_key job_id
      in multi ([r_hset R job_key [(''status'', as_str Pending)]]
           @ (case last_error of None \<Rightarrow> [] | Some error \<Rightarrow> [r_hset R job_key [(''last_error'', error)]])
           @ [r_hdel R job_key [''start_time''], r_hdel R job_key [''worker_id'']]))"

definition update_job_next_scheduled_run_time ::
  "'r redis \<Rightarrow> codec \<Rightarrow> string \<Rightarrow> datetime \<Rightarrow> ('r, unit) io" where
  "update_job_next_scheduled_run_time R C job_id run_time =
     r_hset R (format_job_key job_id) [(''next_scheduled_run_time'', to_rfc3339 C run_time)]"

definition atomic_retry_job ::
  "'r redis \<Rightarrow> string \<Rightarrow> string \<Rightarrow> rat \<Rightarrow> string \<Rightarrow> JobStatus \<Rightarrow> ('r, int) io" where
  "atomic_retry_job R job_id queue_name retry_at_score error_message status =
     lua_retry R (format_job_key job_id) (format_queue_key queue_name) job_id retry_at_score
       error_message (as_str status)"

definition atomic_move_job_to_dlq ::
  "'r redis \<Rightarrow> codec \<Rightarrow> string \<Rightarrow> string \<Rightarrow> string \<Rightarrow> datetime \<Rightarrow> int \<Rightarrow> string option \<Rightarrow> ('r, int) io" where
  "atomic_move_job_to_dlq R C job_id dlq_name error_message completion_time dlq_result_ttl_seconds
       unique_lock_key =
     lua_move_to_dlq R (format_job_key job_id) (format_job_events_key job_id) (format_dlq_key dlq_name)
       (case unique_lock_key of None \<Rightarrow> [] | Some k \<Rightarrow> k) job_id error_message
       (to_rfc3339 C completion_time) dlq_result_ttl_seconds"

definition atomic_requeue_job ::
  "'r redis \<Rightarrow> string \<Rightarrow> string \<Rightarrow> rat \<Rightarrow> string \<Rightarrow> string \<Rightarrow> string option \<Rightarrow> string option \<Rightarrow> ('r, int) io"
  where
  "atomic_requeue_job R job_id queue_name score requeue_message releasing_owner active_worker_id
       next_scheduled_run_time =
     lua_requeue_job R (format_job_key job_id) (format_queue_key queue_name)
       (case active_worker_id of None \<Rightarrow> [] | Some w \<Rightarrow> active_jobs_key w) (format_lock_key job_id)
       job_id score requeue_message releasing_owner
       (case next_scheduled_run_time of None \<Rightarrow> [] | Some t \<Rightarrow> t)"

definition increment_job_retries :: "'r redis \<Rightarrow> string \<Rightarrow> ('r, int) io" where
  "increment_job_retries R job_id = r_hincrby R (format_job_key job_id) ''current_retries'' 1"

definition move_job_to_dlq ::
  "'r redis \<Rightarrow> codec \<Rightarrow> string \<Rightarrow> string \<Rightarrow> string \<Rightarrow> datetime \<Rightarrow> ('r, unit) io" where
  "move_job_to_dlq R C job_id dlq_name error_message completion_time =
     (let job_key = format_job_key job_id; events_key = format_job_events_key job_id
      in multi
           [r_hset R job_key [(''status'', as_str Failed)],
            r_hset R job_key [(''last_error'', error_message)],
            r_hset R job_key [(''completion_time'', to_rfc3339 C completion_time)],
            r_xadd R events_key [(''event'', ''failed''), (''job_id'', job_id), (''status'', as_str Failed)],
            r_lpush R (format_dlq_key dlq_name) job_id,
            ignore (r_expire R job_key DEFAULT_DLQ_RESULT_TTL_SECONDS),
            ignore (r_expire R events_key DEFAULT_DLQ_RESULT_TTL_SECONDS)])"

definition save_job_result ::
  "'r redis \<Rightarrow> codec \<Rightarrow> datetime \<Rightarrow> string \<Rightarrow> json \<Rightarrow> int \<Rightarrow> ('r, unit) io" where
  "save_job_result R C now job_id result ttl_seconds =
     (let job_key = format_job_key job_id; events_key = format_job_events_key job_id
      in multi
          ([r_hset R job_key [(''result'', json_text C result)],
            r_hset R job_key [(''completion_time'', to_rfc3339 C now)],
            r_hset R job_key [(''status'', as_str Completed)],
            r_xadd R events_key [(''event'', ''completed''), (''job_id'', job_id),
              (''status'', as_str Completed)]]
           @ (if 0 < ttl_seconds then
                [ignore (r_expire R job_key ttl_seconds), ignore (r_expire R events_key ttl_seconds)]
              else if ttl_seconds = 0 then
                [ignore (r_persist R job_key), ignore (r_persist R events_key)]
              else [])))"

section \<open>Dead letter queue, health, maintenance\<close>

definition dlq_len :: "'r redis \<Rightarrow> string \<Rightarrow> ('r, int) io" where
  "dlq_len R dlq_name = r_llen R (format_dlq_key dlq_name)"

definition dlq_remove_job :: "'r redis \<Rightarrow> string \<Rightarrow> string \<Rightarrow> ('r, int) io" where
  "dlq_remove_job R dlq_name job_id = r_lrem R (format_dlq_key dlq_name) job_id"

definition get_dlq_job_ids :: "'r redis \<Rightarrow> string \<Rightarrow> ('r, string list) io" where
  "get_dlq_job_ids R dlq_name = r_lrange R (format_dlq_key dlq_name) 0 (- 1)"

definition set_worker_health :: "'r redis \<Rightarrow> codec \<Rightarrow> string \<Rightarrow> params \<Rightarrow> int \<Rightarrow> ('r, unit) io" where
  "set_worker_health R C worker_id data ttl_seconds =
     ignore (r_set R (format_health_key worker_id) (json_text C (JObj data)) False (ExSec ttl_seconds))"

definition get_worker_health ::
  "'r redis \<Rightarrow> codec \<Rightarrow> string \<Rightarrow> ('r, params option \<times> int option) io" where
  "get_worker_health R C worker_id =
     (let key = format_health_key worker_id
      in andThen (r_get R key) (\<lambda>payload. andThen (r_ttl R key) (\<lambda>ttl.
         case payload of
           None \<Rightarrow> ret (None, None)
         | Some value \<Rightarrow>
             let parsed = (case Option.bind (json_parse C value) params_of_json of None \<Rightarrow> [] | Some p \<Rightarrow> p)
             in ret (Some parsed, if 0 \<le> ttl then Some ttl else None))))"

definition delete_keys_by_pattern :: "'r redis \<Rightarrow> string list list \<Rightarrow> ('r, nat) io" where
  "delete_keys_by_pattern R pages =
     foldIO (\<lambda>page_keys deleted.
       if page_keys \<noteq> [] then
         andThen (forEach page_keys (\<lambda>k. ignore (r_del R k))) (\<lambda>_. ret (deleted + length page_keys))
       else ret deleted) pages 0"

definition scan_keys_by_pattern :: "string list list \<Rightarrow> string list" where
  "scan_keys_by_pattern pages = foldl (\<lambda>acc batch. acc @ batch) [] pages"

definition flushdb :: "'r redis \<Rightarrow> ('r, unit) io" where
  "flushdb R = r_flushdb R"

section \<open>Refinement, typing and footprints\<close>

lemmas query_op_defs = get_job_definition_def get_job_data_map_by_key_def get_job_data_map_def
  get_job_data_maps_def get_job_definitions_def queue_exists_def get_ready_job_ids_def queue_size_def
  queue_range_with_scores_def is_job_queued_def get_job_lock_owner_def get_lock_ttl_def
  get_active_job_ids_def dlq_len_def get_dlq_job_ids_def get_worker_health_def

lemmas update_op_defs = save_job_definition_def atomic_enqueue_job_def update_job_status_def
  update_job_fields_def add_job_to_queue_def remove_job_from_queue_def atomic_lock_and_start_job_def
  atomic_claim_ready_jobs_def refresh_job_lock_timeout_def release_job_lock_def
  release_job_lock_if_owner_def try_lock_job_def acquire_unique_job_lock_def
  release_unique_job_lock_def track_active_job_def remove_active_job_def mark_job_started_def
  mark_job_pending_def update_job_next_scheduled_run_time_def atomic_retry_job_def
  atomic_move_job_to_dlq_def atomic_requeue_job_def increment_job_retries_def move_job_to_dlq_def
  save_job_result_def dlq_remove_job_def set_worker_health_def delete_keys_by_pattern_def flushdb_def

lemma sim_multi [sim_rules]: "list_all2 (sim d) ms ns \<Longrightarrow> sim d (multi ms) (multi ns)"
  by (induction ms ns rule: list_all2_induct) (auto intro!: sim_rules)

lemma sim_ignore [sim_rules]: "sim d m n \<Longrightarrow> sim d (ignore m) (ignore n)"
  unfolding ignore_def by (intro sim_rules)

lemma keeps_multi [keep_rules]: "list_all (keeps I) ms \<Longrightarrow> keeps I (multi ms)"
  by (induction ms) (auto intro!: keep_rules)

lemma keeps_ignore [keep_rules]: "keeps I m \<Longrightarrow> keeps I (ignore m)"
  unfolding ignore_def by (intro keep_rules)

lemma touches_multi [touch_rules]: "list_all (touches K) ms \<Longrightarrow> touches K (multi ms)"
  by (induction ms) (auto intro!: touch_rules)

lemma touches_ignore [touch_rules]: "touches K m \<Longrightarrow> touches K (ignore m)"
  unfolding ignore_def by (intro touch_rules)

end
