(* ===== verification/Store_Effects.thy ===== *)
theory Store_Effects
  imports Store_Facts
begin

text \<open>
  The effect of the job transitions of the store on a well-typed keyspace, as equations:
  reply and new keyspace on each branch. The worker's handlers are verified from these.
\<close>

named_theorems store_effects
  \<open>reply and new keyspace of a store operation\<close>

lemma multi_Cons_Ok:
  "m ks = (Ok (), ks1) \<Longrightarrow> multi (m # ms) ks =
     (case multi ms ks1 of (Ok _, ks2) \<Rightarrow> (Ok (), ks2) | q \<Rightarrow> q)"
  by (auto simp: andThen_def attempt_def ret_def fail_def split: prod.splits res.splits sum.splits)

lemma multi_all_Ok:
  assumes "m ks = (Ok (), ks1)" "multi ms ks1 = (Ok (), ks2)"
  shows "multi (m # ms) ks = (Ok (), ks2)"
  using assms by (simp add: multi_Cons_Ok del: multi.simps)

lemma ignore_effect: "m ks = (Ok x, ks') \<Longrightarrow> ignore m ks = (Ok (), ks')"
  by (simp add: ignore_def andThen_def ret_def)

section \<open>Locks\<close>

lemma release_if_owner_effect [store_effects]:
  assumes "well_typed ks"
  shows "release_job_lock_if_owner ks_redis j w ks =
    (if string_at ks (format_lock_key j) = Some w then (Ok True, del_key (format_lock_key j) ks)
     else (Ok False, ks))"
  using assms
  by (simp add: release_job_lock_if_owner_def lua_release_lock_if_owner_def andThen_def ret_def effects)

lemma string_at_SomeD: "string_at ks k = Some v \<Longrightarrow> ks k \<noteq> None"
  by (cases "ks k") (auto simp: string_at_def)

lemma refresh_lock_effect [store_effects]:
  assumes "well_typed ks"
  shows "refresh_job_lock_timeout ks_redis j w ms ks =
    (if ms \<le> 0 then (Err (Bail ''lock_timeout_ms must be positive''), ks)
     else if string_at ks (format_lock_key j) = Some w
          then (Ok True, put_ttl (format_lock_key j) (Some ms) ks)
     else (Ok False, ks))"
  using assms string_at_SomeD
  by (auto simp: refresh_job_lock_timeout_def lua_refresh_lock_def andThen_def ret_def fail_def effects)

lemma try_lock_effect [store_effects]:
  assumes "0 < ms" "i64_ok ms"
  shows "try_lock_job ks_redis j w ms ks =
    (if ks (format_lock_key j) = None then (Ok True, put_string (format_lock_key j) w (Some ms) ks)
     else (Ok False, ks))"
  using assms by (simp add: try_lock_job_def effects expiry_ms_def)

lemma lock_owner_effect [store_effects]:
  "well_typed ks \<Longrightarrow> get_job_lock_owner ks_redis j ks = (Ok (string_at ks (format_lock_key j)), ks)"
  by (simp add: get_job_lock_owner_def effects)

lemma release_job_lock_effect [store_effects]:
  "release_job_lock ks_redis j ks = (Ok (), del_key (format_lock_key j) ks)"
  by (simp add: release_job_lock_def ignore_def andThen_def ret_def effects)

lemma release_unique_effect [store_effects]:
  "release_unique_job_lock ks_redis u ks = (Ok (), del_key (format_unique_key u) ks)"
  by (simp add: release_unique_job_lock_def ignore_def andThen_def ret_def effects)

lemma acquire_unique_effect [store_effects]:
  assumes "0 < ttl" "i64_ok (ttl * 1000)"
  shows "acquire_unique_job_lock ks_redis u j ttl ks =
    (if ks (format_unique_key u) = None
     then (Ok True, put_string (format_unique_key u) j (Some (ttl * 1000)) ks) else (Ok False, ks))"
  using assms by (simp add: acquire_unique_job_lock_def effects expiry_ms_def)

lemma remove_active_effect [store_effects]:
  "well_typed ks \<Longrightarrow> remove_active_job ks_redis w j ks =
    (Ok (), put_zset (active_jobs_key w) (zs_del j (zset_at ks (active_jobs_key w))) ks)"
  by (simp add: remove_active_job_def ignore_def andThen_def ret_def effects)

section \<open>Transitions\<close>

lemma hash_put_append: "hash_put (xs @ ys) h = hash_put ys (hash_put xs h)"
  by (simp add: hash_put_def)

lemma put_hash_twice: "put_hash k h2 (put_hash k h1 ks) = (if h1 = fmempty then put_hash k h2 (del_key k ks) else put_hash k h2 ks)"
  by (auto simp: put_hash_def ttl_at_def del_key_def fun_eq_iff split: option.splits)

text \<open>The new retry count and the hash after the increment.\<close>

lemma retry_effect [store_effects]:
  assumes wt: "well_typed ks" and cnt: "hash_int (hash_at ks (format_job_key j)) ''current_retries'' = Some n"
    "i64_ok (n + 1)"
  shows "atomic_retry_job ks_redis j q sc m st ks =
    (Ok (n + 1),
     put_zset (format_queue_key q) (zs_put sc j (zset_at ks (format_queue_key q)))
       (put_hash (format_job_key j)
          (hash_put [(''current_retries'', show_int (n + 1)), (''status'', as_str st), (''last_error'', m)]
             (hash_at ks (format_job_key j))) ks))"
  using assms
  by (simp add: atomic_retry_job_def lua_retry_def andThen_def ret_def effects put_hash_twice)

definition set_opt_ttl :: "string \<Rightarrow> int \<Rightarrow> keyspace \<Rightarrow> keyspace" where
  "set_opt_ttl k n ks = (if 0 < n then put_ttl k (Some (n * 1000)) ks else ks)"

definition dlq_fields :: "string \<Rightarrow> string \<Rightarrow> (string \<times> string) list" where
  "dlq_fields m t = [(''status'', ''FAILED''), (''last_error'', m), (''completion_time'', t)]"

definition dlq_state ::
  "codec \<Rightarrow> string \<Rightarrow> string \<Rightarrow> string \<Rightarrow> datetime \<Rightarrow> int \<Rightarrow> int \<Rightarrow> keyspace \<Rightarrow> keyspace" where
  "dlq_state C j d m t ttl n ks =
     set_opt_ttl (format_job_events_key j) ttl (set_opt_ttl (format_job_key j) ttl
       (put_list (format_dlq_key d) (j # list_at ks (format_dlq_key d))
         (put_stream (format_job_events_key j)
            (stream_at ks (format_job_events_key j)
              @ [[(''event'', ''failed''), (''job_id'', j), (''status'', ''FAILED'')]])
           (put_hash (format_job_key j)
              (hash_put ((''current_retries'', show_int (n + 1)) # dlq_fields m (to_rfc3339 C t))
                 (hash_at ks (format_job_key j))) ks))))"

lemma dlq_effect [store_effects]:
  assumes wt: "well_typed ks" and cnt: "hash_int (hash_at ks (format_job_key j)) ''current_retries'' = Some n"
    "i64_ok (n + 1)" and ttl: "i64_ok (ttl * 1000)"
  shows "atomic_move_job_to_dlq ks_redis C j d m t ttl u ks =
    (Ok (n + 1),
     (case u of None \<Rightarrow> dlq_state C j d m t ttl n ks
      | Some k \<Rightarrow> if k = [] then dlq_state C j d m t ttl n ks
                  else del_key k (dlq_state C j d m t ttl n ks)))"
  using assms
  by (auto simp: atomic_move_job_to_dlq_def lua_move_to_dlq_def lua_pcall_def lua_move_to_dlq_run_def
      andThen_def attempt_def ret_def effects put_hash_twice dlq_state_def dlq_fields_def set_opt_ttl_def
      split: option.splits)

text \<open>An invalid time to live stops the script half way; the caller sees \<open>-1\<close>.\<close>

lemma dlq_overflow_effect:
  assumes wt: "well_typed ks" and cnt: "hash_int (hash_at ks (format_job_key j)) ''current_retries'' = Some n"
    "i64_ok (n + 1)" and ttl: "0 < ttl" "\<not> i64_ok (ttl * 1000)"
  shows "atomic_move_job_to_dlq ks_redis C j d m t ttl u ks = (Ok (- 1), dlq_state C j d m t 0 n ks)"
  using assms
  by (auto simp: atomic_move_job_to_dlq_def lua_move_to_dlq_def lua_pcall_def lua_move_to_dlq_run_def
      andThen_def attempt_def ret_def fail_def effects ks_expire_def put_hash_twice dlq_state_def
      dlq_fields_def set_opt_ttl_def)

section \<open>Requeueing\<close>

definition release_owned_state :: "string \<Rightarrow> string \<Rightarrow> keyspace \<Rightarrow> keyspace" where
  "release_owned_state j owner ks =
     (if owner \<noteq> [] \<and> string_at ks (format_lock_key j) = Some owner
      then del_key (format_lock_key j) ks else ks)"

definition drop_active_state :: "string \<Rightarrow> string option \<Rightarrow> keyspace \<Rightarrow> keyspace" where
  "drop_active_state j a ks = (case a of None \<Rightarrow> ks
     | Some w \<Rightarrow> put_zset (active_jobs_key w) (zs_del j (zset_at ks (active_jobs_key w))) ks)"

definition demote_hash :: "string \<Rightarrow> rhash \<Rightarrow> rhash" where
  "demote_hash m h =
     (if fmlookup h ''status'' = Some ''ACTIVE''
      then hash_del [''start_time'', ''worker_id''] (hash_put [(''status'', ''PENDING''), (''last_error'', m)] h)
      else if m \<noteq> [] then hash_put [(''last_error'', m)] h else h)"

lemma lua_release_owned_effect:
  "well_typed ks \<Longrightarrow> lua_release_owned ks_redis (format_lock_key j) owner ks
     = (Ok (), release_owned_state j owner ks)"
  by (simp add: lua_release_owned_def andThen_def ret_def effects release_owned_state_def)

lemma active_key_not_Nil [simp]: "active_jobs_key w \<noteq> []"
  by (simp add: active_jobs_key_def ACTIVE_JOBS_PREFIX_def)

lemma drop_active_effect:
  "well_typed ks \<Longrightarrow>
   lua_drop_active ks_redis (case a of None \<Rightarrow> [] | Some w \<Rightarrow> active_jobs_key w) j ks
     = (Ok (), drop_active_state j a ks)"
  by (cases a) (simp_all add: lua_drop_active_def andThen_def ret_def effects drop_active_state_def)

lemma put_hash_id: "is_hash ks k \<Longrightarrow> put_hash k (hash_at ks k) ks = ks"
  by (rule ext) (auto simp: put_hash_def view_defs split: option.splits rvalue.splits)

text \<open>The demoted keyspace, from which both branches of a requeue go on.\<close>

definition demoted :: "string \<Rightarrow> string \<Rightarrow> keyspace \<Rightarrow> keyspace" where
  "demoted j m ks = put_hash (format_job_key j) (demote_hash m (hash_at ks (format_job_key j))) ks"

lemma demoted_views [simp]:
  "well_typed ks \<Longrightarrow> well_typed (demoted j m ks)"
  "zset_at (demoted j m ks) (format_queue_key q) = zset_at ks (format_queue_key q)"
  "zset_at (demoted j m ks) (active_jobs_key w) = zset_at ks (active_jobs_key w)"
  "string_at (demoted j m ks) (format_lock_key i) = string_at ks (format_lock_key i)"
  "hash_at (demoted j m ks) (format_job_key j) = demote_hash m (hash_at ks (format_job_key j))"
  by (simp_all add: demoted_def)

lemma demote_effect:
  assumes "well_typed ks"
  shows "lua_demote ks_redis (format_job_key j) (fmlookup (hash_at ks (format_job_key j)) ''status'') m ks
    = (Ok (), demoted j m ks)"
  using assms
  by (simp add: lua_demote_def demoted_def andThen_def ret_def effects demote_hash_def put_hash_twice put_hash_id)

definition restore_state :: "string \<Rightarrow> string option \<Rightarrow> keyspace \<Rightarrow> keyspace" where
  "restore_state j ns ks = (case ns of None \<Rightarrow> ks | Some t \<Rightarrow> if t = [] then ks
     else put_hash (format_job_key j)
            (hash_put [(''next_scheduled_run_time'', t)] (hash_at ks (format_job_key j))) ks)"

lemma restore_effect:
  "well_typed ks \<Longrightarrow>
   lua_restore_schedule ks_redis (format_job_key j) (case ns of None \<Rightarrow> [] | Some t \<Rightarrow> t) ks
     = (Ok (), restore_state j ns ks)"
  by (cases ns) (simp_all add: lua_restore_schedule_def restore_state_def ret_def effects)

lemma restore_typed [simp]: "well_typed ks \<Longrightarrow> well_typed (restore_state j ns ks)"
  by (cases ns) (simp_all add: restore_state_def)

lemma drop_active_typed [simp]: "well_typed ks \<Longrightarrow> well_typed (drop_active_state j a ks)"
  by (cases a) (simp_all add: drop_active_state_def)

lemma requeue_missing [store_effects]:
  assumes "well_typed ks" "ks (format_job_key j) = None"
  shows "atomic_requeue_job ks_redis j q sc m owner a ns ks = (Ok 0, ks)"
  using assms
  by (simp add: atomic_requeue_job_def lua_requeue_job_def lua_pcall_def lua_requeue_job_run_def
      andThen_def attempt_def ret_def effects)

lemma requeue_queued [store_effects]:
  assumes wt: "well_typed ks" and there: "ks (format_job_key j) \<noteq> None"
    and queued: "zs_score j (zset_at ks (format_queue_key q)) \<noteq> None"
  shows "atomic_requeue_job ks_redis j q sc m owner a ns ks =
    (Ok 2, release_owned_state j owner (drop_active_state j a (demoted j m ks)))"
proof -
  have "ks_zscore (format_queue_key q) j (demoted j m ks)
      = (Ok (zs_score j (zset_at ks (format_queue_key q))), demoted j m ks)"
    using wt by (simp add: effects)
  then have "lua_requeue_job_run ks_redis (format_job_key j) (format_queue_key q)
      (case a of None \<Rightarrow> [] | Some w \<Rightarrow> active_jobs_key w) (format_lock_key j) j sc m owner
      (case ns of None \<Rightarrow> [] | Some t \<Rightarrow> t) ks
    = (Ok 2, release_owned_state j owner (drop_active_state j a (demoted j m ks)))"
    using wt there queued
    by (simp add: lua_requeue_job_run_def andThen_def ks_exists_effect ks_hget_effect
        demote_effect drop_active_effect lua_release_owned_effect ret_def)
  then show ?thesis
    by (simp add: atomic_requeue_job_def lua_requeue_job_def lua_pcall_def andThen_def attempt_def ret_def)
qed

definition requeue_state ::
  "string \<Rightarrow> string \<Rightarrow> rat \<Rightarrow> string \<Rightarrow> string \<Rightarrow> string option \<Rightarrow> string option \<Rightarrow> keyspace \<Rightarrow> keyspace" where
  "requeue_state j q sc m owner a ns ks =
     release_owned_state j owner (restore_state j ns (drop_active_state j a
       (put_zset (format_queue_key q) (zs_put sc j (zset_at ks (format_queue_key q))) (demoted j m ks))))"

lemma requeue_effect [store_effects]:
  assumes wt: "well_typed ks" and there: "ks (format_job_key j) \<noteq> None"
    and free: "zs_score j (zset_at ks (format_queue_key q)) = None"
  shows "atomic_requeue_job ks_redis j q sc m owner a ns ks = (Ok 1, requeue_state j q sc m owner a ns ks)"
proof -
  have "ks_zscore (format_queue_key q) j (demoted j m ks)
      = (Ok (zs_score j (zset_at ks (format_queue_key q))), demoted j m ks)"
    using wt by (simp add: effects)
  then have "lua_requeue_job_run ks_redis (format_job_key j) (format_queue_key q)
      (case a of None \<Rightarrow> [] | Some w \<Rightarrow> active_jobs_key w) (format_lock_key j) j sc m owner
      (case ns of None \<Rightarrow> [] | Some t \<Rightarrow> t) ks
    = (Ok 1, requeue_state j q sc m owner a ns ks)"
    using wt there free
    by (simp add: lua_requeue_job_run_def andThen_def ks_exists_effect ks_hget_effect
        demote_effect ks_zadd_effect drop_active_effect restore_effect lua_release_owned_effect
        ret_def requeue_state_def)
  then show ?thesis
    by (simp add: atomic_requeue_job_def lua_requeue_job_def lua_pcall_def andThen_def attempt_def ret_def)
qed

section \<open>Completion\<close>

definition put_opt_ttl :: "string \<Rightarrow> int \<Rightarrow> keyspace \<Rightarrow> keyspace" where
  "put_opt_ttl k n ks =
     (if 0 < n then put_ttl k (Some (n * 1000)) ks else if n = 0 then put_ttl k None ks else ks)"

definition result_state :: "codec \<Rightarrow> datetime \<Rightarrow> string \<Rightarrow> json \<Rightarrow> int \<Rightarrow> keyspace \<Rightarrow> keyspace" where
  "result_state C now j v ttl ks =
     put_opt_ttl (format_job_events_key j) ttl (put_opt_ttl (format_job_key j) ttl
       (put_stream (format_job_events_key j)
          (stream_at ks (format_job_events_key j)
            @ [[(''event'', ''completed''), (''job_id'', j), (''status'', ''COMPLETED'')]])
         (put_hash (format_job_key j)
            (hash_put [(''result'', json_text C v), (''completion_time'', to_rfc3339 C now),
               (''status'', ''COMPLETED'')] (hash_at ks (format_job_key j))) ks)))"

lemma save_result_effect [store_effects]:
  assumes wt: "well_typed ks" and ttl: "i64_ok (ttl * 1000)"
  shows "save_job_result ks_redis C now j v ttl ks = (Ok (), result_state C now j v ttl ks)"
  using assms
  by (auto simp: save_job_result_def andThen_def attempt_def ret_def ignore_def as_str_def effects
      put_hash_twice result_state_def put_opt_ttl_def Let_def)

lemma mark_pending_effect [store_effects]:
  assumes wt: "well_typed ks"
  shows "mark_job_pending ks_redis j e ks = (Ok (),
    put_hash (format_job_key j) (hash_del [''start_time'', ''worker_id'']
      (hash_put ((''status'', ''PENDING'') # (case e of None \<Rightarrow> [] | Some m \<Rightarrow> [(''last_error'', m)]))
        (hash_at ks (format_job_key j)))) ks)"
  using assms
  by (cases e) (simp_all add: mark_job_pending_def andThen_def attempt_def ret_def as_str_def effects
      put_hash_twice fmdrop_fmupd Let_def)

lemma move_to_dlq_effect [store_effects]:
  assumes wt: "well_typed ks"
  shows "move_job_to_dlq ks_redis C j d m t ks = (Ok (),
    put_ttl (format_job_events_key j) (Some 604800000) (put_ttl (format_job_key j) (Some 604800000)
      (put_list (format_dlq_key d) (j # list_at ks (format_dlq_key d))
         (put_stream (format_job_events_key j)
            (stream_at ks (format_job_events_key j)
              @ [[(''event'', ''failed''), (''job_id'', j), (''status'', ''FAILED'')]])
           (put_hash (format_job_key j) (hash_put (dlq_fields m (to_rfc3339 C t))
              (hash_at ks (format_job_key j))) ks)))))"
  using assms
  by (simp add: move_job_to_dlq_def andThen_def attempt_def ret_def ignore_def as_str_def effects
      put_hash_twice dlq_fields_def DEFAULT_DLQ_RESULT_TTL_SECONDS_def i64_ok_def Let_def)

lemma add_to_queue_effect [store_effects]:
  "well_typed ks \<Longrightarrow> add_job_to_queue ks_redis q j sc ks =
    (Ok (), put_zset (format_queue_key q) (zs_put sc j (zset_at ks (format_queue_key q))) ks)"
  by (simp add: add_job_to_queue_def effects)

lemma job_map_effect [store_effects]:
  "well_typed ks \<Longrightarrow> get_job_data_map ks_redis j ks =
    (Ok (if hash_at ks (format_job_key j) = fmempty then None else Some (hash_at ks (format_job_key j))), ks)"
  by (simp add: get_job_data_map_def get_job_data_map_by_key_def andThen_def ret_def effects)

lemma job_definition_effect [store_effects]:
  "well_typed ks \<Longrightarrow> get_job_definition ks_redis C n j ks =
    (if hash_at ks (format_job_key j) = fmempty then (Ok None, ks)
     else case parse_job_map C (hash_at ks (format_job_key j)) j n of
            Inl e \<Rightarrow> (Err e, ks) | Inr job \<Rightarrow> (Ok (Some job), ks))"
  by (auto simp: get_job_definition_def andThen_def ret_def fail_def effects split: sum.splits)

lemma job_queued_effect [store_effects]:
  "well_typed ks \<Longrightarrow> is_job_queued ks_redis q j ks =
    (Ok (zs_score j (zset_at ks (format_queue_key q)) \<noteq> None), ks)"
  by (simp add: is_job_queued_def andThen_def ret_def effects)

lemma next_run_effect [store_effects]:
  "well_typed ks \<Longrightarrow> update_job_next_scheduled_run_time ks_redis C j t ks =
    (Ok (), put_hash (format_job_key j)
       (hash_put [(''next_scheduled_run_time'', to_rfc3339 C t)] (hash_at ks (format_job_key j))) ks)"
  by (simp add: update_job_next_scheduled_run_time_def effects)

end
