(* ===== verification/Store_Properties.thy ===== *)
theory Store_Properties
  imports Store_Effects
begin

text \<open>
  The contract of the store, operation by operation, on any server that meets the
  interface: what enqueueing stores and finds again, what a worker gets when it claims, who
  can change a lock, and where retry, dead-lettering, requeueing and completion leave a job.
\<close>

section \<open>Enqueueing\<close>

lemma enqueue_fresh:
  assumes "well_typed ks" "ks (format_job_key (j_id job)) = None"
  shows "atomic_enqueue_job ks_redis C job q sc ks =
    (Ok True, put_zset (format_queue_key q) (zs_put sc (j_id job) (zset_at ks (format_queue_key q)))
       (put_hash (format_job_key (j_id job)) (job_hash C job) ks))"
  using assms
  by (simp add: atomic_enqueue_job_def lua_enqueue_def andThen_def ret_def effects job_hash_def)

lemma enqueue_existing:
  assumes "ks (format_job_key (j_id job)) \<noteq> None"
  shows "atomic_enqueue_job ks_redis C job q sc ks = (Ok False, ks)"
  using assms by (simp add: atomic_enqueue_job_def lua_enqueue_def andThen_def ret_def effects)

text \<open>C5. A job enqueued under a fresh id is stored whole: reading its definition back gives
  exactly the job, and the queue holds its id at the given score.\<close>

theorem atomic_enqueue_job_get_roundtrip:
  assumes server: "redis_server R db" and laws: "codec_laws C"
    and wt: "well_typed (db s)" and ok: "job_ok job"
    and fresh: "db s (format_job_key (j_id job)) = None"
  shows "\<exists>s1. atomic_enqueue_job R C job queue_name score s = (Ok True, s1)
    \<and> fst (get_job_definition R C default_max_retries (j_id job) s1) = Ok (Some job)
    \<and> zs_score (j_id job) (zset_at (db s1) (format_queue_key queue_name)) = Some score"
proof -
  obtain s1 where s1: "atomic_enqueue_job R C job queue_name score s = (Ok True, s1)"
    "db s1 = put_zset (format_queue_key queue_name)
        (zs_put score (j_id job) (zset_at (db s) (format_queue_key queue_name)))
       (put_hash (format_job_key (j_id job)) (job_hash C job) (db s))"
    using sim_run [OF redis_server.update_sims(2) [OF server] enqueue_fresh [OF wt fresh]] by blast
  have "fst (get_job_definition ks_redis C default_max_retries (j_id job) (db s1)) = Ok (Some job)"
    using wt by (simp add: s1(2) get_job_definition_def andThen_def ret_def effects
        codec_laws.parse_job_hash [OF laws ok])
  then have "fst (get_job_definition R C default_max_retries (j_id job) s1) = Ok (Some job)"
    by (simp add: sim_fst [OF redis_server.query_sims(1) [OF server]])
  moreover have "zs_score (j_id job) (zset_at (db s1) (format_queue_key queue_name)) = Some score"
    using wt by (simp add: s1(2))
  ultimately show ?thesis using s1(1) by blast
qed

definition sample_job :: "string \<Rightarrow> job" where
  "sample_job i = \<lparr> j_id = i, j_function_name = ''f'', j_params = [(''x'', JInt 1)], j_enqueue_time = 5,
     j_start_time = None, j_status = Pending, j_current_retries = 0, j_next_scheduled_run_time = Some 7,
     j_max_retries = 3, j_job_timeout_seconds = Some 60, j_result_ttl_seconds = None,
     j_unique_key = None, j_completion_time = None, j_result = None, j_last_error = None,
     j_queue_name = Some ''default'', j_dlq_name = None, j_worker_id = None,
     j_trace_context = Some [(''t'', ''1'')], j_correlation_context = None \<rparr>"

lemma sample_job_id [simp]: "j_id (sample_job i) = i"
  by (simp add: sample_job_def)

lemma sample_job_ok [simp]: "job_ok (sample_job i)"
  by (simp add: sample_job_def job_ok_def i64_ok_def)

theorem atomic_enqueue_job_get_roundtrip_witness:
  "fst (atomic_enqueue_job ks_redis simple_codec (sample_job ''a'') ''default'' 10 (\<lambda>_. None)) = Ok True"
  using atomic_enqueue_job_get_roundtrip [OF reference.redis_server_axioms simple.codec_laws_axioms,
      where s = "\<lambda>_. None" and job = "sample_job ''a''" and queue_name = "''default''" and score = 10
      and default_max_retries = 3]
  by auto

text \<open>Enqueueing under an id that exists is refused and changes nothing.\<close>

theorem atomic_enqueue_job_duplicate:
  assumes server: "redis_server R db" and there: "db s (format_job_key (j_id job)) \<noteq> None"
  shows "\<exists>s1. atomic_enqueue_job R C job queue_name score s = (Ok False, s1) \<and> db s1 = db s"
  using sim_run [OF redis_server.update_sims(2) [OF server] enqueue_existing [where ks = "db s"]] there
  by blast

theorem atomic_enqueue_job_duplicate_witness:
  "let ks = put_hash (format_job_key ''a'') (fmupd ''status'' ''PENDING'' fmempty) (\<lambda>_. None)
   in atomic_enqueue_job ks_redis simple_codec (sample_job ''a'') ''default'' 10 ks = (Ok False, ks)"
  using atomic_enqueue_job_duplicate [OF reference.redis_server_axioms, where job = "sample_job ''a''"
      and s = "put_hash (format_job_key ''a'') (fmupd ''status'' ''PENDING'' fmempty) (\<lambda>_. None)"
      and C = simple_codec and queue_name = "''default''" and score = 10]
  by (simp add: put_hash_def)

section \<open>Claiming\<close>

text \<open>C1. Claiming ready jobs is sound. The claim succeeds with at most \<open>max_claims\<close> distinct
  jobs; each of them was in the queue with a due score, existed and was not locked, and is now
  locked by the worker, ACTIVE under the worker's id, in its active set and out of the queue.
  Every other job keeps its hash and its lock, and leaves the queue only if its hash is gone.\<close>

theorem atomic_claim_ready_jobs_sound:
  assumes server: "redis_server R db" and wt: "well_typed (db s)"
    and args: "0 < lock_ms" "i64_ok lock_ms" "0 \<le> ext"
    and run: "atomic_claim_ready_jobs R C now q w lock_ms ext max_claims start s = (r, s')"
  shows "\<exists>claimed. r = Ok claimed \<and> length claimed \<le> max_claims \<and> distinct claimed
    \<and> (\<forall>j \<in> set claimed.
          (\<exists>sc. zs_score j (zset_at (db s) (format_queue_key q)) = Some sc
                \<and> sc \<le> of_int (timestamp_millis now))
        \<and> db s (format_job_key j) \<noteq> None \<and> db s (format_lock_key j) = None
        \<and> string_at (db s') (format_lock_key j) = Some w
        \<and> fmlookup (hash_at (db s') (format_job_key j)) ''status'' = Some (as_str Active)
        \<and> fmlookup (hash_at (db s') (format_job_key j)) ''worker_id'' = Some w
        \<and> j \<in> zs_members (zset_at (db s') (active_jobs_key w))
        \<and> j \<notin> zs_members (zset_at (db s') (format_queue_key q)))
    \<and> (\<forall>j. j \<notin> set claimed \<longrightarrow>
          db s' (format_job_key j) = db s (format_job_key j)
        \<and> db s' (format_lock_key j) = db s (format_lock_key j)
        \<and> (db s (format_job_key j) \<noteq> None \<longrightarrow>
             zs_score j (zset_at (db s') (format_queue_key q)) = zs_score j (zset_at (db s) (format_queue_key q))))"
proof -
  have run': "atomic_claim_ready_jobs ks_redis C now q w lock_ms ext max_claims start (db s) = (r, db s')"
    by (rule simD [OF redis_server.update_sims(8) [OF server] run])
  obtain claimed where r: "r = Ok claimed" and inv: "claim_inv q w (to_rfc3339 C start) max_claims (db s)
      (set (zs_upto (of_int (timestamp_millis now)) (zset_at (db s) (format_queue_key q)))) claimed (db s')"
  proof (cases "max_claims = 0")
    case True
    then show ?thesis
      using run' that [of "[]"] claim_inv_mono [OF claim_inv_init [OF wt]]
      by (auto simp: atomic_claim_ready_jobs_def ret_def)
  next
    case False
    then show ?thesis
      using run' args that lua_claim_ready_spec [OF wt args(1,2)]
      by (simp add: atomic_claim_ready_jobs_def) blast
  qed
  show ?thesis
    using r claim_inv_facts [OF inv] wt zs_upto_score
    by (intro exI [of _ claimed]) (auto simp: as_str_def simp del: not_None_eq)
qed

definition claim_keyspace :: keyspace where
  "claim_keyspace =
     put_zset (format_queue_key ''default'') [(3, ''a''), (5, ''b''), (900, ''c'')]
       (put_hash (format_job_key ''a'') (fmupd ''status'' ''PENDING'' fmempty)
         (put_hash (format_job_key ''b'') (fmupd ''status'' ''PENDING'' fmempty) (\<lambda>_. None)))"

lemma claim_keyspace_typed [simp]: "well_typed claim_keyspace"
  by (simp add: claim_keyspace_def zs_ok_def)

theorem atomic_claim_ready_jobs_sound_witness:
  "\<exists>claimed. fst (atomic_claim_ready_jobs ks_redis simple_codec 10000000 ''default'' ''w1'' 30000 5 2 7
      claim_keyspace) = Ok claimed \<and> length claimed \<le> 2 \<and> distinct claimed"
  using atomic_claim_ready_jobs_sound [OF reference.redis_server_axioms, where s = claim_keyspace
      and lock_ms = 30000 and ext = 5 and C = simple_codec and now = 10000000 and q = "''default''"
      and w = "''w1''" and max_claims = 2 and start = 7, OF _ _ _ _ prod.collapse [symmetric]]
  by (auto simp: i64_ok_def)

section \<open>Locks\<close>

text \<open>Only the owner releases a job lock: the reply says whether the caller held it, the lock
  is removed exactly then, and no other key changes.\<close>

theorem release_job_lock_if_owner_correct:
  assumes server: "redis_server R db" and wt: "well_typed (db s)"
  shows "\<exists>s1. release_job_lock_if_owner R j w s
      = (Ok (string_at (db s) (format_lock_key j) = Some w), s1)
    \<and> db s1 = (if string_at (db s) (format_lock_key j) = Some w
               then (db s)(format_lock_key j := None) else db s)"
proof -
  have "release_job_lock_if_owner ks_redis j w (db s) =
      (Ok (string_at (db s) (format_lock_key j) = Some w),
       if string_at (db s) (format_lock_key j) = Some w then (db s)(format_lock_key j := None) else db s)"
    by (simp add: release_if_owner_effect [OF wt] del_key_def)
  then show ?thesis
    by (rule sim_run [OF redis_server.update_sims(11) [OF server]])
qed

theorem release_job_lock_if_owner_correct_witness:
  "let ks = put_string (format_lock_key ''a'') ''w1'' (Some 1000) (\<lambda>_. None)
   in release_job_lock_if_owner ks_redis ''a'' ''w2'' ks = (Ok False, ks)"
  using release_job_lock_if_owner_correct [OF reference.redis_server_axioms, where j = "''a''"
      and w = "''w2''" and s = "put_string (format_lock_key ''a'') ''w1'' (Some 1000) (\<lambda>_. None)"]
  by simp

section \<open>Retry, dead letter queue, requeue, completion\<close>

text \<open>Retrying a job counts the attempt, stores status and error, and puts the job back in
  its queue at the given score; no key but the job's hash and the queue changes.\<close>

theorem atomic_retry_job_correct:
  assumes server: "redis_server R db" and wt: "well_typed (db s)"
    and cnt: "hash_int (hash_at (db s) (format_job_key j)) ''current_retries'' = Some n" "i64_ok (n + 1)"
  shows "\<exists>s1. atomic_retry_job R j q score msg status s = (Ok (n + 1), s1)
    \<and> (let h = hash_at (db s1) (format_job_key j) in
         fmlookup h ''current_retries'' = Some (show_int (n + 1))
       \<and> Option.bind (fmlookup h ''status'') parse_status = Some status
       \<and> fmlookup h ''last_error'' = Some msg)
    \<and> (\<forall>i. zs_score i (zset_at (db s1) (format_queue_key q))
         = (if i = j then Some score else zs_score i (zset_at (db s) (format_queue_key q))))
    \<and> (\<forall>k. k \<noteq> format_job_key j \<longrightarrow> k \<noteq> format_queue_key q \<longrightarrow> db s1 k = db s k)"
proof -
  obtain s1 where s1: "atomic_retry_job R j q score msg status s = (Ok (n + 1), s1)"
    "db s1 = put_zset (format_queue_key q) (zs_put score j (zset_at (db s) (format_queue_key q)))
       (put_hash (format_job_key j)
          (hash_put [(''current_retries'', show_int (n + 1)), (''status'', as_str status), (''last_error'', msg)]
             (hash_at (db s) (format_job_key j))) (db s))"
    using sim_run [OF redis_server.transition_sims(4) [OF server] retry_effect [OF wt cnt]] by blast
  show ?thesis
    by (rule exI [of _ s1]) (use wt in \<open>simp add: s1\<close>)
qed

definition busy_keyspace :: keyspace where
  "busy_keyspace =
     put_hash (format_job_key ''a'')
       (hash_put [(''status'', ''ACTIVE''), (''current_retries'', show_int 1), (''worker_id'', ''w1'')] fmempty)
      (put_string (format_lock_key ''a'') ''w1'' (Some 30000)
        (put_zset (active_jobs_key ''w1'') [(4, ''a'')] (\<lambda>_. None)))"

lemma busy_keyspace_views [simp]:
  "well_typed busy_keyspace"
  "hash_int (hash_at busy_keyspace (format_job_key ''a'')) ''current_retries'' = Some 1"
  "fmlookup (hash_at busy_keyspace (format_job_key ''a'')) ''status'' = Some ''ACTIVE''"
  "busy_keyspace (format_job_key ''a'') \<noteq> None"
  "string_at busy_keyspace (format_lock_key ''a'') = Some ''w1''"
  "zset_at busy_keyspace (active_jobs_key w) = (if w = ''w1'' then [(4, ''a'')] else [])"
  "zset_at busy_keyspace (format_queue_key q) = []"
  by (simp_all add: busy_keyspace_def zs_ok_def hash_int_def i64_ok_def)

theorem atomic_retry_job_correct_witness:
  "fst (atomic_retry_job ks_redis ''a'' ''default'' 99 ''boom'' Retrying busy_keyspace) = Ok 2"
  using atomic_retry_job_correct [OF reference.redis_server_axioms, where s = busy_keyspace and j = "''a''"
      and n = 1 and q = "''default''" and score = 99 and msg = "''boom''" and status = Retrying]
  by (auto simp: i64_ok_def)

text \<open>C6. Moving a job to the dead letter queue counts the attempt, marks it FAILED with error
  and completion time, records the event, puts the id at the head of the queue, gives hash and
  events the time to live, and frees the unique lock.\<close>

theorem atomic_move_job_to_dlq_correct:
  assumes server: "redis_server R db" and wt: "well_typed (db s)"
    and cnt: "hash_int (hash_at (db s) (format_job_key j)) ''current_retries'' = Some n" "i64_ok (n + 1)"
    and ttl: "0 < ttl" "i64_ok (ttl * 1000)"
  shows "\<exists>s1. atomic_move_job_to_dlq R C j d msg t ttl (Some (format_unique_key u)) s = (Ok (n + 1), s1)
    \<and> (let h = hash_at (db s1) (format_job_key j) in
         fmlookup h ''current_retries'' = Some (show_int (n + 1))
       \<and> Option.bind (fmlookup h ''status'') parse_status = Some Failed
       \<and> fmlookup h ''last_error'' = Some msg
       \<and> fmlookup h ''completion_time'' = Some (to_rfc3339 C t))
    \<and> list_at (db s1) (format_dlq_key d) = j # list_at (db s) (format_dlq_key d)
    \<and> last (stream_at (db s1) (format_job_events_key j))
        = [(''event'', ''failed''), (''job_id'', j), (''status'', ''FAILED'')]
    \<and> ttl_at (db s1) (format_job_key j) = Some (ttl * 1000)
    \<and> ttl_at (db s1) (format_job_events_key j) = Some (ttl * 1000)
    \<and> db s1 (format_unique_key u) = None"
proof -
  have u: "format_unique_key u \<noteq> []"
    by (simp add: format_unique_key_def UNIQUE_JOB_LOCK_PREFIX_def)
  obtain s1 where s1: "atomic_move_job_to_dlq R C j d msg t ttl (Some (format_unique_key u)) s = (Ok (n + 1), s1)"
    "db s1 = del_key (format_unique_key u) (dlq_state C j d msg t ttl n (db s))"
    using sim_run [OF redis_server.transition_sims(5) [OF server] dlq_effect [OF wt cnt ttl(2)]] u by force
  show ?thesis
    by (rule exI [of _ s1])
      (use ttl in \<open>simp add: s1 dlq_state_def set_opt_ttl_def dlq_fields_def ttl_at_put parse_status_def\<close>)
qed

theorem atomic_move_job_to_dlq_correct_witness:
  "fst (atomic_move_job_to_dlq ks_redis simple_codec ''a'' ''dead'' ''boom'' 5 60
      (Some (format_unique_key ''u'')) busy_keyspace) = Ok 2"
  using atomic_move_job_to_dlq_correct [OF reference.redis_server_axioms, where s = busy_keyspace
      and j = "''a''" and n = 1 and ttl = 60 and C = simple_codec and d = "''dead''" and msg = "''boom''"
      and t = 5 and u = "''u''"]
  by (auto simp: i64_ok_def)

lemma demote_hash_lookups:
  "fmlookup h ''status'' = Some ''ACTIVE'' \<Longrightarrow> fmlookup (demote_hash m h) ''status'' = Some ''PENDING''"
  "fmlookup h ''status'' = Some ''ACTIVE'' \<Longrightarrow> fmlookup (demote_hash m h) ''worker_id'' = None"
  "fmlookup h ''status'' = Some ''ACTIVE'' \<Longrightarrow> fmlookup (demote_hash m h) ''start_time'' = None"
  "fmlookup h ''status'' = Some ''ACTIVE'' \<Longrightarrow> fmlookup (demote_hash m h) ''last_error'' = Some m"
  by (simp_all add: demote_hash_def)

lemma release_owned_views [simp]:
  "hash_at (release_owned_state j ow ks) (format_job_key i) = hash_at ks (format_job_key i)"
  "zset_at (release_owned_state j ow ks) (format_queue_key q) = zset_at ks (format_queue_key q)"
  "zset_at (release_owned_state j ow ks) (active_jobs_key w) = zset_at ks (active_jobs_key w)"
  "release_owned_state j ow ks (format_lock_key j)
     = (if ow \<noteq> [] \<and> string_at ks (format_lock_key j) = Some ow then None else ks (format_lock_key j))"
  by (simp_all add: release_owned_state_def)

lemma drop_active_views [simp]:
  "hash_at (drop_active_state j a ks) (format_job_key i) = hash_at ks (format_job_key i)"
  "zset_at (drop_active_state j a ks) (format_queue_key q) = zset_at ks (format_queue_key q)"
  "zset_at (drop_active_state j (Some w) ks) (active_jobs_key w) = zs_del j (zset_at ks (active_jobs_key w))"
  "string_at (drop_active_state j a ks) (format_lock_key i) = string_at ks (format_lock_key i)"
  "drop_active_state j a ks (format_lock_key i) = ks (format_lock_key i)"
  by (cases a; simp add: drop_active_state_def)+

lemma restore_views [simp]:
  "zset_at (restore_state j ns ks) (format_queue_key q) = zset_at ks (format_queue_key q)"
  "zset_at (restore_state j ns ks) (active_jobs_key w) = zset_at ks (active_jobs_key w)"
  "string_at (restore_state j ns ks) (format_lock_key i) = string_at ks (format_lock_key i)"
  "restore_state j ns ks (format_lock_key i) = ks (format_lock_key i)"
  "f \<noteq> ''next_scheduled_run_time'' \<Longrightarrow> fmlookup (hash_at (restore_state j ns ks) (format_job_key j)) f
     = fmlookup (hash_at ks (format_job_key j)) f"
  by (cases ns; simp add: restore_state_def)+

lemma demoted_lock [simp]: "demoted j m ks (format_lock_key i) = ks (format_lock_key i)"
  by (simp add: demoted_def)

lemmas requeue_state_views = requeue_state_def demote_hash_lookups
lemmas queued_state_views = demote_hash_lookups

text \<open>Requeueing: a missing job is left alone (0); otherwise an ACTIVE job becomes PENDING and
  loses worker and start time, the job leaves the active set of the worker that is named, and it
  is in the queue: at the given score when it was not queued (1), at its old score when it was
  (2). The lock goes only if the releasing owner holds it.\<close>

theorem atomic_requeue_job_correct:
  assumes server: "redis_server R db" and wt: "well_typed (db s)"
  shows "\<exists>s1 n. atomic_requeue_job R j q score msg owner (Some w) ns s = (Ok n, s1)
    \<and> (if db s (format_job_key j) = None then n = 0 \<and> db s1 = db s
       else
         n = (if zs_score j (zset_at (db s) (format_queue_key q)) = None then 1 else 2)
       \<and> zs_score j (zset_at (db s1) (format_queue_key q))
           = (case zs_score j (zset_at (db s) (format_queue_key q)) of None \<Rightarrow> Some score | Some sc \<Rightarrow> Some sc)
       \<and> j \<notin> zs_members (zset_at (db s1) (active_jobs_key w))
       \<and> (fmlookup (hash_at (db s) (format_job_key j)) ''status'' = Some ''ACTIVE'' \<longrightarrow>
            fmlookup (hash_at (db s1) (format_job_key j)) ''status'' = Some ''PENDING''
          \<and> fmlookup (hash_at (db s1) (format_job_key j)) ''worker_id'' = None
          \<and> fmlookup (hash_at (db s1) (format_job_key j)) ''start_time'' = None
          \<and> fmlookup (hash_at (db s1) (format_job_key j)) ''last_error'' = Some msg)
       \<and> db s1 (format_lock_key j)
           = (if owner \<noteq> [] \<and> string_at (db s) (format_lock_key j) = Some owner
              then None else db s (format_lock_key j)))"
proof -
  consider (missing) "db s (format_job_key j) = None"
    | (new) "db s (format_job_key j) \<noteq> None" "zs_score j (zset_at (db s) (format_queue_key q)) = None"
    | (queued) "db s (format_job_key j) \<noteq> None" "zs_score j (zset_at (db s) (format_queue_key q)) \<noteq> None"
    by blast
  then show ?thesis
  proof cases
    case missing
    then show ?thesis
      using sim_run [OF redis_server.transition_sims(6) [OF server] requeue_missing [OF wt missing]] by auto
  next
    case new
    obtain s1 where s1: "atomic_requeue_job R j q score msg owner (Some w) ns s = (Ok 1, s1)"
      "db s1 = requeue_state j q score msg owner (Some w) ns (db s)"
      using sim_run [OF redis_server.transition_sims(6) [OF server] requeue_effect [OF wt new]] by blast
    show ?thesis
      by (rule exI [of _ s1], rule exI [of _ 1])
        (use wt new in \<open>simp add: s1 requeue_state_views del: not_None_eq\<close>)
  next
    case queued
    obtain s1 where s1: "atomic_requeue_job R j q score msg owner (Some w) ns s = (Ok 2, s1)"
      "db s1 = release_owned_state j owner (drop_active_state j (Some w) (demoted j msg (db s)))"
      using sim_run [OF redis_server.transition_sims(6) [OF server] requeue_queued [OF wt queued]] by blast
    show ?thesis
      by (rule exI [of _ s1], rule exI [of _ 2])
        (use wt queued in \<open>auto simp add: s1 queued_state_views simp del: not_None_eq split: option.split\<close>)
  qed
qed

theorem atomic_requeue_job_correct_witness:
  "\<exists>n. fst (atomic_requeue_job ks_redis ''a'' ''default'' 50 ''orphan'' ''w1'' (Some ''w1'') None busy_keyspace)
    = Ok n"
  using atomic_requeue_job_correct [OF reference.redis_server_axioms, where s = busy_keyspace
      and j = "''a''" and q = "''default''" and score = 50 and msg = "''orphan''" and owner = "''w1''"
      and w = "''w1''" and ns = None]
  by fastforce

text \<open>Saving a result completes the job: result, completion time and status are stored, the
  event is recorded, and hash and events expire after a positive time to live and never with 0.\<close>

theorem save_job_result_correct:
  assumes server: "redis_server R db" and wt: "well_typed (db s)" and ttl: "i64_ok (ttl * 1000)"
  shows "\<exists>s1. save_job_result R C now j v ttl s = (Ok (), s1)
    \<and> (let h = hash_at (db s1) (format_job_key j) in
         fmlookup h ''result'' = Some (json_text C v)
       \<and> Option.bind (fmlookup h ''status'') parse_status = Some Completed
       \<and> fmlookup h ''completion_time'' = Some (to_rfc3339 C now))
    \<and> last (stream_at (db s1) (format_job_events_key j))
        = [(''event'', ''completed''), (''job_id'', j), (''status'', ''COMPLETED'')]
    \<and> ttl_at (db s1) (format_job_key j)
        = (if 0 < ttl then Some (ttl * 1000) else if ttl = 0 then None else ttl_at (db s) (format_job_key j))
    \<and> (\<forall>k. k \<noteq> format_job_key j \<longrightarrow> k \<noteq> format_job_events_key j \<longrightarrow> db s1 k = db s k)"
proof -
  obtain s1 where s1: "save_job_result R C now j v ttl s = (Ok (), s1)"
    "db s1 = result_state C now j v ttl (db s)"
    using sim_run [OF redis_server.transition_sims(9) [OF server] save_result_effect [OF wt ttl]] by blast
  show ?thesis
    by (rule exI [of _ s1])
      (simp add: s1 result_state_def put_opt_ttl_def parse_status_def)
qed

theorem save_job_result_correct_witness:
  "fst (save_job_result ks_redis simple_codec 9 ''a'' (JInt 42) 3600 busy_keyspace) = Ok ()"
  using save_job_result_correct [OF reference.redis_server_axioms, where s = busy_keyspace and ttl = 3600
      and C = simple_codec and now = 9 and j = "''a''" and v = "JInt 42"]
  by (auto simp: i64_ok_def)

end
