(* ===== verification/Sockets.thy ===== *)
theory Sockets
  imports Codec
begin

text \<open>
  TCP endpoints of runners (\<open>config/src/tcp_socket.rs\<close>): the string functions of the standard
  library the code uses, the parser of \<open>std::net::IpAddr\<close>, and the validation that accepts a
  host only when it is loopback or listed. Name resolution is a parameter. Strings are ASCII.
\<close>

section \<open>String functions\<close>

definition is_space :: "char \<Rightarrow> bool" where
  "is_space c = (let k = of_char c :: nat in k = 32 \<or> 9 \<le> k \<and> k \<le> 13)"

definition trim :: "string \<Rightarrow> string" where
  "trim s = rev (dropWhile is_space (rev (dropWhile is_space s)))"

text \<open>\<open>split_once(pat)\<close> at the first occurrence, \<open>rsplit_once(c)\<close> at the last.\<close>

fun split_once :: "string \<Rightarrow> string \<Rightarrow> (string \<times> string) option" where
  "split_once [] p = (if p = [] then Some ([], []) else None)"
| "split_once (c # cs) p =
     (if take (length p) (c # cs) = p then Some ([], drop (length p) (c # cs))
      else map_option (\<lambda>(a, b). (c # a, b)) (split_once cs p))"

fun rsplit_once :: "string \<Rightarrow> char \<Rightarrow> (string \<times> string) option" where
  "rsplit_once [] p = None"
| "rsplit_once (c # cs) p =
     (case rsplit_once cs p of
        Some (a, b) \<Rightarrow> Some (c # a, b)
      | None \<Rightarrow> if c = p then Some ([], cs) else None)"

fun str_contains :: "string \<Rightarrow> string \<Rightarrow> bool" where
  "str_contains [] p = (p = [])"
| "str_contains (c # cs) p = (take (length p) (c # cs) = p \<or> str_contains cs p)"

lemma split_once_SomeD: "split_once s p = Some (a, b) \<Longrightarrow> s = a @ p @ b"
proof (induction s arbitrary: a)
  case (Cons c cs)
  show ?case
  proof (cases "take (length p) (c # cs) = p")
    case True
    then have "c # cs = p @ drop (length p) (c # cs)"
      by (metis append_take_drop_id)
    with True Cons.prems show ?thesis by auto
  qed (use Cons in auto)
qed (auto split: if_splits)

lemma rsplit_once_SomeD: "rsplit_once s c = Some (a, b) \<Longrightarrow> s = a @ c # b \<and> c \<notin> set b"
proof (induction s arbitrary: a b)
  case (Cons d cs)
  have none: "c \<notin> set cs" if "rsplit_once cs c = None"
    using that by (induction cs) (auto split: option.splits if_splits)
  show ?case
    using Cons none by (auto split: option.splits if_splits)
qed simp

section \<open>IP addresses\<close>

datatype IpAddr = V4 "nat list" | V6 "nat list"

definition is_loopback :: "IpAddr \<Rightarrow> bool" where
  "is_loopback ip = (case ip of
      V4 octets \<Rightarrow> hd octets = 127
    | V6 segments \<Rightarrow> segments = [0, 0, 0, 0, 0, 0, 0, 1])"

definition hex_val :: "char \<Rightarrow> nat option" where
  "hex_val c = (let k = of_char c :: nat in
     if 48 \<le> k \<and> k \<le> 57 then Some (k - 48)
     else if 97 \<le> k \<and> k \<le> 102 then Some (k - 87)
     else if 65 \<le> k \<and> k \<le> 70 then Some (k - 55) else None)"

text \<open>\<open>read_number\<close>: at most \<open>maxd\<close> digits, bounded value; decimal octets have no leading zero.\<close>

fun read_digits :: "(char \<Rightarrow> nat option) \<Rightarrow> nat \<Rightarrow> nat \<Rightarrow> string \<Rightarrow> nat \<Rightarrow> nat \<times> nat \<times> string" where
  "read_digits dv base a [] n = (a, n, [])"
| "read_digits dv base a (c # cs) n =
     (case dv c of None \<Rightarrow> (a, n, c # cs) | Some v \<Rightarrow> read_digits dv base (a * base + v) cs (Suc n))"

definition read_octet :: "string \<Rightarrow> (nat \<times> string) option" where
  "read_octet s = (let (v, n, r) = read_digits digit_val 10 0 s 0
     in if n = 0 \<or> 3 < n \<or> 255 < v \<or> (hd s = CHR ''0'' \<and> 1 < n) then None else Some (v, r))"

definition read_segment :: "string \<Rightarrow> (nat \<times> string) option" where
  "read_segment s = (let (v, n, r) = read_digits hex_val 16 0 s 0
     in if n = 0 \<or> 4 < n then None else Some (v, r))"

definition read_char :: "char \<Rightarrow> string \<Rightarrow> string option" where
  "read_char c s = (case s of [] \<Rightarrow> None | d # r \<Rightarrow> if d = c then Some r else None)"

fun read_octets :: "nat \<Rightarrow> string \<Rightarrow> (nat list \<times> string) option" where
  "read_octets 0 s = Some ([], s)"
| "read_octets (Suc k) s =
     Option.bind (read_octet s) (\<lambda>(v, r).
       if k = 0 then Some ([v], r)
       else Option.bind (read_char CHR ''.'' r) (\<lambda>r'.
            map_option (\<lambda>(vs, q). (v # vs, q)) (read_octets k r')))"

definition read_ipv4 :: "string \<Rightarrow> (nat list \<times> string) option" where
  "read_ipv4 s = read_octets 4 s"

text \<open>
  \<open>read_groups\<close>: up to \<open>limit\<close> segments, separated by colons; an embedded IPv4 address takes
  the place of the last two.
\<close>

fun read_groups :: "nat \<Rightarrow> bool \<Rightarrow> string \<Rightarrow> nat list \<times> bool \<times> string" where
  "read_groups 0 first s = ([], False, s)"
| "read_groups (Suc limit) first s =
     (case (if first then Some s else read_char CHR '':'' s) of
        None \<Rightarrow> ([], False, s)
      | Some r \<Rightarrow>
          (case (if 0 < limit then read_ipv4 r else None) of
             Some (os, q) \<Rightarrow> ([256 * os ! 0 + os ! 1, 256 * os ! 2 + os ! 3], True, q)
           | None \<Rightarrow>
               (case read_segment r of
                  None \<Rightarrow> ([], False, s)
                | Some (v, q) \<Rightarrow> (case read_groups limit False q of (vs, b, q') \<Rightarrow> (v # vs, b, q')))))"

definition read_ipv6 :: "string \<Rightarrow> (nat list \<times> string) option" where
  "read_ipv6 s = (case read_groups 8 True s of (hs, ipv4, r) \<Rightarrow>
     if length hs = 8 then Some (hs, r)
     else if ipv4 then None
     else Option.bind (Option.bind (read_char CHR '':'' r) (read_char CHR '':'')) (\<lambda>r2.
       case read_groups (7 - length hs) True r2 of (ts, _, q) \<Rightarrow>
         Some (hs @ replicate (8 - length hs - length ts) 0 @ ts, q)))"

definition parse_ip :: "string \<Rightarrow> IpAddr option" where
  "parse_ip s = (case read_ipv4 s of
      Some (os, []) \<Rightarrow> Some (V4 os)
    | _ \<Rightarrow> (case read_ipv6 s of Some (gs, []) \<Rightarrow> Some (V6 gs) | _ \<Rightarrow> None))"

section \<open>Socket specifications\<close>

record TcpSocketSpec =
  spec_host :: IpAddr
  spec_port :: nat

definition addr :: "TcpSocketSpec \<Rightarrow> nat \<Rightarrow> IpAddr \<times> nat" where
  "addr spec port = (spec_host spec, port)"

text \<open>An apostrophe around a value in an error text.\<close>

definition quoted :: "string \<Rightarrow> string" where
  "quoted s = CHR 0x27 # s @ [CHR 0x27]"

text \<open>\<open>resolve host port\<close> stands for \<open>to_socket_addrs\<close>; \<open>None\<close> is a failed lookup.\<close>

definition split_host_port :: "string \<Rightarrow> error + (string \<times> string)" where
  "split_host_port raw =
     (case raw of
        c # rest \<Rightarrow>
          if c = CHR ''['' then
            (case split_once rest '']:'' of
               None \<Rightarrow> Inl (Bail ''tcp_socket must be in [host]:port format'')
             | Some hp \<Rightarrow> Inr hp)
          else
            (case rsplit_once raw CHR '':'' of
               None \<Rightarrow> Inl (Bail ''tcp_socket must be in host:port format'')
             | Some (host, port_str) \<Rightarrow>
                 if host = [] then Inl (Bail ''tcp_socket host cannot be empty'') else Inr (host, port_str))
      | [] \<Rightarrow> Inl (Bail ''tcp_socket must be in host:port format''))"

definition resolve_host ::
  "(string \<Rightarrow> nat \<Rightarrow> IpAddr list option) \<Rightarrow> string list \<Rightarrow> string \<Rightarrow> nat \<Rightarrow> error + IpAddr" where
  "resolve_host resolve allowed_hosts host port =
     (let is_allowed_host = list_ex (\<lambda>allowed. eq_ignore_case allowed host) allowed_hosts in
      if host = ''localhost'' then Inr (V4 [127, 0, 0, 1])
      else case parse_ip host of
        Some parsed \<Rightarrow>
          if \<not> is_loopback parsed \<and> \<not> is_allowed_host
          then Inl (Bail (''tcp_socket host must be loopback (127.0.0.1, ::1, or localhost) for security, or explicitly listed in allowed_hosts - got '' @ quoted host))
          else Inr parsed
      | None \<Rightarrow>
          if \<not> is_allowed_host then Inl (Bail (''tcp_socket hostname '' @ quoted host @ '' is not allowed; add it to allowed_hosts''))
          else (case resolve host port of
                  None \<Rightarrow> Inl (Bail (''invalid tcp_socket host '' @ quoted host))
                | Some [] \<Rightarrow> Inl (Bail (''invalid tcp_socket host '' @ quoted host @ '' - no addresses resolved''))
                | Some (ip # _) \<Rightarrow> Inr ip))"

definition parse_tcp_socket_with_allowed_hosts ::
  "(string \<Rightarrow> nat \<Rightarrow> IpAddr list option) \<Rightarrow> string \<Rightarrow> string list \<Rightarrow> error + TcpSocketSpec" where
  "parse_tcp_socket_with_allowed_hosts resolve raw0 allowed_hosts =
     (let raw = trim raw0 in
      if raw = [] then Inl (Bail ''tcp_socket cannot be empty'')
      else case split_host_port raw of
        Inl e \<Rightarrow> Inl e
      | Inr (host, port_str) \<Rightarrow>
          (case parse_u16 port_str of
             None \<Rightarrow> Inl (Bail (''invalid tcp_socket port '' @ quoted port_str @ '' - must be 1-65535''))
           | Some port \<Rightarrow>
               if port = 0 then Inl (Bail ''tcp_socket port must be > 0'')
               else (case resolve_host resolve allowed_hosts host port of
                       Inl e \<Rightarrow> Inl e
                     | Inr ip \<Rightarrow> Inr \<lparr> spec_host = ip, spec_port = port \<rparr>)))"

definition parse_tcp_socket ::
  "(string \<Rightarrow> nat \<Rightarrow> IpAddr list option) \<Rightarrow> string \<Rightarrow> error + TcpSocketSpec" where
  "parse_tcp_socket resolve raw = parse_tcp_socket_with_allowed_hosts resolve raw []"

section \<open>What is accepted\<close>

lemma resolve_host_loopback:
  "resolve_host resolve [] host port = Inr ip \<Longrightarrow> is_loopback ip"
  by (auto simp: resolve_host_def is_loopback_def Let_def split: if_splits option.splits)

lemma parse_u16_bound: "parse_u16 s = Some n \<Longrightarrow> n \<le> 65535"
  by (auto simp: parse_u16_def Let_def split: if_splits option.splits)

text \<open>C14. Without an allowlist only loopback endpoints with a port in 1..65535 are accepted,
  whatever name resolution answers.\<close>

theorem parse_tcp_socket_loopback_only:
  assumes "parse_tcp_socket resolve raw = Inr spec"
  shows "is_loopback (spec_host spec) \<and> 1 \<le> spec_port spec \<and> spec_port spec \<le> 65535"
  using assms resolve_host_loopback parse_u16_bound
  by (auto simp: parse_tcp_socket_def parse_tcp_socket_with_allowed_hosts_def Let_def
      split: if_splits sum.splits option.splits prod.splits)

lemma sample_endpoint:
  "trim '' [::1]:9000 '' = ''[::1]:9000''" "split_host_port ''[::1]:9000'' = Inr (''::1'', ''9000'')"
  "parse_ip ''::1'' = Some (V6 [0, 0, 0, 0, 0, 0, 0, 1])"
  by code_simp+

theorem parse_tcp_socket_loopback_only_witness:
  "is_loopback (spec_host (projr (parse_tcp_socket (\<lambda>_ _. None) '' [::1]:9000 '')))"
proof -
  have "parse_u16 ''9000'' = Some 9000"
    by (simp add: parse_u16_def digit_val_def Let_def)
  then have "parse_tcp_socket (\<lambda>_ _. None) '' [::1]:9000 ''
      = Inr \<lparr> spec_host = V6 [0, 0, 0, 0, 0, 0, 0, 1], spec_port = 9000 \<rparr>"
    by (simp add: parse_tcp_socket_def parse_tcp_socket_with_allowed_hosts_def sample_endpoint
        resolve_host_def is_loopback_def)
  then show ?thesis
    using parse_tcp_socket_loopback_only [where raw = "'' [::1]:9000 ''" and resolve = "\<lambda>_ _. None"]
    by auto
qed

end
