(* ===== verification/Config.thy ===== *)
theory Config
  imports Keys Sockets
begin

text \<open>
  Settings and their loading (\<open>config/src/settings.rs\<close>, \<open>config.rs\<close>, \<open>cron.rs\<close>,
  \<open>producer.rs\<close>): the records with their defaults, normalisation and merging of the TOML
  payload, and the validation of the runner configurations. Reading files, TOML and the
  deserialisation of the merged value are parameters. An \<open>f64\<close> setting is a rational; the
  one whose finiteness is checked is of type \<open>f64\<close>. A \<open>HashMap\<close> is the list of its entries
  in iteration order.
\<close>

section \<open>Settings\<close>

datatype f64 = Finite rat | PosInf | NegInf | NaN

datatype RunnerManagementMode = Managed | External

datatype RunnerType = Socket

record RunnerConfig =
  rc_runner_type :: RunnerType
  rc_cmd :: "string list option"
  rc_pool_size :: "nat option"
  rc_max_in_flight :: "nat option"
  rc_env :: "strmap option"
  rc_cwd :: "string option"
  rc_tcp_host :: "string option"
  rc_tcp_port :: "nat option" \<comment> \<open>\<open>u16\<close>\<close>
  rc_allowed_hosts :: "string list option"
  rc_response_timeout_seconds :: "rat option"

record CronJob =
  cj_function_name :: string
  cj_schedule :: string
  cj_params :: params
  cj_queue_name :: "string option"
  cj_unique :: bool
  cj_next_run_time :: "datetime option"

record WatchSettings =
  ws_path :: "string option"
  ws_include_patterns :: "string list"
  ws_ignore_patterns :: "string list"
  ws_no_gitignore :: "bool option"
  ws_pre_restart_cmds :: "string list list"
  ws_pre_restart_cwd :: "string option"
  ws_pre_restart_timeout_seconds :: "rat option"

record RRQSettings =
  redis_dsn :: string
  default_queue_name :: string
  default_dlq_name :: string
  default_max_retries :: int
  default_job_timeout_seconds :: int
  default_lock_timeout_extension_seconds :: int
  default_result_ttl_seconds :: int
  default_poll_delay_seconds :: rat
  runner_connect_timeout_ms :: int
  runner_shutdown_term_grace_seconds :: f64
  runner_enable_inflight_cancel_hints :: bool
  capture_runner_output :: bool
  default_unique_job_lock_ttl_seconds :: int
  default_runner_name :: string
  runner_management_mode :: RunnerManagementMode
  runners :: "(string \<times> RunnerConfig) list"
  runner_routes :: strmap
  worker_health_check_interval_seconds :: rat
  worker_health_check_ttl_buffer_seconds :: rat
  base_retry_delay_seconds :: rat
  max_retry_delay_seconds :: rat
  worker_shutdown_grace_period_seconds :: rat
  cron_jobs :: "CronJob list"
  expected_job_ttl :: int
  watch :: WatchSettings
  correlation_mappings :: strmap

text \<open>Default values (\<open>defaults.rs\<close> and \<open>RRQSettings::default\<close>).\<close>

definition default_settings :: RRQSettings where
  "default_settings = \<lparr> redis_dsn = ''redis://localhost:6379/0'',
     default_queue_name = ''rrq:queue:default'', default_dlq_name = ''rrq:dlq:default'',
     default_max_retries = 5, default_job_timeout_seconds = 300,
     default_lock_timeout_extension_seconds = 60, default_result_ttl_seconds = 60 * 60 * 24,
     default_poll_delay_seconds = 1 / 10, runner_connect_timeout_ms = 15000,
     runner_shutdown_term_grace_seconds = Finite 5, runner_enable_inflight_cancel_hints = False,
     capture_runner_output = False,
     default_unique_job_lock_ttl_seconds = 60 * 60 * 6, default_runner_name = ''python'',
     runner_management_mode = Managed, runners = [], runner_routes = [],
     worker_health_check_interval_seconds = 60, worker_health_check_ttl_buffer_seconds = 10,
     base_retry_delay_seconds = 5, max_retry_delay_seconds = 60 * 60,
     worker_shutdown_grace_period_seconds = 10, cron_jobs = [], expected_job_ttl = 30,
     watch = \<lparr> ws_path = None, ws_include_patterns = [], ws_ignore_patterns = [], ws_no_gitignore = None,
       ws_pre_restart_cmds = [], ws_pre_restart_cwd = None, ws_pre_restart_timeout_seconds = None \<rparr>,
     correlation_mappings = [] \<rparr>"

lemma default_settings_sel [simp]:
  "default_job_timeout_seconds default_settings = 300"
  "default_lock_timeout_extension_seconds default_settings = 60"
  "default_unique_job_lock_ttl_seconds default_settings = 21600"
  "default_max_retries default_settings = 5" "default_result_ttl_seconds default_settings = 86400"
  "base_retry_delay_seconds default_settings = 5" "max_retry_delay_seconds default_settings = 3600"
  by (simp_all add: default_settings_def)

record ProducerSettings =
  ps_redis_dsn :: string
  ps_queue_name :: string
  ps_max_retries :: int
  ps_job_timeout_seconds :: int
  ps_result_ttl_seconds :: int
  ps_idempotency_ttl_seconds :: int
  ps_correlation_mappings :: strmap

definition producer_settings_from :: "RRQSettings \<Rightarrow> ProducerSettings" where
  "producer_settings_from st = \<lparr> ps_redis_dsn = redis_dsn st, ps_queue_name = default_queue_name st,
     ps_max_retries = default_max_retries st, ps_job_timeout_seconds = default_job_timeout_seconds st,
     ps_result_ttl_seconds = default_result_ttl_seconds st,
     ps_idempotency_ttl_seconds = default_unique_job_lock_ttl_seconds st,
     ps_correlation_mappings = correlation_mappings st \<rparr>"

section \<open>Cron schedules\<close>

text \<open>
  \<open>after schedule base\<close> is the \<open>cron\<close> crate: \<open>None\<close> for a schedule it does not parse, else the
  first matching time after \<open>base\<close>, if any.
\<close>

definition minute_start :: "datetime \<Rightarrow> datetime" where
  "minute_start t = t - t mod 60000000000"

definition schedule_next ::
  "(string \<Rightarrow> datetime \<Rightarrow> datetime option option) \<Rightarrow> CronJob \<Rightarrow> datetime \<Rightarrow> error + CronJob" where
  "schedule_next after job now =
     (case after (cj_schedule job) (minute_start now) of
        None \<Rightarrow> Inl (Bail (''invalid cron schedule: '' @ cj_schedule job))
      | Some None \<Rightarrow> Inl (Bail ''cron schedule produced no next run time'')
      | Some (Some t) \<Rightarrow> Inr (job\<lparr>cj_next_run_time := Some t\<rparr>))"

definition due ::
  "(string \<Rightarrow> datetime \<Rightarrow> datetime option option) \<Rightarrow> CronJob \<Rightarrow> datetime \<Rightarrow> error + (bool \<times> CronJob)" where
  "due after job now =
     (case (if cj_next_run_time job = None then schedule_next after job now else Inr job) of
        Inl e \<Rightarrow> Inl e
      | Inr job' \<Rightarrow>
          Inr (now \<ge> (case cj_next_run_time job' of None \<Rightarrow> now | Some t \<Rightarrow> t), job'))"

section \<open>JSON maps\<close>

definition mremove :: "string \<Rightarrow> params \<Rightarrow> params" where
  "mremove k m = filter (\<lambda>p. fst p \<noteq> k) m"

definition minsert :: "string \<Rightarrow> json \<Rightarrow> params \<Rightarrow> params" where
  "minsert k v m = mremove k m @ [(k, v)]"

lemma map_of_mremove [simp]: "map_of (mremove k m) x = (if x = k then None else map_of m x)"
  by (induction m) (auto simp: mremove_def)

lemma map_of_minsert [simp]: "map_of (minsert k v m) x = (if x = k then Some v else map_of m x)"
  by (auto simp: minsert_def map_add_def split: option.splits)

lemma distinct_mremove [simp]: "distinct (map fst m) \<Longrightarrow> distinct (map fst (mremove k m))"
  by (simp add: mremove_def distinct_map_filter)

lemma fst_mremove [simp]: "fst ` set (mremove k m) = fst ` set m - {k}"
  by (auto simp: mremove_def)

lemma distinct_minsert [simp]: "distinct (map fst m) \<Longrightarrow> distinct (map fst (minsert k v m))"
  by (simp add: minsert_def)

section \<open>Loading\<close>

function deep_merge :: "json \<Rightarrow> json \<Rightarrow> json" and merge_entries :: "params \<Rightarrow> params \<Rightarrow> params" where
  "deep_merge base overlay =
     (case (base, overlay) of
        (JObj b, JObj ov) \<Rightarrow> JObj (merge_entries b ov)
      | _ \<Rightarrow> overlay)"
| "merge_entries b ov =
     (case ov of
        [] \<Rightarrow> b
      | (key, v) # rest \<Rightarrow>
          merge_entries
            (minsert key (case map_of b key of None \<Rightarrow> v | Some existing \<Rightarrow> deep_merge existing v)
               (mremove key b)) rest)"
  by pat_completeness auto
termination
  by (relation "measure (\<lambda>x. case x of Inl (_, v) \<Rightarrow> size v | Inr (_, ov) \<Rightarrow> size_list (size_prod (\<lambda>_. 0) size) ov)")
    auto

declare deep_merge.simps [simp del] merge_entries.simps [simp del]

lemma deep_merge_simps [simp]:
  "deep_merge (JObj b) (JObj ov) = JObj (merge_entries b ov)"
  "\<not> (\<exists>b. base = JObj b) \<Longrightarrow> deep_merge base v = v"
  "merge_entries b [] = b"
  by (auto simp: deep_merge.simps merge_entries.simps split: json.splits)

definition normalize_routes :: "params \<Rightarrow> params" where
  "normalize_routes routes =
     foldl (\<lambda>normalized (queue_name, runner_name). minsert (normalize_queue_name queue_name) runner_name normalized)
       [] routes"

definition normalize_queue_fields :: "params \<Rightarrow> params" where
  "normalize_queue_fields m =
     (let m1 = (case map_of m ''default_queue_name'' of
                  Some (JStr q) \<Rightarrow> minsert ''default_queue_name'' (JStr (normalize_queue_name q)) m
                | _ \<Rightarrow> m)
      in case map_of m1 ''runner_routes'' of
           Some (JObj routes) \<Rightarrow> minsert ''runner_routes'' (JObj (normalize_routes routes)) m1
         | _ \<Rightarrow> m1)"

definition normalize_toml_payload :: "json \<Rightarrow> error + json" where
  "normalize_toml_payload payload0 =
     (let payload = (case payload0 of
                       JObj m \<Rightarrow> (case map_of m ''rrq'' of Some rrq_value \<Rightarrow> rrq_value | None \<Rightarrow> JObj m)
                     | v \<Rightarrow> v)
      in case payload of
           JObj m \<Rightarrow>
             let m1 = (case map_of m ''routing'' of
                         Some routing \<Rightarrow> minsert ''runner_routes'' routing (mremove ''routing'' m)
                       | None \<Rightarrow> m)
             in Inr (JObj (normalize_queue_fields (mremove ''worker_concurrency'' m1)))
         | _ \<Rightarrow> Inl (Bail ''RRQ config must be a TOML table''))"

text \<open>Environment variables are a function \<open>env\<close>; an unset one is \<open>None\<close>.\<close>

definition set_env_string :: "(string \<Rightarrow> string option) \<Rightarrow> params \<Rightarrow> string \<Rightarrow> string \<Rightarrow> params" where
  "set_env_string env m key var =
     (case env var of Some v \<Rightarrow> if v \<noteq> [] then minsert key (JStr v) m else m | None \<Rightarrow> m)"

definition set_env_bool :: "(string \<Rightarrow> string option) \<Rightarrow> params \<Rightarrow> string \<Rightarrow> string \<Rightarrow> params" where
  "set_env_bool env m key var =
     (case env var of
        Some v \<Rightarrow> if v \<noteq> [] then minsert key (JBool (v = ''1'' \<or> v = ''true'' \<or> v = ''yes'')) m else m
      | None \<Rightarrow> m)"

definition env_overrides :: "(string \<Rightarrow> string option) \<Rightarrow> json" where
  "env_overrides env =
     JObj (set_env_bool env (set_env_string env [] ''redis_dsn'' ''RRQ_REDIS_DSN'')
             ''capture_runner_output'' ''RRQ_CAPTURE_RUNNER_OUTPUT'')"

definition resolve_config_source ::
  "(string \<Rightarrow> string option) \<Rightarrow> (string \<Rightarrow> bool) \<Rightarrow> string option \<Rightarrow> string option \<times> string" where
  "resolve_config_source env is_file config_path =
     (case config_path of
        Some path \<Rightarrow> (Some path, ''--config parameter'')
      | None \<Rightarrow>
          (case env ''RRQ_CONFIG'' of
             Some env_path \<Rightarrow>
               if env_path \<noteq> [] then (Some env_path, ''RRQ_CONFIG env var'')
               else if is_file ''rrq.toml'' then (Some ''rrq.toml'', ''rrq.toml in cwd'')
               else (None, ''not found'')
           | None \<Rightarrow>
               if is_file ''rrq.toml'' then (Some ''rrq.toml'', ''rrq.toml in cwd'')
               else (None, ''not found'')))"

section \<open>Validation\<close>

definition runner_tcp_host_or_default :: "string option \<Rightarrow> string" where
  "runner_tcp_host_or_default raw =
     (case map_option trim raw of
        Some value \<Rightarrow> if value \<noteq> [] then value else ''127.0.0.1''
      | None \<Rightarrow> ''127.0.0.1'')"

definition runner_tcp_socket_for_validation :: "string \<Rightarrow> nat \<Rightarrow> string" where
  "runner_tcp_socket_for_validation host port =
     (if CHR '':'' \<in> set host \<and> \<not> starts_with host ''['' \<and> \<not> (host \<noteq> [] \<and> last host = CHR '']'')
      then ''['' @ host @ '']:'' @ show_nat port
      else host @ '':'' @ show_nat port)"

text \<open>The checks on one runner; \<open>u32\<close> arithmetic is on 32-bit words and wraps.\<close>

definition validate_runner ::
  "(string \<Rightarrow> nat \<Rightarrow> IpAddr list option) \<Rightarrow> nat \<Rightarrow> bool \<Rightarrow> string \<Rightarrow> RunnerConfig \<Rightarrow> error + unit" where
  "validate_runner resolve default_pool_size external_mode name config =
     (let runner = ''runner '' @ quoted name in
      if rc_pool_size config = Some 0 then
        Inl (Bail (runner @ '' has invalid pool_size: 0 - must be a positive integer''))
      else if rc_max_in_flight config = Some 0 then
        Inl (Bail (runner @ '' has invalid max_in_flight: 0 - must be a positive integer''))
      else case rc_tcp_port config of
        None \<Rightarrow> Inl (Bail (runner @ '' is missing required field '' @ quoted ''tcp_port'' @ '' (e.g., 9000)''))
      | Some port \<Rightarrow>
          if \<not> external_mode \<and> rc_cmd config = None then
            Inl (Bail (runner @ '' is missing required field '' @ quoted ''cmd''
              @ '' (e.g., [\"rrq-runner\", \"--settings\", \"myapp.settings\"])''))
          else if port = 0 then
            Inl (Bail (runner @ '' has invalid tcp_port: 0 - must be in 1..=65535''))
          else
            let host = runner_tcp_host_or_default (rc_tcp_host config);
                socket = runner_tcp_socket_for_validation host port;
                allowed = (case rc_allowed_hosts config of None \<Rightarrow> [] | Some hs \<Rightarrow> hs)
            in if external_mode \<and> (case parse_tcp_socket_with_allowed_hosts resolve socket allowed of
                                     Inl _ \<Rightarrow> True | Inr _ \<Rightarrow> False)
               then Inl (Bail (runner @ '' has invalid endpoint '' @ quoted socket))
               else
                 let pool_size = (if external_mode then 1
                                  else case rc_pool_size config of None \<Rightarrow> default_pool_size | Some n \<Rightarrow> n)
                 in if 4294967295 < pool_size - 1 then
                      Inl (Bail (runner @ '' pool_size is too large: '' @ show_nat pool_size))
                    else
                      let port_span = of_nat (pool_size - 1) :: 32 word;
                          max_port = of_nat port + port_span
                      in if (65535 :: 32 word) < max_port then
                           Inl (Bail (runner @ '' tcp_port range insufficient for pool_size ''
                             @ show_nat pool_size @ '' (port '' @ show_nat port @ '' + ''
                             @ show_nat (pool_size - 1) @ '' would exceed 65535)''))
                         else Inr ())"

fun validate_runners ::
  "(string \<Rightarrow> nat \<Rightarrow> IpAddr list option) \<Rightarrow> nat \<Rightarrow> bool \<Rightarrow> (string \<times> RunnerConfig) list \<Rightarrow> error + unit" where
  "validate_runners resolve default_pool_size external_mode [] = Inr ()"
| "validate_runners resolve default_pool_size external_mode ((name, config) # rs) =
     (case validate_runner resolve default_pool_size external_mode name config of
        Inl e \<Rightarrow> Inl e
      | Inr _ \<Rightarrow> validate_runners resolve default_pool_size external_mode rs)"

definition finite_nonneg :: "f64 \<Rightarrow> bool" where
  "finite_nonneg x = (case x of Finite r \<Rightarrow> 0 \<le> r | _ \<Rightarrow> False)"

definition f64_above :: "f64 \<Rightarrow> rat \<Rightarrow> bool" where
  "f64_above x b = (case x of Finite r \<Rightarrow> b < r | PosInf \<Rightarrow> True | _ \<Rightarrow> False)"

definition validate_runner_configs ::
  "(string \<Rightarrow> nat \<Rightarrow> IpAddr list option) \<Rightarrow> nat \<Rightarrow> RRQSettings \<Rightarrow> error + unit" where
  "validate_runner_configs resolve num_cpus settings =
     (if default_job_timeout_seconds settings \<le> 0 then
        Inl (Bail ''default_job_timeout_seconds must be positive'')
      else if default_lock_timeout_extension_seconds settings < 0 then
        Inl (Bail ''default_lock_timeout_extension_seconds must be >= 0'')
      else case Option.bind
                  (checked_i64 (default_job_timeout_seconds settings
                     + default_lock_timeout_extension_seconds settings))
                  (\<lambda>total. checked_i64 (total * 1000)) of
        None \<Rightarrow> Inl (Bail ''provisional claim lock timeout overflow'')
      | Some _ \<Rightarrow>
          if \<not> finite_nonneg (runner_shutdown_term_grace_seconds settings) then
            Inl (Bail ''runner_shutdown_term_grace_seconds must be a finite number >= 0'')
          else if f64_above (runner_shutdown_term_grace_seconds settings) 18446744073709551616 then
            Inl (Bail ''runner_shutdown_term_grace_seconds is too large (max 18446744073709552000)'')
          else if runners settings = [] then Inr ()
          else validate_runners resolve num_cpus (runner_management_mode settings = External)
                 (runners settings))"

text \<open>
  The whole load: \<open>read\<close> is the file system, \<open>parse_toml\<close> the TOML crate with the conversion
  to JSON, \<open>deserialize\<close> the derived deserialiser of \<open>RRQSettings\<close>.
\<close>

definition load_toml_settings_with_runner_mode ::
  "(string \<Rightarrow> string option) \<Rightarrow> (string \<Rightarrow> bool) \<Rightarrow> (string \<Rightarrow> string option)
    \<Rightarrow> (string \<Rightarrow> json option) \<Rightarrow> (json \<Rightarrow> error + RRQSettings) \<Rightarrow> (string \<Rightarrow> nat \<Rightarrow> IpAddr list option) \<Rightarrow> nat
    \<Rightarrow> string option \<Rightarrow> RunnerManagementMode option \<Rightarrow> error + RRQSettings" where
  "load_toml_settings_with_runner_mode env is_file read parse_toml deserialize resolve num_cpus
       config_path runner_mode_override =
     (case fst (resolve_config_source env is_file config_path) of
        None \<Rightarrow> Inl (Bail ''RRQ config not found. Provide --config, set RRQ_CONFIG, or add rrq.toml.'')
      | Some path \<Rightarrow>
          (case read path of
             None \<Rightarrow> Inl (Bail (''failed to read config at '' @ path))
           | Some payload \<Rightarrow>
               (case parse_toml payload of
                  None \<Rightarrow> Inl (Bail (''failed to parse TOML at '' @ path))
                | Some v \<Rightarrow>
                    (case normalize_toml_payload v of
                       Inl e \<Rightarrow> Inl e
                     | Inr json_value \<Rightarrow>
                         (case deserialize (deep_merge json_value (env_overrides env)) of
                            Inl e \<Rightarrow> Inl e
                          | Inr settings0 \<Rightarrow>
                              let settings = (case runner_mode_override of
                                    None \<Rightarrow> settings0
                                  | Some mode \<Rightarrow> settings0\<lparr>runner_management_mode := mode\<rparr>)
                              in case validate_runner_configs resolve num_cpus settings of
                                   Inl e \<Rightarrow> Inl e
                                 | Inr _ \<Rightarrow> Inr settings)))))"

end
