(* ===== verification/Config_Facts.thy ===== *)
theory Config_Facts
  imports Config
begin

text \<open>
  What loading guarantees: overlay precedence of the merge, normalised queue names, the
  numeric facts the worker relies on after validation, and where the checks stop short.
\<close>

section \<open>Merging and normalisation\<close>

lemma merge_entries_lookup:
  assumes "distinct (map fst ov)"
  shows "map_of (merge_entries b ov) k = (case map_of ov k of
      None \<Rightarrow> map_of b k
    | Some v \<Rightarrow> Some (case map_of b k of None \<Rightarrow> v | Some existing \<Rightarrow> deep_merge existing v))"
  using assms
proof (induction ov arbitrary: b)
  case (Cons p ov)
  obtain key v where p: "p = (key, v)" by (cases p)
  have nk: "map_of ov key = None" using Cons.prems p by (simp add: map_of_eq_None_iff)
  show ?case
    using Cons nk p by (subst merge_entries.simps) (auto split: option.splits)
qed simp

text \<open>Merging an overlay into a table: a key only the table has keeps its value, a key only
  the overlay has gets the overlay's, and a key of both the merge of the two values, which is the
  overlay's value unless both are tables.\<close>

theorem deep_merge_lookup:
  assumes "distinct (map fst ov)"
  shows "\<exists>m. deep_merge (JObj b) (JObj ov) = JObj m
    \<and> (\<forall>k. map_of m k = (case map_of ov k of
          None \<Rightarrow> map_of b k
        | Some v \<Rightarrow> Some (case map_of b k of
             None \<Rightarrow> v
           | Some old \<Rightarrow> (case (old, v) of (JObj _, JObj _) \<Rightarrow> deep_merge old v | _ \<Rightarrow> v))))"
proof -
  have "deep_merge old v = (case (old, v) of (JObj _, JObj _) \<Rightarrow> deep_merge old v | _ \<Rightarrow> v)" for old v
    by (cases old; cases v) (simp_all add: deep_merge.simps)
  then show ?thesis
    using merge_entries_lookup [OF assms, of b]
    by (intro exI [of _ "merge_entries b ov"]) (simp split: option.splits)
qed

theorem deep_merge_lookup_witness:
  "\<exists>m. deep_merge (JObj [(''a'', JInt 1), (''b'', JInt 2)]) (JObj [(''b'', JInt 3)]) = JObj m
     \<and> map_of m ''a'' = Some (JInt 1) \<and> map_of m ''b'' = Some (JInt 3)"
proof -
  obtain m where m: "deep_merge (JObj [(''a'', JInt 1), (''b'', JInt 2)]) (JObj [(''b'', JInt 3)]) = JObj m"
    "\<And>k. map_of m k = (case map_of [(''b'', JInt 3)] k of
          None \<Rightarrow> map_of [(''a'', JInt 1), (''b'', JInt 2)] k
        | Some v \<Rightarrow> Some (case map_of [(''a'', JInt 1), (''b'', JInt 2)] k of
             None \<Rightarrow> v
           | Some old \<Rightarrow> (case (old, v) of (JObj _, JObj _) \<Rightarrow> deep_merge old v | _ \<Rightarrow> v)))"
    using deep_merge_lookup [where ov = "[(''b'', JInt 3)]" and b = "[(''a'', JInt 1), (''b'', JInt 2)]"] by auto
  show ?thesis
    using m(1) by (intro exI [of _ m]) (simp add: m(2))
qed

definition prefixed_keys :: "params \<Rightarrow> bool" where
  "prefixed_keys m \<longleftrightarrow> distinct (map fst m) \<and> (\<forall>k \<in> fst ` set m. starts_with k QUEUE_KEY_PREFIX)"

lemma fst_minsert: "fst ` set (minsert k v m) = insert k (fst ` set m)"
  by (auto simp: minsert_def image_Un)

lemma prefixed_minsert: "prefixed_keys m \<Longrightarrow> prefixed_keys (minsert (normalize_queue_name q) r m)"
proof -
  have "starts_with (normalize_queue_name q) QUEUE_KEY_PREFIX"
    by (simp add: normalize_queue_name_def)
  then show "prefixed_keys m \<Longrightarrow> prefixed_keys (minsert (normalize_queue_name q) r m)"
    unfolding prefixed_keys_def fst_minsert by simp
qed

lemma normalize_routes_prefixed: "prefixed_keys (normalize_routes routes)"
proof -
  have "prefixed_keys acc \<Longrightarrow> prefixed_keys (foldl (\<lambda>normalized (queue_name, runner_name).
      minsert (normalize_queue_name queue_name) runner_name normalized) acc routes)" for acc
  proof (induction routes arbitrary: acc)
    case (Cons p routes)
    obtain q r where p: "p = (q, r)" by (cases p)
    show ?case
      using Cons.IH [OF prefixed_minsert [OF Cons.prems]] by (simp add: p)
  qed simp
  moreover have "prefixed_keys []" by (simp add: prefixed_keys_def)
  ultimately show ?thesis unfolding normalize_routes_def by blast
qed

lemma normalize_routes_keys:
  "distinct (map fst (normalize_routes routes))"
  "k \<in> fst ` set (normalize_routes routes) \<Longrightarrow> starts_with k QUEUE_KEY_PREFIX"
  using normalize_routes_prefixed [of routes] unfolding prefixed_keys_def by blast+

definition normalize_default :: "json \<Rightarrow> json" where
  "normalize_default v = (case v of JStr q \<Rightarrow> JStr (normalize_queue_name q) | _ \<Rightarrow> v)"

definition normalize_routing :: "json \<Rightarrow> json" where
  "normalize_routing v = (case v of JObj routes \<Rightarrow> JObj (normalize_routes routes) | _ \<Rightarrow> v)"

lemma normalize_queue_fields_lookup:
  "map_of (normalize_queue_fields m) k =
     (if k = ''default_queue_name'' then map_option normalize_default (map_of m k)
      else if k = ''runner_routes'' then map_option normalize_routing (map_of m k)
      else map_of m k)"
proof -
  define m1 where "m1 = (case map_of m ''default_queue_name'' of
      Some (JStr q) \<Rightarrow> minsert ''default_queue_name'' (JStr (normalize_queue_name q)) m | _ \<Rightarrow> m)"
  have m1: "map_of m1 x = (if x = ''default_queue_name'' then map_option normalize_default (map_of m x)
      else map_of m x)" for x
    unfolding m1_def
    by (cases "map_of m ''default_queue_name''"; simp) (auto simp: normalize_default_def split: json.split)
  have eq: "normalize_queue_fields m = (case map_of m1 ''runner_routes'' of
      Some (JObj routes) \<Rightarrow> minsert ''runner_routes'' (JObj (normalize_routes routes)) m1 | _ \<Rightarrow> m1)"
    unfolding normalize_queue_fields_def m1_def [symmetric] Let_def by (rule refl)
  have "map_of (normalize_queue_fields m) x = (if x = ''runner_routes'' then map_option normalize_routing (map_of m1 x)
      else map_of m1 x)" for x
    unfolding eq
    by (cases "map_of m1 ''runner_routes''"; simp) (auto simp: normalize_routing_def split: json.split)
  then show ?thesis by (simp add: m1)
qed

text \<open>After normalisation of a configuration table, the default queue name, where it is a
  string, carries the queue prefix, and so does every queue of the routing table.\<close>

theorem normalize_queue_fields_prefixed:
  "(\<forall>q. map_of (normalize_queue_fields m) ''default_queue_name'' = Some (JStr q)
      \<longrightarrow> starts_with q QUEUE_KEY_PREFIX)
   \<and> (\<forall>routes. map_of (normalize_queue_fields m) ''runner_routes'' = Some (JObj routes)
      \<longrightarrow> (\<forall>k \<in> fst ` set routes. starts_with k QUEUE_KEY_PREFIX))"
proof -
  have "starts_with q QUEUE_KEY_PREFIX" if "normalize_default v = JStr q" for v q
    using that by (cases v) (auto simp: normalize_default_def normalize_queue_name_def)
  moreover have "\<forall>k \<in> fst ` set routes. starts_with k QUEUE_KEY_PREFIX"
    if "normalize_routing v = JObj routes" for v routes
    using that normalize_routes_keys(2) by (cases v) (auto simp: normalize_routing_def)
  ultimately show ?thesis
    by (simp add: normalize_queue_fields_lookup) blast
qed

theorem normalize_queue_fields_prefixed_witness:
  "let m = [(''default_queue_name'', JStr ''mail''), (''runner_routes'', JObj [(''mail'', JStr ''python'')])]
   in \<forall>q. map_of (normalize_queue_fields m) ''default_queue_name'' = Some (JStr q)
        \<longrightarrow> starts_with q QUEUE_KEY_PREFIX"
  using normalize_queue_fields_prefixed
    [of "[(''default_queue_name'', JStr ''mail''), (''runner_routes'', JObj [(''mail'', JStr ''python'')])]"]
  unfolding Let_def by (rule conjunct1)

section \<open>Validation\<close>

lemma validate_runners_each:
  "validate_runners resolve n ext rs = Inr () \<Longrightarrow> (name, config) \<in> set rs \<Longrightarrow>
   validate_runner resolve n ext name config = Inr ()"
  by (induction rs) (auto split: sum.splits)

lemma validate_runner_facts:
  assumes "validate_runner resolve n ext name config = Inr ()"
  obtains port where "rc_tcp_port config = Some port" "port \<noteq> 0" "ext \<or> rc_cmd config \<noteq> None"
    "rc_pool_size config \<noteq> Some 0" "rc_max_in_flight config \<noteq> Some 0"
    "(of_nat port + of_nat ((if ext then 1 else case rc_pool_size config of None \<Rightarrow> n | Some k \<Rightarrow> k) - 1)
        :: 32 word) \<le> 65535"
    "(if ext then 1 else case rc_pool_size config of None \<Rightarrow> n | Some k \<Rightarrow> k) - 1 \<le> 4294967295"
  using assms unfolding validate_runner_def Let_def
  by (auto split: if_splits option.splits simp: not_less)

lemma port_sum_bound:
  assumes "(of_nat p + of_nat k :: 32 word) \<le> 65535" "p + k < 4294967296"
  shows "p + k \<le> 65535"
proof -
  have "unat (of_nat (p + k) :: 32 word) = p + k"
    using assms(2) by (simp only: unsigned_of_nat) (simp add: take_bit_nat_eq_self)
  moreover have "unat (of_nat (p + k) :: 32 word) \<le> unat (65535 :: 32 word)"
    using assms(1) by (simp add: word_le_nat_alt)
  ultimately show ?thesis by simp
qed

text \<open>A configuration that validates gives every runner a usable range of ports: with ports
  below 65536 and pools below 4294901760 processes, each process of a pool has a port in 1..65535;
  a managed runner has a command, and no pool size or in-flight limit is zero.\<close>

theorem validate_runner_configs_ports:
  assumes ok: "validate_runner_configs resolve num_cpus settings = Inr ()"
    and runner: "(name, config) \<in> set (runners settings)"
    and u16: "\<And>p. rc_tcp_port config = Some p \<Longrightarrow> p \<le> 65535"
    and size: "pool = (if runner_management_mode settings = External then 1
                      else case rc_pool_size config of None \<Rightarrow> num_cpus | Some k \<Rightarrow> k)" "pool < 4294901760"
  shows "\<exists>port. rc_tcp_port config = Some port \<and> 1 \<le> port
    \<and> (\<forall>i < pool. port + i \<le> 65535)
    \<and> (runner_management_mode settings = Managed \<longrightarrow> rc_cmd config \<noteq> None)
    \<and> rc_pool_size config \<noteq> Some 0 \<and> rc_max_in_flight config \<noteq> Some 0"
proof -
  let ?ext = "runner_management_mode settings = External"
  have "validate_runners resolve num_cpus ?ext (runners settings) = Inr ()"
    using ok runner by (auto simp: validate_runner_configs_def split: if_splits option.splits)
  then have "validate_runner resolve num_cpus ?ext name config = Inr ()"
    using runner by (rule validate_runners_each)
  then obtain port where port: "rc_tcp_port config = Some port" "port \<noteq> 0" "?ext \<or> rc_cmd config \<noteq> None"
      "rc_pool_size config \<noteq> Some 0" "rc_max_in_flight config \<noteq> Some 0"
      "(of_nat port + of_nat (pool - 1) :: 32 word) \<le> 65535" "pool - 1 \<le> 4294967295"
    unfolding size(1) by (rule validate_runner_facts)
  have "port + (pool - 1) \<le> 65535"
    using port(6) u16 [OF port(1)] size(2) by (intro port_sum_bound) auto
  then show ?thesis
    using port by (intro exI [of _ port]) auto
qed

definition one_runner :: "nat \<Rightarrow> RRQSettings" where
  "one_runner pool = default_settings\<lparr>runners := [(''python'',
     \<lparr> rc_runner_type = Socket, rc_cmd = Some [''rrq-runner''], rc_pool_size = Some pool,
       rc_max_in_flight = None, rc_env = None, rc_cwd = None, rc_tcp_host = None,
       rc_tcp_port = Some 9000, rc_allowed_hosts = None, rc_response_timeout_seconds = None \<rparr>)]\<rparr>"

lemma one_runner_valid:
  assumes "0 < pool" "pool \<le> 4294967296" "(9000 + of_nat (pool - 1) :: 32 word) \<le> 65535"
  shows "validate_runner_configs resolve n (one_runner pool) = Inr ()"
  using assms
  by (simp add: validate_runner_configs_def one_runner_def default_settings_def i64_ok_def checked_i64_def
      finite_nonneg_def f64_above_def validate_runner_def Let_def not_less)

theorem validate_runner_configs_ports_witness:
  "\<exists>port. rc_tcp_port (snd (hd (runners (one_runner 4)))) = Some port \<and> (\<forall>i < 4. port + i \<le> 65535)"
proof -
  have "validate_runner_configs (\<lambda>_ _. None) 8 (one_runner 4) = Inr ()"
    by (rule one_runner_valid) simp_all
  from validate_runner_configs_ports [OF this, of "fst (hd (runners (one_runner 4)))"
      "snd (hd (runners (one_runner 4)))" 4]
  show ?thesis by (auto simp: one_runner_def default_settings_def)
qed

text \<open>The port check wraps: a pool of 4294958297 processes from port 9000 needs ports far
  beyond 65535 and still validates, because the last port is computed modulo 2^32.\<close>

theorem validate_runner_configs_accepts_overflow:
  "validate_runner_configs resolve num_cpus (one_runner 4294958297) = Inr ()
   \<and> \<not> 9000 + (4294958297 - 1) \<le> (65535 :: nat)"
proof -
  have "(9000 + of_nat (4294958297 - 1) :: 32 word) \<le> 65535"
    by simp
  then show ?thesis
    by (simp add: one_runner_valid del: of_nat_numeral)
qed

text \<open>After validation the provisional claim lock timeout is a positive \<open>i64\<close>, so claiming
  never fails for it.\<close>

theorem validate_runner_configs_lock_timeout:
  assumes "validate_runner_configs resolve num_cpus settings = Inr ()"
  shows "0 < (default_job_timeout_seconds settings + default_lock_timeout_extension_seconds settings) * 1000
    \<and> i64_ok ((default_job_timeout_seconds settings + default_lock_timeout_extension_seconds settings) * 1000)
    \<and> 0 \<le> default_lock_timeout_extension_seconds settings"
  using assms
  by (auto simp: validate_runner_configs_def bind_eq_Some_conv split: if_splits option.splits)

theorem validate_runner_configs_lock_timeout_witness:
  "i64_ok ((default_job_timeout_seconds (one_runner 4) + default_lock_timeout_extension_seconds (one_runner 4)) * 1000)"
  using validate_runner_configs_lock_timeout [OF one_runner_valid [of 4]] by simp

section \<open>Cron\<close>

text \<open>A schedule that fires at second 30 of each minute is due again as soon as it has been
  rescheduled at second 45: the search starts at the beginning of the current minute, so it finds
  the time that has just passed.\<close>

theorem schedule_next_in_the_past:
  assumes after: "\<And>t. after ''30 * * * * *'' t
      = Some (Some (let m = minute_start t + secs 30 in if t < m then m else m + secs 60))"
    and job: "cj_schedule job = ''30 * * * * *''"
  shows "\<exists>job'. schedule_next after job (secs 45) = Inr job' \<and> cj_next_run_time job' = Some (secs 30)
    \<and> due after job' (secs 45) = Inr (True, job')"
  by (simp add: schedule_next_def job after due_def minute_start_def secs_def Let_def)

theorem schedule_next_in_the_past_witness:
  "let after = (\<lambda>_ t. Some (Some (let m = minute_start t + secs 30 in if t < m then m else m + secs 60)));
       job = \<lparr> cj_function_name = ''f'', cj_schedule = ''30 * * * * *'', cj_params = [],
               cj_queue_name = None, cj_unique = False, cj_next_run_time = None \<rparr>
   in \<exists>job'. due after job' (secs 45) = Inr (True, job')"
  using schedule_next_in_the_past [where
      after = "\<lambda>_ t. Some (Some (let m = minute_start t + secs 30 in if t < m then m else m + secs 60))"
      and job = "\<lparr> cj_function_name = ''f'', cj_schedule = ''30 * * * * *'', cj_params = [],
               cj_queue_name = None, cj_unique = False, cj_next_run_time = None \<rparr>"]
  by auto

end
