(* ===== verification/Client.thy ===== *)
theory Client
  imports Store_Effects Config
begin

text \<open>
  The orchestrator's client (\<open>orchestrator/src/client.rs\<close>) and the correlation context it
  attaches to jobs (\<open>telemetry.rs\<close>). The clock, a fresh job id and the trace propagation of
  the OpenTelemetry library are arguments; metrics and log lines are left out.
\<close>

section \<open>Correlation context\<close>

definition MAX_CORRELATION_KEYS :: nat where "MAX_CORRELATION_KEYS = 16"
definition MAX_CORRELATION_KEY_LEN :: nat where "MAX_CORRELATION_KEY_LEN = 64"
definition MAX_CORRELATION_VALUE_LEN :: nat where "MAX_CORRELATION_VALUE_LEN = 256"

text \<open>A string is its UTF-8 bytes; the length of a character is read off its first byte.\<close>

definition utf8_len :: "char \<Rightarrow> nat" where
  "utf8_len c = (let k = of_char c :: nat in
     if k < 128 then 1 else if k < 224 then 2 else if k < 240 then 3 else 4)"

lemma utf8_len_pos [simp]: "0 < utf8_len c"
  by (simp add: utf8_len_def Let_def)

function truncate_chars :: "nat \<Rightarrow> string \<Rightarrow> string \<Rightarrow> string" where
  "truncate_chars max_len out [] = out"
| "truncate_chars max_len out (c # cs) =
     (let ch = take (utf8_len c) (c # cs) in
      if max_len < length out + length ch then out
      else truncate_chars max_len (out @ ch) (drop (utf8_len c) (c # cs)))"
  by pat_completeness auto
termination
  by (relation "measure (\<lambda>(_, _, s). length s)") auto

definition truncate_utf8 :: "string \<Rightarrow> nat \<Rightarrow> string" where
  "truncate_utf8 v max_len = (if length v \<le> max_len then v else truncate_chars max_len [] v)"

text \<open>\<open>str::split('.')\<close>.\<close>

fun split_dots :: "string \<Rightarrow> string list" where
  "split_dots [] = [[]]"
| "split_dots (c # cs) =
     (if c = CHR ''.'' then [] # split_dots cs
      else case split_dots cs of p # ps \<Rightarrow> (c # p) # ps | [] \<Rightarrow> [[c]])"

fun lookup_parts :: "json \<Rightarrow> string list \<Rightarrow> json option" where
  "lookup_parts current [] = Some current"
| "lookup_parts current (part # parts) =
     (if part = [] then None
      else case current of
        JObj m \<Rightarrow> (case map_of m part of None \<Rightarrow> None | Some v \<Rightarrow> lookup_parts v parts)
      | _ \<Rightarrow> None)"

definition lookup_value_in_params :: "params \<Rightarrow> string \<Rightarrow> json option" where
  "lookup_value_in_params ps path =
     (let trimmed = trim path;
          cleaned = (case strip_prefix trimmed ''params.'' of None \<Rightarrow> trimmed | Some s \<Rightarrow> s)
      in if cleaned = [] then None
         else case split_dots cleaned of
           [] \<Rightarrow> None
         | first # parts \<Rightarrow> (case map_of ps first of None \<Rightarrow> None | Some v \<Rightarrow> lookup_parts v parts))"

definition scalar_value_to_string :: "json \<Rightarrow> string option" where
  "scalar_value_to_string v = (case v of
      JStr s \<Rightarrow> if s \<noteq> [] then Some s else None
    | JBool b \<Rightarrow> Some (if b then ''true'' else ''false'')
    | JInt n \<Rightarrow> Some (show_int n)
    | JFloat s \<Rightarrow> Some s
    | _ \<Rightarrow> None)"

definition sminsert :: "string \<Rightarrow> string \<Rightarrow> strmap \<Rightarrow> strmap" where
  "sminsert k v m = filter (\<lambda>p. fst p \<noteq> k) m @ [(k, v)]"

definition correlation_step :: "params \<Rightarrow> strmap option \<Rightarrow> string \<times> string \<Rightarrow> strmap \<Rightarrow> strmap" where
  "correlation_step ps trace_context = (\<lambda>(attribute_name, path) correlation.
     let key = trim attribute_name in
     if key = [] \<or> MAX_CORRELATION_KEY_LEN < length key then correlation
     else case Option.bind trace_context (\<lambda>ctx. map_of ctx key) of
       Some existing \<Rightarrow>
         if existing \<noteq> [] then sminsert key (truncate_utf8 existing MAX_CORRELATION_VALUE_LEN) correlation
         else (case Option.bind (lookup_value_in_params ps path) scalar_value_to_string of
                 None \<Rightarrow> correlation
               | Some v \<Rightarrow> sminsert key (truncate_utf8 v MAX_CORRELATION_VALUE_LEN) correlation)
     | None \<Rightarrow>
         (case Option.bind (lookup_value_in_params ps path) scalar_value_to_string of
            None \<Rightarrow> correlation
          | Some v \<Rightarrow> sminsert key (truncate_utf8 v MAX_CORRELATION_VALUE_LEN) correlation))"

fun correlation_loop :: "params \<Rightarrow> strmap option \<Rightarrow> strmap \<Rightarrow> strmap \<Rightarrow> strmap" where
  "correlation_loop ps trace_context [] correlation = correlation"
| "correlation_loop ps trace_context (m # mappings) correlation =
     (if MAX_CORRELATION_KEYS \<le> length correlation then correlation
      else correlation_loop ps trace_context mappings (correlation_step ps trace_context m correlation))"

definition extract_correlation_context :: "params \<Rightarrow> strmap \<Rightarrow> strmap option \<Rightarrow> strmap option" where
  "extract_correlation_context ps mappings trace_context =
     (if mappings = [] then None
      else let correlation = correlation_loop ps trace_context mappings []
           in if correlation = [] then None else Some correlation)"

subsection \<open>Its limits\<close>

lemma truncate_chars_prefix:
  "length out \<le> max_len \<Longrightarrow>
   length (truncate_chars max_len out s) \<le> max_len \<and> (\<exists>t. truncate_chars max_len out s @ t = out @ s)"
proof (induction max_len out s rule: truncate_chars.induct)
  case (2 max_len out c cs)
  let ?ch = "take (utf8_len c) (c # cs)"
  show ?case
  proof (cases "max_len < length out + length ?ch")
    case False
    then obtain t where "length (truncate_chars max_len (out @ ?ch) (drop (utf8_len c) (c # cs))) \<le> max_len"
      "truncate_chars max_len (out @ ?ch) (drop (utf8_len c) (c # cs)) @ t = (out @ ?ch) @ drop (utf8_len c) (c # cs)"
      using "2.IH" by auto
    moreover have "(out @ ?ch) @ drop (utf8_len c) (c # cs) = out @ c # cs"
      by (metis append.assoc append_take_drop_id)
    ultimately show ?thesis using False by (auto simp: Let_def)
  qed (use 2 in \<open>auto simp: Let_def\<close>)
qed simp

lemma truncate_utf8_bound: "length (truncate_utf8 v n) \<le> n"
  using truncate_chars_prefix [of "[]" n v] by (simp add: truncate_utf8_def)

definition correlation_ok :: "strmap \<Rightarrow> bool" where
  "correlation_ok m \<longleftrightarrow> length m \<le> MAX_CORRELATION_KEYS \<and> distinct (map fst m)
     \<and> (\<forall>(k, v) \<in> set m. k \<noteq> [] \<and> length k \<le> MAX_CORRELATION_KEY_LEN
                        \<and> length v \<le> MAX_CORRELATION_VALUE_LEN)"

lemma sminsert_ok:
  assumes "correlation_ok m" "length m < MAX_CORRELATION_KEYS" "k \<noteq> []" "length k \<le> MAX_CORRELATION_KEY_LEN"
  shows "correlation_ok (sminsert k (truncate_utf8 v MAX_CORRELATION_VALUE_LEN) m)"
proof -
  have "length (filter (\<lambda>p. fst p \<noteq> k) m) \<le> length m" by simp
  with assms show ?thesis
    using truncate_utf8_bound [of v MAX_CORRELATION_VALUE_LEN]
    by (auto simp: correlation_ok_def sminsert_def distinct_map_filter)
      (meson Suc_leI le_less_trans length_filter_le)
qed

lemma correlation_step_ok:
  "correlation_ok m \<Longrightarrow> length m < MAX_CORRELATION_KEYS \<Longrightarrow> correlation_ok (correlation_step ps tc e m)"
  by (auto simp: correlation_step_def Let_def sminsert_ok split: prod.split option.split)

lemma correlation_loop_ok: "correlation_ok m \<Longrightarrow> correlation_ok (correlation_loop ps tc ms m)"
  by (induction ms arbitrary: m) (auto simp: correlation_step_ok)

text \<open>C15. The correlation context respects its limits whatever the mappings, parameters and trace
  context are: at most 16 entries with distinct, non-empty keys of at most 64 bytes and values of
  at most 256 bytes.\<close>

theorem extract_correlation_context_limits:
  "case extract_correlation_context ps mappings trace_context of
     None \<Rightarrow> True
   | Some m \<Rightarrow> m \<noteq> [] \<and> length m \<le> 16 \<and> distinct (map fst m)
       \<and> list_all (\<lambda>(k, v). k \<noteq> [] \<and> length k \<le> 64 \<and> length v \<le> 256) m"
proof -
  have "correlation_ok (correlation_loop ps trace_context mappings [])"
    by (rule correlation_loop_ok) (simp add: correlation_ok_def)
  then show ?thesis
    by (auto simp: extract_correlation_context_def correlation_ok_def MAX_CORRELATION_KEYS_def
        MAX_CORRELATION_KEY_LEN_def MAX_CORRELATION_VALUE_LEN_def list_all_iff Let_def)
qed

section \<open>Time arithmetic\<close>

text \<open>
  \<open>DateTime + Duration\<close> panics outside chrono's range (about 262,000 years either way), and
  \<open>Duration::seconds\<close> outside \<open>i64\<close> milliseconds.
\<close>

definition chrono_ok :: "datetime \<Rightarrow> bool" where
  "chrono_ok t \<longleftrightarrow> - 8334601228800000000000 \<le> t \<and> t \<le> 8210266876799999999999"

definition datetime_add :: "datetime \<Rightarrow> int \<Rightarrow> ('s, datetime) io" where
  "datetime_add t d = (if chrono_ok (t + d) then ret (t + d) else panic ''DateTime + TimeDelta overflowed'')"

definition duration_seconds :: "int \<Rightarrow> ('s, int) io" where
  "duration_seconds n =
     (if - 9223372036854775 \<le> n \<and> n \<le> 9223372036854775 then ret (secs n)
      else panic ''TimeDelta::seconds out of bounds'')"

section \<open>Enqueueing\<close>

record EnqueueOptions =
  eo_queue_name :: "string option"
  eo_job_id :: "string option"
  eo_unique_key :: "string option"
  eo_max_retries :: "int option"
  eo_job_timeout_seconds :: "int option"
  eo_defer_until :: "datetime option"
  eo_defer_by :: "int option" \<comment> \<open>nanoseconds\<close>
  eo_result_ttl_seconds :: "int option"
  eo_trace_context :: "strmap option"

text \<open>The smallest time to live of the unique lock, or the error of an invalid timeout.\<close>

definition lock_ttl_floor :: "RRQSettings \<Rightarrow> int \<Rightarrow> error + int" where
  "lock_ttl_floor settings job_timeout_seconds =
     (if job_timeout_seconds \<le> 0 then Inl (Bail ''job_timeout_seconds must be positive'')
      else case Option.bind
             (checked_i64 (job_timeout_seconds + default_lock_timeout_extension_seconds settings))
             (\<lambda>v. checked_i64 (v + 1)) of
        None \<Rightarrow> Inl (Bail ''lock_ttl_seconds overflow'')
      | Some n \<Rightarrow> if n \<le> 0 then Inl (Bail ''lock_ttl_seconds must be positive'') else Inr n)"

text \<open>The run time asked for and the time to live of the unique lock that covers it.\<close>

definition desired_schedule ::
  "RRQSettings \<Rightarrow> EnqueueOptions \<Rightarrow> datetime \<Rightarrow> int \<Rightarrow> ('s, datetime \<times> int) io" where
  "desired_schedule settings options enqueue_time ttl_floor =
     (let lock_ttl = max (default_unique_job_lock_ttl_seconds settings) ttl_floor in
      case eo_defer_until options of
        Some defer_until \<Rightarrow>
          let diff = (defer_until - enqueue_time) div 1000000000
          in ret (defer_until, if 0 < diff then max lock_ttl (diff + 1) else lock_ttl)
      | None \<Rightarrow>
          (case eo_defer_by options of
             Some defer_by \<Rightarrow>
               let defer_secs = max 0 (defer_by div 1000000000)
               in andThen (datetime_add enqueue_time defer_by) (\<lambda>t. ret (t, max lock_ttl (defer_secs + 1)))
           | None \<Rightarrow> ret (enqueue_time, lock_ttl)))"

text \<open>\<open>desired_run_time.max(enqueue_time + Duration::seconds(ttl))\<close>.\<close>

definition defer_behind :: "datetime \<Rightarrow> datetime \<Rightarrow> int \<Rightarrow> ('s, datetime) io" where
  "defer_behind desired enqueue_time ttl =
     andThen (duration_seconds ttl) (\<lambda>d.
     andThen (datetime_add enqueue_time d) (\<lambda>t. ret (max desired t)))"

definition unique_step ::
  "'r redis \<Rightarrow> string option \<Rightarrow> string \<Rightarrow> int \<Rightarrow> datetime \<Rightarrow> datetime \<Rightarrow> ('r, datetime \<times> bool) io" where
  "unique_step R unique_key job_id lock_ttl_seconds enqueue_time desired =
     (case unique_key of
        None \<Rightarrow> ret (desired, False)
      | Some key \<Rightarrow>
          andThen (get_lock_ttl R key) (\<lambda>remaining_ttl.
            if 0 < remaining_ttl then
              andThen (defer_behind desired enqueue_time remaining_ttl) (\<lambda>t. ret (t, False))
            else
              andThen (acquire_unique_job_lock R key job_id lock_ttl_seconds) (\<lambda>acquired.
                if acquired then ret (desired, True)
                else
                  andThen (get_lock_ttl R key) (\<lambda>remaining.
                    if 0 < remaining then
                      andThen (defer_behind desired enqueue_time remaining) (\<lambda>t. ret (t, False))
                    else ret (desired, False)))))"

definition build_job ::
  "RRQSettings \<Rightarrow> EnqueueOptions \<Rightarrow> string \<Rightarrow> string \<Rightarrow> params \<Rightarrow> string \<Rightarrow> int \<Rightarrow> strmap option
    \<Rightarrow> strmap option \<Rightarrow> datetime \<Rightarrow> datetime \<Rightarrow> job" where
  "build_job settings options job_id function_name ps queue_name job_timeout_seconds trace_context
       correlation_context enqueue_time desired_run_time =
     \<lparr> j_id = job_id, j_function_name = function_name, j_params = ps, j_enqueue_time = enqueue_time,
       j_start_time = None, j_status = Pending, j_current_retries = 0,
       j_next_scheduled_run_time = Some desired_run_time,
       j_max_retries = or_default (eo_max_retries options) (default_max_retries settings),
       j_job_timeout_seconds = Some job_timeout_seconds,
       j_result_ttl_seconds =
         Some (or_default (eo_result_ttl_seconds options) (default_result_ttl_seconds settings)),
       j_unique_key = eo_unique_key options, j_completion_time = None, j_result = None,
       j_last_error = None, j_queue_name = Some queue_name, j_dlq_name = None, j_worker_id = None,
       j_trace_context = trace_context, j_correlation_context = correlation_context \<rparr>"

definition release_if_acquired :: "'r redis \<Rightarrow> bool \<Rightarrow> string option \<Rightarrow> ('r, unit) io" where
  "release_if_acquired R unique_acquired unique_key =
     (if unique_acquired then
        (case unique_key of
           Some key \<Rightarrow> ignore (attempt (release_unique_job_lock R key)) | None \<Rightarrow> ret ())
      else ret ())"

definition enqueue ::
  "'r redis \<Rightarrow> codec \<Rightarrow> (strmap option \<Rightarrow> strmap option) \<Rightarrow> string \<Rightarrow> datetime \<Rightarrow> RRQSettings
    \<Rightarrow> string \<Rightarrow> params \<Rightarrow> EnqueueOptions \<Rightarrow> ('r, job) io" where
  "enqueue R C inject new_id now settings function_name ps options =
     (let job_id = or_default (eo_job_id options) new_id;
          queue_name = normalize_queue_name (or_default (eo_queue_name options) (default_queue_name settings));
          trace_context = inject (eo_trace_context options);
          correlation_context = extract_correlation_context ps (correlation_mappings settings) trace_context;
          job_timeout_seconds =
            or_default (eo_job_timeout_seconds options) (default_job_timeout_seconds settings)
      in case lock_ttl_floor settings job_timeout_seconds of
           Inl e \<Rightarrow> fail e
         | Inr ttl_floor \<Rightarrow>
             andThen (desired_schedule settings options now ttl_floor) (\<lambda>(desired, lock_ttl_seconds).
             andThen (unique_step R (eo_unique_key options) job_id lock_ttl_seconds now desired)
               (\<lambda>(desired_run_time, unique_acquired).
             let job = build_job settings options job_id function_name ps queue_name job_timeout_seconds
                         trace_context correlation_context now desired_run_time
             in andThen (attempt (atomic_enqueue_job R C job queue_name
                                    (of_int (timestamp_millis desired_run_time)))) (\<lambda>r.
                case r of
                  Inr True \<Rightarrow> ret job
                | Inr False \<Rightarrow>
                    andThen (release_if_acquired R unique_acquired (eo_unique_key options))
                      (\<lambda>_. fail (Bail ''job_id already exists''))
                | Inl err \<Rightarrow>
                    andThen (release_if_acquired R unique_acquired (eo_unique_key options))
                      (\<lambda>_. fail err)))))"

end
