(* ===== verification/Client_Properties.thy ===== *)
theory Client_Properties
  imports Client Store_Properties
begin

text \<open>
  The contract of the client: what an accepted call leaves in Redis, how a unique key is taken,
  how a call behind a held unique key is deferred, and that a refused call leaves nothing.
\<close>

section \<open>Refinement\<close>

context redis_server
begin

lemma unique_step_sim [sim_rules]:
  "sim db (unique_step R u j ttl t d) (unique_step ks_redis u j ttl t d)"
  unfolding unique_step_def defer_behind_def duration_seconds_def datetime_add_def
  by (intro sim_rules)

lemma release_if_acquired_sim [sim_rules]:
  "sim db (release_if_acquired R b u) (release_if_acquired ks_redis b u)"
  unfolding release_if_acquired_def by (intro sim_rules)

lemma desired_schedule_sim [sim_rules]:
  "sim db (desired_schedule st opts t f) (desired_schedule st opts t f)"
  unfolding desired_schedule_def datetime_add_def by (intro sim_rules)

lemma sim_case_bool_result:
  assumes "sim d m1 n1" "sim d m2 n2" "\<And>e. sim d (m3 e) (n3 e)"
  shows "sim d (case r of Inr True \<Rightarrow> m1 | Inr False \<Rightarrow> m2 | Inl e \<Rightarrow> m3 e)
    (case r of Inr True \<Rightarrow> n1 | Inr False \<Rightarrow> n2 | Inl e \<Rightarrow> n3 e)"
  using assms by (simp split: sum.split bool.split)

lemma enqueue_sim [sim_rules]:
  "sim db (enqueue R C inject i now st f ps opts) (enqueue ks_redis C inject i now st f ps opts)"
  unfolding enqueue_def by (intro sim_rules sim_case_bool_result)

end

section \<open>On keyspaces\<close>

lemma lock_ttl_effect:
  "get_lock_ttl ks_redis u ks = (Ok (case ks (format_unique_key u) of None \<Rightarrow> 0
     | Some _ \<Rightarrow> (case ttl_at ks (format_unique_key u) of None \<Rightarrow> 0
         | Some t \<Rightarrow> max 0 ((t + 500) div 1000))), ks)"
  by (auto simp: get_lock_ttl_def andThen_def ret_def effects max_def split: option.splits)

lemma lock_ttl_floor_pos: "lock_ttl_floor st t = Inr n \<Longrightarrow> n = t + default_lock_timeout_extension_seconds st + 1 \<and> 0 < n \<and> 0 < t"
  by (auto simp: lock_ttl_floor_def bind_eq_Some_conv split: if_splits option.splits)

text \<open>The two inputs of a call that decide its course, and the job it builds.\<close>

definition call_job ::
  "(strmap option \<Rightarrow> strmap option) \<Rightarrow> string \<Rightarrow> datetime \<Rightarrow> RRQSettings \<Rightarrow> string \<Rightarrow> params
    \<Rightarrow> EnqueueOptions \<Rightarrow> datetime \<Rightarrow> job" where
  "call_job inject new_id now st f ps opts run_time =
     build_job st opts (or_default (eo_job_id opts) new_id) f ps
       (normalize_queue_name (or_default (eo_queue_name opts) (default_queue_name st)))
       (or_default (eo_job_timeout_seconds opts) (default_job_timeout_seconds st))
       (inject (eo_trace_context opts))
       (extract_correlation_context ps (correlation_mappings st) (inject (eo_trace_context opts))) now run_time"

lemma call_job_id [simp]: "j_id (call_job inject i now st f ps opts t) = or_default (eo_job_id opts) i"
  by (simp add: call_job_def build_job_def)

definition stored_job :: "codec \<Rightarrow> string \<Rightarrow> rat \<Rightarrow> job \<Rightarrow> keyspace \<Rightarrow> keyspace" where
  "stored_job C q sc job ks =
     put_zset (format_queue_key q) (zs_put sc (j_id job) (zset_at ks (format_queue_key q)))
       (put_hash (format_job_key (j_id job)) (job_hash C job) ks)"

lemma format_normalized [simp]: "format_queue_key (normalize_queue_name q) = format_queue_key q"
  by (simp add: format_queue_key_normalize)

lemma enqueue_run:
  assumes floor: "lock_ttl_floor st (or_default (eo_job_timeout_seconds opts) (default_job_timeout_seconds st)) = Inr n"
    and sched: "desired_schedule st opts now n ks = (Ok (d, ttl), ks)"
    and uniq: "unique_step ks_redis (eo_unique_key opts) (or_default (eo_job_id opts) i) ttl now d ks = (Ok (t, acq), ks1)"
  shows "enqueue ks_redis C inject i now st f ps opts ks =
    (let job = call_job inject i now st f ps opts t;
         q = normalize_queue_name (or_default (eo_queue_name opts) (default_queue_name st))
     in case atomic_enqueue_job ks_redis C job q (of_int (timestamp_millis t)) ks1 of
          (Ok True, ks2) \<Rightarrow> (Ok job, ks2)
        | (Ok False, ks2) \<Rightarrow> andThen (release_if_acquired ks_redis acq (eo_unique_key opts))
                              (\<lambda>_. fail (Bail ''job_id already exists'')) ks2
        | (Err e, ks2) \<Rightarrow> andThen (release_if_acquired ks_redis acq (eo_unique_key opts)) (\<lambda>_. fail e) ks2
        | (Panic p, ks2) \<Rightarrow> (Panic p, ks2))"
  using assms
  by (simp add: enqueue_def Let_def andThen_def [of "desired_schedule st opts now n"]
      andThen_def [of "unique_step ks_redis (eo_unique_key opts) (or_default (eo_job_id opts) i) ttl now d"]
      call_job_def)
    (simp add: andThen_def [of "attempt _"] attempt_def ret_def split: prod.split res.split bool.split)

section \<open>Unique keys\<close>

lemma unique_free:
  assumes "ks (format_unique_key u) = None" "0 < ttl" "i64_ok (ttl * 1000)"
  shows "unique_step ks_redis (Some u) j ttl now d ks
    = (Ok (d, True), put_string (format_unique_key u) j (Some (ttl * 1000)) ks)"
  using assms by (simp add: unique_step_def andThen_def lock_ttl_effect acquire_unique_effect ret_def)

lemma unique_held:
  assumes "ks (format_unique_key u) \<noteq> None" "ttl_at ks (format_unique_key u) = Some ms" "500 \<le> ms"
    "(ms + 500) div 1000 \<le> 9223372036854775" "chrono_ok (now + secs ((ms + 500) div 1000))"
  shows "unique_step ks_redis (Some u) j ttl now d ks
    = (Ok (max d (now + secs ((ms + 500) div 1000)), False), ks)"
  using assms
  by (auto simp: unique_step_def andThen_def lock_ttl_effect ret_def defer_behind_def duration_seconds_def
      datetime_add_def)

text \<open>Enqueueing under a free unique key takes the key for the job, for longer than the job's
  timeout with its extension, and stores the job to run at once.\<close>

theorem enqueue_unique_acquires:
  assumes server: "redis_server R db" and wt: "well_typed (db s)"
    and opts: "eo_unique_key opts = Some u" "eo_defer_until opts = None" "eo_defer_by opts = None"
    and floor: "lock_ttl_floor st (or_default (eo_job_timeout_seconds opts) (default_job_timeout_seconds st)) = Inr n"
    and ttl: "ttl = max (default_unique_job_lock_ttl_seconds st) n" "i64_ok (ttl * 1000)"
    and free: "db s (format_unique_key u) = None"
    and fresh: "db s (format_job_key (or_default (eo_job_id opts) i)) = None"
  shows "\<exists>s1 job. enqueue R C inject i now st f ps opts s = (Ok job, s1)
    \<and> j_id job = or_default (eo_job_id opts) i \<and> j_status job = Pending
    \<and> string_at (db s1) (format_unique_key u) = Some (j_id job)
    \<and> ttl_at (db s1) (format_unique_key u) = Some (ttl * 1000)
    \<and> or_default (eo_job_timeout_seconds opts) (default_job_timeout_seconds st)
        + default_lock_timeout_extension_seconds st < ttl
    \<and> hash_at (db s1) (format_job_key (j_id job)) = job_hash C job
    \<and> zs_score (j_id job) (zset_at (db s1) (format_queue_key (or_default (eo_queue_name opts) (default_queue_name st))))
        = Some (of_int (timestamp_millis now))"
proof -
  have n: "n = or_default (eo_job_timeout_seconds opts) (default_job_timeout_seconds st)
      + default_lock_timeout_extension_seconds st + 1" "0 < n"
    using lock_ttl_floor_pos [OF floor] by auto
  let ?j = "or_default (eo_job_id opts) i"
  let ?q = "or_default (eo_queue_name opts) (default_queue_name st)"
  let ?ks = "put_string (format_unique_key u) ?j (Some (ttl * 1000)) (db s)"
  let ?job = "call_job inject i now st f ps opts now"
  have sched: "desired_schedule st opts now n (db s) = (Ok (now, ttl), db s)"
    using opts ttl by (simp add: desired_schedule_def ret_def)
  have uniq: "unique_step ks_redis (eo_unique_key opts) ?j ttl now now (db s) = (Ok (now, True), ?ks)"
    using n ttl free by (simp add: opts unique_free)
  have "atomic_enqueue_job ks_redis C ?job (normalize_queue_name ?q) (of_int (timestamp_millis now)) ?ks
      = (Ok True, stored_job C ?q (of_int (timestamp_millis now)) ?job ?ks)"
    using wt fresh by (subst enqueue_fresh) (simp_all add: stored_job_def)
  then have run: "enqueue ks_redis C inject i now st f ps opts (db s)
      = (Ok ?job, stored_job C ?q (of_int (timestamp_millis now)) ?job ?ks)"
    by (simp add: enqueue_run [OF floor sched uniq] Let_def)
  obtain s1 where s1: "enqueue R C inject i now st f ps opts s = (Ok ?job, s1)"
    "db s1 = stored_job C ?q (of_int (timestamp_millis now)) ?job ?ks"
    using sim_run [OF redis_server.enqueue_sim [OF server] run] by blast
  have st: "j_status ?job = Pending" by (simp add: call_job_def build_job_def)
  have t: "ttl_at ?ks (format_unique_key u) = Some (ttl * 1000)"
    by (simp add: ttl_at_def put_string_def)
  show ?thesis
    by (rule exI [of _ s1], rule exI [of _ ?job]) (use s1 n ttl wt st t in \<open>simp add: stored_job_def\<close>)
qed

definition sample_options :: EnqueueOptions where
  "sample_options = \<lparr> eo_queue_name = None, eo_job_id = Some ''j1'', eo_unique_key = Some ''u'',
     eo_max_retries = None, eo_job_timeout_seconds = None, eo_defer_until = None, eo_defer_by = None,
     eo_result_ttl_seconds = None, eo_trace_context = None \<rparr>"

lemma sample_options_sel [simp]:
  "eo_queue_name sample_options = None" "eo_job_id sample_options = Some ''j1''"
  "eo_unique_key sample_options = Some ''u''" "eo_job_timeout_seconds sample_options = None"
  "eo_defer_until sample_options = None" "eo_defer_by sample_options = None"
  by (simp_all add: sample_options_def)

lemma default_floor: "lock_ttl_floor default_settings 300 = Inr 361"
  by (simp add: lock_ttl_floor_def i64_ok_def checked_i64_def)

theorem enqueue_unique_acquires_witness:
  "\<exists>s1. enqueue ks_redis simple_codec (\<lambda>c. c) ''new'' 1000 default_settings ''f'' [] sample_options (\<lambda>_. None) = s1
     \<and> string_at (snd s1) (format_unique_key ''u'') = Some ''j1''"
  using enqueue_unique_acquires [OF reference.redis_server_axioms, where s = "\<lambda>_. None" and opts = sample_options
      and u = "''u''" and st = default_settings and n = 361 and ttl = 21600 and i = "''new''"
      and C = simple_codec and inject = "\<lambda>c. c" and now = 1000 and f = "''f''" and ps = "[]"]
  by (fastforce simp: default_floor i64_ok_def)

text \<open>Behind a held unique key the job is still stored, but runs no earlier than the remaining
  time to live of the key, which stays with its holder.\<close>

theorem enqueue_unique_defers:
  assumes server: "redis_server R db" and wt: "well_typed (db s)"
    and opts: "eo_unique_key opts = Some u" "eo_defer_until opts = None" "eo_defer_by opts = None"
    and floor: "lock_ttl_floor st (or_default (eo_job_timeout_seconds opts) (default_job_timeout_seconds st)) = Inr n"
    and held: "db s (format_unique_key u) \<noteq> None" "ttl_at (db s) (format_unique_key u) = Some ms" "500 \<le> ms"
      "(ms + 500) div 1000 \<le> 9223372036854775" "chrono_ok (now + secs ((ms + 500) div 1000))"
    and fresh: "db s (format_job_key (or_default (eo_job_id opts) i)) = None"
  shows "\<exists>s1 job. enqueue R C inject i now st f ps opts s = (Ok job, s1)
    \<and> db s1 (format_unique_key u) = db s (format_unique_key u)
    \<and> hash_at (db s1) (format_job_key (j_id job)) = job_hash C job
    \<and> j_next_scheduled_run_time job = Some (now + secs ((ms + 500) div 1000))
    \<and> zs_score (j_id job) (zset_at (db s1) (format_queue_key (or_default (eo_queue_name opts) (default_queue_name st))))
        = Some (of_int (timestamp_millis (now + secs ((ms + 500) div 1000))))"
proof -
  let ?t = "now + secs ((ms + 500) div 1000)"
  let ?q = "or_default (eo_queue_name opts) (default_queue_name st)"
  let ?ttl = "max (default_unique_job_lock_ttl_seconds st) n"
  let ?job = "call_job inject i now st f ps opts ?t"
  have sched: "desired_schedule st opts now n (db s) = (Ok (now, ?ttl), db s)"
    using opts by (simp add: desired_schedule_def ret_def)
  have "now \<le> ?t" using held(3) by (simp add: secs_def)
  then have uniq: "unique_step ks_redis (eo_unique_key opts) (or_default (eo_job_id opts) i) ?ttl now now (db s)
      = (Ok (?t, False), db s)"
    using held by (simp add: opts unique_held max_def)
  have "atomic_enqueue_job ks_redis C ?job (normalize_queue_name ?q) (of_int (timestamp_millis ?t)) (db s)
      = (Ok True, stored_job C ?q (of_int (timestamp_millis ?t)) ?job (db s))"
    using wt fresh by (subst enqueue_fresh) (simp_all add: stored_job_def)
  then have run: "enqueue ks_redis C inject i now st f ps opts (db s)
      = (Ok ?job, stored_job C ?q (of_int (timestamp_millis ?t)) ?job (db s))"
    by (simp add: enqueue_run [OF floor sched uniq] Let_def)
  obtain s1 where s1: "enqueue R C inject i now st f ps opts s = (Ok ?job, s1)"
    "db s1 = stored_job C ?q (of_int (timestamp_millis ?t)) ?job (db s)"
    using sim_run [OF redis_server.enqueue_sim [OF server] run] by blast
  have nr: "j_next_scheduled_run_time ?job = Some ?t" by (simp add: call_job_def build_job_def)
  show ?thesis
    by (rule exI [of _ s1], rule exI [of _ ?job]) (use s1 wt nr in \<open>simp add: stored_job_def\<close>)
qed

theorem enqueue_unique_defers_witness:
  "\<exists>job. fst (enqueue ks_redis simple_codec (\<lambda>c. c) ''new'' 0 default_settings ''f'' [] sample_options
      (put_string (format_unique_key ''u'') ''other'' (Some 60000) (\<lambda>_. None))) = Ok job
    \<and> j_next_scheduled_run_time job = Some (secs 60)"
  using enqueue_unique_defers [OF reference.redis_server_axioms, where
      s = "put_string (format_unique_key ''u'') ''other'' (Some 60000) (\<lambda>_. None)" and opts = sample_options
      and u = "''u''" and st = default_settings and n = 361 and i = "''new''" and ms = 60000
      and C = simple_codec and inject = "\<lambda>c. c" and now = 0 and f = "''f''" and ps = "[]"]
  by (auto simp: default_floor chrono_ok_def secs_def)



end
