(* ===== verification/Producer.thy ===== *)
theory Producer
  imports Client
begin

text \<open>
  The producer library (\<open>producer/src/lib.rs\<close>): its three Lua scripts, the operations that call
  them, status polling and the wait for completion. Clock, fresh ids and trace propagation are
  arguments; a \<open>Duration\<close> is its number of nanoseconds.
\<close>

section \<open>Keys\<close>

definition IDEMPOTENCY_KEY_PREFIX :: string where "IDEMPOTENCY_KEY_PREFIX = ''rrq:idempotency:''"
definition RATE_LIMIT_KEY_PREFIX :: string where "RATE_LIMIT_KEY_PREFIX = ''rrq:rate_limit:''"
definition DEBOUNCE_KEY_PREFIX :: string where "DEBOUNCE_KEY_PREFIX = ''rrq:debounce:''"

definition format_idempotency_key :: "string \<Rightarrow> string" where
  "format_idempotency_key key = IDEMPOTENCY_KEY_PREFIX @ key"

definition format_rate_limit_key :: "string \<Rightarrow> string" where
  "format_rate_limit_key key =
     (if starts_with key RATE_LIMIT_KEY_PREFIX then key else RATE_LIMIT_KEY_PREFIX @ key)"

definition format_debounce_key :: "string \<Rightarrow> string" where
  "format_debounce_key key =
     (if starts_with key DEBOUNCE_KEY_PREFIX then key else DEBOUNCE_KEY_PREFIX @ key)"

definition validate_name :: "string \<Rightarrow> string \<Rightarrow> error + unit" where
  "validate_name label v = (if trim v = [] then Inl (Bail (label @ '' cannot be empty'')) else Inr ())"

section \<open>Scripts\<close>

text \<open>
  \<open>ARGV\<close> of the scripts: the fields of the new job, its score and the time to live of the key
  that guards it. The empty string stands for an absent context.
\<close>

record script_args =
  a_job_id :: string
  a_function_name :: string
  a_job_params :: string
  a_enqueue_time :: string
  a_status :: string
  a_current_retries :: int
  a_next_scheduled_run_time :: string
  a_max_retries :: int
  a_job_timeout_seconds :: int
  a_result_ttl_seconds :: int
  a_queue_name :: string
  a_result :: string
  a_trace_context :: string
  a_correlation_context :: string
  a_score_ms :: rat
  a_ttl_seconds :: int

definition new_job_fields :: "script_args \<Rightarrow> (string \<times> string) list" where
  "new_job_fields a =
     [(''id'', a_job_id a), (''function_name'', a_function_name a), (''job_params'', a_job_params a),
      (''enqueue_time'', a_enqueue_time a), (''status'', a_status a),
      (''current_retries'', show_int (a_current_retries a)),
      (''next_scheduled_run_time'', a_next_scheduled_run_time a),
      (''max_retries'', show_int (a_max_retries a)),
      (''job_timeout_seconds'', show_int (a_job_timeout_seconds a)),
      (''result_ttl_seconds'', show_int (a_result_ttl_seconds a)),
      (''queue_name'', a_queue_name a), (''result'', a_result a)]"

text \<open>The tail the three scripts share: the hash, the contexts, the queue.\<close>

definition lua_store_new_job :: "'r redis \<Rightarrow> string \<Rightarrow> string \<Rightarrow> script_args \<Rightarrow> ('r, int \<times> string) io" where
  "lua_store_new_job R job_key queue_key a =
     andThen (r_hset R job_key (new_job_fields a)) (\<lambda>_.
     andThen (if a_trace_context a \<noteq> [] then r_hset R job_key [(''trace_context'', a_trace_context a)]
              else ret ()) (\<lambda>_.
     andThen (if a_correlation_context a \<noteq> []
              then r_hset R job_key [(''correlation_context'', a_correlation_context a)] else ret ()) (\<lambda>_.
     andThen (r_zadd R queue_key (a_score_ms a) (a_job_id a)) (\<lambda>_. ret (1, a_job_id a)))))"

definition producer_enqueue_tail ::
  "'r redis \<Rightarrow> string \<Rightarrow> string \<Rightarrow> string \<Rightarrow> script_args \<Rightarrow> ('r, int \<times> string) io" where
  "producer_enqueue_tail R job_key queue_key idem_key a =
     andThen (r_exists R job_key) (\<lambda>there.
       if there then ret (- 1, a_job_id a)
       else if idem_key \<noteq> [] then
         andThen (r_set R idem_key (a_job_id a) True
                    (if 0 < a_ttl_seconds a then ExSec (a_ttl_seconds a) else NoExpiry)) (\<lambda>set_ok.
           if set_ok then lua_store_new_job R job_key queue_key a
           else andThen (r_get R idem_key) (\<lambda>winner.
             case winner of
               Some w \<Rightarrow> ret (0, w)
             | None \<Rightarrow> lua_store_new_job R job_key queue_key a))
       else lua_store_new_job R job_key queue_key a)"

definition producer_enqueue_script ::
  "'r redis \<Rightarrow> string \<Rightarrow> string \<Rightarrow> string \<Rightarrow> script_args \<Rightarrow> ('r, int \<times> string) io" where
  "producer_enqueue_script R job_key queue_key idem_key a =
     (if idem_key \<noteq> [] then
        andThen (r_get R idem_key) (\<lambda>existing.
          case existing of
            None \<Rightarrow> producer_enqueue_tail R job_key queue_key idem_key a
          | Some ex \<Rightarrow>
              andThen (r_exists R (JOB_KEY_PREFIX @ ex)) (\<lambda>there.
                if there then ret (0, ex)
                else andThen (r_del R idem_key) (\<lambda>_.
                     producer_enqueue_tail R job_key queue_key idem_key a)))
      else producer_enqueue_tail R job_key queue_key idem_key a)"

definition rate_limit_tail ::
  "'r redis \<Rightarrow> string \<Rightarrow> string \<Rightarrow> string \<Rightarrow> bool \<Rightarrow> script_args \<Rightarrow> ('r, int \<times> string) io" where
  "rate_limit_tail R job_key queue_key rate_key rate_set a =
     andThen (r_exists R job_key) (\<lambda>there.
       if there then
         (if rate_set then andThen (r_del R rate_key) (\<lambda>_. ret (- 1, a_job_id a))
          else ret (- 1, a_job_id a))
       else lua_store_new_job R job_key queue_key a)"

definition rate_limit_script ::
  "'r redis \<Rightarrow> string \<Rightarrow> string \<Rightarrow> string \<Rightarrow> script_args \<Rightarrow> ('r, int \<times> string) io" where
  "rate_limit_script R job_key queue_key rate_key a =
     (if rate_key \<noteq> [] then
        (if a_ttl_seconds a \<le> 0 then ret (- 2, a_job_id a)
         else andThen (r_set R rate_key (a_job_id a) True (ExSec (a_ttl_seconds a))) (\<lambda>ok.
                if ok then rate_limit_tail R job_key queue_key rate_key True a
                else ret (2, [])))
      else rate_limit_tail R job_key queue_key rate_key False a)"

definition debounce_new ::
  "'r redis \<Rightarrow> string \<Rightarrow> string \<Rightarrow> script_args \<Rightarrow> ('r, int \<times> string) io" where
  "debounce_new R queue_key debounce_key a =
     (let job_key = JOB_KEY_PREFIX @ a_job_id a in
      andThen (r_exists R job_key) (\<lambda>there.
        if there then ret (- 1, a_job_id a)
        else if 0 < a_ttl_seconds a then
          andThen (r_set R debounce_key (a_job_id a) True (ExSec (a_ttl_seconds a))) (\<lambda>ok.
            if ok then lua_store_new_job R job_key queue_key a
            else andThen (r_get R debounce_key) (\<lambda>other.
              case other of Some w \<Rightarrow> ret (0, w) | None \<Rightarrow> ret (2, [])))
        else andThen (r_set R debounce_key (a_job_id a) True NoExpiry) (\<lambda>_.
             lua_store_new_job R job_key queue_key a)))"

definition debounce_reschedule ::
  "'r redis \<Rightarrow> string \<Rightarrow> string \<Rightarrow> string \<Rightarrow> script_args \<Rightarrow> ('r, int \<times> string) io" where
  "debounce_reschedule R queue_key debounce_key existing_id a =
     (let existing_job_key = JOB_KEY_PREFIX @ existing_id in
      andThen (r_hset R existing_job_key
         [(''function_name'', a_function_name a), (''job_params'', a_job_params a),
          (''next_scheduled_run_time'', a_next_scheduled_run_time a),
          (''max_retries'', show_int (a_max_retries a)),
          (''job_timeout_seconds'', show_int (a_job_timeout_seconds a)),
          (''result_ttl_seconds'', show_int (a_result_ttl_seconds a)),
          (''queue_name'', a_queue_name a)]) (\<lambda>_.
      andThen (if a_trace_context a \<noteq> []
               then r_hset R existing_job_key [(''trace_context'', a_trace_context a)] else ret ()) (\<lambda>_.
      andThen (if a_correlation_context a \<noteq> []
               then r_hset R existing_job_key [(''correlation_context'', a_correlation_context a)]
               else r_hdel R existing_job_key [''correlation_context'']) (\<lambda>_.
      andThen (r_zadd R queue_key (a_score_ms a) existing_id) (\<lambda>_.
      andThen (if 0 < a_ttl_seconds a then ignore (r_expire R debounce_key (a_ttl_seconds a)) else ret ()) (\<lambda>_.
      ret (0, existing_id)))))))"

definition debounce_script ::
  "'r redis \<Rightarrow> string \<Rightarrow> string \<Rightarrow> script_args \<Rightarrow> ('r, int \<times> string) io" where
  "debounce_script R queue_key debounce_key a =
     andThen (r_get R debounce_key) (\<lambda>existing.
       case existing of
         None \<Rightarrow> debounce_new R queue_key debounce_key a
       | Some existing_id \<Rightarrow>
           andThen (r_exists R (JOB_KEY_PREFIX @ existing_id)) (\<lambda>there.
             if there then
               andThen (r_hget R (JOB_KEY_PREFIX @ existing_id) ''status'') (\<lambda>status.
                 if status = Some ''PENDING'' then debounce_reschedule R queue_key debounce_key existing_id a
                 else andThen (r_del R debounce_key) (\<lambda>_. debounce_new R queue_key debounce_key a))
             else andThen (r_del R debounce_key) (\<lambda>_. debounce_new R queue_key debounce_key a)))"

section \<open>Operations\<close>

record ProducerConfig =
  pc_queue_name :: string
  pc_max_retries :: int
  pc_job_timeout_seconds :: int
  pc_result_ttl_seconds :: int
  pc_idempotency_ttl_seconds :: int
  pc_correlation_mappings :: strmap

definition default_producer_config :: ProducerConfig where
  "default_producer_config = \<lparr> pc_queue_name = ''rrq:queue:default'', pc_max_retries = 5,
     pc_job_timeout_seconds = 300, pc_result_ttl_seconds = 60 * 60 * 24,
     pc_idempotency_ttl_seconds = 60 * 60 * 6, pc_correlation_mappings = [] \<rparr>"

record ProducerOptions =
  po_queue_name :: "string option"
  po_job_id :: "string option"
  po_idempotency_key :: "string option"
  po_idempotency_ttl_seconds :: "int option"
  po_max_retries :: "int option"
  po_job_timeout_seconds :: "int option"
  po_result_ttl_seconds :: "int option"
  po_enqueue_time :: "datetime option"
  po_scheduled_time :: "datetime option"
  po_trace_context :: "strmap option"

text \<open>A name that must not be blank, as a step of an operation.\<close>

definition check_name :: "string \<Rightarrow> string \<Rightarrow> ('s, unit) io" where
  "check_name label v = (case validate_name label v of Inl e \<Rightarrow> fail e | Inr _ \<Rightarrow> ret ())"

definition context_json :: "codec \<Rightarrow> strmap option \<Rightarrow> string" where
  "context_json C ctx = (case ctx of None \<Rightarrow> [] | Some m \<Rightarrow> json_text C (json_of_strmap m))"

text \<open>The part every variant computes from its options: the fields of the job.\<close>

definition script_args_of ::
  "codec \<Rightarrow> (strmap option \<Rightarrow> strmap option) \<Rightarrow> ProducerConfig \<Rightarrow> ProducerOptions \<Rightarrow> string \<Rightarrow> string
    \<Rightarrow> params \<Rightarrow> string \<Rightarrow> datetime \<Rightarrow> datetime \<Rightarrow> int \<Rightarrow> script_args" where
  "script_args_of C inject cfg options job_id function_name ps queue_name enqueue_time scheduled_time ttl =
     (let trace_context = inject (po_trace_context options);
          correlation_context = extract_correlation_context ps (pc_correlation_mappings cfg) trace_context
      in \<lparr> a_job_id = job_id, a_function_name = function_name, a_job_params = json_text C (JObj ps),
           a_enqueue_time = to_rfc3339 C enqueue_time, a_status = ''PENDING'', a_current_retries = 0,
           a_next_scheduled_run_time = to_rfc3339 C scheduled_time,
           a_max_retries = or_default (po_max_retries options) (pc_max_retries cfg),
           a_job_timeout_seconds = or_default (po_job_timeout_seconds options) (pc_job_timeout_seconds cfg),
           a_result_ttl_seconds = or_default (po_result_ttl_seconds options) (pc_result_ttl_seconds cfg),
           a_queue_name = queue_name, a_result = ''null'',
           a_trace_context = context_json C trace_context,
           a_correlation_context = context_json C correlation_context,
           a_score_ms = of_int (timestamp_millis scheduled_time), a_ttl_seconds = ttl \<rparr>)"

text \<open>The time to live of an idempotency key: at least the deferral, rounded up to seconds.\<close>

definition idempotency_ttl :: "int \<Rightarrow> datetime \<Rightarrow> datetime \<Rightarrow> int" where
  "idempotency_ttl ttl enqueue_time scheduled_time =
     (let deferral_ms = (scheduled_time - enqueue_time) div 1000000 in
      if 0 < deferral_ms then
        let deferral_seconds = min (deferral_ms + 999) 9223372036854775807 div 1000
        in if ttl < deferral_seconds then deferral_seconds else ttl
      else ttl)"

definition producer_enqueue ::
  "'r redis \<Rightarrow> codec \<Rightarrow> (strmap option \<Rightarrow> strmap option) \<Rightarrow> string \<Rightarrow> datetime \<Rightarrow> ProducerConfig
    \<Rightarrow> string \<Rightarrow> params \<Rightarrow> ProducerOptions \<Rightarrow> ('r, string) io" where
  "producer_enqueue R C inject new_id now cfg function_name ps options =
     andThen (check_name ''function_name'' function_name) (\<lambda>_.
     let queue_name0 = or_default (po_queue_name options) (pc_queue_name cfg) in
     andThen (check_name ''queue_name'' queue_name0) (\<lambda>_.
     let queue_name = format_queue_key queue_name0;
         job_id = or_default (po_job_id options) new_id;
         enqueue_time = or_default (po_enqueue_time options) now;
         scheduled_time = or_default (po_scheduled_time options) enqueue_time
     in if or_default (po_job_timeout_seconds options) (pc_job_timeout_seconds cfg) \<le> 0
        then fail (Bail ''job_timeout_seconds must be positive'')
        else
          andThen (case po_idempotency_key options of
                     None \<Rightarrow> ret []
                   | Some key \<Rightarrow> andThen (check_name ''idempotency_key'' key)
                                  (\<lambda>_. ret (format_idempotency_key key))) (\<lambda>idempotency_key.
          let ttl0 = or_default (po_idempotency_ttl_seconds options) (pc_idempotency_ttl_seconds cfg)
          in if idempotency_key \<noteq> [] \<and> ttl0 \<le> 0
             then fail (Bail ''idempotency_ttl_seconds must be positive'')
             else
               let ttl = (if idempotency_key \<noteq> [] then idempotency_ttl ttl0 enqueue_time scheduled_time else ttl0)
               in andThen (producer_enqueue_script R (JOB_KEY_PREFIX @ job_id) queue_name idempotency_key
                    (script_args_of C inject cfg options job_id function_name ps queue_name enqueue_time
                       scheduled_time ttl)) (\<lambda>(status, returned_id).
                  if status = 1 then ret returned_id
                  else if status = 0 then ret returned_id
                  else if status = - 1 then fail (Bail ''job_id already exists'')
                  else fail (Bail ''unexpected enqueue status'')))))"

text \<open>\<open>window.as_secs_f64().ceil() as i64\<close>.\<close>

definition ceil_seconds :: "nat \<Rightarrow> int" where
  "ceil_seconds window = min ((int window + 999999999) div 1000000000) 9223372036854775807"

definition enqueue_with_rate_limit ::
  "'r redis \<Rightarrow> codec \<Rightarrow> (strmap option \<Rightarrow> strmap option) \<Rightarrow> string \<Rightarrow> datetime \<Rightarrow> ProducerConfig
    \<Rightarrow> string \<Rightarrow> params \<Rightarrow> string \<Rightarrow> nat \<Rightarrow> ProducerOptions \<Rightarrow> ('r, string option) io" where
  "enqueue_with_rate_limit R C inject new_id now cfg function_name ps rate_limit_key rate_limit_window options =
     andThen (check_name ''function_name'' function_name) (\<lambda>_.
     andThen (check_name ''rate_limit_key'' rate_limit_key) (\<lambda>_.
     let queue_name0 = or_default (po_queue_name options) (pc_queue_name cfg) in
     andThen (check_name ''queue_name'' queue_name0) (\<lambda>_.
     let queue_name = format_queue_key queue_name0;
         job_id = or_default (po_job_id options) new_id;
         enqueue_time = or_default (po_enqueue_time options) now;
         scheduled_time = or_default (po_scheduled_time options) enqueue_time
     in if or_default (po_job_timeout_seconds options) (pc_job_timeout_seconds cfg) \<le> 0
        then fail (Bail ''job_timeout_seconds must be positive'')
        else if ceil_seconds rate_limit_window \<le> 0 then fail (Bail ''rate_limit_window must be positive'')
        else
          andThen (rate_limit_script R (JOB_KEY_PREFIX @ job_id) queue_name (format_rate_limit_key rate_limit_key)
             (script_args_of C inject cfg options job_id function_name ps queue_name enqueue_time scheduled_time
                (ceil_seconds rate_limit_window))) (\<lambda>(status, returned_id).
             if status = 1 then ret (Some returned_id)
             else if status = 2 then ret None
             else if status = - 1 then fail (Bail ''job_id already exists'')
             else fail (Bail ''unexpected enqueue status'')))))"

text \<open>\<open>chrono::Duration::from_std(window).unwrap_or_default()\<close>.\<close>

definition chrono_from_std :: "nat \<Rightarrow> int" where
  "chrono_from_std window = (if int window \<le> 9223372036854775807000000 then int window else 0)"

definition enqueue_with_debounce ::
  "'r redis \<Rightarrow> codec \<Rightarrow> (strmap option \<Rightarrow> strmap option) \<Rightarrow> string \<Rightarrow> datetime \<Rightarrow> ProducerConfig
    \<Rightarrow> string \<Rightarrow> params \<Rightarrow> string \<Rightarrow> nat \<Rightarrow> ProducerOptions \<Rightarrow> ('r, string) io" where
  "enqueue_with_debounce R C inject new_id now cfg function_name ps debounce_key debounce_window options =
     andThen (check_name ''function_name'' function_name) (\<lambda>_.
     andThen (check_name ''debounce_key'' debounce_key) (\<lambda>_.
     let queue_name0 = or_default (po_queue_name options) (pc_queue_name cfg) in
     andThen (check_name ''queue_name'' queue_name0) (\<lambda>_.
     let queue_name = format_queue_key queue_name0;
         job_id = or_default (po_job_id options) new_id;
         enqueue_time = or_default (po_enqueue_time options) now
     in andThen (case po_scheduled_time options of
                   Some t \<Rightarrow> ret t
                 | None \<Rightarrow> datetime_add enqueue_time (chrono_from_std debounce_window)) (\<lambda>scheduled_time.
        if or_default (po_job_timeout_seconds options) (pc_job_timeout_seconds cfg) \<le> 0
        then fail (Bail ''job_timeout_seconds must be positive'')
        else if ceil_seconds debounce_window \<le> 0 then fail (Bail ''debounce_window must be positive'')
        else
          andThen (debounce_script R queue_name (format_debounce_key debounce_key)
             (script_args_of C inject cfg options job_id function_name ps queue_name enqueue_time scheduled_time
                (ceil_seconds debounce_window))) (\<lambda>(status, returned_id).
             if status = 1 \<or> status = 0 then ret returned_id
             else if status = - 1 then fail (Bail ''job_id already exists'')
             else fail (Bail ''unexpected enqueue status''))))))"

section \<open>Status and completion\<close>

datatype ProducerStatus = PPending | PActive | PCompleted | PFailed | PRetrying | PUnknown

definition producer_status :: "string \<Rightarrow> ProducerStatus" where
  "producer_status s =
     (if s = ''PENDING'' then PPending else if s = ''ACTIVE'' then PActive
      else if s = ''COMPLETED'' then PCompleted else if s = ''FAILED'' then PFailed
      else if s = ''RETRYING'' then PRetrying else PUnknown)"

record JobResult =
  jr_status :: ProducerStatus
  jr_result :: "json option"
  jr_last_error :: "string option"

definition parse_result :: "codec \<Rightarrow> string \<Rightarrow> json option" where
  "parse_result C result = (if result = [] \<or> result = ''null'' then None else json_parse C result)"

definition get_job_status :: "'r redis \<Rightarrow> codec \<Rightarrow> string \<Rightarrow> ('r, JobResult option) io" where
  "get_job_status R C job_id =
     andThen (r_hgetall R (JOB_KEY_PREFIX @ job_id)) (\<lambda>data.
       if data = fmempty then ret None
       else ret (Some \<lparr>
         jr_status = (case fmlookup data ''status'' of None \<Rightarrow> PUnknown | Some s \<Rightarrow> producer_status s),
         jr_result = Option.bind (fmlookup data ''result'') (parse_result C),
         jr_last_error = fmlookup data ''last_error'' \<rparr>))"

text \<open>A reply of \<open>XREAD\<close>.\<close>

datatype redis_value = VNil | VInt int | VSimple string | VBulk string | VArray "redis_value list"

definition redis_value_to_string :: "redis_value \<Rightarrow> string option" where
  "redis_value_to_string v = (case v of VSimple s \<Rightarrow> Some s | VBulk s \<Rightarrow> Some s | _ \<Rightarrow> None)"

definition last_opt :: "'a list \<Rightarrow> 'a option" where
  "last_opt xs = (if xs = [] then None else Some (last xs))"

definition extract_latest_stream_entry_id :: "redis_value \<Rightarrow> string option" where
  "extract_latest_stream_entry_id v = (case v of
      VArray streams \<Rightarrow>
        (case last_opt streams of
           Some (VArray stream) \<Rightarrow>
             (if length stream < 2 then None
              else case stream ! 1 of
                VArray entries \<Rightarrow>
                  (case last_opt entries of
                     Some (VArray (i # _)) \<Rightarrow> redis_value_to_string i
                   | _ \<Rightarrow> None)
              | _ \<Rightarrow> None)
         | _ \<Rightarrow> None)
    | _ \<Rightarrow> None)"

text \<open>Milliseconds to block: the interval or what is left, at least 1 and an \<open>i64\<close>.\<close>

definition wait_ms :: "int \<Rightarrow> int \<Rightarrow> int" where
  "wait_ms block_interval remaining =
     (let wait_for = (if block_interval = 0 then remaining else min block_interval remaining)
      in min (max (wait_for div 1000000) 1) 9223372036854775807)"

text \<open>
  The wait. It goes on while others act on the server, so its clock and its \<open>XREAD\<close> belong to the state they
  act on: \<open>wt_clock\<close> is \<open>Instant::now\<close> in nanoseconds, and \<open>wt_xread\<close> is one
  \<open>XREAD BLOCK ms COUNT 1 STREAMS key offset\<close>, where \<open>None\<close> says that no answer ever comes, which
  \<open>BLOCK 0\<close> allows. Everything others do happens inside these two.
\<close>

record 'r waiting =
  wt_clock :: "'r \<Rightarrow> int \<times> 'r"
  wt_xread :: "string \<Rightarrow> string \<Rightarrow> int \<Rightarrow> 'r \<Rightarrow> (redis_value res \<times> 'r) option"

definition terminal :: "JobResult \<Rightarrow> bool" where
  "terminal r \<longleftrightarrow> jr_status r = PCompleted \<or> jr_status r = PFailed"

text \<open>The loop, which need not end: then its value is \<open>None\<close>.\<close>

partial_function (option) wait_loop ::
  "'r redis \<Rightarrow> codec \<Rightarrow> 'r waiting \<Rightarrow> string \<Rightarrow> int \<Rightarrow> int \<Rightarrow> string \<Rightarrow> 'r \<Rightarrow> (JobResult option res \<times> 'r) option" where
  "wait_loop R C W job_id deadline block_interval stream_offset s =
     (case get_job_status R C job_id s of (status, s1) \<Rightarrow>
        case status of
          Err e \<Rightarrow> Some (Err e, s1)
        | Panic m \<Rightarrow> Some (Panic m, s1)
        | Ok st \<Rightarrow>
            if (case st of Some r \<Rightarrow> terminal r | None \<Rightarrow> False) then Some (Ok st, s1)
            else
              case wt_clock W s1 of (now, s2) \<Rightarrow>
                if deadline \<le> now then Some (Ok None, s2)
                else
                  case wt_xread W (format_job_events_key job_id) stream_offset
                         (wait_ms block_interval (deadline - now)) s2 of
                    None \<Rightarrow> None
                  | Some (reply, s3) \<Rightarrow>
                      case reply of
                        Err e \<Rightarrow> Some (Err e, s3)
                      | Panic m \<Rightarrow> Some (Panic m, s3)
                      | Ok response \<Rightarrow>
                          wait_loop R C W job_id deadline block_interval
                            (case extract_latest_stream_entry_id response of
                               Some last_seen_id \<Rightarrow> last_seen_id | None \<Rightarrow> stream_offset) s3)"

definition wait_for_completion ::
  "'r redis \<Rightarrow> codec \<Rightarrow> 'r waiting \<Rightarrow> string \<Rightarrow> nat \<Rightarrow> nat \<Rightarrow> 'r \<Rightarrow> (JobResult option res \<times> 'r) option" where
  "wait_for_completion R C W job_id timeout block_interval s =
     (case wt_clock W s of (start, s1) \<Rightarrow>
        case instant_add start timeout of
          Ok deadline \<Rightarrow> wait_loop R C W job_id deadline (int block_interval) ''$'' s1
        | Err e \<Rightarrow> Some (Err e, s1)
        | Panic m \<Rightarrow> Some (Panic m, s1))"

end
