(* ===== verification/Waiting.thy ===== *)
theory Waiting
  imports Producer
begin

text \<open>
  The outside of a wait for a job (\<open>wait_for_completion\<close> in \<open>Producer\<close>): what the wait relies on of the clock
  and of \<open>XREAD\<close> (\<open>wait_server\<close>), that it then ends, and a server with a clock and a list of the events
  that others are going to publish, on which waits compute.
\<close>

section \<open>The interface\<close>

text \<open>
  \<open>time\<close> is the clock of a state, and \<open>left k offset s\<close> the number of the entries past \<open>offset\<close> that
  are, or ever will be, in the stream \<open>k\<close> (past \<open>$\<close>: the ones added later than \<open>s\<close>). The clock is monotonic and
  entries are never added before others. \<open>XREAD BLOCK ms\<close> answers when \<open>ms\<close> is positive, \<open>BLOCK 0\<close> need not; an
  answer without an entry comes when the \<open>ms\<close> are over, and one with an entry names an entry past the offset.
\<close>

locale wait_server =
  fixes R :: "'r redis" and W :: "'r waiting" and time :: "'r \<Rightarrow> int" and left :: "string \<Rightarrow> string \<Rightarrow> 'r \<Rightarrow> nat"
  assumes hgetall_time: "r_hgetall R key s = (h, s') \<Longrightarrow> time s \<le> time s' \<and> left k offset s' \<le> left k offset s"
    and clock_time: "wt_clock W s = (now, s') \<Longrightarrow> time s \<le> now \<and> now \<le> time s' \<and> left k offset s' \<le> left k offset s"
    and block_answers: "0 < ms \<Longrightarrow> wt_xread W k offset ms s \<noteq> None"
    and entry_read: "wt_xread W k offset ms s = Some (Ok v, s') \<Longrightarrow> extract_latest_stream_entry_id v = Some i
      \<Longrightarrow> time s \<le> time s' \<and> left k i s' < left k offset s"
    and block_over: "wt_xread W k offset ms s = Some (Ok v, s') \<Longrightarrow> extract_latest_stream_entry_id v = None
      \<Longrightarrow> time s + ms * 1000000 \<le> time s' \<and> left k offset s' \<le> left k offset s"

lemma get_job_status_state: "snd (get_job_status R C job_id s) = snd (r_hgetall R (JOB_KEY_PREFIX @ job_id) s)"
  by (auto simp: get_job_status_def io_simps split: prod.split res.split)

lemma wait_ms_positive: "1 \<le> wait_ms block_interval remaining"
  by (simp add: wait_ms_def Let_def)

context wait_server
begin

lemma status_time:
  assumes "get_job_status R C job_id s = (st, s')"
  shows "time s \<le> time s'" "left k offset s' \<le> left k offset s"
  using assms get_job_status_state [of R C job_id s] hgetall_time [of "JOB_KEY_PREFIX @ job_id" s _ s' k offset]
  by (metis prod.collapse snd_conv)+

text \<open>A round that does not end the loop reads an entry, or lasts a millisecond.\<close>

lemma round_progress:
  assumes status: "get_job_status R C job_id s = (st, s1)" and clock: "wt_clock W s1 = (now, s2)" and late: "now < deadline"
    and reply: "wt_xread W k offset (wait_ms block_interval (deadline - now)) s2 = Some (Ok v, s3)"
  shows "(case extract_latest_stream_entry_id v of Some i \<Rightarrow> left k i s3 < left k offset s
    | None \<Rightarrow> left k offset s3 \<le> left k offset s \<and> nat (deadline - time s3) < nat (deadline - time s))"
proof -
  note before = status_time(1) [OF status] status_time(2) [OF status, where k = k and offset = offset]
    clock_time [OF clock, where k = k and offset = offset]
  show ?thesis
  proof (cases "extract_latest_stream_entry_id v")
    case None
    then show ?thesis
      using block_over [OF reply None] before late wait_ms_positive [of block_interval "deadline - now"] by auto
  next
    case (Some i)
    then show ?thesis using entry_read [OF reply Some] before by auto
  qed
qed

lemma wait_loop_returns: "wait_loop R C W job_id deadline block_interval offset s \<noteq> None"
proof (induction "(left (format_job_events_key job_id) offset s, nat (deadline - time s))" arbitrary: offset s
    rule: wf_induct_rule [OF wf_lex_prod [OF wf_less wf_less]])
  case less: 1
  let ?k = "format_job_events_key job_id"
  obtain st s1 where st: "get_job_status R C job_id s = (st, s1)" by fastforce
  obtain now s2 where now: "wt_clock W s1 = (now, s2)" by fastforce
  obtain r s3 where r: "wt_xread W ?k offset (wait_ms block_interval (deadline - now)) s2 = Some (r, s3)"
    using block_answers [of "wait_ms block_interval (deadline - now)" ?k offset s2] wait_ms_positive [of block_interval "deadline - now"]
    by (metis not_None_eq prod.collapse zero_less_one order_less_le_trans)
  have again: "wait_loop R C W job_id deadline block_interval
      (case extract_latest_stream_entry_id v of Some i \<Rightarrow> i | None \<Rightarrow> offset) s3 \<noteq> None"
    if "r = Ok v" "now < deadline" for v
    using round_progress [OF st now that(2) r [unfolded that(1)]]
    by (intro less) (auto simp: order_less_le split: option.splits)
  show ?case
    using again by (subst wait_loop.simps) (auto simp: st now r not_le split: res.split option.split)
qed

end

section \<open>A reference server with a clock\<close>

text \<open>
  What others are going to do: after so many nanoseconds, an event with this id, with the keyspace as it is then. The
  server acts while it is waited for; an entry that is due is the answer of \<open>XREAD\<close>.
\<close>

record clocked =
  ck_keys :: keyspace
  ck_time :: int
  ck_events :: "(nat \<times> string \<times> keyspace) list"

definition on_keys :: "(keyspace, 'a) io \<Rightarrow> (clocked, 'a) io" where
  "on_keys m s = (case m (ck_keys s) of (r, ks) \<Rightarrow> (r, s\<lparr>ck_keys := ks\<rparr>))"

definition clocked_redis :: "clocked redis" where
  "clocked_redis = \<lparr> r_exists = on_keys \<circ> ks_exists, r_del = on_keys \<circ> ks_del, r_expire = (\<lambda>k. on_keys \<circ> ks_expire k),
     r_pexpire = (\<lambda>k. on_keys \<circ> ks_pexpire k), r_persist = on_keys \<circ> ks_persist, r_ttl = on_keys \<circ> ks_ttl,
     r_get = on_keys \<circ> ks_get, r_set = (\<lambda>k v nx. on_keys \<circ> ks_set k v nx), r_hset = (\<lambda>k. on_keys \<circ> ks_hset k),
     r_hdel = (\<lambda>k. on_keys \<circ> ks_hdel k), r_hget = (\<lambda>k. on_keys \<circ> ks_hget k), r_hgetall = on_keys \<circ> ks_hgetall,
     r_hincrby = (\<lambda>k f. on_keys \<circ> ks_hincrby k f), r_zadd = (\<lambda>k sc. on_keys \<circ> ks_zadd k sc),
     r_zrem = (\<lambda>k. on_keys \<circ> ks_zrem k), r_zscore = (\<lambda>k. on_keys \<circ> ks_zscore k),
     r_zrangebyscore = (\<lambda>k mx. on_keys \<circ> ks_zrangebyscore k mx), r_zcard = on_keys \<circ> ks_zcard,
     r_zrange = (\<lambda>k i. on_keys \<circ> ks_zrange k i), r_lpush = (\<lambda>k. on_keys \<circ> ks_lpush k),
     r_lrem = (\<lambda>k. on_keys \<circ> ks_lrem k), r_llen = on_keys \<circ> ks_llen, r_lrange = (\<lambda>k i. on_keys \<circ> ks_lrange k i),
     r_xadd = (\<lambda>k. on_keys \<circ> ks_xadd k), r_flushdb = on_keys ks_flushdb \<rparr>"

definition clocked_xread :: "string \<Rightarrow> string \<Rightarrow> int \<Rightarrow> clocked \<Rightarrow> (redis_value res \<times> clocked) option" where
  "clocked_xread k offset ms s = (case ck_events s of
      [] \<Rightarrow> if ms \<le> 0 then None else Some (Ok VNil, s\<lparr>ck_time := ck_time s + ms * 1000000\<rparr>)
    | (d, i, ks) # rest \<Rightarrow>
        if 0 < ms \<and> ms * 1000000 < int d
        then Some (Ok VNil, s\<lparr>ck_time := ck_time s + ms * 1000000, ck_events := (d - nat (ms * 1000000), i, ks) # rest\<rparr>)
        else Some (Ok (VArray [VArray [VBulk k, VArray [VArray [VBulk i, VArray []]]]]),
               s\<lparr>ck_keys := ks, ck_time := ck_time s + int d, ck_events := rest\<rparr>))"

definition clocked_waiting :: "clocked waiting" where
  "clocked_waiting = \<lparr> wt_clock = (\<lambda>s. (ck_time s, s)), wt_xread = clocked_xread \<rparr>"

lemma sim_on_keys: "sim ck_keys (on_keys m) m"
  by (simp add: sim_def on_keys_def split: prod.split)

interpretation clocked: redis_server clocked_redis ck_keys
  by unfold_locales (simp_all add: clocked_redis_def sim_on_keys)

interpretation clocked_wait: wait_server clocked_redis clocked_waiting ck_time "\<lambda>k offset s. length (ck_events s)"
proof unfold_locales
  fix s s' h key
  assume "r_hgetall clocked_redis key s = (h, s')"
  then show "ck_time s \<le> ck_time s' \<and> length (ck_events s') \<le> length (ck_events s)"
    by (auto simp: clocked_redis_def on_keys_def split: prod.splits)
qed (auto simp: clocked_waiting_def clocked_xread_def extract_latest_stream_entry_id_def last_opt_def
    redis_value_to_string_def split: list.splits if_splits)

end
