(* ===== verification/Producer_Properties.thy ===== *)
theory Producer_Properties
  imports Waiting Store_Properties
begin

text \<open>
  The contract of the producer: its jobs are readable by the orchestrator; idempotency,
  rate-limit and debounce keys do what their names say; where debouncing leaves a job in two
  queues; and the wait for completion ends, and answers only with terminal states or after the deadline.
\<close>

section \<open>Refinement\<close>

context redis_server
begin

lemma sim_check_name [sim_rules]: "sim db (check_name l v) (check_name l v)"
  unfolding check_name_def by (intro sim_rules)

lemma store_new_job_sim [sim_rules]:
  "sim db (lua_store_new_job R jk qk a) (lua_store_new_job ks_redis jk qk a)"
  unfolding lua_store_new_job_def by (intro sim_rules)

lemma producer_script_sims [sim_rules]:
  "sim db (producer_enqueue_script R jk qk ik a) (producer_enqueue_script ks_redis jk qk ik a)"
  "sim db (rate_limit_script R jk qk rk a) (rate_limit_script ks_redis jk qk rk a)"
  "sim db (debounce_script R qk dk a) (debounce_script ks_redis qk dk a)"
  unfolding producer_enqueue_script_def producer_enqueue_tail_def rate_limit_script_def rate_limit_tail_def
    debounce_script_def debounce_new_def debounce_reschedule_def
  by (intro sim_rules)+

lemma producer_sims [sim_rules]:
  "sim db (producer_enqueue R C inject i now cfg f ps opts) (producer_enqueue ks_redis C inject i now cfg f ps opts)"
  "sim db (enqueue_with_rate_limit R C inject i now cfg f ps k win opts)
          (enqueue_with_rate_limit ks_redis C inject i now cfg f ps k win opts)"
  "sim db (enqueue_with_debounce R C inject i now cfg f ps k win opts)
          (enqueue_with_debounce ks_redis C inject i now cfg f ps k win opts)"
  "sim db (get_job_status R C j) (get_job_status ks_redis C j)"
  unfolding producer_enqueue_def enqueue_with_rate_limit_def enqueue_with_debounce_def get_job_status_def
    datetime_add_def
  by (intro sim_rules)+

end

section \<open>Keys and fields\<close>

lemma job_key_unfold: "JOB_KEY_PREFIX @ j = format_job_key j"
  by (simp add: format_job_key_def)

lemma guard_key_forms:
  "\<exists>s. format_idempotency_key k = ''rrq:idempotency:'' @ s"
  "\<exists>s. format_rate_limit_key k = ''rrq:rate_limit:'' @ s"
  "\<exists>s. format_debounce_key k = ''rrq:debounce:'' @ s"
  by (auto simp: format_idempotency_key_def format_rate_limit_key_def format_debounce_key_def
      IDEMPOTENCY_KEY_PREFIX_def RATE_LIMIT_KEY_PREFIX_def DEBOUNCE_KEY_PREFIX_def starts_with_iff)

lemma guard_keys_distinct [simp]:
  "format_idempotency_key k \<noteq> format_job_key j" "format_job_key j \<noteq> format_idempotency_key k"
  "format_rate_limit_key k \<noteq> format_job_key j" "format_job_key j \<noteq> format_rate_limit_key k"
  "format_debounce_key k \<noteq> format_job_key j" "format_job_key j \<noteq> format_debounce_key k"
  "format_idempotency_key k \<noteq> format_queue_key q" "format_queue_key q \<noteq> format_idempotency_key k"
  "format_rate_limit_key k \<noteq> format_queue_key q" "format_queue_key q \<noteq> format_rate_limit_key k"
  "format_debounce_key k \<noteq> format_queue_key q" "format_queue_key q \<noteq> format_debounce_key k"
  "format_idempotency_key k \<noteq> []" "format_rate_limit_key k \<noteq> []" "format_debounce_key k \<noteq> []"
  using guard_key_forms [of k] format_queue_key_form [of q]
  by (auto simp: key_defs key_prefix_defs)

definition context_fields :: "script_args \<Rightarrow> (string \<times> string) list" where
  "context_fields a = (if a_trace_context a = [] then [] else [(''trace_context'', a_trace_context a)])
     @ (if a_correlation_context a = [] then [] else [(''correlation_context'', a_correlation_context a)])"

definition producer_hash :: "script_args \<Rightarrow> rhash" where
  "producer_hash a = hash_put (new_job_fields a @ context_fields a) fmempty"

lemma new_job_fields_not_Nil [simp]: "new_job_fields a \<noteq> []"
  by (simp add: new_job_fields_def)

lemma store_new_job_effect:
  assumes "is_zset ks (format_queue_key q)" "ks (format_job_key j) = None"
  shows "lua_store_new_job ks_redis (format_job_key j) (format_queue_key q) a ks =
    (Ok (1, a_job_id a),
     put_zset (format_queue_key q) (zs_put (a_score_ms a) (a_job_id a) (zset_at ks (format_queue_key q)))
       (put_hash (format_job_key j) (producer_hash a) ks))"
proof -
  have h: "is_hash ks (format_job_key j)" using assms by (simp add: is_hash_def)
  show ?thesis
    using assms h
    by (auto simp: lua_store_new_job_def andThen_def ret_def effects put_hash_twice producer_hash_def
        context_fields_def hash_put_append simp del: hash_put_simps(2))
qed

lemma producer_hash_lookups:
  "fmlookup (producer_hash a) ''id'' = Some (a_job_id a)"
  "fmlookup (producer_hash a) ''function_name'' = Some (a_function_name a)"
  "fmlookup (producer_hash a) ''job_params'' = Some (a_job_params a)"
  "fmlookup (producer_hash a) ''enqueue_time'' = Some (a_enqueue_time a)"
  "fmlookup (producer_hash a) ''status'' = Some (a_status a)"
  "fmlookup (producer_hash a) ''current_retries'' = Some (show_int (a_current_retries a))"
  "fmlookup (producer_hash a) ''next_scheduled_run_time'' = Some (a_next_scheduled_run_time a)"
  "fmlookup (producer_hash a) ''max_retries'' = Some (show_int (a_max_retries a))"
  "fmlookup (producer_hash a) ''job_timeout_seconds'' = Some (show_int (a_job_timeout_seconds a))"
  "fmlookup (producer_hash a) ''result_ttl_seconds'' = Some (show_int (a_result_ttl_seconds a))"
  "fmlookup (producer_hash a) ''queue_name'' = Some (a_queue_name a)"
  "fmlookup (producer_hash a) ''result'' = Some (a_result a)"
  "fmlookup (producer_hash a) ''trace_context'' = (if a_trace_context a = [] then None else Some (a_trace_context a))"
  "fmlookup (producer_hash a) ''correlation_context''
     = (if a_correlation_context a = [] then None else Some (a_correlation_context a))"
  "fmlookup (producer_hash a) ''start_time'' = None" "fmlookup (producer_hash a) ''worker_id'' = None"
  "fmlookup (producer_hash a) ''completion_time'' = None" "fmlookup (producer_hash a) ''last_error'' = None"
  "fmlookup (producer_hash a) ''dlq_name'' = None" "fmlookup (producer_hash a) ''job_unique_key'' = None"
  by (simp_all add: producer_hash_def context_fields_def new_job_fields_def)

lemma producer_hash_not_empty [simp]: "producer_hash a \<noteq> fmempty"
  by (simp add: producer_hash_def)

lemma check_name_ok: "trim v \<noteq> [] \<Longrightarrow> check_name l v = ret ()"
  by (simp add: check_name_def validate_name_def)

section \<open>The orchestrator reads what the producer writes\<close>

definition produced_job ::
  "(strmap option \<Rightarrow> strmap option) \<Rightarrow> ProducerConfig \<Rightarrow> ProducerOptions \<Rightarrow> string \<Rightarrow> string \<Rightarrow> params
    \<Rightarrow> string \<Rightarrow> datetime \<Rightarrow> datetime \<Rightarrow> job" where
  "produced_job inject cfg opts job_id f ps queue_name enqueue_time scheduled_time =
     \<lparr> j_id = job_id, j_function_name = f, j_params = ps, j_enqueue_time = enqueue_time,
       j_start_time = None, j_status = Pending, j_current_retries = 0,
       j_next_scheduled_run_time = Some scheduled_time,
       j_max_retries = or_default (po_max_retries opts) (pc_max_retries cfg),
       j_job_timeout_seconds = Some (or_default (po_job_timeout_seconds opts) (pc_job_timeout_seconds cfg)),
       j_result_ttl_seconds = Some (or_default (po_result_ttl_seconds opts) (pc_result_ttl_seconds cfg)),
       j_unique_key = None, j_completion_time = None, j_result = None, j_last_error = None,
       j_queue_name = Some queue_name, j_dlq_name = None, j_worker_id = None,
       j_trace_context = inject (po_trace_context opts),
       j_correlation_context =
         extract_correlation_context ps (pc_correlation_mappings cfg) (inject (po_trace_context opts)) \<rparr>"

lemma correlation_distinct: "extract_correlation_context ps ms tc = Some m \<Longrightarrow> distinct (map fst m)"
proof -
  have "correlation_ok (correlation_loop ps tc ms [])"
    by (rule correlation_loop_ok) (simp add: correlation_ok_def)
  then show "extract_correlation_context ps ms tc = Some m \<Longrightarrow> distinct (map fst m)"
    by (auto simp: extract_correlation_context_def correlation_ok_def Let_def split: if_splits)
qed

context codec_laws
begin

lemma context_json_parse:
  assumes "case ctx of None \<Rightarrow> True | Some m \<Rightarrow> distinct (map fst m)"
  shows "Option.bind (if context_json C ctx = [] then None else Some (context_json C ctx)) (parse_context C) = ctx"
  using assms by (cases ctx) (simp_all add: context_json_def json_not_empty parse_context_roundtrip)

lemma parse_producer_hash:
  assumes ps: "json_ok (JObj ps)"
    and nums: "i64_ok (or_default (po_max_retries opts) (pc_max_retries cfg))"
      "i64_ok (or_default (po_job_timeout_seconds opts) (pc_job_timeout_seconds cfg))"
      "i64_ok (or_default (po_result_ttl_seconds opts) (pc_result_ttl_seconds cfg))"
    and tc: "case inject (po_trace_context opts) of None \<Rightarrow> True | Some m \<Rightarrow> distinct (map fst m)"
  shows "parse_job_map C (producer_hash (script_args_of C inject cfg opts j f ps q et st ttl)) fid dmr
    = Inr (produced_job inject cfg opts j f ps q et st)"
proof -
  have cc: "case extract_correlation_context ps (pc_correlation_mappings cfg) (inject (po_trace_context opts)) of
      None \<Rightarrow> True | Some m \<Rightarrow> distinct (map fst m)"
    using correlation_distinct by (auto split: option.split)
  have "json_parse C (json_text C (JObj ps)) = Some (JObj ps)"
    using ps by (rule json_roundtrip)
  moreover have "parse_status ''PENDING'' = Some Pending" by (simp add: parse_status_def)
  moreover have "parse_json C ''null'' = None" by (simp add: parse_json_def eq_ignore_case_def)
  moreover have "i64_ok 0" by (simp add: i64_ok_def)
  ultimately show ?thesis
    using nums context_json_parse [OF tc] context_json_parse [OF cc]
    by (simp add: parse_job_map_def producer_hash_lookups script_args_of_def params_of_json_def
        rfc3339_roundtrip produced_job_def Let_def) (auto split: if_splits)
qed

end

lemma script_args_sel [simp]:
  "a_job_id (script_args_of C inject cfg opts j f ps q et st ttl) = j"
  "a_score_ms (script_args_of C inject cfg opts j f ps q et st ttl) = of_int (timestamp_millis st)"
  "a_ttl_seconds (script_args_of C inject cfg opts j f ps q et st ttl) = ttl"
  by (simp_all add: script_args_of_def Let_def)

text \<open>C8. A job the producer enqueues under a fresh id is, for the orchestrator that reads its
  definition, a PENDING job with exactly the function, parameters, times, limits and contexts the
  producer was given.\<close>

theorem producer_enqueue_readable:
  assumes server: "redis_server R db" and laws: "codec_laws C" and wt: "well_typed (db s)"
    and names: "trim f \<noteq> []" "trim (or_default (po_queue_name opts) (pc_queue_name cfg)) \<noteq> []"
    and timeout: "0 < or_default (po_job_timeout_seconds opts) (pc_job_timeout_seconds cfg)"
    and idem: "po_idempotency_key opts = None"
    and fresh: "db s (format_job_key (or_default (po_job_id opts) i)) = None"
    and ps: "json_ok (JObj ps)"
    and nums: "i64_ok (or_default (po_max_retries opts) (pc_max_retries cfg))"
      "i64_ok (or_default (po_job_timeout_seconds opts) (pc_job_timeout_seconds cfg))"
      "i64_ok (or_default (po_result_ttl_seconds opts) (pc_result_ttl_seconds cfg))"
    and tc: "case inject (po_trace_context opts) of None \<Rightarrow> True | Some m \<Rightarrow> distinct (map fst m)"
  shows "\<exists>s1. let j = or_default (po_job_id opts) i;
                  q = or_default (po_queue_name opts) (pc_queue_name cfg);
                  et = or_default (po_enqueue_time opts) now;
                  st = or_default (po_scheduled_time opts) et
    in producer_enqueue R C inject i now cfg f ps opts s = (Ok j, s1)
     \<and> fst (get_job_definition R C dmr j s1)
         = Ok (Some (produced_job inject cfg opts j f ps (format_queue_key q) et st))
     \<and> zs_score j (zset_at (db s1) (format_queue_key q)) = Some (of_int (timestamp_millis st))"
proof -
  let ?j = "or_default (po_job_id opts) i" and ?q = "or_default (po_queue_name opts) (pc_queue_name cfg)"
  let ?et = "or_default (po_enqueue_time opts) now"
  let ?st = "or_default (po_scheduled_time opts) ?et"
  let ?a = "script_args_of C inject cfg opts ?j f ps (format_queue_key ?q) ?et ?st
      (or_default (po_idempotency_ttl_seconds opts) (pc_idempotency_ttl_seconds cfg))"
  let ?ks = "put_zset (format_queue_key ?q) (zs_put (of_int (timestamp_millis ?st)) ?j
      (zset_at (db s) (format_queue_key ?q))) (put_hash (format_job_key ?j) (producer_hash ?a) (db s))"
  have "producer_enqueue ks_redis C inject i now cfg f ps opts (db s) = (Ok ?j, ?ks)"
    using wt names timeout idem fresh
    by (simp add: producer_enqueue_def check_name_ok Let_def not_le [symmetric] producer_enqueue_script_def
        producer_enqueue_tail_def job_key_unfold andThen_def ks_exists_effect store_new_job_effect ret_def)
  then obtain s1 where s1: "producer_enqueue R C inject i now cfg f ps opts s = (Ok ?j, s1)" "db s1 = ?ks"
    using sim_run [OF redis_server.producer_sims(1) [OF server]] by blast
  have "fst (get_job_definition ks_redis C dmr ?j ?ks)
      = Ok (Some (produced_job inject cfg opts ?j f ps (format_queue_key ?q) ?et ?st))"
    using wt by (simp add: job_definition_effect 
        codec_laws.parse_producer_hash [where inject = inject and cfg = cfg and opts = opts, OF laws ps nums tc])
  then have "fst (get_job_definition R C dmr ?j s1)
      = Ok (Some (produced_job inject cfg opts ?j f ps (format_queue_key ?q) ?et ?st))"
    by (simp add: sim_fst [OF redis_server.query_sims(1) [OF server]] s1(2))
  moreover have "zs_score ?j (zset_at (db s1) (format_queue_key ?q)) = Some (of_int (timestamp_millis ?st))"
    using wt by (simp add: s1(2))
  ultimately show ?thesis
    using s1(1) by (intro exI [of _ s1]) (simp add: Let_def)
qed

definition sample_producer_options :: "string option \<Rightarrow> ProducerOptions" where
  "sample_producer_options idem = \<lparr> po_queue_name = Some ''mail'', po_job_id = Some ''p1'',
     po_idempotency_key = idem, po_idempotency_ttl_seconds = None, po_max_retries = None,
     po_job_timeout_seconds = None, po_result_ttl_seconds = None, po_enqueue_time = None,
     po_scheduled_time = None, po_trace_context = None \<rparr>"

lemma sample_producer_sel [simp]:
  "po_queue_name (sample_producer_options k) = Some ''mail''"
  "po_job_id (sample_producer_options k) = Some ''p1''"
  "po_idempotency_key (sample_producer_options k) = k"
  "po_idempotency_ttl_seconds (sample_producer_options k) = None"
  "po_max_retries (sample_producer_options k) = None"
  "po_job_timeout_seconds (sample_producer_options k) = None"
  "po_result_ttl_seconds (sample_producer_options k) = None"
  "po_enqueue_time (sample_producer_options k) = None"
  "po_scheduled_time (sample_producer_options k) = None"
  "po_trace_context (sample_producer_options k) = None"
  "pc_max_retries default_producer_config = 5" "pc_job_timeout_seconds default_producer_config = 300"
  "pc_result_ttl_seconds default_producer_config = 86400"
  "pc_idempotency_ttl_seconds default_producer_config = 21600"
  by (simp_all add: sample_producer_options_def default_producer_config_def)

lemma sample_names: "trim ''f'' \<noteq> []" "trim ''mail'' \<noteq> []" "trim ''k'' \<noteq> []"
  by code_simp+

theorem producer_enqueue_readable_witness:
  "fst (producer_enqueue ks_redis simple_codec (\<lambda>c. c) ''new'' 7 default_producer_config ''f'' []
      (sample_producer_options None) (\<lambda>_. None)) = Ok ''p1''"
  using producer_enqueue_readable [OF reference.redis_server_axioms simple.codec_laws_axioms, where
      s = "\<lambda>_. None" and opts = "sample_producer_options None" and cfg = default_producer_config
      and f = "''f''" and ps = "[]" and inject = "\<lambda>c. c" and i = "''new''" and now = 7 and dmr = 5]
  by (auto simp: sample_names i64_ok_def Let_def)

section \<open>Guard keys\<close>

text \<open>C9. Idempotency: while the job of an idempotency key exists, a further call with that key
  answers with its id and changes nothing, whatever else it asks for.\<close>

theorem producer_enqueue_idempotent:
  assumes server: "redis_server R db"
    and names: "trim f \<noteq> []" "trim (or_default (po_queue_name opts) (pc_queue_name cfg)) \<noteq> []" "trim k \<noteq> []"
    and timeout: "0 < or_default (po_job_timeout_seconds opts) (pc_job_timeout_seconds cfg)"
    and idem: "po_idempotency_key opts = Some k"
      "0 < or_default (po_idempotency_ttl_seconds opts) (pc_idempotency_ttl_seconds cfg)"
    and held: "string_at (db s) (format_idempotency_key k) = Some j" "db s (format_job_key j) \<noteq> None"
  shows "\<exists>s1. producer_enqueue R C inject i now cfg f ps opts s = (Ok j, s1) \<and> db s1 = db s"
proof -
  have "is_string (db s) (format_idempotency_key k)"
    using held(1) by (auto simp: string_at_def is_string_def split: option.splits rvalue.splits)
  then have "producer_enqueue ks_redis C inject i now cfg f ps opts (db s) = (Ok j, db s)"
    using names timeout idem held
    by (simp add: producer_enqueue_def check_name_ok Let_def not_le [symmetric] producer_enqueue_script_def
        job_key_unfold andThen_def ks_get_effect ks_exists_effect ret_def del: not_None_eq)
  then show ?thesis
    by (rule sim_run [OF redis_server.producer_sims(1) [OF server]])
qed

theorem producer_enqueue_idempotent_witness:
  "let ks = put_string (format_idempotency_key ''k'') ''old'' (Some 9000)
              (put_hash (format_job_key ''old'') (fmupd ''status'' ''ACTIVE'' fmempty) (\<lambda>_. None))
   in producer_enqueue ks_redis simple_codec (\<lambda>c. c) ''new'' 7 default_producer_config ''f'' []
        (sample_producer_options (Some ''k'')) ks = (Ok ''old'', ks)"
  using producer_enqueue_idempotent [OF reference.redis_server_axioms, where
      s = "put_string (format_idempotency_key ''k'') ''old'' (Some 9000)
              (put_hash (format_job_key ''old'') (fmupd ''status'' ''ACTIVE'' fmempty) (\<lambda>_. None))"
      and opts = "sample_producer_options (Some ''k'')" and cfg = default_producer_config and k = "''k''"
      and j = "''old''" and C = simple_codec and inject = "\<lambda>c. c" and i = "''new''" and now = 7
      and f = "''f''" and ps = "[]"]
  by (simp add: sample_names)

lemma ceil_seconds_ex: "ceil_seconds 60000000000 = 60"
  by (simp add: ceil_seconds_def)

text \<open>Rate limiting: while the rate-limit key is held, a call answers that it was limited and
  changes nothing.\<close>

theorem enqueue_with_rate_limit_limited:
  assumes server: "redis_server R db"
    and names: "trim f \<noteq> []" "trim (or_default (po_queue_name opts) (pc_queue_name cfg)) \<noteq> []" "trim k \<noteq> []"
    and timeout: "0 < or_default (po_job_timeout_seconds opts) (pc_job_timeout_seconds cfg)"
    and window: "0 < ceil_seconds window" "i64_ok (ceil_seconds window * 1000)"
    and held: "db s (format_rate_limit_key k) \<noteq> None"
  shows "\<exists>s1. enqueue_with_rate_limit R C inject i now cfg f ps k window opts s = (Ok None, s1) \<and> db s1 = db s"
proof -
  have "enqueue_with_rate_limit ks_redis C inject i now cfg f ps k window opts (db s) = (Ok None, db s)"
    using names timeout window held
    by (simp add: enqueue_with_rate_limit_def check_name_ok Let_def not_le [symmetric] rate_limit_script_def
        andThen_def effects expiry_ms_def ret_def del: not_None_eq)
  then show ?thesis
    by (rule sim_run [OF redis_server.producer_sims(2) [OF server]])
qed

theorem enqueue_with_rate_limit_limited_witness:
  "let ks = put_string (format_rate_limit_key ''k'') ''old'' (Some 9000) (\<lambda>_. None)
   in enqueue_with_rate_limit ks_redis simple_codec (\<lambda>c. c) ''new'' 7 default_producer_config ''f'' []
        ''k'' 60000000000 (sample_producer_options None) ks = (Ok None, ks)"
  using enqueue_with_rate_limit_limited [OF reference.redis_server_axioms, where
      s = "put_string (format_rate_limit_key ''k'') ''old'' (Some 9000) (\<lambda>_. None)"
      and opts = "sample_producer_options None" and cfg = default_producer_config and k = "''k''"
      and C = simple_codec and inject = "\<lambda>c. c" and i = "''new''" and now = 7 and window = 60000000000
      and f = "''f''" and ps = "[]"]
  by (simp add: sample_names ceil_seconds_ex i64_ok_def)

text \<open>C10. A rate-limited call that is refused because its job id exists gives the rate-limit key
  back: nothing has changed and the next call is not limited.\<close>

theorem enqueue_with_rate_limit_rolls_back:
  assumes server: "redis_server R db"
    and names: "trim f \<noteq> []" "trim (or_default (po_queue_name opts) (pc_queue_name cfg)) \<noteq> []" "trim k \<noteq> []"
    and timeout: "0 < or_default (po_job_timeout_seconds opts) (pc_job_timeout_seconds cfg)"
    and window: "0 < ceil_seconds window" "i64_ok (ceil_seconds window * 1000)"
    and free: "db s (format_rate_limit_key k) = None"
    and there: "db s (format_job_key (or_default (po_job_id opts) i)) \<noteq> None"
  shows "\<exists>s1. enqueue_with_rate_limit R C inject i now cfg f ps k window opts s
      = (Err (Bail ''job_id already exists''), s1) \<and> db s1 = db s"
proof -
  have "enqueue_with_rate_limit ks_redis C inject i now cfg f ps k window opts (db s)
      = (Err (Bail ''job_id already exists''), db s)"
    using names timeout window free there
    by (simp add: enqueue_with_rate_limit_def check_name_ok Let_def not_le [symmetric] rate_limit_script_def
        rate_limit_tail_def job_key_unfold andThen_def effects expiry_ms_def ret_def fail_def del_put_fresh
        del: not_None_eq)
  then show ?thesis
    by (rule sim_run [OF redis_server.producer_sims(2) [OF server]])
qed

theorem enqueue_with_rate_limit_rolls_back_witness:
  "let ks = put_hash (format_job_key ''p1'') (fmupd ''status'' ''ACTIVE'' fmempty) (\<lambda>_. None)
   in enqueue_with_rate_limit ks_redis simple_codec (\<lambda>c. c) ''new'' 7 default_producer_config ''f'' []
        ''k'' 60000000000 (sample_producer_options None) ks = (Err (Bail ''job_id already exists''), ks)"
  using enqueue_with_rate_limit_rolls_back [OF reference.redis_server_axioms, where
      s = "put_hash (format_job_key ''p1'') (fmupd ''status'' ''ACTIVE'' fmempty) (\<lambda>_. None)"
      and opts = "sample_producer_options None" and cfg = default_producer_config and k = "''k''"
      and C = simple_codec and inject = "\<lambda>c. c" and i = "''new''" and now = 7 and window = 60000000000
      and f = "''f''" and ps = "[]"]
  by (simp add: sample_names ceil_seconds_ex i64_ok_def put_hash_def)

section \<open>Debouncing\<close>

definition debounce_fields :: "script_args \<Rightarrow> (string \<times> string) list" where
  "debounce_fields a =
     [(''function_name'', a_function_name a), (''job_params'', a_job_params a),
      (''next_scheduled_run_time'', a_next_scheduled_run_time a),
      (''max_retries'', show_int (a_max_retries a)),
      (''job_timeout_seconds'', show_int (a_job_timeout_seconds a)),
      (''result_ttl_seconds'', show_int (a_result_ttl_seconds a)), (''queue_name'', a_queue_name a)]"

definition debounce_hash :: "script_args \<Rightarrow> rhash \<Rightarrow> rhash" where
  "debounce_hash a h =
     (let h1 = hash_put (debounce_fields a @
                 (if a_trace_context a = [] then [] else [(''trace_context'', a_trace_context a)])) h
      in if a_correlation_context a = [] then hash_del [''correlation_context''] h1
         else hash_put [(''correlation_context'', a_correlation_context a)] h1)"

lemma debounce_reschedule_effect:
  assumes "is_hash ks (format_job_key j)" "is_zset ks (format_queue_key q)"
    "0 < a_ttl_seconds a" "i64_ok (a_ttl_seconds a * 1000)"
  shows "debounce_reschedule ks_redis (format_queue_key q) (format_debounce_key k) j a ks =
    (Ok (0, j), put_ttl (format_debounce_key k) (Some (a_ttl_seconds a * 1000))
       (put_zset (format_queue_key q) (zs_put (a_score_ms a) j (zset_at ks (format_queue_key q)))
         (put_hash (format_job_key j) (debounce_hash a (hash_at ks (format_job_key j))) ks)))"
  using assms
  by (simp add: debounce_reschedule_def job_key_unfold andThen_def ret_def effects put_hash_twice
      debounce_hash_def debounce_fields_def ignore_def Let_def)

lemma debounce_hash_lookups:
  "fmlookup (debounce_hash a h) ''queue_name'' = Some (a_queue_name a)"
  "fmlookup (debounce_hash a h) ''job_params'' = Some (a_job_params a)"
  "fmlookup (debounce_hash a h) ''next_scheduled_run_time'' = Some (a_next_scheduled_run_time a)"
  "fmlookup (debounce_hash a h) ''status'' = fmlookup h ''status''"
  by (simp_all add: debounce_hash_def debounce_fields_def Let_def)

lemma debounce_pending_effect:
  assumes wt: "well_typed ks" and key: "string_at ks (format_debounce_key k) = Some j"
    and pending: "fmlookup (hash_at ks (format_job_key j)) ''status'' = Some ''PENDING''"
    and ttl: "0 < a_ttl_seconds a" "i64_ok (a_ttl_seconds a * 1000)"
  shows "debounce_script ks_redis (format_queue_key q) (format_debounce_key k) a ks =
    (Ok (0, j), put_ttl (format_debounce_key k) (Some (a_ttl_seconds a * 1000))
       (put_zset (format_queue_key q) (zs_put (a_score_ms a) j (zset_at ks (format_queue_key q)))
         (put_hash (format_job_key j) (debounce_hash a (hash_at ks (format_job_key j))) ks)))"
proof -
  have "is_string ks (format_debounce_key k)"
    using key by (auto simp: string_at_def is_string_def split: option.splits rvalue.splits)
  moreover have "ks (format_job_key j) \<noteq> None"
    using pending by (auto simp: hash_at_def split: option.splits)
  ultimately show ?thesis
    using wt key pending debounce_reschedule_effect [OF _ _ ttl]
    by (simp add: debounce_script_def job_key_unfold andThen_def effects del: not_None_eq)
qed

text \<open>Debouncing: while the job of the debounce key is PENDING, a further call reuses it. The
  answer is its id, its parameters and schedule are the new ones, the queue named by the call holds
  it at the new time, the key lives on for the window, and no job is created.\<close>

theorem enqueue_with_debounce_reschedules:
  assumes server: "redis_server R db" and wt: "well_typed (db s)"
    and names: "trim f \<noteq> []" "trim (or_default (po_queue_name opts) (pc_queue_name cfg)) \<noteq> []" "trim k \<noteq> []"
    and timeout: "0 < or_default (po_job_timeout_seconds opts) (pc_job_timeout_seconds cfg)"
    and window: "0 < ceil_seconds window" "i64_ok (ceil_seconds window * 1000)"
    and sched: "po_scheduled_time opts = Some st"
    and key: "string_at (db s) (format_debounce_key k) = Some j"
    and pending: "fmlookup (hash_at (db s) (format_job_key j)) ''status'' = Some ''PENDING''"
    and q: "q = or_default (po_queue_name opts) (pc_queue_name cfg)"
  shows "\<exists>s1. enqueue_with_debounce R C inject i now cfg f ps k window opts s = (Ok j, s1)
    \<and> zs_score j (zset_at (db s1) (format_queue_key q)) = Some (of_int (timestamp_millis st))
    \<and> (let h = hash_at (db s1) (format_job_key j) in
         fmlookup h ''status'' = Some ''PENDING'' \<and> fmlookup h ''queue_name'' = Some (format_queue_key q)
       \<and> fmlookup h ''job_params'' = Some (json_text C (JObj ps))
       \<and> fmlookup h ''next_scheduled_run_time'' = Some (to_rfc3339 C st))
    \<and> ttl_at (db s1) (format_debounce_key k) = Some (ceil_seconds window * 1000)
    \<and> (\<forall>x. x \<noteq> format_debounce_key k \<longrightarrow> x \<noteq> format_job_key j \<longrightarrow> x \<noteq> format_queue_key q \<longrightarrow> db s1 x = db s x)"
proof -
  let ?a = "script_args_of C inject cfg opts (or_default (po_job_id opts) i) f ps (format_queue_key q)
      (or_default (po_enqueue_time opts) now) st (ceil_seconds window)"
  let ?ks = "put_ttl (format_debounce_key k) (Some (ceil_seconds window * 1000))
       (put_zset (format_queue_key q) (zs_put (of_int (timestamp_millis st)) j (zset_at (db s) (format_queue_key q)))
         (put_hash (format_job_key j) (debounce_hash ?a (hash_at (db s) (format_job_key j))) (db s)))"
  have "debounce_script ks_redis (format_queue_key q) (format_debounce_key k) ?a (db s) = (Ok (0, j), ?ks)"
    using debounce_pending_effect [OF wt key pending, of ?a q] window by simp
  then have run: "enqueue_with_debounce ks_redis C inject i now cfg f ps k window opts (db s) = (Ok j, ?ks)"
    using names timeout window sched q
    by (simp add: enqueue_with_debounce_def check_name_ok Let_def not_le [symmetric] andThen_def ret_def)
  obtain s1 where s1: "enqueue_with_debounce R C inject i now cfg f ps k window opts s = (Ok j, s1)" "db s1 = ?ks"
    using sim_run [OF redis_server.producer_sims(3) [OF server] run] by blast
  have "db s (format_debounce_key k) \<noteq> None"
    using key by (auto simp: string_at_def split: option.splits)
  then show ?thesis
    using wt pending
    by (intro exI [of _ s1])
      (simp add: s1 debounce_hash_lookups, simp add: script_args_of_def Let_def)
qed

definition debounce_keyspace :: keyspace where
  "debounce_keyspace =
     put_string (format_debounce_key ''k'') ''old'' (Some 9000)
       (put_hash (format_job_key ''old'') (fmupd ''status'' ''PENDING'' fmempty)
         (put_zset (format_queue_key ''first'') [(5, ''old'')] (\<lambda>_. None)))"

lemma queue_keys_differ: "format_queue_key ''mail'' \<noteq> format_queue_key ''first''"
  by (simp add: format_queue_key_def QUEUE_KEY_PREFIX_def starts_with_def)

lemma well_typed_put_debounce [simp]:
  "well_typed ks \<Longrightarrow> well_typed (put_string (format_debounce_key k) v t ks)"
proof -
  obtain x where x: "format_debounce_key k = ''rrq:debounce:'' @ x"
    using guard_key_forms by blast
  have d: "format_debounce_key k \<noteq> format_job_events_key j" "format_debounce_key k \<noteq> active_jobs_key w"
    "format_debounce_key k \<noteq> format_lock_key j" "format_debounce_key k \<noteq> format_unique_key u"
    "format_debounce_key k \<noteq> format_health_key w" for j w u
    by (simp_all add: x key_defs key_prefix_defs)
  have "format_debounce_key k \<noteq> format_dlq_key q" for q
    using format_dlq_key_form [of q] by (auto simp: x)
  with d show "well_typed ks \<Longrightarrow> well_typed (put_string (format_debounce_key k) v t ks)"
    by (subst well_typed_def) (simp add: d [symmetric] not_sym)
qed

lemma debounce_keyspace_views [simp]:
  "well_typed debounce_keyspace" "string_at debounce_keyspace (format_debounce_key ''k'') = Some ''old''"
  "fmlookup (hash_at debounce_keyspace (format_job_key ''old'')) ''status'' = Some ''PENDING''"
  "zset_at debounce_keyspace (format_queue_key ''first'') = [(5, ''old'')]"
  by (simp_all add: debounce_keyspace_def zs_ok_def)

lemma debounce_sample:
  defines "o99 \<equiv> (sample_producer_options None)\<lparr>po_scheduled_time := Some 99\<rparr>"
  shows "trim (or_default (po_queue_name o99) (pc_queue_name default_producer_config)) \<noteq> []"
    and "0 < ceil_seconds 60000000000" "i64_ok (ceil_seconds 60000000000 * 1000)"
    and "0 < or_default (po_job_timeout_seconds o99) (pc_job_timeout_seconds default_producer_config)"
    and "po_scheduled_time o99 = Some 99"
    and "''mail'' = or_default (po_queue_name o99) (pc_queue_name default_producer_config)"
  by (simp_all add: o99_def sample_names ceil_seconds_ex i64_ok_def)

lemmas debounce_sample_premises =
  debounce_keyspace_views(1) sample_names(1) debounce_sample(1) sample_names(3) debounce_sample(4,2,3,5)
  debounce_keyspace_views(2,3) debounce_sample(6)

theorem enqueue_with_debounce_reschedules_witness:
  "fst (enqueue_with_debounce ks_redis simple_codec (\<lambda>c. c) ''new'' 7 default_producer_config ''f'' []
      ''k'' 60000000000 ((sample_producer_options None)\<lparr>po_scheduled_time := Some 99\<rparr>) debounce_keyspace) = Ok ''old''"
  by (rule exE [OF enqueue_with_debounce_reschedules [OF reference.redis_server_axioms, where s = debounce_keyspace
      and opts = "(sample_producer_options None)\<lparr>po_scheduled_time := Some 99\<rparr>" and cfg = default_producer_config
      and k = "''k''" and j = "''old''" and C = simple_codec and inject = "\<lambda>c. c" and i = "''new''" and now = 7
      and window = 60000000000 and f = "''f''" and ps = "[]" and st = 99 and q = "''mail''", unfolded id_apply,
      OF debounce_sample_premises]])
    (drule conjunct1, simp)

text \<open>C11. Debouncing into another queue leaves the job in the old one as well: after the call both
  queues hold it, so two workers may each claim it.\<close>

theorem enqueue_with_debounce_two_queues:
  assumes server: "redis_server R db" and wt: "well_typed (db s)"
    and names: "trim f \<noteq> []" "trim (or_default (po_queue_name opts) (pc_queue_name cfg)) \<noteq> []" "trim k \<noteq> []"
    and timeout: "0 < or_default (po_job_timeout_seconds opts) (pc_job_timeout_seconds cfg)"
    and window: "0 < ceil_seconds window" "i64_ok (ceil_seconds window * 1000)"
    and sched: "po_scheduled_time opts = Some st"
    and key: "string_at (db s) (format_debounce_key k) = Some j"
    and pending: "fmlookup (hash_at (db s) (format_job_key j)) ''status'' = Some ''PENDING''"
    and q: "q = or_default (po_queue_name opts) (pc_queue_name cfg)"
    and old: "format_queue_key p \<noteq> format_queue_key q" "zs_score j (zset_at (db s) (format_queue_key p)) = Some sc"
  shows "\<exists>s1. enqueue_with_debounce R C inject i now cfg f ps k window opts s = (Ok j, s1)
    \<and> zs_score j (zset_at (db s1) (format_queue_key p)) = Some sc
    \<and> zs_score j (zset_at (db s1) (format_queue_key q)) = Some (of_int (timestamp_millis st))"
proof -
  let ?a = "script_args_of C inject cfg opts (or_default (po_job_id opts) i) f ps (format_queue_key q)
      (or_default (po_enqueue_time opts) now) st (ceil_seconds window)"
  let ?ks = "put_ttl (format_debounce_key k) (Some (ceil_seconds window * 1000))
       (put_zset (format_queue_key q) (zs_put (of_int (timestamp_millis st)) j (zset_at (db s) (format_queue_key q)))
         (put_hash (format_job_key j) (debounce_hash ?a (hash_at (db s) (format_job_key j))) (db s)))"
  have "debounce_script ks_redis (format_queue_key q) (format_debounce_key k) ?a (db s) = (Ok (0, j), ?ks)"
    using debounce_pending_effect [OF wt key pending, of ?a q] window by simp
  then have run: "enqueue_with_debounce ks_redis C inject i now cfg f ps k window opts (db s) = (Ok j, ?ks)"
    using names timeout window sched q
    by (simp add: enqueue_with_debounce_def check_name_ok Let_def not_le [symmetric] andThen_def ret_def)
  obtain s1 where s1: "enqueue_with_debounce R C inject i now cfg f ps k window opts s = (Ok j, s1)" "db s1 = ?ks"
    using sim_run [OF redis_server.producer_sims(3) [OF server] run] by blast
  show ?thesis
    using wt old by (intro exI [of _ s1]) (simp add: s1)
qed

lemma debounce_sample_old:
  "format_queue_key ''first'' \<noteq> format_queue_key ''mail''"
  "zs_score ''old'' (zset_at debounce_keyspace (format_queue_key ''first'')) = Some 5"
  by (simp_all add: queue_keys_differ [symmetric] zs_score_def)

theorem enqueue_with_debounce_two_queues_witness:
  "let s1 = snd (enqueue_with_debounce ks_redis simple_codec (\<lambda>c. c) ''new'' 7 default_producer_config ''f'' []
      ''k'' 60000000000 ((sample_producer_options None)\<lparr>po_scheduled_time := Some 99\<rparr>) debounce_keyspace)
   in zs_score ''old'' (zset_at s1 (format_queue_key ''first'')) = Some 5
    \<and> zs_score ''old'' (zset_at s1 (format_queue_key ''mail'')) \<noteq> None"
  by (rule exE [OF enqueue_with_debounce_two_queues [OF reference.redis_server_axioms, where s = debounce_keyspace
      and opts = "(sample_producer_options None)\<lparr>po_scheduled_time := Some 99\<rparr>" and cfg = default_producer_config
      and k = "''k''" and j = "''old''" and C = simple_codec and inject = "\<lambda>c. c" and i = "''new''" and now = 7
      and window = 60000000000 and f = "''f''" and ps = "[]" and st = 99 and q = "''mail''" and p = "''first''"
      and sc = 5, unfolded id_apply,
      OF debounce_sample_premises debounce_sample_old]])
    (elim conjE, simp add: Let_def)

section \<open>Waiting\<close>

text \<open>What is known of the state in which a wait returns.\<close>

definition ends_well :: "'r redis \<Rightarrow> codec \<Rightarrow> 'r waiting \<Rightarrow> string \<Rightarrow> int \<Rightarrow> JobResult option res \<times> 'r \<Rightarrow> bool" where
  "ends_well R C W job_id deadline result \<longleftrightarrow> (\<forall>outcome. fst result = Ok outcome \<longrightarrow> (case outcome of
      Some r \<Rightarrow> terminal r \<and> (\<exists>s1. get_job_status R C job_id s1 = (Ok (Some r), snd result))
    | None \<Rightarrow> \<exists>st s1 s2 now. get_job_status R C job_id s1 = (Ok st, s2) \<and> \<not> (\<exists>r. st = Some r \<and> terminal r)
        \<and> wt_clock W s2 = (now, snd result) \<and> deadline \<le> now))"

lemma wait_loop_sound:
  assumes "wait_loop R C W job_id deadline block_interval offset s = Some result"
  shows "ends_well R C W job_id deadline result"
proof (rule wait_loop.raw_induct
    [where P = "\<lambda>R C W job_id deadline _ _ _ result. ends_well R C W job_id deadline result", OF _ assms], goal_cases)
  case step: (1 loop R C W job_id deadline block_interval offset s result)
  obtain st s1 where st: "get_job_status R C job_id s = (st, s1)" by fastforce
  obtain now s2 where now: "wt_clock W s1 = (now, s2)" by fastforce
  note ends = step(2) [unfolded st prod.case now]
  show ?case
  proof (cases "\<exists>v. st = Ok v \<and> \<not> (\<exists>r. v = Some r \<and> terminal r)")
    case unfinished: True
    then have unread: "(case v of Some r \<Rightarrow> terminal r | None \<Rightarrow> False) = False" if "st = Ok v" for v
      using that by (auto split: option.split)
    show ?thesis
    proof (cases "deadline \<le> now")
      case True
      then have "result = (Ok None, s2)" using unfinished ends unread by auto
      then show ?thesis using unfinished st now True by (fastforce simp: ends_well_def)
    next
      case False
      let ?x = "wt_xread W (format_job_events_key job_id) offset (wait_ms block_interval (deadline - now)) s2"
      obtain r s3 where x: "?x = Some (r, s3)" using unfinished ends unread False by (cases ?x) auto
      show ?thesis
      proof (cases r)
        case (Ok v)
        then show ?thesis using unfinished ends unread False x by (intro step(1)) auto
      qed (use unfinished ends unread False x in \<open>auto simp: ends_well_def\<close>)
    qed
  next
    case False
    show ?thesis
    proof (cases st)
      case (Ok v)
      with False obtain r where "v = Some r" "terminal r" by auto
      moreover from this have "result = (Ok (Some r), s1)" using ends Ok by simp
      ultimately show ?thesis using st Ok by (auto simp: ends_well_def)
    qed (use ends in \<open>auto simp: ends_well_def\<close>)
  qed
qed

lemma status_read:
  assumes server: "redis_server R db" and read: "get_job_status R C job_id s = (Ok (Some r), s')"
  shows "get_job_status ks_redis C job_id (db s') = (Ok (Some r), db s')"
    "jr_status r = (case fmlookup (hash_at (db s') (JOB_KEY_PREFIX @ job_id)) ''status'' of
       None \<Rightarrow> PUnknown | Some t \<Rightarrow> producer_status t)"
proof -
  have "get_job_status ks_redis C job_id (db s) = (Ok (Some r), db s')"
    using simD [OF redis_server.producer_sims(4) [OF server] read] by simp
  moreover from this have "db s' = db s"
    by (auto simp: get_job_status_def io_simps ks_hgetall_def read_hash_def split: prod.splits res.splits if_splits option.splits rvalue.splits)
  ultimately show "get_job_status ks_redis C job_id (db s') = (Ok (Some r), db s')" by simp
  then show "jr_status r = (case fmlookup (hash_at (db s') (JOB_KEY_PREFIX @ job_id)) ''status'' of
       None \<Rightarrow> PUnknown | Some t \<Rightarrow> producer_status t)"
    by (auto simp: get_job_status_def io_simps ks_hgetall_def read_hash_def hash_at_def split: prod.splits res.splits if_splits option.splits rvalue.splits)
qed

text \<open>C12. A wait for a job returns a result only when the job is completed or failed, and it is the one the hash of the
  job holds at that moment; it gives up only when the time limit has passed since the call, after a last look at the
  job that found it unfinished. Each time it blocks, it is for at least a millisecond.\<close>

theorem wait_for_completion_sound:
  assumes server: "redis_server R db"
    and returned: "wait_for_completion R C W job_id timeout block_interval s = Some (Ok outcome, s')"
  shows "(case outcome of
      Some r \<Rightarrow> get_job_status ks_redis C job_id (db s') = (Ok (Some r), db s')
        \<and> fmlookup (hash_at (db s') (JOB_KEY_PREFIX @ job_id)) ''status'' \<in> {Some ''COMPLETED'', Some ''FAILED''}
        \<and> (jr_status r = PCompleted \<or> jr_status r = PFailed)
    | None \<Rightarrow> \<exists>start s0 st s1 s2 now. wt_clock W s = (start, s0)
        \<and> get_job_status R C job_id s1 = (Ok st, s2) \<and> \<not> (\<exists>r. st = Some r \<and> terminal r)
        \<and> wt_clock W s2 = (now, s') \<and> start + int timeout \<le> now)
    \<and> (\<forall>b r. 1 \<le> wait_ms b r)"
proof -
  obtain start s0 where start: "wt_clock W s = (start, s0)" by fastforce
  have loop: "wait_loop R C W job_id (start + int timeout) (int block_interval) ''$'' s0 = Some (Ok outcome, s')"
    using returned by (auto simp: wait_for_completion_def start instant_add_def split: if_splits)
  note end_of_loop = wait_loop_sound [OF loop, unfolded ends_well_def, rule_format, simplified]
  have "case outcome of
      Some r \<Rightarrow> get_job_status ks_redis C job_id (db s') = (Ok (Some r), db s')
        \<and> fmlookup (hash_at (db s') (JOB_KEY_PREFIX @ job_id)) ''status'' \<in> {Some ''COMPLETED'', Some ''FAILED''}
        \<and> (jr_status r = PCompleted \<or> jr_status r = PFailed)
    | None \<Rightarrow> \<exists>start s0 st s1 s2 now. wt_clock W s = (start, s0)
        \<and> get_job_status R C job_id s1 = (Ok st, s2) \<and> \<not> (\<exists>r. st = Some r \<and> terminal r)
        \<and> wt_clock W s2 = (now, s') \<and> start + int timeout \<le> now"
  proof (cases outcome)
    case None
    with end_of_loop start show ?thesis by auto
  next
    case (Some r)
    with end_of_loop obtain s1 where r: "terminal r" "get_job_status R C job_id s1 = (Ok (Some r), s')" by auto
    note read = status_read [OF server r(2)]
    have "fmlookup (hash_at (db s') (JOB_KEY_PREFIX @ job_id)) ''status'' \<in> {Some ''COMPLETED'', Some ''FAILED''}"
      using r(1) read(2) by (auto simp: terminal_def producer_status_def split: option.splits if_splits)
    with Some r(1) read(1) show ?thesis by (simp add: terminal_def)
  qed
  then show ?thesis using wait_ms_positive by blast
qed

definition failed_keys :: keyspace where
  "failed_keys = put_hash (JOB_KEY_PREFIX @ ''j'') (fmupd ''status'' ''FAILED'' fmempty) (\<lambda>_. None)"

text \<open>Nothing is known of the job until, after two milliseconds, it fails.\<close>

definition about_to_fail :: clocked where
  "about_to_fail = \<lparr> ck_keys = (\<lambda>_. None), ck_time = 0, ck_events = [(2000000, ''1-0'', failed_keys)] \<rparr>"

lemma status_samples:
  "get_job_status clocked_redis simple_codec ''j'' about_to_fail = (Ok None, about_to_fail)"
  "get_job_status clocked_redis simple_codec ''j'' \<lparr> ck_keys = failed_keys, ck_time = 2000000, ck_events = [] \<rparr>
    = (Ok (Some \<lparr> jr_status = PFailed, jr_result = None, jr_last_error = None \<rparr>),
       \<lparr> ck_keys = failed_keys, ck_time = 2000000, ck_events = [] \<rparr>)"
  by (simp_all add: get_job_status_def clocked_redis_def on_keys_def io_simps ks_hgetall_def read_hash_def about_to_fail_def
      failed_keys_def put_hash_def ttl_at_def producer_status_def)

lemma wait_sample:
  "wait_for_completion clocked_redis simple_codec clocked_waiting ''j'' 5000000 0 about_to_fail
    = Some (Ok (Some \<lparr> jr_status = PFailed, jr_result = None, jr_last_error = None \<rparr>),
        \<lparr> ck_keys = failed_keys, ck_time = 2000000, ck_events = [] \<rparr>)"
proof -
  have "clocked_xread (format_job_events_key ''j'') ''$'' (wait_ms 0 5000000) about_to_fail
    = Some (Ok (VArray [VArray [VBulk (format_job_events_key ''j''), VArray [VArray [VBulk ''1-0'', VArray []]]]]),
        \<lparr> ck_keys = failed_keys, ck_time = 2000000, ck_events = [] \<rparr>)"
    by (simp add: clocked_xread_def about_to_fail_def wait_ms_def Let_def)
  then show ?thesis
    by (simp add: wait_for_completion_def clocked_waiting_def instant_add_def about_to_fail_def)
      (subst wait_loop.simps, simp add: status_samples [unfolded about_to_fail_def],
       subst wait_loop.simps, simp add: status_samples terminal_def)
qed

theorem wait_for_completion_sound_witness:
  "let s' = \<lparr> ck_keys = failed_keys, ck_time = 2000000, ck_events = [] \<rparr>;
       r = \<lparr> jr_status = PFailed, jr_result = None, jr_last_error = None \<rparr>
   in wait_for_completion clocked_redis simple_codec clocked_waiting ''j'' 5000000 0 about_to_fail = Some (Ok (Some r), s')
    \<and> get_job_status ks_redis simple_codec ''j'' (ck_keys s') = (Ok (Some r), ck_keys s')"
  using wait_for_completion_sound [OF clocked.redis_server_axioms wait_sample] by (simp add: wait_sample)

text \<open>C13. Waiting ends. The laws of the outside (\<open>wait_server\<close>) are that its clock is monotonic, that finitely many
  events of the job are ever published, and that \<open>XREAD\<close> with a positive \<open>BLOCK\<close> time always answers, and without
  an entry only once that time is over; \<open>BLOCK 0\<close> may stay silent for ever. On any such server a wait returns,
  with a result, an error or a panic, or for want of time, whatever the time limit and the interval are.\<close>

theorem wait_for_completion_returns:
  assumes "wait_server R W time left"
  shows "wait_for_completion R C W job_id timeout block_interval s \<noteq> None"
  by (simp add: wait_for_completion_def wait_server.wait_loop_returns [OF assms] del: not_None_eq split: prod.split res.split)

theorem wait_for_completion_returns_witness:
  "wait_for_completion clocked_redis simple_codec clocked_waiting ''j'' 5000000 0 about_to_fail \<noteq> None"
  by (rule wait_for_completion_returns [OF clocked_wait.wait_server_axioms])

end
