(* ===== verification/Protocol.thy ===== *)
theory Protocol
  imports Codec
begin

text \<open>
  The protocol between orchestrator and runners (\<open>protocol/src/lib.rs\<close>): its messages, their
  JSON form, and frames. A message is a length in four bytes, big endian, and that many bytes
  of JSON. The JSON form is the one the serde attributes of the structs give: a struct is an
  object, an absent \<open>Option\<close> is left out or \<open>null\<close>, unknown fields are ignored. (Derived
  code also reads a struct from an array; no peer writes that.) A text is its UTF-8 bytes.
\<close>

section \<open>Messages\<close>

definition PROTOCOL_VERSION :: string where "PROTOCOL_VERSION = ''2''"
definition FRAME_HEADER_LEN :: nat where "FRAME_HEADER_LEN = 4"

definition default_protocol_version :: string where
  "default_protocol_version = PROTOCOL_VERSION"

record ExecutionContext =
  xc_job_id :: string
  xc_attempt :: nat \<comment> \<open>\<open>u32\<close>\<close>
  xc_enqueue_time :: datetime
  xc_queue_name :: string
  xc_deadline :: "datetime option"
  xc_trace_context :: "strmap option"
  xc_correlation_context :: "strmap option"
  xc_worker_id :: "string option"

record CancelRequest =
  cr_protocol_version :: string
  cr_job_id :: string
  cr_request_id :: "string option"
  cr_hard_kill :: bool

record ExecutionRequest =
  xr_protocol_version :: string
  xr_request_id :: string
  xr_job_id :: string
  xr_function_name :: string
  xr_params :: params
  xr_context :: ExecutionContext

datatype OutcomeStatus = OSuccess | ORetry | OTimeout | OError

record ExecutionError =
  xe_message :: string
  xe_type :: "string option"
  xe_code :: "string option"
  xe_details :: "json option"

record ExecutionOutcome =
  xo_job_id :: "string option"
  xo_request_id :: "string option"
  xo_status :: OutcomeStatus
  xo_result :: "json option"
  xo_error :: "ExecutionError option"
  xo_retry_after_seconds :: "rat option"

datatype RunnerMessage =
    MRequest ExecutionRequest
  | MResponse ExecutionOutcome
  | MCancel CancelRequest

subsection \<open>Outcomes\<close>

definition plain_error :: "string \<Rightarrow> ExecutionError" where
  "plain_error message = \<lparr> xe_message = message, xe_type = None, xe_code = None, xe_details = None \<rparr>"

definition outcome_success :: "string \<Rightarrow> string \<Rightarrow> json \<Rightarrow> ExecutionOutcome" where
  "outcome_success job_id request_id result =
     \<lparr> xo_job_id = Some job_id, xo_request_id = Some request_id, xo_status = OSuccess,
       xo_result = Some result, xo_error = None, xo_retry_after_seconds = None \<rparr>"

definition outcome_retry :: "string \<Rightarrow> string \<Rightarrow> string \<Rightarrow> rat option \<Rightarrow> ExecutionOutcome" where
  "outcome_retry job_id request_id message retry_after =
     \<lparr> xo_job_id = Some job_id, xo_request_id = Some request_id, xo_status = ORetry,
       xo_result = None, xo_error = Some (plain_error message), xo_retry_after_seconds = retry_after \<rparr>"

definition outcome_timeout :: "string \<Rightarrow> string \<Rightarrow> string \<Rightarrow> ExecutionOutcome" where
  "outcome_timeout job_id request_id message =
     \<lparr> xo_job_id = Some job_id, xo_request_id = Some request_id, xo_status = OTimeout,
       xo_result = None, xo_error = Some (plain_error message), xo_retry_after_seconds = None \<rparr>"

definition outcome_error :: "string \<Rightarrow> string \<Rightarrow> string \<Rightarrow> ExecutionOutcome" where
  "outcome_error job_id request_id message =
     \<lparr> xo_job_id = Some job_id, xo_request_id = Some request_id, xo_status = OError,
       xo_result = None, xo_error = Some (plain_error message), xo_retry_after_seconds = None \<rparr>"

definition outcome_handler_not_found :: "string \<Rightarrow> string \<Rightarrow> string \<Rightarrow> ExecutionOutcome" where
  "outcome_handler_not_found job_id request_id message =
     (outcome_error job_id request_id message)
       \<lparr> xo_error := Some ((plain_error message) \<lparr> xe_type := Some ''handler_not_found'' \<rparr>) \<rparr>"

section \<open>The JSON form\<close>

text \<open>A field that is left out when it is \<open>None\<close>, and one that is \<open>null\<close> then.\<close>

definition skip_none :: "string \<Rightarrow> ('a \<Rightarrow> json) \<Rightarrow> 'a option \<Rightarrow> params" where
  "skip_none k f v = (case v of None \<Rightarrow> [] | Some x \<Rightarrow> [(k, f x)])"

definition or_null :: "('a \<Rightarrow> json) \<Rightarrow> 'a option \<Rightarrow> json" where
  "or_null f v = (case v of None \<Rightarrow> JNull | Some x \<Rightarrow> f x)"

text \<open>Reading a field: mandatory, and optional (absent and \<open>null\<close> are \<open>None\<close>).\<close>

definition need :: "params \<Rightarrow> string \<Rightarrow> (json \<Rightarrow> 'a option) \<Rightarrow> 'a option" where
  "need kvs k f = Option.bind (map_of kvs k) f"

definition read_opt :: "(json \<Rightarrow> 'a option) \<Rightarrow> json option \<Rightarrow> 'a option option" where
  "read_opt f v = (case v of
      None \<Rightarrow> Some None | Some JNull \<Rightarrow> Some None | Some v \<Rightarrow> map_option Some (f v))"

definition opt :: "params \<Rightarrow> string \<Rightarrow> (json \<Rightarrow> 'a option) \<Rightarrow> 'a option option" where
  "opt kvs k f = read_opt f (map_of kvs k)"

definition with_default :: "params \<Rightarrow> string \<Rightarrow> (json \<Rightarrow> 'a option) \<Rightarrow> 'a \<Rightarrow> 'a option" where
  "with_default kvs k f d = (case map_of kvs k of None \<Rightarrow> Some d | Some v \<Rightarrow> f v)"

definition as_string :: "json \<Rightarrow> string option" where
  "as_string v = (case v of JStr s \<Rightarrow> Some s | _ \<Rightarrow> None)"

definition as_bool :: "json \<Rightarrow> bool option" where
  "as_bool v = (case v of JBool b \<Rightarrow> Some b | _ \<Rightarrow> None)"

definition as_u32 :: "json \<Rightarrow> nat option" where
  "as_u32 v = (case v of JInt n \<Rightarrow> if 0 \<le> n \<and> n < 4294967296 then Some (nat n) else None | _ \<Rightarrow> None)"

definition as_f64 :: "codec \<Rightarrow> json \<Rightarrow> rat option" where
  "as_f64 C v = (case v of JInt n \<Rightarrow> Some (of_int n) | JFloat s \<Rightarrow> float_parse C s | _ \<Rightarrow> None)"

definition as_time :: "codec \<Rightarrow> json \<Rightarrow> datetime option" where
  "as_time C v = (case v of JStr s \<Rightarrow> time_parse C s | _ \<Rightarrow> None)"

definition time_json :: "codec \<Rightarrow> datetime \<Rightarrow> json" where
  "time_json C t = JStr (time_text C t)"

definition context_to_json :: "codec \<Rightarrow> ExecutionContext \<Rightarrow> json" where
  "context_to_json C x = JObj
     [(''job_id'', JStr (xc_job_id x)), (''attempt'', JInt (int (xc_attempt x))),
      (''enqueue_time'', time_json C (xc_enqueue_time x)), (''queue_name'', JStr (xc_queue_name x)),
      (''deadline'', or_null (time_json C) (xc_deadline x)),
      (''trace_context'', or_null json_of_strmap (xc_trace_context x)),
      (''correlation_context'', or_null json_of_strmap (xc_correlation_context x)),
      (''worker_id'', or_null JStr (xc_worker_id x))]"

definition context_of_json :: "codec \<Rightarrow> json \<Rightarrow> ExecutionContext option" where
  "context_of_json C v = Option.bind (params_of_json v) (\<lambda>m.
     Option.bind (need m ''job_id'' as_string) (\<lambda>job_id.
     Option.bind (need m ''attempt'' as_u32) (\<lambda>attempt.
     Option.bind (need m ''enqueue_time'' (as_time C)) (\<lambda>enqueue_time.
     Option.bind (need m ''queue_name'' as_string) (\<lambda>queue_name.
     Option.bind (opt m ''deadline'' (as_time C)) (\<lambda>deadline.
     Option.bind (opt m ''trace_context'' strmap_of_json) (\<lambda>trace_context.
     Option.bind (opt m ''correlation_context'' strmap_of_json) (\<lambda>correlation_context.
     Option.bind (opt m ''worker_id'' as_string) (\<lambda>worker_id.
     Some \<lparr> xc_job_id = job_id, xc_attempt = attempt, xc_enqueue_time = enqueue_time,
            xc_queue_name = queue_name, xc_deadline = deadline, xc_trace_context = trace_context,
            xc_correlation_context = correlation_context, xc_worker_id = worker_id \<rparr>)))))))))"

definition request_to_json :: "codec \<Rightarrow> ExecutionRequest \<Rightarrow> json" where
  "request_to_json C x = JObj
     [(''protocol_version'', JStr (xr_protocol_version x)), (''request_id'', JStr (xr_request_id x)),
      (''job_id'', JStr (xr_job_id x)), (''function_name'', JStr (xr_function_name x)),
      (''params'', JObj (xr_params x)), (''context'', context_to_json C (xr_context x))]"

definition request_of_json :: "codec \<Rightarrow> json \<Rightarrow> ExecutionRequest option" where
  "request_of_json C v = Option.bind (params_of_json v) (\<lambda>m.
     Option.bind (with_default m ''protocol_version'' as_string default_protocol_version) (\<lambda>version.
     Option.bind (need m ''request_id'' as_string) (\<lambda>request_id.
     Option.bind (need m ''job_id'' as_string) (\<lambda>job_id.
     Option.bind (need m ''function_name'' as_string) (\<lambda>function_name.
     Option.bind (with_default m ''params'' params_of_json []) (\<lambda>ps.
     Option.bind (need m ''context'' (context_of_json C)) (\<lambda>ctx.
     Some \<lparr> xr_protocol_version = version, xr_request_id = request_id, xr_job_id = job_id,
            xr_function_name = function_name, xr_params = ps, xr_context = ctx \<rparr>)))))))"

definition cancel_to_json :: "CancelRequest \<Rightarrow> json" where
  "cancel_to_json x = JObj
     ([(''protocol_version'', JStr (cr_protocol_version x)), (''job_id'', JStr (cr_job_id x))]
      @ skip_none ''request_id'' JStr (cr_request_id x)
      @ [(''hard_kill'', JBool (cr_hard_kill x))])"

definition cancel_of_json :: "json \<Rightarrow> CancelRequest option" where
  "cancel_of_json v = Option.bind (params_of_json v) (\<lambda>m.
     Option.bind (with_default m ''protocol_version'' as_string default_protocol_version) (\<lambda>version.
     Option.bind (need m ''job_id'' as_string) (\<lambda>job_id.
     Option.bind (opt m ''request_id'' as_string) (\<lambda>request_id.
     Option.bind (with_default m ''hard_kill'' as_bool False) (\<lambda>hard_kill.
     Some \<lparr> cr_protocol_version = version, cr_job_id = job_id, cr_request_id = request_id,
            cr_hard_kill = hard_kill \<rparr>)))))"

definition status_to_json :: "OutcomeStatus \<Rightarrow> json" where
  "status_to_json st = JStr (case st of
     OSuccess \<Rightarrow> ''success'' | ORetry \<Rightarrow> ''retry'' | OTimeout \<Rightarrow> ''timeout'' | OError \<Rightarrow> ''error'')"

definition status_of_json :: "json \<Rightarrow> OutcomeStatus option" where
  "status_of_json v = (case v of JStr s \<Rightarrow>
       if s = ''success'' then Some OSuccess else if s = ''retry'' then Some ORetry
       else if s = ''timeout'' then Some OTimeout else if s = ''error'' then Some OError else None
     | _ \<Rightarrow> None)"

definition error_to_json :: "ExecutionError \<Rightarrow> json" where
  "error_to_json x = JObj
     ([(''message'', JStr (xe_message x))] @ skip_none ''type'' JStr (xe_type x)
      @ skip_none ''code'' JStr (xe_code x) @ skip_none ''details'' (\<lambda>v. v) (xe_details x))"

definition error_of_json :: "json \<Rightarrow> ExecutionError option" where
  "error_of_json v = Option.bind (params_of_json v) (\<lambda>m.
     Option.bind (need m ''message'' as_string) (\<lambda>message.
     Option.bind (opt m ''type'' as_string) (\<lambda>ty.
     Option.bind (opt m ''code'' as_string) (\<lambda>code.
     Option.bind (opt m ''details'' Some) (\<lambda>details.
     Some \<lparr> xe_message = message, xe_type = ty, xe_code = code, xe_details = details \<rparr>)))))"

definition outcome_to_json :: "codec \<Rightarrow> ExecutionOutcome \<Rightarrow> json" where
  "outcome_to_json C x = JObj
     (skip_none ''job_id'' JStr (xo_job_id x) @ skip_none ''request_id'' JStr (xo_request_id x)
      @ [(''status'', status_to_json (xo_status x))] @ skip_none ''result'' (\<lambda>v. v) (xo_result x)
      @ skip_none ''error'' error_to_json (xo_error x)
      @ skip_none ''retry_after_seconds'' (\<lambda>r. JFloat (float_text C r)) (xo_retry_after_seconds x))"

definition outcome_of_json :: "codec \<Rightarrow> json \<Rightarrow> ExecutionOutcome option" where
  "outcome_of_json C v = Option.bind (params_of_json v) (\<lambda>m.
     Option.bind (opt m ''job_id'' as_string) (\<lambda>job_id.
     Option.bind (opt m ''request_id'' as_string) (\<lambda>request_id.
     Option.bind (need m ''status'' status_of_json) (\<lambda>status.
     Option.bind (opt m ''result'' Some) (\<lambda>result.
     Option.bind (opt m ''error'' error_of_json) (\<lambda>err.
     Option.bind (opt m ''retry_after_seconds'' (as_f64 C)) (\<lambda>retry_after.
     Some \<lparr> xo_job_id = job_id, xo_request_id = request_id, xo_status = status, xo_result = result,
            xo_error = err, xo_retry_after_seconds = retry_after \<rparr>)))))))"

text \<open>\<open>#[serde(tag = "type", rename_all = "snake_case")]\<close>\<close>

definition message_to_json :: "codec \<Rightarrow> RunnerMessage \<Rightarrow> json" where
  "message_to_json C m = (case m of
      MRequest p \<Rightarrow> JObj [(''type'', JStr ''request''), (''payload'', request_to_json C p)]
    | MResponse p \<Rightarrow> JObj [(''type'', JStr ''response''), (''payload'', outcome_to_json C p)]
    | MCancel p \<Rightarrow> JObj [(''type'', JStr ''cancel''), (''payload'', cancel_to_json p)])"

definition message_of_json :: "codec \<Rightarrow> json \<Rightarrow> RunnerMessage option" where
  "message_of_json C v = Option.bind (params_of_json v) (\<lambda>m.
     Option.bind (need m ''type'' as_string) (\<lambda>ty.
       if ty = ''request'' then map_option MRequest (need m ''payload'' (request_of_json C))
       else if ty = ''response'' then map_option MResponse (need m ''payload'' (outcome_of_json C))
       else if ty = ''cancel'' then map_option MCancel (need m ''payload'' cancel_of_json)
       else None))"

section \<open>Frames\<close>

datatype FrameError = InvalidLength | JsonError

definition be_bytes :: "nat \<Rightarrow> string" where
  "be_bytes n = map (\<lambda>i. char_of (n div 256 ^ i mod 256)) [3, 2, 1, 0]"

definition be_value :: "string \<Rightarrow> nat" where
  "be_value s = foldl (\<lambda>a c. a * 256 + of_char c) 0 s"

definition encode_frame :: "codec \<Rightarrow> RunnerMessage \<Rightarrow> FrameError + string" where
  "encode_frame C message =
     (let payload = json_text C (message_to_json C message) in
      if 4294967296 \<le> length payload then Inl InvalidLength
      else Inr (be_bytes (length payload) @ payload))"

definition decode_frame :: "codec \<Rightarrow> string \<Rightarrow> FrameError + RunnerMessage" where
  "decode_frame C frame =
     (if length frame < FRAME_HEADER_LEN then Inl InvalidLength
      else if length frame - FRAME_HEADER_LEN \<noteq> be_value (take FRAME_HEADER_LEN frame) then Inl InvalidLength
      else case Option.bind (json_parse C (drop FRAME_HEADER_LEN frame)) (message_of_json C) of
             None \<Rightarrow> Inl JsonError
           | Some m \<Rightarrow> Inr m)"

section \<open>Streams\<close>

text \<open>
  Both ends read messages off a byte stream (\<open>read_message\<close> of \<open>orchestrator/src/runner.rs\<close> and
  of \<open>runner/src/runtime.rs\<close>): the state is what the peer has sent and not yet been read. The
  stream may end at a message boundary or within a header; within a payload that is an error.
\<close>

definition MAX_FRAME_LEN :: nat where "MAX_FRAME_LEN = 16 * 1024 * 1024"

definition read_message :: "codec \<Rightarrow> (string, RunnerMessage option) io" where
  "read_message C stream =
     (if length stream < FRAME_HEADER_LEN then (Ok None, [])
      else let len = be_value (take FRAME_HEADER_LEN stream); rest = drop FRAME_HEADER_LEN stream in
        if len = 0 then (Err (Bail ''runner message payload cannot be empty''), rest)
        else if MAX_FRAME_LEN < len then (Err (Bail ''runner message payload too large''), rest)
        else if length rest < len then (Err (Bail ''early eof''), [])
        else case Option.bind (json_parse C (take len rest)) (message_of_json C) of
               None \<Rightarrow> (Err (Bail ''invalid message''), drop len rest)
             | Some m \<Rightarrow> (Ok (Some m), drop len rest))"

definition write_message :: "codec \<Rightarrow> RunnerMessage \<Rightarrow> (string, unit) io" where
  "write_message C message stream = (case encode_frame C message of
      Inl _ \<Rightarrow> (Err (Bail ''invalid frame length''), stream)
    | Inr framed \<Rightarrow> (Ok (), stream @ framed))"

end
