(* ===== verification/Protocol_Properties.thy ===== *)
theory Protocol_Properties
  imports Protocol
begin

text \<open>
  What the protocol keeps: a message of either peer survives its JSON form and its frame, but for \<open>null\<close> values and
  the texts of floats.
\<close>

section \<open>JSON round trips\<close>

text \<open>
  The messages that are read back unchanged: maps have distinct keys, numbers are integers and fit, and a \<open>null\<close> result
  or detail, which JSON cannot tell from an absent one, is absent. A retry delay is a float, which may lose its last
  digit on the way, and is left out here; the section on any message has the rest.
\<close>

definition context_ok :: "ExecutionContext \<Rightarrow> bool" where
  "context_ok x \<longleftrightarrow> xc_attempt x < 4294967296
     \<and> pred_option (\<lambda>m. distinct (map fst m)) (xc_trace_context x)
     \<and> pred_option (\<lambda>m. distinct (map fst m)) (xc_correlation_context x)"

definition plain_value :: "json option \<Rightarrow> bool" where
  "plain_value v = pred_option (\<lambda>v. json_ok v \<and> v \<noteq> JNull) v"

definition outcome_ok :: "ExecutionOutcome \<Rightarrow> bool" where
  "outcome_ok x \<longleftrightarrow> plain_value (xo_result x) \<and> xo_retry_after_seconds x = None
     \<and> pred_option (\<lambda>e. plain_value (xe_details e)) (xo_error x)"

definition message_ok :: "RunnerMessage \<Rightarrow> bool" where
  "message_ok m = (case m of
      MRequest p \<Rightarrow> json_ok (JObj (xr_params p)) \<and> context_ok (xr_context p)
    | MResponse p \<Rightarrow> outcome_ok p
    | MCancel _ \<Rightarrow> True)"

lemma map_of_skip_none [simp]:
  "map_of (skip_none k f v) j = (if j = k then map_option f v else None)"
  by (cases v) (auto simp: skip_none_def)

lemma keys_skip_none [simp]: "fst ` set (skip_none k f v) = (if v = None then {} else {k})"
  by (cases v) (auto simp: skip_none_def)

lemma distinct_skip_none [simp]: "distinct (map fst (skip_none k f v))"
  by (cases v) (auto simp: skip_none_def)

lemma list_all_skip_none [simp]: "list_all P (skip_none k f v) = pred_option (\<lambda>x. P (k, f x)) v"
  by (cases v) (auto simp: skip_none_def)

lemma read_opt_Some:
  "(\<And>x. v = Some x \<Longrightarrow> f x \<noteq> JNull \<and> g (f x) = Some x) \<Longrightarrow> read_opt g (map_option f v) = Some v"
  by (cases v) (auto simp: read_opt_def split: json.splits)

lemma read_opt_id:
  "v \<noteq> Some JNull \<Longrightarrow> read_opt Some v = Some v"
  "pred_option (\<lambda>v. json_ok v \<and> v \<noteq> JNull) v \<Longrightarrow> read_opt Some v = Some v"
  by (cases v; auto simp: read_opt_def split: json.splits)+

lemma read_opt_None [simp]: "read_opt f None = Some None"
  by (simp add: read_opt_def)

lemma read_opt_error:
  "plain_value (xe_details e) \<Longrightarrow> error_of_json (error_to_json e) = Some e \<Longrightarrow>
   read_opt error_of_json (Some (error_to_json e)) = Some (Some e)"
  by (simp add: read_opt_def error_to_json_def)

lemma read_opt_null:
  "(\<And>x. v = Some x \<Longrightarrow> f x \<noteq> JNull \<and> g (f x) = Some x) \<Longrightarrow> read_opt g (Some (or_null f v)) = Some v"
  by (cases v) (auto simp: read_opt_def or_null_def split: json.splits)

lemma case_option_same:
  "(case z of None \<Rightarrow> None | Some v \<Rightarrow> Some v) = z"
  "(case z of None \<Rightarrow> None | Some v \<Rightarrow> (Some \<circ> f) v) = map_option f z"
  "(case z of None \<Rightarrow> None | Some v \<Rightarrow> Some (f v)) = map_option f z"
  by (cases z; simp)+

lemmas read_simps = need_def with_default_def opt_def map_add_def case_option_same
  read_opt_Some read_opt_id read_opt_null option.map_ident

lemma json_values [simp]:
  "as_string (JStr s) = Some s" "as_bool (JBool b) = Some b" "json_of_strmap m \<noteq> JNull"
  "n < 4294967296 \<Longrightarrow> as_u32 (JInt (int n)) = Some n" "time_json C t \<noteq> JNull"
  "params_of_json (JObj kvs) = Some kvs" "json_ok (time_json C t)" "json_ok (status_to_json st)"
  "status_of_json (status_to_json st) = Some st" "error_to_json e \<noteq> JNull" "outcome_to_json C r \<noteq> JNull"
  by (auto simp: as_string_def as_bool_def json_of_strmap_def as_u32_def time_json_def params_of_json_def
      status_to_json_def status_of_json_def error_to_json_def outcome_to_json_def split: OutcomeStatus.splits)

context codec_laws
begin

lemma as_time_json [simp]: "as_time C (time_json C t) = Some t"
  by (simp add: as_time_def time_json_def time_roundtrip)

lemma context_json: "context_ok x \<Longrightarrow> context_of_json C (context_to_json C x) = Some x"
  unfolding context_of_json_def context_to_json_def
  by (cases x) (simp add: read_simps context_ok_def)

lemma request_json:
  "context_ok (xr_context x) \<Longrightarrow> request_of_json C (request_to_json C x) = Some x"
  unfolding request_of_json_def request_to_json_def
  by (cases x) (simp add: read_simps context_json)

lemma cancel_json: "cancel_of_json (cancel_to_json x) = Some x"
  unfolding cancel_of_json_def cancel_to_json_def
  by (cases x) (simp add: read_simps cong: option.case_cong)

lemma error_json: "plain_value (xe_details x) \<Longrightarrow> error_of_json (error_to_json x) = Some x"
  unfolding error_of_json_def error_to_json_def
  by (cases x) (auto simp: read_simps plain_value_def cong: option.case_cong)

lemma outcome_json: "outcome_ok x \<Longrightarrow> outcome_of_json C (outcome_to_json C x) = Some x"
  unfolding outcome_of_json_def outcome_to_json_def
  by (cases x; cases "xo_error x") (auto simp: read_simps plain_value_def outcome_ok_def error_json [unfolded plain_value_def]
      read_opt_error [unfolded plain_value_def] cong: option.case_cong)

lemma message_json: "message_ok m \<Longrightarrow> message_of_json C (message_to_json C m) = Some m"
  by (cases m) (simp_all add: message_of_json_def message_to_json_def need_def message_ok_def
      request_json outcome_json cancel_json)

end

lemma json_ok_parts:
  "context_ok x \<Longrightarrow> json_ok (context_to_json C x)"
  "pred_option (\<lambda>e. plain_value (xe_details e)) (Some e) \<Longrightarrow> json_ok (error_to_json e)"
  "json_ok (cancel_to_json c)"
proof -
  show "context_ok x \<Longrightarrow> json_ok (context_to_json C x)"
    by (cases "xc_trace_context x"; cases "xc_correlation_context x"; cases "xc_deadline x"; cases "xc_worker_id x")
      (simp_all add: context_to_json_def context_ok_def or_null_def i64_ok_def)
  show "pred_option (\<lambda>e. plain_value (xe_details e)) (Some e) \<Longrightarrow> json_ok (error_to_json e)"
    by (auto simp: error_to_json_def plain_value_def pred_option_def)
  show "json_ok (cancel_to_json c)"
    by (auto simp: cancel_to_json_def pred_option_def)
qed

lemma json_ok_outcome: "outcome_ok x \<Longrightarrow> json_ok (outcome_to_json C x)"
  by (auto simp: outcome_to_json_def outcome_ok_def plain_value_def pred_option_def json_ok_parts(2))

lemma json_ok_message: "message_ok m \<Longrightarrow> json_ok (message_to_json C m)"
  by (cases m) (simp_all add: message_to_json_def message_ok_def json_ok_outcome json_ok_parts request_to_json_def)

section \<open>Any message\<close>

text \<open>
  Every message the two programs can hold: maps have distinct keys and integers fit. It is not read back as it was
  when it has a \<open>null\<close> result or detail, which is read as an absent one, or a float, whose text may change; the rest
  of it is kept.
\<close>

definition message_sent :: "RunnerMessage \<Rightarrow> bool" where
  "message_sent m = (case m of
      MRequest p \<Rightarrow> json_sent (JObj (xr_params p)) \<and> context_ok (xr_context p)
    | MResponse p \<Rightarrow> pred_option json_sent (xo_result p)
        \<and> pred_option (\<lambda>e. pred_option json_sent (xe_details e)) (xo_error p)
    | MCancel _ \<Rightarrow> True)"

definition absent_null :: "json option \<Rightarrow> json option" where
  "absent_null v = (if v = Some JNull then None else v)"

definition value_read :: "codec \<Rightarrow> json option \<Rightarrow> json option" where
  "value_read C v = absent_null (map_option (reread (float_reread C)) v)"

definition error_read :: "codec \<Rightarrow> ExecutionError \<Rightarrow> ExecutionError" where
  "error_read C e = e\<lparr>xe_details := value_read C (xe_details e)\<rparr>"

definition as_read :: "codec \<Rightarrow> RunnerMessage \<Rightarrow> RunnerMessage" where
  "as_read C m = (case m of
      MRequest p \<Rightarrow> MRequest (p\<lparr>xr_params := map (\<lambda>kv. (fst kv, reread (float_reread C) (snd kv))) (xr_params p)\<rparr>)
    | MResponse p \<Rightarrow> MResponse (p\<lparr>xo_result := value_read C (xo_result p),
        xo_error := map_option (error_read C) (xo_error p),
        xo_retry_after_seconds := Option.bind (xo_retry_after_seconds p)
          (\<lambda>r. float_parse C (float_reread C (float_text C r)))\<rparr>)
    | MCancel p \<Rightarrow> MCancel p)"

lemma as_read_same: "message_ok m \<Longrightarrow> as_read C m = m"
proof -
  have v: "plain_value v \<Longrightarrow> value_read C v = v" for v
    by (cases v) (auto simp: plain_value_def value_read_def absent_null_def json_ok_reread)
  have e: "plain_value (xe_details x) \<Longrightarrow> error_read C x = x" for x
    by (simp add: error_read_def v)
  have p: "list_all (\<lambda>kv. json_ok (snd kv)) kvs \<Longrightarrow> map (\<lambda>kv. (fst kv, reread f (snd kv))) kvs = kvs" for f kvs
    by (induction kvs) (auto simp: json_ok_reread)
  show "message_ok m \<Longrightarrow> as_read C m = m"
  proof (cases m)
    case (MResponse r)
    assume "message_ok m"
    with MResponse show ?thesis
      by (cases "xo_error r") (simp_all add: as_read_def message_ok_def outcome_ok_def v e)
  qed (simp_all add: as_read_def message_ok_def p)
qed

lemma read_opt_any: "read_opt Some v = Some (absent_null v)"
  by (cases v) (auto simp: read_opt_def absent_null_def split: json.split)

lemma read_opt_value: "v \<noteq> JNull \<Longrightarrow> read_opt f (Some v) = map_option Some (f v)"
  by (auto simp: read_opt_def split: json.split)

lemma reread_skip_none:
  "map (\<lambda>kv. (fst kv, reread f (snd kv))) (skip_none k g v) = skip_none k (\<lambda>x. reread f (g x)) v"
  by (cases v) (simp_all add: skip_none_def)

lemma reread_parts [simp]:
  "reread f (context_to_json C x) = context_to_json C x" "reread f (cancel_to_json c) = cancel_to_json c"
  "reread f (status_to_json st) = status_to_json st"
  "reread f (error_to_json e) = error_to_json (e\<lparr>xe_details := map_option (reread f) (xe_details e)\<rparr>)"
proof -
  have m: "reread f (json_of_strmap m) = json_of_strmap m" for m
    by (simp add: json_of_strmap_def split_def comp_def)
  show "reread f (context_to_json C x) = context_to_json C x"
    by (simp add: context_to_json_def or_null_def time_json_def m split: option.split)
  show "reread f (cancel_to_json c) = cancel_to_json c"
    by (simp add: cancel_to_json_def reread_skip_none)
  show "reread f (status_to_json st) = status_to_json st"
    by (simp add: status_to_json_def)
  show "reread f (error_to_json e) = error_to_json (e\<lparr>xe_details := map_option (reread f) (xe_details e)\<rparr>)"
    by (simp add: error_to_json_def reread_skip_none) (simp add: skip_none_def split: option.split)
qed

lemma error_json_any: "error_of_json (error_to_json e) = Some (e\<lparr>xe_details := absent_null (xe_details e)\<rparr>)"
  unfolding error_of_json_def error_to_json_def
  by (cases e) (simp add: read_simps read_opt_any cong: option.case_cong)

lemma json_sent_message: "message_sent m \<Longrightarrow> json_sent (message_to_json C m)"
proof (cases m)
  case (MRequest p)
  assume "message_sent m"
  with MRequest show ?thesis
    using json_ok_sent [OF json_ok_parts(1)] by (simp add: message_sent_def message_to_json_def request_to_json_def)
next
  case (MResponse p)
  have e: "pred_option json_sent (xe_details e) \<Longrightarrow> json_sent (error_to_json e)" for e
    by (auto simp: error_to_json_def pred_option_def)
  assume "message_sent m"
  with MResponse show ?thesis
    by (auto simp: message_sent_def message_to_json_def outcome_to_json_def status_to_json_def pred_option_def e)
qed (use json_ok_sent [OF json_ok_parts(3)] in \<open>simp add: message_to_json_def\<close>)

context codec_laws
begin

lemma request_reread:
  "context_ok (xr_context p) \<Longrightarrow> request_of_json C (reread f (request_to_json C p))
    = Some (p\<lparr>xr_params := map (\<lambda>kv. (fst kv, reread f (snd kv))) (xr_params p)\<rparr>)"
  using request_json [of "p\<lparr>xr_params := map (\<lambda>kv. (fst kv, reread f (snd kv))) (xr_params p)\<rparr>"]
  by (simp add: request_to_json_def)

lemma outcome_reread:
  "map_option MResponse (outcome_of_json C (reread (float_reread C) (outcome_to_json C p))) = Some (as_read C (MResponse p))"
proof -
  obtain j r st v e t where p: "p = \<lparr> xo_job_id = j, xo_request_id = r, xo_status = st, xo_result = v, xo_error = e,
      xo_retry_after_seconds = t \<rparr>" by (cases p) blast
  have err: "read_opt error_of_json (map_option (\<lambda>x. error_to_json (x\<lparr>xe_details := map_option (reread (float_reread C)) (xe_details x)\<rparr>)) e)
    = Some (map_option (error_read C) e)"
    by (cases e) (simp_all add: read_opt_value error_json_any error_read_def value_read_def)
  have after: "read_opt (as_f64 C) (map_option (\<lambda>x. JFloat (float_reread C (float_text C x))) t)
    = Some (Option.bind t (\<lambda>x. float_parse C (float_reread C (float_text C x))))"
  proof (cases t)
    case (Some x)
    obtain y where "float_parse C (float_reread C (float_text C x)) = Some y" using float_read by blast
    with Some show ?thesis by (simp add: read_opt_value as_f64_def)
  qed simp
  show ?thesis
    unfolding p
    by (simp add: outcome_to_json_def outcome_of_json_def reread_skip_none read_simps read_opt_any err after as_read_def
        value_read_def cong: option.case_cong)
qed

lemma message_reread:
  assumes "message_sent m"
  shows "message_of_json C (reread (float_reread C) (message_to_json C m)) = Some (as_read C m)"
proof (cases m)
  case (MRequest p)
  with assms show ?thesis
    by (simp add: message_of_json_def message_to_json_def need_def message_sent_def request_reread as_read_def)
next
  case (MResponse p)
  then show ?thesis
    using outcome_reread [of p] by (simp add: message_of_json_def message_to_json_def need_def)
qed (simp add: message_of_json_def message_to_json_def need_def cancel_json as_read_def)

end

section \<open>Frames\<close>

lemma be_bytes_length [simp]: "length (be_bytes n) = FRAME_HEADER_LEN"
  by (simp add: be_bytes_def FRAME_HEADER_LEN_def)

lemma be_value_bytes: "n < 4294967296 \<Longrightarrow> be_value (be_bytes n) = n"
proof -
  assume n: "n < 4294967296"
  define a b c where "a = n div 256" and "b = a div 256" and "c = b div 256"
  have "n div 65536 = b" "n div 16777216 = c"
    by (simp_all add: a_def b_def c_def div_mult2_eq [symmetric])
  moreover have "c mod 256 = c"
    using n by (simp add: a_def b_def c_def div_mult2_eq [symmetric] less_mult_imp_div_less)
  moreover have "n = 256 * a + n mod 256" "a = 256 * b + a mod 256" "b = 256 * c + b mod 256"
    unfolding a_def b_def c_def by simp_all
  ultimately show "be_value (be_bytes n) = n"
    by (simp add: be_value_def be_bytes_def of_char_of take_bit_eq_mod a_def [symmetric] algebra_simps)
qed

lemma take_header [simp]:
  "take FRAME_HEADER_LEN (be_bytes n @ s) = be_bytes n" "drop FRAME_HEADER_LEN (be_bytes n @ s) = s"
  by simp_all

text \<open>What a frame carries, when its payload is read.\<close>

lemma frame_read:
  assumes codec: "codec_laws C" and size: "length (json_text C (message_to_json C m)) \<le> MAX_FRAME_LEN"
    and parse: "Option.bind (json_parse C (json_text C (message_to_json C m))) (message_of_json C) = Some m'"
  shows "\<exists>framed. encode_frame C m = Inr framed \<and> decode_frame C framed = Inr m'
    \<and> read_message C (framed @ rest) = (Ok (Some m'), rest)"
proof -
  let ?p = "json_text C (message_to_json C m)"
  have len: "length ?p < 4294967296" "\<not> MAX_FRAME_LEN < length ?p" "\<not> 4294967296 \<le> length ?p"
    using size by (simp_all add: MAX_FRAME_LEN_def)
  have "?p \<noteq> []" by (rule codec_laws.json_not_empty [OF codec])
  with len parse show ?thesis
    by (intro exI [of _ "be_bytes (length ?p) @ ?p"])
      (simp add: encode_frame_def decode_frame_def read_message_def Let_def be_value_bytes)
qed

text \<open>A message survives the wire: the frame \<open>encode_frame\<close> builds is decoded to the same
  message, and read off a stream, whatever follows it, it gives the message and leaves exactly what
  follows, provided its JSON form is at most 16 MiB.\<close>

theorem frame_roundtrip:
  assumes codec: "codec_laws C" and ok: "message_ok m"
    and size: "length (json_text C (message_to_json C m)) \<le> MAX_FRAME_LEN"
  shows "\<exists>framed. encode_frame C m = Inr framed \<and> decode_frame C framed = Inr m
    \<and> read_message C (framed @ rest) = (Ok (Some m), rest)"
  using ok by (intro frame_read [OF codec size])
    (simp add: codec_laws.json_roundtrip [OF codec] json_ok_message codec_laws.message_json [OF codec])

definition sample_message :: RunnerMessage where
  "sample_message = MCancel \<lparr> cr_protocol_version = ''2'', cr_job_id = ''j'', cr_request_id = Some ''r'', cr_hard_kill = True \<rparr>"

lemma sample_message_small:
  "length (json_text simple_codec (message_to_json simple_codec sample_message)) \<le> MAX_FRAME_LEN"
  by (simp add: sample_message_def message_to_json_def cancel_to_json_def skip_none_def simple_codec_def
      MAX_FRAME_LEN_def show_nat.simps)

theorem frame_roundtrip_witness:
  "\<exists>framed. encode_frame simple_codec sample_message = Inr framed
     \<and> decode_frame simple_codec framed = Inr sample_message"
  using frame_roundtrip [OF simple.codec_laws_axioms _ sample_message_small, of "[]"]
  by (auto simp: message_ok_def sample_message_def)

end
