(* ===== verification/Worker.thy ===== *)
theory Worker
  imports Store_Effects Client Protocol
begin

text \<open>
  The worker (\<open>orchestrator/src/worker.rs\<close>), first part: its configuration and start-up, the
  routing of jobs to runners, and the execution of one claimed job up to its outcome in Redis.
  The world of type \<open>'r\<close> holds Redis and whatever the runners act on; a worker adds its own
  tables of running jobs. A runner is a parameter (the trait \<open>Runner\<close>): its execution may
  change the world in any way, which stands for all that happens while the job runs. The clock
  is read through \<open>clk\<close>: \<open>clk 0\<close> is the first reading, and so on. Log lines, spans and
  metrics are left out.
\<close>

section \<open>State\<close>

record RunningJobInfo =
  ri_queue_name :: string
  ri_runner_name :: "string option"
  ri_request_id :: "string option"

text \<open>
  What tasks of one worker share. A \<open>HashMap\<close> is the list of its entries; of an abort handle the
  job it belongs to matters. Tasks that have been spawned are recorded in order, and so are the
  jobs whose tasks were aborted.
\<close>

record wlocal =
  wl_running :: "(string \<times> RunningJobInfo) list"
  wl_aborts :: "string list"
  wl_permits :: nat
  wl_spawned :: "(job \<times> string) list"
  wl_aborted :: "string list"
  wl_cursor :: nat
  wl_status :: string
  wl_shutdown :: bool
  wl_cron_jobs :: "CronJob list"

definition hm_insert :: "'k \<Rightarrow> 'v \<Rightarrow> ('k \<times> 'v) list \<Rightarrow> ('k \<times> 'v) list" where
  "hm_insert k v m = filter (\<lambda>p. fst p \<noteq> k) m @ [(k, v)]"

definition hm_remove :: "'k \<Rightarrow> ('k \<times> 'v) list \<Rightarrow> ('k \<times> 'v) list" where
  "hm_remove k m = filter (\<lambda>p. fst p \<noteq> k) m"

text \<open>\<open>if let Some(info) = map.get_mut(key) { ... }\<close>\<close>

definition hm_modify :: "'k \<Rightarrow> ('v \<Rightarrow> 'v) \<Rightarrow> ('k \<times> 'v) list \<Rightarrow> ('k \<times> 'v) list" where
  "hm_modify k f m = map (\<lambda>(j, v). (j, if j = k then f v else v)) m"

definition on_db :: "('r, 'a) io \<Rightarrow> ('r \<times> 'l, 'a) io" where
  "on_db m = (\<lambda>(s, l). case m s of (r, s') \<Rightarrow> (r, (s', l)))"

definition on_local :: "('l \<Rightarrow> 'l) \<Rightarrow> ('r \<times> 'l, unit) io" where
  "on_local f = (\<lambda>(s, l). (Ok (), (s, f l)))"

definition get_local :: "('l \<Rightarrow> 'a) \<Rightarrow> ('r \<times> 'l, 'a) io" where
  "get_local f = (\<lambda>(s, l). (Ok (f l), (s, l)))"

datatype RunnerExecutionResult = ExecCompleted "error + ExecutionOutcome" | ExecTimedOut

record 'r runner =
  rn_execute_with_timeout :: "ExecutionRequest \<Rightarrow> int \<Rightarrow> bool \<Rightarrow> ('r, RunnerExecutionResult) io"
  rn_cancel :: "string \<Rightarrow> string option \<Rightarrow> ('r, unit) io"
  rn_close :: "('r, unit) io"

record 'r worker =
  w_settings :: RRQSettings
  w_queues :: "string list"
  w_id :: string
  w_runners :: "(string \<times> 'r runner) list"
  w_default_runner :: string
  w_routes :: strmap
  w_concurrency :: nat
  w_burst :: bool
  w_claim_timeout_ms :: int

section \<open>Start-up\<close>

definition provisional_claim_lock_timeout_ms :: "RRQSettings \<Rightarrow> error + int" where
  "provisional_claim_lock_timeout_ms settings =
     (if default_job_timeout_seconds settings \<le> 0
      then Inl (Bail ''default_job_timeout_seconds must be positive'')
      else if default_lock_timeout_extension_seconds settings < 0
      then Inl (Bail ''default_lock_timeout_extension_seconds must be >= 0'')
      else case Option.bind
          (checked_i64 (default_job_timeout_seconds settings + default_lock_timeout_extension_seconds settings))
          (\<lambda>total. checked_i64 (total * 1000)) of
        None \<Rightarrow> Inl (Bail ''provisional claim lock timeout overflow'')
      | Some ms \<Rightarrow> if ms \<le> 0 then Inl (Bail ''provisional claim lock timeout must be positive'') else Inr ms)"

definition resolve_routed_runner :: "strmap \<Rightarrow> string \<Rightarrow> string option" where
  "resolve_routed_runner routes queue_name =
     (let normalized = normalize_queue_name queue_name in
      case map_of routes normalized of
        Some r \<Rightarrow> Some r
      | None \<Rightarrow>
          (case map_of routes queue_name of
             Some r \<Rightarrow> Some r
           | None \<Rightarrow> Option.bind (strip_prefix normalized QUEUE_KEY_PREFIX) (map_of routes)))"

definition split_runner_name :: "string \<Rightarrow> string option \<times> string" where
  "split_runner_name function_name =
     (case split_once function_name ''#'' of
        Some (pre, handler) \<Rightarrow>
          if handler = [] then (Some pre, [])
          else (if pre = [] then None else Some pre, handler)
      | None \<Rightarrow> (None, function_name))"

definition default_worker_id :: "nat \<Rightarrow> string \<Rightarrow> string" where
  "default_worker_id pid short_id = ''rrq_worker_'' @ show_nat pid @ ''_'' @ take 6 short_id"

definition new_worker ::
  "RRQSettings \<Rightarrow> string list option \<Rightarrow> string option \<Rightarrow> (string \<times> 'r runner) list \<Rightarrow> bool \<Rightarrow> nat
    \<Rightarrow> nat \<Rightarrow> string \<Rightarrow> error + ('r worker \<times> wlocal)" where
  "new_worker settings0 queues0 worker_id runners0 burst concurrency pid fresh_id =
     (let routes = foldl (\<lambda>m (q, r). sminsert (normalize_queue_name q) r m) [] (runner_routes settings0);
          settings = settings0\<lparr>default_queue_name := normalize_queue_name (default_queue_name settings0),
                               runner_routes := routes\<rparr>;
          queues = remdups_adj (sort (map normalize_queue_name
                     (case queues0 of None \<Rightarrow> [default_queue_name settings] | Some qs \<Rightarrow> qs)));
          default_runner = default_runner_name settings
      in if queues = [] then Inl (Bail ''worker must be configured with at least one queue'')
         else if list_ex (\<lambda>q. resolve_routed_runner routes q = None) queues
              \<and> map_of runners0 default_runner = None
         then Inl (Bail (''default runner '' @ quoted default_runner @ '' is not configured''))
         else case List.find (\<lambda>q. case resolve_routed_runner routes q of
                      None \<Rightarrow> False | Some r \<Rightarrow> map_of runners0 r = None) queues of
           Some q \<Rightarrow> Inl (Bail (''queue '' @ quoted q @ '' routes to runner ''
                       @ quoted (the (resolve_routed_runner routes q)) @ '' but that runner is not configured''))
         | None \<Rightarrow>
             if runners0 = [] then Inl (Bail ''RRQWorker requires at least one runner'')
             else if concurrency = 0 then Inl (Bail ''worker_concurrency must be positive'')
             else case provisional_claim_lock_timeout_ms settings of
               Inl e \<Rightarrow> Inl e
             | Inr ms \<Rightarrow>
                 Inr (\<lparr> w_settings = settings, w_queues = queues,
                        w_id = (case worker_id of None \<Rightarrow> default_worker_id pid fresh_id | Some w \<Rightarrow> w),
                        w_runners = runners0, w_default_runner = default_runner, w_routes = routes,
                        w_concurrency = concurrency, w_burst = burst, w_claim_timeout_ms = ms \<rparr>,
                      \<lparr> wl_running = [], wl_aborts = [], wl_permits = concurrency, wl_spawned = [],
                        wl_aborted = [], wl_cursor = 0, wl_status = ''initializing'',
                        wl_shutdown = False, wl_cron_jobs = [] \<rparr>))"

section \<open>The outcome of a job\<close>

text \<open>\<open>f64 as i64\<close> truncates and saturates.\<close>

definition trunc_i64 :: "rat \<Rightarrow> int" where
  "trunc_i64 x = (let t = (if 0 \<le> x then \<lfloor>x\<rfloor> else \<lceil>x\<rceil>)
     in max (- 9223372036854775808) (min 9223372036854775807 t))"

definition calculate_backoff_seconds :: "RRQSettings \<Rightarrow> int \<Rightarrow> rat" where
  "calculate_backoff_seconds settings retry_attempt =
     (let attempt = (if retry_attempt \<le> 0 then 1 else nat (retry_attempt mod 4294967296));
          exponent = min (attempt - 1) 30;
          delay = base_retry_delay_seconds settings * of_nat (2 ^ exponent)
      in min delay (max_retry_delay_seconds settings))"

definition classify_outcome :: "ExecutionOutcome \<Rightarrow> string" where
  "classify_outcome outcome = (case xo_status outcome of
      OSuccess \<Rightarrow> ''success'' | ORetry \<Rightarrow> ''retry'' | OTimeout \<Rightarrow> ''timeout''
    | OError \<Rightarrow> (if Option.bind (xo_error outcome) xe_type = Some ''handler_not_found'' then ''fatal''
                 else ''error''))"

definition move_to_dlq :: "'r redis \<Rightarrow> codec \<Rightarrow> datetime \<Rightarrow> RRQSettings \<Rightarrow> job \<Rightarrow> string \<Rightarrow> ('r, unit) io" where
  "move_to_dlq R C now settings job error_message =
     (let dlq_name = (case j_dlq_name job of None \<Rightarrow> default_dlq_name settings | Some d \<Rightarrow> d);
          unique_lock_key = map_option (\<lambda>k. UNIQUE_JOB_LOCK_PREFIX @ k) (j_unique_key job)
      in andThen (atomic_move_job_to_dlq R C (j_id job) dlq_name error_message now
                    DEFAULT_DLQ_RESULT_TTL_SECONDS unique_lock_key) (\<lambda>result.
         if result < 0 then fail (Bail (''atomic move to dlq failed for job '' @ j_id job)) else ret ()))"

definition handle_job_timeout ::
  "'r redis \<Rightarrow> codec \<Rightarrow> datetime \<Rightarrow> RRQSettings \<Rightarrow> job \<Rightarrow> string \<Rightarrow> ('r, unit) io" where
  "handle_job_timeout R C now settings job error_message = move_to_dlq R C now settings job error_message"

definition handle_fatal_job_error ::
  "'r redis \<Rightarrow> codec \<Rightarrow> datetime \<Rightarrow> RRQSettings \<Rightarrow> job \<Rightarrow> string \<Rightarrow> ('r, unit) io" where
  "handle_fatal_job_error R C now settings job error_message = move_to_dlq R C now settings job error_message"

text \<open>\<open>Utc.timestamp_millis_opt(score as i64).single().unwrap_or_else(Utc::now)\<close>\<close>

definition time_of_score :: "rat \<Rightarrow> datetime \<Rightarrow> datetime" where
  "time_of_score score fallback =
     (let t = trunc_i64 score * 1000000 in if chrono_ok t then t else fallback)"

text \<open>Scheduling the next attempt after \<open>delay_seconds\<close>, shared by the two handlers below.\<close>

definition schedule_retry ::
  "'r redis \<Rightarrow> codec \<Rightarrow> (nat \<Rightarrow> datetime) \<Rightarrow> RRQSettings \<Rightarrow> job \<Rightarrow> string \<Rightarrow> rat \<Rightarrow> ('r, unit) io" where
  "schedule_retry R C clk settings job error_message delay_seconds =
     (let retry_at_score = of_int (timestamp_millis (clk 0)) + delay_seconds * 1000;
          target_queue = normalize_queue_name
            (case j_queue_name job of None \<Rightarrow> default_queue_name settings | Some q \<Rightarrow> q)
      in andThen (atomic_retry_job R (j_id job) target_queue retry_at_score error_message Retrying) (\<lambda>_.
         ignore (attempt (update_job_next_scheduled_run_time R C (j_id job)
                            (time_of_score retry_at_score (clk 1))))))"

definition process_retry_job ::
  "'r redis \<Rightarrow> codec \<Rightarrow> (nat \<Rightarrow> datetime) \<Rightarrow> RRQSettings \<Rightarrow> job \<Rightarrow> string \<Rightarrow> rat option \<Rightarrow> ('r, unit) io" where
  "process_retry_job R C clk settings job error_message retry_after_seconds =
     (let anticipated_retry = wrap64 (j_current_retries job + 1) in
      if anticipated_retry \<ge> j_max_retries job then move_to_dlq R C (clk 0) settings job error_message
      else schedule_retry R C clk settings job error_message
             (case retry_after_seconds of
                Some delay \<Rightarrow> delay
              | None \<Rightarrow> calculate_backoff_seconds settings anticipated_retry))"

definition process_failure_job ::
  "'r redis \<Rightarrow> codec \<Rightarrow> (nat \<Rightarrow> datetime) \<Rightarrow> RRQSettings \<Rightarrow> job \<Rightarrow> string \<Rightarrow> ('r, unit) io" where
  "process_failure_job R C clk settings job error_message =
     (let anticipated_retry = wrap64 (j_current_retries job + 1) in
      if anticipated_retry \<ge> j_max_retries job then move_to_dlq R C (clk 0) settings job error_message
      else schedule_retry R C clk settings job error_message
             (calculate_backoff_seconds settings anticipated_retry))"

definition error_message_or :: "ExecutionOutcome \<Rightarrow> string \<Rightarrow> string" where
  "error_message_or outcome d = (case xo_error outcome of None \<Rightarrow> d | Some e \<Rightarrow> xe_message e)"

definition timed_out_message :: "int \<Rightarrow> string" where
  "timed_out_message n = ''Job timed out after '' @ show_int n @ ''s.''"

definition handle_execution_outcome ::
  "'r redis \<Rightarrow> codec \<Rightarrow> (nat \<Rightarrow> datetime) \<Rightarrow> RRQSettings \<Rightarrow> job \<Rightarrow> ExecutionOutcome \<Rightarrow> ('r, unit) io" where
  "handle_execution_outcome R C clk settings job outcome =
     (case xo_status outcome of
        OSuccess \<Rightarrow>
          (let result = (case xo_result outcome of None \<Rightarrow> JNull | Some v \<Rightarrow> v);
               ttl = or_default (j_result_ttl_seconds job) (default_result_ttl_seconds settings)
           in andThen (save_job_result R C (clk 0) (j_id job) result ttl) (\<lambda>_.
              case j_unique_key job of None \<Rightarrow> ret () | Some k \<Rightarrow> release_unique_job_lock R k))
      | ORetry \<Rightarrow>
          process_retry_job R C clk settings job (error_message_or outcome ''Job requested retry'')
            (xo_retry_after_seconds outcome)
      | OTimeout \<Rightarrow>
          handle_job_timeout R C (clk 0) settings job
            (error_message_or outcome (timed_out_message
               (or_default (j_job_timeout_seconds job) (default_job_timeout_seconds settings))))
      | OError \<Rightarrow>
          (if Option.bind (xo_error outcome) xe_type = Some ''handler_not_found''
           then handle_fatal_job_error R C (clk 0) settings job (error_message_or outcome ''Handler not found'')
           else process_failure_job R C clk settings job (error_message_or outcome ''Job failed'')))"

section \<open>Executing a job\<close>

definition cleanup_running :: "'r redis \<Rightarrow> string \<Rightarrow> string \<Rightarrow> ('r \<times> wlocal, unit) io" where
  "cleanup_running R worker_id job_id =
     andThen (attempt (on_db (remove_active_job R worker_id job_id))) (\<lambda>remove_active_result.
     andThen (attempt (on_db (release_job_lock_if_owner R job_id worker_id))) (\<lambda>release_lock_result.
     andThen (on_local (\<lambda>l. l\<lparr>wl_running := hm_remove job_id (wl_running l),
                             wl_aborts := filter (\<lambda>j. j \<noteq> job_id) (wl_aborts l)\<rparr>)) (\<lambda>_.
       case remove_active_result of
         Inl err \<Rightarrow> fail err
       | Inr _ \<Rightarrow> (case release_lock_result of Inl err \<Rightarrow> fail err | Inr _ \<Rightarrow> ret ()))))"

text \<open>A branch that ends the job before it is dispatched.\<close>

definition end_fatally ::
  "'r redis \<Rightarrow> codec \<Rightarrow> datetime \<Rightarrow> 'w worker \<Rightarrow> job \<Rightarrow> string \<Rightarrow> ('r \<times> wlocal, unit) io" where
  "end_fatally R C now W job message =
     andThen (on_db (handle_fatal_job_error R C now (w_settings W) job message))
       (\<lambda>_. cleanup_running R (w_id W) (j_id job))"

definition execution_request ::
  "'w worker \<Rightarrow> job \<Rightarrow> string \<Rightarrow> string \<Rightarrow> string \<Rightarrow> datetime \<Rightarrow> ExecutionRequest" where
  "execution_request W job queue_name handler_name request_id deadline =
     \<lparr> xr_protocol_version = PROTOCOL_VERSION, xr_request_id = request_id, xr_job_id = j_id job,
       xr_function_name = handler_name, xr_params = j_params job,
       xr_context = \<lparr> xc_job_id = j_id job,
         xc_attempt = nat (wrap64 (j_current_retries job + 1) mod 4294967296),
         xc_enqueue_time = j_enqueue_time job, xc_queue_name = queue_name, xc_deadline = Some deadline,
         xc_trace_context = j_trace_context job, xc_correlation_context = j_correlation_context job,
         xc_worker_id = Some (w_id W) \<rparr> \<rparr>"

definition handle_exec_result ::
  "'r redis \<Rightarrow> codec \<Rightarrow> (nat \<Rightarrow> datetime) \<Rightarrow> 'w worker \<Rightarrow> job \<Rightarrow> int \<Rightarrow> RunnerExecutionResult \<Rightarrow> ('r, unit) io"
where
  "handle_exec_result R C clk W job job_timeout exec_result =
     (case exec_result of
        ExecCompleted (Inr outcome) \<Rightarrow> handle_execution_outcome R C clk (w_settings W) job outcome
      | ExecCompleted (Inl err) \<Rightarrow>
          process_failure_job R C clk (w_settings W) job (''Runner transport error: '' @ err_text err)
      | ExecTimedOut \<Rightarrow>
          handle_job_timeout R C (clk 0) (w_settings W) job (timed_out_message job_timeout))"

definition dispatch_job ::
  "'r redis \<Rightarrow> codec \<Rightarrow> (nat \<Rightarrow> datetime) \<Rightarrow> string \<Rightarrow> 'r worker \<Rightarrow> job \<Rightarrow> string \<Rightarrow> string \<Rightarrow> int
    \<Rightarrow> datetime \<Rightarrow> 'r runner \<Rightarrow> ('r \<times> wlocal, unit) io" where
  "dispatch_job R C clk request_id W job queue_name handler_name job_timeout deadline runner =
     andThen (on_local (\<lambda>l. l\<lparr>wl_running :=
         hm_modify (j_id job) (\<lambda>info. info\<lparr>ri_request_id := Some request_id\<rparr>) (wl_running l)\<rparr>)) (\<lambda>_.
     andThen (on_db (rn_execute_with_timeout runner
                (execution_request W job queue_name handler_name request_id deadline) job_timeout
                (runner_enable_inflight_cancel_hints (w_settings W)))) (\<lambda>exec_result.
     andThen (attempt (on_db (handle_exec_result R C (\<lambda>n. clk (Suc n)) W job job_timeout exec_result)))
       (\<lambda>outcome_result.
     andThen (attempt (cleanup_running R (w_id W) (j_id job))) (\<lambda>cleanup_result.
       case outcome_result of
         Inl err \<Rightarrow> fail err
       | Inr _ \<Rightarrow> (case cleanup_result of Inl err \<Rightarrow> fail err | Inr _ \<Rightarrow> ret ())))))"

definition execute_job ::
  "'r redis \<Rightarrow> codec \<Rightarrow> (nat \<Rightarrow> datetime) \<Rightarrow> string \<Rightarrow> 'r worker \<Rightarrow> job \<Rightarrow> string \<Rightarrow> ('r \<times> wlocal, unit) io"
where
  "execute_job R C clk request_id W job queue_name =
     (let job_timeout = or_default (j_job_timeout_seconds job)
                          (default_job_timeout_seconds (w_settings W)) in
      if job_timeout \<le> 0 then
        end_fatally R C (clk 0) W job
          (''Invalid job timeout: '' @ show_int job_timeout @ ''. Must be positive.'')
      else
        andThen (duration_seconds job_timeout) (\<lambda>d.
        andThen (datetime_add (clk 0) d) (\<lambda>deadline.
          case split_runner_name (j_function_name job) of (runner_name, handler_name) \<Rightarrow>
          if handler_name = [] then end_fatally R C (clk 1) W job ''Handler name is missing''
          else
            let resolved_runner = (case runner_name of
                    Some name \<Rightarrow> name
                  | None \<Rightarrow> (case resolve_routed_runner (w_routes W) queue_name of
                               Some r \<Rightarrow> r | None \<Rightarrow> w_default_runner W))
            in andThen (on_local (\<lambda>l. l\<lparr>wl_running :=
                   hm_modify (j_id job) (\<lambda>info. info\<lparr>ri_runner_name := Some resolved_runner\<rparr>)
                     (wl_running l)\<rparr>)) (\<lambda>_.
               case map_of (w_runners W) resolved_runner of
                 None \<Rightarrow> end_fatally R C (clk 1) W job
                            (''No runner configured for '' @ quoted resolved_runner @ ''.'')
               | Some runner \<Rightarrow>
                   dispatch_job R C clk request_id W job queue_name handler_name job_timeout deadline runner))))"

end
