(* ===== verification/Worker_Claims.thy ===== *)
theory Worker_Claims
  imports Worker
begin

text \<open>
  The worker, second part: polling the queues, dispatching what was claimed, and giving back what
  cannot be dispatched (\<open>poll_for_jobs\<close> and the \<open>release_*\<close>, \<open>requeue_*\<close> and \<open>quarantine_*\<close>
  functions of \<open>orchestrator/src/worker.rs\<close>). Only warnings and metrics are left out, so a
  failed Redis call is a value that the code goes on from. The clock reading of the release of a
  job is given by \<open>now\<close>.
\<close>

section \<open>Giving a claimed job back\<close>

definition lock_owned_by_other :: "'r redis \<Rightarrow> string \<Rightarrow> string \<Rightarrow> ('r, bool option) io" where
  "lock_owned_by_other R worker_id job_id =
     andThen (attempt (get_job_lock_owner R job_id)) (\<lambda>r. case r of
       Inr owner \<Rightarrow> ret (Some (case owner of None \<Rightarrow> False | Some w \<Rightarrow> w \<noteq> worker_id))
     | Inl _ \<Rightarrow> andThen (attempt (get_job_lock_owner R job_id)) (\<lambda>r. case r of
         Inr owner \<Rightarrow> ret (Some (case owner of None \<Rightarrow> False | Some w \<Rightarrow> w \<noteq> worker_id))
       | Inl _ \<Rightarrow> ret None))"

definition is_wrongtype_error :: "error \<Rightarrow> bool" where
  "is_wrongtype_error err = str_contains (map ascii_lower (err_text err)) ''wrongtype''"

text \<open>The membership check and the \<open>ZADD\<close> both requeueing functions end with.\<close>

definition queue_unless_queued :: "'r redis \<Rightarrow> datetime \<Rightarrow> string \<Rightarrow> string \<Rightarrow> ('r, bool) io" where
  "queue_unless_queued R now queue_name job_id =
     andThen (attempt (is_job_queued R queue_name job_id)) (\<lambda>r. case r of
       Inl _ \<Rightarrow> ret False
     | Inr True \<Rightarrow> ret True
     | Inr False \<Rightarrow>
         andThen (attempt (add_job_to_queue R queue_name job_id (of_int (timestamp_millis now)))) (\<lambda>r.
           case r of Inl _ \<Rightarrow> ret False | Inr _ \<Rightarrow> ret True))"

definition requeue_claimed_job_if_needed ::
  "'r redis \<Rightarrow> datetime \<Rightarrow> string \<Rightarrow> string \<Rightarrow> job \<Rightarrow> string option \<Rightarrow> ('r, bool) io" where
  "requeue_claimed_job_if_needed R now queue_name job_id job pending_error =
     (if j_status job = Active then
        andThen (attempt (mark_job_pending R job_id pending_error)) (\<lambda>r. case r of
          Inl _ \<Rightarrow> ret False
        | Inr _ \<Rightarrow> queue_unless_queued R now queue_name job_id)
      else if j_status job = Pending \<or> j_status job = Retrying
           then queue_unless_queued R now queue_name job_id
      else ret True)"

definition requeue_claimed_job_without_definition ::
  "'r redis \<Rightarrow> datetime \<Rightarrow> string \<Rightarrow> string \<Rightarrow> string option \<Rightarrow> ('r, bool) io" where
  "requeue_claimed_job_without_definition R now queue_name job_id pending_error =
     andThen (attempt (mark_job_pending R job_id pending_error)) (\<lambda>r. case r of
       Inl _ \<Rightarrow> ret False
     | Inr _ \<Rightarrow> queue_unless_queued R now queue_name job_id)"

definition cleanup_claimed_job_state :: "'r redis \<Rightarrow> string \<Rightarrow> string \<Rightarrow> ('r, unit) io" where
  "cleanup_claimed_job_state R worker_id job_id =
     andThen (attempt (remove_active_job R worker_id job_id)) (\<lambda>_.
     andThen (attempt (release_job_lock_if_owner R job_id worker_id)) (\<lambda>r. case r of
       Inr _ \<Rightarrow> ret ()
     | Inl err \<Rightarrow> if is_wrongtype_error err then ignore (attempt (release_job_lock R job_id)) else ret ()))"

definition release_claimed_job ::
  "'r redis \<Rightarrow> datetime \<Rightarrow> string \<Rightarrow> string \<Rightarrow> string \<Rightarrow> job option \<Rightarrow> string option \<Rightarrow> ('r, unit) io" where
  "release_claimed_job R now worker_id queue_name job_id job_opt pending_error =
     andThen (lock_owned_by_other R worker_id job_id) (\<lambda>owned.
       let requeue = (owned \<noteq> Some True \<and>
             (case job_opt of None \<Rightarrow> False | Some job \<Rightarrow> j_worker_id job = Some worker_id))
       in andThen (if requeue
                   then requeue_claimed_job_if_needed R now queue_name job_id (the job_opt) pending_error
                   else ret True) (\<lambda>done.
          if done then cleanup_claimed_job_state R worker_id job_id else ret ()))"

definition malformed_message :: string where
  "malformed_message = ''Failed to parse claimed job definition. Moved to DLQ.''"

definition nonempty :: "string option \<Rightarrow> string option" where
  "nonempty v = (case v of None \<Rightarrow> None | Some s \<Rightarrow> if s = [] then None else Some s)"

definition quarantine_claimed_job_without_definition ::
  "'r redis \<Rightarrow> codec \<Rightarrow> datetime \<Rightarrow> 'w worker \<Rightarrow> string \<Rightarrow> string \<Rightarrow> string \<Rightarrow> ('r, unit) io" where
  "quarantine_claimed_job_without_definition R C now W queue_name job_id error_message =
     andThen (lock_owned_by_other R (w_id W) job_id) (\<lambda>owned. case owned of
       None \<Rightarrow> ret ()
     | Some True \<Rightarrow> cleanup_claimed_job_state R (w_id W) job_id
     | Some False \<Rightarrow>
         andThen (attempt (remove_job_from_queue R queue_name job_id)) (\<lambda>_.
         andThen (attempt (get_job_data_map R job_id)) (\<lambda>r. case r of
           Inr None \<Rightarrow> cleanup_claimed_job_state R (w_id W) job_id
         | Inr (Some job_map) \<Rightarrow>
             (let dlq_name = or_default (nonempty (fmlookup job_map ''dlq_name'')) (default_dlq_name (w_settings W));
                  unique_key = nonempty (fmlookup job_map ''job_unique_key'')
              in andThen (attempt (move_job_to_dlq R C job_id dlq_name error_message now)) (\<lambda>r. case r of
                   Inl _ \<Rightarrow>
                     andThen (requeue_claimed_job_without_definition R now queue_name job_id
                                (Some ''Failed to move malformed claimed job to DLQ. Re-queued.'')) (\<lambda>done.
                       if done then cleanup_claimed_job_state R (w_id W) job_id else ret ())
                 | Inr _ \<Rightarrow>
                     andThen (case unique_key of None \<Rightarrow> ret ()
                              | Some k \<Rightarrow> ignore (attempt (release_unique_job_lock R k))) (\<lambda>_.
                       cleanup_claimed_job_state R (w_id W) job_id)))
         | Inl _ \<Rightarrow>
             andThen (requeue_claimed_job_without_definition R now queue_name job_id
                        (Some ''Failed to load malformed claimed job for DLQ move. Re-queued.'')) (\<lambda>done.
               if done then cleanup_claimed_job_state R (w_id W) job_id else ret ()))))"

definition release_claimed_job_without_definition ::
  "'r redis \<Rightarrow> datetime \<Rightarrow> string \<Rightarrow> string \<Rightarrow> string \<Rightarrow> string option \<Rightarrow> ('r, unit) io" where
  "release_claimed_job_without_definition R now worker_id queue_name job_id pending_error =
     andThen (lock_owned_by_other R worker_id job_id) (\<lambda>owned. case owned of
       None \<Rightarrow> ret ()
     | Some other \<Rightarrow>
         andThen (if other then ret True
                  else requeue_claimed_job_without_definition R now queue_name job_id pending_error) (\<lambda>done.
           if done then cleanup_claimed_job_state R worker_id job_id else ret ()))"

definition release_remaining_claimed_jobs_without_definitions ::
  "'r redis \<Rightarrow> (string \<Rightarrow> datetime) \<Rightarrow> string \<Rightarrow> string \<Rightarrow> string list \<Rightarrow> ('r, unit) io" where
  "release_remaining_claimed_jobs_without_definitions R now worker_id queue_name claimed =
     forEach claimed (\<lambda>job_id. release_claimed_job_without_definition R (now job_id) worker_id queue_name job_id
       (Some ''Failed to load claimed job definition. Re-queued.''))"

text \<open>One job of a batch, with the definition loaded for it, if any.\<close>

definition give_back ::
  "'r redis \<Rightarrow> codec \<Rightarrow> (string \<Rightarrow> datetime) \<Rightarrow> 'w worker \<Rightarrow> string \<Rightarrow> string \<Rightarrow> job option \<Rightarrow> string option
    \<Rightarrow> ('r, unit) io" where
  "give_back R C now W queue_name job_id job_opt pending_error =
     (case job_opt of
        Some job \<Rightarrow> release_claimed_job R (now job_id) (w_id W) queue_name job_id (Some job) pending_error
      | None \<Rightarrow> quarantine_claimed_job_without_definition R C (now job_id) W queue_name job_id malformed_message)"

definition nth_def :: "job option list \<Rightarrow> nat \<Rightarrow> job option" where
  "nth_def defs i = (if i < length defs then defs ! i else None)"

definition release_remaining_claimed_jobs ::
  "'r redis \<Rightarrow> codec \<Rightarrow> (string \<Rightarrow> datetime) \<Rightarrow> 'w worker \<Rightarrow> string \<Rightarrow> string list \<Rightarrow> job option list
    \<Rightarrow> string option \<Rightarrow> ('r, unit) io" where
  "release_remaining_claimed_jobs R C now W queue_name claimed job_defs pending_error =
     forEach (enumerate 0 claimed) (\<lambda>(i, job_id).
       give_back R C now W queue_name job_id (nth_def job_defs i) pending_error)"

definition release_claimed_jobs_from_index ::
  "'r redis \<Rightarrow> codec \<Rightarrow> (string \<Rightarrow> datetime) \<Rightarrow> 'w worker \<Rightarrow> string \<Rightarrow> string list \<Rightarrow> job option list
    \<Rightarrow> nat \<Rightarrow> string option \<Rightarrow> ('r, unit) io" where
  "release_claimed_jobs_from_index R C now W queue_name claimed job_defs index pending_error =
     (if length claimed \<le> index then ret ()
      else andThen (give_back R C now W queue_name (claimed ! index) (nth_def job_defs index) pending_error) (\<lambda>_.
           release_remaining_claimed_jobs R C now W queue_name (drop (index + 1) claimed)
             (drop (index + 1) job_defs) pending_error))"

section \<open>Polling\<close>

text \<open>
  What one poll observes besides Redis: the shutdown flag and the clock, at each slot (pass and
  offset) and for each claimed job.
\<close>

record poll_env =
  pe_stop_slot :: "nat \<Rightarrow> nat \<Rightarrow> bool"
  pe_stop_job :: "nat \<Rightarrow> nat \<Rightarrow> string \<Rightarrow> bool"
  pe_claim_start :: "nat \<Rightarrow> nat \<Rightarrow> datetime"
  pe_claim_now :: "nat \<Rightarrow> nat \<Rightarrow> datetime"
  pe_now :: "string \<Rightarrow> datetime"

definition interrupted_message :: string where
  "interrupted_message = ''Job execution interrupted by worker shutdown. Re-queued.''"

definition lock_timeout_of :: "RRQSettings \<Rightarrow> job \<Rightarrow> int option" where
  "lock_timeout_of settings job =
     Option.bind (checked_i64 (or_default (j_job_timeout_seconds job) (default_job_timeout_seconds settings)
                               + default_lock_timeout_extension_seconds settings))
       (\<lambda>total. checked_i64 (total * 1000))"

text \<open>
  Handing a job to a task: it takes a permit (when none is free it waits until a task of this
  worker has returned one), and the tables of running jobs list it.
\<close>

definition spawn_job :: "string \<Rightarrow> datetime \<Rightarrow> job \<Rightarrow> wlocal \<Rightarrow> wlocal" where
  "spawn_job queue_name claim_start_time job l =
     (let start_time = or_default (j_start_time job) claim_start_time in
      l\<lparr>wl_permits := wl_permits l - 1,
        wl_running := hm_insert (j_id job)
          \<lparr> ri_queue_name = queue_name, ri_runner_name = None, ri_request_id = None \<rparr> (wl_running l),
        wl_spawned := wl_spawned l @ [(job\<lparr>j_start_time := Some start_time\<rparr>, queue_name)],
        wl_aborts := filter (\<lambda>j. j \<noteq> j_id job) (wl_aborts l) @ [j_id job]\<rparr>)"

text \<open>
  The loop over a claimed batch from \<open>index\<close> on; the result is the number of jobs fetched so far
  and whether the poll ends here.
\<close>

function dispatch_claimed ::
  "'r redis \<Rightarrow> codec \<Rightarrow> poll_env \<Rightarrow> 'w worker \<Rightarrow> nat \<Rightarrow> nat \<Rightarrow> nat \<Rightarrow> string \<Rightarrow> string list \<Rightarrow> job option list
    \<Rightarrow> nat \<Rightarrow> nat \<Rightarrow> ('r \<times> wlocal, nat \<times> bool) io" where
  "dispatch_claimed R C env W max_jobs pass off queue_name claimed job_defs index fetched =
     (if length claimed \<le> index then ret (fetched, False)
      else
        let job_id = claimed ! index;
            next = dispatch_claimed R C env W max_jobs pass off queue_name claimed job_defs (index + 1);
            give_up = (\<lambda>msg err.
              andThen (on_db (release_claimed_jobs_from_index R C (pe_now env) W queue_name claimed job_defs
                                index (Some msg))) (\<lambda>_. fail err))
        in if max_jobs \<le> fetched \<or> pe_stop_job env pass off job_id then
             andThen (on_db (release_remaining_claimed_jobs R C (pe_now env) W queue_name (drop index claimed)
                               (drop index job_defs) (Some interrupted_message))) (\<lambda>_. ret (fetched, True))
           else case nth_def job_defs index of
             None \<Rightarrow>
               andThen (on_db (quarantine_claimed_job_without_definition R C (pe_now env job_id) W queue_name
                                 job_id malformed_message)) (\<lambda>_. next fetched)
           | Some job \<Rightarrow>
               (case lock_timeout_of (w_settings W) job of
                  None \<Rightarrow> give_up ''Invalid lock timeout while preparing execution. Re-queued.''
                            (Bail ''lock_timeout_ms overflow'')
                | Some ms \<Rightarrow>
                    if ms \<le> 0 then give_up ''Invalid lock timeout while preparing execution. Re-queued.''
                                      (Bail ''lock_timeout_ms must be positive'')
                    else
                      andThen (attempt (on_db (refresh_job_lock_timeout R (j_id job) (w_id W) ms))) (\<lambda>r.
                        case r of
                          Inl err \<Rightarrow>
                            give_up ''Failed to refresh claimed job lock before dispatch. Re-queued.'' err
                        | Inr False \<Rightarrow>
                            andThen (on_db (release_claimed_job R (pe_now env (j_id job)) (w_id W) queue_name
                                (j_id job) (Some job)
                                (Some ''Failed to refresh claimed job lock before dispatch. Re-queued.'')))
                              (\<lambda>_. next fetched)
                        | Inr True \<Rightarrow>
                            andThen (on_local (spawn_job queue_name (pe_claim_start env pass off) job)) (\<lambda>_.
                              next (fetched + 1)))))"
  by pat_completeness auto
termination
  by (relation "measure (\<lambda>(R, C, env, W, m, pass, off, q, claimed, defs, index, fetched). length claimed - index)")
    auto

declare dispatch_claimed.simps [simp del]

fun poll_slots ::
  "'r redis \<Rightarrow> codec \<Rightarrow> poll_env \<Rightarrow> 'w worker \<Rightarrow> nat \<Rightarrow> nat \<Rightarrow> (nat \<times> nat) list \<Rightarrow> nat \<Rightarrow> ('r \<times> wlocal, nat) io"
where
  "poll_slots R C env W max_jobs start_index [] fetched = ret fetched"
| "poll_slots R C env W max_jobs start_index ((pass, off) # slots) fetched =
     (if max_jobs \<le> fetched \<or> pe_stop_slot env pass off then ret fetched
      else
        let total_queues = length (w_queues W);
            fair_share = max 1 ((max_jobs + total_queues - 1) div total_queues);
            queue_name = w_queues W ! ((start_index + off) mod total_queues);
            remaining = max_jobs - fetched;
            request_count = (if pass = 0 then min remaining fair_share else remaining)
        in if request_count = 0 then poll_slots R C env W max_jobs start_index slots fetched
           else
             andThen (on_db (atomic_claim_ready_jobs R C (pe_claim_now env pass off) queue_name (w_id W)
                 (w_claim_timeout_ms W) (default_lock_timeout_extension_seconds (w_settings W))
                 request_count (pe_claim_start env pass off))) (\<lambda>claimed.
               if claimed = [] then poll_slots R C env W max_jobs start_index slots fetched
               else
                 andThen (attempt (on_db (get_job_definitions R C (default_max_retries (w_settings W)) claimed)))
                   (\<lambda>r. case r of
                     Inl err \<Rightarrow>
                       andThen (on_db (release_remaining_claimed_jobs_without_definitions R (pe_now env)
                                         (w_id W) queue_name claimed)) (\<lambda>_. fail err)
                   | Inr job_defs \<Rightarrow>
                       andThen (dispatch_claimed R C env W max_jobs pass off queue_name claimed job_defs 0 fetched)
                         (\<lambda>(fetched', finished).
                           if finished then ret fetched'
                           else poll_slots R C env W max_jobs start_index slots fetched'))))"

definition poll_for_jobs ::
  "'r redis \<Rightarrow> codec \<Rightarrow> poll_env \<Rightarrow> 'w worker \<Rightarrow> nat \<Rightarrow> ('r \<times> wlocal, nat) io" where
  "poll_for_jobs R C env W max_jobs =
     (let total_queues = length (w_queues W) in
      andThen (get_local (\<lambda>l. wl_cursor l mod total_queues)) (\<lambda>start_index.
      andThen (on_local (\<lambda>l. l\<lparr>wl_cursor := (start_index + 1) mod total_queues\<rparr>)) (\<lambda>_.
      poll_slots R C env W max_jobs start_index
        (map (Pair 0) [0..<total_queues] @ map (Pair 1) [0..<total_queues]) 0)))"

end
