(* ===== verification/Worker_Upkeep.thy ===== *)
theory Worker_Upkeep
  imports Worker_Claims
begin

text \<open>
  The worker, third part: the recovery of orphaned jobs, the heartbeat, cron, draining at
  shutdown, and the main loop (\<open>orchestrator/src/worker.rs\<close>). A loop that runs until shutdown is
  a recursion over the observations of its rounds, one list element per round; what other tasks
  do in the meantime is a function on the state that comes with the observation.
\<close>

section \<open>Recovery of orphaned jobs\<close>

datatype OrphanRequeuePostAction = CleanupOnly | CleanupAndCount | PreserveActive

definition orphan_requeue_post_action :: "int \<Rightarrow> OrphanRequeuePostAction" where
  "orphan_requeue_post_action result =
     (if result = 0 then CleanupOnly else if result = 1 \<or> result = 2 then CleanupAndCount else PreserveActive)"

text \<open>The end of the synthetic ownership: the active entry and the lock taken for the recovery.\<close>

definition drop_orphan :: "'r redis \<Rightarrow> string \<Rightarrow> string \<Rightarrow> string \<Rightarrow> string \<Rightarrow> ('r, unit) io" where
  "drop_orphan R worker_id active_id lock_id lock_owner =
     andThen (attempt (remove_active_job R worker_id active_id)) (\<lambda>_.
     ignore (attempt (release_job_lock_if_owner R lock_id lock_owner)))"

definition recovery_owner :: "string \<Rightarrow> string" where
  "recovery_owner worker_id = ''orphan-recovery-'' @ worker_id"

text \<open>From the point on where the definition of the job has been read, before the lock is taken.\<close>

definition recover_known_job ::
  "'r redis \<Rightarrow> codec \<Rightarrow> RRQSettings \<Rightarrow> datetime \<Rightarrow> string \<Rightarrow> string \<Rightarrow> job \<Rightarrow> ('r, bool) io" where
  "recover_known_job R C settings now worker_id job_id job =
     (let queue_name = normalize_queue_name (or_default (j_queue_name job) (default_queue_name settings));
          lock_owner = recovery_owner worker_id
      in case lock_timeout_of settings job of
           None \<Rightarrow> fail (Bail ''lock_timeout_ms overflow'')
         | Some ms \<Rightarrow>
             if ms \<le> 0 then ret False
             else andThen (try_lock_job R (j_id job) lock_owner ms) (\<lambda>locked.
               if \<not> locked then ret False
               else andThen (is_job_queued R queue_name job_id) (\<lambda>queued.
                 if queued then
                   andThen (if j_status job = Active then ignore (attempt (mark_job_pending R job_id None))
                            else ret ()) (\<lambda>_.
                   andThen (drop_orphan R worker_id job_id (j_id job) lock_owner) (\<lambda>_. ret False))
                 else if j_status job \<in> {Active, Pending, Retrying} then
                   let requeue_time = or_default (j_next_scheduled_run_time job) now;
                       message = (if j_status job = Active
                                  then ''Recovered after lock expiry or worker crash.'' else [])
                   in andThen (attempt (atomic_requeue_job R (j_id job) queue_name
                          (of_int (timestamp_millis requeue_time)) message lock_owner (Some worker_id)
                          (Some (to_rfc3339 C requeue_time)))) (\<lambda>r.
                        let keep = ignore (attempt (release_job_lock_if_owner R (j_id job) lock_owner))
                        in case r of
                             Inl _ \<Rightarrow> andThen keep (\<lambda>_. ret False)
                           | Inr result \<Rightarrow>
                               (case orphan_requeue_post_action result of
                                  PreserveActive \<Rightarrow> andThen keep (\<lambda>_. ret False)
                                | CleanupAndCount \<Rightarrow>
                                    andThen (drop_orphan R worker_id (j_id job) (j_id job) lock_owner)
                                      (\<lambda>_. ret True)
                                | CleanupOnly \<Rightarrow>
                                    andThen (drop_orphan R worker_id (j_id job) (j_id job) lock_owner)
                                      (\<lambda>_. ret False)))
                 else andThen (drop_orphan R worker_id (j_id job) (j_id job) lock_owner)
                        (\<lambda>_. ret False))))"

text \<open>One entry of the active set of a worker without health; the result is whether it counts.\<close>

definition recover_job ::
  "'r redis \<Rightarrow> codec \<Rightarrow> RRQSettings \<Rightarrow> datetime \<Rightarrow> string \<Rightarrow> string \<Rightarrow> ('r, bool) io" where
  "recover_job R C settings now worker_id job_id =
     andThen (get_job_lock_owner R job_id) (\<lambda>owner.
     if owner \<noteq> None then ret False
     else andThen (get_job_definition R C (default_max_retries settings) job_id) (\<lambda>job_opt.
       case job_opt of
         None \<Rightarrow> andThen (attempt (remove_active_job R worker_id job_id)) (\<lambda>_. ret False)
       | Some job \<Rightarrow> recover_known_job R C settings now worker_id job_id job))"

text \<open>How the scan goes on: further with a count, cut off by the limit, or left at shutdown.\<close>

datatype scan_flow = ScanOn nat | ScanLimited nat | ScanStopped

definition MAX_RECOVERIES_PER_TICK :: nat where "MAX_RECOVERIES_PER_TICK = 100"

fun recover_jobs ::
  "'r redis \<Rightarrow> codec \<Rightarrow> RRQSettings \<Rightarrow> (string \<Rightarrow> datetime) \<Rightarrow> (string \<Rightarrow> bool) \<Rightarrow> string \<Rightarrow> string list \<Rightarrow> nat
    \<Rightarrow> ('r, scan_flow) io" where
  "recover_jobs R C settings now stop worker_id [] recovered = ret (ScanOn recovered)"
| "recover_jobs R C settings now stop worker_id (job_id # job_ids) recovered =
     (if stop job_id then ret ScanStopped
      else andThen (recover_job R C settings (now job_id) worker_id job_id) (\<lambda>counted.
        if counted then
          (if MAX_RECOVERIES_PER_TICK \<le> recovered + 1 then ret (ScanLimited (recovered + 1))
           else recover_jobs R C settings now stop worker_id job_ids (recovered + 1))
        else recover_jobs R C settings now stop worker_id job_ids recovered))"

fun recover_keys ::
  "'r redis \<Rightarrow> codec \<Rightarrow> RRQSettings \<Rightarrow> (string \<Rightarrow> datetime) \<Rightarrow> (string \<Rightarrow> bool) \<Rightarrow> string list \<Rightarrow> nat
    \<Rightarrow> ('r, scan_flow) io" where
  "recover_keys R C settings now stop [] recovered = ret (ScanOn recovered)"
| "recover_keys R C settings now stop (key # keys) recovered =
     (let worker_id = trim_start_matches ACTIVE_JOBS_PREFIX key in
      if \<not> starts_with key ACTIVE_JOBS_PREFIX \<or> worker_id = []
      then recover_keys R C settings now stop keys recovered
      else andThen (get_worker_health R C worker_id) (\<lambda>(_, health_ttl).
        if (case health_ttl of None \<Rightarrow> False | Some ttl \<Rightarrow> 0 < ttl)
        then recover_keys R C settings now stop keys recovered
        else andThen (get_active_job_ids R worker_id) (\<lambda>job_ids.
             andThen (recover_jobs R C settings now stop worker_id job_ids recovered) (\<lambda>flow.
               case flow of ScanOn n \<Rightarrow> recover_keys R C settings now stop keys n | _ \<Rightarrow> ret flow))))"

definition recover_orphaned_jobs ::
  "'r redis \<Rightarrow> codec \<Rightarrow> RRQSettings \<Rightarrow> (string \<Rightarrow> datetime) \<Rightarrow> (string \<Rightarrow> bool) \<Rightarrow> string list list
    \<Rightarrow> ('r, scan_flow) io" where
  "recover_orphaned_jobs R C settings now stop pages =
     foldIO (\<lambda>keys flow. case flow of
         ScanOn n \<Rightarrow> recover_keys R C settings now stop keys n
       | _ \<Rightarrow> ret flow) pages (ScanOn 0)"

section \<open>Heartbeat\<close>

definition health_data :: "codec \<Rightarrow> datetime \<Rightarrow> 'w worker \<Rightarrow> wlocal \<Rightarrow> params" where
  "health_data C now W l =
     [(''worker_id'', JStr (w_id W)), (''timestamp'', JStr (to_rfc3339 C now)),
      (''status'', JStr (wl_status l)), (''active_jobs'', JInt (int (length (wl_running l)))),
      (''concurrency_limit'', JInt (int (w_concurrency W))), (''queues'', JArr (map JStr (w_queues W)))]"

definition heartbeat ::
  "'r redis \<Rightarrow> codec \<Rightarrow> datetime \<Rightarrow> (string \<Rightarrow> datetime) \<Rightarrow> (string \<Rightarrow> bool) \<Rightarrow> string list list \<Rightarrow> 'w worker
    \<Rightarrow> ('r \<times> wlocal, unit) io" where
  "heartbeat R C time now stop pages W =
     (let settings = w_settings W;
          ttl = trunc_i64 (worker_health_check_interval_seconds settings
                           + worker_health_check_ttl_buffer_seconds settings)
      in andThen (get_local (health_data C time W)) (\<lambda>data.
         andThen (attempt (on_db (set_worker_health R C (w_id W) data ttl))) (\<lambda>_.
         ignore (attempt (on_db (recover_orphaned_jobs R C settings now stop pages))))))"

section \<open>Cron\<close>

definition cron_unique_key :: "CronJob \<Rightarrow> string option" where
  "cron_unique_key job = (if cj_unique job then Some (''cron:'' @ cj_function_name job) else None)"

type_synonym cron_after = "string \<Rightarrow> datetime \<Rightarrow> datetime option option"

text \<open>The jobs due at \<open>now\<close>, with their indices; \<open>due\<close> may compute a first run time.\<close>

definition due_step ::
  "cron_after \<Rightarrow> datetime \<Rightarrow> nat \<times> CronJob \<Rightarrow> CronJob list \<times> (nat \<times> CronJob) list
    \<Rightarrow> CronJob list \<times> (nat \<times> CronJob) list" where
  "due_step after now = (\<lambda>(index, job) (jobs, due_jobs).
     case due after job now of
       Inl _ \<Rightarrow> (jobs @ [job], due_jobs)
     | Inr (due_now, job') \<Rightarrow> (jobs @ [job'], if due_now then due_jobs @ [(index, job')] else due_jobs))"

definition due_cron_jobs ::
  "cron_after \<Rightarrow> datetime \<Rightarrow> CronJob list \<Rightarrow> CronJob list \<times> (nat \<times> CronJob) list" where
  "due_cron_jobs after now jobs = fold (due_step after now) (enumerate 0 jobs) ([], [])"

definition cron_options :: "CronJob \<Rightarrow> EnqueueOptions" where
  "cron_options job = \<lparr> eo_queue_name = cj_queue_name job, eo_job_id = None,
     eo_unique_key = cron_unique_key job, eo_max_retries = None, eo_job_timeout_seconds = None,
     eo_defer_until = None, eo_defer_by = None, eo_result_ttl_seconds = None, eo_trace_context = None \<rparr>"

text \<open>
  Enqueueing one due job, unless its unique key is held; \<open>new_id\<close> and \<open>time\<close> are the fresh job
  id and the clock of the enqueue call.
\<close>

definition enqueue_due ::
  "'r redis \<Rightarrow> codec \<Rightarrow> (strmap option \<Rightarrow> strmap option) \<Rightarrow> string \<Rightarrow> datetime \<Rightarrow> RRQSettings \<Rightarrow> CronJob
    \<Rightarrow> ('r, unit) io" where
  "enqueue_due R C inject new_id time settings job =
     andThen (case cron_unique_key job of
         None \<Rightarrow> ret True
       | Some key \<Rightarrow> andThen (attempt (get_lock_ttl R key)) (\<lambda>r.
           ret (case r of Inl _ \<Rightarrow> True | Inr ttl \<Rightarrow> \<not> 0 < ttl))) (\<lambda>should_enqueue.
       if should_enqueue then
         ignore (attempt (enqueue R C inject new_id time settings (cj_function_name job) (cj_params job)
                            (cron_options job)))
       else ret ())"

definition reschedule :: "cron_after \<Rightarrow> datetime \<Rightarrow> CronJob list \<Rightarrow> nat \<times> CronJob \<Rightarrow> CronJob list" where
  "reschedule after now jobs = (\<lambda>(index, _).
     if index < length jobs then
       (case schedule_next after (jobs ! index) now of Inl _ \<Rightarrow> jobs | Inr job \<Rightarrow> jobs[index := job])
     else jobs)"

text \<open>
  One round of the cron loop. The shutdown flag is read before each job is looked at (\<open>halt\<close>, by
  index) and before each is enqueued (\<open>stop\<close>); a round that sees it returns at once.
\<close>

fun enqueue_all_due ::
  "'r redis \<Rightarrow> codec \<Rightarrow> (strmap option \<Rightarrow> strmap option) \<Rightarrow> (nat \<Rightarrow> string) \<Rightarrow> (nat \<Rightarrow> datetime) \<Rightarrow> (nat \<Rightarrow> bool)
    \<Rightarrow> RRQSettings \<Rightarrow> (nat \<times> CronJob) list \<Rightarrow> ('r, bool) io" where
  "enqueue_all_due R C inject new_id time stop settings [] = ret True"
| "enqueue_all_due R C inject new_id time stop settings ((index, job) # due_jobs) =
     (if stop index then ret False
      else andThen (enqueue_due R C inject (new_id index) (time index) settings job) (\<lambda>_.
           enqueue_all_due R C inject new_id time stop settings due_jobs))"

definition cron_tick ::
  "'r redis \<Rightarrow> codec \<Rightarrow> cron_after \<Rightarrow> (strmap option \<Rightarrow> strmap option) \<Rightarrow> (nat \<Rightarrow> string) \<Rightarrow> (nat \<Rightarrow> datetime)
    \<Rightarrow> (nat \<Rightarrow> bool) \<Rightarrow> (nat \<Rightarrow> bool) \<Rightarrow> datetime \<Rightarrow> 'w worker \<Rightarrow> ('r \<times> wlocal, bool) io" where
  "cron_tick R C after inject new_id time halt stop now W =
     andThen (get_local wl_cron_jobs) (\<lambda>all_jobs.
       let seen = length (takeWhile (\<lambda>i. \<not> halt i) [0..<length all_jobs]);
           (jobs, due_jobs) = due_cron_jobs after now (take seen all_jobs)
       in andThen (on_local (\<lambda>l. l\<lparr>wl_cron_jobs := jobs @ drop seen all_jobs\<rparr>)) (\<lambda>_.
          if seen < length all_jobs then ret False
          else
            andThen (on_db (enqueue_all_due R C inject new_id time stop (w_settings W) due_jobs)) (\<lambda>go_on.
              if go_on then
                andThen (on_local (\<lambda>l. l\<lparr>wl_cron_jobs := foldl (reschedule after now) (wl_cron_jobs l) due_jobs\<rparr>))
                  (\<lambda>_. ret True)
              else ret False)))"

section \<open>Draining\<close>

definition close_runners :: "'r worker \<Rightarrow> ('r \<times> wlocal, unit) io" where
  "close_runners W = on_db (forEach (w_runners W) (\<lambda>(_, runner). ignore (attempt (rn_close runner))))"

definition cancel_hint :: "'r worker \<Rightarrow> string \<times> RunningJobInfo \<Rightarrow> ('r, unit) io" where
  "cancel_hint W = (\<lambda>(job_id, info).
     let resolved_runner = (case ri_runner_name info of
             Some r \<Rightarrow> r
           | None \<Rightarrow> or_default (resolve_routed_runner (w_routes W) (ri_queue_name info)) (w_default_runner W))
     in case map_of (w_runners W) resolved_runner of
          None \<Rightarrow> ret ()
        | Some runner \<Rightarrow> ignore (attempt (rn_cancel runner job_id (ri_request_id info))))"

definition requeue_interrupted ::
  "'r redis \<Rightarrow> codec \<Rightarrow> datetime \<Rightarrow> 'w worker \<Rightarrow> string \<times> RunningJobInfo \<Rightarrow> ('r, unit) io" where
  "requeue_interrupted R C now W = (\<lambda>(job_id, info).
     andThen (get_job_definition R C (default_max_retries (w_settings W)) job_id) (\<lambda>job_opt.
     andThen (case job_opt of
         None \<Rightarrow> ret ()
       | Some job \<Rightarrow>
           if j_status job \<in> {Active, Pending, Retrying} then
             ignore (attempt (atomic_requeue_job R job_id (ri_queue_name info) (of_int (timestamp_millis now))
               (if j_status job = Active then interrupted_message else []) (w_id W) (Some (w_id W)) None))
           else ret ()) (\<lambda>_.
     andThen (attempt (remove_active_job R (w_id W) job_id)) (\<lambda>_.
     ignore (attempt (release_job_lock_if_owner R job_id (w_id W)))))))"

text \<open>
  \<open>clock\<close> is the instant of the call, \<open>wait\<close> what the tasks do within the grace period, which begins once its length is
  known: a length that no \<open>Duration\<close> or \<open>Instant\<close> holds panics.
\<close>

definition drain_tasks ::
  "'r redis \<Rightarrow> codec \<Rightarrow> (string \<Rightarrow> datetime) \<Rightarrow> int \<Rightarrow> ('r \<times> wlocal \<Rightarrow> 'r \<times> wlocal) \<Rightarrow> 'r worker
    \<Rightarrow> ('r \<times> wlocal, unit) io" where
  "drain_tasks R C now clock wait W =
     andThen (\<lambda>s. (duration_from_secs_f64 (worker_shutdown_grace_period_seconds (w_settings W)), s)) (\<lambda>grace.
     andThen (\<lambda>s. (instant_add clock grace, s)) (\<lambda>deadline.
     andThen (\<lambda>s. (Ok (), wait s)) (\<lambda>_.
     andThen (get_local wl_running) (\<lambda>running.
     if running = [] then ret ()
     else
       andThen (get_local wl_aborts) (\<lambda>aborts.
       andThen (if runner_enable_inflight_cancel_hints (w_settings W)
                then on_db (forEach running (cancel_hint W)) else ret ()) (\<lambda>_.
       andThen (on_local (\<lambda>l. l\<lparr>wl_aborted := wl_aborted l @ aborts\<rparr>)) (\<lambda>_.
       andThen (close_runners W) (\<lambda>_.
       on_db (forEach running (\<lambda>(job_id, info). requeue_interrupted R C (now job_id) W (job_id, info)))))))))))"

text \<open>The settings are not checked for it, so a worker with a negative grace period panics as it shuts down: the jobs it
  runs are not put back into their queues, and their locks and its runners stay.\<close>

lemma drain_tasks_panics:
  "worker_shutdown_grace_period_seconds (w_settings W) < 0
     \<Longrightarrow> drain_tasks R C now clock wait W s = (Panic ''Duration::from_secs_f64'', s)"
  by (simp add: drain_tasks_def andThen_def duration_from_secs_f64_def)

section \<open>The main loop\<close>

record round_env =
  re_stop :: bool \<comment> \<open>the shutdown flag at the head of the loop\<close>
  re_poll :: poll_env

text \<open>
  One list element per round, with what other tasks do after it (while the worker sleeps).
  The result says whether the loop has ended; it goes on when the observations are used up.
\<close>

fun run_loop ::
  "'r redis \<Rightarrow> codec \<Rightarrow> 'r worker \<Rightarrow> (round_env \<times> ('r \<times> wlocal \<Rightarrow> 'r \<times> wlocal)) list \<Rightarrow> ('r \<times> wlocal, bool) io"
where
  "run_loop R C W [] = ret False"
| "run_loop R C W ((env, meanwhile) # rounds) =
     (if re_stop env then ret True
      else
        andThen (get_local wl_permits) (\<lambda>available.
          let running = w_concurrency W - available;
              fetch_count = w_concurrency W - running
          in if fetch_count = 0 then
               andThen (on_local (\<lambda>l. l\<lparr>wl_status := ''idle (concurrency limit)''\<rparr>)) (\<lambda>_.
               andThen (\<lambda>s. (Ok (), meanwhile s)) (\<lambda>_. run_loop R C W rounds))
             else
               andThen (on_local (\<lambda>l. l\<lparr>wl_status := ''polling''\<rparr>)) (\<lambda>_.
               andThen (poll_for_jobs R C (re_poll env) W fetch_count) (\<lambda>fetched.
                 if fetched = 0 then
                   andThen (get_local (\<lambda>l. length (wl_running l))) (\<lambda>running_jobs.
                     if w_burst W \<and> running_jobs = 0 then ret True
                     else
                       andThen (on_local (\<lambda>l. l\<lparr>wl_status := ''idle (no jobs)''\<rparr>)) (\<lambda>_.
                       andThen (\<lambda>s. (Ok (), meanwhile s)) (\<lambda>_. run_loop R C W rounds)))
                 else andThen (\<lambda>s. (Ok (), meanwhile s)) (\<lambda>_. run_loop R C W rounds)))))"

definition schedule_all :: "cron_after \<Rightarrow> datetime \<Rightarrow> CronJob list \<Rightarrow> CronJob list" where
  "schedule_all after now jobs =
     map (\<lambda>job. case schedule_next after job now of Inl _ \<Rightarrow> job | Inr job' \<Rightarrow> job') jobs"

definition run ::
  "'r redis \<Rightarrow> codec \<Rightarrow> cron_after \<Rightarrow> datetime \<Rightarrow> (string \<Rightarrow> datetime) \<Rightarrow> int \<Rightarrow> ('r \<times> wlocal \<Rightarrow> 'r \<times> wlocal)
    \<Rightarrow> (round_env \<times> ('r \<times> wlocal \<Rightarrow> 'r \<times> wlocal)) list \<Rightarrow> 'r worker \<Rightarrow> ('r \<times> wlocal, bool) io" where
  "run R C after start_time now clock wait rounds W =
     andThen (on_local (\<lambda>l. l\<lparr>wl_status := ''running'',
         wl_cron_jobs := schedule_all after start_time (wl_cron_jobs l @ cron_jobs (w_settings W))\<rparr>)) (\<lambda>_.
     andThen (run_loop R C W rounds) (\<lambda>ended.
       if ended then
         andThen (on_local (\<lambda>l. l\<lparr>wl_shutdown := True\<rparr>)) (\<lambda>_.
         andThen (drain_tasks R C now clock wait W) (\<lambda>_. ret True))
       else ret False))"

end
