(* ===== verification/Worker_Facts.thy ===== *)
theory Worker_Facts
  imports Worker_Upkeep Store_Facts
begin

text \<open>
  What holds for every operation of the worker on Redis: on a server that meets the interface it
  does what it does on keyspaces, and it keeps the keyspace well typed. With it the rules for
  the operations on a worker's own tables.
\<close>

section \<open>Local state\<close>

lemma on_db_run: "m s = (r, s') \<Longrightarrow> on_db m (s, l) = (r, (s', l))"
  by (simp add: on_db_def)

lemma local_run [simp]:
  "on_local f (s, l) = (Ok (), (s, f l))" "get_local g (s, l) = (Ok (g l), (s, l))"
  by (simp_all add: on_local_def get_local_def)

lemma andThen_local [simp]:
  "andThen (on_local f) k (s, l) = k () (s, f l)" "andThen (get_local g) h (s, l) = h (g l) (s, l)"
  by (simp_all add: andThen_def)

lemma attempt_on_db: "attempt (on_db m) = on_db (attempt m)"
  by (auto simp: attempt_def on_db_def fun_eq_iff split: prod.split res.split)

lemma sim_on_db [sim_rules]: "sim d m n \<Longrightarrow> sim (map_prod d id) (on_db m) (on_db n)"
  by (auto simp: sim_def on_db_def split_beta)

lemma sim_local [sim_rules]:
  "sim (map_prod d id) (on_local f) (on_local f)" "sim (map_prod d id) (get_local g) (get_local g)"
  by (auto simp: sim_def)

lemma hm_insert_lookup [simp]: "map_of (hm_insert k v m) j = (if j = k then Some v else map_of m j)"
  by (induction m) (auto simp: hm_insert_def)

lemma hm_remove_keys [simp]: "fst ` set (hm_remove k m) = fst ` set m - {k}"
  by (auto simp: hm_remove_def)

lemma hm_insert_keys [simp]: "fst ` set (hm_insert k v m) = insert k (fst ` set m)"
  by (auto simp: hm_insert_def)

lemma hm_modify_keys [simp]: "map fst (hm_modify k f m) = map fst m"
  by (simp add: hm_modify_def comp_def split_def)

lemma hm_modify_key_set [simp]: "fst ` set (hm_modify k f m) = fst ` set m"
  by (metis hm_modify_keys list.set_map)

section \<open>Refinement\<close>

context redis_server
begin

lemma outcome_sims [sim_rules]:
  "sim db (move_to_dlq R C now st job m) (move_to_dlq ks_redis C now st job m)"
  "sim db (handle_job_timeout R C now st job m) (handle_job_timeout ks_redis C now st job m)"
  "sim db (handle_fatal_job_error R C now st job m) (handle_fatal_job_error ks_redis C now st job m)"
  "sim db (schedule_retry R C clk st job m d) (schedule_retry ks_redis C clk st job m d)"
  "sim db (process_retry_job R C clk st job m ra) (process_retry_job ks_redis C clk st job m ra)"
  "sim db (process_failure_job R C clk st job m) (process_failure_job ks_redis C clk st job m)"
  unfolding process_retry_job_def process_failure_job_def handle_job_timeout_def handle_fatal_job_error_def
    schedule_retry_def move_to_dlq_def Let_def
  by (intro sim_rules)+

lemma handle_execution_outcome_sim [sim_rules]:
  "sim db (handle_execution_outcome R C clk st job oc) (handle_execution_outcome ks_redis C clk st job oc)"
  unfolding handle_execution_outcome_def Let_def
  by (cases "xo_status oc") (auto intro!: sim_rules)

lemma handle_exec_result_sim:
  "sim db (handle_exec_result R C clk W job n res) (handle_exec_result ks_redis C clk W job n res)"
  unfolding handle_exec_result_def
  by (cases res; simp; intro sim_rules)

lemma cleanup_running_sim [sim_rules]:
  "sim (map_prod db id) (cleanup_running R w j) (cleanup_running ks_redis w j)"
  unfolding cleanup_running_def by (intro sim_rules)

lemma claim_sims [sim_rules]:
  "sim db (lock_owned_by_other R w j) (lock_owned_by_other ks_redis w j)"
  "sim db (queue_unless_queued R now q j) (queue_unless_queued ks_redis now q j)"
  "sim db (requeue_claimed_job_if_needed R now q j job e) (requeue_claimed_job_if_needed ks_redis now q j job e)"
  "sim db (requeue_claimed_job_without_definition R now q j e)
          (requeue_claimed_job_without_definition ks_redis now q j e)"
  "sim db (cleanup_claimed_job_state R w j) (cleanup_claimed_job_state ks_redis w j)"
  unfolding lock_owned_by_other_def queue_unless_queued_def requeue_claimed_job_if_needed_def
    requeue_claimed_job_without_definition_def cleanup_claimed_job_state_def
  by (intro sim_rules sim_case_sum; auto intro!: sim_rules split: bool.split)+

lemma release_sims [sim_rules]:
  "sim db (release_claimed_job R now w q j jo e) (release_claimed_job ks_redis now w q j jo e)"
  "sim db (release_claimed_job_without_definition R now w q j e)
          (release_claimed_job_without_definition ks_redis now w q j e)"
  unfolding release_claimed_job_def release_claimed_job_without_definition_def Let_def
  by (intro sim_rules)+

lemma recovery_sims [sim_rules]:
  "sim db (drop_orphan R w a j ow) (drop_orphan ks_redis w a j ow)"
  "sim db (recover_known_job R C st now w j job) (recover_known_job ks_redis C st now w j job)"
  "sim db (recover_job R C st now w j) (recover_job ks_redis C st now w j)"
  unfolding recover_job_def recover_known_job_def drop_orphan_def Let_def
  by (intro sim_rules; auto intro!: sim_rules split: OrphanRequeuePostAction.split)+

end

section \<open>Typing\<close>

lemma outcome_keeps [keep_rules]:
  "keeps well_typed (move_to_dlq ks_redis C now st job m)"
  "keeps well_typed (handle_job_timeout ks_redis C now st job m)"
  "keeps well_typed (handle_fatal_job_error ks_redis C now st job m)"
  "keeps well_typed (schedule_retry ks_redis C clk st job m d)"
  "keeps well_typed (process_retry_job ks_redis C clk st job m ra)"
  "keeps well_typed (process_failure_job ks_redis C clk st job m)"
  unfolding process_retry_job_def process_failure_job_def handle_job_timeout_def handle_fatal_job_error_def
    schedule_retry_def move_to_dlq_def Let_def
  by (intro keep_rules)+

lemma handle_execution_outcome_keeps [keep_rules]:
  "keeps well_typed (handle_execution_outcome ks_redis C clk st job oc)"
  unfolding handle_execution_outcome_def Let_def
  by (cases "xo_status oc") (auto intro!: keep_rules)

section \<open>No panics\<close>

lemma outcome_calm [calm_rules]:
  "calm (move_to_dlq ks_redis C now st job m)"
  "calm (handle_job_timeout ks_redis C now st job m)"
  "calm (schedule_retry ks_redis C clk st job m d)"
  "calm (process_retry_job ks_redis C clk st job m ra)"
  "calm (process_failure_job ks_redis C clk st job m)"
  unfolding process_retry_job_def process_failure_job_def handle_job_timeout_def schedule_retry_def
    move_to_dlq_def Let_def
  by (intro calm_rules)+

lemma handle_exec_result_facts:
  "keeps well_typed (handle_exec_result ks_redis C clk W job n res)"
  "calm (handle_exec_result ks_redis C clk W job n res)"
proof -
  have "calm (handle_execution_outcome ks_redis C clk st job oc)" for st oc
    unfolding handle_execution_outcome_def Let_def handle_fatal_job_error_def
    by (cases "xo_status oc") (auto intro!: calm_rules)
  then show "calm (handle_exec_result ks_redis C clk W job n res)"
    unfolding handle_exec_result_def
    by (auto intro!: calm_rules split: RunnerExecutionResult.split)
  show "keeps well_typed (handle_exec_result ks_redis C clk W job n res)"
    unfolding handle_exec_result_def
    by (auto intro!: keep_rules split: RunnerExecutionResult.split)
qed

end
