(* ===== verification/Worker_Properties.thy ===== *)
theory Worker_Properties
  imports Worker_Facts Store_Properties
begin

text \<open>
  What the worker promises: which runner a queue's jobs go to, the backoff and the retry budget,
  and how a batch is given back.
\<close>

section \<open>Routing\<close>

lemma find_None_all: "List.find P xs = None \<longleftrightarrow> (\<forall>x \<in> set xs. \<not> P x)"
  by (induction xs) auto

lemma sorted_remdups_adj:
  "sorted xs \<Longrightarrow> sorted (remdups_adj xs) \<and> distinct (remdups_adj (xs :: 'a :: linorder list))"
  by (induction xs rule: remdups_adj.induct) auto

definition runner_of_queue :: "'r worker \<Rightarrow> string \<Rightarrow> 'r runner option" where
  "runner_of_queue W q =
     map_of (w_runners W) (or_default (resolve_routed_runner (w_routes W) q) (w_default_runner W))"

text \<open>C16. A worker that starts serves at least one queue, each once and under its full name, in
  alphabetical order, can run at least one job at a time, and has a runner for every one of its
  queues: a job whose function names no runner always finds one.\<close>

theorem new_worker_routes:
  assumes "new_worker settings queues worker_id runner_map burst concurrency pid fresh = Inr (W, l)"
  shows "w_queues W \<noteq> [] \<and> sorted (w_queues W) \<and> distinct (w_queues W)
    \<and> (\<forall>q \<in> set (w_queues W). starts_with q QUEUE_KEY_PREFIX \<and> runner_of_queue W q \<noteq> None)
    \<and> 0 < w_concurrency W \<and> wl_permits l = w_concurrency W \<and> 0 < w_claim_timeout_ms W"
proof -
  have ms: "provisional_claim_lock_timeout_ms st = Inr n \<Longrightarrow> 0 < n" for st n
    by (auto simp: provisional_claim_lock_timeout_ms_def split: if_splits option.splits)
  have prefixed: "starts_with (normalize_queue_name q) QUEUE_KEY_PREFIX" for q
    by (simp add: normalize_queue_name_def starts_with_def)
  show ?thesis
    using assms
    by (auto simp: new_worker_def Let_def runner_of_queue_def find_None_all list_ex_iff or_default_def
        sorted_remdups_adj prefixed
        split: if_splits option.splits sum.splits dest: ms)
      (metis option.distinct(1))+
qed



lemma default_settings_names [simp]:
  "default_queue_name default_settings = ''rrq:queue:default''" "default_runner_name default_settings = ''python''"
  "runner_routes default_settings = []" "default_dlq_name default_settings = ''rrq:dlq:default''"
  by (simp_all add: default_settings_def)

definition idle_runner :: "'r runner" where
  "idle_runner = \<lparr> rn_execute_with_timeout = \<lambda>_ _ _. ret ExecTimedOut, rn_cancel = \<lambda>_ _. ret (), rn_close = ret () \<rparr>"

lemma new_worker_default:
  "\<exists>W l. new_worker default_settings None None [(''python'', idle_runner)] False 4 7 ''0a1b2c3d'' = Inr (W, l)"
  by (simp add: new_worker_def Let_def resolve_routed_runner_def normalize_queue_name_def
      starts_with_def QUEUE_KEY_PREFIX_def provisional_claim_lock_timeout_ms_def i64_ok_def strip_prefix_def
      checked_i64_def)

theorem new_worker_routes_witness:
  "\<exists>(W :: unit worker) l.
     new_worker default_settings None None [(''python'', idle_runner)] False 4 7 ''0a1b2c3d'' = Inr (W, l)
     \<and> w_queues W \<noteq> [] \<and> wl_permits l = w_concurrency W"
  using new_worker_default new_worker_routes by blast

section \<open>Backoff\<close>

text \<open>The delay before a retry grows with the attempt, is bounded by the configured maximum,
  and never lies below the base delay when the maximum does not.\<close>

theorem calculate_backoff_bounds:
  assumes "0 \<le> base_retry_delay_seconds settings" "1 \<le> m" "m \<le> n" "n < 4294967296"
  shows "calculate_backoff_seconds settings m \<le> calculate_backoff_seconds settings n
    \<and> calculate_backoff_seconds settings n \<le> max_retry_delay_seconds settings
    \<and> min (base_retry_delay_seconds settings) (max_retry_delay_seconds settings)
        \<le> calculate_backoff_seconds settings m
    \<and> calculate_backoff_seconds settings 1
        = min (base_retry_delay_seconds settings) (max_retry_delay_seconds settings)"
proof -
  let ?e = "\<lambda>k :: int. min (nat k - 1) 30"
  have b: "calculate_backoff_seconds settings k
      = min (base_retry_delay_seconds settings * of_nat (2 ^ ?e k)) (max_retry_delay_seconds settings)"
    if "1 \<le> k" "k < 4294967296" for k
    using that by (simp add: calculate_backoff_seconds_def Let_def mod_pos_pos_trivial)
  have "?e m \<le> ?e n" using assms by auto
  then have "(2 :: nat) ^ ?e m \<le> 2 ^ ?e n" by (intro power_increasing) auto
  then have "(of_nat (2 ^ ?e m) :: rat) \<le> of_nat (2 ^ ?e n)" by (simp only: of_nat_le_iff)
  then have grow: "base_retry_delay_seconds settings * of_nat (2 ^ ?e m)
      \<le> base_retry_delay_seconds settings * of_nat (2 ^ ?e n)"
    using assms(1) by (rule mult_left_mono)
  have "(1 :: rat) \<le> of_nat (2 ^ ?e m)" by (simp add: one_le_power)
  then have "base_retry_delay_seconds settings * 1 \<le> base_retry_delay_seconds settings * of_nat (2 ^ ?e m)"
    using assms(1) by (rule mult_left_mono)
  then show ?thesis
    using assms grow by (auto simp: b min_le_iff_disj)
qed

theorem calculate_backoff_bounds_witness:
  "calculate_backoff_seconds default_settings 2 = 10 \<and> calculate_backoff_seconds default_settings 40 = 3600
   \<and> calculate_backoff_seconds default_settings 2 \<le> calculate_backoff_seconds default_settings 40"
  using calculate_backoff_bounds [of default_settings 2 40]
  by (simp add: calculate_backoff_seconds_def Let_def)

section \<open>The retry budget\<close>

lemma dlq_state_views [simp]:
  "0 < ttl \<Longrightarrow> hash_at (dlq_state C j d m t ttl n ks) (format_job_key j)
     = hash_put ((''current_retries'', show_int (n + 1)) # dlq_fields m (to_rfc3339 C t)) (hash_at ks (format_job_key j))"
  "0 < ttl \<Longrightarrow> list_at (dlq_state C j d m t ttl n ks) (format_dlq_key d) = j # list_at ks (format_dlq_key d)"
  "0 < ttl \<Longrightarrow> zset_at (dlq_state C j d m t ttl n ks) (format_queue_key q) = zset_at ks (format_queue_key q)"
  by (simp_all add: dlq_state_def set_opt_ttl_def)

lemma unique_key_form: "UNIQUE_JOB_LOCK_PREFIX @ k = format_unique_key k"
  by (simp add: format_unique_key_def)

lemma unique_key_not_Nil [simp]: "format_unique_key k \<noteq> []"
  by (simp add: format_unique_key_def UNIQUE_JOB_LOCK_PREFIX_def)

definition dlq_of :: "RRQSettings \<Rightarrow> job \<Rightarrow> string" where
  "dlq_of st job = (case j_dlq_name job of None \<Rightarrow> default_dlq_name st | Some d \<Rightarrow> d)"

definition free_unique :: "job \<Rightarrow> keyspace \<Rightarrow> keyspace" where
  "free_unique job ks = (case j_unique_key job of None \<Rightarrow> ks | Some k \<Rightarrow> del_key (format_unique_key k) ks)"

lemma worker_dlq_effect:
  assumes "well_typed ks" "hash_int (hash_at ks (format_job_key (j_id job))) ''current_retries'' = Some n"
    "i64_ok (n + 1)" "0 \<le> n + 1"
  shows "move_to_dlq ks_redis C now st job m ks
    = (Ok (), free_unique job (dlq_state C (j_id job) (dlq_of st job) m now DEFAULT_DLQ_RESULT_TTL_SECONDS n ks))"
proof -
  have ttl: "i64_ok (DEFAULT_DLQ_RESULT_TTL_SECONDS * 1000)"
    by (simp add: DEFAULT_DLQ_RESULT_TTL_SECONDS_def i64_ok_def)
  show ?thesis
    using assms(4) dlq_effect [OF assms(1-3) ttl, of C "dlq_of st job" m now
        "map_option (\<lambda>k. UNIQUE_JOB_LOCK_PREFIX @ k) (j_unique_key job)"]
    by (cases "j_unique_key job")
      (simp_all add: move_to_dlq_def andThen_def ret_def dlq_of_def free_unique_def unique_key_form Let_def)
qed

definition target_queue :: "RRQSettings \<Rightarrow> job \<Rightarrow> string" where
  "target_queue st job = normalize_queue_name
     (case j_queue_name job of None \<Rightarrow> default_queue_name st | Some q \<Rightarrow> q)"

definition retry_state :: "codec \<Rightarrow> (nat \<Rightarrow> datetime) \<Rightarrow> RRQSettings \<Rightarrow> job \<Rightarrow> string \<Rightarrow> rat \<Rightarrow> int \<Rightarrow> keyspace \<Rightarrow> keyspace"
  where
  "retry_state C clk st job m d n ks =
     (let score = of_int (timestamp_millis (clk 0)) + d * 1000; k = format_job_key (j_id job);
          qk = format_queue_key (target_queue st job);
          ks1 = put_zset qk (zs_put score (j_id job) (zset_at ks qk))
            (put_hash k (hash_put [(''current_retries'', show_int (n + 1)), (''status'', as_str Retrying),
               (''last_error'', m)] (hash_at ks k)) ks)
      in put_hash k (hash_put [(''next_scheduled_run_time'', to_rfc3339 C (time_of_score score (clk 1)))]
           (hash_at ks1 k)) ks1)"

lemma schedule_retry_effect:
  assumes "well_typed ks" "hash_int (hash_at ks (format_job_key (j_id job))) ''current_retries'' = Some n"
    "i64_ok (n + 1)"
  shows "schedule_retry ks_redis C clk st job m d ks = (Ok (), retry_state C clk st job m d n ks)"
  using assms
  by (simp add: schedule_retry_def andThen_def attempt_def ignore_def ret_def retry_effect next_run_effect
      retry_state_def target_queue_def Let_def)

lemma retry_state_views:
  assumes "well_typed ks"
  shows "hash_at (retry_state C clk st job m d n ks) (format_job_key (j_id job))
     = hash_put [(''current_retries'', show_int (n + 1)), (''status'', as_str Retrying), (''last_error'', m),
          (''next_scheduled_run_time'', to_rfc3339 C (time_of_score (of_int (timestamp_millis (clk 0)) + d * 1000) (clk 1)))]
         (hash_at ks (format_job_key (j_id job)))"
    "zs_score i (zset_at (retry_state C clk st job m d n ks) (format_queue_key (target_queue st job)))
     = (if i = j_id job then Some (of_int (timestamp_millis (clk 0)) + d * 1000)
        else zs_score i (zset_at ks (format_queue_key (target_queue st job))))"
  using assms by (simp_all add: retry_state_def Let_def hash_put_append)

definition retry_delay :: "RRQSettings \<Rightarrow> job \<Rightarrow> rat option \<Rightarrow> rat" where
  "retry_delay st job ra = or_default ra (calculate_backoff_seconds st (j_current_retries job + 1))"

text \<open>C17. The retry budget. A failed attempt counts. When it was the last one allowed the job is FAILED
  at the head of its dead letter queue, no queue changes, and its unique key is free; otherwise the
  job is RETRYING, queued again after the delay the runner asked for or the backoff, and its unique
  key stays held.\<close>

theorem process_retry_job_budget:
  assumes server: "redis_server R db" and wt: "well_typed (db s)"
    and cnt: "hash_int (hash_at (db s) (format_job_key (j_id job))) ''current_retries'' = Some (j_current_retries job)"
      "0 \<le> j_current_retries job" "i64_ok (j_current_retries job + 1)"
  shows "\<exists>s1. process_retry_job R C clk settings job msg retry_after s = (Ok (), s1)
    \<and> (let n = j_current_retries job + 1; h = hash_at (db s1) (format_job_key (j_id job)) in
         fmlookup h ''current_retries'' = Some (show_int n) \<and> fmlookup h ''last_error'' = Some msg
       \<and> (if j_max_retries job \<le> n then
            Option.bind (fmlookup h ''status'') parse_status = Some Failed
          \<and> hd (list_at (db s1) (format_dlq_key (dlq_of settings job))) = j_id job
          \<and> (\<forall>q. zset_at (db s1) (format_queue_key q) = zset_at (db s) (format_queue_key q))
          \<and> (\<forall>k. j_unique_key job = Some k \<longrightarrow> db s1 (format_unique_key k) = None)
          else
            Option.bind (fmlookup h ''status'') parse_status = Some Retrying
          \<and> zs_score (j_id job) (zset_at (db s1) (format_queue_key (target_queue settings job)))
              = Some (of_int (timestamp_millis (clk 0)) + retry_delay settings job retry_after * 1000)
          \<and> (\<forall>k. db s1 (format_unique_key k) = db s (format_unique_key k))))"
proof (cases "j_max_retries job \<le> j_current_retries job + 1")
  case True
  let ?ks = "dlq_state C (j_id job) (dlq_of settings job) msg (clk 0) DEFAULT_DLQ_RESULT_TTL_SECONDS
      (j_current_retries job) (db s)"
  have ttl: "0 < DEFAULT_DLQ_RESULT_TTL_SECONDS" by (simp add: DEFAULT_DLQ_RESULT_TTL_SECONDS_def)
  have "process_retry_job ks_redis C clk settings job msg retry_after (db s) = (Ok (), free_unique job ?ks)"
    using True cnt worker_dlq_effect [OF wt cnt(1,3)] by (simp add: process_retry_job_def wrap64_id Let_def)
  then obtain s1 where s1: "process_retry_job R C clk settings job msg retry_after s = (Ok (), s1)"
    "db s1 = free_unique job ?ks"
    using sim_run [OF redis_server.outcome_sims(5) [OF server]] by blast
  show ?thesis
    by (rule exI [of _ s1])
      (use True ttl in \<open>simp add: s1 free_unique_def dlq_fields_def parse_status_def split: option.split\<close>)
next
  case False
  let ?ks = "retry_state C clk settings job msg (retry_delay settings job retry_after) (j_current_retries job) (db s)"
  have "process_retry_job ks_redis C clk settings job msg retry_after (db s) = (Ok (), ?ks)"
    using False cnt schedule_retry_effect [OF wt cnt(1,3)]
    by (simp add: process_retry_job_def wrap64_id retry_delay_def or_default_def Let_def)
  then obtain s1 where s1: "process_retry_job R C clk settings job msg retry_after s = (Ok (), s1)" "db s1 = ?ks"
    using sim_run [OF redis_server.outcome_sims(5) [OF server]] by blast
  have "db s1 (format_unique_key k) = db s (format_unique_key k)" for k
    by (simp add: s1(2) retry_state_def Let_def)
  then show ?thesis
    by (intro exI [of _ s1]) (use False wt in \<open>simp add: s1 retry_state_views parse_status_def as_str_def\<close>)
qed

theorem process_retry_job_budget_witness:
  "fst (process_retry_job ks_redis simple_codec (\<lambda>_. 5000000) default_settings
      ((sample_job ''a'')\<lparr>j_current_retries := 1\<rparr>) ''boom'' None busy_keyspace) = Ok ()
   \<and> fst (process_retry_job ks_redis simple_codec (\<lambda>_. 5000000) default_settings
      ((sample_job ''a'')\<lparr>j_current_retries := 1, j_max_retries := 2\<rparr>) ''boom'' None busy_keyspace) = Ok ()"
  using process_retry_job_budget [OF reference.redis_server_axioms, where s = busy_keyspace
      and C = simple_codec and clk = "\<lambda>_. 5000000" and settings = default_settings and msg = "''boom''"
      and retry_after = None and job = "(sample_job ''a'')\<lparr>j_current_retries := 1\<rparr>"]
    process_retry_job_budget [OF reference.redis_server_axioms, where s = busy_keyspace
      and C = simple_codec and clk = "\<lambda>_. 5000000" and settings = default_settings and msg = "''boom''"
      and retry_after = None and job = "(sample_job ''a'')\<lparr>j_current_retries := 1, j_max_retries := 2\<rparr>"]
  by (auto simp: i64_ok_def)


section \<open>Giving back a batch\<close>

lemma nth_def_drop: "nth_def (drop k xs) i = nth_def xs (k + i)"
  by (auto simp: nth_def_def)

lemma drop_nth_Cons:
  "i < length xs \<Longrightarrow> drop i xs = xs ! i # drop (Suc i) xs"
  by (rule Cons_nth_drop_Suc [symmetric])

lemma forEach_map: "forEach (map f xs) g = forEach xs (\<lambda>x. g (f x))"
  by (induction xs) simp_all

lemma enumerate_shift: "enumerate (Suc n) xs = map (\<lambda>(i, x). (Suc i, x)) (enumerate n xs)"
  by (induction xs arbitrary: n) auto

text \<open>Giving back a batch from the job that failed on, which the code does by hand for the first
  job and by a second loop over the rest, is one loop over the remaining jobs: each of them is given
  back exactly once, in order, with the definition loaded for it.\<close>

theorem release_claimed_jobs_from_index_is_loop:
  "release_claimed_jobs_from_index R C now W queue_name claimed job_defs index pending_error
   = release_remaining_claimed_jobs R C now W queue_name (drop index claimed) (drop index job_defs) pending_error"
proof (cases "length claimed \<le> index")
  case True
  then show ?thesis
    by (simp add: release_claimed_jobs_from_index_def release_remaining_claimed_jobs_def)
next
  case False
  then have "index < length claimed" by simp
  then show ?thesis
    by (simp add: release_claimed_jobs_from_index_def release_remaining_claimed_jobs_def drop_nth_Cons
        enumerate_shift forEach_map nth_def_drop case_prod_unfold)
qed

end
