(* ===== verification/Worker_Polling.thy ===== *)
theory Worker_Polling
  imports Worker_Properties
begin

text \<open>
  The bookkeeping of a poll. \<open>ensures Q m\<close> says how \<open>m\<close> changes a worker's own tables, whatever
  Redis answers; with rules for the control structures it carries over from the dispatch of a batch
  to the queues of a poll.
\<close>

section \<open>How a program changes the tables\<close>

definition ensures :: "('l \<Rightarrow> 'a res \<Rightarrow> 'l \<Rightarrow> bool) \<Rightarrow> ('r \<times> 'l, 'a) io \<Rightarrow> bool" where
  "ensures Q m \<longleftrightarrow> (\<forall>s l r s' l'. m (s, l) = (r, (s', l')) \<longrightarrow> Q l r l')"

lemma ensuresI: "(\<And>s l r s' l'. m (s, l) = (r, (s', l')) \<Longrightarrow> Q l r l') \<Longrightarrow> ensures Q m"
  by (simp add: ensures_def)

lemma ensuresD: "ensures Q m \<Longrightarrow> m (s, l) = (r, (s', l')) \<Longrightarrow> Q l r l'"
  by (simp add: ensures_def)

lemma ensures_ret: "(\<And>l. Q l (Ok x) l) \<Longrightarrow> ensures Q (ret x)"
  by (simp add: ensures_def ret_def)

lemma ensures_fail: "(\<And>l. Q l (Err e) l) \<Longrightarrow> ensures Q (fail e)"
  by (simp add: ensures_def fail_def)

definition quiet :: "('l \<Rightarrow> 'a res \<Rightarrow> 'l \<Rightarrow> bool) \<Rightarrow> bool" where
  "quiet Q \<longleftrightarrow> (\<forall>l. (\<forall>e. Q l (Err e) l) \<and> (\<forall>p. Q l (Panic p) l))"

lemma ensures_on_db:
  assumes "quiet Q" "\<And>x. ensures Q (k x)"
  shows "ensures Q (andThen (on_db m) k)"
proof (rule ensuresI)
  fix s l r s' l'
  assume run: "andThen (on_db m) k (s, l) = (r, (s', l'))"
  obtain q t where "m s = (q, t)" by (cases "m s")
  then have "on_db m (s, l) = (q, (t, l))" by (rule on_db_run)
  then show "Q l r l'"
    using run assms(1) ensuresD [OF assms(2)] by (cases q) (auto simp: andThen_def quiet_def)
qed

lemma ensures_attempt_on_db:
  assumes "quiet Q" "\<And>x. ensures Q (k x)"
  shows "ensures Q (andThen (attempt (on_db m)) k)"
  unfolding attempt_on_db by (rule ensures_on_db [OF assms])

text \<open>The bookkeeping of \<open>n\<close> newly spawned tasks.\<close>

definition spawned :: "nat \<Rightarrow> wlocal \<Rightarrow> wlocal \<Rightarrow> bool" where
  "spawned n l l' \<longleftrightarrow> (\<exists>new. length new = n \<and> wl_spawned l' = wl_spawned l @ new
     \<and> wl_permits l' = wl_permits l - n
     \<and> fst ` set (wl_running l') = fst ` set (wl_running l) \<union> (\<lambda>p. j_id (fst p)) ` set new
     \<and> set (wl_aborts l') = set (wl_aborts l) \<union> (\<lambda>p. j_id (fst p)) ` set new
     \<and> wl_status l' = wl_status l \<and> wl_cursor l' = wl_cursor l \<and> wl_cron_jobs l' = wl_cron_jobs l)"

lemma spawned_0 [simp]: "spawned 0 l l"
  by (simp add: spawned_def)

lemma spawned_step: "spawned n (spawn_job q t job l) l' \<Longrightarrow> spawned (Suc n) l l'"
  unfolding spawned_def
  by (elim exE, rule_tac x = "(job\<lparr>j_start_time := Some (or_default (j_start_time job) t)\<rparr>, q) # new" in exI)
    (auto simp: spawn_job_def Let_def)

lemma spawned_trans:
  assumes "spawned m l l1" "spawned n l1 l2"
  shows "spawned (m + n) l l2"
proof -
  obtain new1 where 1: "length new1 = m" "wl_spawned l1 = wl_spawned l @ new1"
     "wl_permits l1 = wl_permits l - m"
     "fst ` set (wl_running l1) = fst ` set (wl_running l) \<union> (\<lambda>p. j_id (fst p)) ` set new1"
     "set (wl_aborts l1) = set (wl_aborts l) \<union> (\<lambda>p. j_id (fst p)) ` set new1"
     "wl_status l1 = wl_status l" "wl_cursor l1 = wl_cursor l" "wl_cron_jobs l1 = wl_cron_jobs l"
    using assms(1) by (auto simp: spawned_def)
  obtain new2 where "length new2 = n" "wl_spawned l2 = wl_spawned l1 @ new2"
     "wl_permits l2 = wl_permits l1 - n"
     "fst ` set (wl_running l2) = fst ` set (wl_running l1) \<union> (\<lambda>p. j_id (fst p)) ` set new2"
     "set (wl_aborts l2) = set (wl_aborts l1) \<union> (\<lambda>p. j_id (fst p)) ` set new2"
     "wl_status l2 = wl_status l1" "wl_cursor l2 = wl_cursor l1" "wl_cron_jobs l2 = wl_cron_jobs l1"
    using assms(2) by (auto simp: spawned_def)
  with 1 show ?thesis
    unfolding spawned_def by (intro exI [of _ "new1 @ new2"]) (simp add: Un_assoc image_Un)
qed

text \<open>From \<open>fetched\<close> on, at most \<open>max_jobs - fetched\<close> jobs are spawned, and each is counted.\<close>

definition counted :: "nat \<Rightarrow> ('a \<Rightarrow> nat) \<Rightarrow> nat \<Rightarrow> wlocal \<Rightarrow> 'a res \<Rightarrow> wlocal \<Rightarrow> bool" where
  "counted max_jobs amount fetched l r l' \<longleftrightarrow>
     (\<exists>n. n \<le> max_jobs - fetched \<and> spawned n l l' \<and> (case r of Ok x \<Rightarrow> amount x = fetched + n | _ \<Rightarrow> True))"

lemma counted_quiet [simp]: "quiet (counted m t f)"
  unfolding quiet_def counted_def using spawned_0 by fastforce

lemma counted_now [simp]: "amount x = f \<Longrightarrow> counted m amount f l (Ok x) l"
  unfolding counted_def using spawned_0 by fastforce

lemma counted_spawn:
  assumes "counted m t (Suc f) (spawn_job q tm job l) r l'" "f < m"
  shows "counted m t f l r l'"
proof -
  obtain n where "n \<le> m - Suc f" "spawned n (spawn_job q tm job l) l'"
    "case r of Ok x \<Rightarrow> t x = Suc f + n | _ \<Rightarrow> True"
    using assms(1) by (auto simp: counted_def)
  with assms(2) show ?thesis
    unfolding counted_def by (intro exI [of _ "Suc n"]) (auto simp: spawned_step split: res.splits)
qed

lemma ensures_cases:
  "(b \<Longrightarrow> ensures Q m1) \<Longrightarrow> (\<not> b \<Longrightarrow> ensures Q m2) \<Longrightarrow> ensures Q (if b then m1 else m2)"
  "(z = None \<Longrightarrow> ensures Q m1) \<Longrightarrow> (\<And>x. z = Some x \<Longrightarrow> ensures Q (g x)) \<Longrightarrow>
     ensures Q (case z of None \<Rightarrow> m1 | Some x \<Rightarrow> g x)"
  "(\<And>e. ensures Q (h1 e)) \<Longrightarrow> (\<And>x. ensures Q (h2 x)) \<Longrightarrow> ensures Q (case u of Inl e \<Rightarrow> h1 e | Inr x \<Rightarrow> h2 x)"
  "ensures Q m1 \<Longrightarrow> ensures Q m2 \<Longrightarrow> ensures Q (case c of True \<Rightarrow> m1 | False \<Rightarrow> m2)"
  by (simp_all split: option.split sum.split bool.split)

lemmas ensures_rules = ensures_on_db ensures_attempt_on_db ensures_cases counted_quiet

lemma dispatch_counted:
  "ensures (counted m fst fetched)
     (dispatch_claimed R C env W m pass off q claimed defs index fetched)"
proof (induction "length claimed - index" arbitrary: index fetched)
  case 0
  then show ?case by (subst dispatch_claimed.simps) (simp add: ensures_ret)
next
  case (Suc k)
  have IH: "ensures (counted m fst f) (dispatch_claimed R C env W m pass off q claimed defs (index + 1) f)" for f
    using Suc(1) [of "index + 1" f] Suc(2) by simp
  have spawn: "ensures (counted m fst fetched) (andThen (on_local (spawn_job q t job))
      (\<lambda>_. dispatch_claimed R C env W m pass off q claimed defs (index + 1) (fetched + 1)))"
    if "fetched < m" for t job
    using counted_spawn [OF ensuresD [OF IH [of "fetched + 1", simplified]] that]
    by (intro ensuresI) simp
  have out: "ensures (counted m fst fetched) (fail e)" "ensures (counted m fst fetched) (ret (fetched, b))"
    for e b by (simp_all add: ensures_fail ensures_ret counted_quiet [unfolded quiet_def])
  show ?case
    unfolding dispatch_claimed.simps [of R C env W m pass off q claimed defs index fetched] Let_def
    by (intro ensures_rules out IH spawn) auto
qed


lemma counted_bind:
  assumes "ensures (counted m t f) d" "\<And>x. ensures (counted m u (t x)) (k x)"
  shows "ensures (counted m u f) (andThen d k)"
proof (rule ensuresI)
  fix s l r s' l'
  assume run: "andThen d k (s, l) = (r, (s', l'))"
  obtain q s1 l1 where d: "d (s, l) = (q, (s1, l1))" by (metis prod.collapse)
  obtain n where n: "n \<le> m - f" "spawned n l l1" "case q of Ok x \<Rightarrow> t x = f + n | _ \<Rightarrow> True"
    using ensuresD [OF assms(1) d] by (auto simp: counted_def)
  show "counted m u f l r l'"
  proof (cases q)
    case (Ok x)
    then have "k x (s1, l1) = (r, (s', l'))" and tx: "t x = f + n"
      using run d n(3) by (simp_all add: andThen_def)
    then have "counted m u (f + n) l1 r l'"
      using ensuresD [OF assms(2)] by metis
    then obtain n2 where "n2 \<le> m - (f + n)" "spawned n2 l1 l'" "case r of Ok y \<Rightarrow> u y = f + n + n2 | _ \<Rightarrow> True"
      by (auto simp: counted_def)
    then show ?thesis
      using n spawned_trans [OF n(2)] unfolding counted_def
      by (intro exI [of _ "n + n2"]) (auto split: res.splits)
  qed (use run d n in \<open>auto simp: andThen_def counted_def\<close>)
qed

lemma poll_slots_counted:
  "ensures (counted m (\<lambda>n. n) fetched) (poll_slots R C env W m start slots fetched)"
proof (induction slots arbitrary: fetched)
  case Nil
  then show ?case by (simp add: ensures_ret)
next
  case (Cons slot slots)
  obtain pass off where slot: "slot = (pass, off)" by (cases slot)
  have out: "ensures (counted m (\<lambda>n. n) fetched) (fail e)" "ensures (counted m (\<lambda>n. n) f) (ret f)"
    for e f by (simp_all add: ensures_fail ensures_ret counted_quiet [unfolded quiet_def])
  show ?case
    unfolding slot poll_slots.simps Let_def
    by (intro ensures_rules out Cons.IH counted_bind [OF dispatch_counted])
      (auto intro: ensures_rules out Cons.IH)
qed

text \<open>C18. A poll hands out no more jobs than it was asked for; each of them is given to exactly one
  task, which takes one permit, and is listed as running with its abort handle; what was running
  before still is. The next poll starts at the next queue.\<close>

theorem poll_for_jobs_accounting:
  assumes run: "poll_for_jobs R C env W max_jobs (s, l) = (r, (s', l'))"
  shows "\<exists>n. n \<le> max_jobs \<and> spawned n (l\<lparr>wl_cursor := (wl_cursor l mod length (w_queues W) + 1) mod length (w_queues W)\<rparr>) l'
    \<and> (case r of Ok fetched \<Rightarrow> fetched = n | _ \<Rightarrow> True)
    \<and> (max_jobs \<le> wl_permits l \<longrightarrow> wl_permits l' + length (wl_spawned l') = wl_permits l + length (wl_spawned l))"
proof -
  let ?l = "l\<lparr>wl_cursor := (wl_cursor l mod length (w_queues W) + 1) mod length (w_queues W)\<rparr>"
  have "poll_slots R C env W max_jobs (wl_cursor l mod length (w_queues W))
      (map (Pair 0) [0..<length (w_queues W)] @ map (Pair 1) [0..<length (w_queues W)]) 0 (s, ?l) = (r, (s', l'))"
    using run by (simp add: poll_for_jobs_def Let_def)
  from ensuresD [OF poll_slots_counted this]
  obtain n where n: "n \<le> max_jobs" "spawned n ?l l'" "case r of Ok x \<Rightarrow> x = n | _ \<Rightarrow> True"
    unfolding counted_def by (cases r) auto
  moreover have "max_jobs \<le> wl_permits l \<Longrightarrow>
      wl_permits l' + length (wl_spawned l') = wl_permits l + length (wl_spawned l)"
    using n(1,2) by (auto simp: spawned_def)
  ultimately show ?thesis by blast
qed


definition sample_worker :: "'r worker" where
  "sample_worker = \<lparr> w_settings = default_settings, w_queues = [''rrq:queue:default''], w_id = ''w1'',
     w_runners = [], w_default_runner = ''python'', w_routes = [], w_concurrency = 2, w_burst = False,
     w_claim_timeout_ms = 360000 \<rparr>"

definition idle_tables :: wlocal where
  "idle_tables = \<lparr> wl_running = [], wl_aborts = [], wl_permits = 2, wl_spawned = [], wl_aborted = [],
     wl_cursor = 0, wl_status = ''polling'', wl_shutdown = False, wl_cron_jobs = [] \<rparr>"

definition still_env :: poll_env where
  "still_env = \<lparr> pe_stop_slot = \<lambda>_ _. False, pe_stop_job = \<lambda>_ _ _. False, pe_claim_start = \<lambda>_ _. 7000000,
     pe_claim_now = \<lambda>_ _. 10000000, pe_now = \<lambda>_. 11000000 \<rparr>"

theorem poll_for_jobs_accounting_witness:
  "\<exists>r s' l'. poll_for_jobs ks_redis simple_codec still_env (sample_worker :: unit worker) 2 (claim_keyspace, idle_tables)
      = (r, (s', l'))
    \<and> wl_permits l' + length (wl_spawned l') = 2"
proof -
  obtain r s' l' where run: "poll_for_jobs ks_redis simple_codec still_env (sample_worker :: unit worker) 2
      (claim_keyspace, idle_tables) = (r, (s', l'))"
    by (metis prod.collapse)
  have "wl_permits l' + length (wl_spawned l') = 2"
    using poll_for_jobs_accounting [OF run] by (auto simp: idle_tables_def)
  with run show ?thesis by blast
qed

end
