(* ===== verification/Worker_Execution.thy ===== *)
theory Worker_Execution
  imports Worker_Polling
begin

text \<open>
  The life of a dispatched job: whatever its runner answers the task cleans up after it. And what
  becomes of a job whose outcome cannot be recorded.
\<close>

section \<open>Cleaning up\<close>

definition settled :: "string \<Rightarrow> string \<Rightarrow> keyspace \<Rightarrow> keyspace" where
  "settled w j ks = (let ks1 = put_zset (active_jobs_key w) (zs_del j (zset_at ks (active_jobs_key w))) ks in
     if string_at ks1 (format_lock_key j) = Some w then del_key (format_lock_key j) ks1 else ks1)"

definition forget_job :: "string \<Rightarrow> wlocal \<Rightarrow> wlocal" where
  "forget_job j l = l\<lparr>wl_running := hm_remove j (wl_running l), wl_aborts := filter (\<lambda>i. i \<noteq> j) (wl_aborts l)\<rparr>"

lemma cleanup_running_effect:
  assumes "well_typed ks"
  shows "cleanup_running ks_redis w j (ks, l) = (Ok (), (settled w j ks, forget_job j l))"
proof -
  let ?ks1 = "put_zset (active_jobs_key w) (zs_del j (zset_at ks (active_jobs_key w))) ks"
  have "well_typed ?ks1" using assms by simp
  then show ?thesis
    using assms
    by (simp add: cleanup_running_def andThen_def attempt_def on_db_def ret_def remove_active_effect
        release_if_owner_effect settled_def forget_job_def Let_def)
qed

lemma settled_views:
  assumes "well_typed ks"
  shows "j \<notin> zs_members (zset_at (settled w j ks) (active_jobs_key w))"
    "string_at (settled w j ks) (format_lock_key j) \<noteq> Some w" "well_typed (settled w j ks)"
  using assms by (simp_all add: settled_def Let_def)

lemma forget_job_views [simp]:
  "j \<notin> fst ` set (wl_running (forget_job j l))" "j \<notin> set (wl_aborts (forget_job j l))"
  "i \<noteq> j \<Longrightarrow> i \<in> fst ` set (wl_running (forget_job j l)) \<longleftrightarrow> i \<in> fst ` set (wl_running l)"
  by (simp_all add: forget_job_def)

lemma handled:
  assumes server: "redis_server R db" and wt: "well_typed (db s)"
  obtains q s1 where "attempt (handle_exec_result R C clk W job n res) s = (Ok q, s1)" "well_typed (db s1)"
proof -
  obtain r s1 where r: "handle_exec_result R C clk W job n res s = (r, s1)"
    "handle_exec_result ks_redis C clk W job n res (db s) = (r, db s1)"
    using sim_transfer [OF redis_server.handle_exec_result_sim [OF server]] by blast
  have "well_typed (db s1)" by (rule keepsD [OF handle_exec_result_facts(1) wt r(2)])
  moreover have "r \<noteq> Panic p" for p using calmD [OF handle_exec_result_facts(2) r(2)] by blast
  ultimately show thesis
    using that r(1) by (cases r) (auto simp: attempt_def)
qed

definition finds_runner :: "'r worker \<Rightarrow> job \<Rightarrow> string \<Rightarrow> 'r runner \<Rightarrow> bool" where
  "finds_runner W job queue_name runner \<longleftrightarrow>
     (case split_runner_name (j_function_name job) of (name, handler) \<Rightarrow>
        handler \<noteq> [] \<and> map_of (w_runners W) (case name of Some r \<Rightarrow> r
          | None \<Rightarrow> or_default (resolve_routed_runner (w_routes W) queue_name) (w_default_runner W)) = Some runner)"

text \<open>A task that reaches its runner: what the runner answers, what becomes of the outcome, and the
  cleanup after it.\<close>

lemma execute_job_run_on:
  assumes server: "redis_server R db"
    and timeout: "or_default (j_job_timeout_seconds job) (default_job_timeout_seconds (w_settings W)) = n" "0 < n"
      "n \<le> 9223372036854775" "chrono_ok (clk 0 + secs n)"
    and runner: "finds_runner W job queue_name runner"
      "\<forall>hint. \<exists>x s1. rn_execute_with_timeout runner (execution_request W job queue_name
          (snd (split_runner_name (j_function_name job))) rid (clk 0 + secs n)) n hint s = (Ok x, s1) \<and> P x s1"
      "\<And>x s1. P x s1 \<Longrightarrow> well_typed (db s1)"
    and run: "execute_job R C clk rid W job queue_name (s, l) = (r, (s', l'))"
  obtains x s1 q s2 l2 where "P x s1"
    "attempt (handle_exec_result R C (\<lambda>k. clk (Suc k)) W job n x) s1 = (Ok q, s2)" "well_typed (db s2)"
    "r = (case q of Inl e \<Rightarrow> Err e | Inr _ \<Rightarrow> Ok ())" "db s' = settled (w_id W) (j_id job) (db s2)"
    "l' = forget_job (j_id job) l2" "fst ` set (wl_running l2) = fst ` set (wl_running l)"
proof -
  obtain name handler where split: "split_runner_name (j_function_name job) = (name, handler)" "handler \<noteq> []"
    "map_of (w_runners W) (case name of Some r \<Rightarrow> r
        | None \<Rightarrow> or_default (resolve_routed_runner (w_routes W) queue_name) (w_default_runner W)) = Some runner"
    using runner(1) by (auto simp: finds_runner_def split: prod.splits)
  have resolved: "(case name of Some r \<Rightarrow> r | None \<Rightarrow> (case resolve_routed_runner (w_routes W) queue_name of
      Some r \<Rightarrow> r | None \<Rightarrow> w_default_runner W))
    = (case name of Some r \<Rightarrow> r
        | None \<Rightarrow> or_default (resolve_routed_runner (w_routes W) queue_name) (w_default_runner W))"
    by (auto simp: or_default_def split: option.split)
  have time: "duration_seconds n (s, l) = (Ok (secs n), (s, l))"
    "datetime_add (clk 0) (secs n) (s, l) = (Ok (clk 0 + secs n), (s, l))"
    using timeout by (simp_all add: duration_seconds_def datetime_add_def ret_def)
  have "\<exists>l1. map fst (wl_running l1) = map fst (wl_running l) \<and>
      execute_job R C clk rid W job queue_name (s, l)
       = dispatch_job R C clk rid W job queue_name handler n (clk 0 + secs n) runner (s, l1)"
    using timeout split
    by (simp add: execute_job_def Let_def andThen_Ok time resolved)
      (rule exI, rule conjI, rule_tac [2] refl, simp)
  then obtain l1 where l1: "map fst (wl_running l1) = map fst (wl_running l)"
    "dispatch_job R C clk rid W job queue_name handler n (clk 0 + secs n) runner (s, l1) = (r, (s', l'))"
    using run by auto
  let ?req = "execution_request W job queue_name handler rid (clk 0 + secs n)"
  define l2 where "l2 = l1\<lparr>wl_running := hm_modify (j_id job) (\<lambda>info. info\<lparr>ri_request_id := Some rid\<rparr>) (wl_running l1)\<rparr>"
  obtain x s1 where x: "rn_execute_with_timeout runner ?req n
      (runner_enable_inflight_cancel_hints (w_settings W)) s = (Ok x, s1)" "P x s1"
    using runner(2) [unfolded split(1) snd_conv] by blast
  obtain q s2 where q: "attempt (handle_exec_result R C (\<lambda>k. clk (Suc k)) W job n x) s1 = (Ok q, s2)"
    "well_typed (db s2)"
    by (rule handled [OF server runner(3) [OF x(2)], where clk = "\<lambda>k. clk (Suc k)"])
  have "\<exists>t. cleanup_running R (w_id W) (j_id job) (s2, l2) = (Ok (), t)
      \<and> map_prod db id t = (settled (w_id W) (j_id job) (db s2), forget_job (j_id job) l2)"
    by (rule sim_run [OF redis_server.cleanup_running_sim [OF server]])
      (simp add: cleanup_running_effect [OF q(2)])
  then obtain s3 where s3: "cleanup_running R (w_id W) (j_id job) (s2, l2) = (Ok (), (s3, forget_job (j_id job) l2))"
    "db s3 = settled (w_id W) (j_id job) (db s2)"
    by auto
  have exec: "on_db (rn_execute_with_timeout runner ?req n
      (runner_enable_inflight_cancel_hints (w_settings W))) (s, l2) = (Ok x, (s1, l2))"
    using x(1) by (simp add: on_db_def)
  have handled: "on_db (attempt (handle_exec_result R C (\<lambda>k. clk (Suc k)) W job n x)) (s1, l2) = (Ok q, (s2, l2))"
    by (simp add: on_db_def q(1))
  have "dispatch_job R C clk rid W job queue_name handler n (clk 0 + secs n) runner (s, l1)
      = (case q of Inl e \<Rightarrow> Err e | Inr _ \<Rightarrow> Ok (), (s3, forget_job (j_id job) l2))"
    by (simp add: dispatch_job_def andThen_Ok exec handled attempt_on_db attempt_Ok s3(1) fail_def ret_def l2_def [symmetric] split: sum.split)
  then have out: "r = (case q of Inl e \<Rightarrow> Err e | Inr _ \<Rightarrow> Ok ())" "s' = s3" "l' = forget_job (j_id job) l2"
    using l1(2) by simp_all
  have "fst ` set (wl_running l2) = fst ` set (wl_running l)"
    using l1(1) by (simp add: l2_def) (metis list.set_map)
  then show thesis
    using that [OF x(2) q(1,2)] out s3(2) by blast
qed

lemma execute_job_run:
  assumes server: "redis_server R db"
    and timeout: "or_default (j_job_timeout_seconds job) (default_job_timeout_seconds (w_settings W)) = n" "0 < n"
      "n \<le> 9223372036854775" "chrono_ok (clk 0 + secs n)"
    and runner: "finds_runner W job queue_name runner"
      "\<forall>req hint. \<exists>x s1. rn_execute_with_timeout runner req n hint s = (Ok x, s1) \<and> P x s1"
      "\<And>x s1. P x s1 \<Longrightarrow> well_typed (db s1)"
    and run: "execute_job R C clk rid W job queue_name (s, l) = (r, (s', l'))"
  obtains x s1 q s2 l2 where "P x s1"
    "attempt (handle_exec_result R C (\<lambda>k. clk (Suc k)) W job n x) s1 = (Ok q, s2)" "well_typed (db s2)"
    "r = (case q of Inl e \<Rightarrow> Err e | Inr _ \<Rightarrow> Ok ())" "db s' = settled (w_id W) (j_id job) (db s2)"
    "l' = forget_job (j_id job) l2" "fst ` set (wl_running l2) = fst ` set (wl_running l)"
  by (rule execute_job_run_on [where P = P, OF server timeout runner(1) _ runner(3) run]) (use runner(2) in blast, assumption, rule that)

text \<open>C21. Whatever the runner answers, and whatever happens to the outcome, a task that has reached
  its runner ends without a panic and leaves nothing behind: the job is neither in the tables of
  running jobs nor in the worker's active set, and the worker no longer holds its lock.\<close>

theorem execute_job_leaves_nothing:
  assumes server: "redis_server R db"
    and timeout: "or_default (j_job_timeout_seconds job) (default_job_timeout_seconds (w_settings W)) = n" "0 < n"
      "n \<le> 9223372036854775" "chrono_ok (clk 0 + secs n)"
    and runner: "finds_runner W job queue_name runner"
      "\<forall>req hint. \<exists>x s1. rn_execute_with_timeout runner req n hint s = (Ok x, s1) \<and> well_typed (db s1)"
    and run: "execute_job R C clk rid W job queue_name (s, l) = (r, (s', l'))"
  shows "(\<forall>p. r \<noteq> Panic p)
    \<and> j_id job \<notin> fst ` set (wl_running l') \<and> j_id job \<notin> set (wl_aborts l')
    \<and> j_id job \<notin> zs_members (zset_at (db s') (active_jobs_key (w_id W)))
    \<and> string_at (db s') (format_lock_key (j_id job)) \<noteq> Some (w_id W)
    \<and> (\<forall>i. i \<noteq> j_id job \<longrightarrow> i \<in> fst ` set (wl_running l') \<longleftrightarrow> i \<in> fst ` set (wl_running l))"
proof (rule execute_job_run [OF server timeout runner _ run])
  fix x s1 q s2 l2
  assume fin: "well_typed (db s2)" "r = (case q of Inl e \<Rightarrow> Err e | Inr _ \<Rightarrow> Ok ())"
    "db s' = settled (w_id W) (j_id job) (db s2)" "l' = forget_job (j_id job) l2"
    "fst ` set (wl_running l2) = fst ` set (wl_running l)"
  then show ?thesis
    using settled_views [OF fin(1)] by (simp split: sum.split)
qed assumption

definition timing_out :: "keyspace runner" where
  "timing_out = \<lparr> rn_execute_with_timeout = \<lambda>_ _ _. ret ExecTimedOut, rn_cancel = \<lambda>_ _. ret (), rn_close = ret () \<rparr>"

definition busy_worker :: "keyspace worker" where
  "busy_worker = \<lparr> w_settings = default_settings, w_queues = [''rrq:queue:default''], w_id = ''w1'',
     w_runners = [(''python'', timing_out)], w_default_runner = ''python'', w_routes = [], w_concurrency = 2,
     w_burst = False, w_claim_timeout_ms = 360000 \<rparr>"

definition busy_tables :: wlocal where
  "busy_tables = \<lparr> wl_running = [(''a'', \<lparr> ri_queue_name = ''rrq:queue:default'', ri_runner_name = None,
       ri_request_id = None \<rparr>)], wl_aborts = [''a''], wl_permits = 1, wl_spawned = [], wl_aborted = [],
     wl_cursor = 0, wl_status = ''polling'', wl_shutdown = False, wl_cron_jobs = [] \<rparr>"

lemma sample_job_sel [simp]:
  "j_job_timeout_seconds (sample_job i) = Some 60" "j_function_name (sample_job i) = ''f''"
  "j_current_retries (sample_job i) = 0" "j_max_retries (sample_job i) = 3" "j_unique_key (sample_job i) = None"
  "j_status (sample_job i) = Pending" "j_queue_name (sample_job i) = Some ''default''" "j_dlq_name (sample_job i) = None"
  by (simp_all add: sample_job_def)

lemma busy_worker_sel [simp]:
  "w_id busy_worker = ''w1''" "w_settings busy_worker = default_settings" "w_routes busy_worker = []"
  "w_runners busy_worker = [(''python'', timing_out)]" "w_default_runner busy_worker = ''python''"
  by (simp_all add: busy_worker_def)

lemma timing_out_sel [simp]: "rn_execute_with_timeout timing_out req n h s = (Ok ExecTimedOut, s)"
  by (simp add: timing_out_def ret_def)

lemma busy_finds [simp]: "finds_runner busy_worker (sample_job i) ''rrq:queue:default'' timing_out"
  by (simp add: finds_runner_def split_runner_name_def resolve_routed_runner_def
      strip_prefix_def split: option.split)

theorem execute_job_leaves_nothing_witness:
  "\<exists>r s' l'. execute_job ks_redis simple_codec (\<lambda>_. 5000000) ''r1'' busy_worker (sample_job ''a'')
      ''rrq:queue:default'' (busy_keyspace, busy_tables) = (r, (s', l'))
    \<and> ''a'' \<notin> fst ` set (wl_running l') \<and> string_at s' (format_lock_key ''a'') \<noteq> Some ''w1''"
proof -
  obtain r s' l' where run: "execute_job ks_redis simple_codec (\<lambda>_. 5000000) ''r1'' busy_worker (sample_job ''a'')
      ''rrq:queue:default'' (busy_keyspace, busy_tables) = (r, (s', l'))"
    by (metis prod.collapse)
  have "''a'' \<notin> fst ` set (wl_running l') \<and> string_at s' (format_lock_key ''a'') \<noteq> Some ''w1''"
    using execute_job_leaves_nothing [OF reference.redis_server_axioms _ _ _ _ _ _ run, where n = 60
        and runner = timing_out]
    by (simp add: chrono_ok_def secs_def)
  with run show ?thesis by blast
qed


section \<open>When an outcome cannot be recorded\<close>

text \<open>A retry counter that is not an integer makes the scripts fail before they change anything.\<close>

lemma hincrby_bad_counter:
  assumes "is_hash ks k" "hash_int (hash_at ks k) f = None"
  shows "\<exists>e. ks_hincrby k f d ks = (Err e, ks)"
proof -
  have "read_hash k (\<lambda>h. fmlookup h f) ks = (Ok (fmlookup (hash_at ks k) f), ks)"
    using assms(1) by (auto simp: read_hash_def view_defs split: option.splits rvalue.splits)
  then show ?thesis
    using assms by (auto simp: ks_hincrby_def andThen_def fail_def hash_int_def split: option.splits)
qed

lemma move_to_dlq_bad_counter:
  assumes "well_typed ks" "hash_int (hash_at ks (format_job_key (j_id job))) ''current_retries'' = None"
  shows "move_to_dlq ks_redis C now st job m ks
    = (Err (Bail (''atomic move to dlq failed for job '' @ j_id job)), ks)"
proof -
  obtain e where "ks_hincrby (format_job_key (j_id job)) ''current_retries'' 1 ks = (Err e, ks)"
    using hincrby_bad_counter assms by fastforce
  then show ?thesis
    by (simp add: move_to_dlq_def atomic_move_job_to_dlq_def lua_move_to_dlq_def lua_pcall_def
        lua_move_to_dlq_run_def andThen_def attempt_def ret_def fail_def Let_def)
qed

lemma settled_job_views [simp]:
  "settled w j ks (format_job_key i) = ks (format_job_key i)"
  "settled w j ks (format_queue_key q) = ks (format_queue_key q)"
  "w' \<noteq> w \<Longrightarrow> settled w j ks (active_jobs_key w') = ks (active_jobs_key w')"
  by (simp_all add: settled_def Let_def del_key_def put_zset_def)

lemma settled_other_active [simp]:
  "w' \<noteq> w \<Longrightarrow> zset_at (settled w j ks) (active_jobs_key w') = zset_at ks (active_jobs_key w')"
  by (simp add: zset_at_def)

text \<open>C22. A job is lost when its outcome cannot be recorded: its counter of retries is not an integer,
  its runner times out, and the script that would move it to the dead letter queue fails. The
  cleanup that follows still takes the job out of the active set and gives up the lock, so the job
  is as it was in its hash but in no queue and no active set, where no worker looks for it.\<close>

theorem execute_job_loses_job:
  assumes server: "redis_server R db" and wt: "well_typed (db s)"
    and timeout: "or_default (j_job_timeout_seconds job) (default_job_timeout_seconds (w_settings W)) = n" "0 < n"
      "n \<le> 9223372036854775" "chrono_ok (clk 0 + secs n)"
    and runner: "finds_runner W job queue_name runner"
      "\<forall>req hint. \<exists>s1. rn_execute_with_timeout runner req n hint s = (Ok ExecTimedOut, s1) \<and> db s1 = db s"
    and counter: "hash_int (hash_at (db s) (format_job_key (j_id job))) ''current_retries'' = None"
    and run: "execute_job R C clk rid W job queue_name (s, l) = (r, (s', l'))"
  shows "(\<exists>e. r = Err e)
    \<and> db s' (format_job_key (j_id job)) = db s (format_job_key (j_id job))
    \<and> (\<forall>q. db s' (format_queue_key q) = db s (format_queue_key q))
    \<and> (\<forall>w. j_id job \<in> zs_members (zset_at (db s') (active_jobs_key w)) \<longleftrightarrow>
           w \<noteq> w_id W \<and> j_id job \<in> zs_members (zset_at (db s) (active_jobs_key w)))
    \<and> string_at (db s') (format_lock_key (j_id job)) \<noteq> Some (w_id W)"
proof (rule execute_job_run [where P = "\<lambda>x s1. x = ExecTimedOut \<and> db s1 = db s", OF server timeout runner(1) _ _ run])
  show "\<forall>req hint. \<exists>x s1. rn_execute_with_timeout runner req n hint s = (Ok x, s1) \<and> x = ExecTimedOut \<and> db s1 = db s"
    using runner(2) by blast
next
  fix x s1 q s2 l2
  assume x: "x = ExecTimedOut \<and> db s1 = db s"
    and q: "attempt (handle_exec_result R C (\<lambda>k. clk (Suc k)) W job n x) s1 = (Ok q, s2)"
    and fin: "well_typed (db s2)" "r = (case q of Inl e \<Rightarrow> Err e | Inr _ \<Rightarrow> Ok ())"
      "db s' = settled (w_id W) (j_id job) (db s2)"
  have "handle_exec_result ks_redis C (\<lambda>k. clk (Suc k)) W job n x (db s1)
      = (Err (Bail (''atomic move to dlq failed for job '' @ j_id job)), db s)"
    using x move_to_dlq_bad_counter [OF wt counter] by (simp add: handle_exec_result_def handle_job_timeout_def)
  then obtain s3 where "handle_exec_result R C (\<lambda>k. clk (Suc k)) W job n x s1
      = (Err (Bail (''atomic move to dlq failed for job '' @ j_id job)), s3)" "db s3 = db s"
    using sim_run [OF redis_server.handle_exec_result_sim [OF server]] by blast
  then have "(\<exists>e. r = Err e) \<and> db s2 = db s"
    using q fin(2) by (auto simp: attempt_def)
  moreover have "j_id job \<in> zs_members (zset_at (settled (w_id W) (j_id job) (db s)) (active_jobs_key w)) \<longleftrightarrow>
      w \<noteq> w_id W \<and> j_id job \<in> zs_members (zset_at (db s) (active_jobs_key w))" for w
    using settled_views(1) [OF wt, of "j_id job" "w_id W"]
    by (cases "w = w_id W") simp_all
  ultimately show ?thesis
    using settled_views(2) [OF wt] by (simp add: fin(3))
qed (use wt in simp)

definition odd_keyspace :: keyspace where
  "odd_keyspace =
     put_hash (format_job_key ''a'')
       (hash_put [(''status'', ''ACTIVE''), (''current_retries'', ''1.0''), (''worker_id'', ''w1'')] fmempty)
      (put_string (format_lock_key ''a'') ''w1'' (Some 30000)
        (put_zset (active_jobs_key ''w1'') [(4, ''a'')] (\<lambda>_. None)))"

lemma odd_keyspace_views [simp]:
  "well_typed odd_keyspace"
  "hash_int (hash_at odd_keyspace (format_job_key ''a'')) ''current_retries'' = None"
  "zset_at odd_keyspace (active_jobs_key w) = (if w = ''w1'' then [(4, ''a'')] else [])"
  by (simp_all add: odd_keyspace_def zs_ok_def hash_int_def redis_int_def parse_i64_def digit_val_def)

lemma odd_keyspace_queues [simp]: "odd_keyspace (format_queue_key q) = None"
  by (simp add: odd_keyspace_def put_hash_def put_string_def put_zset_def)

lemma busy_tables_running [simp]: "''a'' \<in> fst ` set (wl_running busy_tables)"
  by (simp add: busy_tables_def)

theorem execute_job_loses_job_witness:
  "\<exists>e s' l'. execute_job ks_redis simple_codec (\<lambda>_. 5000000) ''r1'' busy_worker (sample_job ''a'')
      ''rrq:queue:default'' (odd_keyspace, busy_tables) = (Err e, (s', l'))
    \<and> s' (format_job_key ''a'') = odd_keyspace (format_job_key ''a'')
    \<and> (\<forall>w. ''a'' \<notin> zs_members (zset_at s' (active_jobs_key w))) \<and> (\<forall>q. s' (format_queue_key q) = None)"
proof -
  obtain r s' l' where run: "execute_job ks_redis simple_codec (\<lambda>_. 5000000) ''r1'' busy_worker (sample_job ''a'')
      ''rrq:queue:default'' (odd_keyspace, busy_tables) = (r, (s', l'))"
    by (metis prod.collapse)
  have "(\<exists>e. r = Err e) \<and> s' (format_job_key ''a'') = odd_keyspace (format_job_key ''a'')
    \<and> (\<forall>w. ''a'' \<notin> zs_members (zset_at s' (active_jobs_key w))) \<and> (\<forall>q. s' (format_queue_key q) = None)"
    using execute_job_loses_job [OF reference.redis_server_axioms _ _ _ _ _ _ _ _ run, where n = 60
        and runner = timing_out]
    by (simp add: chrono_ok_def secs_def)
  with run show ?thesis by blast
qed

text \<open>C23. When a job ends before it is dispatched and cannot be moved to the dead letter queue, the task
  returns the error and cleans up nothing: the job stays in the tables of running jobs, in the
  active set and locked, with no task that works on it.\<close>

theorem execute_job_fatal_error_leaks:
  assumes server: "redis_server R db" and wt: "well_typed (db s)"
    and timeout: "or_default (j_job_timeout_seconds job) (default_job_timeout_seconds (w_settings W)) \<le> 0"
    and counter: "hash_int (hash_at (db s) (format_job_key (j_id job))) ''current_retries'' = None"
  shows "\<exists>e s1. execute_job R C clk rid W job queue_name (s, l) = (Err e, (s1, l)) \<and> db s1 = db s"
proof -
  obtain s1 where "move_to_dlq R C (clk 0) (w_settings W) job (''Invalid job timeout: ''
      @ show_int (or_default (j_job_timeout_seconds job) (default_job_timeout_seconds (w_settings W)))
      @ ''. Must be positive.'') s = (Err (Bail (''atomic move to dlq failed for job '' @ j_id job)), s1)"
    "db s1 = db s"
    using sim_run [OF redis_server.outcome_sims(1) [OF server] move_to_dlq_bad_counter [OF wt counter]] by blast
  then show ?thesis
    using timeout
    by (simp add: execute_job_def end_fatally_def handle_fatal_job_error_def andThen_def on_db_def)
qed


theorem execute_job_fatal_error_leaks_witness:
  "\<exists>e s1. execute_job ks_redis simple_codec (\<lambda>_. 5000000) ''r1'' busy_worker
      ((sample_job ''a'')\<lparr>j_job_timeout_seconds := Some 0\<rparr>) ''rrq:queue:default'' (odd_keyspace, busy_tables)
      = (Err e, (s1, busy_tables)) \<and> ''a'' \<in> fst ` set (wl_running busy_tables)
    \<and> ''a'' \<in> zs_members (zset_at s1 (active_jobs_key ''w1''))"
  using execute_job_fatal_error_leaks [OF reference.redis_server_axioms, where s = odd_keyspace
      and job = "(sample_job ''a'')\<lparr>j_job_timeout_seconds := Some 0\<rparr>" and W = busy_worker
      and C = simple_codec and clk = "\<lambda>_. 5000000" and rid = "''r1''" and queue_name = "''rrq:queue:default''"
      and l = busy_tables]
  by (auto simp: zs_members_def)

end
