(* ===== verification/Worker_Recovery.thy ===== *)
theory Worker_Recovery
  imports Worker_Execution
begin

text \<open>
  The recovery of orphaned jobs: the reply and the keyspace on each branch of \<open>recover_known_job\<close>,
  what a recovery achieves, and what it does with a definition that is out of date.
\<close>

section \<open>The branches\<close>

lemma typed_None_iff:
  "is_string ks k \<Longrightarrow> string_at ks k = None \<longleftrightarrow> ks k = None"
  "is_hash ks k \<Longrightarrow> hash_at ks k = fmempty \<longleftrightarrow> ks k = None"
  by (auto simp: is_string_def is_hash_def string_at_def hash_at_def split: option.splits rvalue.splits prod.splits)

definition dropped :: "string \<Rightarrow> string \<Rightarrow> string \<Rightarrow> keyspace \<Rightarrow> keyspace" where
  "dropped w owner j ks = (let ks1 = put_zset (active_jobs_key w) (zs_del j (zset_at ks (active_jobs_key w))) ks in
     if string_at ks1 (format_lock_key j) = Some owner then del_key (format_lock_key j) ks1 else ks1)"

lemma drop_orphan_effect:
  assumes "well_typed ks"
  shows "drop_orphan ks_redis w j j owner ks = (Ok (), dropped w owner j ks)"
proof -
  have "well_typed (put_zset (active_jobs_key w) (zs_del j (zset_at ks (active_jobs_key w))) ks)"
    using assms by simp
  then show ?thesis
    using assms by (simp add: drop_orphan_def andThen_def attempt_def ignore_def ret_def remove_active_effect
        release_if_owner_effect dropped_def Let_def)
qed

lemma dropped_views [simp]:
  assumes "well_typed ks"
  shows "j \<notin> zs_members (zset_at (dropped w owner j ks) (active_jobs_key w))"
    "hash_at (dropped w owner j ks) (format_job_key i) = hash_at ks (format_job_key i)"
    "zset_at (dropped w owner j ks) (format_queue_key q) = zset_at ks (format_queue_key q)"
  using assms by (simp_all add: dropped_def Let_def)

lemma dropped_keys [simp]:
  "dropped w owner j ks (format_job_key i) = ks (format_job_key i)"
  "dropped w owner j ks (format_queue_key q) = ks (format_queue_key q)"
  by (simp_all add: dropped_def Let_def del_key_def put_zset_def)

lemma dropped_lock [simp]:
  assumes "well_typed ks" "string_at ks (format_lock_key j) \<in> {None, Some owner}"
  shows "dropped w owner j ks (format_lock_key j) = None"
  using assms typed_None_iff(1) [of ks "format_lock_key j"]
  by (auto simp: dropped_def Let_def view_del_key put_lookup_other)

text \<open>The three ways a recovery ends once it holds the lock.\<close>

definition locked_state :: "string \<Rightarrow> string \<Rightarrow> int \<Rightarrow> keyspace \<Rightarrow> keyspace" where
  "locked_state j owner ms ks = put_string (format_lock_key j) owner (Some ms) ks"

definition unassigned :: "string \<Rightarrow> keyspace \<Rightarrow> keyspace" where
  "unassigned j ks = put_hash (format_job_key j) (hash_del [''start_time'', ''worker_id'']
      (hash_put [(''status'', ''PENDING'')] (hash_at ks (format_job_key j)))) ks"

lemma target_queue_alt:
  "target_queue settings job = normalize_queue_name (or_default (j_queue_name job) (default_queue_name settings))"
  by (simp add: target_queue_def or_default_def)

lemma recover_known_effects:
  fixes settings :: RRQSettings and w :: string and job :: job
  defines "q \<equiv> target_queue settings job" and "owner \<equiv> recovery_owner w" and "j \<equiv> j_id job"
  assumes wt: "well_typed ks" and ms: "lock_timeout_of settings job = Some ms" "0 < ms"
  shows "ks (format_lock_key j) \<noteq> None \<Longrightarrow> recover_known_job ks_redis C settings now w j job ks = (Ok False, ks)"
    "ks (format_lock_key j) = None \<Longrightarrow> zs_score j (zset_at ks (format_queue_key q)) \<noteq> None \<Longrightarrow>
      recover_known_job ks_redis C settings now w j job ks = (Ok False, dropped w owner j
        (if j_status job = Active then unassigned j (locked_state j owner ms ks) else locked_state j owner ms ks))"
    "ks (format_lock_key j) = None \<Longrightarrow> zs_score j (zset_at ks (format_queue_key q)) = None \<Longrightarrow>
      ks (format_job_key j) \<noteq> None \<Longrightarrow> j_status job \<in> {Active, Pending, Retrying} \<Longrightarrow>
      recover_known_job ks_redis C settings now w j job ks = (Ok True, dropped w owner j
        (requeue_state j q (of_int (timestamp_millis (or_default (j_next_scheduled_run_time job) now)))
          (if j_status job = Active then ''Recovered after lock expiry or worker crash.'' else []) owner (Some w)
          (Some (to_rfc3339 C (or_default (j_next_scheduled_run_time job) now))) (locked_state j owner ms ks)))"
proof -
  have i: "i64_ok ms" using ms(1) by (auto simp: lock_timeout_of_def split: option.splits bind_splits)
  let ?ks1 = "locked_state j owner ms ks"
  have wt1: "well_typed ?ks1" using wt by (simp add: locked_state_def)
  have lock: "try_lock_job ks_redis j owner ms ks = (if ks (format_lock_key j) = None then (Ok True, ?ks1) else (Ok False, ks))"
    using try_lock_effect [OF ms(2) i] by (simp add: locked_state_def)
  show "ks (format_lock_key j) \<noteq> None \<Longrightarrow> recover_known_job ks_redis C settings now w j job ks = (Ok False, ks)"
    using ms lock by (simp add: recover_known_job_def andThen_def ret_def Let_def del: not_None_eq flip: j_def owner_def)
  show "ks (format_lock_key j) = None \<Longrightarrow> zs_score j (zset_at ks (format_queue_key q)) \<noteq> None \<Longrightarrow>
      recover_known_job ks_redis C settings now w j job ks = (Ok False, dropped w owner j
        (if j_status job = Active then unassigned j (locked_state j owner ms ks) else locked_state j owner ms ks))"
  proof -
    assume free: "ks (format_lock_key j) = None" and queued: "zs_score j (zset_at ks (format_queue_key q)) \<noteq> None"
    have "is_job_queued ks_redis q j ?ks1 = (Ok True, ?ks1)"
      using job_queued_effect [OF wt1] queued by (simp add: locked_state_def)
    then show ?thesis
      using ms free lock drop_orphan_effect [of "unassigned j ?ks1"] drop_orphan_effect [OF wt1] wt1
        mark_pending_effect [OF wt1, of j None]
      by (simp add: recover_known_job_def andThen_Ok ret_def attempt_Ok ignore_def Let_def unassigned_def
          del: not_None_eq flip: j_def owner_def target_queue_alt q_def)
  qed
  show "ks (format_lock_key j) = None \<Longrightarrow> zs_score j (zset_at ks (format_queue_key q)) = None \<Longrightarrow>
      ks (format_job_key j) \<noteq> None \<Longrightarrow> j_status job \<in> {Active, Pending, Retrying} \<Longrightarrow>
      recover_known_job ks_redis C settings now w j job ks = (Ok True, dropped w owner j
        (requeue_state j q (of_int (timestamp_millis (or_default (j_next_scheduled_run_time job) now)))
          (if j_status job = Active then ''Recovered after lock expiry or worker crash.'' else []) owner (Some w)
          (Some (to_rfc3339 C (or_default (j_next_scheduled_run_time job) now))) ?ks1))"
  proof -
    assume free: "ks (format_lock_key j) = None" and queued: "zs_score j (zset_at ks (format_queue_key q)) = None"
      and there: "ks (format_job_key j) \<noteq> None" and st: "j_status job \<in> {Active, Pending, Retrying}"
    have q1: "andThen (is_job_queued ks_redis q j) k ?ks1 = k False ?ks1" for k :: "bool \<Rightarrow> (keyspace, bool) io"
      using job_queued_effect [OF wt1] queued by (simp add: andThen_def locked_state_def)
    have "?ks1 (format_job_key j) \<noteq> None" "zs_score j (zset_at ?ks1 (format_queue_key q)) = None"
      using there queued by (simp_all add: locked_state_def)
    note requeue = requeue_effect [OF wt1 this]
    have wt2: "well_typed (requeue_state j q sc m owner (Some w) t ?ks1)" for sc m t
      using wt1 by (simp add: requeue_state_def release_owned_state_def)
    show ?thesis
      using st ms free lock q1
      by (elim insertE; simp add: recover_known_job_def andThen_Ok ret_def attempt_Ok ignore_def Let_def
          requeue drop_orphan_effect [OF wt2] orphan_requeue_post_action_def
          del: not_None_eq flip: j_def owner_def target_queue_alt q_def)
  qed
qed


lemma recovery_owner_not_Nil [simp]: "recovery_owner w \<noteq> []"
  by (simp add: recovery_owner_def)

lemma demote_hash_status:
  "fmlookup (demote_hash m h) ''status''
     = (if fmlookup h ''status'' = Some ''ACTIVE'' then Some ''PENDING'' else fmlookup h ''status'')"
  by (simp add: demote_hash_def)

lemma parsed_status:
  "parse_job_map C h j n = Inr job \<Longrightarrow> fmlookup h ''status'' = Some (as_str (j_status job))"
proof (cases "Option.bind (fmlookup h ''status'') parse_status")
  case (Some st)
  assume "parse_job_map C h j n = Inr job"
  then have "j_status job = st"
    using Some by (cases "Option.bind (fmlookup h ''enqueue_time'') (from_rfc3339 C)")
      (auto simp: parse_job_map_def Let_def)
  then show ?thesis
    using Some by (cases "fmlookup h ''status''") (auto dest: parse_status_Some)
qed (simp add: parse_job_map_def Let_def)

lemma locked_state_views [simp]:
  "well_typed ks \<Longrightarrow> well_typed (locked_state j owner ms ks)"
  "hash_at (locked_state j owner ms ks) (format_job_key i) = hash_at ks (format_job_key i)"
  "zset_at (locked_state j owner ms ks) (format_queue_key q) = zset_at ks (format_queue_key q)"
  "string_at (locked_state j owner ms ks) (format_lock_key j) = Some owner"
  by (simp_all add: locked_state_def)

lemma unassigned_views [simp]:
  "well_typed ks \<Longrightarrow> well_typed (unassigned j ks)"
  "fmlookup (hash_at (unassigned j ks) (format_job_key j)) ''status'' = Some ''PENDING''"
  "zset_at (unassigned j ks) (format_queue_key q) = zset_at ks (format_queue_key q)"
  "string_at (unassigned j ks) (format_lock_key i) = string_at ks (format_lock_key i)"
  by (simp_all add: unassigned_def)

lemma requeue_state_recovery:
  assumes "well_typed ks" "string_at ks (format_lock_key j) = Some owner" "owner \<noteq> []"
  shows "well_typed (requeue_state j q sc m owner a t ks)"
    "zs_score j (zset_at (requeue_state j q sc m owner a t ks) (format_queue_key q)) = Some sc"
    "fmlookup (hash_at (requeue_state j q sc m owner a t ks) (format_job_key j)) ''status''
       = (if fmlookup (hash_at ks (format_job_key j)) ''status'' = Some ''ACTIVE'' then Some ''PENDING''
          else fmlookup (hash_at ks (format_job_key j)) ''status'')"
    "string_at (requeue_state j q sc m owner a t ks) (format_lock_key j) = None"
  using assms by (simp_all add: requeue_state_def release_owned_state_def demote_hash_status)

text \<open>What a recovery leads to, on the reference keyspace.\<close>

definition recovered :: "RRQSettings \<Rightarrow> datetime \<Rightarrow> string \<Rightarrow> job \<Rightarrow> keyspace \<Rightarrow> keyspace \<Rightarrow> bool" where
  "recovered settings now w job ks ks' \<longleftrightarrow>
     (let j = j_id job; queue = format_queue_key (target_queue settings job)
      in zs_score j (zset_at ks' queue) = (case zs_score j (zset_at ks queue) of
           None \<Rightarrow> Some (of_int (timestamp_millis (or_default (j_next_scheduled_run_time job) now))) | Some sc \<Rightarrow> Some sc)
       \<and> Option.bind (fmlookup (hash_at ks' (format_job_key j)) ''status'') parse_status
           = Some (if j_status job = Active then Pending else j_status job)
       \<and> j \<notin> zs_members (zset_at ks' (active_jobs_key w))
       \<and> ks' (format_lock_key j) = None)"

lemma recover_job_effect:
  assumes wt: "well_typed ks"
    and job: "ks (format_job_key j) \<noteq> None"
      "parse_job_map C (hash_at ks (format_job_key j)) j (default_max_retries settings) = Inr job"
      "j_id job = j" "j_status job \<in> {Active, Pending, Retrying}"
    and ms: "lock_timeout_of settings job = Some ms" "0 < ms"
  obtains (locked) "ks (format_lock_key j) \<noteq> None" "recover_job ks_redis C settings now w j ks = (Ok False, ks)"
    | (free) ks' where "ks (format_lock_key j) = None" "recovered settings now w job ks ks'"
      "recover_job ks_redis C settings now w j ks
         = (Ok (zs_score j (zset_at ks (format_queue_key (target_queue settings job))) = None), ks')"
proof -
  let ?q = "format_queue_key (target_queue settings job)" and ?ks1 = "locked_state j (recovery_owner w) ms ks"
  have st: "fmlookup (hash_at ks (format_job_key j)) ''status'' = Some (as_str (j_status job))"
    by (rule parsed_status [OF job(2)])
  have h: "hash_at ks (format_job_key j) \<noteq> fmempty"
    using typed_None_iff(2) job(1) wt by simp
  have rec: "recover_job ks_redis C settings now w j ks
      = (if ks (format_lock_key j) = None then recover_known_job ks_redis C settings now w j job ks else (Ok False, ks))"
    using wt h job(2) typed_None_iff(1) [of ks "format_lock_key j"]
    by (simp add: recover_job_def andThen_def ret_def lock_owner_effect job_definition_effect del: not_None_eq)
  note effects = recover_known_effects [where job = job, unfolded job(3), OF wt ms, of C now w]
  consider (locked) "ks (format_lock_key j) \<noteq> None"
    | (queued) "ks (format_lock_key j) = None" "zs_score j (zset_at ks ?q) \<noteq> None"
    | (orphan) "ks (format_lock_key j) = None" "zs_score j (zset_at ks ?q) = None"
    by blast
  then show thesis
  proof cases
    case locked
    then show thesis using that(1) rec by auto
  next
    case queued
    let ?ks2 = "dropped w (recovery_owner w) j (if j_status job = Active then unassigned j ?ks1 else ?ks1)"
    have run: "recover_job ks_redis C settings now w j ks = (Ok False, ?ks2)"
      using rec effects(2) [OF queued] queued(1) by simp
    have "recovered settings now w job ks ?ks2"
      using queued wt st job(3,4) unfolding recovered_def Let_def
      by (simp add: as_str_def parse_status_def del: not_None_eq split: option.split JobStatus.split)
    then show thesis using that(2) [OF queued(1)] run queued(2) by simp
  next
    case orphan
    let ?t = "or_default (j_next_scheduled_run_time job) now"
    obtain m where run: "recover_job ks_redis C settings now w j ks = (Ok True, dropped w (recovery_owner w) j
        (requeue_state j (target_queue settings job) (of_int (timestamp_millis ?t)) m (recovery_owner w) (Some w)
          (Some (to_rfc3339 C ?t)) ?ks1))" (is "_ = (Ok True, ?ks2)")
      using rec effects(3) [OF orphan job(1,4)] orphan(1) by simp
    have "recovered settings now w job ks ?ks2"
      using orphan wt st job(3,4) unfolding recovered_def Let_def
      by (auto simp: requeue_state_recovery as_str_def parse_status_def split: JobStatus.splits)
    then show thesis using that(2) [OF orphan(1)] run orphan(2) by simp
  qed
qed

text \<open>C24. Recovering an orphan. A job whose lock is held is left as it is. Otherwise an open job ends in
  its queue, at its old score or, when it was in no queue, at its scheduled time; an ACTIVE one is
  PENDING again; it is out of the active set of the worker that is gone and is not locked. It
  counts as recovered exactly when it had to be queued.\<close>

theorem recover_job_correct:
  assumes server: "redis_server R db" and wt: "well_typed (db s)"
    and job: "db s (format_job_key j) \<noteq> None"
      "parse_job_map C (hash_at (db s) (format_job_key j)) j (default_max_retries settings) = Inr job"
      "j_id job = j" "j_status job \<in> {Active, Pending, Retrying}"
    and ms: "lock_timeout_of settings job = Some ms" "0 < ms"
  shows "\<exists>s1. let queue = format_queue_key (target_queue settings job); old = zs_score j (zset_at (db s) queue) in
      recover_job R C settings now w j s = (Ok (db s (format_lock_key j) = None \<and> old = None), s1)
    \<and> (if db s (format_lock_key j) \<noteq> None then db s1 = db s
       else
         zs_score j (zset_at (db s1) queue) = (case old of
           None \<Rightarrow> Some (of_int (timestamp_millis (or_default (j_next_scheduled_run_time job) now))) | Some sc \<Rightarrow> Some sc)
       \<and> Option.bind (fmlookup (hash_at (db s1) (format_job_key j)) ''status'') parse_status
           = Some (if j_status job = Active then Pending else j_status job)
       \<and> j \<notin> zs_members (zset_at (db s1) (active_jobs_key w))
       \<and> db s1 (format_lock_key j) = None)"
proof -
  obtain r s1 where run: "recover_job R C settings now w j s = (r, s1)"
    "recover_job ks_redis C settings now w j (db s) = (r, db s1)"
    using sim_transfer [OF redis_server.recovery_sims(3) [OF server]] by blast
  show ?thesis
    by (rule recover_job_effect [where ks = "db s", OF wt job ms, of now w])
      (use run job(3) in \<open>auto simp: recovered_def Let_def intro!: exI [of _ s1]\<close>)
qed

definition orphan_keyspace :: keyspace where
  "orphan_keyspace =
     put_hash (format_job_key ''a'') (job_hash simple_codec ((sample_job ''a'')\<lparr>j_status := Active\<rparr>))
       (put_zset (active_jobs_key ''w9'') [(4, ''a'')] (\<lambda>_. None))"

lemma orphan_keyspace_views [simp]:
  "well_typed orphan_keyspace" "zset_at orphan_keyspace (format_queue_key q) = []"
  "hash_at orphan_keyspace (format_job_key ''a'') = job_hash simple_codec ((sample_job ''a'')\<lparr>j_status := Active\<rparr>)"
  by (simp_all add: orphan_keyspace_def zs_ok_def)

lemma orphan_keyspace_keys [simp]:
  "orphan_keyspace (format_job_key ''a'') \<noteq> None" "orphan_keyspace (format_lock_key j) = None"
  by (simp_all add: orphan_keyspace_def put_hash_def put_zset_def)

theorem recover_job_correct_witness:
  "\<exists>s1. recover_job ks_redis simple_codec default_settings 7000000 ''w9'' ''a'' orphan_keyspace = (Ok True, s1)
    \<and> zs_score ''a'' (zset_at s1 (format_queue_key ''rrq:queue:default'')) \<noteq> None
    \<and> ''a'' \<notin> zs_members (zset_at s1 (active_jobs_key ''w9''))"
proof -
  let ?job = "(sample_job ''a'')\<lparr>j_status := Active\<rparr>"
  have ok: "job_ok ?job"
    using sample_job_ok [of "''a''"] by (simp add: job_ok_def)
  have parsed: "parse_job_map simple_codec (job_hash simple_codec ?job) ''a'' 5 = Inr ?job"
    by (rule codec_laws.parse_job_hash [OF simple.codec_laws_axioms ok])
  have q: "target_queue default_settings ?job = ''rrq:queue:default''"
    by (simp add: target_queue_def normalize_queue_name_def starts_with_def QUEUE_KEY_PREFIX_def)
  show ?thesis
    using recover_job_correct [OF reference.redis_server_axioms, where s = orphan_keyspace and j = "''a''"
        and C = simple_codec and settings = default_settings and job = ?job and ms = 120000 and w = "''w9''"
        and now = 7000000]
    by (auto simp: parsed q lock_timeout_of_def i64_ok_def checked_i64_def Let_def simp del: not_None_eq)
qed

text \<open>The definition of an orphan is read before its lock is taken, and its status is not read
  again: when the job has been recovered and completed elsewhere in between, the recovery queues the
  COMPLETED job, free to be claimed and executed once more.\<close>

theorem recover_stale_definition:
  assumes server: "redis_server R db" and wt: "well_typed (db s)"
    and stale: "j_status job = Active" "lock_timeout_of settings job = Some ms" "0 < ms"
    and now: "fmlookup (hash_at (db s) (format_job_key (j_id job))) ''status'' = Some (as_str Completed)"
      "db s (format_lock_key (j_id job)) = None"
      "zs_score (j_id job) (zset_at (db s) (format_queue_key (target_queue settings job))) = None"
  shows "\<exists>s1. recover_known_job R C settings time w (j_id job) job s = (Ok True, s1)
    \<and> fmlookup (hash_at (db s1) (format_job_key (j_id job))) ''status'' = Some (as_str Completed)
    \<and> zs_score (j_id job) (zset_at (db s1) (format_queue_key (target_queue settings job))) \<noteq> None
    \<and> db s1 (format_lock_key (j_id job)) = None"
proof -
  let ?t = "or_default (j_next_scheduled_run_time job) time"
  let ?ks1 = "locked_state (j_id job) (recovery_owner w) ms (db s)"
  have there: "db s (format_job_key (j_id job)) \<noteq> None"
    using now(1) by (cases "db s (format_job_key (j_id job)) = None") auto
  obtain m where "recover_known_job ks_redis C settings time w (j_id job) job (db s)
      = (Ok True, dropped w (recovery_owner w) (j_id job)
          (requeue_state (j_id job) (target_queue settings job) (of_int (timestamp_millis ?t)) m (recovery_owner w)
            (Some w) (Some (to_rfc3339 C ?t)) ?ks1))"
    using recover_known_effects(3) [OF wt stale(2,3) now(2,3) there] stale(1) by blast
  then obtain s1 where s1: "recover_known_job R C settings time w (j_id job) job s = (Ok True, s1)"
    "db s1 = dropped w (recovery_owner w) (j_id job)
          (requeue_state (j_id job) (target_queue settings job) (of_int (timestamp_millis ?t)) m (recovery_owner w)
            (Some w) (Some (to_rfc3339 C ?t)) ?ks1)"
    using sim_run [OF redis_server.recovery_sims(2) [OF server]] by blast
  show ?thesis
    using wt now(1) by (intro exI [of _ s1]) (simp add: s1 requeue_state_recovery as_str_def)
qed

definition finished_keyspace :: keyspace where
  "finished_keyspace =
     put_hash (format_job_key ''a'') (hash_put [(''status'', ''COMPLETED'')] fmempty) (\<lambda>_. None)"

lemma finished_keyspace_views [simp]:
  "well_typed finished_keyspace" "zset_at finished_keyspace (format_queue_key q) = []"
  "fmlookup (hash_at finished_keyspace (format_job_key ''a'')) ''status'' = Some ''COMPLETED''"
  by (simp_all add: finished_keyspace_def)

lemma finished_keyspace_lock [simp]: "finished_keyspace (format_lock_key j) = None"
  by (simp add: finished_keyspace_def put_hash_def)

theorem recover_stale_definition_witness:
  "\<exists>s1. recover_known_job ks_redis simple_codec default_settings 7000000 ''w9'' ''a''
      ((sample_job ''a'')\<lparr>j_status := Active\<rparr>) finished_keyspace = (Ok True, s1)
    \<and> fmlookup (hash_at s1 (format_job_key ''a'')) ''status'' = Some ''COMPLETED''"
  using recover_stale_definition [OF reference.redis_server_axioms, where s = finished_keyspace
      and C = simple_codec and settings = default_settings and job = "(sample_job ''a'')\<lparr>j_status := Active\<rparr>"
      and ms = 120000 and w = "''w9''" and time = 7000000]
  by (auto simp: lock_timeout_of_def i64_ok_def checked_i64_def as_str_def)

end
