(* ===== verification/Custody.thy ===== *)
theory Custody
  imports Worker_Recovery
begin

text \<open>
  Where a job is: in which queues and active sets, under whose lock, and whether it is still open. For every
  operation of the store that touches a job: where the job is afterwards, and that no other job moves.
\<close>

section \<open>Where a job is\<close>

definition open_job :: "keyspace \<Rightarrow> string \<Rightarrow> bool" where
  "open_job ks j \<longleftrightarrow> Option.bind (fmlookup (hash_at ks (format_job_key j)) ''status'') parse_status
     \<in> {Some Pending, Some Active, Some Retrying}"

definition queued_in :: "keyspace \<Rightarrow> string \<Rightarrow> string \<Rightarrow> bool" where
  "queued_in ks q j \<longleftrightarrow> zs_score j (zset_at ks (format_queue_key q)) \<noteq> None"

definition active_in :: "keyspace \<Rightarrow> string \<Rightarrow> string \<Rightarrow> bool" where
  "active_in ks w j \<longleftrightarrow> zs_score j (zset_at ks (active_jobs_key w)) \<noteq> None"

definition lock_of :: "keyspace \<Rightarrow> string \<Rightarrow> string option" where
  "lock_of ks j = string_at ks (format_lock_key j)"

lemmas place_defs = open_job_def queued_in_def active_in_def lock_of_def

text \<open>Queues and active sets never expire.\<close>

definition lasting :: "string \<Rightarrow> bool" where
  "lasting k \<longleftrightarrow> (\<exists>q. k = format_queue_key q) \<or> (\<exists>w. k = active_jobs_key w)"

definition no_expiry :: "keyspace \<Rightarrow> bool" where
  "no_expiry ks \<longleftrightarrow> (\<forall>k. lasting k \<longrightarrow> ttl_at ks k = None)"

lemma lasting_keys [simp]:
  "lasting (format_queue_key q)" "lasting (active_jobs_key w)" "\<not> lasting (format_job_key j)"
  "\<not> lasting (format_lock_key j)" "\<not> lasting (format_job_events_key j)" "\<not> lasting (format_dlq_key d)"
  "\<not> lasting (format_unique_key u)"
  by (auto simp: lasting_def)

lemma no_expiry_put [simp]:
  assumes "no_expiry ks"
  shows "no_expiry (put_hash k h ks)" "no_expiry (put_zset k z ks)" "no_expiry (put_list k l ks)"
    "no_expiry (put_stream k es ks)" "no_expiry (del_key k ks)" "\<not> lasting k \<Longrightarrow> no_expiry (put_string k v t ks)"
    "\<not> lasting k \<Longrightarrow> no_expiry (put_ttl k t ks)"
  using assms by (auto simp: no_expiry_def ttl_at_def put_defs del_key_def put_ttl_def split: option.splits prod.splits)

lemma no_expiry_empty [simp]: "no_expiry (\<lambda>_. None)"
  by (simp add: no_expiry_def ttl_at_def)


lemma no_expiry_keeps [keep_rules]:
  "keeps no_expiry (ks_zadd k sc m)" "keeps no_expiry (ks_zrem k m)" "keeps no_expiry (ks_hset k fvs)"
  "keeps no_expiry (ks_del k)" "\<not> lasting k \<Longrightarrow> keeps no_expiry (ks_set k v nx e)"
proof -
  have w: "keeps no_expiry (write_zset k f)" "keeps no_expiry (write_hash k g)" for f g
    by (auto simp: keeps_def no_expiry_def ttl_at_def write_zset_def write_hash_def
        split: option.splits rvalue.splits prod.splits)
  show "keeps no_expiry (ks_zadd k sc m)" "keeps no_expiry (ks_hset k fvs)"
    unfolding ks_zadd_def ks_hset_def by (intro keep_rules w)+
  have "keeps no_expiry (read_zset k f)" for f
    by (auto simp: keeps_def read_zset_def split: option.splits rvalue.splits)
  then show "keeps no_expiry (ks_zrem k m)"
    unfolding ks_zrem_def by (intro keep_rules w)
  show "keeps no_expiry (ks_del k)" "\<not> lasting k \<Longrightarrow> keeps no_expiry (ks_set k v nx e)"
    by (auto simp: keeps_def no_expiry_def ttl_at_def ks_del_def ks_set_def split: option.splits)
qed

lemma claim_no_expiry:
  "keeps no_expiry (atomic_claim_ready_jobs ks_redis C now q w ms ext n start)"
  unfolding atomic_claim_ready_jobs_def lua_claim_ready_def claim_candidate_def lua_key_literals ks_redis_sel Let_def
  by (intro keep_rules) simp_all

lemma claim_touches:
  "touches ({format_queue_key q, active_jobs_key w} \<union> range format_job_key \<union> range format_lock_key)
     (atomic_claim_ready_jobs ks_redis C now q w ms ext n start)"
  unfolding atomic_claim_ready_jobs_def lua_claim_ready_def claim_candidate_def lua_key_literals ks_redis_sel Let_def
  by (intro touch_rules) simp_all

text \<open>What a claim does to every job.\<close>

lemma claim_places:
  assumes wt: "well_typed ks" "no_expiry ks" and args: "0 < ms" "i64_ok ms" "0 \<le> ext"
    and run: "atomic_claim_ready_jobs ks_redis C now q w ms ext n start ks = (Ok claimed, ks')"
  shows "well_typed ks'" "no_expiry ks'"
    "j \<in> set claimed \<Longrightarrow> lock_of ks j = None" "j \<in> set claimed \<Longrightarrow> lock_of ks' j = Some w"
    "active_in ks' v j \<longleftrightarrow> active_in ks v j \<or> v = w \<and> j \<in> set claimed"
    "j \<notin> set claimed \<Longrightarrow> lock_of ks' j = lock_of ks j" "j \<notin> set claimed \<Longrightarrow> open_job ks' j = open_job ks j"
    "j \<notin> set claimed \<Longrightarrow> open_job ks j \<Longrightarrow> queued_in ks p j \<Longrightarrow> queued_in ks' p j"
proof -
  note touched = touchesD [OF claim_touches _ run]
  obtain vis where inv: "claim_inv q w (to_rfc3339 C start) n ks vis claimed ks'"
  proof (cases "n = 0")
    case True
    then show thesis
      using run that [of "{}"] claim_inv_init [OF wt(1), of q w "to_rfc3339 C start" n]
      by (simp add: atomic_claim_ready_jobs_def ret_def)
  next
    case False
    then have "lua_claim_ready ks_redis (format_queue_key q) (active_jobs_key w) w
        (of_int (timestamp_millis now)) n ms ext (to_rfc3339 C start) (of_int (timestamp_secs start)) ks = (Ok claimed, ks')"
      using run args by (simp add: atomic_claim_ready_jobs_def)
    then show thesis using that lua_claim_ready_spec [OF wt(1) args(1,2)] by blast
  qed
  note facts = claim_inv_facts [OF inv]
  have act: "zs_members (zset_at ks' (active_jobs_key w)) = zs_members (zset_at ks (active_jobs_key w)) \<union> set claimed"
    using inv by (auto simp: claim_inv_def)
  have other: "v \<noteq> w \<Longrightarrow> ks' (active_jobs_key v) = ks (active_jobs_key v)" for v
    by (rule touched) auto
  show "active_in ks' v j \<longleftrightarrow> active_in ks v j \<or> v = w \<and> j \<in> set claimed"
    using act other [of v] by (cases "v = w") (auto simp: active_in_def zs_score_None_iff zset_at_def)
  show "queued_in ks' p j" if "j \<notin> set claimed" "open_job ks j" "queued_in ks p j"
  proof -
    have "ks (format_job_key j) \<noteq> None"
      using that(2) by (cases "ks (format_job_key j) = None") (auto simp: open_job_def)
    then have same: "zs_score j (zset_at ks' (format_queue_key q)) = zs_score j (zset_at ks (format_queue_key q))"
      using facts(13) that(1) by blast
    show ?thesis
    proof (cases "format_queue_key p = format_queue_key q")
      case True
      then show ?thesis using same that(3) by (simp add: queued_in_def)
    next
      case False
      then have "ks' (format_queue_key p) = ks (format_queue_key p)" by (intro touched) auto
      then show ?thesis using that(3) by (simp add: queued_in_def zset_at_def)
    qed
  qed
  show "well_typed ks'" using inv by (simp add: claim_inv_def)
  show "no_expiry ks'" by (rule keepsD [OF claim_no_expiry wt(2) run])
  show "j \<notin> set claimed \<Longrightarrow> lock_of ks' j = lock_of ks j" using facts(12) by (simp add: lock_of_def string_at_def)
  show "j \<in> set claimed \<Longrightarrow> lock_of ks j = None" "j \<in> set claimed \<Longrightarrow> lock_of ks' j = Some w"
    using facts(5,6) by (simp_all add: lock_of_def)
  show "j \<notin> set claimed \<Longrightarrow> open_job ks' j = open_job ks j"
    using facts(11) by (simp add: open_job_def hash_at_def)
qed

text \<open>An operation on one job: every other job stays where it is.\<close>

definition acts_on :: "string \<Rightarrow> keyspace \<Rightarrow> keyspace \<Rightarrow> bool" where
  "acts_on j ks ks' \<longleftrightarrow> well_typed ks' \<and> no_expiry ks' \<and> (\<forall>i. i \<noteq> j \<longrightarrow> lock_of ks' i = lock_of ks i
     \<and> open_job ks' i = open_job ks i \<and> (\<forall>q. queued_in ks' q i = queued_in ks q i)
     \<and> (\<forall>w. active_in ks' w i = active_in ks w i))"

named_theorems act_rules
  \<open>introduction rules of \<open>acts_on\<close>\<close>

lemma acts_refl [act_rules]: "well_typed ks \<Longrightarrow> no_expiry ks \<Longrightarrow> acts_on j ks ks"
  by (simp add: acts_on_def)

lemma acts_typed: "acts_on j ks ks' \<Longrightarrow> well_typed ks' \<and> no_expiry ks'"
  by (simp add: acts_on_def)

lemma acts_put [act_rules]:
  assumes "acts_on j ks0 ks"
  shows "acts_on j ks0 (put_hash (format_job_key j) h ks)" "acts_on j ks0 (put_list (format_dlq_key d) l ks)"
    "es \<noteq> [] \<Longrightarrow> acts_on j ks0 (put_stream (format_job_events_key j) es ks)"
    "acts_on j ks0 (put_string (format_lock_key j) v t ks)" "acts_on j ks0 (del_key (format_lock_key j) ks)"
    "acts_on j ks0 (del_key (format_unique_key u) ks)" "\<not> lasting k \<Longrightarrow> acts_on j ks0 (put_ttl k t ks)"
  using assms by (auto simp: acts_on_def place_defs)

lemma acts_put_zset [act_rules]:
  assumes "acts_on j ks0 ks"
  shows "acts_on j ks0 (put_zset (format_queue_key q) (zs_put sc j (zset_at ks (format_queue_key q))) ks)"
    "acts_on j ks0 (put_zset (active_jobs_key w) (zs_del j (zset_at ks (active_jobs_key w))) ks)"
  using assms by (auto simp: acts_on_def place_defs)

lemma acts_put_zset_at:
  assumes "acts_on j ks0 ks" "zset_at ks1 (format_queue_key q) = zset_at ks (format_queue_key q)"
  shows "acts_on j ks0 (put_zset (format_queue_key q) (zs_put sc j (zset_at ks1 (format_queue_key q))) ks)"
  using acts_put_zset(1) [OF assms(1)] assms(2) by simp


section \<open>What the operations do to their job\<close>

abbreviation same_lock_active :: "string \<Rightarrow> keyspace \<Rightarrow> keyspace \<Rightarrow> bool" where
  "same_lock_active j ks ks' \<equiv> lock_of ks' j = lock_of ks j \<and> (\<forall>w. active_in ks' w j = active_in ks w j)"

lemma enqueue_places:
  assumes wt: "well_typed ks" and ne: "no_expiry ks" and run: "atomic_enqueue_job ks_redis C job q sc ks = (Ok b, ks')"
  shows "ks' = ks \<or> acts_on (j_id job) ks ks' \<and> same_lock_active (j_id job) ks ks' \<and> queued_in ks' q (j_id job)"
proof (cases "ks (format_job_key (j_id job)) = None")
  case True
  then have "ks' = put_zset (format_queue_key q) (zs_put sc (j_id job) (zset_at ks (format_queue_key q)))
       (put_hash (format_job_key (j_id job)) (job_hash C job) ks)"
    using run enqueue_fresh [OF wt] by auto
  then show ?thesis
    using wt ne by (auto intro!: act_rules acts_put_zset_at simp: place_defs)
next
  case False
  then show ?thesis using run enqueue_existing [of ks job] by auto
qed

lemma hincrby_counter:
  assumes wt: "well_typed ks" and run: "ks_hincrby (format_job_key j) f 1 ks = (Ok n, ks')"
  shows "\<exists>m. hash_int (hash_at ks (format_job_key j)) f = Some m \<and> i64_ok (m + 1) \<and> n = m + 1"
proof -
  have "read_hash (format_job_key j) (\<lambda>h. fmlookup h f) ks = (Ok (fmlookup (hash_at ks (format_job_key j)) f), ks)"
    using well_typedD(1) [OF wt, of j] by (auto simp: read_hash_def view_defs split: option.splits rvalue.splits)
  then show ?thesis
    using run by (auto simp: ks_hincrby_def andThen_def ret_def fail_def hash_int_def
        split: option.splits if_splits prod.splits res.splits)
qed

lemma retry_places:
  assumes wt: "well_typed ks" and ne: "no_expiry ks" and run: "atomic_retry_job ks_redis j q sc m Retrying ks = (Ok n, ks')"
  shows "acts_on j ks ks' \<and> same_lock_active j ks ks' \<and> queued_in ks' q j"
proof -
  obtain c ks1 where "ks_hincrby (format_job_key j) ''current_retries'' 1 ks = (Ok c, ks1)"
    using run by (auto simp: atomic_retry_job_def lua_retry_def andThen_def split: prod.splits res.splits)
  then obtain k where k: "hash_int (hash_at ks (format_job_key j)) ''current_retries'' = Some k" "i64_ok (k + 1)"
    using hincrby_counter [OF wt] by blast
  show ?thesis
    using wt ne run retry_effect [OF wt k] by (auto intro!: act_rules acts_put_zset_at simp: place_defs)
qed

lemma dlq_places:
  assumes wt: "well_typed ks" and ne: "no_expiry ks" and run: "atomic_move_job_to_dlq ks_redis C j d m t DEFAULT_DLQ_RESULT_TTL_SECONDS
      (map_option (\<lambda>k. UNIQUE_JOB_LOCK_PREFIX @ k) u) ks = (Ok n, ks')" and n: "0 \<le> n"
  shows "acts_on j ks ks' \<and> same_lock_active j ks ks' \<and> \<not> open_job ks' j"
proof (cases "ks_hincrby (format_job_key j) ''current_retries'' 1 ks")
  case (Pair r ks1)
  show ?thesis
  proof (cases r)
    case (Ok c)
    then obtain k where k: "hash_int (hash_at ks (format_job_key j)) ''current_retries'' = Some k" "i64_ok (k + 1)"
      using hincrby_counter [OF wt] Pair by blast
    have ttl: "i64_ok (DEFAULT_DLQ_RESULT_TTL_SECONDS * 1000)" "0 < DEFAULT_DLQ_RESULT_TTL_SECONDS"
      by (simp_all add: DEFAULT_DLQ_RESULT_TTL_SECONDS_def i64_ok_def)
    have acts: "acts_on j ks (dlq_state C j d m t DEFAULT_DLQ_RESULT_TTL_SECONDS k ks)"
      using ttl(2) wt ne unfolding dlq_state_def set_opt_ttl_def by (auto intro!: act_rules)
    have state: "ks' = (case u of None \<Rightarrow> dlq_state C j d m t DEFAULT_DLQ_RESULT_TTL_SECONDS k ks
        | Some x \<Rightarrow> del_key (format_unique_key x) (dlq_state C j d m t DEFAULT_DLQ_RESULT_TTL_SECONDS k ks))"
      using run dlq_effect [OF wt k ttl(1)] by (cases u) (simp_all add: unique_key_form)
    show ?thesis
      using acts ttl(2) wt ne unfolding state
      by (auto intro!: act_rules simp: place_defs dlq_state_def set_opt_ttl_def dlq_fields_def parse_status_def
          split: option.split)
  next
    case (Err e)
    then show ?thesis
      using run n Pair by (simp add: atomic_move_job_to_dlq_def lua_move_to_dlq_def lua_pcall_def
          lua_move_to_dlq_run_def andThen_def attempt_def ret_def)
  next
    case (Panic p)
    then show ?thesis
      using calmD [OF calm_collection_commands(5) Pair] by blast
  qed
qed


lemma save_places:
  assumes wt: "well_typed ks" and ne: "no_expiry ks" and run: "save_job_result ks_redis C now j v ttl ks = (Ok (), ks')"
  shows "acts_on j ks ks' \<and> same_lock_active j ks ks' \<and> \<not> open_job ks' j"
proof -
  have "\<exists>e ks2. save_job_result ks_redis C now j v ttl ks = (Err e, ks2)" if "0 < ttl" "\<not> i64_ok (ttl * 1000)"
  proof -
    have "ks_expire k ttl ks1 = (Err invalid_expire, ks1)" for k ks1
      using that by (simp add: ks_expire_def)
    then show ?thesis
      using wt that by (simp add: save_job_result_def andThen_def attempt_def ret_def ignore_def as_str_def
          effects fail_def Let_def)
  qed
  then consider "i64_ok (ttl * 1000)" | "ttl < 0"
    using run by (cases "0 < ttl"; cases "ttl = 0") (auto simp: i64_ok_def)
  then have "ks' = result_state C now j v ttl ks"
  proof cases
    case 1
    then show ?thesis using run save_result_effect [OF wt 1] by simp
  next
    case 2
    then show ?thesis
      using wt run by (simp add: save_job_result_def andThen_def attempt_def ret_def ignore_def as_str_def effects
          put_hash_twice result_state_def put_opt_ttl_def Let_def)
  qed
  moreover have "acts_on j ks (result_state C now j v ttl ks)"
    using wt ne unfolding result_state_def put_opt_ttl_def by (auto intro!: act_rules)
  ultimately show ?thesis
    by (simp add: place_defs result_state_def put_opt_ttl_def parse_status_def)
qed

lemma pending_places:
  assumes wt: "well_typed ks" and ne: "no_expiry ks" and run: "mark_job_pending ks_redis j e ks = (r, ks')"
  shows "acts_on j ks ks' \<and> same_lock_active j ks ks' \<and> (\<forall>q. queued_in ks' q j = queued_in ks q j)"
  using wt ne run [unfolded mark_pending_effect [OF wt]] by (auto intro!: act_rules simp: place_defs)

lemma add_queue_places:
  assumes wt: "well_typed ks" and ne: "no_expiry ks" and run: "add_job_to_queue ks_redis q j sc ks = (r, ks')"
  shows "acts_on j ks ks' \<and> same_lock_active j ks ks' \<and> queued_in ks' q j"
  using wt ne run [unfolded add_to_queue_effect [OF wt]] by (auto intro!: act_rules simp: place_defs)

lemma next_run_places:
  assumes wt: "well_typed ks" and ne: "no_expiry ks"
    and run: "update_job_next_scheduled_run_time ks_redis C j t ks = (r, ks')"
  shows "acts_on j ks ks' \<and> same_lock_active j ks ks' \<and> open_job ks' j = open_job ks j
    \<and> (\<forall>q. queued_in ks' q j = queued_in ks q j)"
  using wt ne run [unfolded next_run_effect [OF wt]] by (auto intro!: act_rules simp: place_defs)

lemma refresh_places:
  assumes wt: "well_typed ks" and ne: "no_expiry ks"
    and run: "refresh_job_lock_timeout ks_redis j w ms ks = (r, ks')"
  shows "acts_on j ks ks' \<and> same_lock_active j ks ks' \<and> open_job ks' j = open_job ks j
    \<and> (\<forall>q. queued_in ks' q j = queued_in ks q j)"
  using wt ne run [unfolded refresh_lock_effect [OF wt]]
  by (auto intro!: act_rules simp: place_defs split: if_splits)

lemma release_unique_places:
  assumes wt: "well_typed ks" and ne: "no_expiry ks" and run: "release_unique_job_lock ks_redis u ks = (r, ks')"
  shows "acts_on j ks ks' \<and> same_lock_active j ks ks' \<and> open_job ks' j = open_job ks j
    \<and> (\<forall>q. queued_in ks' q j = queued_in ks q j)"
  using wt ne run [unfolded release_unique_effect] by (auto intro!: act_rules simp: place_defs)

lemma remove_active_places:
  assumes wt: "well_typed ks" and ne: "no_expiry ks" and run: "remove_active_job ks_redis w j ks = (r, ks')"
  shows "acts_on j ks ks' \<and> lock_of ks' j = lock_of ks j \<and> open_job ks' j = open_job ks j
    \<and> (\<forall>q. queued_in ks' q j = queued_in ks q j) \<and> (\<forall>v. active_in ks' v j \<longleftrightarrow> v \<noteq> w \<and> active_in ks v j)"
  using wt ne run [unfolded remove_active_effect [OF wt]]
  by (auto intro!: act_rules simp: place_defs split: if_splits)

lemma unlock_places:
  assumes wt: "well_typed ks" and ne: "no_expiry ks" and run: "release_job_lock_if_owner ks_redis j w ks = (r, ks')"
  shows "acts_on j ks ks' \<and> lock_of ks' j = (if lock_of ks j = Some w then None else lock_of ks j)
    \<and> open_job ks' j = open_job ks j \<and> (\<forall>q. queued_in ks' q j = queued_in ks q j)
    \<and> (\<forall>v. active_in ks' v j = active_in ks v j)"
  using wt ne run [unfolded release_if_owner_effect [OF wt]]
  by (auto intro!: act_rules simp: place_defs split: if_splits)

lemma try_lock_places:
  assumes wt: "well_typed ks" and ne: "no_expiry ks" and ms: "0 < ms" "i64_ok ms"
    and run: "try_lock_job ks_redis j w ms ks = (Ok True, ks')"
  shows "acts_on j ks ks' \<and> lock_of ks j = None \<and> lock_of ks' j = Some w \<and> open_job ks' j = open_job ks j
    \<and> (\<forall>q. queued_in ks' q j = queued_in ks q j) \<and> (\<forall>v. active_in ks' v j = active_in ks v j)"
  using wt ne run [unfolded try_lock_effect [OF ms]]
  by (auto intro!: act_rules simp: place_defs split: if_splits)

lemma acts_requeue_parts [act_rules]:
  assumes "acts_on j ks0 ks"
  shows "acts_on j ks0 (demoted j m ks)" "acts_on j ks0 (drop_active_state j a ks)"
    "acts_on j ks0 (restore_state j ns ks)" "acts_on j ks0 (release_owned_state j owner ks)"
  using assms acts_typed [OF assms] unfolding demoted_def drop_active_state_def restore_state_def release_owned_state_def
  by (auto intro!: act_rules split: option.split)

lemma requeue_places:
  assumes wt: "well_typed ks" and ne: "no_expiry ks" and owner: "owner \<noteq> []"
    and run: "atomic_requeue_job ks_redis j q sc m owner (Some w) ns ks = (Ok n, ks')"
  shows "n = 0 \<and> ks' = ks \<and> \<not> open_job ks j
    \<or> n \<noteq> 0 \<and> acts_on j ks ks' \<and> queued_in ks' q j \<and> (\<forall>v. active_in ks' v j \<longleftrightarrow> v \<noteq> w \<and> active_in ks v j)
      \<and> lock_of ks' j = (if lock_of ks j = Some owner then None else lock_of ks j)"
proof -
  consider (missing) "ks (format_job_key j) = None"
    | (new) "ks (format_job_key j) \<noteq> None" "zs_score j (zset_at ks (format_queue_key q)) = None"
    | (queued) "ks (format_job_key j) \<noteq> None" "zs_score j (zset_at ks (format_queue_key q)) \<noteq> None"
    by blast
  then show ?thesis
  proof cases
    case missing
    then show ?thesis using run requeue_missing [OF wt missing] by (simp add: open_job_def)
  next
    case new
    then have "n = 1" "ks' = requeue_state j q sc m owner (Some w) ns ks"
      using run requeue_effect [OF wt new] by simp_all
    moreover have "acts_on j ks (requeue_state j q sc m owner (Some w) ns ks)"
      unfolding requeue_state_def by (intro act_rules acts_put_zset_at) (use wt ne in simp_all)
    ultimately show ?thesis
      using wt owner unfolding requeue_state_def
      by (auto simp: place_defs release_owned_state_def drop_active_state_def split: if_splits)
  next
    case queued
    then have "n = 2" "ks' = release_owned_state j owner (drop_active_state j (Some w) (demoted j m ks))"
      using run requeue_queued [OF wt queued] by simp_all
    moreover have "acts_on j ks (release_owned_state j owner (drop_active_state j (Some w) (demoted j m ks)))"
      by (intro act_rules) (use wt ne in simp_all)
    ultimately show ?thesis
      using wt owner queued
      by (auto simp: place_defs release_owned_state_def drop_active_state_def split: if_splits)
  qed
qed

lemma elapse_places:
  assumes wt: "well_typed ks" and ne: "no_expiry ks"
  shows "well_typed (ks_elapse d ks)" "no_expiry (ks_elapse d ks)"
    "lock_of (ks_elapse d ks) j = None \<or> lock_of (ks_elapse d ks) j = lock_of ks j"
    "open_job (ks_elapse d ks) j \<Longrightarrow> open_job ks j"
    "queued_in (ks_elapse d ks) q j = queued_in ks q j" "active_in (ks_elapse d ks) w j = active_in ks w j"
proof -
  have keep: "ks_elapse d ks k = ks k" if "lasting k" for k
    using ne that by (auto simp: no_expiry_def ttl_at_def ks_elapse_def split: option.splits prod.splits)
  then show "no_expiry (ks_elapse d ks)"
    using ne by (simp add: no_expiry_def ttl_at_def)
  show "lock_of (ks_elapse d ks) j = None \<or> lock_of (ks_elapse d ks) j = lock_of ks j"
    using elapse_at [of d ks "format_lock_key j"] by (auto simp: lock_of_def string_at_def split: rvalue.splits)
  show "open_job (ks_elapse d ks) j \<Longrightarrow> open_job ks j"
    using elapse_at [of d ks "format_job_key j"] by (auto simp: open_job_def hash_at_def split: rvalue.splits)
  show "queued_in (ks_elapse d ks) q j = queued_in ks q j" "active_in (ks_elapse d ks) w j = active_in ks w j"
    using keep by (simp_all add: queued_in_def active_in_def zset_at_def)
qed (use wt in simp)

end
