(* ===== verification/System.thy ===== *)
theory System
  imports Custody
begin

text \<open>
  The system as a state machine: agents, the phases of their jobs and the steps they take on the shared
  keyspace; the invariant of the reachable states, job by job.
\<close>

section \<open>Agents and phases\<close>

text \<open>
  The tasks of the workers and the recoveries of the workers that are gone, running side by side on one
  keyspace. An agent passes through the phases of a job: \<open>Working\<close> once it has the lock, \<open>Recorded\<close> when the
  outcome is written, \<open>Removed\<close> when the active set no longer lists the job, and \<open>Idle\<close> again after the
  lock. \<open>Unowned\<close> is a task that the shutdown has requeued its job from under it: it still cleans up, but
  holds nothing.
\<close>

datatype agent = WorkerTask string | RecoveryOf string

definition owner_of :: "agent \<Rightarrow> string" where
  "owner_of a = (case a of WorkerTask w \<Rightarrow> w | RecoveryOf w \<Rightarrow> recovery_owner w)"

definition home_of :: "agent \<Rightarrow> string" where
  "home_of a = (case a of WorkerTask w \<Rightarrow> w | RecoveryOf w \<Rightarrow> w)"

datatype phase = Idle | Working | Recorded | Removed | Unowned

definition holding :: "phase \<Rightarrow> bool" where
  "holding p \<longleftrightarrow> p = Working \<or> p = Recorded \<or> p = Removed"

record sys =
  sy_ks :: keyspace
  sy_phase :: "agent \<Rightarrow> string \<Rightarrow> phase"
  sy_stopping :: "string set"
  sy_dead :: "string set"

definition set_phase :: "agent \<Rightarrow> string \<Rightarrow> phase \<Rightarrow> (agent \<Rightarrow> string \<Rightarrow> phase) \<Rightarrow> agent \<Rightarrow> string \<Rightarrow> phase" where
  "set_phase a j p ph = (\<lambda>b i. if b = a \<and> i = j then p else ph b i)"

definition plain_id :: "string \<Rightarrow> bool" where
  "plain_id w \<longleftrightarrow> (\<forall>v. w \<noteq> recovery_owner v)"

definition moved :: "sys \<Rightarrow> agent \<Rightarrow> string \<Rightarrow> phase \<Rightarrow> keyspace \<Rightarrow> sys" where
  "moved s a j p ks = s\<lparr>sy_ks := ks, sy_phase := set_phase a j p (sy_phase s)\<rparr>"

text \<open>
  One step is one operation of the store, as the code of \<open>worker.rs\<close> calls it, or something the code cannot
  prevent: the stop or the crash of a worker, the end of a recovery, the passing of time. The guards say
  where in its code the agent is. What the model assumes: the task of a job ends before its lock expires
  (\<open>tick\<close>; the lock lasts the timeout of the job and an extension), a worker that is gone does not come
  back under its id, and no worker has an id of the form \<open>orphan-recovery-\<dots>\<close>. An operation that fails is
  not a step: what becomes of the job then is the subject of \<open>Worker_Execution\<close>.
\<close>

inductive sys_step :: "codec \<Rightarrow> sys \<Rightarrow> sys \<Rightarrow> bool" for C :: codec where
  enqueue: "atomic_enqueue_job ks_redis C job q sc (sy_ks s) = (Ok b, ks) \<Longrightarrow> sys_step C s (s\<lparr>sy_ks := ks\<rparr>)"
| claim: "w \<notin> sy_stopping s \<Longrightarrow> plain_id w \<Longrightarrow> 0 < ms \<Longrightarrow> i64_ok ms \<Longrightarrow> 0 \<le> ext \<Longrightarrow>
    atomic_claim_ready_jobs ks_redis C now q w ms ext n start (sy_ks s) = (Ok claimed, ks) \<Longrightarrow>
    sys_step C s (s\<lparr>sy_ks := ks, sy_phase := (\<lambda>a j. if a = WorkerTask w \<and> j \<in> set claimed then Working
                                              else sy_phase s a j)\<rparr>)"
| refresh: "sy_phase s a j = Working \<Longrightarrow>
    refresh_job_lock_timeout ks_redis j (owner_of a) ms (sy_ks s) = (Ok b, ks) \<Longrightarrow> sys_step C s (s\<lparr>sy_ks := ks\<rparr>)"
| complete: "sy_phase s a j = Working \<Longrightarrow>
    save_job_result ks_redis C now j v ttl (sy_ks s) = (Ok (), ks) \<Longrightarrow> sys_step C s (moved s a j Recorded ks)"
| retry: "sy_phase s a j = Working \<Longrightarrow>
    atomic_retry_job ks_redis j q sc m Retrying (sy_ks s) = (Ok n, ks) \<Longrightarrow> sys_step C s (moved s a j Recorded ks)"
| dlq: "sy_phase s a j = Working \<Longrightarrow>
    atomic_move_job_to_dlq ks_redis C j d m now DEFAULT_DLQ_RESULT_TTL_SECONDS
      (map_option (\<lambda>k. UNIQUE_JOB_LOCK_PREFIX @ k) u) (sy_ks s) = (Ok n, ks) \<Longrightarrow> 0 \<le> n \<Longrightarrow>
    sys_step C s (moved s a j Recorded ks)"
| schedule: "sy_phase s a j = Recorded \<Longrightarrow>
    update_job_next_scheduled_run_time ks_redis C j t (sy_ks s) = (Ok (), ks) \<Longrightarrow> sys_step C s (s\<lparr>sy_ks := ks\<rparr>)"
| free_unique: "release_unique_job_lock ks_redis u (sy_ks s) = (Ok (), ks) \<Longrightarrow> sys_step C s (s\<lparr>sy_ks := ks\<rparr>)"
| pending: "sy_phase s a j = Working \<Longrightarrow> (\<exists>w. a = WorkerTask w) \<or> (\<exists>q. queued_in (sy_ks s) q j) \<Longrightarrow>
    mark_job_pending ks_redis j e (sy_ks s) = (Ok (), ks) \<Longrightarrow> sys_step C s (s\<lparr>sy_ks := ks\<rparr>)"
| give_back: "sy_phase s a j = Working \<Longrightarrow>
    add_job_to_queue ks_redis q j sc (sy_ks s) = (Ok (), ks) \<Longrightarrow> sys_step C s (moved s a j Recorded ks)"
| leave: "sy_phase s a j = Working \<Longrightarrow> \<not> open_job (sy_ks s) j \<or> (\<exists>q. queued_in (sy_ks s) q j) \<Longrightarrow>
    sys_step C s (moved s a j Recorded (sy_ks s))"
| drop_active: "sy_phase s a j = Recorded \<Longrightarrow>
    remove_active_job ks_redis (home_of a) j (sy_ks s) = (Ok (), ks) \<Longrightarrow> sys_step C s (moved s a j Removed ks)"
| unlock: "sy_phase s a j = Removed \<Longrightarrow>
    release_job_lock_if_owner ks_redis j (owner_of a) (sy_ks s) = (Ok b, ks) \<Longrightarrow> sys_step C s (moved s a j Idle ks)"
| requeue: "sy_phase s a j = Working \<Longrightarrow> home_of a \<in> sy_stopping s \<Longrightarrow> owner_of a \<noteq> [] \<Longrightarrow>
    atomic_requeue_job ks_redis j q sc m (owner_of a) (Some (home_of a)) ns (sy_ks s) = (Ok n, ks) \<Longrightarrow> 0 \<le> n \<Longrightarrow>
    sys_step C s (moved s a j (if n = 0 then Recorded else Unowned) ks)"
| again_active: "sy_phase s a j = Unowned \<Longrightarrow>
    remove_active_job ks_redis (home_of a) j (sy_ks s) = (Ok (), ks) \<Longrightarrow> sys_step C s (s\<lparr>sy_ks := ks\<rparr>)"
| again_unlock: "sy_phase s a j = Unowned \<Longrightarrow>
    release_job_lock_if_owner ks_redis j (owner_of a) (sy_ks s) = (Ok b, ks) \<Longrightarrow> sys_step C s (moved s a j Idle ks)"
| recover_lock: "w \<in> sy_dead s \<Longrightarrow> sy_phase s (RecoveryOf w) j = Idle \<Longrightarrow> 0 < ms \<Longrightarrow> i64_ok ms \<Longrightarrow>
    try_lock_job ks_redis j (recovery_owner w) ms (sy_ks s) = (Ok True, ks) \<Longrightarrow>
    sys_step C s (moved s (RecoveryOf w) j Working ks)"
| recover_gone: "w \<in> sy_dead s \<Longrightarrow> sy_ks s (format_job_key j) = None \<Longrightarrow>
    remove_active_job ks_redis w j (sy_ks s) = (Ok (), ks) \<Longrightarrow> sys_step C s (s\<lparr>sy_ks := ks\<rparr>)"
| stop: "sys_step C s (s\<lparr>sy_stopping := insert w (sy_stopping s)\<rparr>)"
| crash: "sys_step C s (s\<lparr>sy_stopping := insert w (sy_stopping s), sy_dead := insert w (sy_dead s),
    sy_phase := (\<lambda>a j. if a = WorkerTask w then Idle else sy_phase s a j)\<rparr>)"
| recovery_crash: "sys_step C s (s\<lparr>sy_phase := set_phase (RecoveryOf w) j Idle (sy_phase s)\<rparr>)"
| tick: "(\<forall>a j. holding (sy_phase s a j) \<longrightarrow> lock_of (ks_elapse d (sy_ks s)) j = lock_of (sy_ks s) j) \<Longrightarrow>
    sys_step C s (s\<lparr>sy_ks := ks_elapse d (sy_ks s)\<rparr>)"

definition sys_init :: sys where
  "sys_init = \<lparr> sy_ks = (\<lambda>_. None), sy_phase = (\<lambda>_ _. Idle), sy_stopping = {}, sy_dead = {} \<rparr>"

inductive sys_reach :: "codec \<Rightarrow> sys \<Rightarrow> bool" for C :: codec where
  init: "sys_reach C sys_init"
| step: "sys_reach C s \<Longrightarrow> sys_step C s t \<Longrightarrow> sys_reach C t"

section \<open>The invariant\<close>

definition in_custody :: "keyspace \<Rightarrow> string \<Rightarrow> bool" where
  "in_custody ks j \<longleftrightarrow> (\<exists>q. queued_in ks q j) \<or> (\<exists>w. active_in ks w j)"

definition job_inv :: "sys \<Rightarrow> string \<Rightarrow> bool" where
  "job_inv s j \<longleftrightarrow>
     (\<forall>a. holding (sy_phase s a j) \<longrightarrow> lock_of (sy_ks s) j = Some (owner_of a))
   \<and> (\<forall>a b. holding (sy_phase s a j) \<longrightarrow> holding (sy_phase s b j) \<longrightarrow> a = b)
   \<and> (\<forall>a. sy_phase s a j \<in> {Recorded, Removed} \<longrightarrow> open_job (sy_ks s) j \<longrightarrow> (\<exists>q. queued_in (sy_ks s) q j))
   \<and> (\<forall>a. sy_phase s a j = Unowned \<longrightarrow> home_of a \<in> sy_stopping s \<and> \<not> active_in (sy_ks s) (home_of a) j
        \<and> lock_of (sy_ks s) j \<noteq> Some (owner_of a))
   \<and> (open_job (sy_ks s) j \<longrightarrow> in_custody (sy_ks s) j)
   \<and> (\<forall>w. sy_phase s (WorkerTask w) j \<noteq> Idle \<longrightarrow> plain_id w \<and> w \<notin> sy_dead s)
   \<and> (\<forall>w. sy_phase s (WorkerTask w) j \<in> {Working, Recorded} \<longrightarrow> active_in (sy_ks s) w j)
   \<and> (\<forall>w. sy_phase s (RecoveryOf w) j \<noteq> Idle \<longrightarrow> w \<in> sy_dead s)"

definition sys_inv :: "sys \<Rightarrow> bool" where
  "sys_inv s \<longleftrightarrow> well_typed (sy_ks s) \<and> no_expiry (sy_ks s) \<and> sy_dead s \<subseteq> sy_stopping s \<and> (\<forall>j. job_inv s j)"

lemma holding_simps [simp]:
  "holding Working" "holding Recorded" "holding Removed" "\<not> holding Idle" "\<not> holding Unowned"
  by (simp_all add: holding_def)

lemma moved_sel [simp]:
  "sy_ks (moved s a j p ks) = ks" "sy_phase (moved s a j p ks) b i = (if b = a \<and> i = j then p else sy_phase s b i)"
  "sy_stopping (moved s a j p ks) = sy_stopping s" "sy_dead (moved s a j p ks) = sy_dead s"
  by (simp_all add: moved_def set_phase_def)

text \<open>A step that concerns one job.\<close>

lemma sys_inv_one:
  assumes inv: "sys_inv s" and acts: "acts_on j (sy_ks s) (sy_ks t)"
    and phase: "\<And>a i. i \<noteq> j \<Longrightarrow> sy_phase t a i = sy_phase s a i"
    and sets: "sy_stopping t = sy_stopping s" "sy_dead t = sy_dead s" and job: "job_inv t j"
  shows "sys_inv t"
proof -
  have "job_inv t i" for i
  proof (cases "i = j")
    case True
    then show ?thesis using job by simp
  next
    case False
    then show ?thesis
      using inv acts phase [OF False] sets unfolding sys_inv_def job_inv_def acts_on_def in_custody_def by simp
  qed
  then show ?thesis
    using inv acts sets by (simp add: sys_inv_def acts_on_def)
qed

lemma owner_cases:
  "owner_of a = owner_of b \<Longrightarrow> (\<And>w. a = WorkerTask w \<Longrightarrow> plain_id w) \<Longrightarrow> (\<And>w. b = WorkerTask w \<Longrightarrow> plain_id w) \<Longrightarrow> a = b"
  by (auto simp: owner_of_def plain_id_def recovery_owner_def split: agent.splits)

lemma inv_parts:
  assumes "sys_inv s"
  shows "well_typed (sy_ks s)" "no_expiry (sy_ks s)" "sy_dead s \<subseteq> sy_stopping s" "job_inv s j"
  using assms by (simp_all add: sys_inv_def)

lemma job_invD:
  assumes "job_inv s j"
  shows "holding (sy_phase s a j) \<Longrightarrow> lock_of (sy_ks s) j = Some (owner_of a)"
    "holding (sy_phase s a j) \<Longrightarrow> holding (sy_phase s b j) \<Longrightarrow> a = b"
    "sy_phase s a j \<in> {Recorded, Removed} \<Longrightarrow> open_job (sy_ks s) j \<Longrightarrow> \<exists>q. queued_in (sy_ks s) q j"
    "sy_phase s a j = Unowned \<Longrightarrow> home_of a \<in> sy_stopping s \<and> \<not> active_in (sy_ks s) (home_of a) j
        \<and> lock_of (sy_ks s) j \<noteq> Some (owner_of a)"
    "open_job (sy_ks s) j \<Longrightarrow> in_custody (sy_ks s) j"
    "sy_phase s (WorkerTask w) j \<noteq> Idle \<Longrightarrow> plain_id w \<and> w \<notin> sy_dead s"
    "sy_phase s (WorkerTask w) j \<in> {Working, Recorded} \<Longrightarrow> active_in (sy_ks s) w j"
    "sy_phase s (RecoveryOf w) j \<noteq> Idle \<Longrightarrow> w \<in> sy_dead s"
  using assms unfolding job_inv_def by blast+

lemma job_invI:
  assumes "\<And>a. holding (sy_phase s a j) \<Longrightarrow> lock_of (sy_ks s) j = Some (owner_of a)"
    "\<And>a b. holding (sy_phase s a j) \<Longrightarrow> holding (sy_phase s b j) \<Longrightarrow> a = b"
    "\<And>a. sy_phase s a j \<in> {Recorded, Removed} \<Longrightarrow> open_job (sy_ks s) j \<Longrightarrow> \<exists>q. queued_in (sy_ks s) q j"
    "\<And>a. sy_phase s a j = Unowned \<Longrightarrow> home_of a \<in> sy_stopping s \<and> \<not> active_in (sy_ks s) (home_of a) j
        \<and> lock_of (sy_ks s) j \<noteq> Some (owner_of a)"
    "open_job (sy_ks s) j \<Longrightarrow> in_custody (sy_ks s) j"
    "\<And>w. sy_phase s (WorkerTask w) j \<noteq> Idle \<Longrightarrow> plain_id w \<and> w \<notin> sy_dead s"
    "\<And>w. sy_phase s (WorkerTask w) j \<in> {Working, Recorded} \<Longrightarrow> active_in (sy_ks s) w j"
    "\<And>w. sy_phase s (RecoveryOf w) j \<noteq> Idle \<Longrightarrow> w \<in> sy_dead s"
  shows "job_inv s j"
  using assms unfolding job_inv_def by blast

text \<open>A job whose lock, active sets and phases stay, and which is in a queue if it is still open.\<close>

lemma job_inv_same:
  assumes inv: "job_inv s j" and same: "same_lock_active j (sy_ks s) ks"
    and queued: "open_job ks j \<Longrightarrow> open_job (sy_ks s) j \<and> (\<forall>q. queued_in (sy_ks s) q j \<longrightarrow> queued_in ks q j)
      \<or> (\<exists>q. queued_in ks q j)"
  shows "job_inv (s\<lparr>sy_ks := ks\<rparr>) j"
proof (rule job_invI)
  show "\<exists>q. queued_in (sy_ks (s\<lparr>sy_ks := ks\<rparr>)) q j"
    if "sy_phase (s\<lparr>sy_ks := ks\<rparr>) a j \<in> {Recorded, Removed}" "open_job (sy_ks (s\<lparr>sy_ks := ks\<rparr>)) j" for a
    using that queued job_invD(3) [OF inv, of a] by auto
  show "in_custody (sy_ks (s\<lparr>sy_ks := ks\<rparr>)) j" if "open_job (sy_ks (s\<lparr>sy_ks := ks\<rparr>)) j"
    using that queued job_invD(5) [OF inv] same by (auto simp: in_custody_def)
qed (use same job_invD [OF inv] in auto)

text \<open>The outcome of a job that is being worked on is recorded.\<close>

lemma job_inv_recorded:
  assumes inv: "job_inv s j" and working: "sy_phase s a j = Working" and same: "same_lock_active j (sy_ks s) ks"
    and queued: "open_job ks j \<Longrightarrow> \<exists>q. queued_in ks q j"
  shows "job_inv (moved s a j Recorded ks) j"
proof (rule job_invI)
  show "b = c" if "holding (sy_phase (moved s a j Recorded ks) b j)" "holding (sy_phase (moved s a j Recorded ks) c j)"
    for b c using that working job_invD(2) [OF inv] by (auto split: if_splits)
  show "in_custody (sy_ks (moved s a j Recorded ks)) j" if "open_job (sy_ks (moved s a j Recorded ks)) j"
    using that queued by (auto simp: in_custody_def)
qed (use same working queued job_invD [OF inv] in \<open>auto split: if_splits\<close>)


text \<open>Taking a job out of the active set: after its outcome, when it is not there, when it is gone.\<close>

definition not_active_in :: "keyspace \<Rightarrow> string \<Rightarrow> string \<Rightarrow> keyspace \<Rightarrow> bool" where
  "not_active_in ks w j ks' \<longleftrightarrow> lock_of ks' j = lock_of ks j \<and> open_job ks' j = open_job ks j
     \<and> (\<forall>q. queued_in ks' q j = queued_in ks q j) \<and> (\<forall>v. active_in ks' v j \<longleftrightarrow> v \<noteq> w \<and> active_in ks v j)"

lemma job_inv_drop_active:
  assumes inv: "job_inv s j" and phase: "sy_phase s a j = Recorded" and eff: "not_active_in (sy_ks s) (home_of a) j ks"
  shows "job_inv (moved s a j Removed ks) j"
proof (rule job_invI)
  show "b = c" if "holding (sy_phase (moved s a j Removed ks) b j)" "holding (sy_phase (moved s a j Removed ks) c j)"
    for b c using that phase job_invD(2) [OF inv] by (auto split: if_splits)
  show "\<exists>q. queued_in (sy_ks (moved s a j Removed ks)) q j"
    if "sy_phase (moved s a j Removed ks) b j \<in> {Recorded, Removed}" "open_job (sy_ks (moved s a j Removed ks)) j" for b
    using that phase eff job_invD(3) [OF inv, of a] by (auto simp: not_active_in_def)
  show "in_custody (sy_ks (moved s a j Removed ks)) j" if "open_job (sy_ks (moved s a j Removed ks)) j"
    using that phase eff job_invD(3) [OF inv, of a] by (auto simp: in_custody_def not_active_in_def)
  show "active_in (sy_ks (moved s a j Removed ks)) w j"
    if "sy_phase (moved s a j Removed ks) (WorkerTask w) j \<in> {Working, Recorded}" for w
  proof -
    have w: "WorkerTask w \<noteq> a" "sy_phase s (WorkerTask w) j \<in> {Working, Recorded}"
      using that by (auto split: if_splits)
    then show ?thesis using job_invD(2) [OF inv, of a "WorkerTask w"] phase by auto
  qed
qed (use eff phase job_invD [OF inv] in \<open>auto simp: not_active_in_def split: if_splits\<close>)

lemma job_inv_unlisted:
  assumes inv: "job_inv s j" and eff: "not_active_in (sy_ks s) w j ks" and w: "sy_phase s (WorkerTask w) j \<notin> {Working, Recorded}"
    and harmless: "\<not> active_in (sy_ks s) w j \<or> \<not> open_job (sy_ks s) j"
  shows "job_inv (s\<lparr>sy_ks := ks\<rparr>) j"
proof (rule job_invI)
  show "in_custody (sy_ks (s\<lparr>sy_ks := ks\<rparr>)) j" if "open_job (sy_ks (s\<lparr>sy_ks := ks\<rparr>)) j"
    using that eff harmless job_invD(5) [OF inv] by (auto simp: in_custody_def not_active_in_def)
qed (use eff w job_invD [OF inv] in \<open>auto simp: not_active_in_def\<close>)

text \<open>Giving the lock up, at the end of a task or after a requeue that has done so already.\<close>

lemma job_inv_unlock:
  assumes inv: "job_inv s j" and phase: "sy_phase s a j = Removed \<or> sy_phase s a j = Unowned"
    and eff: "lock_of ks j = (if lock_of (sy_ks s) j = Some (owner_of a) then None else lock_of (sy_ks s) j)"
      "open_job ks j = open_job (sy_ks s) j" "\<forall>q. queued_in ks q j = queued_in (sy_ks s) q j"
      "\<forall>w. active_in ks w j = active_in (sy_ks s) w j"
  shows "job_inv (moved s a j Idle ks) j"
proof (rule job_invI)
  show "lock_of (sy_ks (moved s a j Idle ks)) j = Some (owner_of b)"
    if "holding (sy_phase (moved s a j Idle ks) b j)" for b
  proof -
    have b: "b \<noteq> a" "holding (sy_phase s b j)" using that by (auto split: if_splits)
    then have "\<not> holding (sy_phase s a j)" using job_invD(2) [OF inv, of a b] by blast
    then have "lock_of (sy_ks s) j \<noteq> Some (owner_of a)" using phase job_invD(4) [OF inv, of a] by auto
    then show ?thesis using eff(1) job_invD(1) [OF inv b(2)] by simp
  qed
  show "b = c" if "holding (sy_phase (moved s a j Idle ks) b j)" "holding (sy_phase (moved s a j Idle ks) c j)"
    for b c using that job_invD(2) [OF inv] by (auto split: if_splits)
  show "in_custody (sy_ks (moved s a j Idle ks)) j" if "open_job (sy_ks (moved s a j Idle ks)) j"
    using that eff job_invD(5) [OF inv] by (simp add: in_custody_def)
qed (use eff job_invD [OF inv] in \<open>auto split: if_splits\<close>)

lemma job_inv_requeue:
  assumes inv: "job_inv s j" and phase: "sy_phase s a j = Working" and stopping: "home_of a \<in> sy_stopping s"
    and eff: "queued_in ks q j" "\<forall>v. active_in ks v j \<longleftrightarrow> v \<noteq> home_of a \<and> active_in (sy_ks s) v j"
      "lock_of ks j = (if lock_of (sy_ks s) j = Some (owner_of a) then None else lock_of (sy_ks s) j)"
  shows "job_inv (moved s a j Unowned ks) j"
proof (rule job_invI)
  have only: "b = a" if "holding (sy_phase s b j)" for b
    using job_invD(2) [OF inv that, of a] phase by simp
  then have none: "\<not> holding (sy_phase (moved s a j Unowned ks) b j)" for b by auto
  show "lock_of (sy_ks (moved s a j Unowned ks)) j = Some (owner_of b)"
    if "holding (sy_phase (moved s a j Unowned ks) b j)" for b using that none by blast
  show "b = c" if "holding (sy_phase (moved s a j Unowned ks) b j)" for b c using that none by blast
  show "\<exists>q. queued_in (sy_ks (moved s a j Unowned ks)) q j" using eff(1) by auto
  show "in_custody (sy_ks (moved s a j Unowned ks)) j" using eff(1) by (auto simp: in_custody_def)
  show "active_in (sy_ks (moved s a j Unowned ks)) w j"
    if "sy_phase (moved s a j Unowned ks) (WorkerTask w) j \<in> {Working, Recorded}" for w
    using that none [of "WorkerTask w"] by (auto simp: holding_def)
  show "home_of b \<in> sy_stopping (moved s a j Unowned ks) \<and> \<not> active_in (sy_ks (moved s a j Unowned ks)) (home_of b) j
      \<and> lock_of (sy_ks (moved s a j Unowned ks)) j \<noteq> Some (owner_of b)"
    if "sy_phase (moved s a j Unowned ks) b j = Unowned" for b
    using that eff stopping job_invD(1) [OF inv, of a] job_invD(4) [OF inv, of b] phase
    by (auto split: if_splits)
qed (use phase job_invD [OF inv] in \<open>auto split: if_splits\<close>)

lemma job_inv_recover:
  assumes inv: "job_inv s j" and w: "w \<in> sy_dead s" "sy_phase s (RecoveryOf w) j = Idle"
    and eff: "lock_of (sy_ks s) j = None" "lock_of ks j = Some (recovery_owner w)" "open_job ks j = open_job (sy_ks s) j"
      "\<forall>q. queued_in ks q j = queued_in (sy_ks s) q j" "\<forall>v. active_in ks v j = active_in (sy_ks s) v j"
  shows "job_inv (moved s (RecoveryOf w) j Working ks) j"
proof (rule job_invI)
  have none: "\<not> holding (sy_phase s b j)" for b
    using job_invD(1) [OF inv, of b] eff(1) by auto
  show "in_custody (sy_ks (moved s (RecoveryOf w) j Working ks)) j"
    if "open_job (sy_ks (moved s (RecoveryOf w) j Working ks)) j"
    using that eff job_invD(5) [OF inv] by (simp add: in_custody_def)
  show "home_of b \<in> sy_stopping (moved s (RecoveryOf w) j Working ks)
      \<and> \<not> active_in (sy_ks (moved s (RecoveryOf w) j Working ks)) (home_of b) j
      \<and> lock_of (sy_ks (moved s (RecoveryOf w) j Working ks)) j \<noteq> Some (owner_of b)"
    if "sy_phase (moved s (RecoveryOf w) j Working ks) b j = Unowned" for b
  proof -
    have b: "b \<noteq> RecoveryOf w" "sy_phase s b j = Unowned" using that by (auto split: if_splits)
    have "recovery_owner w \<noteq> owner_of b"
    proof (cases b)
      case (WorkerTask v)
      then have "plain_id v" using b job_invD(6) [OF inv, of v] by simp
      then show ?thesis using WorkerTask by (auto simp: owner_of_def plain_id_def)
    next
      case (RecoveryOf v)
      then show ?thesis using b by (simp add: owner_of_def recovery_owner_def)
    qed
    then show ?thesis using eff job_invD(4) [OF inv b(2)] by auto
  qed
  show "\<exists>q. queued_in (sy_ks (moved s (RecoveryOf w) j Working ks)) q j"
    if "sy_phase (moved s (RecoveryOf w) j Working ks) b j \<in> {Recorded, Removed}" for b
    using that none [of b] by (auto simp: holding_def split: if_splits)
  show "active_in (sy_ks (moved s (RecoveryOf w) j Working ks)) v j"
    if "sy_phase (moved s (RecoveryOf w) j Working ks) (WorkerTask v) j \<in> {Working, Recorded}" for v
    using that none [of "WorkerTask v"] by (auto simp: holding_def split: if_splits)
qed (use w eff job_invD [OF inv] in \<open>auto simp: owner_of_def split: if_splits\<close>)

end
