(* ===== verification/System_Invariant.thy ===== *)
theory System_Invariant
  imports System
begin

text \<open>Every step of the system preserves the invariant.\<close>

lemma sys_inv_claim:
  assumes inv: "sys_inv s" and w: "w \<notin> sy_stopping s" "plain_id w" and args: "0 < ms" "i64_ok ms" "0 \<le> ext"
    and run: "atomic_claim_ready_jobs ks_redis C now q w ms ext n start (sy_ks s) = (Ok claimed, ks)"
  shows "sys_inv (s\<lparr>sy_ks := ks, sy_phase := (\<lambda>a j. if a = WorkerTask w \<and> j \<in> set claimed then Working
                                              else sy_phase s a j)\<rparr>)"
    (is "sys_inv ?t")
proof -
  note p = claim_places [OF inv_parts(1,2) [OF inv] args run]
  have dead: "w \<notin> sy_dead s" using w(1) inv_parts(3) [OF inv] by blast
  have "job_inv ?t j" for j
  proof (cases "j \<in> set claimed")
    case False
    have same: "lock_of ks j = lock_of (sy_ks s) j" "open_job ks j = open_job (sy_ks s) j"
      "open_job (sy_ks s) j \<Longrightarrow> queued_in (sy_ks s) q' j \<Longrightarrow> queued_in ks q' j"
      "active_in ks v j = active_in (sy_ks s) v j" for q' v
      using p(5-8) False by blast+
    have j: "job_inv s j" by (rule inv_parts(4) [OF inv])
    have "job_inv (s\<lparr>sy_ks := ks\<rparr>) j"
      by (rule job_inv_same [OF j]) (use same in auto)
    then show ?thesis using False by (simp add: job_inv_def)
  next
    case True
    have j: "job_inv s j" by (rule inv_parts(4) [OF inv])
    have free: "lock_of (sy_ks s) j = None" and now: "lock_of ks j = Some w" "active_in ks w j"
      and more: "active_in ks v j \<Longrightarrow> v = w \<or> active_in (sy_ks s) v j" for v
      using p(3-5) True by blast+
    have none: "\<not> holding (sy_phase s b j)" for b
      using job_invD(1) [OF j, of b] free by auto
    show ?thesis
    proof (rule job_invI)
      show "home_of b \<in> sy_stopping ?t \<and> \<not> active_in (sy_ks ?t) (home_of b) j \<and> lock_of (sy_ks ?t) j \<noteq> Some (owner_of b)"
        if "sy_phase ?t b j = Unowned" for b
      proof -
        have b: "sy_phase s b j = Unowned" using that by (auto split: if_splits)
        note u = job_invD(4) [OF j b]
        have "home_of b \<noteq> w" using u w(1) by auto
        moreover have "owner_of b \<noteq> w"
          using \<open>home_of b \<noteq> w\<close> w(2) by (cases b) (auto simp: owner_of_def home_of_def plain_id_def)
        ultimately show ?thesis using u now more by auto
      qed
      show "\<exists>q. queued_in (sy_ks ?t) q j" if "sy_phase ?t b j \<in> {Recorded, Removed}" for b
        using that none [of b] by (auto simp: holding_def split: if_splits)
      show "active_in (sy_ks ?t) v j" if "sy_phase ?t (WorkerTask v) j \<in> {Working, Recorded}" for v
        using that none [of "WorkerTask v"] now by (auto simp: holding_def split: if_splits)
      show "in_custody (sy_ks ?t) j" using now(2) by (auto simp: in_custody_def)
      show "lock_of (sy_ks ?t) j = Some (owner_of b)" if "holding (sy_phase ?t b j)" for b
        using that none [of b] now(1) by (auto simp: owner_of_def split: if_splits)
      show "b = c" if "holding (sy_phase ?t b j)" "holding (sy_phase ?t c j)" for b c
        using that none [of b] none [of c] by (auto split: if_splits)
      show "plain_id v \<and> v \<notin> sy_dead ?t" if "sy_phase ?t (WorkerTask v) j \<noteq> Idle" for v
        using that w(2) dead job_invD(6) [OF j, of v] by (auto split: if_splits)
      show "v \<in> sy_dead ?t" if "sy_phase ?t (RecoveryOf v) j \<noteq> Idle" for v
        using that job_invD(8) [OF j, of v] by (auto split: if_splits)
    qed
  qed
  then show ?thesis
    using p(1,2) inv_parts(3) [OF inv] by (simp add: sys_inv_def)
qed

lemma sys_inv_tick:
  assumes inv: "sys_inv s"
    and held: "\<And>a j. holding (sy_phase s a j) \<Longrightarrow> lock_of (ks_elapse d (sy_ks s)) j = lock_of (sy_ks s) j"
  shows "sys_inv (s\<lparr>sy_ks := ks_elapse d (sy_ks s)\<rparr>)" (is "sys_inv ?t")
proof -
  note p = elapse_places [OF inv_parts(1,2) [OF inv], of d]
  have "job_inv ?t j" for j
  proof -
    have j: "job_inv s j" by (rule inv_parts(4) [OF inv])
    have lock: "lock_of (ks_elapse d (sy_ks s)) j = None \<or> lock_of (ks_elapse d (sy_ks s)) j = lock_of (sy_ks s) j"
      by (rule p(3))
    have e: "open_job (ks_elapse d (sy_ks s)) j \<Longrightarrow> open_job (sy_ks s) j"
      "queued_in (ks_elapse d (sy_ks s)) q j = queued_in (sy_ks s) q j"
      "active_in (ks_elapse d (sy_ks s)) w j = active_in (sy_ks s) w j" for q w
      using p(4-6) by blast+
    show ?thesis
    proof (rule job_invI)
      show "home_of a \<in> sy_stopping ?t \<and> \<not> active_in (sy_ks ?t) (home_of a) j \<and> lock_of (sy_ks ?t) j \<noteq> Some (owner_of a)"
        if "sy_phase ?t a j = Unowned" for a
        using that lock e(3) job_invD(4) [OF j, of a] by auto
      show "in_custody (sy_ks ?t) j" if "open_job (sy_ks ?t) j"
        using that e job_invD(5) [OF j] by (simp add: in_custody_def)
      show "\<exists>q. queued_in (sy_ks ?t) q j" if "sy_phase ?t a j \<in> {Recorded, Removed}" "open_job (sy_ks ?t) j" for a
        using that e job_invD(3) [OF j, of a] by simp
    qed (use held e(3) job_invD [OF j] in simp_all)
  qed
  then show ?thesis
    using p(1,2) inv_parts(3) [OF inv] by (simp add: sys_inv_def)
qed

lemma sys_inv_phases:
  assumes inv: "sys_inv s" and ks: "sy_ks t = sy_ks s"
    and phases: "\<And>a j. sy_phase t a j = sy_phase s a j \<or> sy_phase t a j = Idle"
    and sets: "sy_stopping s \<subseteq> sy_stopping t" "sy_dead s \<subseteq> sy_dead t" "sy_dead t \<subseteq> sy_stopping t"
    and dead: "\<And>w j. sy_phase t (WorkerTask w) j \<noteq> Idle \<Longrightarrow> w \<notin> sy_dead t"
  shows "sys_inv t"
proof -
  have "job_inv t j" for j
  proof -
    have j: "job_inv s j" by (rule inv_parts(4) [OF inv])
    have phase: "sy_phase t a j = p \<Longrightarrow> p \<noteq> Idle \<Longrightarrow> sy_phase s a j = p" for a p
      using phases [of a j] by auto
    have hold: "holding (sy_phase t a j) \<Longrightarrow> holding (sy_phase s a j)" for a
      using phases [of a j] by auto
    show ?thesis
    proof (rule job_invI)
      show "lock_of (sy_ks t) j = Some (owner_of a)" if "holding (sy_phase t a j)" for a
        using job_invD(1) [OF j hold [OF that]] ks by simp
      show "a = b" if "holding (sy_phase t a j)" "holding (sy_phase t b j)" for a b
        by (rule job_invD(2) [OF j hold [OF that(1)] hold [OF that(2)]])
      show "\<exists>q. queued_in (sy_ks t) q j" if "sy_phase t a j \<in> {Recorded, Removed}" "open_job (sy_ks t) j" for a
        using that job_invD(3) [OF j, of a] phase [of a] ks by auto
      show "home_of a \<in> sy_stopping t \<and> \<not> active_in (sy_ks t) (home_of a) j \<and> lock_of (sy_ks t) j \<noteq> Some (owner_of a)"
        if "sy_phase t a j = Unowned" for a
        using job_invD(4) [OF j phase [OF that]] ks sets(1) by auto
      show "in_custody (sy_ks t) j" if "open_job (sy_ks t) j"
        using that job_invD(5) [OF j] ks by simp
      show "plain_id w \<and> w \<notin> sy_dead t" if "sy_phase t (WorkerTask w) j \<noteq> Idle" for w
        using dead [OF that] job_invD(6) [OF j, of w] phases [of "WorkerTask w" j] that by auto
      show "active_in (sy_ks t) w j" if "sy_phase t (WorkerTask w) j \<in> {Working, Recorded}" for w
        using that job_invD(7) [OF j, of w] phase [of "WorkerTask w"] ks by auto
      show "w \<in> sy_dead t" if "sy_phase t (RecoveryOf w) j \<noteq> Idle" for w
        using that job_invD(8) [OF j, of w] phases [of "RecoveryOf w" j] sets(2) by auto
    qed
  qed
  then show ?thesis
    using inv ks sets(3) by (simp add: sys_inv_def)
qed

lemma job_inv_ks [simp]: "job_inv (moved s a j p (sy_ks s)) i = job_inv (s\<lparr>sy_phase := set_phase a j p (sy_phase s)\<rparr>) i"
  by (simp add: moved_def)

lemma sys_inv_stay:
  assumes inv: "sys_inv s" and acts: "acts_on j (sy_ks s) ks" and same: "same_lock_active j (sy_ks s) ks"
    and queued: "open_job ks j \<Longrightarrow> open_job (sy_ks s) j \<and> (\<forall>q. queued_in (sy_ks s) q j \<longrightarrow> queued_in ks q j)
      \<or> (\<exists>q. queued_in ks q j)"
  shows "sys_inv (s\<lparr>sy_ks := ks\<rparr>)"
  by (rule sys_inv_one [OF inv, of j]) (use acts job_inv_same [OF inv_parts(4) [OF inv] same queued] in simp_all)

lemma sys_inv_record:
  assumes inv: "sys_inv s" and working: "sy_phase s a j = Working"
    and acts: "acts_on j (sy_ks s) ks" and same: "same_lock_active j (sy_ks s) ks"
    and queued: "open_job ks j \<Longrightarrow> \<exists>q. queued_in ks q j"
  shows "sys_inv (moved s a j Recorded ks)"
  by (rule sys_inv_one [OF inv, of j])
    (use acts job_inv_recorded [OF inv_parts(4) [OF inv] working same queued] in simp_all)

lemma sys_inv_move:
  assumes "sys_inv s" "acts_on j (sy_ks s) ks" "job_inv (moved s a j p ks) j"
  shows "sys_inv (moved s a j p ks)"
  by (rule sys_inv_one [OF assms(1), of j]) (use assms(2,3) in simp_all)

lemma job_inv_pending:
  assumes inv: "job_inv s j" and working: "sy_phase s a j = Working"
    and place: "(\<exists>w. a = WorkerTask w) \<or> (\<exists>q. queued_in (sy_ks s) q j)"
    and same: "same_lock_active j (sy_ks s) ks" "\<forall>q. queued_in ks q j = queued_in (sy_ks s) q j"
  shows "job_inv (s\<lparr>sy_ks := ks\<rparr>) j"
proof (rule job_invI)
  have none: "sy_phase s b j \<notin> {Recorded, Removed}" for b
    using job_invD(2) [OF inv, of a b] working by auto
  show "\<exists>q. queued_in (sy_ks (s\<lparr>sy_ks := ks\<rparr>)) q j" if "sy_phase (s\<lparr>sy_ks := ks\<rparr>) b j \<in> {Recorded, Removed}" for b
    using that none by simp
  have "active_in (sy_ks s) w j" if "a = WorkerTask w" for w
    using job_invD(7) [OF inv, of w] working that by simp
  then show "in_custody (sy_ks (s\<lparr>sy_ks := ks\<rparr>)) j"
    using place same by (auto simp: in_custody_def)
qed (use same job_invD [OF inv] in auto)

lemma sys_step_inv:
  assumes step: "sys_step C s t" and inv: "sys_inv s"
  shows "sys_inv t"
  using step
proof cases
  note typed = inv_parts(1,2) [OF inv]
  note job = inv_parts(4) [OF inv]
  {
    case (enqueue job q sc b ks)
    show ?thesis
      using enqueue_places [OF typed enqueue(2)] inv unfolding enqueue(1)
      by (auto intro: sys_inv_stay)
  next
    case (claim w ms ext now q n start claimed ks)
    show ?thesis unfolding claim(1) by (rule sys_inv_claim [OF inv claim(2-7)])
  next
    case (refresh a j ms b ks)
    show ?thesis
      using refresh_places [OF typed refresh(3)] unfolding refresh(1) by (auto intro: sys_inv_stay [OF inv, of j])
  next
    case (complete a j now v ttl ks)
    show ?thesis
      using save_places [OF typed complete(3)] unfolding complete(1) by (auto intro: sys_inv_record [OF inv complete(2)])
  next
    case (retry a j q sc m n ks)
    show ?thesis
      using retry_places [OF typed retry(3)] unfolding retry(1) by (auto intro: sys_inv_record [OF inv retry(2)])
  next
    case (dlq a j d m now u n ks)
    show ?thesis
      using dlq_places [OF typed dlq(3,4)] unfolding dlq(1) by (auto intro: sys_inv_record [OF inv dlq(2)])
  next
    case (schedule a j t ks)
    show ?thesis
      using next_run_places [OF typed schedule(3)] unfolding schedule(1) by (auto intro: sys_inv_stay [OF inv, of j])
  next
    case (free_unique u ks)
    show ?thesis
      using release_unique_places [OF typed free_unique(2), where j = undefined] unfolding free_unique(1)
      by (auto intro: sys_inv_stay [OF inv, of undefined])
  next
    case (pending a j e ks)
    note p = pending_places [OF typed pending(4)]
    then show ?thesis
      using job_inv_pending [OF job pending(2,3)] unfolding pending(1)
      by (intro sys_inv_one [OF inv, of j]) simp_all
  next
    case (give_back a j q sc ks)
    show ?thesis
      using add_queue_places [OF typed give_back(3)] unfolding give_back(1) by (auto intro: sys_inv_record [OF inv give_back(2)])
  next
    case (leave a j)
    show ?thesis
      using acts_refl [OF typed] leave(3) unfolding leave(1) by (auto intro: sys_inv_record [OF inv leave(2)])
  next
    case (drop_active a j ks)
    then show ?thesis
      using remove_active_places [OF typed drop_active(3)] job_inv_drop_active [OF job drop_active(2)]
      unfolding drop_active(1) by (auto simp: not_active_in_def intro!: sys_inv_move [OF inv])
  next
    case (unlock a j b ks)
    then show ?thesis
      using unlock_places [OF typed unlock(3)] job_inv_unlock [OF job, of a j ks] unfolding unlock(1)
      by (auto intro!: sys_inv_move [OF inv])
  next
    case (requeue a j q sc m ns n ks)
    then show ?thesis
      using requeue_places [OF typed requeue(4,5)] acts_refl [OF typed] job_inv_requeue [OF job requeue(2,3), of ks q]
      unfolding requeue(1)
      by (auto intro: sys_inv_record [OF inv requeue(2)] sys_inv_move [OF inv])
  next
    case (again_active a j ks)
    have w: "sy_phase s (WorkerTask (home_of a)) j \<notin> {Working, Recorded}" "\<not> active_in (sy_ks s) (home_of a) j"
      using job_invD(4) [OF job again_active(2)] job_invD(7) [OF job, of "home_of a"] by auto
    then show ?thesis
      using remove_active_places [OF typed again_active(3)] job_inv_unlisted [OF job _ w(1)] unfolding again_active(1)
      by (intro sys_inv_one [OF inv, of j]) (simp_all add: not_active_in_def)
  next
    case (again_unlock a j b ks)
    then show ?thesis
      using unlock_places [OF typed again_unlock(3)] job_inv_unlock [OF job, of a j ks] unfolding again_unlock(1)
      by (auto intro!: sys_inv_move [OF inv])
  next
    case (recover_lock w j ms ks)
    then show ?thesis
      using try_lock_places [OF typed recover_lock(4-6)] job_inv_recover [OF job recover_lock(2,3), of ks]
      unfolding recover_lock(1) by (auto intro!: sys_inv_move [OF inv])
  next
    case (recover_gone w j ks)
    have "sy_phase s (WorkerTask w) j = Idle"
      using job_invD(6) [OF inv_parts(4) [OF inv, of j], of w] recover_gone(2) by blast
    then have w: "sy_phase s (WorkerTask w) j \<notin> {Working, Recorded}" "\<not> open_job (sy_ks s) j"
      using recover_gone(3) by (auto simp: open_job_def)
    then show ?thesis
      using remove_active_places [OF typed recover_gone(4)] job_inv_unlisted [OF job _ w(1)] unfolding recover_gone(1)
      by (intro sys_inv_one [OF inv, of j]) (simp_all add: not_active_in_def)
  next
    case (stop w)
    show ?thesis unfolding stop by (rule sys_inv_phases [OF inv]) (use inv_parts(3) [OF inv] job_invD(6) [OF job] in auto)
  next
    case (crash w)
    show ?thesis unfolding crash
      by (rule sys_inv_phases [OF inv]) (use inv_parts(3) [OF inv] in \<open>auto split: if_splits dest: job_invD(6) [OF job]\<close>)
  next
    case (recovery_crash w j)
    show ?thesis unfolding recovery_crash
      by (rule sys_inv_phases [OF inv]) (use inv_parts(3) [OF inv] job_invD(6) [OF job] in \<open>auto simp: set_phase_def\<close>)
  next
    case (tick d)
    then show ?thesis using sys_inv_tick [OF inv] by blast
  }
qed

abbreviation sys_path :: "codec \<Rightarrow> sys \<Rightarrow> sys \<Rightarrow> bool" where
  "sys_path C \<equiv> (sys_step C)\<^sup>*\<^sup>*"

lemma sys_inv_init: "sys_inv sys_init"
  by (simp add: sys_inv_def sys_init_def job_inv_def open_job_def hash_at_def holding_def well_typed_def)

lemma sys_reach_inv: "sys_reach C s \<Longrightarrow> sys_inv s"
  by (induction rule: sys_reach.induct) (simp_all add: sys_inv_init sys_step_inv)

lemma sys_path_inv:
  assumes "sys_path C s t" "sys_inv s"
  shows "sys_inv t"
  using assms by induction (simp_all add: sys_step_inv)

end
