(* ===== verification/System_Refinement.thy ===== *)
theory System_Refinement
  imports System_Invariant
begin

text \<open>
  The code of the worker, from \<open>handle_exec_result\<close> to \<open>execute_job\<close> and from \<open>recover_known_job\<close> to
  \<open>recover_job\<close>, run on the keyspace of the system, is a sequence of its steps.
\<close>

section \<open>The task of a job\<close>

lemma moved_ks [simp]: "(moved s a j p ks)\<lparr>sy_ks := ks'\<rparr> = moved s a j p ks'"
  by (simp add: moved_def)

lemma moved_moved [simp]: "moved (moved s a j p ks) a j p' ks' = moved s a j p' ks'"
  by (simp add: moved_def set_phase_def fun_eq_iff)

lemma move_to_dlq_path:
  assumes "sy_phase s a (j_id job) = Working" "move_to_dlq ks_redis C now st job m (sy_ks s) = (Ok (), ks)"
  shows "sys_path C s (moved s a (j_id job) Recorded ks)"
proof -
  obtain n where n: "0 \<le> n" "atomic_move_job_to_dlq ks_redis C (j_id job)
      (case j_dlq_name job of None \<Rightarrow> default_dlq_name st | Some d \<Rightarrow> d) m now DEFAULT_DLQ_RESULT_TTL_SECONDS
      (map_option (\<lambda>k. UNIQUE_JOB_LOCK_PREFIX @ k) (j_unique_key job)) (sy_ks s) = (Ok n, ks)"
    using assms(2) by (auto simp: move_to_dlq_def andThen_def fail_def ret_def Let_def split: prod.splits res.splits if_splits)
  show ?thesis by (rule r_into_rtranclp) (rule sys_step.dlq [OF assms(1) n(2,1)])
qed

lemma schedule_retry_path:
  assumes inv: "sys_inv s" and phase: "sy_phase s a (j_id job) = Working"
    and run: "schedule_retry ks_redis C clk st job m d (sy_ks s) = (Ok (), ks)"
  shows "sys_path C s (moved s a (j_id job) Recorded ks)"
proof -
  let ?sc = "of_int (timestamp_millis (clk 0)) + d * 1000"
  let ?q = "normalize_queue_name (case j_queue_name job of None \<Rightarrow> default_queue_name st | Some q \<Rightarrow> q)"
  obtain n ks1 where r: "atomic_retry_job ks_redis (j_id job) ?q ?sc m Retrying (sy_ks s) = (Ok n, ks1)"
    and k: "ignore (attempt (update_job_next_scheduled_run_time ks_redis C (j_id job) (time_of_score ?sc (clk 1)))) ks1
      = (Ok (), ks)"
    using run by (auto simp: schedule_retry_def andThen_def Let_def split: prod.splits res.splits)
  have "well_typed ks1"
    using retry_places [OF inv_parts(1,2) [OF inv] r] by (simp add: acts_on_def)
  then have u: "update_job_next_scheduled_run_time ks_redis C (j_id job) (time_of_score ?sc (clk 1)) ks1 = (Ok (), ks)"
    using k by (simp add: next_run_effect attempt_def ignore_def andThen_def ret_def)
  have "sys_step C s (moved s a (j_id job) Recorded ks1)" by (rule sys_step.retry [OF phase r])
  moreover have "sys_step C (moved s a (j_id job) Recorded ks1) (moved s a (j_id job) Recorded ks)"
    using sys_step.schedule [of "moved s a (j_id job) Recorded ks1" a "j_id job" C "time_of_score ?sc (clk 1)" ks] u by simp
  ultimately show ?thesis by simp
qed

lemma success_path:
  assumes phase: "sy_phase s a j = Working"
    and run: "andThen (save_job_result ks_redis C now j v ttl) (\<lambda>_.
        case u of None \<Rightarrow> ret () | Some k \<Rightarrow> release_unique_job_lock ks_redis k) (sy_ks s) = (Ok (), ks)"
  shows "sys_path C s (moved s a j Recorded ks)"
proof -
  obtain ks1 where r: "save_job_result ks_redis C now j v ttl (sy_ks s) = (Ok (), ks1)"
    and k: "(case u of None \<Rightarrow> ret () | Some k \<Rightarrow> release_unique_job_lock ks_redis k) ks1 = (Ok (), ks)"
    using run by (auto simp: andThen_def split: prod.splits res.splits)
  have "sys_step C s (moved s a j Recorded ks1)" by (rule sys_step.complete [OF phase r])
  moreover have "sys_path C (moved s a j Recorded ks1) (moved s a j Recorded ks)"
  proof (cases u)
    case None
    then show ?thesis using k by (simp add: ret_def)
  next
    case (Some x)
    then show ?thesis
      using k sys_step.free_unique [of x "moved s a j Recorded ks1" ks C] by auto
  qed
  ultimately show ?thesis by (rule converse_rtranclp_into_rtranclp)
qed

lemma handle_exec_result_path:
  assumes inv: "sys_inv s" and phase: "sy_phase s a (j_id job) = Working"
    and run: "handle_exec_result ks_redis C clk W job n x (sy_ks s) = (Ok (), ks)"
  shows "sys_path C s (moved s a (j_id job) Recorded ks)"
proof -
  note paths = move_to_dlq_path [OF phase] schedule_retry_path [OF inv phase] success_path [OF phase]
  show ?thesis
    using run unfolding handle_exec_result_def handle_execution_outcome_def process_retry_job_def process_failure_job_def
      handle_job_timeout_def handle_fatal_job_error_def Let_def
    by (auto split: RunnerExecutionResult.splits sum.splits OutcomeStatus.splits if_splits intro: paths)
qed

lemma cleanup_running_path:
  assumes inv: "sys_inv s" and phase: "sy_phase s (WorkerTask w) j = Recorded"
    and run: "cleanup_running ks_redis w j (sy_ks s, l) = (r, (ks, l'))"
  shows "sys_path C s (moved s (WorkerTask w) j Idle ks)"
proof -
  let ?a = "WorkerTask w" and ?ks1 = "put_zset (active_jobs_key w) (zs_del j (zset_at (sy_ks s) (active_jobs_key w))) (sy_ks s)"
  note typed = inv_parts(1) [OF inv]
  have ks: "ks = settled w j (sy_ks s)" using run cleanup_running_effect [OF typed, of w j l] by simp
  have "sys_step C s (moved s ?a j Removed ?ks1)"
    using sys_step.drop_active [OF phase, of ?ks1 C] remove_active_effect [OF typed, of w j] by (simp add: home_of_def)
  moreover have "sys_step C (moved s ?a j Removed ?ks1) (moved s ?a j Idle ks)"
    using sys_step.unlock [of "moved s ?a j Removed ?ks1" ?a j "string_at ?ks1 (format_lock_key j) = Some w" ks C]
      release_if_owner_effect [of ?ks1 j w] typed by (simp add: owner_of_def ks settled_def Let_def)
  ultimately show ?thesis by simp
qed

lemma end_fatally_path:
  assumes inv: "sys_inv s" and phase: "sy_phase s (WorkerTask (w_id W)) (j_id job) = Working"
    and run: "end_fatally ks_redis C now W job m (sy_ks s, l) = (Ok (), (ks, l'))"
  shows "sys_path C s (moved s (WorkerTask (w_id W)) (j_id job) Idle ks)"
proof -
  obtain ks1 where m: "move_to_dlq ks_redis C now (w_settings W) job m (sy_ks s) = (Ok (), ks1)"
    and c: "cleanup_running ks_redis (w_id W) (j_id job) (ks1, l) = (Ok (), (ks, l'))"
    using run by (auto simp: end_fatally_def handle_fatal_job_error_def andThen_def on_db_def split: prod.splits res.splits)
  let ?t = "moved s (WorkerTask (w_id W)) (j_id job) Recorded ks1"
  have p: "sys_path C s ?t" by (rule move_to_dlq_path [OF phase m])
  have "sys_path C ?t (moved ?t (WorkerTask (w_id W)) (j_id job) Idle ks)"
    by (rule cleanup_running_path [OF sys_path_inv [OF p inv]]) (use c in simp_all)
  then show ?thesis using p by simp
qed

lemma dispatch_job_path:
  assumes inv: "sys_inv s" and phase: "sy_phase s (WorkerTask (w_id W)) (j_id job) = Working"
    and apart: "\<And>req n hint ks. snd (rn_execute_with_timeout runner req n hint ks) = ks"
    and run: "dispatch_job ks_redis C clk rid W job qn hn n deadline runner (sy_ks s, l) = (Ok (), (ks, l'))"
  shows "sys_path C s (moved s (WorkerTask (w_id W)) (j_id job) Idle ks)"
proof -
  have snds: "rn_execute_with_timeout runner req k hint ks0 = (r, ks1) \<Longrightarrow> ks1 = ks0" for req k hint ks0 r ks1
    using apart [of req k hint ks0] by simp
  obtain x l1 ks1 l2 where m: "handle_exec_result ks_redis C (\<lambda>n. clk (Suc n)) W job n x (sy_ks s) = (Ok (), ks1)"
    and c: "cleanup_running ks_redis (w_id W) (j_id job) (ks1, l2) = (Ok (), (ks, l'))"
    using run
    by (auto simp: dispatch_job_def andThen_def attempt_def on_db_def on_local_def fail_def ret_def
        split: prod.splits res.splits sum.splits dest!: snds)
  let ?t = "moved s (WorkerTask (w_id W)) (j_id job) Recorded ks1"
  have p: "sys_path C s ?t" by (rule handle_exec_result_path [OF inv phase m])
  have "sys_path C ?t (moved ?t (WorkerTask (w_id W)) (j_id job) Idle ks)"
    by (rule cleanup_running_path [OF sys_path_inv [OF p inv]]) (use c in simp_all)
  then show ?thesis using p by simp
qed

section \<open>The recovery of a job\<close>

lemma home_owner_recovery [simp]: "home_of (RecoveryOf w) = w" "owner_of (RecoveryOf w) = recovery_owner w"
  by (simp_all add: home_of_def owner_of_def)

lemma moved_same: "sy_phase s a j = p \<Longrightarrow> moved s a j p ks = s\<lparr>sy_ks := ks\<rparr>"
  by (auto simp: moved_def set_phase_def fun_eq_iff)

text \<open>Both ways to the end of an ownership: after an outcome that was recorded, and after a requeue.\<close>

lemma dropped_path:
  assumes inv: "sys_inv s" and phase: "sy_phase s a j = Recorded \<or> sy_phase s a j = Unowned"
  shows "sys_path C s (moved s a j Idle (dropped (home_of a) (owner_of a) j (sy_ks s)))"
proof -
  let ?ks1 = "put_zset (active_jobs_key (home_of a)) (zs_del j (zset_at (sy_ks s) (active_jobs_key (home_of a)))) (sy_ks s)"
  let ?ks = "dropped (home_of a) (owner_of a) j (sy_ks s)"
  note typed = inv_parts(1) [OF inv]
  have u: "release_job_lock_if_owner ks_redis j (owner_of a) ?ks1
      = (Ok (string_at ?ks1 (format_lock_key j) = Some (owner_of a)), ?ks)"
    using typed by (simp add: release_if_owner_effect dropped_def Let_def)
  note r = remove_active_effect [OF typed, of "home_of a" j]
  show ?thesis
    using phase
  proof
    assume p: "sy_phase s a j = Recorded"
    have "sys_step C s (moved s a j Removed ?ks1)" by (rule sys_step.drop_active [OF p r])
    moreover have "sys_step C (moved s a j Removed ?ks1) (moved s a j Idle ?ks)"
      using sys_step.unlock [of "moved s a j Removed ?ks1" a j _ ?ks C] u by simp
    ultimately show ?thesis by simp
  next
    assume p: "sy_phase s a j = Unowned"
    have "sys_step C s (s\<lparr>sy_ks := ?ks1\<rparr>)" by (rule sys_step.again_active [OF p r])
    moreover have "sys_step C (s\<lparr>sy_ks := ?ks1\<rparr>) (moved s a j Idle ?ks)"
      using sys_step.again_unlock [of "s\<lparr>sy_ks := ?ks1\<rparr>" a j _ ?ks C] u p by (simp add: moved_def)
    ultimately show ?thesis by simp
  qed
qed

lemma leave_queued:
  "sy_phase s a j = Working \<Longrightarrow> queued_in (sy_ks s) q j \<Longrightarrow> sys_step C s (moved s a j Recorded (sy_ks s))"
  using sys_step.leave by blast

lemma queued_recovery_path:
  assumes wt: "well_typed ks1" and queued: "queued_in ks1 q j"
  shows "sys_path C (moved s a j Working ks1) (moved s a j Recorded (if act then unassigned j ks1 else ks1))"
proof -
  let ?ks2 = "if act then unassigned j ks1 else ks1"
  have "sys_path C (moved s a j Working ks1) (moved s a j Working ?ks2)"
    using sys_step.pending [of "moved s a j Working ks1" a j None "unassigned j ks1" C] queued mark_pending_effect [OF wt, of j None]
    by (auto simp: unassigned_def)
  moreover have "queued_in ?ks2 q j" using queued by (simp add: queued_in_def)
  then have "sys_step C (moved s a j Working ?ks2) (moved s a j Recorded ?ks2)"
    using leave_queued [of "moved s a j Working ?ks2" a j q] by simp
  ultimately show ?thesis by simp
qed

lemma requeued_recovery_step:
  assumes inv: "sys_inv s" and dead: "w \<in> sy_dead s" and wt: "well_typed ks1"
    and there: "ks1 (format_job_key j) \<noteq> None" and free: "\<not> queued_in ks1 q j"
    and lock: "lock_of ks1 j = Some (recovery_owner w)"
  shows "sys_step C (moved s (RecoveryOf w) j Working ks1)
    (moved s (RecoveryOf w) j Unowned (requeue_state j q sc m (recovery_owner w) (Some w) ns ks1))"
proof -
  have "atomic_requeue_job ks_redis j q sc m (recovery_owner w) (Some w) ns ks1
      = (Ok 1, requeue_state j q sc m (recovery_owner w) (Some w) ns ks1)"
    by (rule requeue_effect [OF wt]) (use there free lock in \<open>simp_all add: queued_in_def\<close>)
  then show ?thesis
    using sys_step.requeue [of "moved s (RecoveryOf w) j Working ks1" "RecoveryOf w" j q sc m ns 1 _ C] dead inv_parts(3) [OF inv]
    by auto
qed

lemma recover_closed_effect:
  assumes wt: "well_typed ks" and ms: "lock_timeout_of settings job = Some ms" "0 < ms"
    and unlocked: "ks (format_lock_key (j_id job)) = None"
    and closed: "\<not> queued_in ks (target_queue settings job) (j_id job)" "j_status job \<notin> {Active, Pending, Retrying}"
  shows "snd (recover_known_job ks_redis C settings now w (j_id job) job ks)
    = dropped w (recovery_owner w) (j_id job) (locked_state (j_id job) (recovery_owner w) ms ks)"
proof -
  let ?j = "j_id job" and ?q = "target_queue settings job"
  let ?ks1 = "locked_state ?j (recovery_owner w) ms ks"
  have i64: "i64_ok ms" using ms by (auto simp: lock_timeout_of_def split: option.splits bind_splits)
  have wt1: "well_typed ?ks1" using wt by simp
  have "is_job_queued ks_redis ?q ?j ?ks1 = (Ok False, ?ks1)"
    using job_queued_effect [OF wt1] closed(1) by (simp add: queued_in_def)
  then have q1: "andThen (is_job_queued ks_redis ?q ?j) k ?ks1 = k False ?ks1" for k :: "bool \<Rightarrow> (keyspace, bool) io"
    by (simp add: andThen_def)
  show ?thesis
    using closed ms unlocked q1 try_lock_effect [OF ms(2) i64, of ?j "recovery_owner w" ks] drop_orphan_effect [OF wt1]
    by (simp add: recover_known_job_def andThen_Ok ret_def Let_def locked_state_def del: not_None_eq flip: target_queue_alt)
qed

lemma recover_known_job_path:
  assumes inv: "sys_inv s" and dead: "w \<in> sy_dead s" and idle: "sy_phase s (RecoveryOf w) (j_id job) = Idle"
    and there: "sy_ks s (format_job_key (j_id job)) \<noteq> None"
    and fresh: "j_status job \<notin> {Active, Pending, Retrying} \<Longrightarrow> \<not> open_job (sy_ks s) (j_id job)"
    and run: "recover_known_job ks_redis C settings now w (j_id job) job (sy_ks s) = (Ok b, ks)"
  shows "sys_path C s (s\<lparr>sy_ks := ks\<rparr>)"
proof -
  let ?a = "RecoveryOf w" and ?j = "j_id job" and ?q = "target_queue settings job"
  note typed = inv_parts(1,2) [OF inv]
  obtain ms where ms: "lock_timeout_of settings job = Some ms"
    using run by (cases "lock_timeout_of settings job") (auto simp: recover_known_job_def fail_def Let_def)
  then have i64: "i64_ok ms" by (auto simp: lock_timeout_of_def split: option.splits bind_splits)
  let ?ks1 = "locked_state ?j (recovery_owner w) ms (sy_ks s)"
  let ?s1 = "moved s ?a ?j Working ?ks1"
  have wt1: "well_typed ?ks1" using typed by simp
  have close: "sys_path C s (s\<lparr>sy_ks := dropped w (recovery_owner w) ?j ks2\<rparr>)"
    if "sys_path C ?s1 (moved s ?a ?j p ks2)" "p = Recorded \<or> p = Unowned" "0 < ms" "sy_ks s (format_lock_key ?j) = None" for p ks2
  proof -
    have "sys_path C s ?s1"
      using sys_step.recover_lock [OF dead idle that(3) i64, of ?ks1] try_lock_effect [OF that(3) i64] that(4)
      by (auto simp: locked_state_def)
    with that(1) have path: "sys_path C s (moved s ?a ?j p ks2)" by simp
    then show ?thesis
      using dropped_path [OF sys_path_inv [OF path inv], of ?a ?j C] that(2) by (auto simp: moved_same [OF idle])
  qed
  consider (off) "ms \<le> 0" | (held) "0 < ms" "sy_ks s (format_lock_key ?j) \<noteq> None"
    | (queued) "0 < ms" "sy_ks s (format_lock_key ?j) = None" "queued_in (sy_ks s) ?q ?j"
    | (orphan) "0 < ms" "sy_ks s (format_lock_key ?j) = None" "\<not> queued_in (sy_ks s) ?q ?j" "j_status job \<in> {Active, Pending, Retrying}"
    | (closed) "0 < ms" "sy_ks s (format_lock_key ?j) = None" "\<not> queued_in (sy_ks s) ?q ?j" "j_status job \<notin> {Active, Pending, Retrying}"
    by linarith
  then show ?thesis
  proof cases
    case off
    then show ?thesis using run ms by (auto simp: recover_known_job_def ret_def Let_def)
  next
    case held
    then show ?thesis using run recover_known_effects(1) [OF typed(1) ms held, of C now w] by auto
  next
    case queued
    have q: "queued_in ?ks1 ?q ?j" using queued(3) by (simp add: queued_in_def)
    have ks: "ks = dropped w (recovery_owner w) ?j (if j_status job = Active then unassigned ?j ?ks1 else ?ks1)"
      using run recover_known_effects(2) [OF typed(1) ms queued(1,2), of C now w] queued(3) by (simp add: queued_in_def)
    show ?thesis
      unfolding ks by (rule close [OF queued_recovery_path [OF wt1 q] _ queued(1,2)]) simp
  next
    case orphan
    have again: "sys_path C ?s1 (moved s ?a ?j Unowned (requeue_state ?j ?q sc m (recovery_owner w) (Some w) ns ?ks1))" for sc m ns
      by (rule r_into_rtranclp, rule requeued_recovery_step [OF inv dead wt1])
        (use there orphan(3) in \<open>simp_all add: queued_in_def locked_state_def lock_of_def\<close>)
    show ?thesis
      using close [OF again _ orphan(1,2)] orphan(3,4) there
        run recover_known_effects(3) [OF typed(1) ms orphan(1,2), of C now w] by (auto simp: queued_in_def)
  next
    case closed
    have "\<not> open_job ?ks1 ?j" using fresh closed(4) by (simp add: open_job_def)
    then have "sys_path C ?s1 (moved s ?a ?j Recorded ?ks1)"
      using sys_step.leave [of ?s1 ?a ?j C] by simp
    then show ?thesis
      using close [OF _ _ closed(1,2)] run recover_closed_effect [OF typed(1) ms closed, of C now w] by simp
  qed
qed

lemma recover_job_path:
  assumes inv: "sys_inv s" and dead: "w \<in> sy_dead s" and idle: "sy_phase s (RecoveryOf w) j = Idle"
    and id: "\<And>job. parse_job_map C (hash_at (sy_ks s) (format_job_key j)) j (default_max_retries settings) = Inr job
      \<Longrightarrow> j_id job = j"
    and run: "recover_job ks_redis C settings now w j (sy_ks s) = (Ok b, ks)"
  shows "sys_path C s (s\<lparr>sy_ks := ks\<rparr>)"
proof -
  note typed = inv_parts(1) [OF inv]
  let ?h = "hash_at (sy_ks s) (format_job_key j)"
  let ?parsed = "parse_job_map C ?h j (default_max_retries settings)"
  consider (held) "string_at (sy_ks s) (format_lock_key j) \<noteq> None"
    | (gone) "string_at (sy_ks s) (format_lock_key j) = None" "?h = fmempty"
    | (bad) e where "string_at (sy_ks s) (format_lock_key j) = None" "?h \<noteq> fmempty" "?parsed = Inl e"
    | (known) job where "string_at (sy_ks s) (format_lock_key j) = None" "?h \<noteq> fmempty" "?parsed = Inr job"
    by (cases ?parsed) auto
  then show ?thesis
  proof cases
    case held
    then show ?thesis using run typed by (auto simp: recover_job_def andThen_def lock_owner_effect ret_def)
  next
    case gone
    then have "sy_ks s (format_job_key j) = None" using typed_None_iff(2) typed by simp
    then show ?thesis
      using sys_step.recover_gone [OF dead, of j ks C] run typed gone remove_active_effect [OF typed, of w j]
      by (auto simp: recover_job_def andThen_def lock_owner_effect job_definition_effect attempt_def ret_def)
  next
    case bad
    then show ?thesis using run typed by (simp add: recover_job_def andThen_def lock_owner_effect job_definition_effect)
  next
    case known
    have j: "j_id job = j" by (rule id [OF known(3)])
    have "fmlookup ?h ''status'' = Some (as_str (j_status job))" by (rule parsed_status [OF known(3)])
    then have fresh: "j_status job \<notin> {Active, Pending, Retrying} \<Longrightarrow> \<not> open_job (sy_ks s) j"
      by (cases "j_status job") (simp_all add: open_job_def as_str_def parse_status_def)
    have there: "sy_ks s (format_job_key j) \<noteq> None" using known(2) typed_None_iff(2) typed by simp
    have "recover_known_job ks_redis C settings now w j job (sy_ks s) = (Ok b, ks)"
      using run typed known by (simp add: recover_job_def andThen_def lock_owner_effect job_definition_effect)
    then show ?thesis
      using recover_known_job_path [OF inv dead, of job C settings now b ks] idle there fresh unfolding j by blast
  qed
qed

end
