(* ===== verification/System_Example.thy ===== *)
theory System_Example
  imports System_Refinement
begin

text \<open>
  One job on its way through the system: enqueued, claimed by \<open>w1\<close>, then timed out, or lost in a crash, its
  lock expired. The states are reachable; the witnesses of the system's properties are about them.
\<close>

definition first_keyspace :: keyspace where
  "first_keyspace = put_zset (format_queue_key ''default'') [(3, ''a'')]
     (put_hash (format_job_key ''a'') (job_hash simple_codec (sample_job ''a'')) (\<lambda>_. None))"

definition claimed_keyspace :: keyspace where
  "claimed_keyspace = snd (atomic_claim_ready_jobs ks_redis simple_codec 10000000 ''default'' ''w1'' 30000 5 2 7 first_keyspace)"

lemma first_keyspace_typed [simp]: "well_typed first_keyspace"
  by (simp add: first_keyspace_def zs_ok_def)

lemma first_enqueued:
  "atomic_enqueue_job ks_redis simple_codec (sample_job ''a'') ''default'' 3 (\<lambda>_. None) = (Ok True, first_keyspace)"
  by (simp add: enqueue_fresh first_keyspace_def zs_put_def)

lemma first_views [simp]:
  "zset_at first_keyspace (format_queue_key ''default'') = [(3, ''a'')]"
  "hash_at first_keyspace (format_job_key ''a'') = job_hash simple_codec (sample_job ''a'')"
  "zset_at first_keyspace (active_jobs_key w) = []"
  by (simp_all add: first_keyspace_def)

lemma first_keys [simp]:
  "\<exists>v t. first_keyspace (format_job_key ''a'') = Some (v, t)" "first_keyspace (format_job_key ''a'') \<noteq> None"
  "first_keyspace (format_lock_key j) = None"
  by (simp_all add: first_keyspace_def put_hash_def put_zset_def)

lemma first_candidates: "take 8 (zs_upto (rat_of_int (timestamp_millis 10000000)) [(3, ''a'')]) = [''a'']"
  by (simp add: zs_upto_def timestamp_millis_def)

lemma first_claimed:
  "fst (atomic_claim_ready_jobs ks_redis simple_codec 10000000 ''default'' ''w1'' 30000 5 2 7 first_keyspace) = Ok [''a'']"
proof -
  have ms: "0 < (30000 :: int)" "i64_ok 30000" by (simp_all add: i64_ok_def)
  have "fst (claim_candidate ks_redis (format_queue_key ''default'') (active_jobs_key ''w1'') ''w1'' 2 30000 5
      (to_rfc3339 simple_codec 7) (rat_of_int (timestamp_secs 7)) ''a'' [] first_keyspace) = Ok [''a'']"
    by (simp add: claim_candidate_effect [OF first_keyspace_typed ms] zs_members_def)
  then show ?thesis
    by (auto simp: atomic_claim_ready_jobs_def lua_claim_ready_def andThen_Ok ret_def effects first_candidates andThen_def
        split: prod.splits res.splits)
qed

lemma claimed_run:
  "atomic_claim_ready_jobs ks_redis simple_codec 10000000 ''default'' ''w1'' 30000 5 2 7 first_keyspace
     = (Ok [''a''], claimed_keyspace)"
  using first_claimed by (simp add: claimed_keyspace_def prod_eq_iff)

lemma claimed_keyspace_state:
  "\<exists>sc. claim_state ''default'' ''w1'' (to_rfc3339 simple_codec 7) sc 65000 ''a'' first_keyspace = claimed_keyspace"
proof -
  have ms: "0 < (30000 :: int)" "i64_ok 30000" by (simp_all add: i64_ok_def)
  show ?thesis
    using claimed_run
    by (auto intro!: exI simp: claim_lock_timeout_ms_def atomic_claim_ready_jobs_def lua_claim_ready_def andThen_def ret_def effects first_candidates
        claim_candidate_effect [OF first_keyspace_typed ms] zs_members_def split: prod.splits res.splits)
qed

lemma claimed_views [simp]:
  "well_typed claimed_keyspace" "hash_int (hash_at claimed_keyspace (format_job_key ''a'')) ''current_retries'' = Some 0"
proof -
  obtain sc where c: "claimed_keyspace = claim_state ''default'' ''w1'' (to_rfc3339 simple_codec 7) sc 65000 ''a'' first_keyspace"
    using claimed_keyspace_state by metis
  show "well_typed claimed_keyspace"
    by (rule claim_places(1) [OF first_keyspace_typed _ _ _ _ claimed_run])
      (simp_all add: i64_ok_def no_expiry_def ttl_at_def first_keyspace_def put_defs)
  show "hash_int (hash_at claimed_keyspace (format_job_key ''a'')) ''current_retries'' = Some 0"
    by (simp_all add: c claim_state_def hash_int_def hash_put_def i64_ok_def)
qed

lemma claimed_times_out:
  "fst (handle_exec_result ks_redis simple_codec clk busy_worker (sample_job ''a'') 60 ExecTimedOut claimed_keyspace) = Ok ()"
  by (simp add: handle_exec_result_def handle_job_timeout_def move_to_dlq_def andThen_def ret_def
      dlq_effect [where n = 0] DEFAULT_DLQ_RESULT_TTL_SECONDS_def i64_ok_def Let_def)

definition claimed_sys :: sys where
  "claimed_sys = \<lparr> sy_ks = claimed_keyspace, sy_phase = (\<lambda>a j. if a = WorkerTask ''w1'' \<and> j = ''a'' then Working else Idle),
     sy_stopping = {}, sy_dead = {} \<rparr>"

lemma reach_enqueued: "sys_reach simple_codec (sys_init\<lparr>sy_ks := first_keyspace\<rparr>)"
  using sys_step.enqueue [of simple_codec "sample_job ''a''" "''default''" 3 sys_init True first_keyspace] first_enqueued
  by (auto simp: sys_init_def intro: sys_reach.intros)

lemma reach_claimed: "sys_reach simple_codec claimed_sys"
proof -
  have "plain_id ''w1''" by (simp add: plain_id_def recovery_owner_def)
  then have "sys_step simple_codec (sys_init\<lparr>sy_ks := first_keyspace\<rparr>) claimed_sys"
    using sys_step.claim [of "''w1''" "sys_init\<lparr>sy_ks := first_keyspace\<rparr>" 30000 5 simple_codec 10000000 "''default''" 2 7
      "[''a'']" claimed_keyspace] claimed_run by (simp add: sys_init_def claimed_sys_def i64_ok_def cong: if_cong)
  then show ?thesis by (rule sys_reach.step [OF reach_enqueued])
qed

lemma claimed_executed:
  obtains ks l' where "execute_job ks_redis simple_codec (\<lambda>_. 5000000) ''r1'' busy_worker (sample_job ''a'')
      ''rrq:queue:default'' (claimed_keyspace, busy_tables) = (Ok (), (ks, l'))"
proof -
  obtain r ks l' where run: "execute_job ks_redis simple_codec (\<lambda>_. 5000000) ''r1'' busy_worker (sample_job ''a'')
      ''rrq:queue:default'' (claimed_keyspace, busy_tables) = (r, (ks, l'))"
    by (metis prod.collapse)
  have "r = Ok ()"
  proof (rule execute_job_run [OF reference.redis_server_axioms _ _ _ _ _ _ _ run, where n = 60
        and runner = timing_out and P = "\<lambda>x s1. x = ExecTimedOut \<and> s1 = claimed_keyspace"])
    fix x s1 q s2
    assume "x = ExecTimedOut \<and> s1 = claimed_keyspace" "r = (case q of Inl e \<Rightarrow> Err e | Inr _ \<Rightarrow> Ok ())"
      "attempt (handle_exec_result ks_redis simple_codec (\<lambda>k. 5000000) busy_worker (sample_job ''a'') 60 x) s1 = (Ok q, s2)"
    then show "r = Ok ()"
      using claimed_times_out [of "\<lambda>k. 5000000"]
      by (auto simp: attempt_def split: prod.splits res.splits sum.splits)
  qed (simp_all add: chrono_ok_def secs_def)
  then show thesis using that run by blast
qed

definition active_sample :: job where
  "active_sample = (sample_job ''a'')\<lparr>j_status := Active, j_start_time := Some 7, j_worker_id := Some ''w1''\<rparr>"

lemma parse_claimed:
  assumes "parse_job_map C h j n = Inr job" "from_rfc3339 C st = Some t"
  shows "parse_job_map C (hash_put [(''status'', ''ACTIVE''), (''start_time'', st), (''worker_id'', w)] h) j n
    = Inr (job\<lparr>j_status := Active, j_start_time := Some t, j_worker_id := Some w\<rparr>)"
  using assms
  by (cases "Option.bind (fmlookup h ''status'') parse_status";
      cases "Option.bind (fmlookup h ''enqueue_time'') (from_rfc3339 C)")
    (auto simp: parse_job_map_def Let_def hash_put_def parse_status_def)

lemma claimed_parsed:
  "parse_job_map simple_codec (hash_at claimed_keyspace (format_job_key ''a'')) ''a'' 5 = Inr active_sample"
proof -
  obtain sc where c: "claimed_keyspace = claim_state ''default'' ''w1'' (to_rfc3339 simple_codec 7) sc 65000 ''a'' first_keyspace"
    using claimed_keyspace_state by metis
  have h: "hash_at claimed_keyspace (format_job_key ''a'') = hash_put [(''status'', ''ACTIVE''),
      (''start_time'', to_rfc3339 simple_codec 7), (''worker_id'', ''w1'')] (job_hash simple_codec (sample_job ''a''))"
    by (simp add: c claim_state_def)
  show ?thesis
    unfolding h active_sample_def
    by (rule parse_claimed [OF codec_laws.parse_job_hash [OF simple.codec_laws_axioms sample_job_ok]
        codec_laws.rfc3339_roundtrip [OF simple.codec_laws_axioms]])
qed

definition lost_sys :: sys where
  "lost_sys = \<lparr> sy_ks = ks_elapse 200000 claimed_keyspace, sy_phase = (\<lambda>a j. Idle), sy_stopping = {''w1''}, sy_dead = {''w1''} \<rparr>"

lemma reach_lost: "sys_reach simple_codec lost_sys"
proof -
  let ?s = "\<lparr> sy_ks = claimed_keyspace, sy_phase = (\<lambda>a j. Idle), sy_stopping = {''w1''}, sy_dead = {''w1''} \<rparr>"
  have "(\<lambda>a j. if a = WorkerTask ''w1'' then Idle else sy_phase claimed_sys a j) = (\<lambda>a j. Idle)"
    by (simp add: claimed_sys_def fun_eq_iff)
  then have "sys_step simple_codec claimed_sys ?s"
    using sys_step.crash [of simple_codec claimed_sys "''w1''"] by (simp add: claimed_sys_def)
  then have "sys_reach simple_codec ?s" by (rule sys_reach.step [OF reach_claimed])
  moreover have "sys_step simple_codec ?s lost_sys"
    using sys_step.tick [of ?s 200000 simple_codec] by (simp add: lost_sys_def)
  ultimately show ?thesis by (rule sys_reach.step)
qed

lemma lost_views:
  "well_typed (sy_ks lost_sys)" "sy_ks lost_sys (format_job_key ''a'') \<noteq> None"
  "parse_job_map simple_codec (hash_at (sy_ks lost_sys) (format_job_key ''a'')) ''a'' 5 = Inr active_sample"
  "sy_ks lost_sys (format_lock_key ''a'') = None"
proof -
  obtain sc where c: "claimed_keyspace = claim_state ''default'' ''w1'' (to_rfc3339 simple_codec 7) sc 65000 ''a'' first_keyspace"
    using claimed_keyspace_state by metis
  show "well_typed (sy_ks lost_sys)" by (simp add: lost_sys_def)
  show "sy_ks lost_sys (format_lock_key ''a'') = None"
    by (simp add: lost_sys_def c claim_state_def ks_elapse_def put_defs)
  have same: "ks_elapse 200000 claimed_keyspace (format_job_key ''a'') = claimed_keyspace (format_job_key ''a'')"
    by (simp add: c claim_state_def ks_elapse_def put_defs first_keyspace_def ttl_at_def)
  then show "sy_ks lost_sys (format_job_key ''a'') \<noteq> None"
    by (simp add: lost_sys_def c claim_state_def put_defs)
  show "parse_job_map simple_codec (hash_at (sy_ks lost_sys) (format_job_key ''a'')) ''a'' 5 = Inr active_sample"
    using claimed_parsed same by (simp add: lost_sys_def hash_at_def)
qed

lemma recovered_custody:
  "recovered settings now w job ks ks' \<Longrightarrow> (\<exists>q. queued_in ks' q (j_id job)) \<and> \<not> active_in ks' w (j_id job)"
  by (auto simp: recovered_def queued_in_def active_in_def Let_def simp flip: zs_score_None_iff split: option.splits)

end
