(* ===== verification/System_Properties.thy ===== *)
theory System_Properties
  imports System_Example
begin

text \<open>What holds in every reachable state of the system, and that the code of the worker stays within it.\<close>

text \<open>C3. No open job is lost. In every reachable state a job whose status is PENDING, ACTIVE or RETRYING is in a
  queue or in the active set of some worker, where the orphan recovery looks for it; whatever workers and
  recoveries have done, in whatever order, and whoever has crashed.\<close>

theorem open_job_in_custody:
  assumes "sys_reach C s" "open_job (sy_ks s) j"
  shows "(\<exists>q. queued_in (sy_ks s) q j) \<or> (\<exists>w. active_in (sy_ks s) w j)"
  using job_invD(5) [OF inv_parts(4) [OF sys_reach_inv [OF assms(1)]] assms(2)] by (simp add: in_custody_def)

theorem open_job_in_custody_witness:
  "(\<exists>q. queued_in first_keyspace q ''a'') \<or> (\<exists>w. active_in first_keyspace w ''a'')"
  using open_job_in_custody [OF reach_enqueued, of "''a''"] by (simp add: open_job_def)

text \<open>C2. Exclusive ownership. In every reachable state at most one agent, the task of a worker or a recovery, holds a
  job, and the lock of the job names it.\<close>

theorem exclusive_ownership:
  assumes "sys_reach C s" "holding (sy_phase s a j)" "holding (sy_phase s b j)"
  shows "a = b \<and> lock_of (sy_ks s) j = Some (owner_of a)"
  using job_invD(1,2) [OF inv_parts(4) [OF sys_reach_inv [OF assms(1)]]] assms(2,3) by blast

theorem exclusive_ownership_witness: "lock_of claimed_keyspace ''a'' = Some ''w1''"
  using exclusive_ownership [OF reach_claimed, of "WorkerTask ''w1''" "''a''" "WorkerTask ''w1''"]
  by (simp add: claimed_sys_def owner_of_def)

text \<open>C19. A task of a worker refines the system: a run of \<open>execute_job\<close> that returns, from a reachable state in which the
  worker has claimed the job, is a sequence of steps of the system, after which the task is idle and no
  other agent has moved; the runner it calls leaves the keys alone.\<close>

theorem execute_job_refines:
  assumes reach: "sys_reach C s" and phase: "sy_phase s (WorkerTask (w_id W)) (j_id job) = Working"
    and apart: "\<forall>name runner req n hint ks. map_of (w_runners W) name = Some runner
      \<longrightarrow> snd (rn_execute_with_timeout runner req n hint ks) = ks"
    and run: "execute_job ks_redis C clk rid W job queue_name (sy_ks s, l) = (Ok (), (ks, l'))"
  shows "\<exists>t. (sys_step C)\<^sup>*\<^sup>* s t \<and> sy_ks t = ks \<and> sy_phase t (WorkerTask (w_id W)) (j_id job) = Idle
    \<and> (\<forall>a j. j \<noteq> j_id job \<or> a \<noteq> WorkerTask (w_id W) \<longrightarrow> sy_phase t a j = sy_phase s a j)"
proof -
  let ?t = "moved s (WorkerTask (w_id W)) (j_id job) Idle ks"
  note inv = sys_reach_inv [OF reach]
  have snds: "map_of (w_runners W) name = Some runner \<Longrightarrow> snd (rn_execute_with_timeout runner req n hint ks0) = ks0"
    for name runner req n hint ks0 using apart by blast
  note paths = end_fatally_path [OF inv phase] dispatch_job_path [OF inv phase snds]
  have "sys_path C s ?t"
    using run unfolding execute_job_def Let_def
    by (auto simp: andThen_def duration_seconds_def datetime_add_def on_local_def ret_def panic_def
        split: prod.splits res.splits if_splits option.splits intro: paths)
  then show ?thesis by (intro exI [of _ ?t]) auto
qed

theorem execute_job_refines_witness:
  "\<exists>t. (sys_step simple_codec)\<^sup>*\<^sup>* claimed_sys t \<and> sy_phase t (WorkerTask ''w1'') ''a'' = Idle"
proof -
  obtain ks l' where run: "execute_job ks_redis simple_codec (\<lambda>_. 5000000) ''r1'' busy_worker (sample_job ''a'')
      ''rrq:queue:default'' (sy_ks claimed_sys, busy_tables) = (Ok (), (ks, l'))"
    using claimed_executed by (metis claimed_sys_def sys.select_convs(1))
  have "\<forall>name runner req n hint ks. map_of (w_runners busy_worker) name = Some runner
      \<longrightarrow> snd (rn_execute_with_timeout runner req n hint ks) = ks"
    by (auto simp: busy_worker_def split: if_splits)
  then show ?thesis
    using execute_job_refines [OF reach_claimed _ _ run] by (auto simp: claimed_sys_def)
qed

text \<open>C20. The recovery of an orphan refines the system: a run of \<open>recover_job\<close> that returns is a sequence of steps of
  the system, after which the recovery is idle again; the job stored under an id carries that id.\<close>

theorem recover_job_refines:
  assumes reach: "sys_reach C s" and dead: "w \<in> sy_dead s" and idle: "sy_phase s (RecoveryOf w) j = Idle"
    and id: "\<And>job. parse_job_map C (hash_at (sy_ks s) (format_job_key j)) j (default_max_retries settings) = Inr job
      \<Longrightarrow> j_id job = j"
    and run: "recover_job ks_redis C settings now w j (sy_ks s) = (Ok b, ks)"
  shows "(sys_step C)\<^sup>*\<^sup>* s (s\<lparr>sy_ks := ks\<rparr>)"
  by (rule recover_job_path [OF sys_reach_inv [OF reach] dead idle id run])

theorem recover_job_refines_witness:
  "\<exists>ks. (sys_step simple_codec)\<^sup>*\<^sup>* lost_sys (lost_sys\<lparr>sy_ks := ks\<rparr>)
     \<and> (\<exists>q. queued_in ks q ''a'') \<and> \<not> active_in ks ''w1'' ''a''"
proof -
  obtain b ks where run: "recover_job ks_redis simple_codec default_settings 7000000 ''w1'' ''a'' (sy_ks lost_sys) = (Ok b, ks)"
    and eff: "(\<exists>q. queued_in ks q ''a'') \<and> \<not> active_in ks ''w1'' ''a''"
  proof -
    have sel: "j_id active_sample = ''a''" "j_status active_sample = Active" "lock_timeout_of default_settings active_sample = Some 120000"
      by (simp_all add: active_sample_def lock_timeout_of_def i64_ok_def checked_i64_def)
    show thesis
      by (rule recover_job_effect [where C = simple_codec and settings = default_settings and job = active_sample
          and now = 7000000 and w = "''w1''", OF lost_views(1,2)])
        (use lost_views(3,4) sel that recovered_custody [where job = active_sample] in auto)
  qed
  show ?thesis
    using recover_job_refines [OF reach_lost _ _ _ run] lost_views(3) eff
    by (intro exI [of _ ks]) (simp add: lost_sys_def active_sample_def)
qed

end
