(* ===== verification/Runtime.thy ===== *)
theory Runtime
  imports Protocol_Properties Sockets
begin

text \<open>
  The runner's side (\<open>runner/src/registry.rs\<close>, \<open>runner/src/runtime.rs\<close>): the registry of handlers, the
  endpoint, and the server. Connections and the tasks of their requests run side by side; they share the
  tasks in flight and the index by job, each behind a mutex. The state is what they share; an event is one
  critical section, one message read, or one answer handed to the channel of a connection, so that a run is
  an interleaving of such events. What is measured is in \<open>Metrics\<close>.
\<close>

section \<open>Handlers\<close>

text \<open>A handler takes its time, in nanoseconds, and answers.\<close>

type_synonym handler = "ExecutionRequest \<Rightarrow> int \<times> ExecutionOutcome"
type_synonym registry = "string \<rightharpoonup> handler"

definition registry_new :: registry where "registry_new = (\<lambda>_. None)"

definition register :: "string \<Rightarrow> handler \<Rightarrow> registry \<Rightarrow> registry" where
  "register name handler reg = reg(name \<mapsto> handler)"

definition registry_get :: "registry \<Rightarrow> string \<Rightarrow> handler option" where
  "registry_get reg name = reg name"

definition execute_with :: "registry \<Rightarrow> ExecutionRequest \<Rightarrow> int \<times> ExecutionOutcome" where
  "execute_with reg request =
     (let job_id = xr_job_id request; request_id = xr_request_id request;
          (duration, outcome) = (case registry_get reg (xr_function_name request) of
             Some handler \<Rightarrow> handler request
           | None \<Rightarrow> (0, outcome_handler_not_found job_id request_id
                         (''No handler registered for function '' @ quoted (xr_function_name request))));
          outcome1 = (if xo_job_id outcome = None then outcome\<lparr>xo_job_id := Some job_id\<rparr> else outcome);
          outcome2 = (if xo_request_id outcome1 = None then outcome1\<lparr>xo_request_id := Some request_id\<rparr> else outcome1)
      in (duration, outcome2))"

text \<open>\<open>tokio::time::timeout\<close> asks the handler once more when the time has come.\<close>

definition execute_with_deadline :: "registry \<Rightarrow> datetime \<Rightarrow> ExecutionRequest \<Rightarrow> ExecutionOutcome" where
  "execute_with_deadline reg now request =
     (let job_id = xr_job_id request; request_id = xr_request_id request in
      case xc_deadline (xr_context request) of
        Some deadline \<Rightarrow>
          if deadline \<le> now then outcome_timeout job_id request_id ''Job deadline exceeded''
          else (case execute_with reg request of (duration, outcome) \<Rightarrow>
                 if duration \<le> deadline - now then outcome
                 else outcome_timeout job_id request_id ''Job execution timed out'')
      | None \<Rightarrow> snd (execute_with reg request))"

section \<open>The endpoint\<close>

definition runner_split_host_port :: "string \<Rightarrow> error + (string \<times> string)" where
  "runner_split_host_port raw =
     (case raw of
        c # rest \<Rightarrow>
          if c = CHR ''['' then
            (case split_once rest '']:'' of
               None \<Rightarrow> Inl (Bail ''runner tcp_socket must be in [host]:port format'')
             | Some hp \<Rightarrow> Inr hp)
          else
            (case rsplit_once raw CHR '':'' of
               None \<Rightarrow> Inl (Bail ''runner tcp_socket must be in host:port format'')
             | Some (host, port_str) \<Rightarrow>
                 if host = [] then Inl (Bail ''runner tcp_socket host cannot be empty'') else Inr (host, port_str))
      | [] \<Rightarrow> Inl (Bail ''runner tcp_socket must be in host:port format''))"

definition runner_parse_tcp_socket :: "string \<Rightarrow> error + (IpAddr \<times> nat)" where
  "runner_parse_tcp_socket raw0 =
     (let raw = trim raw0 in
      if raw = [] then Inl (Bail ''runner tcp_socket cannot be empty'')
      else case runner_split_host_port raw of
        Inl e \<Rightarrow> Inl e
      | Inr (host, port_str) \<Rightarrow>
          (case parse_u16 port_str of
             None \<Rightarrow> Inl (Bail (''Invalid runner tcp_socket port: '' @ port_str))
           | Some port \<Rightarrow>
               if port = 0 then Inl (Bail ''runner tcp_socket port must be > 0'')
               else if host = ''localhost'' then Inr (V4 [127, 0, 0, 1], port)
               else (case parse_ip host of
                       None \<Rightarrow> Inl (Bail (''Invalid runner tcp_socket host: '' @ host))
                     | Some parsed \<Rightarrow>
                         if \<not> is_loopback parsed then Inl (Bail ''runner tcp_socket host must be localhost'')
                         else Inr (parsed, port))))"

section \<open>The state of the server\<close>

definition RESPONSE_CHANNEL_CAPACITY :: nat where "RESPONSE_CHANNEL_CAPACITY = 64"

text \<open>
  The handle of a task is its place in the list of the tasks spawned so far; the channel of the answers and
  the set of requests that an entry shares with its connection are those of connection \<open>ft_conn\<close>.
\<close>

record InFlightTask =
  ft_job_id :: string
  ft_handle :: nat
  ft_conn :: nat

datatype task_stage =
    Executing | Answering ExecutionOutcome | Unlisting | Unindexing | Deactivating | Ended

record task =
  tk_conn :: nat
  tk_request :: ExecutionRequest
  tk_stage :: task_stage
  tk_completed :: bool
  tk_aborted :: bool

datatype conn_stage =
    NotYet | Reading
  | Listing string string nat \<comment> \<open>request, job, handle\<close>
  | Indexing string string
  | Cancelling string "string list" \<comment> \<open>job of the message, requests left\<close>
  | Deactivate string string InFlightTask "string list"
  | Announce string string InFlightTask "string list"
  | Unindex string string InFlightTask "string list"
  | Draining "string list"
  | DrainIndex string InFlightTask "string list"
  | ConnClosed | ConnFailed

record server =
  sv_in_flight :: "string \<rightharpoonup> InFlightTask"
  sv_job_index :: "string \<rightharpoonup> string set"
  sv_active :: "nat \<Rightarrow> string set"
  sv_tasks :: "task list"
  sv_conn :: "nat \<Rightarrow> conn_stage"
  sv_sent :: "(nat \<times> ExecutionOutcome) list" \<comment> \<open>what has entered the channels\<close>

definition server_init :: server where
  "server_init = \<lparr> sv_in_flight = (\<lambda>_. None), sv_job_index = (\<lambda>_. None), sv_active = (\<lambda>_. {}),
     sv_tasks = [], sv_conn = (\<lambda>_. NotYet), sv_sent = [] \<rparr>"

definition index_request :: "string \<Rightarrow> string \<Rightarrow> (string \<rightharpoonup> string set) \<Rightarrow> (string \<rightharpoonup> string set)" where
  "index_request job_id request_id index =
     index(job_id \<mapsto> insert request_id (case index job_id of None \<Rightarrow> {} | Some entries \<Rightarrow> entries))"

definition unindex_request :: "string \<Rightarrow> string \<Rightarrow> (string \<rightharpoonup> string set) \<Rightarrow> (string \<rightharpoonup> string set)" where
  "unindex_request job_id request_id index =
     (case index job_id of
        None \<Rightarrow> index
      | Some entries \<Rightarrow>
          (let entries1 = entries - {request_id}
           in index(job_id := if entries1 = {} then None else Some entries1)))"

definition set_conn :: "nat \<Rightarrow> conn_stage \<Rightarrow> server \<Rightarrow> server" where
  "set_conn c st s = s\<lparr>sv_conn := (sv_conn s)(c := st)\<rparr>"

definition set_active :: "nat \<Rightarrow> string set \<Rightarrow> server \<Rightarrow> server" where
  "set_active c ids s = s\<lparr>sv_active := (sv_active s)(c := ids)\<rparr>"

definition upd_task :: "nat \<Rightarrow> (task \<Rightarrow> task) \<Rightarrow> server \<Rightarrow> server" where
  "upd_task h f s = s\<lparr>sv_tasks := (sv_tasks s)[h := f (sv_tasks s ! h)]\<rparr>"

definition abort :: "nat \<Rightarrow> server \<Rightarrow> server" where
  "abort h s = upd_task h (\<lambda>t. t\<lparr>tk_aborted := True\<rparr>) s"

text \<open>An answer enters the channel, or is dropped: the channel is closed, or stays full for too long.\<close>

definition deliver :: "bool \<Rightarrow> nat \<Rightarrow> ExecutionOutcome \<Rightarrow> server \<Rightarrow> server" where
  "deliver sent c outcome s = (if sent then s\<lparr>sv_sent := sv_sent s @ [(c, outcome)]\<rparr> else s)"

section \<open>A message\<close>

definition unexpected_outcome :: ExecutionOutcome where
  "unexpected_outcome = \<lparr> xo_job_id = Some ''unknown'', xo_request_id = None, xo_status = OError,
     xo_result = None, xo_error = Some (plain_error ''unexpected response message''), xo_retry_after_seconds = None \<rparr>"

definition handle_request :: "nat \<Rightarrow> bool \<Rightarrow> ExecutionRequest \<Rightarrow> server \<Rightarrow> server" where
  "handle_request c sent payload s =
     (let job_id = xr_job_id payload; request_id = xr_request_id payload in
      if xr_protocol_version payload \<noteq> PROTOCOL_VERSION
      then deliver sent c (outcome_error job_id request_id ''Unsupported protocol version'') s
      else if RESPONSE_CHANNEL_CAPACITY \<le> card (sv_active s c)
      then set_conn c (if sent then Reading else ConnFailed)
             (deliver sent c (outcome_error job_id request_id ''Runner busy: too many in-flight requests'') s)
      else set_conn c (Listing request_id job_id (length (sv_tasks s)))
             (set_active c (insert request_id (sv_active s c))
               (s\<lparr>sv_tasks := sv_tasks s @ [\<lparr> tk_conn = c, tk_request = payload, tk_stage = Executing,
                    tk_completed = False, tk_aborted = False \<rparr>]\<rparr>)))"

text \<open>The requests a cancellation is for; the order of a \<open>HashSet\<close> is the choice \<open>ids\<close>.\<close>

definition cancel_ids_ok :: "CancelRequest \<Rightarrow> (string \<rightharpoonup> string set) \<Rightarrow> string list \<Rightarrow> bool" where
  "cancel_ids_ok payload index ids =
     (case cr_request_id payload of
        Some request_id \<Rightarrow> ids = [request_id]
      | None \<Rightarrow> distinct ids \<and> set ids = (case index (cr_job_id payload) of None \<Rightarrow> {} | Some entries \<Rightarrow> entries))"

definition handle_cancel :: "nat \<Rightarrow> string list \<Rightarrow> CancelRequest \<Rightarrow> server \<Rightarrow> server" where
  "handle_cancel c ids payload s =
     (if cr_protocol_version payload \<noteq> PROTOCOL_VERSION then s
      else set_conn c (Cancelling (cr_job_id payload) ids) s)"

definition cancelled_outcome :: "string \<Rightarrow> string \<Rightarrow> ExecutionOutcome" where
  "cancelled_outcome job_id request_id =
     (outcome_error job_id request_id ''Job cancelled'')
       \<lparr> xo_error := Some ((plain_error ''Job cancelled'') \<lparr> xe_type := Some ''cancelled'' \<rparr>) \<rparr>"

text \<open>The loop over the requests of a cancellation, from one lock to the next.\<close>

definition cancel_step :: "nat \<Rightarrow> bool \<Rightarrow> server \<Rightarrow> server option" where
  "cancel_step c sent s =
     (case sv_conn s c of
        Cancelling job_id [] \<Rightarrow> Some (set_conn c Reading s)
      | Cancelling job_id (request_id # ids) \<Rightarrow>
          (case sv_in_flight s request_id of
             None \<Rightarrow> Some (set_conn c (Cancelling job_id ids) s)
           | Some t \<Rightarrow>
               if tk_completed (sv_tasks s ! ft_handle t) then Some (set_conn c (Cancelling job_id ids) s)
               else Some (set_conn c (Deactivate job_id request_id t ids)
                      (abort (ft_handle t) (s\<lparr>sv_in_flight := (sv_in_flight s)(request_id := None)\<rparr>))))
      | Deactivate job_id request_id t ids \<Rightarrow>
          Some (set_conn c (Announce job_id request_id t ids)
            (set_active (ft_conn t) (sv_active s (ft_conn t) - {request_id}) s))
      | Announce job_id request_id t ids \<Rightarrow>
          Some (set_conn c (Unindex job_id request_id t ids)
            (deliver sent (ft_conn t) (cancelled_outcome job_id request_id) s))
      | Unindex job_id request_id t ids \<Rightarrow>
          Some (set_conn c (Cancelling job_id ids)
            (s\<lparr>sv_job_index := unindex_request (ft_job_id t) request_id (sv_job_index s)\<rparr>))
      | _ \<Rightarrow> None)"

text \<open>The two locks after a task has been spawned.\<close>

definition list_step :: "nat \<Rightarrow> server \<Rightarrow> server option" where
  "list_step c s =
     (case sv_conn s c of
        Listing request_id job_id h \<Rightarrow>
          Some (set_conn c (Indexing request_id job_id)
            (s\<lparr>sv_in_flight := (sv_in_flight s)(request_id \<mapsto> \<lparr> ft_job_id = job_id, ft_handle = h, ft_conn = c \<rparr>)\<rparr>))
      | Indexing request_id job_id \<Rightarrow>
          Some (set_conn c Reading (s\<lparr>sv_job_index := index_request job_id request_id (sv_job_index s)\<rparr>))
      | _ \<Rightarrow> None)"

section \<open>The end of a connection\<close>

definition drain_step :: "nat \<Rightarrow> server \<Rightarrow> server option" where
  "drain_step c s =
     (case sv_conn s c of
        Draining [] \<Rightarrow> Some (set_conn c ConnClosed s)
      | Draining (request_id # ids) \<Rightarrow>
          (case sv_in_flight s request_id of
             None \<Rightarrow> Some (set_conn c (Draining ids) s)
           | Some t \<Rightarrow> Some (set_conn c (DrainIndex request_id t ids)
               (abort (ft_handle t) (s\<lparr>sv_in_flight := (sv_in_flight s)(request_id := None)\<rparr>))))
      | DrainIndex request_id t ids \<Rightarrow>
          Some (set_conn c (Draining ids)
            (s\<lparr>sv_job_index := unindex_request (ft_job_id t) request_id (sv_job_index s)\<rparr>))
      | _ \<Rightarrow> None)"

section \<open>The task of a request\<close>

definition task_step :: "registry \<Rightarrow> datetime \<Rightarrow> bool \<Rightarrow> nat \<Rightarrow> server \<Rightarrow> server option" where
  "task_step reg now sent h s =
     (if length (sv_tasks s) \<le> h then None
      else let t = sv_tasks s ! h; c = tk_conn t;
               request_id = xr_request_id (tk_request t); job_id = xr_job_id (tk_request t)
      in case tk_stage t of
        Executing \<Rightarrow>
          Some (upd_task h (\<lambda>t. t\<lparr>tk_stage := Answering (execute_with_deadline reg now (tk_request t)),
                                  tk_completed := True\<rparr>) s)
      | Answering outcome \<Rightarrow> Some (upd_task h (\<lambda>t. t\<lparr>tk_stage := Unlisting\<rparr>) (deliver sent c outcome s))
      | Unlisting \<Rightarrow>
          Some (upd_task h (\<lambda>t. t\<lparr>tk_stage := Unindexing\<rparr>)
            (s\<lparr>sv_in_flight := (sv_in_flight s)(request_id := None)\<rparr>))
      | Unindexing \<Rightarrow>
          Some (upd_task h (\<lambda>t. t\<lparr>tk_stage := Deactivating\<rparr>)
            (s\<lparr>sv_job_index := unindex_request job_id request_id (sv_job_index s)\<rparr>))
      | Deactivating \<Rightarrow>
          Some (upd_task h (\<lambda>t. t\<lparr>tk_stage := Ended\<rparr>) (set_active c (sv_active s c - {request_id}) s))
      | Ended \<Rightarrow> None)"

section \<open>Events\<close>

datatype event =
    Accept nat
  | Message nat bool "string list" RunnerMessage
  | EndOfStream nat "string list"
  | ReadError nat
  | ListStep nat | CancelStep nat bool | DrainStep nat
  | TaskStep nat datetime bool
  | TaskStops nat \<comment> \<open>an aborted task takes no further step\<close>

definition server_next :: "registry \<Rightarrow> event \<Rightarrow> server \<Rightarrow> server option" where
  "server_next reg ev s =
     (case ev of
        Accept c \<Rightarrow> if sv_conn s c = NotYet then Some (set_conn c Reading s) else None
      | Message c sent ids m \<Rightarrow>
          if sv_conn s c \<noteq> Reading then None
          else (case m of
              MRequest payload \<Rightarrow> Some (handle_request c sent payload s)
            | MCancel payload \<Rightarrow>
                if cancel_ids_ok payload (sv_job_index s) ids then Some (handle_cancel c ids payload s) else None
            | MResponse _ \<Rightarrow> Some (deliver sent c unexpected_outcome s))
      | EndOfStream c ids \<Rightarrow>
          if sv_conn s c = Reading \<and> distinct ids \<and> set ids = sv_active s c
          then Some (set_conn c (Draining ids) (set_active c {} s)) else None
      | ReadError c \<Rightarrow> if sv_conn s c = Reading then Some (set_conn c ConnFailed s) else None
      | ListStep c \<Rightarrow> list_step c s
      | CancelStep c sent \<Rightarrow> cancel_step c sent s
      | DrainStep c \<Rightarrow> drain_step c s
      | TaskStep h now sent \<Rightarrow> task_step reg now sent h s
      | TaskStops h \<Rightarrow>
          if h < length (sv_tasks s) \<and> tk_aborted (sv_tasks s ! h)
          then Some (upd_task h (\<lambda>t. t\<lparr>tk_stage := Ended\<rparr>) s) else None)"

fun server_run :: "registry \<Rightarrow> event list \<Rightarrow> server \<Rightarrow> server option" where
  "server_run reg [] s = Some s"
| "server_run reg (ev # evs) s = Option.bind (server_next reg ev s) (server_run reg evs)"

end
