(* ===== verification/Runtime_Facts.thy ===== *)
theory Runtime_Facts
  imports Runtime
begin

text \<open>
  The invariant of the server: a request that is being executed is known to its connection, which is not closed, and
  can be found through the tasks in flight; and no connection has more of them than its channel holds.
\<close>

section \<open>Updates\<close>

abbreviation request_of :: "server \<Rightarrow> nat \<Rightarrow> string" where
  "request_of s h \<equiv> xr_request_id (tk_request (sv_tasks s ! h))"

abbreviation running :: "server \<Rightarrow> nat \<Rightarrow> bool" where
  "running s h \<equiv> tk_stage (sv_tasks s ! h) = Executing \<and> \<not> tk_aborted (sv_tasks s ! h)"

lemma server_updates [simp]:
  "sv_conn (set_conn c st s) = (sv_conn s)(c := st)" "sv_active (set_conn c st s) = sv_active s"
  "sv_tasks (set_conn c st s) = sv_tasks s" "sv_in_flight (set_conn c st s) = sv_in_flight s"
  "sv_conn (set_active c ids s) = sv_conn s" "sv_active (set_active c ids s) = (sv_active s)(c := ids)"
  "sv_tasks (set_active c ids s) = sv_tasks s" "sv_in_flight (set_active c ids s) = sv_in_flight s"
  "sv_conn (deliver b c x s) = sv_conn s" "sv_active (deliver b c x s) = sv_active s"
  "sv_tasks (deliver b c x s) = sv_tasks s" "sv_in_flight (deliver b c x s) = sv_in_flight s"
  "sv_conn (upd_task h f s) = sv_conn s" "sv_active (upd_task h f s) = sv_active s"
  "sv_tasks (upd_task h f s) = (sv_tasks s)[h := f (sv_tasks s ! h)]" "sv_in_flight (upd_task h f s) = sv_in_flight s"
  by (simp_all add: set_conn_def set_active_def deliver_def upd_task_def)

definition fresh_requests :: "server \<Rightarrow> bool" where
  "fresh_requests s \<longleftrightarrow> distinct (map (\<lambda>t. xr_request_id (tk_request t)) (sv_tasks s))"

lemma fresh_same:
  "fresh_requests s \<Longrightarrow> h < length (sv_tasks s) \<Longrightarrow> k < length (sv_tasks s) \<Longrightarrow> request_of s h = request_of s k \<Longrightarrow> h = k"
  by (auto simp: fresh_requests_def distinct_conv_nth)

section \<open>The invariant\<close>

definition listed :: "server \<Rightarrow> nat \<Rightarrow> bool" where
  "listed s h \<longleftrightarrow> (\<exists>e. sv_in_flight s (request_of s h) = Some e \<and> ft_handle e = h)"

definition entries_ok :: "server \<Rightarrow> bool" where
  "entries_ok s \<longleftrightarrow> (\<forall>r e. sv_in_flight s r = Some e \<longrightarrow>
     ft_handle e < length (sv_tasks s) \<and> request_of s (ft_handle e) = r \<and> tk_conn (sv_tasks s ! ft_handle e) = ft_conn e)"

fun stage_fits :: "server \<Rightarrow> nat \<Rightarrow> conn_stage \<Rightarrow> bool" where
  "stage_fits s c (Listing r j h) = (h < length (sv_tasks s) \<and> request_of s h = r \<and> tk_conn (sv_tasks s ! h) = c)"
| "stage_fits s c (Deactivate j r e ids) = (ft_handle e < length (sv_tasks s) \<and> request_of s (ft_handle e) = r
     \<and> tk_aborted (sv_tasks s ! ft_handle e))"
| "stage_fits s c _ = True"

text \<open>Whether the connection still knows a request: by its set of active ones, or in the list it drains.\<close>

fun knows :: "conn_stage \<Rightarrow> string set \<Rightarrow> string \<Rightarrow> bool" where
  "knows NotYet active r = False"
| "knows ConnClosed active r = False"
| "knows (Draining ids) active r = (r \<in> set ids)"
| "knows (DrainIndex _ _ ids) active r = (r \<in> set ids)"
| "knows _ active r = (r \<in> active)"

fun lists_now :: "conn_stage \<Rightarrow> nat \<Rightarrow> bool" where
  "lists_now (Listing r j k) h = (k = h)"
| "lists_now _ h = False"

definition accounted :: "server \<Rightarrow> nat \<Rightarrow> bool" where
  "accounted s h \<longleftrightarrow> (let c = tk_conn (sv_tasks s ! h) in
     knows (sv_conn s c) (sv_active s c) (request_of s h) \<and> (listed s h \<or> lists_now (sv_conn s c) h))"

definition tracked :: "server \<Rightarrow> bool" where
  "tracked s \<longleftrightarrow> entries_ok s \<and> (\<forall>c. stage_fits s c (sv_conn s c)) \<and> (\<forall>h < length (sv_tasks s). running s h \<longrightarrow> accounted s h)"

definition bounded :: "server \<Rightarrow> bool" where
  "bounded s \<longleftrightarrow> (\<forall>c. finite (sv_active s c) \<and> card (sv_active s c) \<le> RESPONSE_CHANNEL_CAPACITY)"

lemma trackedI:
  assumes "\<And>r e. sv_in_flight s r = Some e \<Longrightarrow>
      ft_handle e < length (sv_tasks s) \<and> request_of s (ft_handle e) = r \<and> tk_conn (sv_tasks s ! ft_handle e) = ft_conn e"
    and "\<And>c. stage_fits s c (sv_conn s c)" "\<And>h. h < length (sv_tasks s) \<Longrightarrow> running s h \<Longrightarrow> accounted s h"
  shows "tracked s"
  using assms by (simp add: tracked_def entries_ok_def)

lemma trackedD:
  assumes "tracked s"
  shows "sv_in_flight s r = Some e \<Longrightarrow>
      ft_handle e < length (sv_tasks s) \<and> request_of s (ft_handle e) = r \<and> tk_conn (sv_tasks s ! ft_handle e) = ft_conn e"
    "stage_fits s c (sv_conn s c)" "h < length (sv_tasks s) \<Longrightarrow> running s h \<Longrightarrow> accounted s h"
  using assms by (auto simp: tracked_def entries_ok_def)

definition grows :: "server \<Rightarrow> server \<Rightarrow> bool" where
  "grows s s' \<longleftrightarrow> length (sv_tasks s) \<le> length (sv_tasks s') \<and> (\<forall>h < length (sv_tasks s).
     tk_conn (sv_tasks s' ! h) = tk_conn (sv_tasks s ! h) \<and> tk_request (sv_tasks s' ! h) = tk_request (sv_tasks s ! h)
     \<and> (tk_aborted (sv_tasks s ! h) \<longrightarrow> tk_aborted (sv_tasks s' ! h)))"

lemma stage_fits_grows: "grows s s' \<Longrightarrow> stage_fits s c st \<Longrightarrow> stage_fits s' c st"
  by (cases st) (auto simp: grows_def)

lemma tracked_step:
  assumes inv: "tracked s" and grows: "grows s s'"
    and entries: "\<And>r e. sv_in_flight s' r = Some e \<Longrightarrow> sv_in_flight s r \<noteq> Some e \<Longrightarrow>
      ft_handle e < length (sv_tasks s') \<and> request_of s' (ft_handle e) = r \<and> tk_conn (sv_tasks s' ! ft_handle e) = ft_conn e"
    and stages: "\<And>c. sv_conn s' c \<noteq> sv_conn s c \<Longrightarrow> stage_fits s' c (sv_conn s' c)"
    and known: "\<And>h. h < length (sv_tasks s') \<Longrightarrow> running s' h \<Longrightarrow>
      (h < length (sv_tasks s) \<Longrightarrow> running s h \<Longrightarrow> accounted s h) \<Longrightarrow> accounted s' h"
  shows "tracked s'"
proof (rule trackedI)
  show "ft_handle e < length (sv_tasks s') \<and> request_of s' (ft_handle e) = r \<and> tk_conn (sv_tasks s' ! ft_handle e) = ft_conn e"
    if "sv_in_flight s' r = Some e" for r e
    using entries [OF that] trackedD(1) [OF inv, of r e] grows by (cases "sv_in_flight s r = Some e") (auto simp: grows_def)
  show "stage_fits s' c (sv_conn s' c)" for c
    using stages [of c] stage_fits_grows [OF grows trackedD(2) [OF inv, of c]] by (cases "sv_conn s' c = sv_conn s c") simp_all
  show "accounted s' h" if "h < length (sv_tasks s')" "running s' h" for h
    using known [OF that] trackedD(3) [OF inv] by blast
qed

lemma grows_same: "sv_tasks s' = sv_tasks s \<Longrightarrow> grows s s'"
  by (simp add: grows_def)

lemma grows_upd: "sv_tasks s' = (sv_tasks s)[h := f (sv_tasks s ! h)] \<Longrightarrow>
   (\<And>t. tk_conn (f t) = tk_conn t \<and> tk_request (f t) = tk_request t \<and> (tk_aborted t \<longrightarrow> tk_aborted (f t))) \<Longrightarrow> grows s s'"
proof -
  assume s': "sv_tasks s' = (sv_tasks s)[h := f (sv_tasks s ! h)]"
    and f: "\<And>t. tk_conn (f t) = tk_conn t \<and> tk_request (f t) = tk_request t \<and> (tk_aborted t \<longrightarrow> tk_aborted (f t))"
  show ?thesis
  proof (cases "h < length (sv_tasks s)")
    case True
    then show ?thesis using f by (simp add: grows_def s' nth_list_update)
  qed (simp add: grows_def s')
qed

lemmas account_defs = accounted_def listed_def Let_def

lemma list_step_tracked:
  assumes inv: "tracked s" and fresh: "fresh_requests s" and step: "list_step c s = Some s'"
  shows "tracked s'"
proof (cases "sv_conn s c")
  case (Listing r j h)
  have h: "h < length (sv_tasks s)" "request_of s h = r" "tk_conn (sv_tasks s ! h) = c"
    using trackedD(2) [OF inv, of c] Listing by simp_all
  have only: "k = h" if "request_of s k = r" "k < length (sv_tasks s)" for k
    using fresh_same [OF fresh that(2) h(1)] that(1) h(2) by simp
  have s': "s' = set_conn c (Indexing r j) (s\<lparr>sv_in_flight := (sv_in_flight s)(r \<mapsto> \<lparr> ft_job_id = j, ft_handle = h, ft_conn = c \<rparr>)\<rparr>)"
    using step Listing by (simp add: list_step_def)
  show ?thesis
  proof (rule tracked_step [OF inv])
    show "accounted s' k" if "k < length (sv_tasks s')" "running s' k"
      "k < length (sv_tasks s) \<Longrightarrow> running s k \<Longrightarrow> accounted s k" for k
      using that Listing h only [of k] by (auto simp: s' account_defs)
  qed (use h in \<open>auto simp: s' intro!: grows_same split: if_splits\<close>)
next
  case (Indexing r j)
  then show ?thesis
    using step by (intro tracked_step [OF inv]) (auto simp: list_step_def account_defs intro!: grows_same split: if_splits)
qed (use step in \<open>simp_all add: list_step_def\<close>)

lemma cancel_entry_tracked:
  assumes inv: "tracked s" and fresh: "fresh_requests s"
    and entry: "sv_in_flight s r = Some e" and at: "sv_conn s c = Cancelling j (r # rs)"
    and s': "s' = set_conn c (Deactivate j r e rs) (abort (ft_handle e) (s\<lparr>sv_in_flight := (sv_in_flight s)(r := None)\<rparr>))"
  shows "tracked s'"
proof -
  note e = trackedD(1) [OF inv entry]
  have only: "k = ft_handle e" if "request_of s k = r" "k < length (sv_tasks s)" for k
    using fresh_same [OF fresh that(2), of "ft_handle e"] that(1) e by simp
  have grows: "grows s s'"
    by (rule grows_upd [where f = "\<lambda>t. t\<lparr>tk_aborted := True\<rparr>"]) (simp_all add: s' abort_def)
  show ?thesis
  proof (rule tracked_step [OF inv grows])
    show "accounted s' k" if "k < length (sv_tasks s')" "running s' k"
      "k < length (sv_tasks s) \<Longrightarrow> running s k \<Longrightarrow> accounted s k" for k
    proof -
      have k: "k \<noteq> ft_handle e" using that(1,2) e by (auto simp: s' abort_def)
      have r: "request_of s k \<noteq> r" using only [of k] k that(1) by (auto simp: s' abort_def)
      have "accounted s k" using that k by (simp add: s' abort_def)
      then show ?thesis using k r at by (auto simp: s' abort_def account_defs)
    qed
  qed (use e in \<open>auto simp: s' abort_def split: if_splits\<close>)
qed

lemma deactivate_tracked:
  assumes inv: "tracked s" and fresh: "fresh_requests s" and at: "sv_conn s c = Deactivate j r e ids"
    and s': "s' = set_conn c (Announce j r e ids) (set_active (ft_conn e) (sv_active s (ft_conn e) - {r}) s)"
  shows "tracked s'"
proof -
  have e: "ft_handle e < length (sv_tasks s)" "request_of s (ft_handle e) = r" "tk_aborted (sv_tasks s ! ft_handle e)"
    using trackedD(2) [OF inv, of c] at by simp_all
  have other: "request_of s h \<noteq> r" if "h < length (sv_tasks s)" "running s h" for h
    using fresh_same [OF fresh that(1) e(1)] e that by auto
  have kept: "knows st (A - {r}) q" if "knows st A q" "q \<noteq> r" for st A q
    using that by (cases st) simp_all
  show ?thesis
    using at other
    by (intro tracked_step [OF inv]) (auto simp: s' account_defs intro!: grows_same kept split: if_splits)
qed

lemma cancel_step_tracked:
  assumes inv: "tracked s" and fresh: "fresh_requests s" and step: "cancel_step c sent s = Some s'"
  shows "tracked s'"
proof (cases "sv_conn s c")
  case (Cancelling j ids)
  show ?thesis
  proof (cases "\<exists>r rs e. ids = r # rs \<and> sv_in_flight s r = Some e \<and> \<not> tk_completed (sv_tasks s ! ft_handle e)")
    case True
    then obtain r rs e where r: "ids = r # rs" "sv_in_flight s r = Some e" "\<not> tk_completed (sv_tasks s ! ft_handle e)" by blast
    then show ?thesis
      using step Cancelling by (intro cancel_entry_tracked [OF inv fresh r(2), of c j rs]) (simp_all add: cancel_step_def)
  next
    case False
    then show ?thesis
      using step Cancelling
      by (intro tracked_step [OF inv]) (auto simp: cancel_step_def account_defs intro!: grows_same split: if_splits list.splits option.splits)
  qed
next
  case (Deactivate j r e ids)
  then show ?thesis
    using step by (intro deactivate_tracked [OF inv fresh Deactivate]) (simp add: cancel_step_def)
next
  case (Announce j r e ids)
  then show ?thesis
    using step by (intro tracked_step [OF inv]) (auto simp: cancel_step_def account_defs intro!: grows_same split: if_splits)
next
  case (Unindex j r e ids)
  then show ?thesis
    using step by (intro tracked_step [OF inv]) (auto simp: cancel_step_def account_defs intro!: grows_same split: if_splits)
qed (use step in \<open>simp_all add: cancel_step_def\<close>)

lemma drain_step_tracked:
  assumes inv: "tracked s" and fresh: "fresh_requests s" and step: "drain_step c s = Some s'"
  shows "tracked s'"
proof (cases "sv_conn s c")
  case (Draining ids)
  show ?thesis
  proof (cases ids)
    case Nil
    then show ?thesis
      using step Draining
      by (intro tracked_step [OF inv]) (auto simp: drain_step_def account_defs intro!: grows_same split: if_splits)
  next
    case (Cons r rs)
    show ?thesis
    proof (cases "sv_in_flight s r")
      case None
      then show ?thesis
        using step Draining Cons
        by (intro tracked_step [OF inv]) (auto simp: drain_step_def account_defs intro!: grows_same split: if_splits)
    next
      case (Some e)
      note e = trackedD(1) [OF inv Some]
      have s': "s' = set_conn c (DrainIndex r e rs) (abort (ft_handle e) (s\<lparr>sv_in_flight := (sv_in_flight s)(r := None)\<rparr>))"
        using step Draining Cons Some by (simp add: drain_step_def)
      have only: "k = ft_handle e" if "request_of s k = r" "k < length (sv_tasks s)" for k
        using fresh_same [OF fresh that(2), of "ft_handle e"] that(1) e by simp
      have grows: "grows s s'"
        by (rule grows_upd [where f = "\<lambda>t. t\<lparr>tk_aborted := True\<rparr>"]) (simp_all add: s' abort_def)
      show ?thesis
      proof (rule tracked_step [OF inv grows])
        show "accounted s' k" if "k < length (sv_tasks s')" "running s' k"
          "k < length (sv_tasks s) \<Longrightarrow> running s k \<Longrightarrow> accounted s k" for k
        proof -
          have k: "k \<noteq> ft_handle e" using that(1,2) e by (auto simp: s' abort_def)
          have r: "request_of s k \<noteq> r" using only [of k] k that(1) by (auto simp: s' abort_def)
          have "accounted s k" using that k by (simp add: s' abort_def)
          then show ?thesis using k r Draining Cons by (auto simp: s' abort_def account_defs)
        qed
      qed (use e in \<open>auto simp: s' abort_def split: if_splits\<close>)
    qed
  qed
next
  case (DrainIndex r e ids)
  then show ?thesis
    using step by (intro tracked_step [OF inv]) (auto simp: drain_step_def account_defs intro!: grows_same split: if_splits)
qed (use step in \<open>simp_all add: drain_step_def\<close>)

text \<open>A task that is not being executed any more takes only its own request out.\<close>

lemma task_moves_tracked:
  assumes inv: "tracked s" and fresh: "fresh_requests s" and h: "h < length (sv_tasks s)"
    and tasks: "sv_tasks s' = (sv_tasks s)[h := f (sv_tasks s ! h)]"
    and f: "\<And>t. tk_conn (f t) = tk_conn t \<and> tk_request (f t) = tk_request t \<and> (tk_aborted t \<longrightarrow> tk_aborted (f t))"
    and stops: "tk_stage (f (sv_tasks s ! h)) \<noteq> Executing"
    and flight: "sv_in_flight s' = sv_in_flight s \<or> sv_in_flight s' = (sv_in_flight s)(request_of s h := None)"
    and active: "sv_active s' = sv_active s
      \<or> sv_active s' = (sv_active s)(tk_conn (sv_tasks s ! h) := sv_active s (tk_conn (sv_tasks s ! h)) - {request_of s h})"
    and conn: "sv_conn s' = sv_conn s"
  shows "tracked s'"
proof (rule tracked_step [OF inv])
  have grows: "grows s s'" by (rule grows_upd [where f = f, OF tasks f])
  then show "grows s s'" .
  show "ft_handle e < length (sv_tasks s') \<and> request_of s' (ft_handle e) = r \<and> tk_conn (sv_tasks s' ! ft_handle e) = ft_conn e"
    if "sv_in_flight s' r = Some e" "sv_in_flight s r \<noteq> Some e" for r e
    using that flight by (auto split: if_splits)
  show "accounted s' k" if "k < length (sv_tasks s')" "running s' k"
    "k < length (sv_tasks s) \<Longrightarrow> running s k \<Longrightarrow> accounted s k" for k
  proof -
    have k: "k \<noteq> h" using that(1,2) stops by (auto simp: tasks)
    have len: "k < length (sv_tasks s)" using that(1) by (simp add: tasks)
    have r: "request_of s k \<noteq> request_of s h" using fresh_same [OF fresh len h] k by blast
    have same: "sv_tasks s' ! k = sv_tasks s ! k" using k by (simp add: tasks)
    have acc: "accounted s k" using that(2,3) len by (simp add: same)
    have kept: "knows st (A - {request_of s h}) q" if "knows st A q" "q \<noteq> request_of s h" for st A q
      using that by (cases st) simp_all
    show ?thesis
      using acc flight active r by (auto simp: account_defs same conn kept)
  qed
qed (simp add: conn)

lemma task_step_tracked:
  assumes inv: "tracked s" and fresh: "fresh_requests s" and step: "task_step reg now sent h s = Some s'"
  shows "tracked s'"
proof -
  have h: "h < length (sv_tasks s)" using step by (simp add: task_step_def split: if_splits)
  note moves = task_moves_tracked [OF inv fresh h]
  show ?thesis
  proof (cases "tk_stage (sv_tasks s ! h)")
    case Executing
    show ?thesis
      by (rule moves [where f = "\<lambda>t. t\<lparr>tk_stage := Answering (execute_with_deadline reg now (tk_request t)), tk_completed := True\<rparr>"])
        (use step h Executing in \<open>auto simp: task_step_def Let_def\<close>)
  next
    case (Answering x)
    show ?thesis
      by (rule moves [where f = "\<lambda>t. t\<lparr>tk_stage := Unlisting\<rparr>"]) (use step h Answering in \<open>auto simp: task_step_def Let_def\<close>)
  next
    case Unlisting
    show ?thesis
      by (rule moves [where f = "\<lambda>t. t\<lparr>tk_stage := Unindexing\<rparr>"]) (use step h Unlisting in \<open>auto simp: task_step_def Let_def\<close>)
  next
    case Unindexing
    show ?thesis
      by (rule moves [where f = "\<lambda>t. t\<lparr>tk_stage := Deactivating\<rparr>"]) (use step h Unindexing in \<open>auto simp: task_step_def Let_def\<close>)
  next
    case Deactivating
    show ?thesis
      by (rule moves [where f = "\<lambda>t. t\<lparr>tk_stage := Ended\<rparr>"]) (use step h Deactivating in \<open>auto simp: task_step_def Let_def\<close>)
  next
    case Ended
    then show ?thesis using step h by (simp add: task_step_def Let_def)
  qed
qed

lemma handle_request_tracked:
  assumes inv: "tracked s" and reading: "sv_conn s c = Reading"
  shows "tracked (handle_request c sent payload s)"
proof -
  have idle: "tracked (set_conn c st (deliver b c x s))" if "st = Reading \<or> st = ConnFailed" for st b x
    using that reading by (intro tracked_step [OF inv]) (auto simp: account_defs intro!: grows_same split: if_splits)
  have refused: "tracked (deliver b c x s)" for b x
    by (intro tracked_step [OF inv]) (auto simp: account_defs intro!: grows_same)
  let ?r = "xr_request_id payload" and ?n = "length (sv_tasks s)"
  let ?t = "\<lparr> tk_conn = c, tk_request = payload, tk_stage = Executing, tk_completed = False, tk_aborted = False \<rparr>"
  let ?s = "set_conn c (Listing ?r (xr_job_id payload) ?n) (set_active c (insert ?r (sv_active s c)) (s\<lparr>sv_tasks := sv_tasks s @ [?t]\<rparr>))"
  have grows: "grows s ?s" by (simp add: grows_def nth_append)
  have "tracked ?s"
  proof (rule tracked_step [OF inv grows])
    show "accounted ?s k" if "k < length (sv_tasks ?s)" "running ?s k"
      "k < length (sv_tasks s) \<Longrightarrow> running s k \<Longrightarrow> accounted s k" for k
    proof (cases "k = ?n")
      case True
      then show ?thesis by (simp add: account_defs nth_append)
    next
      case False
      then have k: "k < length (sv_tasks s)" "sv_tasks ?s ! k = sv_tasks s ! k" using that(1) by (simp_all add: nth_append)
      have more: "knows st (insert ?r A) q" if "knows st A q" for st A q using that by (cases st) simp_all
      have "accounted s k" using that(2,3) k by simp
      then show ?thesis using k(2) reading by (auto simp: account_defs)
    qed
  qed (auto simp: nth_append)
  then show ?thesis using idle refused by (simp add: handle_request_def Let_def)
qed

lemma end_of_stream_tracked:
  assumes inv: "tracked s" and guard: "sv_conn s c = Reading" "set ids = sv_active s c"
  shows "tracked (set_conn c (Draining ids) (set_active c {} s))" (is "tracked ?s")
proof (rule tracked_step [OF inv])
  show "accounted ?s k" if "k < length (sv_tasks ?s)" "running ?s k"
    "k < length (sv_tasks s) \<Longrightarrow> running s k \<Longrightarrow> accounted s k" for k
    using that guard(1) by (cases "tk_conn (sv_tasks s ! k) = c") (simp_all add: account_defs guard(2))
qed (auto intro!: grows_same split: if_splits)

lemma quiet_tracked:
  assumes inv: "tracked s" and same: "sv_tasks s' = sv_tasks s" "sv_in_flight s' = sv_in_flight s" "sv_active s' = sv_active s"
    and conn: "sv_conn s' = (sv_conn s)(c := st)"
    and old: "sv_conn s c \<in> {NotYet, Reading}" and new: "st \<in> {Reading, ConnFailed} \<or> (\<exists>j ids. st = Cancelling j ids)"
  shows "tracked s'"
proof (rule tracked_step [OF inv])
  show "accounted s' k" if "k < length (sv_tasks s')" "running s' k"
    "k < length (sv_tasks s) \<Longrightarrow> running s k \<Longrightarrow> accounted s k" for k
    using that old new by (cases "tk_conn (sv_tasks s ! k) = c") (auto simp: account_defs same conn)
qed (use new in \<open>auto simp: same conn intro!: grows_same split: if_splits\<close>)

lemma server_next_tracked:
  assumes inv: "tracked s" and fresh: "fresh_requests s" and step: "server_next reg ev s = Some s'"
  shows "tracked s'"
proof (cases ev)
  case (Accept c)
  show ?thesis
    by (rule quiet_tracked [OF inv, of _ c Reading]) (use step Accept in \<open>auto simp: server_next_def split: if_splits\<close>)
next
  case (Message c sent ids m)
  have reading: "sv_conn s c = Reading" using step Message by (simp add: server_next_def split: if_splits)
  show ?thesis
  proof (cases m)
    case (MRequest payload)
    then show ?thesis using step Message reading handle_request_tracked [OF inv reading] by (auto simp: server_next_def)
  next
    case (MResponse x)
    then show ?thesis
      using step Message reading by (intro quiet_tracked [OF inv, of _ c Reading]) (auto simp: server_next_def)
  next
    case (MCancel payload)
    then have s': "s' = handle_cancel c ids payload s"
      using step Message reading by (simp add: server_next_def split: if_splits)
    show ?thesis
    proof (cases "cr_protocol_version payload = PROTOCOL_VERSION")
      case True
      then show ?thesis
        using reading by (intro quiet_tracked [OF inv, of _ c "Cancelling (cr_job_id payload) ids"]) (simp_all add: s' handle_cancel_def)
    next
      case False
      then show ?thesis using inv by (simp add: s' handle_cancel_def)
    qed
  qed
next
  case (EndOfStream c ids)
  then show ?thesis
    using step end_of_stream_tracked [OF inv] by (auto simp: server_next_def split: if_splits)
next
  case (ReadError c)
  show ?thesis
    by (rule quiet_tracked [OF inv, of _ c ConnFailed]) (use step ReadError in \<open>auto simp: server_next_def split: if_splits\<close>)
next
  case (TaskStops h)
  have h: "h < length (sv_tasks s)" using step TaskStops by (simp add: server_next_def split: if_splits)
  show ?thesis
    by (rule task_moves_tracked [OF inv fresh h, where f = "\<lambda>t. t\<lparr>tk_stage := Ended\<rparr>"])
      (use step TaskStops in \<open>auto simp: server_next_def split: if_splits\<close>)
qed (use step in \<open>auto simp: server_next_def intro: list_step_tracked [OF inv fresh] cancel_step_tracked [OF inv fresh]
    drain_step_tracked [OF inv fresh] task_step_tracked [OF inv fresh]\<close>)

section \<open>Runs\<close>

lemma map_upd_same: "f v = f (xs ! k) \<Longrightarrow> map f (xs[k := v]) = map f xs"
  by (cases "k < length xs") (simp_all add: map_update list_update_same_conv list_update_beyond)

lemma requests_grow:
  assumes "server_next reg ev s = Some s'"
  shows "\<exists>ts. map tk_request (sv_tasks s') = map tk_request (sv_tasks s) @ ts"
  using assms unfolding server_next_def list_step_def cancel_step_def drain_step_def task_step_def handle_request_def
    handle_cancel_def abort_def Let_def
  by (auto simp: map_upd_same split: event.splits RunnerMessage.splits if_splits conn_stage.splits list.splits option.splits
      task_stage.splits)

lemma server_next_fresh:
  assumes "server_next reg ev s = Some s'" "fresh_requests s'"
  shows "fresh_requests s"
proof -
  obtain ts where "map tk_request (sv_tasks s') = map tk_request (sv_tasks s) @ ts"
    using requests_grow [OF assms(1)] by blast
  then have "map xr_request_id (map tk_request (sv_tasks s'))
      = map xr_request_id (map tk_request (sv_tasks s)) @ map xr_request_id ts"
    by (simp only: map_append)
  then show ?thesis using assms(2) by (simp add: fresh_requests_def comp_def)
qed

lemma server_next_bounded:
  assumes "bounded s" "server_next reg ev s = Some s'"
  shows "bounded s'"
proof -
  have less: "finite (A - {r}) \<and> card (A - {r}) \<le> n" if "finite A" "card A \<le> n" for A :: "string set" and r n
    using that card_Diff1_le [of A r] by simp
  have more: "card (insert r A) \<le> n" if "finite A" "card A < n" for A :: "string set" and r n
    using that by (simp add: card_insert_if)
  show ?thesis
    using assms unfolding bounded_def server_next_def list_step_def cancel_step_def drain_step_def task_step_def
      handle_request_def handle_cancel_def abort_def Let_def
    by (auto simp: less more split: event.splits RunnerMessage.splits if_splits conn_stage.splits list.splits option.splits
        task_stage.splits)
qed

lemma server_run_inv:
  "server_run reg evs s = Some s' \<Longrightarrow> bounded s \<Longrightarrow> bounded s'"
  "server_run reg evs s = Some s' \<Longrightarrow> fresh_requests s' \<Longrightarrow> fresh_requests s"
  "server_run reg evs s = Some s' \<Longrightarrow> fresh_requests s' \<Longrightarrow> tracked s \<Longrightarrow> tracked s'"
proof -
  show bounded: "server_run reg evs s = Some s' \<Longrightarrow> bounded s \<Longrightarrow> bounded s'" for evs s
    by (induction evs arbitrary: s) (auto simp: bind_eq_Some_conv dest: server_next_bounded)
  show fresh: "server_run reg evs s = Some s' \<Longrightarrow> fresh_requests s' \<Longrightarrow> fresh_requests s" for evs s
    by (induction evs arbitrary: s) (auto simp: bind_eq_Some_conv dest: server_next_fresh)
  show "server_run reg evs s = Some s' \<Longrightarrow> fresh_requests s' \<Longrightarrow> tracked s \<Longrightarrow> tracked s'"
  proof (induction evs arbitrary: s)
    case (Cons ev evs)
    obtain s1 where s1: "server_next reg ev s = Some s1" "server_run reg evs s1 = Some s'"
      using Cons.prems(1) by (auto simp: bind_eq_Some_conv)
    have "fresh_requests s" by (rule server_next_fresh [OF s1(1) fresh [OF s1(2) Cons.prems(2)]])
    then show ?case
      using Cons.IH [OF s1(2) Cons.prems(2)] server_next_tracked [OF Cons.prems(3) _ s1(1)] by blast
  qed simp
qed

lemma server_init_inv [simp]: "bounded server_init" "tracked server_init"
  by (simp_all add: bounded_def tracked_def entries_ok_def server_init_def)

section \<open>How many requests a connection has\<close>

fun drained :: "conn_stage \<Rightarrow> string list" where
  "drained (Draining ids) = ids"
| "drained (DrainIndex _ _ ids) = ids"
| "drained _ = []"

definition drains_bounded :: "server \<Rightarrow> bool" where
  "drains_bounded s \<longleftrightarrow> (\<forall>c. length (drained (sv_conn s c)) \<le> RESPONSE_CHANNEL_CAPACITY)"

lemma server_next_drains:
  assumes "bounded s" "drains_bounded s" "server_next reg ev s = Some s'"
  shows "drains_bounded s'"
proof -
  have drain: "length ids \<le> RESPONSE_CHANNEL_CAPACITY" if "distinct ids" "set ids = sv_active s c" for ids c
    using assms(1) that by (metis bounded_def distinct_card)
  have old: "Suc (length ids) \<le> RESPONSE_CHANNEL_CAPACITY" if "sv_conn s c = Draining (r # ids)" for c r ids
    using assms(2) that by (auto simp: drains_bounded_def dest: spec [of _ c])
  have old': "length ids \<le> RESPONSE_CHANNEL_CAPACITY" if "sv_conn s c = DrainIndex r t ids" for c r t ids
    using assms(2) that by (auto simp: drains_bounded_def dest: spec [of _ c])
  show ?thesis
    using assms(2,3) unfolding drains_bounded_def server_next_def list_step_def cancel_step_def drain_step_def task_step_def
      handle_request_def handle_cancel_def abort_def Let_def
    by (auto simp: drain old' dest: old Suc_leD split: event.splits RunnerMessage.splits if_splits conn_stage.splits list.splits
        option.splits task_stage.splits)
qed

lemma server_run_drains:
  "server_run reg evs s = Some s' \<Longrightarrow> bounded s \<Longrightarrow> drains_bounded s \<Longrightarrow> drains_bounded s'"
  by (induction evs arbitrary: s)
    (auto simp: bind_eq_Some_conv dest: server_next_bounded server_next_drains)

text \<open>The requests that are being executed for a connection are among those it knows, under different ids.\<close>

lemma known_few:
  assumes "bounded s" "drains_bounded s"
  shows "finite {r. knows (sv_conn s c) (sv_active s c) r}
    \<and> card {r. knows (sv_conn s c) (sv_active s c) r} \<le> RESPONSE_CHANNEL_CAPACITY"
proof -
  have active: "finite (sv_active s c)" "card (sv_active s c) \<le> RESPONSE_CHANNEL_CAPACITY"
    using assms(1) by (simp_all add: bounded_def)
  have "length (drained (sv_conn s c)) \<le> RESPONSE_CHANNEL_CAPACITY" using assms(2) by (simp add: drains_bounded_def)
  then show ?thesis
    using active card_length [of "drained (sv_conn s c)"] by (cases "sv_conn s c") auto
qed

lemma running_few:
  assumes inv: "tracked s" "bounded s" "drains_bounded s" and fresh: "fresh_requests s"
  shows "card {h. h < length (sv_tasks s) \<and> tk_conn (sv_tasks s ! h) = c \<and> running s h} \<le> RESPONSE_CHANNEL_CAPACITY"
    (is "card ?H \<le> _")
proof -
  have "inj_on (request_of s) ?H"
    by (rule inj_onI) (rule fresh_same [OF fresh], simp_all)
  moreover have "request_of s ` ?H \<subseteq> {r. knows (sv_conn s c) (sv_active s c) r}"
    using trackedD(3) [OF inv(1)] by (auto simp: accounted_def Let_def)
  ultimately show ?thesis
    using known_few [OF inv(2,3), of c] by (meson card_inj_on_le order_trans)
qed

end
