(* ===== verification/Runtime_Properties.thy ===== *)
theory Runtime_Properties
  imports Runtime_Facts
begin

text \<open>
  What the runner guarantees of its requests, where its bookkeeping falls short, and that the two parsers of a
  TCP endpoint agree.
\<close>

section \<open>Requests\<close>

text \<open>C38. As long as no two requests have the same id, the runner keeps track of the requests it executes, in every
  state it reaches, those of connections that have failed included. A request that is being executed and has not been
  aborted is found through the tasks in flight, under its id and its connection, from the moment the reader of the
  connection has listed it there, which is the first thing it does after spawning the task; its connection has been
  opened and is not closed; and there are at most 64 such requests of the same connection.\<close>

theorem server_keeps_track:
  assumes run: "server_run reg evs server_init = Some s" and fresh: "fresh_requests s"
    and task: "h < length (sv_tasks s)" "tk_stage (sv_tasks s ! h) = Executing" "\<not> tk_aborted (sv_tasks s ! h)"
  shows "let t = sv_tasks s ! h; c = tk_conn t; r = xr_request_id (tk_request t) in
      card {k. k < length (sv_tasks s) \<and> tk_conn (sv_tasks s ! k) = c
          \<and> tk_stage (sv_tasks s ! k) = Executing \<and> \<not> tk_aborted (sv_tasks s ! k)} \<le> RESPONSE_CHANNEL_CAPACITY
    \<and> card (sv_active s c) \<le> RESPONSE_CHANNEL_CAPACITY \<and> sv_conn s c \<noteq> ConnClosed \<and> sv_conn s c \<noteq> NotYet
    \<and> ((\<exists>e. sv_in_flight s r = Some e \<and> ft_handle e = h \<and> ft_conn e = c) \<or> (\<exists>j. sv_conn s c = Listing r j h))"
proof -
  let ?c = "tk_conn (sv_tasks s ! h)"
  have inv: "tracked s" by (rule server_run_inv(3) [OF run fresh server_init_inv(2)])
  have bound: "bounded s" by (rule server_run_inv(1) [OF run server_init_inv(1)])
  have drains: "drains_bounded s"
    by (rule server_run_drains [OF run server_init_inv(1)]) (simp add: drains_bounded_def server_init_def)
  have acc: "accounted s h" using trackedD(3) [OF inv task(1)] task by simp
  have "card (sv_active s ?c) \<le> RESPONSE_CHANNEL_CAPACITY" using bound by (simp add: bounded_def)
  moreover have "sv_conn s ?c \<noteq> ConnClosed" "sv_conn s ?c \<noteq> NotYet" using acc by (auto simp: accounted_def)
  moreover have "\<exists>j. sv_conn s ?c = Listing (request_of s h) j h" if "lists_now (sv_conn s ?c) h"
    using that trackedD(2) [OF inv, of ?c] by (cases "sv_conn s ?c") simp_all
  moreover have "\<exists>e. sv_in_flight s (request_of s h) = Some e \<and> ft_handle e = h \<and> ft_conn e = ?c" if "listed s h"
  proof -
    from that obtain e where e: "sv_in_flight s (request_of s h) = Some e" "ft_handle e = h" by (auto simp: listed_def)
    then show ?thesis using trackedD(1) [OF inv e(1)] by auto
  qed
  ultimately show ?thesis
    using acc running_few [OF inv bound drains fresh, of ?c] by (auto simp: accounted_def Let_def)
qed

definition sample_request :: "string \<Rightarrow> string \<Rightarrow> ExecutionRequest" where
  "sample_request r j = \<lparr> xr_protocol_version = ''2'', xr_request_id = r, xr_job_id = j, xr_function_name = ''f'',
     xr_params = [], xr_context = \<lparr> xc_job_id = j, xc_attempt = 1, xc_enqueue_time = 0, xc_queue_name = ''q'',
       xc_deadline = None, xc_trace_context = None, xc_correlation_context = None, xc_worker_id = None \<rparr> \<rparr>"

lemma sample_request_sel [simp]:
  "xr_protocol_version (sample_request r j) = PROTOCOL_VERSION" "xr_request_id (sample_request r j) = r"
  "xr_job_id (sample_request r j) = j"
  by (simp_all add: sample_request_def PROTOCOL_VERSION_def)

lemmas server_steps = server_next_def handle_request_def list_step_def task_step_def cancel_step_def drain_step_def
  handle_cancel_def cancel_ids_ok_def server_init_def abort_def upd_task_def set_conn_def set_active_def deliver_def
  index_request_def unindex_request_def RESPONSE_CHANNEL_CAPACITY_def Let_def

text \<open>Here the connection has failed while the request is being executed.\<close>

theorem server_keeps_track_witness:
  "\<exists>s. server_run registry_new [Accept 0, Message 0 True [] (MRequest (sample_request ''r'' ''j'')), ListStep 0, ListStep 0,
      ReadError 0] server_init = Some s \<and> sv_conn s 0 = ConnFailed \<and> (\<exists>e. sv_in_flight s ''r'' = Some e \<and> ft_handle e = 0)"
proof -
  obtain s where run: "server_run registry_new [Accept 0, Message 0 True [] (MRequest (sample_request ''r'' ''j'')),
      ListStep 0, ListStep 0, ReadError 0] server_init = Some s"
    and s: "sv_conn s 0 = ConnFailed" "sv_tasks s = [\<lparr> tk_conn = 0, tk_request = sample_request ''r'' ''j'', tk_stage = Executing,
      tk_completed = False, tk_aborted = False \<rparr>]"
    by (simp add: server_steps)
  have "\<exists>e. sv_in_flight s ''r'' = Some e \<and> ft_handle e = 0"
    using server_keeps_track [OF run, of 0] s by (auto simp: fresh_requests_def Let_def)
  then show ?thesis using run s(1) by blast
qed

section \<open>Where the bookkeeping falls short\<close>



text \<open>A request that is cancelled while its handler returns is answered twice: the cancellation is announced, and the
  task, which is past its last point of suspension, sends the outcome all the same.\<close>

lemma request_answered_twice:
  fixes payload :: ExecutionRequest
  assumes version: "xr_protocol_version payload = PROTOCOL_VERSION"
  shows "\<exists>evs s. server_run reg evs server_init = Some s
    \<and> sv_sent s = [(0, execute_with_deadline reg 0 payload), (0, cancelled_outcome (xr_job_id payload) (xr_request_id payload))]"
  by (rule exI [of _ "[Accept 0, Message 0 True [] (MRequest payload), ListStep 0, ListStep 0,
        Message 0 True [xr_request_id payload] (MCancel \<lparr> cr_protocol_version = PROTOCOL_VERSION,
          cr_job_id = xr_job_id payload, cr_request_id = Some (xr_request_id payload), cr_hard_kill = False \<rparr>),
        CancelStep 0 True, TaskStep 0 0 True, TaskStep 0 0 True, CancelStep 0 True, CancelStep 0 True]"])
    (simp add: server_steps version)

text \<open>An error while reading, a reset connection or a malformed frame, ends the handler of the connection before it
  reaches its cleanup: the requests of the connection go on.\<close>

lemma read_error_abandons_requests:
  fixes payload :: ExecutionRequest
  assumes version: "xr_protocol_version payload = PROTOCOL_VERSION"
  shows "\<exists>evs s. server_run reg evs server_init = Some s \<and> sv_conn s 0 = ConnFailed
    \<and> tk_stage (sv_tasks s ! 0) = Executing \<and> \<not> tk_aborted (sv_tasks s ! 0)"
  by (rule exI [of _ "[Accept 0, Message 0 True [] (MRequest payload), ListStep 0, ListStep 0, ReadError 0]"])
    (simp add: server_steps version)

section \<open>Endpoints\<close>

lemma runner_split_agrees:
  "(case runner_split_host_port raw of Inl _ \<Rightarrow> None | Inr hp \<Rightarrow> Some hp)
     = (case split_host_port raw of Inl _ \<Rightarrow> None | Inr hp \<Rightarrow> Some hp)"
  by (auto simp: runner_split_host_port_def split_host_port_def split: list.splits option.splits prod.splits if_splits)

text \<open>C40. The runner and the orchestrator agree on every endpoint: the runner accepts a text exactly when the settings do,
  without an allowlist, and both read the same address and port from it.\<close>

theorem runner_parse_tcp_socket_agrees:
  "(case runner_parse_tcp_socket raw of Inl _ \<Rightarrow> None | Inr a \<Rightarrow> Some a)
     = (case parse_tcp_socket resolve raw of Inl _ \<Rightarrow> None | Inr spec \<Rightarrow> Some (spec_host spec, spec_port spec))"
proof -
  have "(case runner_split_host_port (trim raw) of Inl _ \<Rightarrow> None | Inr hp \<Rightarrow> Some hp)
     = (case split_host_port (trim raw) of Inl _ \<Rightarrow> None | Inr hp \<Rightarrow> Some hp)"
    by (rule runner_split_agrees)
  then show ?thesis
    by (auto simp: runner_parse_tcp_socket_def parse_tcp_socket_def parse_tcp_socket_with_allowed_hosts_def
        resolve_host_def Let_def split: sum.splits option.splits prod.splits)
qed

end
