(* ===== verification/Pool.thy ===== *)
theory Pool
  imports Config Protocol
begin

text \<open>
  The configuration of the runner pools on the orchestrator's side (\<open>orchestrator/src/runner.rs\<close>): the limits and
  delays, the form the output of a runner is logged in, which runners a set of queues needs, and the checks a
  pool passes before it is started. An \<open>f64\<close> of seconds is not rounded to nanoseconds; \<open>u32\<close> additions wrap.
\<close>

section \<open>Limits and delays\<close>

definition MAX_IN_FLIGHT_PER_CONNECTION_LIMIT :: nat where "MAX_IN_FLIGHT_PER_CONNECTION_LIMIT = 64"
definition REUSE_SOCKET_MAX_ATTEMPTS :: nat where "REUSE_SOCKET_MAX_ATTEMPTS = 5"
definition SPAWN_RETRY_BASE_DELAY :: nat where "SPAWN_RETRY_BASE_DELAY = 100"
definition SPAWN_RETRY_MAX_DELAY :: nat where "SPAWN_RETRY_MAX_DELAY = 2000"
definition DEFAULT_RUNNER_CONNECT_TIMEOUT_MS :: int where "DEFAULT_RUNNER_CONNECT_TIMEOUT_MS = 15000"

definition connect_timeout_from_settings :: "int \<Rightarrow> int" where
  "connect_timeout_from_settings timeout_ms =
     (if 0 < timeout_ms then timeout_ms else DEFAULT_RUNNER_CONNECT_TIMEOUT_MS)"

text \<open>In seconds; \<open>Duration::MAX\<close> is just under \<open>2 ^ 64\<close>.\<close>

definition DURATION_MAX :: rat where "DURATION_MAX = 18446744073709551616 - 1 / 1000000000"

definition shutdown_term_grace_from_settings :: "f64 \<Rightarrow> rat" where
  "shutdown_term_grace_from_settings timeout_seconds =
     (case timeout_seconds of
        Finite x \<Rightarrow> if 0 < x then (if x < 18446744073709551616 then x else DURATION_MAX) else 0
      | _ \<Rightarrow> 0)"

definition validate_max_in_flight_limit :: "nat \<Rightarrow> string \<Rightarrow> error + unit" where
  "validate_max_in_flight_limit max_in_flight runner_name =
     (if max_in_flight = 0 then Inl (Bail (''max_in_flight must be positive for runner '' @ quoted runner_name))
      else if MAX_IN_FLIGHT_PER_CONNECTION_LIMIT < max_in_flight
      then Inl (Bail (''max_in_flight must be <= 64 for runner '' @ quoted runner_name))
      else Inr ())"

definition is_response_timeout_error :: "error \<Rightarrow> bool" where
  "is_response_timeout_error err = str_contains (err_text err) ''runner response timeout''"

definition spawn_retry_delay :: "nat \<Rightarrow> nat" where
  "spawn_retry_delay attempt_no =
     (let factor = 2 ^ min (attempt_no - 1) 10 in min (SPAWN_RETRY_BASE_DELAY * factor) SPAWN_RETRY_MAX_DELAY)"

definition runner_tcp_socket_from_host_port :: "string \<Rightarrow> nat \<Rightarrow> string" where
  "runner_tcp_socket_from_host_port host port =
     (if CHR '':'' \<in> set host \<and> \<not> starts_with host ''['' \<and> \<not> (host \<noteq> [] \<and> last host = CHR '']'')
      then ''['' @ host @ '']:'' @ show_nat port
      else host @ '':'' @ show_nat port)"

definition normalize_managed_tcp_host :: "string option \<Rightarrow> string" where
  "normalize_managed_tcp_host configured_host = ''127.0.0.1''"

section \<open>The output of a runner\<close>

datatype RunnerLogStream = Stdout | Stderr

definition stream_as_str :: "RunnerLogStream \<Rightarrow> string" where
  "stream_as_str s = (case s of Stdout \<Rightarrow> ''stdout'' | Stderr \<Rightarrow> ''stderr'')"

definition stream_default_level :: "RunnerLogStream \<Rightarrow> string" where
  "stream_default_level s = (case s of Stdout \<Rightarrow> ''INFO'' | Stderr \<Rightarrow> ''ERROR'')"

definition or_insert :: "string \<Rightarrow> json \<Rightarrow> params \<Rightarrow> params" where
  "or_insert k v m = (if map_of m k = None then m @ [(k, v)] else m)"

definition build_runner_event_json :: "codec \<Rightarrow> string \<Rightarrow> RunnerLogStream \<Rightarrow> string \<Rightarrow> datetime \<Rightarrow> json" where
  "build_runner_event_json C runner stream line now =
     (let event = (case json_parse C line of Some (JObj object) \<Rightarrow> object | _ \<Rightarrow> [(''message'', JStr line)]);
          event1 = or_insert ''timestamp'' (JStr (to_rfc3339 C now)) event;
          event2 = or_insert ''level'' (JStr (stream_default_level stream)) event1
      in JObj (minsert ''rrq.source'' (JStr ''runner'')
           (minsert ''rrq.stream'' (JStr (stream_as_str stream)) (minsert ''rrq.runner'' (JStr runner) event2))))"

section \<open>Which runners, with which limits\<close>

definition route_of :: "strmap \<Rightarrow> string \<Rightarrow> string option" where
  "route_of routes queue =
     (case map_of routes queue of
        Some r \<Rightarrow> Some r | None \<Rightarrow> Option.bind (strip_prefix queue QUEUE_KEY_PREFIX) (map_of routes))"

definition effective_queues :: "RRQSettings \<Rightarrow> string list option \<Rightarrow> string list" where
  "effective_queues settings queues =
     (case queues of
        Some (q # qs) \<Rightarrow> map normalize_queue_name (q # qs)
      | _ \<Rightarrow> [normalize_queue_name (default_queue_name settings)])"

definition determine_needed_runners :: "RRQSettings \<Rightarrow> string list option \<Rightarrow> string set" where
  "determine_needed_runners settings queues =
     (let qs = effective_queues settings queues;
          routed = set (List.map_filter (route_of (runner_routes settings)) qs);
          needs_default_runner = list_ex (\<lambda>q. route_of (runner_routes settings) q = None) qs
      in if needs_default_runner \<and> default_runner_name settings \<noteq> []
         then insert (default_runner_name settings) routed else routed)"

fun resolve_each :: "(string \<times> RunnerConfig \<Rightarrow> error + 'a) \<Rightarrow> (string \<times> RunnerConfig) list \<Rightarrow> error + (string \<times> 'a) list" where
  "resolve_each f [] = Inr []"
| "resolve_each f (r # rs) =
     (case f r of Inl e \<Rightarrow> Inl e
      | Inr x \<Rightarrow> (case resolve_each f rs of Inl e \<Rightarrow> Inl e | Inr xs \<Rightarrow> Inr ((fst r, x) # xs)))"

text \<open>\<open>cpus\<close> is \<open>num_cpus::get()\<close>.\<close>

definition resolve_runner_pool_sizes :: "nat \<Rightarrow> RRQSettings \<Rightarrow> bool \<Rightarrow> nat option \<Rightarrow> error + (string \<times> nat) list" where
  "resolve_runner_pool_sizes cpus settings watch_mode default_pool_size =
     resolve_each (\<lambda>(name, config).
       let configured = (if watch_mode then 1 else or_default (rc_pool_size config) (or_default default_pool_size cpus));
           pool_size = (if runner_management_mode settings = External \<and> configured \<noteq> 1 then 1 else configured)
       in if pool_size = 0 then Inl (Bail (''pool_size must be positive for runner '' @ quoted name)) else Inr pool_size)
       (runners settings)"

definition resolve_runner_max_in_flight :: "RRQSettings \<Rightarrow> bool \<Rightarrow> error + (string \<times> nat) list" where
  "resolve_runner_max_in_flight settings watch_mode =
     resolve_each (\<lambda>(name, config).
       let limit = (if watch_mode then 1 else or_default (rc_max_in_flight config) 1)
       in case validate_max_in_flight_limit limit name of Inl e \<Rightarrow> Inl e | Inr _ \<Rightarrow> Inr limit)
       (runners settings)"

section \<open>Pools\<close>

record SocketRunnerPool =
  sp_name :: string
  sp_cmd :: "string list"
  sp_pool_size :: nat
  sp_max_in_flight :: nat
  sp_env :: "strmap option"
  sp_cwd :: "string option"
  sp_tcp_socket :: TcpSocketSpec
  sp_response_timeout :: "rat option"
  sp_connect_timeout :: int
  sp_shutdown_term_grace :: rat
  sp_capture_output :: bool

definition is_external_mode :: "SocketRunnerPool \<Rightarrow> bool" where
  "is_external_mode pool \<longleftrightarrow> sp_cmd pool = []"

text \<open>The checks of \<open>SocketRunnerPool::new\<close> before it starts the pool.\<close>

definition new_pool ::
  "(string \<Rightarrow> nat \<Rightarrow> IpAddr list option) \<Rightarrow> string \<Rightarrow> string list \<Rightarrow> nat \<Rightarrow> nat \<Rightarrow> strmap option \<Rightarrow> string option
    \<Rightarrow> string option \<Rightarrow> string list option \<Rightarrow> rat option \<Rightarrow> int \<Rightarrow> rat \<Rightarrow> bool \<Rightarrow> error + SocketRunnerPool" where
  "new_pool resolve name cmd pool_size max_in_flight env cwd tcp_socket allowed_hosts response_timeout
       connect_timeout grace capture =
     (if pool_size = 0 then Inl (Bail ''pool_size must be positive'')
      else case validate_max_in_flight_limit max_in_flight name of Inl e \<Rightarrow> Inl e
      | Inr _ \<Rightarrow>
      (case tcp_socket of None \<Rightarrow> Inl (Bail ''runner tcp_socket is required (unix sockets are not supported)'')
      | Some raw \<Rightarrow>
      (case parse_tcp_socket_with_allowed_hosts resolve raw (or_default allowed_hosts []) of Inl e \<Rightarrow> Inl e
      | Inr spec \<Rightarrow>
          let span = (of_nat pool_size :: 32 word);
              max_port = of_nat (spec_port spec) + (if span = 0 then 0 else span - 1)
          in if (65535 :: 32 word) < max_port
             then Inl (Bail ''runner tcp_socket range too small for pool_size'')
             else Inr \<lparr> sp_name = name, sp_cmd = cmd, sp_pool_size = pool_size, sp_max_in_flight = max_in_flight,
                        sp_env = env, sp_cwd = cwd, sp_tcp_socket = spec, sp_response_timeout = response_timeout,
                        sp_connect_timeout = connect_timeout, sp_shutdown_term_grace = grace,
                        sp_capture_output = capture \<rparr>)))"

record SocketRunner =
  sr_pool :: SocketRunnerPool
  sr_send_cancel_hints :: bool

text \<open>\<open>SocketRunner::new\<close>; \<open>Duration::from_secs_f64\<close> panics for a negative number and for one that is too large.\<close>

definition runner_new ::
  "(string \<Rightarrow> nat \<Rightarrow> IpAddr list option) \<Rightarrow> string \<Rightarrow> string list \<Rightarrow> nat \<Rightarrow> nat \<Rightarrow> strmap option \<Rightarrow> string option
    \<Rightarrow> string option \<Rightarrow> string list option \<Rightarrow> rat option \<Rightarrow> int \<Rightarrow> rat \<Rightarrow> bool \<Rightarrow> bool \<Rightarrow> SocketRunner res" where
  "runner_new resolve name cmd pool_size max_in_flight env cwd tcp_socket allowed_hosts response_timeout_seconds
       connect_timeout grace send_cancel_hints capture =
     (if (case response_timeout_seconds of Some t \<Rightarrow> t < 0 \<or> 18446744073709551616 \<le> t | None \<Rightarrow> False)
      then Panic ''Duration::from_secs_f64''
      else case new_pool resolve name cmd pool_size max_in_flight env cwd tcp_socket allowed_hosts
                  response_timeout_seconds connect_timeout grace capture of
        Inl e \<Rightarrow> Err e
      | Inr pool \<Rightarrow> Ok \<lparr> sr_pool = pool, sr_send_cancel_hints = send_cancel_hints \<rparr>)"

text \<open>The body of the loop over the runners of the settings.\<close>

definition runner_from_config ::
  "(string \<Rightarrow> nat \<Rightarrow> IpAddr list option) \<Rightarrow> RRQSettings \<Rightarrow> (string \<times> nat) list \<Rightarrow> (string \<times> nat) list
    \<Rightarrow> string \<Rightarrow> RunnerConfig \<Rightarrow> SocketRunner res" where
  "runner_from_config resolve settings pool_sizes max_in_flight name config =
     (let external_mode = runner_management_mode settings = External in
      case map_of pool_sizes name of None \<Rightarrow> Err (Bail (''missing pool size for runner '' @ quoted name))
      | Some configured_pool_size \<Rightarrow>
        (case map_of max_in_flight name of None \<Rightarrow> Err (Bail (''missing max_in_flight for runner '' @ quoted name))
         | Some limit \<Rightarrow>
           let pool_size = (if external_mode then 1 else configured_pool_size);
               cmd = (if external_mode then [] else or_default (rc_cmd config) [])
           in if \<not> external_mode \<and> cmd = [] then Err (Bail (''cmd must not be empty for runner '' @ quoted name))
              else case rc_tcp_port config of
                None \<Rightarrow> Err (Bail (''runner '' @ quoted name @ '' is missing required field '' @ quoted ''tcp_port''))
              | Some port \<Rightarrow>
                  let host = (if external_mode then runner_tcp_host_or_default (rc_tcp_host config)
                              else normalize_managed_tcp_host (rc_tcp_host config))
                  in runner_new resolve name cmd pool_size limit (rc_env config) (rc_cwd config)
                       (Some (runner_tcp_socket_from_host_port host port)) (rc_allowed_hosts config)
                       (rc_response_timeout_seconds config)
                       (connect_timeout_from_settings (runner_connect_timeout_ms settings))
                       (shutdown_term_grace_from_settings (runner_shutdown_term_grace_seconds settings))
                       (runner_enable_inflight_cancel_hints settings) (capture_runner_output settings)))"

text \<open>\<open>start\<close> is the start of the pool, which ends the construction when it fails.\<close>

fun build_each ::
  "(string \<Rightarrow> SocketRunner \<Rightarrow> error + unit) \<Rightarrow> (string \<Rightarrow> RunnerConfig \<Rightarrow> SocketRunner res)
    \<Rightarrow> (string \<times> RunnerConfig) list \<Rightarrow> (string \<times> SocketRunner) list res" where
  "build_each start f [] = Ok []"
| "build_each start f ((name, config) # rs) =
     (case f name config of
        Err e \<Rightarrow> Err e
      | Panic m \<Rightarrow> Panic m
      | Ok r \<Rightarrow>
          (case start name r of
             Inl e \<Rightarrow> Err e
           | Inr _ \<Rightarrow>
               (case build_each start f rs of Ok xs \<Rightarrow> Ok ((name, r) # xs) | Err e \<Rightarrow> Err e | Panic m \<Rightarrow> Panic m)))"

definition build_runners_from_settings_filtered ::
  "(string \<Rightarrow> nat \<Rightarrow> IpAddr list option) \<Rightarrow> nat \<Rightarrow> (string \<Rightarrow> SocketRunner \<Rightarrow> error + unit) \<Rightarrow> RRQSettings
    \<Rightarrow> (string \<times> nat) list option \<Rightarrow> (string \<times> nat) list option \<Rightarrow> string set option
    \<Rightarrow> (string \<times> SocketRunner) list res" where
  "build_runners_from_settings_filtered resolve cpus start settings pool_sizes0 max_in_flight0 needed_runners =
     (case (case pool_sizes0 of Some m \<Rightarrow> Inr m | None \<Rightarrow> resolve_runner_pool_sizes cpus settings False None) of
        Inl e \<Rightarrow> Err e
      | Inr pool_sizes \<Rightarrow>
      (case (case max_in_flight0 of Some m \<Rightarrow> Inr m | None \<Rightarrow> resolve_runner_max_in_flight settings False) of
        Inl e \<Rightarrow> Err e
      | Inr max_in_flight \<Rightarrow>
          build_each start (runner_from_config resolve settings pool_sizes max_in_flight)
            (filter (\<lambda>r. case needed_runners of Some needed \<Rightarrow> fst r \<in> needed | None \<Rightarrow> True) (runners settings))))"

end
