(* ===== verification/Pool_Processes.thy ===== *)
theory Pool_Processes
  imports Pool
begin

text \<open>
  The processes of a runner pool (\<open>orchestrator/src/runner.rs\<close>): how they are started, connected to, replaced and
  terminated, how one is acquired for a request, and the connection to one with the requests that wait on it.
  Processes, signals, sockets and the clock are the operating system's: what they answer are arguments, in the
  order the code asks; where a loop asks until something happens, the arguments are the list of the answers,
  and \<open>None\<close> says that the loop still asks after the last of them.
\<close>

type_synonym socket_addr = "IpAddr \<times> nat"

section \<open>The end of a child process\<close>

text \<open>One round per probe: what \<open>kill(-pgid, 0)\<close> says and whether the deadline has passed.\<close>

fun wait_for_process_group_exit :: "((error + bool) \<times> bool) list \<Rightarrow> bool option" where
  "wait_for_process_group_exit [] = None"
| "wait_for_process_group_exit ((Inr False, late) # rest) = Some True"
| "wait_for_process_group_exit ((Inl e, late) # rest) = Some False"
| "wait_for_process_group_exit ((Inr True, late) # rest) =
     (if late then Some False else wait_for_process_group_exit rest)"

datatype child_action = SigTerm | SigKill | ChildKill | ChildWait

record child_answers =
  ca_exited :: bool \<comment> \<open>\<open>try_wait\<close> at the start\<close>
  ca_has_pid :: bool
  ca_term_sent :: bool
  ca_kill_sent :: bool
  ca_leader_exits :: bool \<comment> \<open>within the grace\<close>
  ca_group_exits :: bool \<comment> \<open>the result of \<open>wait_for_process_group_exit\<close>\<close>

definition force_kill :: "child_answers \<Rightarrow> child_action list" where
  "force_kill a = [SigKill] @ (if ca_kill_sent a then [] else [ChildKill]) @ [ChildWait]"

definition terminate_child_process :: "rat \<Rightarrow> child_answers \<Rightarrow> child_action list" where
  "terminate_child_process shutdown_term_grace a =
     (if ca_exited a then []
      else if ca_has_pid a then
        [SigTerm] @
        (if \<not> ca_term_sent a then [ChildKill, ChildWait]
         else if shutdown_term_grace = 0 then force_kill a
         else [ChildWait] @ (if ca_leader_exits a \<and> ca_group_exits a then [] else force_kill a))
      else [ChildKill, ChildWait])"

section \<open>The start of a process\<close>

datatype io_error = NotFound | ConnectionRefused | ConnectionReset | OtherIo string

definition retryable_connect :: "io_error \<Rightarrow> bool" where
  "retryable_connect e \<longleftrightarrow> e \<in> {NotFound, ConnectionRefused, ConnectionReset}"

text \<open>The text of an I/O error is the operating system's.\<close>

record connect_answers =
  co_exited :: "string option" \<comment> \<open>\<open>try_wait\<close> before the attempt: the exit status\<close>
  co_late :: bool
  co_connect :: "io_error option" \<comment> \<open>\<open>None\<close>: connected\<close>
  co_exited_after :: "string option"

fun connect_socket :: "(io_error \<Rightarrow> string) \<Rightarrow> error option \<Rightarrow> connect_answers list \<Rightarrow> (error + unit) option" where
  "connect_socket io_text last_error [] = None"
| "connect_socket io_text last_error (a # rest) =
     (case co_exited a of
        Some status \<Rightarrow> Some (Inl (Bail (''runner exited before socket ready ('' @ status @ '')'')))
      | None \<Rightarrow>
          if co_late a
          then Some (Inl (Bail (''runner socket not ready: '' @
                 (case last_error of Some e \<Rightarrow> err_text e | None \<Rightarrow> ''unknown error''))))
          else (case co_connect a of
             None \<Rightarrow>
               (case co_exited_after a of
                  Some status \<Rightarrow>
                    connect_socket io_text (Some (Bail (''runner exited before socket ready ('' @ status @ '')''))) rest
                | None \<Rightarrow> Some (Inr ()))
           | Some e \<Rightarrow>
               if \<not> retryable_connect e then Some (Inl (Bail (io_text e)))
               else connect_socket io_text (Some (Bail (io_text e))) rest))"

text \<open>The delays between the attempts, in milliseconds.\<close>

definition next_connect_delay :: "nat \<Rightarrow> nat" where
  "next_connect_delay delay = min (delay * 2) 200"

text \<open>\<open>ensure_tcp_port_available\<close>: the answer to \<open>bind\<close>.\<close>

datatype bind_answer = Bound | AddrInUse | BindFails error

definition ensure_tcp_port_available :: "(socket_addr \<Rightarrow> string) \<Rightarrow> socket_addr \<Rightarrow> bind_answer \<Rightarrow> error + unit" where
  "ensure_tcp_port_available show_addr socket b =
     (case b of
        Bound \<Rightarrow> Inr ()
      | AddrInUse \<Rightarrow> Inl (Bail (''runner tcp_socket port '' @ show_addr socket @ '' is already in use''))
      | BindFails err \<Rightarrow> Inl err)"

text \<open>The port cursor only ever grows.\<close>

definition next_tcp_socket :: "SocketRunnerPool \<Rightarrow> nat \<Rightarrow> (error + socket_addr) \<times> nat" where
  "next_tcp_socket pool cursor =
     (let port = of_nat (spec_port (sp_tcp_socket pool)) + (of_nat cursor :: 32 word)
      in (if (65535 :: 32 word) < port then Inl (Bail ''runner tcp_socket port range exhausted'')
          else Inr (addr (sp_tcp_socket pool) (unat port)), cursor + 1))"

section \<open>A connection\<close>

text \<open>The requests that wait on it, and the answers they have got, in order.\<close>

record connection =
  cn_id :: nat
  cn_pending :: "string list"
  cn_closed :: bool
  cn_answers :: "(string \<times> (error + ExecutionOutcome)) list"

definition new_connection :: "nat \<Rightarrow> connection" where
  "new_connection n = \<lparr> cn_id = n, cn_pending = [], cn_closed = False, cn_answers = [] \<rparr>"

definition close_pending_with_error :: "string \<Rightarrow> connection \<Rightarrow> connection" where
  "close_pending_with_error message c =
     c\<lparr>cn_closed := True, cn_pending := [],
       cn_answers := cn_answers c @ map (\<lambda>r. (r, Inl (Bail message))) (cn_pending c)\<rparr>"

text \<open>What the reader of the connection does with what it reads; the result is whether it goes on.\<close>

definition on_response :: "ExecutionOutcome \<Rightarrow> connection \<Rightarrow> bool \<times> connection" where
  "on_response payload c =
     (case xo_request_id payload of
        None \<Rightarrow>
          (case cn_pending c of
             [] \<Rightarrow> (True, c)
           | [r] \<Rightarrow> (True, c\<lparr>cn_pending := [],
                 cn_answers := cn_answers c @
                   [(r, Inl (Bail (''runner outcome missing request_id (expected '' @ r @ '')'')))]\<rparr>)
           | _ \<Rightarrow> (False, close_pending_with_error (''runner outcome missing request_id with ''
                 @ show_nat (length (cn_pending c)) @ '' pending requests'') c))
      | Some r \<Rightarrow>
          if r \<in> set (cn_pending c)
          then (True, c\<lparr>cn_pending := filter (\<lambda>q. q \<noteq> r) (cn_pending c), cn_answers := cn_answers c @ [(r, Inr payload)]\<rparr>)
          else (True, c))"

definition on_read :: "error + RunnerMessage option \<Rightarrow> connection \<Rightarrow> bool \<times> connection" where
  "on_read m c =
     (case m of
        Inr (Some (MResponse payload)) \<Rightarrow> on_response payload c
      | Inr (Some _) \<Rightarrow> (True, c)
      | Inr None \<Rightarrow> (False, close_pending_with_error ''runner connection closed'' c)
      | Inl err \<Rightarrow> (False, close_pending_with_error (''runner connection read failed: '' @ err_text err) c))"

text \<open>The writer: \<open>None\<close> when the queue of messages has ended.\<close>

definition on_write :: "(error + unit) option \<Rightarrow> connection \<Rightarrow> bool \<times> connection" where
  "on_write w c =
     (case w of
        None \<Rightarrow> (False, close_pending_with_error ''runner connection closed'' c)
      | Some (Inl err) \<Rightarrow> (False, close_pending_with_error (''runner connection write failed: '' @ err_text err) c)
      | Some (Inr _) \<Rightarrow> (True, c))"

definition remove_pending_request :: "string \<Rightarrow> connection \<Rightarrow> bool \<times> connection" where
  "remove_pending_request request_id c =
     (request_id \<in> set (cn_pending c), c\<lparr>cn_pending := filter (\<lambda>q. q \<noteq> request_id) (cn_pending c)\<rparr>)"

text \<open>
  \<open>PersistentProcessConnection::execute\<close>: up to the wait, and what becomes of the request then. The reader may
  close the connection between the insertion and the second look at the flag.
\<close>

definition execute_begin :: "string \<Rightarrow> (connection \<Rightarrow> connection) \<Rightarrow> bool \<Rightarrow> connection \<Rightarrow> (error + unit) \<times> connection" where
  "execute_begin request_id meanwhile sent c =
     (let drop_request = (\<lambda>c. c\<lparr>cn_pending := filter (\<lambda>q. q \<noteq> request_id) (cn_pending c)\<rparr>);
          closed_error = Inl (Bail ''runner connection closed'')
      in if cn_closed c then (closed_error, c)
         else let c1 = meanwhile (c\<lparr>cn_pending := filter (\<lambda>q. q \<noteq> request_id) (cn_pending c) @ [request_id]\<rparr>)
              in if cn_closed c1 \<or> \<not> sent then (closed_error, drop_request c1) else (Inr (), c1))"

text \<open>\<open>{:?}\<close> of an \<open>Option<String>\<close>, of ASCII characters.\<close>

definition hex_digit :: "nat \<Rightarrow> char" where
  "hex_digit n = (if n < 10 then char_of (48 + n) else char_of (87 + n))"

definition debug_char :: "char \<Rightarrow> string" where
  "debug_char c =
     (if c = CHR 0x22 then [CHR 0x5C, CHR 0x22] else if c = CHR 0x5C then [CHR 0x5C, CHR 0x5C]
      else if c = CHR 0x09 then [CHR 0x5C, CHR ''t''] else if c = CHR 0x0A then [CHR 0x5C, CHR ''n'']
      else if c = CHR 0x0D then [CHR 0x5C, CHR ''r''] else if c = CHR 0x00 then [CHR 0x5C, CHR ''0'']
      else if of_char c < (16 :: nat) then [CHR 0x5C] @ ''u{'' @ [hex_digit (of_char c)] @ ''}''
      else if of_char c < (32 :: nat) then [CHR 0x5C] @ ''u{1'' @ [hex_digit (of_char c - (16 :: nat))] @ ''}''
      else if of_char c = (127 :: nat) then [CHR 0x5C] @ ''u{7f}'' else [c])"

definition debug_option :: "string option \<Rightarrow> string" where
  "debug_option v =
     (case v of None \<Rightarrow> ''None''
      | Some s \<Rightarrow> ''Some('' @ [CHR 0x22] @ concat (map debug_char s) @ [CHR 0x22] @ '')'')"

datatype wait_result = Answered "error + ExecutionOutcome" | SenderDropped | NoResponse

definition check_outcome :: "ExecutionRequest \<Rightarrow> ExecutionOutcome \<Rightarrow> error + ExecutionOutcome" where
  "check_outcome request outcome =
     (if xo_job_id outcome \<noteq> Some (xr_job_id request)
      then Inl (Bail (''runner outcome job_id mismatch (expected '' @ xr_job_id request
             @ '', got '' @ debug_option (xo_job_id outcome) @ '')''))
      else if xo_request_id outcome \<noteq> Some (xr_request_id request)
      then Inl (Bail (''runner outcome request_id mismatch (expected '' @ xr_request_id request
             @ '', got '' @ debug_option (xo_request_id outcome) @ '')''))
      else Inr outcome)"

definition execute_end :: "ExecutionRequest \<Rightarrow> wait_result \<Rightarrow> connection \<Rightarrow> (error + ExecutionOutcome) \<times> connection" where
  "execute_end request w c =
     (case w of
        Answered (Inr outcome) \<Rightarrow> (check_outcome request outcome, c)
      | Answered (Inl e) \<Rightarrow> (Inl e, c)
      | SenderDropped \<Rightarrow> (Inl (Bail ''runner connection closed''), c)
      | NoResponse \<Rightarrow> (Inl (Bail ''runner response timeout''),
                       c\<lparr>cn_pending := filter (\<lambda>q. q \<noteq> xr_request_id request) (cn_pending c)\<rparr>))"

section \<open>Processes\<close>

text \<open>
  A process is its child, by the number the operating system gave it, its endpoint, the permits it has left and
  its connection. An attempt to start one ends in \<open>start_result\<close>: the answer of \<open>ensure_tcp_port_available\<close> when
  the port is not free, that of the command, or that of \<open>connect_socket\<close>.
\<close>

record SocketProcess =
  pr_child :: "nat option"
  pr_socket :: socket_addr
  pr_permits :: nat
  pr_connection :: "connection option"

datatype start_result = PortTaken error | SpawnFails error | ConnectFails error | Started nat

type_synonym starter = "nat \<Rightarrow> socket_addr \<Rightarrow> start_result" \<comment> \<open>by the number of the attempt\<close>

definition new_process :: "SocketRunnerPool \<Rightarrow> nat option \<Rightarrow> socket_addr \<Rightarrow> SocketProcess" where
  "new_process pool child socket =
     \<lparr> pr_child = child, pr_socket = socket, pr_permits = sp_max_in_flight pool, pr_connection = None \<rparr>"

function spawn_loop ::
  "SocketRunnerPool \<Rightarrow> starter \<Rightarrow> socket_addr option \<Rightarrow> nat \<Rightarrow> nat \<Rightarrow> nat \<Rightarrow> (error + SocketProcess) \<times> nat" where
  "spawn_loop pool os reuse_socket max_attempts attempts cursor =
     (case (case reuse_socket of Some target \<Rightarrow> (Inr target, cursor) | None \<Rightarrow> next_tcp_socket pool cursor) of
        (Inl e, cursor1) \<Rightarrow> (Inl e, cursor1)
      | (Inr socket, cursor1) \<Rightarrow>
          (case os attempts socket of
             PortTaken e \<Rightarrow>
               if max_attempts \<le> attempts + 1 then (Inl e, cursor1)
               else spawn_loop pool os reuse_socket max_attempts (attempts + 1) cursor1
           | SpawnFails e \<Rightarrow> (Inl e, cursor1)
           | ConnectFails e \<Rightarrow>
               if reuse_socket \<noteq> None \<or> max_attempts \<le> attempts + 1 then (Inl e, cursor1)
               else spawn_loop pool os reuse_socket max_attempts (attempts + 1) cursor1
           | Started child \<Rightarrow> (Inr (new_process pool (Some child) socket), cursor1)))"
  by pat_completeness auto
termination
  by (relation "measure (\<lambda>(pool, os, reuse, n, k, cursor). n - k)") auto

declare spawn_loop.simps [simp del]

definition spawn_process ::
  "SocketRunnerPool \<Rightarrow> starter \<Rightarrow> socket_addr option \<Rightarrow> nat \<Rightarrow> (error + SocketProcess) \<times> nat" where
  "spawn_process pool os reuse_socket cursor =
     (if is_external_mode pool
      then (Inl (Bail ''cannot spawn process when runner_management_mode=external''), cursor)
      else spawn_loop pool os reuse_socket
             (if reuse_socket \<noteq> None then REUSE_SOCKET_MAX_ATTEMPTS else max (sp_pool_size pool) 1) 0 cursor)"

text \<open>
  \<open>os i\<close> is the system while process \<open>i\<close> is started. After a failure the pool keeps no process it has started
  itself.
\<close>

fun start_processes ::
  "SocketRunnerPool \<Rightarrow> (nat \<Rightarrow> starter) \<Rightarrow> nat \<Rightarrow> SocketProcess list \<Rightarrow> nat
    \<Rightarrow> (error + unit) \<times> SocketProcess list \<times> nat" where
  "start_processes pool os 0 procs cursor = (Inr (), procs, cursor)"
| "start_processes pool os (Suc n) procs cursor =
     (if is_external_mode pool
      then (case next_tcp_socket pool cursor of
              (Inl e, cursor1) \<Rightarrow> (Inl e, procs, cursor1)
            | (Inr socket, cursor1) \<Rightarrow> start_processes pool os n (procs @ [new_process pool None socket]) cursor1)
      else (case spawn_process pool (os (length procs)) None cursor of
              (Inl e, cursor1) \<Rightarrow> (Inl e, [], cursor1)
            | (Inr proc, cursor1) \<Rightarrow> start_processes pool os n (procs @ [proc]) cursor1))"

definition ensure_started ::
  "SocketRunnerPool \<Rightarrow> (nat \<Rightarrow> starter) \<Rightarrow> SocketProcess list \<Rightarrow> nat
    \<Rightarrow> (error + unit) \<times> SocketProcess list \<times> nat" where
  "ensure_started pool os procs cursor =
     (if procs \<noteq> [] then (Inr (), procs, cursor) else start_processes pool os (sp_pool_size pool) [] cursor)"

definition terminate_process :: "SocketProcess \<Rightarrow> SocketProcess" where
  "terminate_process proc = proc\<lparr>pr_connection := None, pr_child := None\<rparr>"

text \<open>
  The replacement for a process: at its own endpoint, or failing that at a new one (\<open>os False\<close>). A process that
  cannot be replaced stays terminated.
\<close>

definition respawn ::
  "SocketRunnerPool \<Rightarrow> (bool \<Rightarrow> starter) \<Rightarrow> SocketProcess \<Rightarrow> nat \<Rightarrow> (error + unit) \<times> SocketProcess \<times> nat" where
  "respawn pool os proc cursor =
     (if is_external_mode pool then (Inr (), proc\<lparr>pr_connection := None\<rparr>, cursor)
      else case spawn_process pool (os True) (Some (pr_socket proc)) cursor of
        (Inr replacement, cursor1) \<Rightarrow> (Inr (), replacement, cursor1)
      | (Inl _, cursor1) \<Rightarrow>
          (case spawn_process pool (os False) None cursor1 of
             (Inr replacement, cursor2) \<Rightarrow> (Inr (), replacement, cursor2)
           | (Inl e, cursor2) \<Rightarrow> (Inl e, terminate_process proc, cursor2)))"

text \<open>\<open>exited\<close> is \<open>try_wait\<close>, where a failure counts as an exit.\<close>

definition ensure_process ::
  "SocketRunnerPool \<Rightarrow> (nat \<Rightarrow> bool) \<Rightarrow> (bool \<Rightarrow> starter) \<Rightarrow> SocketProcess \<Rightarrow> nat \<Rightarrow> (error + unit) \<times> SocketProcess \<times> nat" where
  "ensure_process pool exited os proc cursor =
     (if is_external_mode pool then (Inr (), proc, cursor)
      else if (case pr_child proc of Some child \<Rightarrow> exited child | None \<Rightarrow> True)
      then respawn pool os proc cursor
      else (Inr (), proc, cursor))"

text \<open>
  One round of \<open>acquire_process\<close>: the first process from \<open>start\<close> on that has a permit left, each one being made to
  run before it is asked. \<open>Inr None\<close>: all are busy, and the code waits to be notified.
\<close>

fun acquire_round ::
  "SocketRunnerPool \<Rightarrow> (nat \<Rightarrow> bool) \<Rightarrow> (nat \<Rightarrow> bool \<Rightarrow> starter) \<Rightarrow> nat \<Rightarrow> nat list \<Rightarrow> SocketProcess list \<Rightarrow> nat
    \<Rightarrow> (error + nat option) \<times> SocketProcess list \<times> nat" where
  "acquire_round pool exited os start [] procs cursor = (Inr None, procs, cursor)"
| "acquire_round pool exited os start (offset # offsets) procs cursor =
     (let idx = (start + offset) mod length procs in
      case ensure_process pool exited (os idx) (procs ! idx) cursor of
        (Inl e, proc, cursor1) \<Rightarrow> (Inl e, procs[idx := proc], cursor1)
      | (Inr _, proc, cursor1) \<Rightarrow>
          if 0 < pr_permits proc
          then (Inr (Some idx), procs[idx := proc\<lparr>pr_permits := pr_permits proc - 1\<rparr>], cursor1)
          else acquire_round pool exited os start offsets (procs[idx := proc]) cursor1)"

definition acquire_process ::
  "SocketRunnerPool \<Rightarrow> (nat \<Rightarrow> bool) \<Rightarrow> (nat \<Rightarrow> bool \<Rightarrow> starter) \<Rightarrow> nat \<Rightarrow> SocketProcess list \<Rightarrow> nat
    \<Rightarrow> (error + nat option) \<times> SocketProcess list \<times> nat" where
  "acquire_process pool exited os start procs0 cursor0 =
     (case ensure_started pool (\<lambda>i. os i False) procs0 cursor0 of
        (Inl e, procs, cursor) \<Rightarrow> (Inl e, procs, cursor)
      | (Inr _, procs, cursor) \<Rightarrow>
          if procs = [] then (Inl (Bail ''runner pool has no processes''), [], cursor)
          else acquire_round pool exited os start [0..<length procs] procs cursor)"

text \<open>The first process at the endpoint, and the first one there that has a connection.\<close>

fun terminate_process_for_socket :: "socket_addr \<Rightarrow> SocketProcess list \<Rightarrow> SocketProcess list" where
  "terminate_process_for_socket socket [] = []"
| "terminate_process_for_socket socket (p # ps) =
     (if pr_socket p = socket then terminate_process p # ps else p # terminate_process_for_socket socket ps)"

fun remove_pending_request_for_socket :: "socket_addr \<Rightarrow> string \<Rightarrow> SocketProcess list \<Rightarrow> bool \<times> SocketProcess list" where
  "remove_pending_request_for_socket socket request_id [] = (False, [])"
| "remove_pending_request_for_socket socket request_id (p # ps) =
     (case (if pr_socket p = socket then pr_connection p else None) of
        Some c \<Rightarrow>
          (case remove_pending_request request_id c of
             (removed, c1) \<Rightarrow> (removed, p\<lparr>pr_connection := Some c1\<rparr> # ps))
      | None \<Rightarrow>
          (case remove_pending_request_for_socket socket request_id ps of (removed, ps1) \<Rightarrow> (removed, p # ps1)))"

end
