(* ===== verification/Pool_Requests.thy ===== *)
theory Pool_Requests
  imports Pool_Processes Worker
begin

text \<open>
  A request on the orchestrator's side (\<open>SocketRunner\<close> in \<open>orchestrator/src/runner.rs\<close>): the connection it is
  sent on, its entry in the map of requests in flight, and what follows when it is answered, fails, times out
  or is cancelled. The effects on the pool are the actions a function returns, in their order; \<open>apply_action\<close> is
  what an action does to the processes.
\<close>

section \<open>The connection of a process\<close>

definition usable_connection :: "SocketProcess \<Rightarrow> connection option" where
  "usable_connection proc =
     (case pr_connection proc of Some c \<Rightarrow> if cn_closed c then None else Some c | None \<Rightarrow> None)"

text \<open>Per round: the result of the attempt to connect, and the process as it is when the attempt has ended.\<close>

fun get_or_create_connection ::
  "((error + nat) \<times> SocketProcess) list \<Rightarrow> SocketProcess \<Rightarrow> ((error + socket_addr \<times> connection) \<times> SocketProcess) option" where
  "get_or_create_connection rounds proc =
     (case usable_connection proc of
        Some c \<Rightarrow> Some (Inr (pr_socket proc, c), proc)
      | None \<Rightarrow>
          (case rounds of
             [] \<Rightarrow> None
           | (Inl e, after) # rest \<Rightarrow> Some (Inl e, after)
           | (Inr n, after) # rest \<Rightarrow>
               if pr_socket after \<noteq> pr_socket proc then get_or_create_connection rest after
               else (case usable_connection after of
                       Some c \<Rightarrow> Some (Inr (pr_socket proc, c), after)
                     | None \<Rightarrow> Some (Inr (pr_socket proc, new_connection n),
                                       after\<lparr>pr_connection := Some (new_connection n)\<rparr>))))"

definition invalidate_connection :: "nat \<Rightarrow> SocketProcess \<Rightarrow> SocketProcess" where
  "invalidate_connection n proc =
     (case pr_connection proc of
        Some c \<Rightarrow> if cn_id c = n then proc\<lparr>pr_connection := None\<rparr> else proc
      | None \<Rightarrow> proc)"

text \<open>
  Connecting to a runner that is not ours, over attempts with the time left after each that fails; with the
  result, the delays slept, in milliseconds.
\<close>

fun connect_external_with_backoff :: "nat \<Rightarrow> ((error + nat) \<times> nat \<times> nat) list \<Rightarrow> ((error + nat) \<times> nat list) option" where
  "connect_external_with_backoff attempt_no [] = None"
| "connect_external_with_backoff attempt_no ((Inr n, elapsed, remaining) # rest) = Some (Inr n, [])"
| "connect_external_with_backoff attempt_no ((Inl err, elapsed, remaining) # rest) =
     (if remaining = 0
      then Some (Inl (Bail (''external runner socket not ready after '' @ show_nat (attempt_no + 1) @ '' attempts (''
             @ show_nat elapsed @ ''ms): '' @ err_text err)), [])
      else map_option (\<lambda>(r, delays). (r, min (spawn_retry_delay (attempt_no + 1)) remaining # delays))
             (connect_external_with_backoff (attempt_no + 1) rest))"

section \<open>The end of a request\<close>

record InFlightRequest =
  if_job_id :: string
  if_socket :: socket_addr

datatype pool_action =
    CancelHint socket_addr CancelRequest \<comment> \<open>on a connection of its own\<close>
  | ClearPending socket_addr string
  | TerminateProcess socket_addr string
  | RespawnProcess

definition hint_for :: "string \<Rightarrow> InFlightRequest \<Rightarrow> pool_action" where
  "hint_for request_id info = CancelHint (if_socket info)
     \<lparr> cr_protocol_version = PROTOCOL_VERSION, cr_job_id = if_job_id info, cr_request_id = Some request_id,
       cr_hard_kill = False \<rparr>"

definition drop_in_flight :: "string \<Rightarrow> (string \<times> InFlightRequest) list \<Rightarrow> (string \<times> InFlightRequest) list" where
  "drop_in_flight request_id m = filter (\<lambda>p. fst p \<noteq> request_id) m"

definition others_on_socket :: "string \<Rightarrow> socket_addr \<Rightarrow> (string \<times> InFlightRequest) list \<Rightarrow> bool" where
  "others_on_socket request_id socket m \<longleftrightarrow>
     list_ex (\<lambda>(r, other). r \<noteq> request_id \<and> if_socket other = socket) m"

text \<open>
  The cleanup after a timeout, shared by both kinds; \<open>hint_ok\<close> says whether the hint could be sent. It decides by the
  requests in flight at its first look at them, as the code does; requests that begin or end while the hint is on its
  way, between that look and the removal of the entry, touch other entries and are not shown.
\<close>

definition timeout_actions ::
  "string \<Rightarrow> bool \<Rightarrow> bool \<Rightarrow> bool \<Rightarrow> string \<Rightarrow> InFlightRequest \<Rightarrow> pool_action list" where
  "timeout_actions reason hints hint_ok others request_id info =
     (let should_try_cancel = others \<or> hints; timeout_cancel_sent = should_try_cancel \<and> hint_ok
      in (if should_try_cancel then [hint_for request_id info] else [])
         @ [ClearPending (if_socket info) request_id]
         @ (if others \<and> timeout_cancel_sent then [] else [TerminateProcess (if_socket info) reason]))"

definition finalize_execute_result ::
  "bool \<Rightarrow> bool \<Rightarrow> bool \<Rightarrow> ExecutionRequest \<Rightarrow> error + ExecutionOutcome \<Rightarrow> (string \<times> InFlightRequest) list
    \<Rightarrow> (error + ExecutionOutcome) \<times> (string \<times> InFlightRequest) list \<times> pool_action list" where
  "finalize_execute_result send_cancel_hints hint_ok exited request result in_flight =
     (let request_id = xr_request_id request;
          timed_out = (case result of Inl err \<Rightarrow> is_response_timeout_error err | Inr _ \<Rightarrow> False);
          target = (if timed_out then map_of in_flight request_id else None)
      in (result, drop_in_flight request_id in_flight,
          (case target of
             Some info \<Rightarrow> timeout_actions ''response_timeout'' send_cancel_hints hint_ok
                            (others_on_socket request_id (if_socket info) in_flight) request_id info
           | None \<Rightarrow> [])
          @ (case result of Inr _ \<Rightarrow> [] | Inl _ \<Rightarrow> if exited \<and> \<not> timed_out then [RespawnProcess] else [])))"

definition cleanup_worker_timeout_with_permit_held ::
  "bool \<Rightarrow> bool \<Rightarrow> bool \<Rightarrow> ExecutionRequest \<Rightarrow> (string \<times> InFlightRequest) list
    \<Rightarrow> (string \<times> InFlightRequest) list \<times> pool_action list" where
  "cleanup_worker_timeout_with_permit_held send_cancel_hints send_cancel_hint hint_ok request in_flight =
     (let request_id = xr_request_id request
      in (drop_in_flight request_id in_flight,
          (case map_of in_flight request_id of
             Some info \<Rightarrow> timeout_actions ''worker_timeout'' (send_cancel_hint \<and> send_cancel_hints) hint_ok
                            (others_on_socket request_id (if_socket info) in_flight) request_id info
           | None \<Rightarrow> [])))"

definition resolve_in_flight_target ::
  "(string \<times> InFlightRequest) list \<Rightarrow> string \<Rightarrow> string option \<Rightarrow> (string \<times> InFlightRequest) option" where
  "resolve_in_flight_target in_flight job_id request_id =
     Option.bind (case request_id of
         Some r \<Rightarrow> Some r
       | None \<Rightarrow> map_option fst (List.find (\<lambda>(r, info). if_job_id info = job_id) in_flight))
       (\<lambda>r. map_option (\<lambda>info. (r, info)) (map_of in_flight r))"

definition runner_cancel ::
  "(pool_action \<Rightarrow> bool) \<Rightarrow> string \<Rightarrow> string option \<Rightarrow> (string \<times> InFlightRequest) list
    \<Rightarrow> bool \<times> (string \<times> InFlightRequest) list \<times> pool_action list" where
  "runner_cancel hint_ok job_id request_id in_flight =
     (case resolve_in_flight_target in_flight job_id request_id of
        None \<Rightarrow> (True, in_flight, [])
      | Some (r, info) \<Rightarrow>
          if hint_ok (hint_for r info) then (True, drop_in_flight r in_flight, [hint_for r info])
          else (False, in_flight, [hint_for r info]))"

definition runner_handle_timeout ::
  "bool \<Rightarrow> string \<Rightarrow> string option \<Rightarrow> bool \<Rightarrow> (string \<times> InFlightRequest) list
    \<Rightarrow> (string \<times> InFlightRequest) list \<times> pool_action list" where
  "runner_handle_timeout send_cancel_hints job_id request_id send_cancel_hint in_flight =
     (case resolve_in_flight_target in_flight job_id request_id of
        None \<Rightarrow> (in_flight, [])
      | Some (r, info) \<Rightarrow>
          (drop_in_flight r in_flight,
           (if send_cancel_hint \<and> send_cancel_hints then [hint_for r info] else [])
           @ [ClearPending (if_socket info) r, TerminateProcess (if_socket info) ''worker_timeout'']))"

section \<open>A request from its start to its end\<close>

text \<open>
  \<open>execute_with_process\<close> with the connection it got: its entry, and after a failure the connection is not used
  again.
\<close>

definition register_in_flight ::
  "ExecutionRequest \<Rightarrow> socket_addr \<Rightarrow> (string \<times> InFlightRequest) list \<Rightarrow> (string \<times> InFlightRequest) list" where
  "register_in_flight request socket in_flight =
     drop_in_flight (xr_request_id request) in_flight
       @ [(xr_request_id request, \<lparr> if_job_id = xr_job_id request, if_socket = socket \<rparr>)]"

definition execute_with_process_end :: "nat \<Rightarrow> error + ExecutionOutcome \<Rightarrow> SocketProcess \<Rightarrow> SocketProcess" where
  "execute_with_process_end n result proc =
     (case result of Inr _ \<Rightarrow> proc | Inl _ \<Rightarrow> invalidate_connection n proc)"

text \<open>
  \<open>execute_with_timeout\<close>: \<open>acquired\<close> is \<open>None\<close> when the deadline passes first, \<open>in_time\<close> says whether any of it is
  left then, and \<open>result\<close> is \<open>None\<close> when it passes before the request is answered.
\<close>

definition execute_with_timeout ::
  "bool \<Rightarrow> bool \<Rightarrow> bool \<Rightarrow> bool \<Rightarrow> ExecutionRequest \<Rightarrow> (error + unit) option \<Rightarrow> bool \<Rightarrow> (error + ExecutionOutcome) option
    \<Rightarrow> (string \<times> InFlightRequest) list
    \<Rightarrow> RunnerExecutionResult \<times> (string \<times> InFlightRequest) list \<times> pool_action list" where
  "execute_with_timeout send_cancel_hints send_cancel_hint hint_ok exited request acquired in_time result in_flight =
     (case acquired of
        None \<Rightarrow> (ExecTimedOut, in_flight, [])
      | Some (Inl err) \<Rightarrow> (ExecCompleted (Inl err), in_flight, [])
      | Some (Inr _) \<Rightarrow>
          if \<not> in_time then (ExecTimedOut, in_flight, [])
          else (case result of
             Some r \<Rightarrow>
               (case finalize_execute_result send_cancel_hints hint_ok exited request r in_flight of
                  (r1, in_flight1, actions) \<Rightarrow> (ExecCompleted r1, in_flight1, actions))
           | None \<Rightarrow>
               (case cleanup_worker_timeout_with_permit_held send_cancel_hints send_cancel_hint hint_ok request in_flight of
                  (in_flight1, actions) \<Rightarrow> (ExecTimedOut, in_flight1, actions))))"

text \<open>What the actions do to the processes; a hint goes over a connection of its own.\<close>

definition apply_action :: "pool_action \<Rightarrow> SocketProcess list \<Rightarrow> SocketProcess list" where
  "apply_action a procs =
     (case a of
        ClearPending socket request_id \<Rightarrow> snd (remove_pending_request_for_socket socket request_id procs)
      | TerminateProcess socket reason \<Rightarrow> terminate_process_for_socket socket procs
      | _ \<Rightarrow> procs)"

definition apply_actions :: "pool_action list \<Rightarrow> SocketProcess list \<Rightarrow> SocketProcess list" where
  "apply_actions as procs = foldl (\<lambda>ps a. apply_action a ps) procs as"

end
