(* ===== verification/Pool_Properties.thy ===== *)
theory Pool_Properties
  imports Pool_Requests Config_Facts Worker_Properties
begin

text \<open>
  The ports of a pool that starts, which are the ones it was checked for when no attempt to start a process fails;
  and the runners that the queues of a worker need are enough for it.
\<close>

section \<open>Ports\<close>

lemma unat_of_nat32: "n < 4294967296 \<Longrightarrow> unat (of_nat n :: 32 word) = n"
  by (simp add: unat_of_nat take_bit_eq_mod)


lemma next_tcp_socket_in_range:
  assumes "spec_port (sp_tcp_socket pool) + cursor \<le> 65535"
  shows "next_tcp_socket pool cursor
    = (Inr (spec_host (sp_tcp_socket pool), spec_port (sp_tcp_socket pool) + cursor), cursor + 1)"
proof -
  let ?p = "spec_port (sp_tcp_socket pool)"
  have u: "unat (of_nat (?p + cursor) :: 32 word) = ?p + cursor"
    using assms by (intro unat_of_nat32) simp
  have le: "\<not> (65535 :: 32 word) < of_nat (?p + cursor)"
    using assms u by (simp add: word_less_nat_alt)
  have port: "of_nat ?p + of_nat cursor = (of_nat (?p + cursor) :: 32 word)" by simp
  show ?thesis
    using u le unfolding next_tcp_socket_def port addr_def Let_def by simp
qed

text \<open>The check of \<open>new_pool\<close>, when the size of the pool is a \<open>u32\<close>.\<close>

lemma new_pool_range:
  assumes pool: "new_pool resolve name cmd n m env cwd sock hosts rt ct grace capture = Inr pool" and size: "n < 4294901760"
  shows "0 < n" "sp_pool_size pool = n" "sp_cmd pool = cmd" "spec_port (sp_tcp_socket pool) + (n - 1) \<le> 65535"
    "0 < m" "m \<le> 64" "sp_max_in_flight pool = m"
proof -
  obtain raw spec where s: "sock = Some raw" "parse_tcp_socket_with_allowed_hosts resolve raw (or_default hosts []) = Inr spec"
    using pool by (auto simp: new_pool_def split: if_splits sum.splits option.splits)
  have n: "0 < n" using pool by (simp add: new_pool_def split: if_splits)
  have m: "0 < m \<and> m \<le> 64"
    using pool by (auto simp: new_pool_def validate_max_in_flight_limit_def MAX_IN_FLIGHT_PER_CONNECTION_LIMIT_def split: if_splits)
  have port: "spec_port spec \<le> 65535"
    using s(2) parse_u16_bound
    by (auto simp: parse_tcp_socket_with_allowed_hosts_def Let_def split: if_splits sum.splits option.splits prod.splits)
  let ?w = "of_nat (spec_port spec) + ((of_nat n :: 32 word) - 1)"
  have un: "unat (of_nat n :: 32 word) = n" using size by (intro unat_of_nat32) simp
  have n0: "(of_nat n :: 32 word) \<noteq> 0" using un n by (metis unat_0 less_irrefl)
  have w: "?w = of_nat (spec_port spec + (n - 1))" using n by (simp add: of_nat_diff)
  have uw: "unat (of_nat (spec_port spec + (n - 1)) :: 32 word) = spec_port spec + (n - 1)"
    using size port by (intro unat_of_nat32) simp
  have "\<not> (65535 :: 32 word) < ?w"
    using pool s n n0 m by (auto simp: new_pool_def Let_def split: if_splits sum.splits)
  then have le: "spec_port spec + (n - 1) \<le> 65535"
    using uw unfolding w by (simp add: word_less_nat_alt)
  have eq: "sp_pool_size pool = n \<and> sp_cmd pool = cmd \<and> sp_tcp_socket pool = spec \<and> sp_max_in_flight pool = m"
    using pool s by (auto simp: new_pool_def Let_def split: if_splits sum.splits)
  show "0 < n" "sp_pool_size pool = n" "sp_cmd pool = cmd" "spec_port (sp_tcp_socket pool) + (n - 1) \<le> 65535"
    "0 < m" "m \<le> 64" "sp_max_in_flight pool = m"
    using n m le eq by simp_all
qed

abbreviation pool_socket :: "SocketRunnerPool \<Rightarrow> nat \<Rightarrow> socket_addr" where
  "pool_socket pool i \<equiv> (spec_host (sp_tcp_socket pool), spec_port (sp_tcp_socket pool) + i)"

lemma start_processes_ports:
  assumes "spec_port (sp_tcp_socket pool) + (cursor + n - 1) \<le> 65535 \<or> n = 0" "\<And>i k s. \<exists>child. os i k s = Started child"
  shows "\<exists>ps. start_processes pool os n procs cursor = (Inr (), procs @ ps, cursor + n)
    \<and> map pr_socket ps = map (pool_socket pool) [cursor..<cursor + n]
    \<and> (\<forall>p \<in> set ps. pr_permits p = sp_max_in_flight pool)"
  using assms(1)
proof (induction n arbitrary: procs cursor)
  case (Suc n)
  note next1 = next_tcp_socket_in_range [of pool cursor]
  obtain child where c: "os (length procs) 0 (pool_socket pool cursor) = Started child"
    using assms(2) by blast
  define proc where "proc = new_process pool (if is_external_mode pool then None else Some child) (pool_socket pool cursor)"
  have "start_processes pool os (Suc n) procs cursor = start_processes pool os n (procs @ [proc]) (cursor + 1)"
    using Suc.prems next1 c by (simp add: spawn_process_def proc_def spawn_loop.simps [of pool _ None])
  moreover obtain ps where "start_processes pool os n (procs @ [proc]) (cursor + 1) = (Inr (), (procs @ [proc]) @ ps, cursor + 1 + n)"
    "map pr_socket ps = map (pool_socket pool) [cursor + 1..<cursor + 1 + n]"
    "\<forall>p \<in> set ps. pr_permits p = sp_max_in_flight pool"
    using Suc.IH [of "cursor + 1" "procs @ [proc]"] Suc.prems by auto
  ultimately show ?case
    by (intro exI [of _ "proc # ps"]) (simp add: proc_def new_process_def upt_conv_Cons)
qed simp

text \<open>A socket that is allocated at all, as long as the cursor is a small number.\<close>

lemma next_tcp_socket_allocated:
  assumes "spec_port (sp_tcp_socket pool) \<le> 65535" "cursor < 4294901760" "next_tcp_socket pool cursor = (Inr socket, cursor1)"
  shows "socket = pool_socket pool cursor" "cursor1 = cursor + 1" "spec_port (sp_tcp_socket pool) + cursor \<le> 65535"
proof -
  let ?p = "spec_port (sp_tcp_socket pool)"
  have u: "unat (of_nat (?p + cursor) :: 32 word) = ?p + cursor"
    using assms(1,2) by (intro unat_of_nat32) simp
  show "socket = pool_socket pool cursor" "cursor1 = cursor + 1" "?p + cursor \<le> 65535"
    using assms(3) u by (auto simp: next_tcp_socket_def addr_def Let_def word_less_nat_alt simp flip: of_nat_add split: if_splits)
qed

text \<open>Whatever becomes of the attempts before, a process that is started at a new endpoint has the last one allocated.\<close>

lemma spawn_loop_socket:
  assumes "spawn_loop pool os None max_attempts attempts cursor = (Inr proc, cursor')"
    and "spec_port (sp_tcp_socket pool) \<le> 65535" "cursor \<le> 65536"
  shows "\<exists>off child k. cursor \<le> off \<and> cursor' = off + 1 \<and> spec_port (sp_tcp_socket pool) + off \<le> 65535
    \<and> os k (pool_socket pool off) = Started child \<and> proc = new_process pool (Some child) (pool_socket pool off)"
  using assms
proof (induction pool os "None :: socket_addr option" max_attempts attempts cursor rule: spawn_loop.induct)
  case (1 pool os max_attempts attempts cursor)
  obtain socket cursor1 where socket: "next_tcp_socket pool cursor = (Inr socket, cursor1)"
    using 1(3) by (subst (asm) spawn_loop.simps) (auto split: prod.splits sum.splits)
  have "cursor < 4294901760" using 1(5) by simp
  note at = next_tcp_socket_allocated [OF 1(4) this socket]
  have again: "\<exists>off child k. cursor \<le> off \<and> cursor' = off + 1 \<and> spec_port (sp_tcp_socket pool) + off \<le> 65535
      \<and> os k (pool_socket pool off) = Started child \<and> proc = new_process pool (Some child) (pool_socket pool off)"
    if "\<exists>off child k. cursor1 \<le> off \<and> cursor' = off + 1 \<and> spec_port (sp_tcp_socket pool) + off \<le> 65535
      \<and> os k (pool_socket pool off) = Started child \<and> proc = new_process pool (Some child) (pool_socket pool off)"
    using that at(2) by fastforce
  have le: "cursor1 \<le> 65536" using at by simp
  show ?case
  proof (cases "os attempts socket")
    case (Started child)
    then show ?thesis
      using 1(3) socket at by (subst (asm) spawn_loop.simps) (rule exI [of _ cursor], rule exI [of _ child], rule exI [of _ attempts], simp)
  next
    case (PortTaken e)
    then have "\<not> max_attempts \<le> attempts + 1" "spawn_loop pool os None max_attempts (attempts + 1) cursor1 = (Inr proc, cursor')"
      using 1(3) socket by (subst (asm) spawn_loop.simps, simp split: if_splits)+
    then show ?thesis using socket 1(4) le by (intro again 1(1) [OF _ refl PortTaken]) auto
  next
    case (ConnectFails e)
    then have "\<not> max_attempts \<le> attempts + 1" "spawn_loop pool os None max_attempts (attempts + 1) cursor1 = (Inr proc, cursor')"
      using 1(3) socket by (subst (asm) spawn_loop.simps, simp split: if_splits)+
    then show ?thesis using socket 1(4) le by (intro again 1(2) [OF _ refl ConnectFails]) auto
  qed (use 1(3) socket in \<open>subst (asm) spawn_loop.simps, simp\<close>)
qed

text \<open>What a process of a pool that has started is like: \<open>i\<close> is its number, \<open>off\<close> its port counted from the first one.\<close>

definition pool_process :: "SocketRunnerPool \<Rightarrow> (nat \<Rightarrow> starter) \<Rightarrow> nat \<Rightarrow> nat \<Rightarrow> SocketProcess \<Rightarrow> bool" where
  "pool_process pool os i off p \<longleftrightarrow> pr_socket p = pool_socket pool off \<and> spec_port (sp_tcp_socket pool) + off \<le> 65535
     \<and> pr_permits p = sp_max_in_flight pool
     \<and> (if is_external_mode pool then pr_child p = None
        else \<exists>child k. pr_child p = Some child \<and> os i k (pr_socket p) = Started child)"

lemma start_process_socket:
  assumes "start_processes pool os (Suc n) procs cursor = (Inr (), procs', cursor')"
    and "spec_port (sp_tcp_socket pool) \<le> 65535" "cursor \<le> 65536"
  shows "\<exists>off p. cursor \<le> off \<and> off < 65536 \<and> pool_process pool os (length procs) off p
    \<and> start_processes pool os n (procs @ [p]) (off + 1) = (Inr (), procs', cursor')"
proof (cases "is_external_mode pool")
  case True
  then obtain socket cursor1 where next1: "next_tcp_socket pool cursor = (Inr socket, cursor1)"
    and rest: "start_processes pool os n (procs @ [new_process pool None socket]) cursor1 = (Inr (), procs', cursor')"
    using assms(1) by (auto split: prod.splits sum.splits)
  show ?thesis
    using next_tcp_socket_allocated [OF assms(2) _ next1] assms(3) rest True
    by (intro exI [of _ cursor] exI [of _ "new_process pool None socket"]) (simp add: pool_process_def new_process_def)
next
  case False
  then obtain p cursor1 where p: "spawn_loop pool (os (length procs)) None (max (sp_pool_size pool) 1) 0 cursor = (Inr p, cursor1)"
    and rest: "start_processes pool os n (procs @ [p]) cursor1 = (Inr (), procs', cursor')"
    using assms(1) by (auto simp: spawn_process_def split: prod.splits sum.splits)
  obtain off child k where "cursor \<le> off" "cursor1 = off + 1" "spec_port (sp_tcp_socket pool) + off \<le> 65535"
    "os (length procs) k (pool_socket pool off) = Started child" "p = new_process pool (Some child) (pool_socket pool off)"
    using spawn_loop_socket [OF p assms(2,3)] by blast
  then show ?thesis
    using rest False by (intro exI [of _ off] exI [of _ p]) (auto simp: pool_process_def new_process_def)
qed

lemma start_processes_sockets:
  assumes "start_processes pool os n procs cursor = (Inr (), procs', cursor')"
    and "spec_port (sp_tcp_socket pool) \<le> 65535" "cursor \<le> 65536"
  shows "\<exists>ps offs. procs' = procs @ ps \<and> length ps = n \<and> length offs = n
    \<and> sorted_wrt (<) offs \<and> set offs \<subseteq> {cursor..<cursor'} \<and> cursor' \<le> 65536 \<and> (n = 0 \<longrightarrow> cursor' = cursor)
    \<and> (\<forall>i < n. pool_process pool os (length procs + i) (offs ! i) (ps ! i))"
  using assms
proof (induction n arbitrary: procs cursor)
  case (Suc n)
  obtain off p where p: "cursor \<le> off" "off < 65536" "pool_process pool os (length procs) off p"
    and rest: "start_processes pool os n (procs @ [p]) (off + 1) = (Inr (), procs', cursor')"
    using start_process_socket [OF Suc.prems] by blast
  obtain ps offs where more: "procs' = (procs @ [p]) @ ps" "length ps = n" "length offs = n" "sorted_wrt (<) offs"
    "set offs \<subseteq> {off + 1..<cursor'}" "cursor' \<le> 65536" "n = 0 \<longrightarrow> cursor' = off + 1"
    "\<forall>i < n. pool_process pool os (length (procs @ [p]) + i) (offs ! i) (ps ! i)"
    using Suc.IH [OF rest Suc.prems(2)] p(2) by auto
  have "off < cursor'" using more(3,5,7) by (cases offs) auto
  then show ?case
    using p more by (intro exI [of _ "p # ps"] exI [of _ "off # offs"]) (auto simp: nth_Cons' less_Suc_eq_0_disj)
qed simp

lemma all_offsets:
  assumes "sorted_wrt (<) offs" "set offs \<subseteq> {..<n}" "length offs = n"
  shows "offs = [0..<n]"
proof (rule strict_sorted_equal [OF _ assms(1)])
  have "card (set offs) = n" using assms(1,3) by (simp add: distinct_card strict_sorted_iff)
  then show "set offs = set [0..<n]" using assms(2) card_subset_eq [of "{..<n}" "set offs"] by (simp add: atLeast0LessThan)
qed simp

text \<open>C26. The ports of a pool of fewer than \<open>2\<^sup>32 - 65536\<close> processes, whatever becomes of the attempts to start its processes. When a pool that has passed
  its checks starts, it holds its number of processes, each with as many permits as requests may be in flight and, unless
  they are managed elsewhere, with a child that has been started at its endpoint; the endpoints are different,
  in ascending order from the configured port on, and all are valid ports. They are exactly the ports that were
  checked when no endpoint has been given up, which is so when every process starts at the first attempt. And an
  endpoint allocated later, when a process cannot be restarted on its own, is none of those, nor one of the ports
  that were checked.\<close>

theorem pool_ports:
  assumes pool: "new_pool resolve name cmd n m env cwd sock hosts rt ct grace capture = Inr pool" and size: "n < 4294901760"
  shows "(\<forall>procs cursor. ensure_started pool os [] 0 = (Inr (), procs, cursor) \<longrightarrow>
      (\<exists>offs. map pr_socket procs = map (pool_socket pool) offs \<and> length offs = n
         \<and> sorted_wrt (<) offs \<and> set offs \<subseteq> {..<cursor} \<and> (cursor = n \<longrightarrow> offs = [0..<n]))
      \<and> (\<forall>i < length procs. snd (pr_socket (procs ! i)) \<le> 65535 \<and> pr_permits (procs ! i) = m
         \<and> (cmd = [] \<or> (\<exists>child k. pr_child (procs ! i) = Some child \<and> os i k (pr_socket (procs ! i)) = Started child)))
      \<and> (\<forall>later < 4294901760. \<forall>socket. cursor \<le> later \<longrightarrow> fst (next_tcp_socket pool later) = Inr socket
         \<longrightarrow> socket \<notin> set (map pr_socket procs) \<and> socket \<notin> set (map (pool_socket pool) [0..<n])))
    \<and> ((\<forall>i k s. \<exists>child. os i k s = Started child) \<longrightarrow> (\<exists>procs. ensure_started pool os [] 0 = (Inr (), procs, n)))"
proof -
  note r = new_pool_range [OF pool size]
  have port: "spec_port (sp_tcp_socket pool) \<le> 65535" using r(4) by simp
  show ?thesis
  proof (intro conjI allI impI)
    fix procs cursor
    assume "ensure_started pool os [] 0 = (Inr (), procs, cursor)"
    then have run: "start_processes pool os n [] 0 = (Inr (), procs, cursor)" using r(2) by (simp add: ensure_started_def)
    obtain offs where offs: "length procs = n" "length offs = n" "sorted_wrt (<) offs" "set offs \<subseteq> {..<cursor}"
      "\<forall>i < n. pool_process pool os i (offs ! i) (procs ! i)"
      using start_processes_sockets [OF run port] by (auto simp: lessThan_atLeast0)
    have sockets: "map pr_socket procs = map (pool_socket pool) offs"
      using offs by (intro nth_equalityI) (auto simp: pool_process_def)
    have "n \<le> cursor"
      using card_mono [OF _ offs(4)] offs(2,3) by (simp add: distinct_card strict_sorted_iff)
    show "\<exists>offs. map pr_socket procs = map (pool_socket pool) offs \<and> length offs = n
         \<and> sorted_wrt (<) offs \<and> set offs \<subseteq> {..<cursor} \<and> (cursor = n \<longrightarrow> offs = [0..<n])"
      using offs sockets all_offsets [OF offs(3) _ offs(2)] by blast
    show "snd (pr_socket (procs ! i)) \<le> 65535" "pr_permits (procs ! i) = m"
      "cmd = [] \<or> (\<exists>child k. pr_child (procs ! i) = Some child \<and> os i k (pr_socket (procs ! i)) = Started child)"
      if "i < length procs" for i
    proof -
      have "pool_process pool os i (offs ! i) (procs ! i)" using that offs(1,5) by blast
      then show "snd (pr_socket (procs ! i)) \<le> 65535" "pr_permits (procs ! i) = m"
        "cmd = [] \<or> (\<exists>child k. pr_child (procs ! i) = Some child \<and> os i k (pr_socket (procs ! i)) = Started child)"
        using r(3,7) by (auto simp: pool_process_def is_external_mode_def split: if_splits)
    qed
    fix later socket
    assume later: "later < 4294901760" "cursor \<le> later" "fst (next_tcp_socket pool later) = Inr socket"
    then have "socket = pool_socket pool later"
      using next_tcp_socket_allocated(1) [OF port later(1), of socket] by (metis prod.collapse)
    then show "socket \<notin> set (map pr_socket procs)" "socket \<notin> set (map (pool_socket pool) [0..<n])"
      using later(2) offs(4) \<open>n \<le> cursor\<close> unfolding sockets by auto
  next
    assume "\<forall>i k s. \<exists>child. os i k s = Started child"
    then show "\<exists>procs. ensure_started pool os [] 0 = (Inr (), procs, n)"
      using start_processes_ports [of pool 0 n os "[]"] r by (auto simp: ensure_started_def)
  qed
qed

lemma sample_pool:
  "\<exists>pool. new_pool (\<lambda>_ _. None) ''r'' [''cmd''] 3 8 None None (Some '' [::1]:9000 '') None None 15000 5 False = Inr pool
     \<and> spec_port (sp_tcp_socket pool) = 9000"
proof -
  have "parse_u16 ''9000'' = Some 9000"
    by (simp add: parse_u16_def digit_val_def Let_def)
  then show ?thesis
    by (simp add: new_pool_def parse_tcp_socket_with_allowed_hosts_def sample_endpoint resolve_host_def is_loopback_def
        validate_max_in_flight_limit_def MAX_IN_FLIGHT_PER_CONNECTION_LIMIT_def or_default_def Let_def)
qed

text \<open>A pool of three whose second port is taken.\<close>

theorem pool_ports_witness:
  "\<exists>pool procs. ensure_started pool (\<lambda>i k s. if snd s = 9001 then PortTaken (Bail ''taken'') else Started i) [] 0 = (Inr (), procs, 4)
     \<and> map (snd \<circ> pr_socket) procs = [9000, 9002, 9003]
     \<and> (\<forall>i < length procs. snd (pr_socket (procs ! i)) \<le> 65535 \<and> pr_permits (procs ! i) = 8)"
proof -
  let ?os = "\<lambda>i k s. if snd s = 9001 then PortTaken (Bail ''taken'') else Started i :: start_result"
  obtain pool where pool: "new_pool (\<lambda>_ _. None) ''r'' [''cmd''] 3 8 None None (Some '' [::1]:9000 '') None None 15000 5 False = Inr pool"
    and spec: "spec_port (sp_tcp_socket pool) = 9000"
    using sample_pool by blast
  note r = new_pool_range [OF pool]
  have managed: "\<not> is_external_mode pool" "sp_pool_size pool = 3" using r by (simp_all add: is_external_mode_def)
  note steps = managed spec spawn_process_def next_tcp_socket_in_range [of pool] spawn_loop.simps [of pool _ None]
  obtain procs where run: "ensure_started pool ?os [] 0 = (Inr (), procs, 4)" "map (snd \<circ> pr_socket) procs = [9000, 9002, 9003]"
    by (simp add: ensure_started_def numeral_3_eq_3 steps new_process_def)
  moreover have "\<forall>i < length procs. snd (pr_socket (procs ! i)) \<le> 65535 \<and> pr_permits (procs ! i) = 8"
    using conjunct1 [OF pool_ports [OF pool, of ?os], rule_format, OF _ run(1)] by simp
  ultimately show ?thesis by (intro exI [of _ pool] exI [of _ procs] conjI)
qed

section \<open>Which runners a worker needs\<close>

lemma normalized_key: "starts_with k QUEUE_KEY_PREFIX \<Longrightarrow> normalize_queue_name k = k"
  by (simp add: normalize_queue_name_def)

lemma sminsert_new: "k \<notin> fst ` set m \<Longrightarrow> sminsert k v m = m @ [(k, v)]"
  by (auto simp: sminsert_def filter_id_conv)

lemma renormalize_routes:
  assumes "\<forall>k \<in> fst ` set routes. starts_with k QUEUE_KEY_PREFIX" "distinct (map fst (m @ routes))"
  shows "foldl (\<lambda>m (q, r). sminsert (normalize_queue_name q) r m) m routes = m @ routes"
  using assms
  by (induction routes arbitrary: m) (auto simp: normalized_key sminsert_new)

lemma map_of_needed: "map_of (filter (\<lambda>p. fst p \<in> S) m) k = (if k \<in> S then map_of m k else None)"
  by (induction m) auto

lemma route_of_normalized:
  "normalize_queue_name q = q \<Longrightarrow> resolve_routed_runner routes q = route_of routes q"
  by (simp add: resolve_routed_runner_def route_of_def split: option.splits)

lemma set_map_filter: "r \<in> set (List.map_filter f xs) \<longleftrightarrow> (\<exists>x \<in> set xs. f x = Some r)"
  by (induction xs) (auto simp: map_filter_simps split: option.split)

lemma needed_runners_of_queue:
  assumes "q \<in> set (effective_queues settings queues)"
  shows "route_of (runner_routes settings) q = Some r \<Longrightarrow> r \<in> determine_needed_runners settings queues"
    "route_of (runner_routes settings) q = None \<Longrightarrow> default_runner_name settings \<noteq> []
      \<Longrightarrow> default_runner_name settings \<in> determine_needed_runners settings queues"
  using assms by (auto simp: determine_needed_runners_def Let_def list_ex_iff set_map_filter)

abbreviation worker_queues :: "RRQSettings \<Rightarrow> string list option \<Rightarrow> string list" where
  "worker_queues settings queues \<equiv> remdups_adj (sort (map normalize_queue_name
     (case queues of None \<Rightarrow> [normalize_queue_name (default_queue_name settings)] | Some qs \<Rightarrow> qs)))"

text \<open>When a worker starts: it has a queue, a runner for each, and may run a job. Its first state does not depend on the runners.\<close>

abbreviation normalized_routes :: "RRQSettings \<Rightarrow> strmap" where
  "normalized_routes settings \<equiv> foldl (\<lambda>m (q, r). sminsert (normalize_queue_name q) r m) [] (runner_routes settings)"

abbreviation normalized_settings :: "RRQSettings \<Rightarrow> RRQSettings" where
  "normalized_settings settings \<equiv> settings\<lparr>default_queue_name := normalize_queue_name (default_queue_name settings),
     runner_routes := normalized_routes settings\<rparr>"

lemma new_worker_iff:
  "new_worker settings queues worker_id rm burst concurrency pid fresh = Inr (W, l) \<longleftrightarrow>
     worker_queues settings queues \<noteq> [] \<and> rm \<noteq> []
     \<and> (\<forall>q \<in> set (worker_queues settings queues).
          map_of rm (or_default (resolve_routed_runner (normalized_routes settings) q) (default_runner_name settings)) \<noteq> None)
     \<and> 0 < concurrency
     \<and> l = \<lparr> wl_running = [], wl_aborts = [], wl_permits = concurrency, wl_spawned = [], wl_aborted = [], wl_cursor = 0,
             wl_status = ''initializing'', wl_shutdown = False, wl_cron_jobs = [] \<rparr>
     \<and> (\<exists>ms. provisional_claim_lock_timeout_ms (normalized_settings settings) = Inr ms
          \<and> W = \<lparr> w_settings = normalized_settings settings, w_queues = worker_queues settings queues,
               w_id = (case worker_id of None \<Rightarrow> default_worker_id pid fresh | Some w \<Rightarrow> w), w_runners = rm,
               w_default_runner = default_runner_name settings, w_routes = normalized_routes settings,
               w_concurrency = concurrency, w_burst = burst, w_claim_timeout_ms = ms \<rparr>)"
proof -
  define qs where "qs = worker_queues settings queues"
  have qs1: "remdups_adj (sort (map normalize_queue_name
      (case queues of None \<Rightarrow> [default_queue_name (normalized_settings settings)] | Some qs \<Rightarrow> qs))) = qs"
    by (simp add: qs_def cong: option.case_cong)
  have checks: "(\<forall>q \<in> set qs. map_of rm (or_default (resolve_routed_runner r q) d) \<noteq> None) \<longleftrightarrow>
      \<not> (list_ex (\<lambda>q. resolve_routed_runner r q = None) qs \<and> map_of rm d = None)
      \<and> List.find (\<lambda>q. case resolve_routed_runner r q of None \<Rightarrow> False | Some n \<Rightarrow> map_of rm n = None) qs = None" for r d
    by (auto simp: list_ex_iff find_None_all or_default_def split: option.splits)
  show ?thesis
    unfolding new_worker_def Let_def qs1 qs_def [symmetric] checks
    by (auto split: option.split sum.split if_splits)
qed

text \<open>The queues of the worker, whatever the order.\<close>

lemma worker_queues_effective:
  assumes "queues \<noteq> Some []"
  shows "set (remdups_adj (sort (map normalize_queue_name
      (case queues of None \<Rightarrow> [normalize_queue_name (default_queue_name settings)] | Some qs \<Rightarrow> qs))))
    = set (effective_queues settings queues)"
  using assms by (cases queues) (auto simp: effective_queues_def split: list.splits)

lemma effective_queues_normalized: "q \<in> set (effective_queues settings queues) \<Longrightarrow> normalize_queue_name q = q"
  by (auto simp: effective_queues_def split: option.splits list.splits)

text \<open>C27. A worker that starts with all the runners that are configured also starts with only the ones that its
  queues are found to need: each of its queues is served by the runner it would have had, provided the routes
  have the queues' full names, each once, as the loading of the settings leaves them.\<close>

theorem needed_runners_suffice:
  assumes starts: "new_worker settings queues worker_id runner_map burst concurrency pid fresh = Inr (W, l)"
    and routes: "\<forall>k \<in> fst ` set (runner_routes settings). starts_with k QUEUE_KEY_PREFIX"
      "distinct (map fst (runner_routes settings))"
    and default: "default_runner_name settings \<noteq> []"
  shows "\<exists>W'. new_worker settings queues worker_id
        (filter (\<lambda>r. fst r \<in> determine_needed_runners settings queues) runner_map) burst concurrency pid fresh = Inr (W', l)
      \<and> w_queues W' = w_queues W \<and> (\<forall>q \<in> set (w_queues W). runner_of_queue W' q = runner_of_queue W q)"
proof -
  define needed where "needed = determine_needed_runners settings queues"
  define qs where "qs = worker_queues settings queues"
  let ?few = "filter (\<lambda>r. fst r \<in> needed) runner_map" and ?routes = "runner_routes settings"
    and ?name = "\<lambda>q. or_default (resolve_routed_runner (runner_routes settings) q) (default_runner_name settings)"
  have fold: "normalized_routes settings = ?routes"
    using renormalize_routes [of ?routes "[]"] routes by simp
  note iff = new_worker_iff [of settings queues, folded qs_def, unfolded fold]
  have qs: "qs \<noteq> []" and all: "\<forall>q \<in> set qs. map_of runner_map (?name q) \<noteq> None"
    and W: "w_queues W = qs" "w_runners W = runner_map" "w_routes W = ?routes" "w_default_runner W = default_runner_name settings"
    using starts unfolding iff by auto
  have "queues \<noteq> Some []" using qs by (auto simp: qs_def)
  note effective = worker_queues_effective [OF this, of settings, folded qs_def]
  have "?name q \<in> needed" if "q \<in> set qs" for q
    using that effective needed_runners_of_queue [of q settings queues] default
      route_of_normalized [OF effective_queues_normalized, of q settings queues ?routes]
    unfolding needed_def by (cases "route_of ?routes q") auto
  then have same: "map_of ?few (?name q) = map_of runner_map (?name q)" if "q \<in> set qs" for q
    using that by (simp add: map_of_needed)
  then have "?few \<noteq> []" using qs all by (metis list.set_intros(1) map_of.simps(1) neq_Nil_conv)
  then have "\<exists>W'. new_worker settings queues worker_id ?few burst concurrency pid fresh = Inr (W', l)
      \<and> w_queues W' = qs \<and> w_runners W' = ?few \<and> w_routes W' = ?routes
      \<and> w_default_runner W' = default_runner_name settings"
    using starts same unfolding iff by auto
  then show ?thesis
    using W same unfolding needed_def runner_of_queue_def by auto
qed

lemma two_runners_start:
  "\<exists>W l. new_worker default_settings None None [(''ruby'', idle_runner), (''python'', idle_runner)] False 4 7 ''0a1b2c3d'' = Inr (W, l)"
  by (simp add: new_worker_def Let_def resolve_routed_runner_def normalize_queue_name_def
      starts_with_def QUEUE_KEY_PREFIX_def provisional_claim_lock_timeout_ms_def i64_ok_def strip_prefix_def
      checked_i64_def)

theorem needed_runners_suffice_witness:
  "\<exists>(W :: unit worker) l. new_worker default_settings None None [(''python'', idle_runner)] False 4 7 ''0a1b2c3d'' = Inr (W, l)"
proof -
  obtain W :: "unit worker" and l where W: "new_worker default_settings None None
      [(''ruby'', idle_runner), (''python'', idle_runner)] False 4 7 ''0a1b2c3d'' = Inr (W, l)"
    using two_runners_start by blast
  have "determine_needed_runners default_settings None = {''python''}"
    by (simp add: determine_needed_runners_def effective_queues_def route_of_def map_filter_simps strip_prefix_def
        split: option.splits)
  then show ?thesis
    using needed_runners_suffice [OF W] by auto
qed

end
