(* ===== verification/Request_Properties.thy ===== *)
theory Request_Properties
  imports Pool_Requests Runtime_Properties
begin

text \<open>
  The two ends of a request on the orchestrator's side: what a timeout does to the pool and to the map of
  requests in flight, and that a request that waits on a connection is answered once.
\<close>

section \<open>What a timeout leads to\<close>

text \<open>The request forgotten by the connection of a process.\<close>

definition forget_pending :: "string \<Rightarrow> SocketProcess \<Rightarrow> SocketProcess" where
  "forget_pending request_id p = p\<lparr>pr_connection := map_option (\<lambda>c. snd (remove_pending_request request_id c)) (pr_connection p)\<rparr>"

lemma terminate_forget [simp]: "terminate_process (forget_pending r p) = terminate_process p"
  by (simp add: terminate_process_def forget_pending_def)

lemma forget_pending_socket [simp]: "pr_socket (forget_pending r p) = pr_socket p"
  by (simp add: forget_pending_def)

lemma forget_pending_None: "pr_connection p = None \<Longrightarrow> forget_pending r p = p"
  by (simp add: forget_pending_def)

lemma map_at_other_socket:
  "s \<notin> pr_socket ` set ps \<Longrightarrow> map (\<lambda>p. if pr_socket p = s then f p else p) ps = ps"
  by (rule map_idI) (auto simp: image_iff)

lemma remove_pending_is_map:
  "distinct (map pr_socket procs) \<Longrightarrow> snd (remove_pending_request_for_socket socket r procs)
     = map (\<lambda>p. if pr_socket p = socket then forget_pending r p else p) procs"
proof (induction procs)
  case (Cons p ps)
  have others: "map (\<lambda>p. if pr_socket p = socket then forget_pending r p else p) ps = ps" if "pr_socket p = socket"
    using that Cons.prems by (intro map_at_other_socket) simp
  show ?case
    using Cons others
    by (auto simp: forget_pending_None forget_pending_def split: option.splits prod.splits)
qed simp

lemma terminate_is_map:
  "distinct (map pr_socket procs) \<Longrightarrow> terminate_process_for_socket socket procs
     = map (\<lambda>p. if pr_socket p = socket then terminate_process p else p) procs"
proof (induction procs)
  case (Cons p ps)
  have others: "map (\<lambda>p. if pr_socket p = socket then terminate_process p else p) ps = ps" if "pr_socket p = socket"
    using that Cons.prems by (intro map_at_other_socket) simp
  then show ?case using Cons by auto
qed simp

lemma apply_timeout_actions:
  assumes "distinct (map pr_socket procs)"
  shows "apply_actions (timeout_actions reason hints hint_ok others r info) procs
    = map (\<lambda>p. if pr_socket p \<noteq> if_socket info then p
               else if others \<and> hint_ok then forget_pending r p else terminate_process p) procs"
proof -
  let ?p1 = "map (\<lambda>p. if pr_socket p = if_socket info then forget_pending r p else p) procs"
  have "map pr_socket ?p1 = map pr_socket procs" by simp
  then have distinct: "distinct (map pr_socket ?p1)" using assms by (simp only:)
  show ?thesis
    using remove_pending_is_map [OF assms] terminate_is_map [OF assms] terminate_is_map [OF distinct]
    by (auto simp: apply_actions_def timeout_actions_def apply_action_def hint_for_def Let_def
        remove_pending_is_map terminate_is_map)
qed

text \<open>C28. A request that times out, in the runner's own limit or in the worker's, leaves the map of requests in
  flight and the connection it waited on, and nothing else changes there. Its process is terminated, unless
  other requests run on it and the hint to cancel this one could be delivered: then it goes on running. Every
  other process is left as it was.\<close>

theorem timeout_cleanup:
  assumes entry: "map_of in_flight (xr_request_id request) = Some info"
    and sockets: "distinct (map pr_socket procs)"
    and timed_out: "result = None \<or> (\<exists>e. result = Some (Inl e) \<and> is_response_timeout_error e)"
    and run: "execute_with_timeout hints hint hint_ok exited request (Some (Inr ())) True result in_flight = (r, in_flight', actions)"
  shows "in_flight' = drop_in_flight (xr_request_id request) in_flight
    \<and> apply_actions actions procs = map (\<lambda>p.
        if pr_socket p \<noteq> if_socket info then p
        else if others_on_socket (xr_request_id request) (if_socket info) in_flight \<and> hint_ok
        then forget_pending (xr_request_id request) p
        else terminate_process p) procs"
  using run timed_out entry apply_timeout_actions [OF sockets]
  by (auto simp: execute_with_timeout_def finalize_execute_result_def cleanup_worker_timeout_with_permit_held_def Let_def)

definition shared_processes :: "SocketProcess list" where
  "shared_processes = map (\<lambda>port. \<lparr> pr_child = Some port, pr_socket = (V4 [127, 0, 0, 1], port), pr_permits = 6,
     pr_connection = Some ((new_connection port)\<lparr>cn_pending := [''r1'', ''r2'']\<rparr>) \<rparr>) [9000, 9001]"

lemma shared_timeout:
  "execute_with_timeout False False True False (sample_request ''r1'' ''j1'') (Some (Inr ())) True None
     [(''r1'', \<lparr> if_job_id = ''j1'', if_socket = (V4 [127, 0, 0, 1], 9000) \<rparr>),
      (''r2'', \<lparr> if_job_id = ''j2'', if_socket = (V4 [127, 0, 0, 1], 9000) \<rparr>)]
   = (ExecTimedOut, [(''r2'', \<lparr> if_job_id = ''j2'', if_socket = (V4 [127, 0, 0, 1], 9000) \<rparr>)],
      [hint_for ''r1'' \<lparr> if_job_id = ''j1'', if_socket = (V4 [127, 0, 0, 1], 9000) \<rparr>,
       ClearPending (V4 [127, 0, 0, 1], 9000) ''r1''])"
  by (simp add: execute_with_timeout_def cleanup_worker_timeout_with_permit_held_def timeout_actions_def
      others_on_socket_def drop_in_flight_def Let_def)

theorem timeout_cleanup_witness:
  "map (map_option cn_pending \<circ> pr_connection)
     (apply_actions [hint_for ''r1'' \<lparr> if_job_id = ''j1'', if_socket = (V4 [127, 0, 0, 1], 9000) \<rparr>,
        ClearPending (V4 [127, 0, 0, 1], 9000) ''r1''] shared_processes)
   = [Some [''r2''], Some [''r1'', ''r2'']]"
  using timeout_cleanup [OF _ _ _ shared_timeout, where procs = shared_processes]
  by (simp add: shared_processes_def others_on_socket_def forget_pending_def remove_pending_request_def
      new_connection_def)

section \<open>The answer of a request\<close>

text \<open>
  What happens on a connection while a request waits: messages are read and written, other requests begin, and
  other requests give up.
\<close>

datatype connection_event =
    ReadEvent "error + RunnerMessage option"
  | WriteEvent "(error + unit) option"
  | OtherBegins string bool
  | OtherGivesUp string

primrec connection_step :: "connection_event \<Rightarrow> connection \<Rightarrow> connection" where
  "connection_step (ReadEvent m) c = snd (on_read m c)"
| "connection_step (WriteEvent w) c = snd (on_write w c)"
| "connection_step (OtherBegins r sent) c = snd (execute_begin r id sent c)"
| "connection_step (OtherGivesUp r) c = snd (remove_pending_request r c)"

primrec spares :: "string \<Rightarrow> connection_event \<Rightarrow> bool" where
  "spares r (ReadEvent m) = True"
| "spares r (WriteEvent w) = True"
| "spares r (OtherBegins q sent) = (q \<noteq> r)"
| "spares r (OtherGivesUp q) = (q \<noteq> r)"

definition connection_run :: "connection_event list \<Rightarrow> connection \<Rightarrow> connection" where
  "connection_run es c = foldl (\<lambda>c e. connection_step e c) c es"

text \<open>The request waits or has one answer, its own; and nothing waits on a closed connection.\<close>

definition answers_to :: "string \<Rightarrow> (string \<times> (error + ExecutionOutcome)) list \<Rightarrow> (error + ExecutionOutcome) list" where
  "answers_to r as = map snd (filter (\<lambda>a. fst a = r) as)"

definition accounted :: "string \<Rightarrow> nat \<Rightarrow> connection \<Rightarrow> bool" where
  "accounted r n c \<longleftrightarrow>
     distinct (cn_pending c) \<and> (cn_closed c \<longrightarrow> cn_pending c = []) \<and> n \<le> length (cn_answers c)
     \<and> (if r \<in> set (cn_pending c) then answers_to r (drop n (cn_answers c)) = []
        else \<exists>a. answers_to r (drop n (cn_answers c)) = [a]
          \<and> (\<forall>outcome. a = Inr outcome \<longrightarrow> xo_request_id outcome = Some r))"

lemma answers_to_simps [simp]:
  "answers_to r [] = []" "answers_to r (as @ bs) = answers_to r as @ answers_to r bs"
  "answers_to r [(q, a)] = (if q = r then [a] else [])"
  by (simp_all add: answers_to_def)

lemma answers_to_all: "distinct qs \<Longrightarrow> answers_to r (map (\<lambda>q. (q, a)) qs) = (if r \<in> set qs then [a] else [])"
  by (induction qs) (auto simp: answers_to_def)

lemma accounted_close: "accounted r n c \<Longrightarrow> accounted r n (close_pending_with_error m c)"
  by (auto simp: accounted_def close_pending_with_error_def answers_to_all split: if_splits)

lemma accounted_response: "accounted r n c \<Longrightarrow> accounted r n (snd (on_response payload c))"
  using accounted_close [of r n c]
  by (auto simp: on_response_def accounted_def split: option.split list.split if_splits)

lemma accounted_step: "accounted r n c \<Longrightarrow> spares r e \<Longrightarrow> accounted r n (connection_step e c)"
proof (cases e)
  case (ReadEvent m)
  then show "accounted r n c \<Longrightarrow> ?thesis"
    by (auto simp: on_read_def accounted_close accounted_response split: sum.split option.split RunnerMessage.split)
next
  case (WriteEvent w)
  then show "accounted r n c \<Longrightarrow> ?thesis"
    by (auto simp: on_write_def accounted_close split: sum.split option.split)
next
  case (OtherBegins q sent)
  then show "accounted r n c \<Longrightarrow> spares r e \<Longrightarrow> ?thesis"
    by (auto simp: execute_begin_def accounted_def Let_def split: if_splits)
next
  case (OtherGivesUp q)
  then show "accounted r n c \<Longrightarrow> spares r e \<Longrightarrow> ?thesis"
    by (auto simp: remove_pending_request_def accounted_def split: if_splits)
qed

lemma accounted_run: "accounted r n c \<Longrightarrow> \<forall>e \<in> set es. spares r e \<Longrightarrow> accounted r n (connection_run es c)"
  by (induction es arbitrary: c) (auto simp: connection_run_def accounted_step)

text \<open>C29. Once a request has been put on an open connection, it waits there or it has been answered, exactly once,
  whatever is read, written, begun or given up meanwhile; on a connection that has been closed it has been
  answered; and an outcome it is answered with carries its own request id, so the check of that id cannot fail.\<close>

theorem request_answered_once:
  assumes begun: "execute_begin r id True c = (Inr (), c1)" "distinct (cn_pending c)"
    and events: "\<forall>e \<in> set es. spares r e"
  shows "let c2 = connection_run es c1; new = answers_to r (drop (length (cn_answers c)) (cn_answers c2))
    in length new + length (filter (\<lambda>q. q = r) (cn_pending c2)) = 1 \<and> (cn_closed c2 \<longrightarrow> length new = 1)
      \<and> (\<forall>outcome. Inr outcome \<in> set new \<longrightarrow> xo_request_id outcome = Some r)"
proof -
  have "accounted r (length (cn_answers c)) c1"
    using begun by (auto simp: execute_begin_def accounted_def Let_def split: if_splits)
  from accounted_run [OF this events] show ?thesis
    unfolding Let_def accounted_def by (auto simp: distinct_length_filter split: if_splits)
qed

lemma closed_after_two:
  "execute_begin ''r1'' id True (new_connection 0) = (Inr (), (new_connection 0)\<lparr>cn_pending := [''r1'']\<rparr>)"
  by (simp add: execute_begin_def new_connection_def)

theorem request_answered_once_witness:
  "length (answers_to ''r1'' (cn_answers (connection_run [OtherBegins ''r2'' True, ReadEvent (Inr None)]
     ((new_connection 0)\<lparr>cn_pending := [''r1'']\<rparr>)))) = 1"
proof -
  let ?c = "connection_run [OtherBegins ''r2'' True, ReadEvent (Inr None)] ((new_connection 0)\<lparr>cn_pending := [''r1'']\<rparr>)"
  have "cn_closed ?c"
    by (simp add: connection_run_def execute_begin_def new_connection_def on_read_def close_pending_with_error_def)
  then show ?thesis
    using request_answered_once [OF closed_after_two, of "[OtherBegins ''r2'' True, ReadEvent (Inr None)]"]
    by (simp add: Let_def new_connection_def)
qed

end
