(* ===== verification/Commands.thy ===== *)
theory Commands
  imports Client
begin

text \<open>
  The commands of the orchestrator's command line that read and change jobs (\<open>orchestrator/src/commands/\<close> with
  \<open>cli_utils.rs\<close>): listing and counting, cancelling, replaying, requeueing from a dead letter queue, and the
  debugging commands that submit and insert jobs. A command is a program of the store; what it prints is its
  result. The pages of a \<open>SCAN\<close> are an argument, the replies of the server in order.
\<close>

section \<open>Texts\<close>

text \<open>
  \<open>&value[..keep]\<close> panics unless \<open>keep\<close> lies between two characters, that is, unless the byte there is not a
  continuation byte.
\<close>

definition char_boundary :: "string \<Rightarrow> nat \<Rightarrow> bool" where
  "char_boundary s n \<longleftrightarrow> n = 0 \<or> n = length s
     \<or> (n < length s \<and> \<not> (128 \<le> (of_char (s ! n) :: nat) \<and> (of_char (s ! n) :: nat) < 192))"

definition cli_truncate :: "string \<Rightarrow> nat \<Rightarrow> string res" where
  "cli_truncate value max_len =
     (if length value \<le> max_len then Ok value
      else let keep = max_len - 3
           in if char_boundary value keep then Ok (take keep value @ ''...'')
              else Panic ''byte index is not a char boundary'')"

definition cli_parse_json :: "codec \<Rightarrow> string option \<Rightarrow> json option" where
  "cli_parse_json C raw =
     (case raw of None \<Rightarrow> None | Some s \<Rightarrow> if eq_ignore_case s ''null'' then None else json_parse C s)"

text \<open>Seconds since the epoch; the listing takes a time that cannot be read as 0.\<close>

definition parse_timestamp :: "codec \<Rightarrow> string \<Rightarrow> rat option" where
  "parse_timestamp C raw =
     (if raw = [] then None
      else case float_parse C raw of
        Some v \<Rightarrow> Some v
      | None \<Rightarrow> map_option (\<lambda>t. of_int (timestamp_millis t) / 1000) (from_rfc3339 C raw))"

definition timestamp_field :: "codec \<Rightarrow> string \<Rightarrow> rhash \<Rightarrow> rat" where
  "timestamp_field C f m = or_default (Option.bind (fmlookup m f) (parse_timestamp C)) 0"

definition queue_matches :: "string \<Rightarrow> string \<Rightarrow> bool" where
  "queue_matches filt job_queue \<longleftrightarrow> normalize_queue_name filt = normalize_queue_name job_queue"

definition top_counts :: "(string \<times> nat) list \<Rightarrow> nat \<Rightarrow> (string \<times> nat) list" where
  "top_counts m limit = take limit (sort_key (\<lambda>p. - int (snd p)) m)"

definition field_or :: "rhash \<Rightarrow> string \<Rightarrow> string \<Rightarrow> string" where
  "field_or m f d = or_default (fmlookup m f) d"

text \<open>The filters of a listing: by queue and by function.\<close>

definition job_matches :: "string option \<Rightarrow> string option \<Rightarrow> rhash \<Rightarrow> bool" where
  "job_matches queue function_name m \<longleftrightarrow>
     (case queue of Some q \<Rightarrow> queue_matches q (field_or m ''queue_name'' []) | None \<Rightarrow> True)
   \<and> (case function_name of Some f \<Rightarrow> fmlookup m ''function_name'' = Some f | None \<Rightarrow> True)"

section \<open>Single jobs\<close>

datatype cancel_result = JobNotFound | NotPending string | NoQueue | JobCancelled | NotInQueue

definition job_cancel :: "'r redis \<Rightarrow> string \<Rightarrow> ('r, cancel_result) io" where
  "job_cancel R job_id =
     andThen (get_job_data_map R job_id) (\<lambda>job_map.
     case job_map of
       None \<Rightarrow> ret JobNotFound
     | Some m \<Rightarrow>
         let status = field_or m ''status'' [];
             queue_name = field_or m ''queue_name'' []
         in if \<not> eq_ignore_case status ''pending'' then ret (NotPending status)
            else if queue_name = [] then ret NoQueue
            else andThen (remove_job_from_queue R queue_name job_id) (\<lambda>removed.
              if 0 < removed then andThen (update_job_status R job_id Cancelled) (\<lambda>_. ret JobCancelled)
              else ret NotInQueue))"

text \<open>The options of a call that sets only its queue, and perhaps its delay.\<close>

definition queue_options :: "string \<Rightarrow> int option \<Rightarrow> EnqueueOptions" where
  "queue_options q delay = \<lparr> eo_queue_name = Some q, eo_job_id = None, eo_unique_key = None, eo_max_retries = None,
     eo_job_timeout_seconds = None, eo_defer_until = None, eo_defer_by = delay, eo_result_ttl_seconds = None,
     eo_trace_context = None \<rparr>"

definition job_replay ::
  "'r redis \<Rightarrow> codec \<Rightarrow> (strmap option \<Rightarrow> strmap option) \<Rightarrow> string \<Rightarrow> datetime \<Rightarrow> RRQSettings \<Rightarrow> string \<Rightarrow> string option
    \<Rightarrow> ('r, job option) io" where
  "job_replay R C inject new_id now settings job_id queue =
     andThen (get_job_data_map R job_id) (\<lambda>job_map.
     case job_map of
       None \<Rightarrow> ret None
     | Some m \<Rightarrow>
         (case fmlookup m ''function_name'' of
            None \<Rightarrow> fail (Bail ''job missing function_name'')
          | Some function_name \<Rightarrow>
              let ps = (case cli_parse_json C (fmlookup m ''job_params'') of Some (JObj kvs) \<Rightarrow> kvs | _ \<Rightarrow> []);
                  queue_name = or_default queue (field_or m ''queue_name'' (default_queue_name settings))
              in andThen (enqueue R C inject new_id now settings function_name ps (queue_options queue_name None))
                   (\<lambda>job. ret (Some job))))"

text \<open>\<open>debug submit\<close>: \<open>delay\<close> in seconds.\<close>

definition debug_submit ::
  "'r redis \<Rightarrow> codec \<Rightarrow> (strmap option \<Rightarrow> strmap option) \<Rightarrow> string \<Rightarrow> datetime \<Rightarrow> RRQSettings \<Rightarrow> string
    \<Rightarrow> string option \<Rightarrow> string option \<Rightarrow> string option \<Rightarrow> int option \<Rightarrow> ('r, job) io" where
  "debug_submit R C inject new_id now settings function_name args kwargs queue delay =
     (let params0 = (case Option.bind kwargs (json_parse C) of Some (JObj kvs) \<Rightarrow> kvs | _ \<Rightarrow> []);
          params1 = (case args of
             None \<Rightarrow> Inr params0
           | Some raw \<Rightarrow>
               (case json_parse C raw of
                  None \<Rightarrow> Inl (Bail ''--args must be valid JSON array'')
                | Some (JArr values) \<Rightarrow>
                    if map_of params0 ''args'' \<noteq> None then Inl (Bail (''--args conflicts with kwargs key '' @ quoted ''args''))
                    else Inr (minsert ''args'' (JArr values) params0)
                | Some _ \<Rightarrow> Inl (Bail ''--args must be a JSON array'')))
      in case params1 of
           Inl e \<Rightarrow> fail e
         | Inr ps \<Rightarrow>
             andThen (case delay of None \<Rightarrow> ret None | Some n \<Rightarrow> andThen (duration_seconds n) (\<lambda>d. ret (Some d))) (\<lambda>d.
             enqueue R C inject new_id now settings function_name ps
               (queue_options (or_default queue (default_queue_name settings)) d)))"

definition insert_job_batch :: "'r redis \<Rightarrow> codec \<Rightarrow> job list \<Rightarrow> ('r, unit) io" where
  "insert_job_batch R C jobs =
     forEach jobs (\<lambda>job.
       andThen (save_job_definition R C job) (\<lambda>_.
       if j_status job = Pending
       then (case j_queue_name job of
               Some q \<Rightarrow> add_job_to_queue R q (j_id job) (of_int (timestamp_millis (j_enqueue_time job)))
             | None \<Rightarrow> ret ())
       else ret ()))"

section \<open>Dead letter queues\<close>

text \<open>Newest first.\<close>

definition newest_first :: "codec \<Rightarrow> string \<Rightarrow> ('a \<Rightarrow> rhash) \<Rightarrow> 'a list \<Rightarrow> 'a list" where
  "newest_first C f m xs = sort_key (\<lambda>x. - timestamp_field C f (m x)) xs"

text \<open>\<open>chunks\<close> of at least one id; the page is taken after the filter and the sort.\<close>

function chunks :: "nat \<Rightarrow> 'a list \<Rightarrow> 'a list list" where
  "chunks n xs = (if n = 0 \<or> xs = [] then [] else take n xs # chunks n (drop n xs))"
  by pat_completeness auto
termination by (relation "measure (length \<circ> snd)") auto

declare chunks.simps [simp del]

definition dlq_list ::
  "'r redis \<Rightarrow> codec \<Rightarrow> RRQSettings \<Rightarrow> string option \<Rightarrow> string option \<Rightarrow> string option \<Rightarrow> nat \<Rightarrow> nat \<Rightarrow> nat
    \<Rightarrow> ('r, rhash list) io" where
  "dlq_list R C settings dlq_name queue function_name limit offset batch_size =
     andThen (get_dlq_job_ids R (or_default dlq_name (default_dlq_name settings))) (\<lambda>job_ids.
     andThen (foldIO (\<lambda>batch jobs. andThen (get_job_data_maps R batch) (\<lambda>maps.
         ret (jobs @ filter (job_matches queue function_name) (List.map_filter id maps))))
       (chunks (max 1 batch_size) job_ids) []) (\<lambda>jobs.
     ret (take limit (drop offset (newest_first C ''completion_time'' id jobs)))))"

text \<open>\<open>clk\<close> is the clock when a job is put back.\<close>

definition dlq_requeue_job :: "'r redis \<Rightarrow> string \<Rightarrow> string \<Rightarrow> (string \<Rightarrow> datetime) \<Rightarrow> string \<Rightarrow> ('r, bool) io" where
  "dlq_requeue_job R dlq_name target_queue clk job_id =
     (if job_id = [] then ret False
      else andThen (dlq_remove_job R dlq_name job_id) (\<lambda>removed.
        if 0 < removed then
          andThen (add_job_to_queue R target_queue job_id (of_int (timestamp_millis (clk job_id)))) (\<lambda>_.
          andThen (attempt (update_job_fields R job_id [(''status'', as_str Pending), (''queue_name'', target_queue)])) (\<lambda>_.
          ret True))
        else ret False))"

record DlqRequeueOptions =
  do_dlq_name :: "string option"
  do_target_queue :: "string option"
  do_queue :: "string option"
  do_function :: "string option"
  do_job_id :: "string option"
  do_limit :: "nat option"
  do_all :: bool
  do_dry_run :: bool

datatype requeue_result = Refused | DryRun "string list" | Requeued nat string

definition dlq_select :: "'r redis \<Rightarrow> DlqRequeueOptions \<Rightarrow> string list \<Rightarrow> ('r, rhash list) io" where
  "dlq_select R options job_ids =
     foldIO (\<lambda>job_id jobs. andThen (get_job_data_map R job_id) (\<lambda>job_map.
       ret (case job_map of
              Some m \<Rightarrow>
                if (case do_job_id options of Some filt \<Rightarrow> job_id = filt | None \<Rightarrow> True)
                  \<and> job_matches (do_queue options) (do_function options) m
                then jobs @ [m] else jobs
            | None \<Rightarrow> jobs))) job_ids []"

definition dlq_requeue ::
  "'r redis \<Rightarrow> RRQSettings \<Rightarrow> (string \<Rightarrow> datetime) \<Rightarrow> DlqRequeueOptions \<Rightarrow> ('r, requeue_result) io" where
  "dlq_requeue R settings clk options =
     (let dlq_name = or_default (do_dlq_name options) (default_dlq_name settings);
          target_queue = normalize_queue_name (or_default (do_target_queue options) (default_queue_name settings));
          has_filter = (do_queue options \<noteq> None \<or> do_function options \<noteq> None \<or> do_job_id options \<noteq> None)
      in if \<not> has_filter \<and> \<not> do_all options then ret Refused
         else andThen (get_dlq_job_ids R dlq_name) (\<lambda>job_ids.
           andThen (dlq_select R options job_ids) (\<lambda>selected.
           let jobs = (case do_limit options of Some n \<Rightarrow> take n selected | None \<Rightarrow> selected);
               ids = map (\<lambda>m. field_or m ''id'' []) jobs
           in if do_dry_run options then ret (DryRun ids)
              else andThen (foldIO (\<lambda>job_id n. andThen (dlq_requeue_job R dlq_name target_queue clk job_id) (\<lambda>b.
                       ret (if b then n + 1 else n))) ids 0) (\<lambda>requeued.
                ret (Requeued requeued target_queue)))))"

section \<open>Queues and workers\<close>

definition count_dlq_for_queue :: "'r redis \<Rightarrow> string \<Rightarrow> string \<Rightarrow> ('r, nat) io" where
  "count_dlq_for_queue R dlq_name queue_name =
     andThen (get_dlq_job_ids R dlq_name) (\<lambda>job_ids.
     foldIO (\<lambda>job_id n. andThen (get_job_data_map R job_id) (\<lambda>job_map.
       ret (case Option.bind job_map (\<lambda>m. fmlookup m ''queue_name'') of
              Some job_queue \<Rightarrow> if queue_matches queue_name job_queue then n + 1 else n
            | None \<Rightarrow> n))) job_ids 0)"

record queue_counts =
  qc_scanned :: nat
  qc_active :: nat
  qc_completed :: nat
  qc_failed :: nat

definition count_status :: "string \<Rightarrow> queue_counts \<Rightarrow> queue_counts" where
  "count_status status c =
     (let s = map ascii_lower status
      in if s = ''active'' then c\<lparr>qc_active := qc_active c + 1\<rparr>
         else if s = ''completed'' then c\<lparr>qc_completed := qc_completed c + 1\<rparr>
         else if s = ''failed'' then c\<lparr>qc_failed := qc_failed c + 1\<rparr> else c)"

text \<open>The keys of a page, until enough are scanned, and the pages.\<close>

fun count_page :: "'r redis \<Rightarrow> string \<Rightarrow> nat \<Rightarrow> string list \<Rightarrow> queue_counts \<Rightarrow> ('r, queue_counts) io" where
  "count_page R queue_name max_scan [] c = ret c"
| "count_page R queue_name max_scan (key # keys) c =
     (if 0 < max_scan \<and> max_scan \<le> qc_scanned c then ret c
      else let c1 = c\<lparr>qc_scanned := qc_scanned c + 1\<rparr>
           in andThen (get_job_data_map_by_key R key) (\<lambda>job_map.
              count_page R queue_name max_scan keys
                (case job_map of
                   Some m \<Rightarrow> if queue_matches queue_name (field_or m ''queue_name'' [])
                             then count_status (field_or m ''status'' []) c1 else c1
                 | None \<Rightarrow> c1)))"

fun count_pages :: "'r redis \<Rightarrow> string \<Rightarrow> nat \<Rightarrow> string list list \<Rightarrow> queue_counts \<Rightarrow> ('r, queue_counts) io" where
  "count_pages R queue_name max_scan [] c = ret c"
| "count_pages R queue_name max_scan (page # pages) c =
     andThen (count_page R queue_name max_scan page c) (\<lambda>c1.
     if 0 < max_scan \<and> max_scan \<le> qc_scanned c1 then ret c1
     else count_pages R queue_name max_scan pages c1)"

record queue_row =
  qr_name :: string
  qr_total :: int
  qr_pending :: int
  qr_counts :: queue_counts
  qr_avg_wait :: "rat option"
  qr_dlq :: nat

definition queue_stats_row ::
  "'r redis \<Rightarrow> RRQSettings \<Rightarrow> datetime \<Rightarrow> nat \<Rightarrow> string list list \<Rightarrow> string \<Rightarrow> ('r, queue_row option) io" where
  "queue_stats_row R settings now max_scan pages queue_name =
     andThen (queue_size R queue_name) (\<lambda>pending.
     andThen (count_pages R queue_name max_scan pages \<lparr> qc_scanned = 0, qc_active = 0, qc_completed = 0, qc_failed = 0 \<rparr>) (\<lambda>c.
     let total = pending + int (qc_active c + qc_completed c + qc_failed c)
     in if total = 0 then ret None
        else andThen (if 0 < pending
               then andThen (queue_range_with_scores R queue_name 0 99) (\<lambda>entries.
                      ret (if entries = [] then None
                           else Some (sum_list (map (\<lambda>(_, score). (of_int (timestamp_millis now) - score) / 1000) entries)
                                        / of_nat (length entries))))
               else ret None) (\<lambda>avg_wait.
             andThen (count_dlq_for_queue R (default_dlq_name settings) queue_name) (\<lambda>dlq_jobs.
             ret (Some \<lparr> qr_name = queue_name, qr_total = total, qr_pending = pending, qr_counts = c,
                         qr_avg_wait = avg_wait, qr_dlq = dlq_jobs \<rparr>)))))"

definition queue_stats ::
  "'r redis \<Rightarrow> RRQSettings \<Rightarrow> datetime \<Rightarrow> string list \<Rightarrow> nat \<Rightarrow> string list list \<Rightarrow> string list list \<Rightarrow> ('r, queue_row list) io" where
  "queue_stats R settings now queues max_scan queue_pages job_pages =
     (let names = (if queues = [] then map normalize_queue_name (concat queue_pages) else map normalize_queue_name queues)
      in foldIO (\<lambda>q rows. andThen (queue_stats_row R settings now max_scan job_pages q) (\<lambda>row.
           ret (case row of Some r \<Rightarrow> rows @ [r] | None \<Rightarrow> rows))) (remdups_adj (sort names)) [])"

text \<open>The rows of \<open>queue list\<close>: name, size, oldest and newest score.\<close>

definition queue_list :: "'r redis \<Rightarrow> bool \<Rightarrow> string list list \<Rightarrow> ('r, (string \<times> int \<times> rat \<times> rat) list) io" where
  "queue_list R show_empty pages =
     (let score_of = (\<lambda>es :: (string \<times> rat) list. case es of [] \<Rightarrow> 0 | e # _ \<Rightarrow> snd e)
      in foldIO (\<lambda>key rows.
           let queue_name = normalize_queue_name key
           in andThen (queue_size R queue_name) (\<lambda>n.
              if n = 0 \<and> \<not> show_empty then ret rows
              else andThen (queue_range_with_scores R queue_name 0 0) (\<lambda>oldest.
                   andThen (queue_range_with_scores R queue_name (- 1) (- 1)) (\<lambda>newest.
                   ret (rows @ [(queue_name, n, score_of oldest, score_of newest)])))))
         (concat pages) [])"

text \<open>The page of \<open>queue inspect\<close>; \<open>None\<close> when the queue does not exist.\<close>

definition queue_inspect :: "'r redis \<Rightarrow> string \<Rightarrow> nat \<Rightarrow> nat \<Rightarrow> ('r, (string \<times> rat \<times> rhash option) list option) io" where
  "queue_inspect R queue_name0 limit offset =
     (let queue_name = normalize_queue_name queue_name0
      in andThen (queue_exists R queue_name) (\<lambda>b.
         if \<not> b then ret None
         else andThen (queue_size R queue_name) (\<lambda>n.
           if n = 0 then ret (Some [])
           else andThen (queue_range_with_scores R queue_name (int offset) (int (offset + limit - 1))) (\<lambda>entries.
             foldIO (\<lambda>(job_id, score) rows. andThen (get_job_data_map R job_id) (\<lambda>m.
               ret (map_option (\<lambda>rs. rs @ [(job_id, score, m)]) rows))) entries (Some [])))))"

definition check_workers ::
  "'r redis \<Rightarrow> codec \<Rightarrow> string list list \<Rightarrow> ('r, (string \<times> params option \<times> int option) list) io" where
  "check_workers R C pages =
     foldIO (\<lambda>key rows.
       let worker_id = trim_start_matches HEALTH_KEY_PREFIX key
       in andThen (get_worker_health R C worker_id) (\<lambda>(health, ttl). ret (rows @ [(worker_id, health, ttl)])))
     (concat pages) []"

definition job_list ::
  "'r redis \<Rightarrow> codec \<Rightarrow> string option \<Rightarrow> string option \<Rightarrow> string option \<Rightarrow> nat \<Rightarrow> string list list \<Rightarrow> ('r, (string \<times> rhash) list) io" where
  "job_list R C status queue function_name limit pages =
     andThen (foldIO (\<lambda>key jobs. andThen (get_job_data_map_by_key R key) (\<lambda>job_map.
       ret (case job_map of
              Some m \<Rightarrow>
                if (case status of Some filt \<Rightarrow>
                      (case fmlookup m ''status'' of Some v \<Rightarrow> eq_ignore_case v filt | None \<Rightarrow> False) | None \<Rightarrow> True)
                  \<and> job_matches queue function_name m
                then jobs @ [(trim_start_matches JOB_KEY_PREFIX key, m)] else jobs
            | None \<Rightarrow> jobs))) (concat pages) []) (\<lambda>jobs.
     ret (take limit (newest_first C ''enqueue_time'' snd jobs)))"

end
