(* ===== verification/Command_Properties.thy ===== *)
theory Command_Properties
  imports Commands Store_Properties
begin

text \<open>
  What the commands that change jobs leave behind: cancelling takes a job out of its queue or changes nothing;
  requeueing from a dead letter queue moves the selected jobs and no others, and keeps their time to live.
\<close>

context redis_server
begin

lemma command_sims [sim_rules]:
  "sim db (job_cancel R j) (job_cancel ks_redis j)"
  "sim db (dlq_requeue R st clk options) (dlq_requeue ks_redis st clk options)"
  unfolding job_cancel_def dlq_requeue_def dlq_select_def dlq_requeue_job_def Let_def
  by (intro sim_rules)+

end

section \<open>Cancelling\<close>

definition cancellable :: "keyspace \<Rightarrow> string \<Rightarrow> bool" where
  "cancellable ks j \<longleftrightarrow> (let h = hash_at ks (format_job_key j) in
     eq_ignore_case (field_or h ''status'' []) ''pending'' \<and> field_or h ''queue_name'' [] \<noteq> []
     \<and> j \<in> zs_members (zset_at ks (format_queue_key (field_or h ''queue_name'' []))))"

definition cancelled_state :: "string \<Rightarrow> keyspace \<Rightarrow> keyspace" where
  "cancelled_state j ks = (let h = hash_at ks (format_job_key j); q = format_queue_key (field_or h ''queue_name'' []) in
     put_hash (format_job_key j) (fmupd ''status'' (as_str Cancelled) h) (put_zset q (zs_del j (zset_at ks q)) ks))"

lemma empty_not_cancellable: "hash_at ks (format_job_key j) = fmempty \<Longrightarrow> \<not> cancellable ks j"
  by (simp add: cancellable_def field_or_def Let_def)

lemma job_cancel_effect:
  assumes "well_typed ks"
  shows "if cancellable ks j then job_cancel ks_redis j ks = (Ok JobCancelled, cancelled_state j ks)
    else \<exists>x. job_cancel ks_redis j ks = (Ok x, ks) \<and> x \<noteq> JobCancelled"
proof (cases "hash_at ks (format_job_key j) = fmempty")
  case True
  then show ?thesis
    using assms by (simp add: empty_not_cancellable job_cancel_def andThen_def ret_def store_effects)
next
  case False
  then show ?thesis
    using assms
    by (auto simp: job_cancel_def andThen_def ret_def store_effects remove_job_from_queue_def update_job_status_def
        effects cancellable_def cancelled_state_def Let_def put_zset_same)
qed

text \<open>C30. Cancelling a job that is PENDING and in its queue takes it out of the queue and marks it CANCELLED; in every
  other case nothing changes. No other key is touched, so a unique lock of the job stays until it expires.\<close>

theorem job_cancel_correct:
  assumes server: "redis_server R db" and wt: "well_typed (db s)"
    and run: "job_cancel R j s = (r, s')"
  shows "if cancellable (db s) j
    then r = Ok JobCancelled
      \<and> fmlookup (hash_at (db s') (format_job_key j)) ''status'' = Some (as_str Cancelled)
      \<and> (let q = format_queue_key (field_or (hash_at (db s) (format_job_key j)) ''queue_name'' []) in
          zset_at (db s') q = zs_del j (zset_at (db s) q)
        \<and> (\<forall>k. k \<noteq> format_job_key j \<longrightarrow> k \<noteq> q \<longrightarrow> db s' k = db s k))
    else db s' = db s \<and> r \<noteq> Ok JobCancelled"
proof -
  have abs: "job_cancel ks_redis j (db s) = (r, db s')"
    by (rule simD [OF redis_server.command_sims(1) [OF server] run])
  show ?thesis
  proof (cases "cancellable (db s) j")
    case True
    then have "r = Ok JobCancelled" "db s' = cancelled_state j (db s)"
      using job_cancel_effect [OF wt, of j] abs by simp_all
    then show ?thesis
      using True wt by (simp add: cancelled_state_def Let_def)
  next
    case False
    then show ?thesis
      using job_cancel_effect [OF wt, of j] abs by auto
  qed
qed

definition pending_keyspace :: keyspace where
  "pending_keyspace =
     put_string (format_unique_key ''u'') ''a'' (Some 60000)
       (put_zset (format_queue_key ''default'') [(10, ''a'')]
         (put_hash (format_job_key ''a'') (hash_put [(''id'', ''a''), (''status'', ''PENDING''), (''queue_name'', ''default''),
            (''job_unique_key'', ''u'')] fmempty) (\<lambda>_. None)))"

lemma pending_any_case: "eq_ignore_case ''PENDING'' ''pending''"
  by code_simp

lemma pending_cancellable: "well_typed pending_keyspace" "cancellable pending_keyspace ''a''"
  by (simp_all add: pending_keyspace_def cancellable_def field_or_def pending_any_case Let_def
      zs_members_def zs_ok_def)

theorem job_cancel_correct_witness:
  "fmlookup (hash_at (snd (job_cancel ks_redis ''a'' pending_keyspace)) (format_job_key ''a'')) ''status'' = Some ''CANCELLED''
   \<and> string_at (snd (job_cancel ks_redis ''a'' pending_keyspace)) (format_unique_key ''u'') = Some ''a''"
proof -
  obtain r ks where run: "job_cancel ks_redis ''a'' pending_keyspace = (r, ks)" by force
  have "fmlookup (hash_at ks (format_job_key ''a'')) ''status'' = Some (as_str Cancelled)"
    "ks (format_unique_key ''u'') = pending_keyspace (format_unique_key ''u'')"
    using job_cancel_correct [OF reference.redis_server_axioms, of pending_keyspace "''a''" r ks] run pending_cancellable
    by (simp_all add: Let_def)
  then show ?thesis
    using run by (simp add: as_str_def string_at_def pending_keyspace_def put_string_def)
qed

section \<open>Requeueing from a dead letter queue\<close>

definition requeued_state :: "string \<Rightarrow> string \<Rightarrow> (string \<Rightarrow> datetime) \<Rightarrow> string \<Rightarrow> keyspace \<Rightarrow> keyspace" where
  "requeued_state d q clk j ks =
     put_hash (format_job_key j) (hash_put [(''status'', as_str Pending), (''queue_name'', q)] (hash_at ks (format_job_key j)))
       (put_zset (format_queue_key q) (zs_put (of_int (timestamp_millis (clk j))) j (zset_at ks (format_queue_key q)))
         (put_list (format_dlq_key d) (remove1 j (list_at ks (format_dlq_key d))) ks))"

lemma requeued_typed [simp]: "well_typed ks \<Longrightarrow> well_typed (requeued_state d q clk j ks)"
  by (simp add: requeued_state_def)

lemma dlq_requeue_job_effect:
  assumes "well_typed ks" "j \<noteq> []" "j \<in> set (list_at ks (format_dlq_key d))"
  shows "dlq_requeue_job ks_redis d q clk j ks = (Ok True, requeued_state d q clk j ks)"
  using assms
  by (simp add: dlq_requeue_job_def dlq_remove_job_def andThen_def attempt_def ret_def effects store_effects
      update_job_fields_def requeued_state_def)

text \<open>What one step leaves of the other jobs.\<close>

lemma requeued_others:
  assumes "well_typed ks"
  shows "list_at (requeued_state d q clk j ks) (format_dlq_key d) = remove1 j (list_at ks (format_dlq_key d))"
    "zs_score i (zset_at (requeued_state d q clk j ks) (format_queue_key q))
      = (if i = j then Some (of_int (timestamp_millis (clk j))) else zs_score i (zset_at ks (format_queue_key q)))"
    "i \<noteq> j \<Longrightarrow> requeued_state d q clk j ks (format_job_key i) = ks (format_job_key i)"
    "hash_at (requeued_state d q clk j ks) (format_job_key j)
      = hash_put [(''status'', as_str Pending), (''queue_name'', q)] (hash_at ks (format_job_key j))"
    "ttl_at (requeued_state d q clk j ks) (format_job_key j) = ttl_at ks (format_job_key j)"
  using assms by (simp_all add: requeued_state_def)

text \<open>The jobs a call selects.\<close>

definition dlq_selects :: "DlqRequeueOptions \<Rightarrow> keyspace \<Rightarrow> string \<Rightarrow> bool" where
  "dlq_selects options ks j \<longleftrightarrow> hash_at ks (format_job_key j) \<noteq> fmempty
     \<and> (case do_job_id options of Some filt \<Rightarrow> j = filt | None \<Rightarrow> True)
     \<and> job_matches (do_queue options) (do_function options) (hash_at ks (format_job_key j))"

definition dlq_selection :: "DlqRequeueOptions \<Rightarrow> keyspace \<Rightarrow> string list \<Rightarrow> string list" where
  "dlq_selection options ks ids =
     (let js = filter (dlq_selects options ks) ids
      in case do_limit options of Some n \<Rightarrow> take n js | None \<Rightarrow> js)"

lemma dlq_select_effect:
  assumes "well_typed ks"
  shows "dlq_select ks_redis options ids ks
    = (Ok (map (\<lambda>j. hash_at ks (format_job_key j)) (filter (dlq_selects options ks) ids)), ks)"
proof -
  let ?f = "\<lambda>job_id jobs. andThen (get_job_data_map ks_redis job_id) (\<lambda>job_map.
       ret (case job_map of
              Some m \<Rightarrow> if (case do_job_id options of Some filt \<Rightarrow> job_id = filt | None \<Rightarrow> True)
                  \<and> job_matches (do_queue options) (do_function options) m then jobs @ [m] else jobs
            | None \<Rightarrow> jobs))"
  have step: "?f j acc ks = (Ok (acc @ (if dlq_selects options ks j then [hash_at ks (format_job_key j)] else [])), ks)" for j acc
    using assms by (auto simp: andThen_def ret_def store_effects dlq_selects_def)
  have "foldIO ?f ids acc ks
      = (Ok (acc @ map (\<lambda>j. hash_at ks (format_job_key j)) (filter (dlq_selects options ks) ids)), ks)" for acc
    using step by (induction ids arbitrary: acc) (simp_all add: andThen_def ret_def)
  then show ?thesis by (simp add: dlq_select_def)
qed

definition requeued_all :: "string \<Rightarrow> string \<Rightarrow> (string \<Rightarrow> datetime) \<Rightarrow> string list \<Rightarrow> keyspace \<Rightarrow> keyspace" where
  "requeued_all d q clk js ks = foldl (\<lambda>ks j. requeued_state d q clk j ks) ks js"

lemma requeued_all_simps [simp]:
  "requeued_all d q clk [] ks = ks"
  "requeued_all d q clk (j # js) ks = requeued_all d q clk js (requeued_state d q clk j ks)"
  by (simp_all add: requeued_all_def)

lemma requeue_loop_effect:
  assumes "well_typed ks" "distinct js" "set js \<subseteq> set (list_at ks (format_dlq_key d))" "[] \<notin> set js"
  shows "foldIO (\<lambda>job_id n. andThen (dlq_requeue_job ks_redis d q clk job_id) (\<lambda>b. ret (if b then n + 1 else n))) js n ks
    = (Ok (n + length js), requeued_all d q clk js ks)" (is "foldIO ?f js n ks = _")
  using assms
proof (induction js arbitrary: n ks)
  case (Cons j js)
  then have "set js \<subseteq> set (list_at (requeued_state d q clk j ks) (format_dlq_key d))"
    by (auto simp: requeued_others intro!: in_set_remove1 [THEN iffD2])
  then have rest: "foldIO ?f js (n + 1) (requeued_state d q clk j ks)
      = (Ok (n + 1 + length js), requeued_all d q clk js (requeued_state d q clk j ks))"
    using Cons by simp
  have "?f j n ks = (Ok (n + 1), requeued_state d q clk j ks)"
    using Cons.prems by (auto simp: andThen_def ret_def dlq_requeue_job_effect)
  then show ?case using rest by (simp add: andThen_Ok)
qed (simp add: ret_def)

lemma requeued_all_others:
  assumes "well_typed ks" "distinct js"
  shows "list_at (requeued_all d q clk js ks) (format_dlq_key d) = foldl (\<lambda>l j. remove1 j l) (list_at ks (format_dlq_key d)) js
    \<and> (\<forall>i. zs_score i (zset_at (requeued_all d q clk js ks) (format_queue_key q))
        = (if i \<in> set js then Some (of_int (timestamp_millis (clk i))) else zs_score i (zset_at ks (format_queue_key q))))
    \<and> (\<forall>i. i \<notin> set js \<longrightarrow> requeued_all d q clk js ks (format_job_key i) = ks (format_job_key i))
    \<and> (\<forall>i \<in> set js. hash_at (requeued_all d q clk js ks) (format_job_key i)
        = hash_put [(''status'', as_str Pending), (''queue_name'', q)] (hash_at ks (format_job_key i))
      \<and> ttl_at (requeued_all d q clk js ks) (format_job_key i) = ttl_at ks (format_job_key i))"
  using assms
proof (induction js arbitrary: ks)
  case (Cons j js)
  let ?ks = "requeued_state d q clk j ks"
  have IH: ?case if "(\<forall>i. hash_at ?ks (format_job_key i) = (if i = j
        then hash_put [(''status'', as_str Pending), (''queue_name'', q)] (hash_at ks (format_job_key j))
        else hash_at ks (format_job_key i))
      \<and> ttl_at ?ks (format_job_key i) = ttl_at ks (format_job_key i))"
    using that Cons.prems Cons.IH [of ?ks] requeued_others [OF Cons.prems(1), where d = d and q = q and clk = clk and j = j]
    by (simp del: hash_put_simps) (metis (no_types, lifting) hash_at_def ttl_at_def)
  have "hash_at ?ks (format_job_key i) = hash_at ks (format_job_key i) \<and> ttl_at ?ks (format_job_key i) = ttl_at ks (format_job_key i)"
    if "i \<noteq> j" for i using requeued_others(3) [OF Cons.prems(1) that] by (simp add: hash_at_def ttl_at_def)
  then show ?case
    using requeued_others(4,5) [OF Cons.prems(1), where d = d and q = q and clk = clk and j = j] by (intro IH) simp
qed simp

lemma foldl_remove1_distinct: "distinct l \<Longrightarrow> foldl (\<lambda>l j. remove1 j l) l js = filter (\<lambda>x. x \<notin> set js) l"
proof (induction js arbitrary: l)
  case (Cons j js)
  then show ?case by (auto simp: distinct_remove1_removeAll removeAll_filter_not_eq intro!: filter_cong)
qed simp

text \<open>C31. Requeueing from a dead letter queue, when every listed job that exists stores its own id: exactly the
  selected jobs, up to the limit, leave the dead letter queue for the target queue, PENDING and due now, and are
  counted; the other jobs, and their places in the dead letter queue, stay as they were. The retry count and
  the time to live of a requeued job stay too.\<close>

theorem dlq_requeue_correct:
  fixes options :: DlqRequeueOptions
  assumes server: "redis_server R db" and wt: "well_typed (db s)"
    and d: "d = or_default (do_dlq_name options) (default_dlq_name settings)"
    and q: "q = normalize_queue_name (or_default (do_target_queue options) (default_queue_name settings))"
    and listed: "distinct (list_at (db s) (format_dlq_key d))" "[] \<notin> set (list_at (db s) (format_dlq_key d))"
      "\<forall>j \<in> set (list_at (db s) (format_dlq_key d)). hash_at (db s) (format_job_key j) \<noteq> fmempty
        \<longrightarrow> fmlookup (hash_at (db s) (format_job_key j)) ''id'' = Some j"
    and selective: "do_all options \<or> do_queue options \<noteq> None \<or> do_function options \<noteq> None \<or> do_job_id options \<noteq> None"
    and real: "\<not> do_dry_run options"
    and run: "dlq_requeue R settings clk options s = (r, s')"
    and js: "js = dlq_selection options (db s) (list_at (db s) (format_dlq_key d))"
  shows "r = Ok (Requeued (length js) q)
    \<and> list_at (db s') (format_dlq_key d) = filter (\<lambda>j. j \<notin> set js) (list_at (db s) (format_dlq_key d))
    \<and> (\<forall>j. zs_score j (zset_at (db s') (format_queue_key q))
        = (if j \<in> set js then Some (of_int (timestamp_millis (clk j))) else zs_score j (zset_at (db s) (format_queue_key q))))
    \<and> (\<forall>j \<in> set js. hash_at (db s') (format_job_key j)
          = hash_put [(''status'', as_str Pending), (''queue_name'', q)] (hash_at (db s) (format_job_key j))
        \<and> ttl_at (db s') (format_job_key j) = ttl_at (db s) (format_job_key j))
    \<and> (\<forall>j. j \<notin> set js \<longrightarrow> db s' (format_job_key j) = db s (format_job_key j))"
proof -
  let ?ks = "db s" and ?ids = "list_at (db s) (format_dlq_key d)"
  have sub: "set js \<subseteq> set ?ids" and dist: "distinct js"
    using listed(1) by (auto simp: js dlq_selection_def Let_def dest: in_set_takeD split: option.splits)
  have own: "field_or (hash_at ?ks (format_job_key j)) ''id'' [] = j" if "j \<in> set ?ids" "dlq_selects options ?ks j" for j
    using that listed(3) by (auto simp: dlq_selects_def field_or_def)
  let ?picked = "filter (dlq_selects options ?ks) ?ids" and ?hash = "\<lambda>j. hash_at ?ks (format_job_key j)"
  have "map (\<lambda>j. field_or (?hash j) ''id'' []) ?picked = ?picked"
    using own by (intro map_idI) auto
  then have ids: "map (\<lambda>m. field_or m ''id'' []) (case do_limit options of
        Some n \<Rightarrow> take n (map ?hash ?picked) | None \<Rightarrow> map ?hash ?picked) = js"
    by (simp add: js dlq_selection_def Let_def take_map [symmetric] o_def split: option.split)
  have listing: "get_dlq_job_ids ks_redis d ?ks = (Ok ?ids, ?ks)"
    using wt by (simp add: get_dlq_job_ids_def ks_lrange_def effects redis_slice_def)
  let ?loop = "foldIO (\<lambda>job_id n. andThen (dlq_requeue_job ks_redis d q clk job_id) (\<lambda>b. ret (if b then n + 1 else n))) js 0"
  have loop: "?loop ?ks = (Ok (length js), requeued_all d q clk js ?ks)"
    using requeue_loop_effect [OF wt dist sub, of q clk 0] listed(2) sub by auto
  have "dlq_requeue ks_redis settings clk options ?ks
      = andThen ?loop (\<lambda>requeued. ret (Requeued requeued q)) ?ks"
    using selective real
    by (auto simp: dlq_requeue_def d [symmetric] q [symmetric] Let_def ids
        andThen_Ok [where m = "get_dlq_job_ids ks_redis d" and s = ?ks, OF listing]
        andThen_Ok [where m = "dlq_select ks_redis options ?ids" and s = ?ks, OF dlq_select_effect [OF wt]])
  then have "dlq_requeue ks_redis settings clk options ?ks = (Ok (Requeued (length js) q), requeued_all d q clk js ?ks)"
    by (simp add: andThen_Ok [where m = ?loop and s = ?ks, OF loop] ret_def)
  then have "r = Ok (Requeued (length js) q)" "db s' = requeued_all d q clk js ?ks"
    using simD [OF redis_server.command_sims(2) [OF server] run] by simp_all
  then show ?thesis
    using requeued_all_others [OF wt dist, of d q clk] foldl_remove1_distinct [OF listed(1)] by simp
qed

definition failed_keyspace :: keyspace where
  "failed_keyspace =
     put_list (format_dlq_key ''dlq'') [''a'', ''b'']
       (put_ttl (format_job_key ''a'') (Some 5000)
         (put_hash (format_job_key ''a'') (hash_put [(''id'', ''a''), (''status'', ''FAILED''), (''current_retries'', ''3'')] fmempty)
           (\<lambda>_. None)))"

definition requeue_a :: DlqRequeueOptions where
  "requeue_a = \<lparr> do_dlq_name = Some ''dlq'', do_target_queue = None, do_queue = None, do_function = None,
     do_job_id = Some ''a'', do_limit = None, do_all = False, do_dry_run = False \<rparr>"

lemma failed_keyspace_facts:
  "well_typed failed_keyspace" "list_at failed_keyspace (format_dlq_key ''dlq'') = [''a'', ''b'']"
  "hash_at failed_keyspace (format_job_key ''a'')
    = hash_put [(''id'', ''a''), (''status'', ''FAILED''), (''current_retries'', ''3'')] fmempty"
  "hash_at failed_keyspace (format_job_key ''b'') = fmempty" "ttl_at failed_keyspace (format_job_key ''a'') = Some 5000"
proof -
  have "put_ttl (format_job_key ''a'') (Some 5000) (put_hash (format_job_key ''a'') h ks) (format_job_key ''a'')
      = (if h = fmempty then None else Some (RHash h, Some 5000))" for h ks
    by (simp add: put_ttl_def put_hash_def)
  then show "ttl_at failed_keyspace (format_job_key ''a'') = Some 5000"
    by (simp add: failed_keyspace_def ttl_at_def)
qed (simp_all add: failed_keyspace_def)

lemma failed_selection:
  "dlq_selection requeue_a failed_keyspace [''a'', ''b''] = [''a'']"
  by (simp add: dlq_selection_def dlq_selects_def requeue_a_def failed_keyspace_facts job_matches_def)

theorem dlq_requeue_correct_witness:
  "let (r, ks) = dlq_requeue ks_redis default_settings (\<lambda>_. 7000000) requeue_a failed_keyspace
   in r = Ok (Requeued 1 ''rrq:queue:default'') \<and> list_at ks (format_dlq_key ''dlq'') = [''b'']
      \<and> zs_score ''a'' (zset_at ks (format_queue_key ''rrq:queue:default'')) = Some 7
      \<and> ttl_at ks (format_job_key ''a'') = Some 5000"
proof -
  obtain r ks where run: "dlq_requeue ks_redis default_settings (\<lambda>_. 7000000) requeue_a failed_keyspace = (r, ks)" by force
  have names: "''dlq'' = or_default (do_dlq_name requeue_a) (default_dlq_name default_settings)"
    "''rrq:queue:default'' = normalize_queue_name (or_default (do_target_queue requeue_a) (default_queue_name default_settings))"
    by (simp_all add: requeue_a_def default_settings_def normalize_queue_name_def starts_with_def QUEUE_KEY_PREFIX_def)
  have "r = Ok (Requeued 1 ''rrq:queue:default'') \<and> list_at ks (format_dlq_key ''dlq'') = [''b'']
      \<and> zs_score ''a'' (zset_at ks (format_queue_key ''rrq:queue:default'')) = Some 7
      \<and> ttl_at ks (format_job_key ''a'') = Some 5000"
    using dlq_requeue_correct [OF reference.redis_server_axioms _ names _ _ _ _ _ run refl] failed_keyspace_facts failed_selection
    by (simp add: requeue_a_def timestamp_millis_def)
  then show ?thesis by (simp add: run)
qed

end
