(* ===== verification/Worker_Command.thy ===== *)
theory Worker_Command
  imports Pool_Requests
begin

text \<open>
  The command that runs a worker (\<open>orchestrator/src/commands/worker.rs\<close>): its set-up from the settings, its end at
  a signal, and the watch mode, which restarts it when files change. What the task of the worker, the signals and
  the file system do are events, taken in the order the code sees them.
\<close>

section \<open>Set-up\<close>

definition saturating_mul_usize :: "nat \<Rightarrow> nat \<Rightarrow> nat" where
  "saturating_mul_usize a b = min (a * b) 18446744073709551615"

definition effective_concurrency :: "string set \<Rightarrow> (string \<times> nat) list \<Rightarrow> (string \<times> nat) list \<Rightarrow> nat" where
  "effective_concurrency needed pool_sizes max_in_flight =
     max 1 (foldl (\<lambda>c (name, pool_size).
       if name \<in> needed
       then (c + saturating_mul_usize pool_size (or_default (map_of max_in_flight name) 1)) mod 18446744073709551616
       else c) 0 pool_sizes)"

text \<open>
  \<open>cpus\<close> is the number of processors, \<open>start\<close> the start of a pool, \<open>as_runner\<close> the runner that a pool is to the
  worker.
\<close>

definition worker_setup ::
  "(string \<Rightarrow> nat \<Rightarrow> IpAddr list option) \<Rightarrow> nat \<Rightarrow> (string \<Rightarrow> SocketRunner \<Rightarrow> error + unit) \<Rightarrow> (SocketRunner \<Rightarrow> 'r runner)
    \<Rightarrow> RRQSettings \<Rightarrow> string list \<Rightarrow> bool \<Rightarrow> bool \<Rightarrow> nat \<Rightarrow> string \<Rightarrow> ('r worker \<times> wlocal) res" where
  "worker_setup resolve cpus start as_runner settings0 queues burst watch_mode pid fresh =
     (let queues_slice = (if queues = [] then None else Some queues);
          needed = determine_needed_runners settings0 queues_slice
      in case resolve_runner_pool_sizes cpus settings0 watch_mode None of
           Inl e \<Rightarrow> Err e
         | Inr pool_sizes \<Rightarrow>
             (case resolve_runner_max_in_flight settings0 watch_mode of
                Inl e \<Rightarrow> Err e
              | Inr max_in_flight \<Rightarrow>
                  let concurrency = effective_concurrency needed pool_sizes max_in_flight;
                      settings = (if watch_mode then settings0\<lparr>worker_shutdown_grace_period_seconds := 0\<rparr> else settings0)
                  in case build_runners_from_settings_filtered resolve cpus start settings (Some pool_sizes)
                            (Some max_in_flight) (Some needed) of
                       Err e \<Rightarrow> Err e
                     | Panic m \<Rightarrow> Panic m
                     | Ok pools \<Rightarrow>
                         (case new_worker settings queues_slice None (map (\<lambda>(n, p). (n, as_runner p)) pools) burst
                                 concurrency pid fresh of
                            Inl e \<Rightarrow> Err e
                          | Inr w \<Rightarrow> Ok w)))"

section \<open>The end of a worker\<close>

datatype worker_end = RunnersClosed | TaskAborted

text \<open>
  What comes first, a signal (\<open>None\<close>) or the end of the task; and then, after a signal, the end of the task if it
  comes in time. The end of a task is the error of joining it, if it panicked.
\<close>

definition run_worker_loop :: "rat \<Rightarrow> (error + unit) option \<Rightarrow> (error + unit) option \<Rightarrow> worker_end res" where
  "run_worker_loop grace first second =
     (if grace + 2 < 0 \<or> 18446744073709551616 \<le> grace + 2 then Panic ''Duration::from_secs_f64''
      else case first of
        Some (Inl e) \<Rightarrow> Err e
      | Some (Inr _) \<Rightarrow> Ok RunnersClosed
      | None \<Rightarrow>
          (case second of
             Some (Inl e) \<Rightarrow> Err e
           | Some (Inr _) \<Rightarrow> Ok RunnersClosed
           | None \<Rightarrow> Ok TaskAborted))"

section \<open>Watching files\<close>

datatype event_kind = AccessEvent | OtherEvent | MetadataEvent | ChangeEvent

text \<open>A path as the code looks at it: relative to the root, its last component, and what the ignore files say.\<close>

record watched_path =
  wp_rel :: string
  wp_base_name :: string
  wp_git_ignored :: bool

text \<open>A set of globs is the predicate it matches; \<open>None\<close> is the empty one.\<close>

type_synonym globset = "(string \<Rightarrow> bool) option"

definition glob_match :: "globset \<Rightarrow> string \<Rightarrow> bool" where
  "glob_match g s = (case g of None \<Rightarrow> False | Some p \<Rightarrow> p s)"

definition glob_match_path :: "globset \<Rightarrow> watched_path \<Rightarrow> bool" where
  "glob_match_path g p \<longleftrightarrow> glob_match g (wp_rel p) \<or> (wp_base_name p \<noteq> [] \<and> glob_match g (wp_base_name p))"

definition should_restart_for_event :: "event_kind \<Rightarrow> watched_path list \<Rightarrow> globset \<Rightarrow> globset \<Rightarrow> bool \<Rightarrow> bool" where
  "should_restart_for_event kind paths include_set ignore_set use_gitignore =
     (if kind = AccessEvent \<or> kind = OtherEvent then False
      else if kind = MetadataEvent then False
      else list_ex (\<lambda>p.
        \<not> (use_gitignore \<and> wp_git_ignored p) \<and> \<not> glob_match_path ignore_set p
        \<and> (include_set = None \<or> glob_match_path include_set p)) paths)"

text \<open>The patterns of the command line win over those of the settings, and those over the default ones.\<close>

definition watch_patterns :: "string list \<Rightarrow> string list \<Rightarrow> string list \<Rightarrow> string list" where
  "watch_patterns given configured fallback =
     (if given = [] then (if configured = [] then fallback else configured) else given)"

definition default_include_patterns :: "string list" where
  "default_include_patterns = [''*.py'', ''*.toml'']"

definition default_ignore_patterns :: "string list" where
  "default_ignore_patterns = [''.git'', ''.git/**'', ''.venv'', ''.venv/**'', ''target'', ''target/**'', ''dist'', ''dist/**'',
     ''build'', ''build/**'', ''__pycache__'', ''**/__pycache__'', ''**/__pycache__/**'', ''*.pyc'', ''**/*.pyc'',
     ''.ruff_cache'', ''.ruff_cache/**'', ''.pytest_cache'', ''.pytest_cache/**'']"

text \<open>The commands before a start: for each, what became of it.\<close>

datatype command_end = SpawnFailed error | WaitFailed error | CommandTimedOut | Exited bool

fun run_pre_restart_cmds :: "nat \<Rightarrow> (string list \<times> command_end) list \<Rightarrow> error + bool" where
  "run_pre_restart_cmds idx [] = Inr True"
| "run_pre_restart_cmds idx ((cmd, outcome) # rest) =
     (if cmd = [] then Inl (Bail (''invalid rrq.watch.pre_restart_cmds['' @ show_nat idx @ '']: command is empty''))
      else case outcome of
        SpawnFailed e \<Rightarrow> Inl e
      | WaitFailed e \<Rightarrow> Inl e
      | CommandTimedOut \<Rightarrow> Inr False
      | Exited success \<Rightarrow> if success then run_pre_restart_cmds (idx + 1) rest else Inr False)"

section \<open>The watch loop\<close>

text \<open>
  The handle of the task of the worker: its output is there once the task has ended, which is an error if the task
  has panicked. A poll takes the output, and a poll after that panics.
\<close>

datatype join_handle = TaskLive | TaskEnded "error + unit" | OutputTaken

fun poll_join :: "join_handle \<Rightarrow> ((error + unit) option \<times> join_handle) res" where
  "poll_join TaskLive = Ok (None, TaskLive)"
| "poll_join (TaskEnded r) = Ok (Some r, OutputTaken)"
| "poll_join OutputTaken = Panic ''JoinHandle polled after completion''"

definition end_task :: "error + unit \<Rightarrow> join_handle \<Rightarrow> join_handle" where
  "end_task r h = (case h of TaskLive \<Rightarrow> TaskEnded r | _ \<Rightarrow> h)"

text \<open>
  \<open>Loading\<close> is the head of the loop, with the settings that are still to be used, \<open>Stopped\<close> the wait after a failed
  command, \<open>Running\<close> the wait while the worker runs, \<open>Joining\<close> the wait for its task, with whether the loop is to
  end.
\<close>

datatype watch_state =
    Loading "RRQSettings option" | Stopped | Running join_handle | Joining bool join_handle | Finished

text \<open>
  \<open>Prepared\<close> is all that happens at the head of the loop: the settings as they are read, what becomes of each
  command, and how the pools of the worker start. \<open>FileEvent\<close> is an error of the watcher, or whether the event calls
  for a restart.
\<close>

datatype 'e watch_event =
    Prepared "error + RRQSettings" "nat \<Rightarrow> command_end" 'e
  | ShutdownSignal
  | FileEvent "error + bool"
  | TaskEnds "error + unit"
  | JoinTimeout

text \<open>\<open>timeout(shutdown_timeout, &mut handle)\<close>, which polls the handle at once, and what follows when it is ready.\<close>

definition await_join :: "bool \<Rightarrow> join_handle \<Rightarrow> watch_state res" where
  "await_join exit_loop h = (case poll_join h of
      Ok (None, h1) \<Rightarrow> Ok (Joining exit_loop h1)
    | Ok (Some (Inl e), _) \<Rightarrow> Err e
    | Ok (Some (Inr _), _) \<Rightarrow> Ok (if exit_loop then Finished else Loading None)
    | Err e \<Rightarrow> Err e
    | Panic m \<Rightarrow> Panic m)"

definition numbered_cmds :: "string list list \<Rightarrow> (nat \<Rightarrow> command_end) \<Rightarrow> (string list \<times> command_end) list" where
  "numbered_cmds cmds outcome = map (\<lambda>(i, cmd). (cmd, outcome i)) (List.enumerate 0 cmds)"

definition watch_prepare ::
  "string list list \<Rightarrow> ('e \<Rightarrow> RRQSettings \<Rightarrow> unit res) \<Rightarrow> error + RRQSettings \<Rightarrow> (nat \<Rightarrow> command_end) \<Rightarrow> 'e \<Rightarrow> watch_state res" where
  "watch_prepare cmds setup loaded outcome launch = (case loaded of
      Inl e \<Rightarrow> Err e
    | Inr settings \<Rightarrow>
        (case run_pre_restart_cmds 0 (numbered_cmds cmds outcome) of
           Inl e \<Rightarrow> Err e
         | Inr ok \<Rightarrow>
             if \<not> ok then Ok Stopped
             else (case setup launch settings of
                Ok _ \<Rightarrow> Ok (Running TaskLive)
              | Err e \<Rightarrow> Err e
              | Panic m \<Rightarrow> Panic m)))"

definition watch_step ::
  "string list list \<Rightarrow> ('e \<Rightarrow> RRQSettings \<Rightarrow> unit res) \<Rightarrow> watch_state \<Rightarrow> 'e watch_event \<Rightarrow> watch_state res" where
  "watch_step cmds setup st ev =
     (case st of
        Loading cached_settings \<Rightarrow>
          (case ev of
             Prepared loaded outcome launch \<Rightarrow>
               watch_prepare cmds setup (case cached_settings of Some settings \<Rightarrow> Inr settings | None \<Rightarrow> loaded) outcome launch
           | _ \<Rightarrow> Ok st)
      | Stopped \<Rightarrow>
          (case ev of
             ShutdownSignal \<Rightarrow> Ok Finished
           | FileEvent (Inr restart) \<Rightarrow> Ok (if restart then Loading None else Stopped)
           | FileEvent (Inl _) \<Rightarrow> Ok (Loading None)
           | _ \<Rightarrow> Ok st)
      | Running handle \<Rightarrow>
          (case ev of
             ShutdownSignal \<Rightarrow> await_join True handle
           | TaskEnds r \<Rightarrow>
               (case poll_join (end_task r handle) of
                  Ok (None, h) \<Rightarrow> Ok (Running h)
                | Ok (Some result, h) \<Rightarrow> await_join True h
                | Err e \<Rightarrow> Err e
                | Panic m \<Rightarrow> Panic m)
           | FileEvent (Inr restart) \<Rightarrow> if restart then await_join False handle else Ok st
           | FileEvent (Inl _) \<Rightarrow> await_join False handle
           | _ \<Rightarrow> Ok st)
      | Joining exit_loop handle \<Rightarrow>
          (case ev of
             TaskEnds r \<Rightarrow> await_join exit_loop (end_task r handle)
           | JoinTimeout \<Rightarrow> Ok (if exit_loop then Finished else Loading None)
           | _ \<Rightarrow> Ok st)
      | Finished \<Rightarrow> Ok Finished)"

fun watch_run ::
  "string list list \<Rightarrow> ('e \<Rightarrow> RRQSettings \<Rightarrow> unit res) \<Rightarrow> watch_state \<Rightarrow> 'e watch_event list \<Rightarrow> watch_state res" where
  "watch_run cmds setup st [] = Ok st"
| "watch_run cmds setup st (ev # evs) =
     (case watch_step cmds setup st ev of Ok st1 \<Rightarrow> watch_run cmds setup st1 evs | Err e \<Rightarrow> Err e | Panic m \<Rightarrow> Panic m)"

text \<open>The set-up of the worker in the loop; what changes between two of them is how pools start and the fresh id.\<close>

definition watch_setup ::
  "(string \<Rightarrow> nat \<Rightarrow> IpAddr list option) \<Rightarrow> nat \<Rightarrow> (SocketRunner \<Rightarrow> 'r runner) \<Rightarrow> string list \<Rightarrow> nat
    \<Rightarrow> (string \<Rightarrow> SocketRunner \<Rightarrow> error + unit) \<times> string \<Rightarrow> RRQSettings \<Rightarrow> unit res" where
  "watch_setup resolve cpus as_runner queues pid launch settings =
     (case worker_setup resolve cpus (fst launch) as_runner settings queues False True pid (snd launch) of
        Ok _ \<Rightarrow> Ok ()
      | Err e \<Rightarrow> Err e
      | Panic m \<Rightarrow> Panic m)"

end
