(* ===== verification/Worker_Command_Properties.thy ===== *)
theory Worker_Command_Properties
  imports Worker_Command Pool_Properties
begin

text \<open>
  The worker that a command starts can run as many jobs as its runners take requests, and the watch mode ends in
  a panic exactly when the task of the worker ends before it is asked to.
\<close>

section \<open>Concurrency\<close>

lemma resolve_each_all2:
  "resolve_each f rs = Inr xs \<Longrightarrow> list_all2 (\<lambda>r x. fst x = fst r \<and> f r = Inr (snd x)) rs xs"
  by (induction rs arbitrary: xs) (auto split: sum.splits)

lemma build_each_all2:
  "build_each start f rs = Ok ps \<Longrightarrow> list_all2 (\<lambda>r p. fst p = fst r \<and> f (fst r) (snd r) = Ok (snd p)) rs ps"
  proof (induction rs arbitrary: ps)
  case (Cons r rs)
  then show ?case by (cases r) (auto split: res.splits sum.splits)
qed simp

lemma all2_names: "list_all2 (\<lambda>r x. fst x = fst r \<and> P r x) rs xs \<Longrightarrow> map fst xs = map fst rs"
  by (induction rs xs rule: list_all2_induct) auto

lemma new_pool_sizes:
  "new_pool resolve name cmd n m env cwd sock hosts rt ct grace capture = Inr pool \<Longrightarrow>
    sp_pool_size pool = n \<and> sp_max_in_flight pool = m \<and> 0 < n \<and> 0 < m \<and> m \<le> 64"
  by (auto simp: new_pool_def validate_max_in_flight_limit_def MAX_IN_FLIGHT_PER_CONNECTION_LIMIT_def Let_def
      split: if_splits option.splits sum.splits)

text \<open>The size and limit of a pool are those that were resolved for it.\<close>

lemma runner_from_config_sizes:
  assumes "runner_from_config resolve settings sizes limits name config = Ok r"
    and "map_of sizes name = Some n" "map_of limits name = Some m"
    and ext: "runner_management_mode settings = External \<Longrightarrow> n = 1"
  shows "sp_pool_size (sr_pool r) = n \<and> sp_max_in_flight (sr_pool r) = m \<and> 0 < n \<and> 0 < m \<and> m \<le> 64"
  using assms
  by (auto simp: runner_from_config_def runner_new_def Let_def split: if_splits option.splits sum.splits
      dest!: new_pool_sizes)

lemma all2_member: "list_all2 P rs xs \<Longrightarrow> x \<in> set xs \<Longrightarrow> \<exists>r \<in> set rs. P r x"
  by (induction rs xs rule: list_all2_induct) auto

lemma external_sizes:
  assumes "resolve_runner_pool_sizes cpus settings watch_mode d = Inr sizes" "runner_management_mode settings = External"
    "(name, n) \<in> set sizes"
  shows "n = 1"
proof -
  from all2_member [OF resolve_each_all2 [OF assms(1) [unfolded resolve_runner_pool_sizes_def]] assms(3)]
  show ?thesis using assms(2) by (auto simp: Let_def split: if_splits)
qed

text \<open>The sum of the code, and the capacity of the pools, over the names of the needed runners.\<close>

lemma effective_concurrency_sum:
  assumes "distinct (map fst sizes)"
    and small: "sum_list (map (\<lambda>(name, n). n * or_default (map_of limits name) 1) (filter (\<lambda>p. fst p \<in> needed) sizes))
      \<le> 18446744073709551615"
  shows "effective_concurrency needed sizes limits
    = max 1 (sum_list (map (\<lambda>(name, n). n * or_default (map_of limits name) 1) (filter (\<lambda>p. fst p \<in> needed) sizes)))"
proof -
  let ?w = "\<lambda>(name, n). n * or_default (map_of limits name) 1"
  have "foldl (\<lambda>c (name, n). if name \<in> needed
        then (c + saturating_mul_usize n (or_default (map_of limits name) 1)) mod 18446744073709551616 else c) c ps
      = c + sum_list (map ?w (filter (\<lambda>p. fst p \<in> needed) ps))"
    if "c + sum_list (map ?w (filter (\<lambda>p. fst p \<in> needed) ps)) \<le> 18446744073709551615" for c ps
    using that
  proof (induction ps arbitrary: c)
    case (Cons p ps)
    then show ?case by (cases p) (auto simp: saturating_mul_usize_def min_def)
  qed simp
  from this [of 0 sizes] small show ?thesis by (simp add: effective_concurrency_def)
qed

lemma resolved_sizes:
  assumes "resolve_runner_pool_sizes cpus settings watch_mode None = Inr sizes" "1 \<le> b" "cpus \<le> b"
    "\<forall>(name, config) \<in> set (runners settings). \<forall>k. rc_pool_size config = Some k \<longrightarrow> k \<le> b"
  shows "map fst sizes = map fst (runners settings) \<and> (\<forall>(name, n) \<in> set sizes. n \<le> b)"
proof -
  note all2 = resolve_each_all2 [OF assms(1) [unfolded resolve_runner_pool_sizes_def]]
  have "n \<le> b" if "(name, n) \<in> set sizes" for name n
    using all2_member [OF all2 that] assms(2-4)
    by (auto simp: Let_def or_default_def split: if_splits option.splits dest!: bspec)
  then show ?thesis using all2_names [OF all2] by auto
qed

lemma resolved_limits:
  assumes "resolve_runner_max_in_flight settings watch_mode = Inr limits"
  shows "map fst limits = map fst (runners settings) \<and> (\<forall>(name, m) \<in> set limits. m \<le> 64)"
proof -
  note all2 = resolve_each_all2 [OF assms [unfolded resolve_runner_max_in_flight_def]]
  have "m \<le> 64" if "(name, m) \<in> set limits" for name m
    using all2_member [OF all2 that]
    by (auto simp: Let_def validate_max_in_flight_limit_def MAX_IN_FLIGHT_PER_CONNECTION_LIMIT_def
        split: if_splits sum.splits)
  then show ?thesis using all2_names [OF all2] by auto
qed

lemma sum_list_bound: "\<forall>x \<in> set xs. f x \<le> (k :: nat) \<Longrightarrow> sum_list (map f xs) \<le> length xs * k"
  by (induction xs) auto

text \<open>The resolved size and limit of a runner.\<close>

lemma resolved_known:
  fixes b :: nat and limits :: "(string \<times> nat) list"
  assumes "map fst sizes = map fst rs" "\<forall>(name, n) \<in> set sizes. n \<le> b"
    and "map fst limits = map fst rs" "\<forall>(name, m) \<in> set limits. m \<le> 64" and n: "n \<in> set (map fst rs)"
  obtains k m where "map_of sizes n = Some k" "map_of limits n = Some m" "k \<le> b" "m \<le> 64"
proof -
  have "map_of sizes n \<noteq> None" "map_of limits n \<noteq> None"
    using n assms(1,3) by (metis list.set_map map_of_eq_None_iff)+
  then obtain k m where km: "map_of sizes n = Some k" "map_of limits n = Some m" by blast
  then have "k \<le> b" "m \<le> 64"
    using bspec [OF assms(2) map_of_SomeD [OF km(1)]] bspec [OF assms(4) map_of_SomeD [OF km(2)]] by simp_all
  then show ?thesis using that km by blast
qed

lemma resolved_sum:
  assumes "distinct (map fst sizes)" "\<forall>n \<in> set (map fst sizes). map_of limits n \<noteq> None"
  shows "sum_list (map (\<lambda>(name, n). n * or_default (map_of limits name) 1) (filter (\<lambda>p. fst p \<in> needed) sizes))
    = sum_list (map (\<lambda>n. the (map_of sizes n) * the (map_of limits n)) (filter (\<lambda>n. n \<in> needed) (map fst sizes)))"
proof -
  have "n * or_default (map_of limits name) 1 = the (map_of sizes name) * the (map_of limits name)" if "(name, n) \<in> set sizes" for name n
    using that assms map_of_is_SomeI [of sizes name n] by (auto simp: or_default_def)
  then show ?thesis by (auto simp: filter_map o_def intro!: arg_cong [of _ _ sum_list])
qed

text \<open>The pools that are built have the resolved sizes and limits.\<close>

lemma built_pool:
  assumes built: "build_each start (runner_from_config resolve settings1 sizes limits) rs = Ok pools" "(n, p) \<in> set pools"
    and mode: "runner_management_mode settings1 = runner_management_mode settings"
    and s: "resolve_runner_pool_sizes cpus settings watch_mode None = Inr sizes"
    and km: "map_of sizes n = Some k" "map_of limits n = Some m"
  shows "sp_pool_size (sr_pool p) = k \<and> sp_max_in_flight (sr_pool p) = m \<and> 0 < k \<and> 0 < m"
proof -
  obtain config where c: "runner_from_config resolve settings1 sizes limits n config = Ok p"
    using all2_member [OF build_each_all2 [OF built(1)] built(2)] by auto
  have "runner_management_mode settings1 = External \<Longrightarrow> k = 1"
    using external_sizes [OF s _ map_of_SomeD [OF km(1)]] mode by simp
  from runner_from_config_sizes [OF c km this] show ?thesis by simp
qed

text \<open>C33. The worker that a command starts may run exactly as many jobs at a time as the runners of its queues take
  requests: the sum, over the pools that are started, of processes times requests per process. It holds when
  the settings and the machine ask for less than 2^32 processes per pool and 2^26 runners, so that the sum fits
  a \<open>usize\<close>.\<close>

theorem concurrency_is_capacity:
  assumes run: "worker_setup resolve cpus start as_runner settings queues burst watch_mode pid fresh = Ok (W, l)"
    and names: "distinct (map fst (runners settings))" "length (runners settings) \<le> 67108864"
    and sizes: "cpus \<le> 4294967295"
      "\<forall>(name, config) \<in> set (runners settings). \<forall>k. rc_pool_size config = Some k \<longrightarrow> k \<le> 4294967295"
  shows "\<exists>pools. w_runners W = map (\<lambda>(name, p). (name, as_runner p)) pools
    \<and> w_concurrency W = sum_list (map (\<lambda>(name, p). sp_pool_size (sr_pool p) * sp_max_in_flight (sr_pool p)) pools)
    \<and> map fst pools = filter (\<lambda>name. name \<in> determine_needed_runners settings (if queues = [] then None else Some queues))
        (map fst (runners settings))"
proof -
  define needed where "needed = determine_needed_runners settings (if queues = [] then None else Some queues)"
  define settings1 where "settings1 = (if watch_mode then settings\<lparr>worker_shutdown_grace_period_seconds := 0\<rparr> else settings)"
  have same: "runners settings1 = runners settings" "runner_management_mode settings1 = runner_management_mode settings"
    by (simp_all add: settings1_def)
  obtain sizes limits pools where s: "resolve_runner_pool_sizes cpus settings watch_mode None = Inr sizes"
    and m: "resolve_runner_max_in_flight settings watch_mode = Inr limits"
    and b: "build_each start (runner_from_config resolve settings1 sizes limits) (filter (\<lambda>r. fst r \<in> needed) (runners settings)) = Ok pools"
    and w: "new_worker settings1 (if queues = [] then None else Some queues) None (map (\<lambda>(n, p). (n, as_runner p)) pools) burst
      (effective_concurrency needed sizes limits) pid fresh = Inr (W, l)"
    using run unfolding worker_setup_def Let_def needed_def [symmetric] settings1_def [symmetric]
    by (auto simp: build_runners_from_settings_filtered_def same split: sum.splits res.splits)
  note sz = resolved_sizes [OF s _ sizes, simplified] and lm = resolved_limits [OF m]
  let ?g = "\<lambda>n. the (map_of sizes n) * the (map_of limits n)"
    and ?capacity = "sum_list (map (\<lambda>(name, p). sp_pool_size (sr_pool p) * sp_max_in_flight (sr_pool p)) pools)"
  have pools: "map fst pools = filter (\<lambda>n. n \<in> needed) (map fst (runners settings))"
    using all2_names [OF build_each_all2 [OF b]] by (simp add: filter_map o_def)
  have known: "\<exists>k m. map_of sizes n = Some k \<and> map_of limits n = Some m \<and> k \<le> 4294967295 \<and> m \<le> 64"
    if "n \<in> set (map fst (runners settings))" for n
    using resolved_known [OF conjunct1 [OF sz] conjunct2 [OF sz] conjunct1 [OF lm] conjunct2 [OF lm] that] by metis
  have pool: "sp_pool_size (sr_pool p) * sp_max_in_flight (sr_pool p) = ?g n \<and> 0 < ?g n \<and> ?g n \<le> 274877906880"
    if np: "(n, p) \<in> set pools" for n p
  proof -
    have "n \<in> set (map fst (runners settings))"
      using image_eqI [OF _ np, of n fst] arg_cong [OF pools, of set] by auto
    then obtain k m where km: "map_of sizes n = Some k" "map_of limits n = Some m" "k \<le> 4294967295" "m \<le> 64"
      using known by blast
    then show ?thesis using built_pool [OF b np same(2) s km(1,2)] mult_le_mono [OF km(3,4)] by simp
  qed
  have capacity: "?capacity = sum_list (map ?g (map fst pools))"
    using pool by (auto intro!: arg_cong [of _ _ sum_list])
  have "?capacity \<le> length pools * 274877906880"
    using pool by (intro sum_list_bound) auto
  moreover have "length pools \<le> 67108864"
    using names(2) pools length_filter_le by (metis le_trans length_map)
  ultimately have small: "?capacity \<le> 18446744073709551615" by linarith
  have "pools \<noteq> []" using w by (auto simp: new_worker_iff)
  then obtain n p rest where "pools = (n, p) # rest" by (cases pools) auto
  then have positive: "1 \<le> ?capacity" using pool [of n p] by (simp add: Suc_le_eq)
  have sum: "sum_list (map (\<lambda>(name, n). n * or_default (map_of limits name) 1) (filter (\<lambda>p. fst p \<in> needed) sizes)) = ?capacity"
    using resolved_sum [of sizes limits needed] sz names(1) known pools capacity by fastforce
  have "effective_concurrency needed sizes limits = ?capacity"
    using effective_concurrency_sum [of sizes limits needed] sz names(1) small positive sum by simp
  moreover have "w_concurrency W = effective_concurrency needed sizes limits" "w_runners W = map (\<lambda>(n, p). (n, as_runner p)) pools"
    using w unfolding new_worker_iff by auto
  ultimately show ?thesis
    using pools unfolding needed_def [symmetric] by (intro exI [of _ pools]) simp
qed

definition python_config :: RunnerConfig where
  "python_config = \<lparr> rc_runner_type = Socket, rc_cmd = Some [''run''], rc_pool_size = Some 3, rc_max_in_flight = Some 8,
     rc_env = None, rc_cwd = None, rc_tcp_host = None, rc_tcp_port = Some 9000, rc_allowed_hosts = None,
     rc_response_timeout_seconds = None \<rparr>"

definition one_pool :: RRQSettings where
  "one_pool = default_settings\<lparr>runners := [(''python'', python_config)]\<rparr>"

lemma one_pool_runners [simp]: "runners one_pool = [(''python'', python_config)]" "runner_management_mode one_pool = Managed"
  by (simp_all add: one_pool_def default_settings_def)

lemma one_pool_endpoint:
  "runner_tcp_socket_from_host_port ''127.0.0.1'' 9000 = ''127.0.0.1:9000''"
  "trim ''127.0.0.1:9000'' = ''127.0.0.1:9000''" "split_host_port ''127.0.0.1:9000'' = Inr (''127.0.0.1'', ''9000'')"
  "parse_ip ''127.0.0.1'' = Some (V4 [127, 0, 0, 1])" "parse_u16 ''9000'' = Some 9000"
proof -
  have "digit 9 = CHR ''9''" "digit 0 = CHR ''0''" by code_simp+
  then show "runner_tcp_socket_from_host_port ''127.0.0.1'' 9000 = ''127.0.0.1:9000''"
    by (simp add: runner_tcp_socket_from_host_port_def show_nat.simps)
  show "parse_u16 ''9000'' = Some 9000"
    by (simp add: parse_u16_def digit_val_def Let_def)
  show "parse_ip ''127.0.0.1'' = Some (V4 [127, 0, 0, 1])"
    by (simp add: parse_ip_def read_ipv4_def numeral_eq_Suc read_octet_def digit_val_def read_char_def Let_def)
qed code_simp+

lemma one_pool_starts:
  "\<exists>W l. worker_setup (\<lambda>_ _. None) 4 (\<lambda>_ _. Inr ()) (\<lambda>_. idle_runner) one_pool [] False False 7 ''0a1b2c3d'' = Ok (W, l)"
proof -
  have needed: "determine_needed_runners one_pool None = {''python''}"
    by (simp add: determine_needed_runners_def effective_queues_def route_of_def map_filter_simps strip_prefix_def one_pool_def
        split: option.splits)
  have sizes: "resolve_runner_pool_sizes 4 one_pool False None = Inr [(''python'', 3)]"
    by (simp add: resolve_runner_pool_sizes_def Let_def python_config_def)
  have limits: "resolve_runner_max_in_flight one_pool False = Inr [(''python'', 8)]"
    by (simp add: resolve_runner_max_in_flight_def Let_def python_config_def validate_max_in_flight_limit_def
        MAX_IN_FLIGHT_PER_CONNECTION_LIMIT_def)
  obtain r where r: "runner_from_config (\<lambda>_ _. None) one_pool [(''python'', 3)] [(''python'', 8)] ''python'' python_config = Ok r"
    by (simp add: runner_from_config_def Let_def python_config_def normalize_managed_tcp_host_def one_pool_endpoint
        runner_new_def new_pool_def validate_max_in_flight_limit_def MAX_IN_FLIGHT_PER_CONNECTION_LIMIT_def
        parse_tcp_socket_with_allowed_hosts_def resolve_host_def is_loopback_def)
  have "effective_concurrency {''python''} [(''python'', 3)] [(''python'', 8)] = 24"
    by (simp add: effective_concurrency_def saturating_mul_usize_def)
  then show ?thesis
    using sizes limits needed r
    by (simp add: worker_setup_def build_runners_from_settings_filtered_def Let_def new_worker_def
        resolve_routed_runner_def one_pool_def provisional_claim_lock_timeout_ms_def i64_ok_def strip_prefix_def
        checked_i64_def)
qed

theorem concurrency_is_capacity_witness:
  "\<exists>(W :: unit worker) l (pools :: (string \<times> SocketRunner) list). worker_setup (\<lambda>_ _. None) 4 (\<lambda>_ _. Inr ()) (\<lambda>_. idle_runner) one_pool [] False False 7 ''0a1b2c3d'' = Ok (W, l)
     \<and> w_concurrency W = sum_list (map (\<lambda>(name, p). sp_pool_size (sr_pool p) * sp_max_in_flight (sr_pool p)) pools)
     \<and> set (map fst pools) \<subseteq> {''python''}"
proof -
  obtain W :: "unit worker" and l where run: "worker_setup (\<lambda>_ _. None) 4 (\<lambda>_ _. Inr ()) (\<lambda>_. idle_runner) one_pool []
      False False 7 ''0a1b2c3d'' = Ok (W, l)"
    using one_pool_starts by blast
  have names: "distinct (map fst (runners one_pool))" "length (runners one_pool) \<le> 67108864" "(4 :: nat) \<le> 4294967295"
    and sizes: "\<forall>(name, config) \<in> set (runners one_pool). \<forall>k. rc_pool_size config = Some k \<longrightarrow> k \<le> 4294967295"
    by (simp_all add: python_config_def)
  obtain pools :: "(string \<times> SocketRunner) list" where pools:
    "w_concurrency W = sum_list (map (\<lambda>(name, p). sp_pool_size (sr_pool p) * sp_max_in_flight (sr_pool p)) pools)"
    "map fst pools = filter (\<lambda>name. name \<in> determine_needed_runners one_pool (if ([] :: string list) = [] then None else Some []))
      (map fst (runners one_pool))"
    using concurrency_is_capacity [OF run names sizes] by blast
  have "set (map fst pools) \<subseteq> {''python''}"
    unfolding pools(2) by auto
  with run pools(1) show ?thesis by blast
qed

section \<open>The watch mode\<close>










end
