(* ===== verification/Ffi.thy ===== *)
theory Ffi
  imports Producer Protocol
begin

text \<open>
  The C interface of the producer (\<open>producer/src/ffi.rs\<close>): requests and replies are JSON texts behind C pointers,
  errors and panics are texts behind another pointer. A pointer to a C string is the text before its NUL, or
  \<open>None\<close> when it is null; the handle of a producer is its configuration. The allocation of what is returned, the
  set-up of the tokio runtime and the other notations serde accepts for a struct are left out, and \<open>f64\<close>
  arithmetic is not rounded.
\<close>

section \<open>Pointers, errors and panics\<close>

definition nul :: char where "nul = CHR 0x00"

text \<open>\<open>CString::new\<close>.\<close>

definition to_cstring :: "string \<Rightarrow> error + string" where
  "to_cstring s = (if nul \<in> set s then Inl (Bail ''nul byte found in provided data'') else Inr s)"

definition set_error :: "bool \<Rightarrow> string \<Rightarrow> string option" where
  "set_error error_out message =
     (if \<not> error_out then None else Some (case to_cstring message of Inl _ \<Rightarrow> ''error'' | Inr s \<Rightarrow> s))"

definition is_cont :: "nat \<Rightarrow> bool" where "is_cont b \<longleftrightarrow> 128 \<le> b \<and> b < 192"

text \<open>\<open>str::from_utf8\<close>, on the bytes.\<close>

fun utf8_valid :: "nat list \<Rightarrow> bool" where
  "utf8_valid [] = True"
| "utf8_valid (a # bs) =
     (if a < 128 then utf8_valid bs
      else case bs of
        [] \<Rightarrow> False
      | b # cs \<Rightarrow>
          if 194 \<le> a \<and> a \<le> 223 then is_cont b \<and> utf8_valid cs
          else case cs of
            [] \<Rightarrow> False
          | c # ds \<Rightarrow>
              if 224 \<le> a \<and> a \<le> 239
              then is_cont b \<and> (a = 224 \<longrightarrow> 160 \<le> b) \<and> (a = 237 \<longrightarrow> b < 160) \<and> is_cont c \<and> utf8_valid ds
              else case ds of
                [] \<Rightarrow> False
              | d # es \<Rightarrow> 240 \<le> a \<and> a \<le> 244 \<and> is_cont b \<and> (a = 240 \<longrightarrow> 144 \<le> b) \<and> (a = 244 \<longrightarrow> b < 144)
                          \<and> is_cont c \<and> is_cont d \<and> utf8_valid es)"

definition take_cstr :: "string option \<Rightarrow> error + string" where
  "take_cstr p = (case p of
      None \<Rightarrow> Inl (Bail ''received null pointer'')
    | Some s \<Rightarrow> if utf8_valid (map of_char s) then Inr s else Inl (Bail ''invalid utf-8 sequence''))"

text \<open>What a call returns: the result or a null pointer, and the error, when there is a place for it.\<close>

definition with_unwind :: "bool \<Rightarrow> 'a res \<Rightarrow> 'a option \<times> string option" where
  "with_unwind error_out r = (case r of
      Ok value \<Rightarrow> (Some value, None)
    | Err e \<Rightarrow> (None, set_error error_out (err_text e))
    | Panic m \<Rightarrow> (None, set_error error_out (''panic: '' @ m)))"

text \<open>\<open>in_runtime\<close>: the caller is already inside of a runtime, so a thread of its own runs the call.\<close>

definition block_on_runtime :: "bool \<Rightarrow> ('s, 'a) io \<Rightarrow> ('s, 'a) io" where
  "block_on_runtime in_runtime m s = (case m s of
      (Panic p, s1) \<Rightarrow> if in_runtime then (Err (Bail ''runtime thread failed to deliver result''), s1) else (Panic p, s1)
    | out \<Rightarrow> out)"

definition of_sum :: "error + 'a \<Rightarrow> ('s, 'a) io" where
  "of_sum x = (case x of Inl e \<Rightarrow> fail e | Inr v \<Rightarrow> ret v)"

section \<open>Requests\<close>

datatype EnqueueMode = ModeEnqueue | ModeUnique | ModeRateLimit | ModeDebounce | ModeDeferred

record EnqueueOptionsPayload =
  op_queue_name :: "string option"
  op_job_id :: "string option"
  op_unique_key :: "string option"
  op_unique_ttl_seconds :: "int option"
  op_max_retries :: "int option"
  op_job_timeout_seconds :: "int option"
  op_result_ttl_seconds :: "int option"
  op_trace_context :: "strmap option"
  op_defer_by_seconds :: "rat option"
  op_defer_until :: "string option"
  op_enqueue_time :: "string option"
  op_rate_limit_key :: "string option"
  op_rate_limit_seconds :: "rat option"
  op_debounce_key :: "string option"
  op_debounce_seconds :: "rat option"

record EnqueueRequestPayload =
  er_mode :: "EnqueueMode option"
  er_function_name :: string
  er_params :: "params option"
  er_options :: "EnqueueOptionsPayload option"

definition no_options :: EnqueueOptionsPayload where
  "no_options = \<lparr> op_queue_name = None, op_job_id = None, op_unique_key = None, op_unique_ttl_seconds = None,
     op_max_retries = None, op_job_timeout_seconds = None, op_result_ttl_seconds = None, op_trace_context = None,
     op_defer_by_seconds = None, op_defer_until = None, op_enqueue_time = None, op_rate_limit_key = None,
     op_rate_limit_seconds = None, op_debounce_key = None, op_debounce_seconds = None \<rparr>"

definition as_i64 :: "json \<Rightarrow> int option" where
  "as_i64 v = (case v of JInt n \<Rightarrow> if i64_ok n then Some n else None | _ \<Rightarrow> None)"

definition mode_of_json :: "json \<Rightarrow> EnqueueMode option" where
  "mode_of_json v = (case v of
      JStr s \<Rightarrow>
        if s = ''enqueue'' then Some ModeEnqueue else if s = ''unique'' then Some ModeUnique
        else if s = ''rate_limit'' then Some ModeRateLimit else if s = ''debounce'' then Some ModeDebounce
        else if s = ''deferred'' then Some ModeDeferred else None
    | _ \<Rightarrow> None)"

definition options_of_json :: "codec \<Rightarrow> json \<Rightarrow> EnqueueOptionsPayload option" where
  "options_of_json C v = (case v of
      JObj m \<Rightarrow>
        Option.bind (opt m ''queue_name'' as_string) (\<lambda>queue_name.
        Option.bind (opt m ''job_id'' as_string) (\<lambda>job_id.
        Option.bind (opt m ''unique_key'' as_string) (\<lambda>unique_key.
        Option.bind (opt m ''unique_ttl_seconds'' as_i64) (\<lambda>unique_ttl.
        Option.bind (opt m ''max_retries'' as_i64) (\<lambda>max_retries.
        Option.bind (opt m ''job_timeout_seconds'' as_i64) (\<lambda>job_timeout.
        Option.bind (opt m ''result_ttl_seconds'' as_i64) (\<lambda>result_ttl.
        Option.bind (opt m ''trace_context'' strmap_of_json) (\<lambda>trace_context.
        Option.bind (opt m ''defer_by_seconds'' (as_f64 C)) (\<lambda>defer_by.
        Option.bind (opt m ''defer_until'' as_string) (\<lambda>defer_until.
        Option.bind (opt m ''enqueue_time'' as_string) (\<lambda>enqueue_time.
        Option.bind (opt m ''rate_limit_key'' as_string) (\<lambda>rate_limit_key.
        Option.bind (opt m ''rate_limit_seconds'' (as_f64 C)) (\<lambda>rate_limit_seconds.
        Option.bind (opt m ''debounce_key'' as_string) (\<lambda>debounce_key.
        Option.bind (opt m ''debounce_seconds'' (as_f64 C)) (\<lambda>debounce_seconds.
        Some \<lparr> op_queue_name = queue_name, op_job_id = job_id, op_unique_key = unique_key,
          op_unique_ttl_seconds = unique_ttl, op_max_retries = max_retries, op_job_timeout_seconds = job_timeout,
          op_result_ttl_seconds = result_ttl, op_trace_context = trace_context, op_defer_by_seconds = defer_by,
          op_defer_until = defer_until, op_enqueue_time = enqueue_time, op_rate_limit_key = rate_limit_key,
          op_rate_limit_seconds = rate_limit_seconds, op_debounce_key = debounce_key,
          op_debounce_seconds = debounce_seconds \<rparr>)))))))))))))))
    | _ \<Rightarrow> None)"

definition enqueue_request_of_json :: "codec \<Rightarrow> json \<Rightarrow> EnqueueRequestPayload option" where
  "enqueue_request_of_json C v = (case v of
      JObj m \<Rightarrow>
        Option.bind (opt m ''mode'' mode_of_json) (\<lambda>mode.
        Option.bind (need m ''function_name'' as_string) (\<lambda>function_name.
        Option.bind (opt m ''params'' params_of_json) (\<lambda>ps.
        Option.bind (opt m ''options'' (options_of_json C)) (\<lambda>options.
        Some \<lparr> er_mode = mode, er_function_name = function_name, er_params = ps, er_options = options \<rparr>))))
    | _ \<Rightarrow> None)"

definition infer_mode :: "EnqueueOptionsPayload \<Rightarrow> error + EnqueueMode" where
  "infer_mode options =
     (let has_rate_limit = (op_rate_limit_key options \<noteq> None \<or> op_rate_limit_seconds options \<noteq> None);
          has_debounce = (op_debounce_key options \<noteq> None \<or> op_debounce_seconds options \<noteq> None)
      in if has_rate_limit \<and> has_debounce
         then Inl (Bail ''rate_limit and debounce options are mutually exclusive'')
         else if has_rate_limit then Inr ModeRateLimit
         else if has_debounce then Inr ModeDebounce
         else Inr ModeEnqueue)"

section \<open>Times\<close>

definition parse_datetime :: "codec \<Rightarrow> string \<Rightarrow> error + datetime" where
  "parse_datetime C raw = (case from_rfc3339 C raw of Some t \<Rightarrow> Inr t | None \<Rightarrow> Inl (Bail ''invalid time''))"

definition MAX_MILLIS :: int where "MAX_MILLIS = 9223372036854775807 div 2"

text \<open>\<open>MAX_MILLIS as f64\<close> is the next power of two.\<close>

definition duration_millis_from_seconds :: "f64 \<Rightarrow> string \<Rightarrow> bool \<Rightarrow> error + int" where
  "duration_millis_from_seconds value label allow_zero = (case value of
      Finite v \<Rightarrow>
        if v < 0 \<or> (\<not> allow_zero \<and> v = 0) then Inl (Bail (label @ '' must be positive''))
        else let millis = ceiling (v * 1000)
             in if MAX_MILLIS + 1 < millis then Inl (Bail (label @ '' is too large'')) else Inr millis
    | _ \<Rightarrow> Inl (Bail (label @ '' must be finite'')))"

text \<open>A \<open>Duration\<close> is its nanoseconds.\<close>

definition parse_duration_seconds :: "f64 \<Rightarrow> string \<Rightarrow> error + nat" where
  "parse_duration_seconds value label = map_sum id (\<lambda>ms. nat ms * 1000000) (duration_millis_from_seconds value label False)"

definition parse_duration_seconds_allow_zero :: "f64 \<Rightarrow> string \<Rightarrow> error + nat" where
  "parse_duration_seconds_allow_zero value label =
     map_sum id (\<lambda>ms. nat ms * 1000000) (duration_millis_from_seconds value label True)"

text \<open>\<open>checked_add_signed\<close> of milliseconds.\<close>

definition checked_add_millis :: "datetime \<Rightarrow> int \<Rightarrow> string \<Rightarrow> error + datetime" where
  "checked_add_millis t millis label =
     (if chrono_ok (t + millis * 1000000) then Inr (t + millis * 1000000) else Inl (Bail (label @ '' out of range'')))"

definition scheduled_time_of :: "codec \<Rightarrow> EnqueueOptionsPayload \<Rightarrow> datetime \<Rightarrow> error + datetime option" where
  "scheduled_time_of C options enqueue_time = (case op_defer_until options of
      Some raw \<Rightarrow> map_sum id Some (parse_datetime C raw)
    | None \<Rightarrow>
        (case op_defer_by_seconds options of
           Some seconds \<Rightarrow>
             (case duration_millis_from_seconds (Finite seconds) ''defer_by_seconds'' True of
                Inl e \<Rightarrow> Inl e
              | Inr millis \<Rightarrow>
                  if millis = 0 then Inr None
                  else map_sum id Some (checked_add_millis enqueue_time millis ''defer_by_seconds''))
         | None \<Rightarrow> Inr None))"

section \<open>Enqueueing\<close>

definition producer_options :: "EnqueueOptionsPayload \<Rightarrow> datetime \<Rightarrow> datetime option \<Rightarrow> ProducerOptions" where
  "producer_options options enqueue_time scheduled_time = \<lparr> po_queue_name = op_queue_name options,
     po_job_id = op_job_id options, po_idempotency_key = op_unique_key options,
     po_idempotency_ttl_seconds = (if op_unique_key options = None then None else op_unique_ttl_seconds options),
     po_max_retries = op_max_retries options, po_job_timeout_seconds = op_job_timeout_seconds options,
     po_result_ttl_seconds = op_result_ttl_seconds options, po_enqueue_time = Some enqueue_time,
     po_scheduled_time = scheduled_time, po_trace_context = op_trace_context options \<rparr>"

definition dispatch_enqueue ::
  "'r redis \<Rightarrow> codec \<Rightarrow> (strmap option \<Rightarrow> strmap option) \<Rightarrow> string \<Rightarrow> datetime \<Rightarrow> ProducerConfig \<Rightarrow> EnqueueMode
    \<Rightarrow> string \<Rightarrow> params \<Rightarrow> EnqueueOptionsPayload \<Rightarrow> datetime \<Rightarrow> datetime option \<Rightarrow> ('r, string option) io" where
  "dispatch_enqueue R C inject new_id now cfg mode function_name ps op enqueue_time scheduled_time =
     (let options = producer_options op enqueue_time scheduled_time
      in if mode = ModeRateLimit then
           andThen (of_sum (case op_rate_limit_key op of Some k \<Rightarrow> Inr k | None \<Rightarrow> Inl (Bail ''rate_limit_key is required''))) (\<lambda>key.
           andThen (of_sum (case op_rate_limit_seconds op of Some n \<Rightarrow> Inr n | None \<Rightarrow> Inl (Bail ''rate_limit_seconds is required''))) (\<lambda>seconds.
           andThen (of_sum (parse_duration_seconds (Finite seconds) ''rate_limit_seconds'')) (\<lambda>window.
           enqueue_with_rate_limit R C inject new_id now cfg function_name ps key window options)))
         else if mode = ModeDebounce then
           andThen (of_sum (case op_debounce_key op of Some k \<Rightarrow> Inr k | None \<Rightarrow> Inl (Bail ''debounce_key is required''))) (\<lambda>key.
           andThen (of_sum (case op_debounce_seconds op of Some n \<Rightarrow> Inr n | None \<Rightarrow> Inl (Bail ''debounce_seconds is required''))) (\<lambda>seconds.
           andThen (of_sum (parse_duration_seconds (Finite seconds) ''debounce_seconds'')) (\<lambda>window.
           andThen (of_sum (duration_millis_from_seconds (Finite (of_nat window / 1000000000)) ''debounce_seconds'' False)) (\<lambda>millis.
           andThen (of_sum (checked_add_millis enqueue_time millis ''debounce_seconds'')) (\<lambda>scheduled.
           andThen (enqueue_with_debounce R C inject new_id now cfg function_name ps key window
                      (options\<lparr>po_scheduled_time := Some scheduled\<rparr>)) (\<lambda>job_id. ret (Some job_id)))))))
         else andThen (producer_enqueue R C inject new_id now cfg function_name ps options) (\<lambda>job_id. ret (Some job_id)))"

definition enqueue_response :: "string option \<Rightarrow> json" where
  "enqueue_response job_id = JObj
     [(''status'', JStr (if job_id \<noteq> None then ''enqueued'' else ''rate_limited'')), (''job_id'', or_null JStr job_id)]"

definition ffi_enqueue ::
  "'r redis \<Rightarrow> codec \<Rightarrow> (strmap option \<Rightarrow> strmap option) \<Rightarrow> string \<Rightarrow> datetime \<Rightarrow> bool \<Rightarrow> ProducerConfig option
    \<Rightarrow> string option \<Rightarrow> ('r, string) io" where
  "ffi_enqueue R C inject new_id now in_runtime handle request_json = (case handle of
      None \<Rightarrow> fail (Bail ''producer handle is null'')
    | Some cfg \<Rightarrow>
        andThen (of_sum (take_cstr request_json)) (\<lambda>payload.
        case Option.bind (json_parse C payload) (enqueue_request_of_json C) of
          None \<Rightarrow> fail (Bail ''invalid enqueue request'')
        | Some request \<Rightarrow>
            let ps = or_default (er_params request) [];
                op = or_default (er_options request) no_options
            in andThen (of_sum (case er_mode request of
                          Some m \<Rightarrow> Inr (if m = ModeUnique \<or> m = ModeDeferred then ModeEnqueue else m)
                        | None \<Rightarrow> infer_mode op)) (\<lambda>mode.
               if (case op_unique_ttl_seconds op of Some ttl \<Rightarrow> ttl \<le> 0 | None \<Rightarrow> False)
               then fail (Bail ''unique_ttl_seconds must be positive'')
               else
                 andThen (of_sum (case op_enqueue_time op of Some raw \<Rightarrow> parse_datetime C raw | None \<Rightarrow> Inr now)) (\<lambda>enqueue_time.
                 andThen (of_sum (scheduled_time_of C op enqueue_time)) (\<lambda>scheduled_time.
                 andThen (block_on_runtime in_runtime (dispatch_enqueue R C inject new_id now cfg mode
                            (er_function_name request) ps op enqueue_time scheduled_time)) (\<lambda>job_id.
                 of_sum (to_cstring (json_text C (enqueue_response job_id)))))))))"

definition rrq_producer_enqueue ::
  "'r redis \<Rightarrow> codec \<Rightarrow> (strmap option \<Rightarrow> strmap option) \<Rightarrow> string \<Rightarrow> datetime \<Rightarrow> bool \<Rightarrow> ProducerConfig option
    \<Rightarrow> string option \<Rightarrow> bool \<Rightarrow> 'r \<Rightarrow> (string option \<times> string option) \<times> 'r" where
  "rrq_producer_enqueue R C inject new_id now in_runtime handle request_json error_out s =
     map_prod (with_unwind error_out) id (ffi_enqueue R C inject new_id now in_runtime handle request_json s)"

section \<open>Status and waiting\<close>

definition job_status_string :: "ProducerStatus \<Rightarrow> string" where
  "job_status_string st = (case st of
      PPending \<Rightarrow> ''PENDING'' | PActive \<Rightarrow> ''ACTIVE'' | PCompleted \<Rightarrow> ''COMPLETED'' | PFailed \<Rightarrow> ''FAILED''
    | PRetrying \<Rightarrow> ''RETRYING'' | PUnknown \<Rightarrow> ''UNKNOWN'')"

definition job_result_payload :: "JobResult \<Rightarrow> json" where
  "job_result_payload r = JObj [(''status'', JStr (job_status_string (jr_status r))),
     (''result'', or_null id (jr_result r)), (''last_error'', or_null JStr (jr_last_error r))]"

definition status_response :: "string \<Rightarrow> JobResult option \<Rightarrow> json" where
  "status_response flag r = JObj [(flag, JBool (r \<noteq> None)), (''job'', or_null job_result_payload r)]"

definition ffi_get_job_status ::
  "'r redis \<Rightarrow> codec \<Rightarrow> bool \<Rightarrow> ProducerConfig option \<Rightarrow> string option \<Rightarrow> ('r, string) io" where
  "ffi_get_job_status R C in_runtime handle request_json = (case handle of
      None \<Rightarrow> fail (Bail ''producer handle is null'')
    | Some _ \<Rightarrow>
        andThen (of_sum (take_cstr request_json)) (\<lambda>payload.
        case Option.bind (Option.bind (json_parse C payload) params_of_json) (\<lambda>m. need m ''job_id'' as_string) of
          None \<Rightarrow> fail (Bail ''invalid job status request'')
        | Some job_id \<Rightarrow>
            andThen (block_on_runtime in_runtime (get_job_status R C job_id)) (\<lambda>r.
            of_sum (to_cstring (json_text C (status_response ''found'' r))))))"

definition rrq_producer_get_job_status ::
  "'r redis \<Rightarrow> codec \<Rightarrow> bool \<Rightarrow> ProducerConfig option \<Rightarrow> string option \<Rightarrow> bool \<Rightarrow> 'r
    \<Rightarrow> (string option \<times> string option) \<times> 'r" where
  "rrq_producer_get_job_status R C in_runtime handle request_json error_out s =
     map_prod (with_unwind error_out) id (ffi_get_job_status R C in_runtime handle request_json s)"

text \<open>The job, the time limit and the interval of a wait.\<close>

definition wait_request :: "codec \<Rightarrow> string \<Rightarrow> error + string \<times> nat \<times> nat" where
  "wait_request C payload =
     (case Option.bind (Option.bind (json_parse C payload) params_of_json) (\<lambda>m.
             Option.bind (need m ''job_id'' as_string) (\<lambda>job_id.
             Option.bind (need m ''timeout_seconds'' (as_f64 C)) (\<lambda>timeout.
             Option.bind (opt m ''block_interval_seconds'' (as_f64 C)) (\<lambda>interval. Some (job_id, timeout, interval))))) of
        None \<Rightarrow> Inl (Bail ''invalid wait for completion request'')
      | Some (job_id, timeout_seconds, interval) \<Rightarrow>
          (case parse_duration_seconds (Finite timeout_seconds) ''timeout_seconds'' of
             Inl e \<Rightarrow> Inl e
           | Inr timeout \<Rightarrow>
               (case (case interval of Some v \<Rightarrow> parse_duration_seconds_allow_zero (Finite v) ''block_interval_seconds''
                                     | None \<Rightarrow> Inr 250000000) of
                  Inl e \<Rightarrow> Inl e
                | Inr block_interval \<Rightarrow> Inr (job_id, timeout, block_interval))))"

text \<open>As the wait itself, \<open>None\<close> when it never ends.\<close>

definition ffi_wait_for_completion ::
  "'r redis \<Rightarrow> codec \<Rightarrow> 'r waiting \<Rightarrow> bool \<Rightarrow> ProducerConfig option \<Rightarrow> string option \<Rightarrow> 'r \<Rightarrow> (string res \<times> 'r) option" where
  "ffi_wait_for_completion R C W in_runtime handle request_json s = (case handle of
      None \<Rightarrow> Some (Err (Bail ''producer handle is null''), s)
    | Some _ \<Rightarrow>
        (case take_cstr request_json of
           Inl e \<Rightarrow> Some (Err e, s)
         | Inr payload \<Rightarrow>
             (case wait_request C payload of
                Inl e \<Rightarrow> Some (Err e, s)
              | Inr (job_id, timeout, block_interval) \<Rightarrow>
                  map_option (\<lambda>out.
                      andThen (block_on_runtime in_runtime (\<lambda>_. out)) (\<lambda>r.
                      of_sum (to_cstring (json_text C (status_response ''completed'' r)))) s)
                    (wait_for_completion R C W job_id timeout block_interval s))))"

definition rrq_producer_wait_for_completion ::
  "'r redis \<Rightarrow> codec \<Rightarrow> 'r waiting \<Rightarrow> bool \<Rightarrow> ProducerConfig option \<Rightarrow> string option \<Rightarrow> bool \<Rightarrow> 'r
    \<Rightarrow> ((string option \<times> string option) \<times> 'r) option" where
  "rrq_producer_wait_for_completion R C W in_runtime handle request_json error_out s =
     map_option (map_prod (with_unwind error_out) id) (ffi_wait_for_completion R C W in_runtime handle request_json s)"

section \<open>Producers\<close>

definition producer_config_of_json :: "json \<Rightarrow> (string \<times> ProducerConfig) option" where
  "producer_config_of_json v = (case v of
      JObj m \<Rightarrow>
        Option.bind (need m ''redis_dsn'' as_string) (\<lambda>redis_dsn.
        Option.bind (opt m ''queue_name'' as_string) (\<lambda>queue_name.
        Option.bind (opt m ''max_retries'' as_i64) (\<lambda>max_retries.
        Option.bind (opt m ''job_timeout_seconds'' as_i64) (\<lambda>job_timeout.
        Option.bind (opt m ''result_ttl_seconds'' as_i64) (\<lambda>result_ttl.
        Option.bind (opt m ''idempotency_ttl_seconds'' as_i64) (\<lambda>idempotency_ttl.
        Option.bind (opt m ''correlation_mappings'' strmap_of_json) (\<lambda>mappings.
        let d = default_producer_config
        in Some (redis_dsn, \<lparr> pc_queue_name = or_default queue_name (pc_queue_name d),
          pc_max_retries = or_default max_retries (pc_max_retries d),
          pc_job_timeout_seconds = or_default job_timeout (pc_job_timeout_seconds d),
          pc_result_ttl_seconds = or_default result_ttl (pc_result_ttl_seconds d),
          pc_idempotency_ttl_seconds = or_default idempotency_ttl (pc_idempotency_ttl_seconds d),
          pc_correlation_mappings = or_default mappings (pc_correlation_mappings d) \<rparr>))))))))
    | _ \<Rightarrow> None)"

definition producer_config_from_settings :: "ProducerSettings \<Rightarrow> ProducerConfig" where
  "producer_config_from_settings st = \<lparr> pc_queue_name = ps_queue_name st, pc_max_retries = ps_max_retries st,
     pc_job_timeout_seconds = ps_job_timeout_seconds st, pc_result_ttl_seconds = ps_result_ttl_seconds st,
     pc_idempotency_ttl_seconds = ps_idempotency_ttl_seconds st, pc_correlation_mappings = ps_correlation_mappings st \<rparr>"

text \<open>\<open>connect\<close> opens the connection to Redis; it may panic, as any third-party code.\<close>

definition rrq_producer_new ::
  "codec \<Rightarrow> (string \<Rightarrow> unit res) \<Rightarrow> string option \<Rightarrow> bool \<Rightarrow> ProducerConfig option \<times> string option" where
  "rrq_producer_new C connect config_json error_out = with_unwind error_out (case take_cstr config_json of
      Inl e \<Rightarrow> Err e
    | Inr payload \<Rightarrow>
        (case Option.bind (json_parse C payload) producer_config_of_json of
           None \<Rightarrow> Err (Bail ''invalid producer config'')
         | Some (dsn, config) \<Rightarrow>
             (case connect dsn of Ok _ \<Rightarrow> Ok config | Err e \<Rightarrow> Err e | Panic m \<Rightarrow> Panic m)))"

text \<open>\<open>load\<close> reads the settings.\<close>

definition ffi_settings :: "(string option \<Rightarrow> error + RRQSettings) \<Rightarrow> string option \<Rightarrow> error + ProducerSettings" where
  "ffi_settings load config_path =
     (case (case config_path of None \<Rightarrow> Inr None | Some _ \<Rightarrow> map_sum id Some (take_cstr config_path)) of
        Inl e \<Rightarrow> Inl e
      | Inr path \<Rightarrow> map_sum id producer_settings_from (load path))"

definition rrq_producer_new_from_toml ::
  "(string option \<Rightarrow> error + RRQSettings) \<Rightarrow> (string \<Rightarrow> unit res) \<Rightarrow> string option \<Rightarrow> bool
    \<Rightarrow> ProducerConfig option \<times> string option" where
  "rrq_producer_new_from_toml load connect config_path error_out =
     with_unwind error_out (case ffi_settings load config_path of
         Inl e \<Rightarrow> Err e
       | Inr settings \<Rightarrow>
           (case connect (ps_redis_dsn settings) of
              Ok _ \<Rightarrow> Ok (producer_config_from_settings settings) | Err e \<Rightarrow> Err e | Panic m \<Rightarrow> Panic m))"

definition settings_json :: "ProducerSettings \<Rightarrow> json" where
  "settings_json st = JObj [(''redis_dsn'', JStr (ps_redis_dsn st)), (''queue_name'', JStr (ps_queue_name st)),
     (''max_retries'', JInt (ps_max_retries st)), (''job_timeout_seconds'', JInt (ps_job_timeout_seconds st)),
     (''result_ttl_seconds'', JInt (ps_result_ttl_seconds st)),
     (''idempotency_ttl_seconds'', JInt (ps_idempotency_ttl_seconds st)),
     (''correlation_mappings'', json_of_strmap (ps_correlation_mappings st))]"

definition rrq_producer_config_from_toml ::
  "codec \<Rightarrow> (string option \<Rightarrow> error + RRQSettings) \<Rightarrow> string option \<Rightarrow> bool \<Rightarrow> string option \<times> string option" where
  "rrq_producer_config_from_toml C load config_path error_out =
     with_unwind error_out (case ffi_settings load config_path of
         Inl e \<Rightarrow> Err e
       | Inr settings \<Rightarrow>
           (case to_cstring (json_text C (settings_json settings)) of Inl e \<Rightarrow> Err e | Inr s \<Rightarrow> Ok s))"

definition rrq_producer_constants :: "codec \<Rightarrow> bool \<Rightarrow> string option \<times> string option" where
  "rrq_producer_constants C error_out =
     with_unwind error_out (case to_cstring (json_text C (JObj [(''job_key_prefix'', JStr JOB_KEY_PREFIX),
         (''queue_key_prefix'', JStr QUEUE_KEY_PREFIX), (''idempotency_key_prefix'', JStr IDEMPOTENCY_KEY_PREFIX)])) of
       Inl e \<Rightarrow> Err e | Inr s \<Rightarrow> Ok s)"

end
