(* ===== verification/Ffi_Properties.thy ===== *)
theory Ffi_Properties
  imports Producer_Properties Ffi
begin

text \<open>
  What the C interface guarantees: a call that returns a null pointer has left the jobs and the queues alone.
  \<open>refusal q m\<close> is the judgement behind it: a run of \<open>m\<close> ends in a result with \<open>q\<close>, or has changed guard keys at
  most.
\<close>

context redis_server
begin

lemma sim_of_sum [sim_rules]: "sim db (of_sum x) (of_sum x)"
  unfolding of_sum_def by (intro sim_rules)

lemma sim_block_on_runtime [sim_rules]:
  assumes "sim db m n"
  shows "sim db (block_on_runtime b m) (block_on_runtime b n)"
proof (rule simI)
  fix s r s'
  assume run: "block_on_runtime b m s = (r, s')"
  obtain q s1 where m: "m s = (q, s1)" by (cases "m s")
  then show "block_on_runtime b n (db s) = (r, db s')"
    using run simD [OF assms m] by (cases q) (auto simp: block_on_runtime_def)
qed

lemma ffi_sims [sim_rules]:
  "sim db (ffi_enqueue R C inject i now b handle req) (ffi_enqueue ks_redis C inject i now b handle req)"
  unfolding ffi_enqueue_def dispatch_enqueue_def by (intro sim_rules)

end

section \<open>Refusals\<close>

definition guard_keys :: "string set" where
  "guard_keys = range format_idempotency_key \<union> range format_rate_limit_key \<union> range format_debounce_key"

lemma guard_keysI [simp]:
  "format_idempotency_key k \<in> guard_keys" "format_rate_limit_key k \<in> guard_keys" "format_debounce_key k \<in> guard_keys"
  by (simp_all add: guard_keys_def)

lemma guard_key_form:
  "k \<in> guard_keys \<Longrightarrow> \<exists>s. k = ''rrq:idempotency:'' @ s \<or> k = ''rrq:rate_limit:'' @ s \<or> k = ''rrq:debounce:'' @ s"
  using guard_key_forms by (fastforce simp: guard_keys_def)

lemma typed_keys_not_guards:
  "format_job_key j \<notin> guard_keys" "format_job_events_key j \<notin> guard_keys" "active_jobs_key w \<notin> guard_keys"
  "format_lock_key j \<notin> guard_keys" "format_unique_key u \<notin> guard_keys" "format_health_key w \<notin> guard_keys"
  "format_queue_key q \<notin> guard_keys" "format_dlq_key d \<notin> guard_keys"
  using format_queue_key_form [of q] format_dlq_key_form [of d]
  by (auto dest!: guard_key_form simp: key_defs key_prefix_defs)

definition same_elsewhere :: "keyspace \<Rightarrow> keyspace \<Rightarrow> bool" where
  "same_elsewhere ks ks' \<longleftrightarrow> (\<forall>k. k \<notin> guard_keys \<longrightarrow> ks' k = ks k)"

definition refusal :: "('a \<Rightarrow> bool) \<Rightarrow> (keyspace, 'a) io \<Rightarrow> bool" where
  "refusal q m \<longleftrightarrow> (\<forall>ks r ks'. well_typed ks \<longrightarrow> m ks = (r, ks') \<longrightarrow> (\<exists>x. r = Ok x \<and> q x) \<or> same_elsewhere ks ks')"

named_theorems refusal_rules
  \<open>introduction rules of \<open>refusal\<close>\<close>

lemma refusal_touches: "touches guard_keys m \<Longrightarrow> refusal q m"
  by (auto simp: refusal_def same_elsewhere_def dest: touchesD)

lemma typed_elsewhere:
  assumes "well_typed ks" "same_elsewhere ks ks'"
  shows "well_typed ks'"
proof -
  have same: "ks' k = ks k" if "k \<notin> guard_keys" for k using assms(2) that by (simp add: same_elsewhere_def)
  have views: "is_hash ks' k = is_hash ks k" "is_zset ks' k = is_zset ks k" "is_list ks' k = is_list ks k"
    "is_string ks' k = is_string ks k" "is_stream ks' k = is_stream ks k" if "k \<notin> guard_keys" for k
    by (rule view_cong, rule same, rule that)+
  show ?thesis
    using assms(1) by (simp add: well_typed_def views typed_keys_not_guards del: well_typedD)
qed

lemma refusal_andThen:
  assumes "touches guard_keys m" "\<And>x. refusal q (f x)"
  shows "refusal q (andThen m f)"
  unfolding refusal_def
proof (intro allI impI)
  fix ks r ks'
  assume wt: "well_typed ks" and run: "andThen m f ks = (r, ks')"
  obtain z ks1 where m: "m ks = (z, ks1)" by (cases "m ks")
  have 1: "same_elsewhere ks ks1" using touchesD [OF assms(1) _ m] by (simp add: same_elsewhere_def)
  show "(\<exists>x. r = Ok x \<and> q x) \<or> same_elsewhere ks ks'"
  proof (cases z)
    case (Ok x)
    then have "f x ks1 = (r, ks')" using run m by (simp add: andThen_def)
    then have "(\<exists>x. r = Ok x \<and> q x) \<or> same_elsewhere ks1 ks'"
      using assms(2) [of x] typed_elsewhere [OF wt 1] by (auto simp: refusal_def)
    then show ?thesis using 1 by (auto simp: same_elsewhere_def)
  qed (use run m 1 in \<open>auto simp: andThen_def\<close>)
qed

text \<open>What follows a call: an accepted result is passed on, any other one is refused.\<close>

lemma refusal_then:
  assumes "refusal p m" "\<And>x. p x \<Longrightarrow> \<exists>y. f x = ret y \<and> q y" "\<And>x. \<not> p x \<Longrightarrow> touches guard_keys (f x)"
  shows "refusal q (andThen m f)"
  unfolding refusal_def
proof (intro allI impI)
  fix ks r ks'
  assume wt: "well_typed ks" and run: "andThen m f ks = (r, ks')"
  obtain z ks1 where m: "m ks = (z, ks1)" by (cases "m ks")
  have 1: "(\<exists>x. z = Ok x \<and> p x) \<or> same_elsewhere ks ks1"
    using assms(1) wt m by (auto simp: refusal_def)
  show "(\<exists>x. r = Ok x \<and> q x) \<or> same_elsewhere ks ks'"
  proof (cases z)
    case (Ok x)
    then have f: "f x ks1 = (r, ks')" using run m by (simp add: andThen_def)
    show ?thesis
    proof (cases "p x")
      case True
      then show ?thesis using assms(2) [of x] f by (auto simp: ret_def)
    next
      case False
      then have "same_elsewhere ks1 ks'" "same_elsewhere ks ks1"
        using touchesD [OF assms(3) _ f] 1 Ok by (auto simp: same_elsewhere_def)
      then show ?thesis by (simp add: same_elsewhere_def)
    qed
  qed (use run m 1 in \<open>auto simp: andThen_def\<close>)
qed

lemma refusal_cases [refusal_rules]:
  "(b \<Longrightarrow> refusal q m1) \<Longrightarrow> (\<not> b \<Longrightarrow> refusal q m2) \<Longrightarrow> refusal q (if b then m1 else m2)"
  "refusal q m3 \<Longrightarrow> (\<And>x. refusal q (g x)) \<Longrightarrow> refusal q (case z of None \<Rightarrow> m3 | Some x \<Rightarrow> g x)"
  "(\<And>x. refusal q (l x)) \<Longrightarrow> refusal q (Let t l)"
  by (simp_all split: option.split)

lemma refusal_basic [refusal_rules]: "refusal q (ret x)" "refusal q (fail e)" "refusal q (panic p)"
  by (intro refusal_touches touch_rules)+

lemma refusal_block [refusal_rules]: "refusal q m \<Longrightarrow> refusal q (block_on_runtime b m)"
  unfolding refusal_def block_on_runtime_def
  by (auto split: prod.splits res.splits if_splits)

section \<open>The scripts\<close>

text \<open>What a script says when it has accepted a job: \<open>1\<close>, and two of them also \<open>0\<close>, for one that is there already.\<close>

definition accepted :: "int set \<Rightarrow> int \<times> string \<Rightarrow> bool" where
  "accepted T out \<longleftrightarrow> fst out \<in> T"

lemma refusal_store [refusal_rules]:
  "1 \<in> T \<Longrightarrow> refusal (accepted T) (lua_store_new_job ks_redis (JOB_KEY_PREFIX @ j) (format_queue_key q) a)"
  unfolding refusal_def job_key_unfold
  by (auto simp: lua_store_new_job_def andThen_def ret_def effects accepted_def)

lemma refusal_tail [refusal_rules]:
  "ik = [] \<or> ik \<in> guard_keys \<Longrightarrow> refusal (accepted {1, 0}) (producer_enqueue_tail ks_redis (JOB_KEY_PREFIX @ j) (format_queue_key q) ik a)"
  "rk \<in> guard_keys \<Longrightarrow> refusal (accepted {1}) (rate_limit_tail ks_redis (JOB_KEY_PREFIX @ j) (format_queue_key q) rk b a)"
  unfolding producer_enqueue_tail_def rate_limit_tail_def
  by (auto intro!: refusal_rules refusal_andThen touch_rules)

lemma refusal_debounce_new [refusal_rules]:
  "dk \<in> guard_keys \<Longrightarrow> refusal (accepted {1, 0}) (debounce_new ks_redis (format_queue_key q) dk a)"
  unfolding debounce_new_def Let_def
  by (auto intro!: refusal_rules refusal_andThen touch_rules)

lemma refusal_reschedule [refusal_rules]:
  "0 < a_ttl_seconds a \<Longrightarrow> i64_ok (a_ttl_seconds a * 1000)
    \<Longrightarrow> refusal (accepted {1, 0}) (debounce_reschedule ks_redis (format_queue_key q) (format_debounce_key k) j a)"
  unfolding refusal_def by (auto simp: debounce_reschedule_effect accepted_def)

lemma refusal_scripts [refusal_rules]:
  "ik = [] \<or> ik \<in> guard_keys \<Longrightarrow> refusal (accepted {1, 0}) (producer_enqueue_script ks_redis (JOB_KEY_PREFIX @ j) (format_queue_key q) ik a)"
  "rk \<in> guard_keys \<Longrightarrow> refusal (accepted {1}) (rate_limit_script ks_redis (JOB_KEY_PREFIX @ j) (format_queue_key q) rk a)"
  "0 < a_ttl_seconds a \<Longrightarrow> i64_ok (a_ttl_seconds a * 1000)
    \<Longrightarrow> refusal (accepted {1, 0}) (debounce_script ks_redis (format_queue_key q) (format_debounce_key k) a)"
  unfolding producer_enqueue_script_def rate_limit_script_def debounce_script_def
  by (auto intro!: refusal_rules refusal_andThen touch_rules)

section \<open>The operations\<close>

lemma touches_check [touch_rules]: "touches K (check_name l v)" "touches K (of_sum x)"
  unfolding check_name_def of_sum_def by (intro touch_rules)+

lemma touches_datetime_add [touch_rules]: "touches K (datetime_add t d)"
  unfolding datetime_add_def by (intro touch_rules)

text \<open>The end of an operation, which passes on what the script has accepted.\<close>

lemma refusal_end:
  assumes "refusal (accepted T) m"
    and "\<And>status i. status \<in> T \<Longrightarrow> \<exists>y. f (status, i) = ret y"
    and "\<And>status i. touches guard_keys (f (status, i))"
  shows "refusal (\<lambda>_. True) (andThen m f)"
  using assms by (intro refusal_then [OF assms(1)]) (auto simp: accepted_def)

lemma refusal_steps [refusal_rules]:
  "(\<And>x. refusal q (g x)) \<Longrightarrow> refusal q (andThen (check_name l v) g)"
  "(\<And>x. refusal q (d x)) \<Longrightarrow> refusal q (andThen (case st of Some t \<Rightarrow> ret t | None \<Rightarrow> datetime_add et w) d)"
  "(\<And>x. x = [] \<or> x \<in> guard_keys \<Longrightarrow> refusal q (k x)) \<Longrightarrow> refusal q (andThen (case key of None \<Rightarrow> ret []
     | Some s \<Rightarrow> andThen (check_name l s) (\<lambda>_. ret (format_idempotency_key s))) k)"
  by (auto simp: andThen_assoc intro!: refusal_andThen touch_rules split: option.split)

lemma refusal_operations [refusal_rules]:
  "refusal (\<lambda>_. True) (producer_enqueue ks_redis C inject i now cfg f ps opts)"
  "refusal (\<lambda>_. True) (enqueue_with_rate_limit ks_redis C inject i now cfg f ps k w opts)"
  "i64_ok (ceil_seconds w * 1000) \<Longrightarrow> refusal (\<lambda>_. True) (enqueue_with_debounce ks_redis C inject i now cfg f ps k w opts)"
  unfolding producer_enqueue_def enqueue_with_rate_limit_def enqueue_with_debounce_def Let_def
  by (auto intro!: refusal_rules refusal_end touch_rules)

section \<open>The C interface\<close>

lemma refusal_of_sum [refusal_rules]:
  "(\<And>x. z = Inr x \<Longrightarrow> refusal q (h x)) \<Longrightarrow> refusal q (andThen (of_sum z) h)"
  by (cases z) (auto simp: of_sum_def intro: refusal_rules)

lemma window_bound:
  assumes "parse_duration_seconds v l = Inr w"
  shows "i64_ok (ceil_seconds w * 1000)"
proof -
  obtain ms where ms: "w = nat ms * 1000000" "ms \<le> 4611686018427387904"
    using assms by (auto simp: parse_duration_seconds_def duration_millis_from_seconds_def MAX_MILLIS_def Let_def
        split: f64.splits if_splits)
  then have "(int w + 999999999) div 1000000000 \<le> 4611686018427388" by auto
  moreover have "0 \<le> (int w + 999999999) div 1000000000" by simp
  ultimately show ?thesis by (simp add: ceil_seconds_def i64_ok_def)
qed

lemma refusal_result:
  assumes "refusal (\<lambda>_. True) m"
  shows "refusal (\<lambda>_. True) (andThen m (\<lambda>x. ret (f x)))"
  by (rule refusal_then [OF assms]) auto

lemma refusal_dispatch [refusal_rules]:
  "refusal (\<lambda>_. True) (dispatch_enqueue ks_redis C inject i now cfg mode f ps op et st)"
  unfolding dispatch_enqueue_def Let_def
  by (auto intro!: refusal_rules refusal_result dest: window_bound)

lemma refusal_reply:
  assumes "refusal (\<lambda>_. True) m" "\<forall>v. nul \<notin> set (json_text C v)"
  shows "refusal (\<lambda>_. True) (andThen m (\<lambda>x. of_sum (to_cstring (json_text C (f x)))))"
  using assms(2) by (intro refusal_then [OF assms(1)]) (auto simp: of_sum_def to_cstring_def)

lemma refusal_ffi:
  assumes "\<forall>v. nul \<notin> set (json_text C v)"
  shows "refusal (\<lambda>_. True) (ffi_enqueue ks_redis C inject i now b handle request)"
  unfolding ffi_enqueue_def Let_def
  using assms by (auto intro!: refusal_rules refusal_reply)

text \<open>C35. A call of \<open>rrq_producer_enqueue\<close> that returns a null pointer has set the error, when there is a place for
  it, and has changed nothing in Redis but keys of idempotency, rate limits and debouncing: no job and no queue.
  This holds for every request, malformed ones and panics included; the JSON text of a reply must have no NUL,
  which \<open>serde_json\<close> guarantees by escaping control characters.\<close>

theorem ffi_enqueue_refused:
  assumes server: "redis_server R db" and wt: "well_typed (db s)"
    and json: "\<forall>v. nul \<notin> set (json_text C v)"
    and run: "rrq_producer_enqueue R C inject i now in_runtime handle request error_out s = ((None, err), s')"
  shows "(error_out \<longrightarrow> err \<noteq> None) \<and> (\<forall>k. k \<notin> guard_keys \<longrightarrow> db s' k = db s k)"
proof -
  obtain r where r: "ffi_enqueue R C inject i now in_runtime handle request s = (r, s')"
    and out: "with_unwind error_out r = (None, err)"
    using run by (cases "ffi_enqueue R C inject i now in_runtime handle request s") (auto simp: rrq_producer_enqueue_def)
  have "ffi_enqueue ks_redis C inject i now in_runtime handle request (db s) = (r, db s')"
    by (rule simD [OF redis_server.ffi_sims [OF server] r])
  then have "(\<exists>x. r = Ok x) \<or> same_elsewhere (db s) (db s')"
    using refusal_ffi [OF json] wt unfolding refusal_def by blast
  then show ?thesis
    using out by (auto simp: with_unwind_def set_error_def same_elsewhere_def split: res.splits)
qed

definition clean_codec :: codec where
  "clean_codec = simple_codec\<lparr>json_text := \<lambda>v. filter (\<lambda>c. c \<noteq> nul) (json_text simple_codec v)\<rparr>"

definition taken_request :: json where
  "taken_request = JObj [(''function_name'', JStr ''f''), (''options'', JObj [(''job_id'', JStr ''p1'')])]"

definition taken_keyspace :: keyspace where
  "taken_keyspace = put_hash (format_job_key ''p1'') (fmupd ''status'' ''ACTIVE'' fmempty) (\<lambda>_. None)"

lemma taken_payload:
  "take_cstr (Some (json_text simple_codec taken_request)) = Inr (json_text simple_codec taken_request)"
  by code_simp

lemma taken_parsed:
  "Option.bind (json_parse clean_codec (json_text simple_codec taken_request)) (enqueue_request_of_json clean_codec)
    = Some \<lparr> er_mode = None, er_function_name = ''f'', er_params = None, er_options = Some (no_options\<lparr>op_job_id := Some ''p1''\<rparr>) \<rparr>"
proof -
  have "json_ok taken_request" by (simp add: taken_request_def)
  then have "json_parse clean_codec (json_text simple_codec taken_request) = Some taken_request"
    using codec_laws.json_roundtrip [OF simple.codec_laws_axioms] by (simp add: clean_codec_def)
  then show ?thesis
    by (simp add: taken_request_def enqueue_request_of_json_def options_of_json_def opt_def need_def read_opt_def
        as_string_def no_options_def)
qed

lemma taken_refused:
  "ffi_enqueue ks_redis clean_codec (\<lambda>c. c) ''new'' 7 False (Some default_producer_config)
      (Some (json_text simple_codec taken_request)) taken_keyspace
    = (Err (Bail ''job_id already exists''), taken_keyspace)"
proof -
  have "trim ''rrq:queue:default'' \<noteq> []" by code_simp
  then show ?thesis
    unfolding ffi_enqueue_def
    by (simp add: taken_payload taken_parsed of_sum_def infer_mode_def no_options_def
        scheduled_time_of_def block_on_runtime_def dispatch_enqueue_def producer_options_def
        producer_enqueue_def sample_names check_name_ok Let_def default_producer_config_def producer_enqueue_script_def
        producer_enqueue_tail_def job_key_unfold andThen_def effects ret_def fail_def taken_keyspace_def put_hash_def)
qed

theorem ffi_enqueue_refused_witness:
  "\<exists>ks. rrq_producer_enqueue ks_redis clean_codec (\<lambda>c. c) ''new'' 7 False (Some default_producer_config)
        (Some (json_text simple_codec taken_request)) True taken_keyspace = ((None, Some ''job_id already exists''), ks)
      \<and> (\<forall>k. k \<notin> guard_keys \<longrightarrow> ks k = taken_keyspace k)"
proof -
  have run: "rrq_producer_enqueue ks_redis clean_codec (\<lambda>c. c) ''new'' 7 False (Some default_producer_config)
      (Some (json_text simple_codec taken_request)) True taken_keyspace
    = ((None, Some ''job_id already exists''), taken_keyspace)"
    by (simp add: rrq_producer_enqueue_def taken_refused with_unwind_def set_error_def to_cstring_def nul_def)
  have "\<forall>v. nul \<notin> set (json_text clean_codec v)" by (simp add: clean_codec_def)
  from ffi_enqueue_refused [OF reference.redis_server_axioms _ this run] show ?thesis
    using run by (simp add: taken_keyspace_def)
qed

end
