(* ===== verification/Otlp.thy ===== *)
theory Otlp
  imports Client
begin

text \<open>
  The settings of the telemetry export (\<open>config/src/otlp.rs\<close>): for each signal, its endpoint and its headers from
  the environment variables of OpenTelemetry. A lookup function stands for the environment.
\<close>

section \<open>Signals\<close>

datatype OtlpSignal = Traces | Metrics | Logs

definition endpoint_env :: "OtlpSignal \<Rightarrow> string" where
  "endpoint_env s = (case s of
      Traces \<Rightarrow> ''OTEL_EXPORTER_OTLP_TRACES_ENDPOINT'' | Metrics \<Rightarrow> ''OTEL_EXPORTER_OTLP_METRICS_ENDPOINT''
    | Logs \<Rightarrow> ''OTEL_EXPORTER_OTLP_LOGS_ENDPOINT'')"

definition headers_env :: "OtlpSignal \<Rightarrow> string" where
  "headers_env s = (case s of
      Traces \<Rightarrow> ''OTEL_EXPORTER_OTLP_TRACES_HEADERS'' | Metrics \<Rightarrow> ''OTEL_EXPORTER_OTLP_METRICS_HEADERS''
    | Logs \<Rightarrow> ''OTEL_EXPORTER_OTLP_LOGS_HEADERS'')"

definition path_suffix :: "OtlpSignal \<Rightarrow> string" where
  "path_suffix s = (case s of Traces \<Rightarrow> ''traces'' | Metrics \<Rightarrow> ''metrics'' | Logs \<Rightarrow> ''logs'')"

datatype OtlpGlobalEndpointStyle = Raw | AppendHttpSignalPath

record OtlpSignalConfig =
  os_endpoint :: "string option"
  os_headers :: strmap
  os_has_explicit_endpoint_env :: bool

record OtlpEnvConfig =
  oe_global_endpoint :: "string option"
  oe_traces :: OtlpSignalConfig
  oe_metrics :: OtlpSignalConfig
  oe_logs :: OtlpSignalConfig

definition otlp_signal :: "OtlpEnvConfig \<Rightarrow> OtlpSignal \<Rightarrow> OtlpSignalConfig" where
  "otlp_signal c s = (case s of Traces \<Rightarrow> oe_traces c | Metrics \<Rightarrow> oe_metrics c | Logs \<Rightarrow> oe_logs c)"

definition explicit_signal_endpoint_count :: "OtlpEnvConfig \<Rightarrow> nat" where
  "explicit_signal_endpoint_count c =
     length (filter os_has_explicit_endpoint_env [oe_traces c, oe_metrics c, oe_logs c])"

definition has_global_endpoint :: "OtlpEnvConfig \<Rightarrow> bool" where
  "has_global_endpoint c \<longleftrightarrow> oe_global_endpoint c \<noteq> None"

section \<open>Endpoints\<close>

definition nonempty_text :: "string option \<Rightarrow> string option" where
  "nonempty_text v = (case v of Some s \<Rightarrow> if trim s = [] then None else Some (trim s) | None \<Rightarrow> None)"

text \<open>The endpoint is cut at the first \<open>?\<close> or \<open>#\<close>.\<close>

definition split_endpoint_suffix :: "string \<Rightarrow> string \<times> string" where
  "split_endpoint_suffix endpoint =
     (takeWhile (\<lambda>c. c \<noteq> CHR ''?'' \<and> c \<noteq> CHR ''#'') endpoint, dropWhile (\<lambda>c. c \<noteq> CHR ''?'' \<and> c \<noteq> CHR ''#'') endpoint)"

text \<open>\<open>str::strip_suffix\<close> and \<open>str::trim_end_matches\<close> of a character.\<close>

definition strip_suffix :: "string \<Rightarrow> string \<Rightarrow> string option" where
  "strip_suffix s p = (if length p \<le> length s \<and> drop (length s - length p) s = p then Some (take (length s - length p) s) else None)"

definition trim_end_char :: "char \<Rightarrow> string \<Rightarrow> string" where
  "trim_end_char c s = rev (dropWhile (\<lambda>x. x = c) (rev s))"

definition strip_otlp_signal_suffix :: "string \<Rightarrow> string" where
  "strip_otlp_signal_suffix endpoint =
     (case List.find (\<lambda>p. strip_suffix endpoint p \<noteq> None) [''/v1/traces'', ''/v1/metrics'', ''/v1/logs''] of
        Some p \<Rightarrow> the (strip_suffix endpoint p)
      | None \<Rightarrow> endpoint)"

definition ensure_signal_path :: "string \<Rightarrow> string \<Rightarrow> string" where
  "ensure_signal_path endpoint signal =
     (let expected_suffix = ''/v1/'' @ signal;
          (endpoint_path0, endpoint_suffix) = split_endpoint_suffix endpoint;
          endpoint_path = trim_end_char CHR ''/'' endpoint_path0
      in if strip_suffix endpoint_path expected_suffix \<noteq> None then endpoint_path @ endpoint_suffix
         else strip_otlp_signal_suffix endpoint_path @ expected_suffix @ endpoint_suffix)"

definition apply_global_endpoint_style :: "string \<Rightarrow> OtlpGlobalEndpointStyle \<Rightarrow> OtlpSignal \<Rightarrow> string" where
  "apply_global_endpoint_style endpoint style signal =
     (case style of Raw \<Rightarrow> endpoint | AppendHttpSignalPath \<Rightarrow> ensure_signal_path endpoint (path_suffix signal))"

section \<open>Headers\<close>

fun split_on :: "char \<Rightarrow> string \<Rightarrow> string list" where
  "split_on c [] = [[]]"
| "split_on c (x # xs) =
     (if x = c then [] # split_on c xs
      else case split_on c xs of [] \<Rightarrow> [[x]] | p # ps \<Rightarrow> (x # p) # ps)"

definition insert_header :: "strmap \<Rightarrow> string \<Rightarrow> strmap" where
  "insert_header headers raw =
     (let pair = trim raw
      in if pair = [] then headers
         else case split_once pair ''='' of
           Some (k, v) \<Rightarrow>
             if trim k \<noteq> [] \<and> trim v \<noteq> [] then sminsert (trim k) (trim v) headers else headers
         | None \<Rightarrow> headers)"

definition parse_otlp_headers :: "string option \<Rightarrow> strmap" where
  "parse_otlp_headers raw = (case raw of None \<Rightarrow> [] | Some s \<Rightarrow> foldl insert_header [] (split_on CHR '','' s))"

section \<open>Resolution\<close>

definition resolve_signal_config ::
  "(string \<Rightarrow> string option) \<Rightarrow> OtlpGlobalEndpointStyle \<Rightarrow> string option \<Rightarrow> strmap \<Rightarrow> OtlpSignal \<Rightarrow> OtlpSignalConfig" where
  "resolve_signal_config lookup style global_endpoint global_headers signal =
     (let explicit_endpoint = lookup (endpoint_env signal)
      in \<lparr> os_endpoint = (case explicit_endpoint of
             Some v \<Rightarrow> nonempty_text (Some v)
           | None \<Rightarrow> map_option (\<lambda>e. apply_global_endpoint_style e style signal) global_endpoint),
           os_headers = foldl (\<lambda>m (k, v). sminsert k v m) global_headers (parse_otlp_headers (lookup (headers_env signal))),
           os_has_explicit_endpoint_env = (explicit_endpoint \<noteq> None) \<rparr>)"

definition resolve_otlp_env_with_lookup :: "OtlpGlobalEndpointStyle \<Rightarrow> (string \<Rightarrow> string option) \<Rightarrow> OtlpEnvConfig" where
  "resolve_otlp_env_with_lookup style lookup =
     (let global_endpoint = nonempty_text (lookup ''OTEL_EXPORTER_OTLP_ENDPOINT'');
          global_headers = parse_otlp_headers (lookup ''OTEL_EXPORTER_OTLP_HEADERS'');
          resolve = resolve_signal_config lookup style global_endpoint global_headers
      in \<lparr> oe_global_endpoint = global_endpoint, oe_traces = resolve Traces, oe_metrics = resolve Metrics,
           oe_logs = resolve Logs \<rparr>)"

section \<open>What describes the service\<close>

text \<open>The resource attributes and the log format of the orchestrator (\<open>orchestrator/src/telemetry.rs\<close>).\<close>

definition trim_char :: "char \<Rightarrow> string \<Rightarrow> string" where
  "trim_char c s = trim_end_char c (dropWhile (\<lambda>x. x = c) s)"

text \<open>A pair without \<open>=\<close> ends the search.\<close>

fun resource_attribute_in :: "string \<Rightarrow> string list \<Rightarrow> string option" where
  "resource_attribute_in key [] = None"
| "resource_attribute_in key (raw # rest) =
     (let pair = trim raw
      in if pair = [] then resource_attribute_in key rest
         else case split_once pair ''='' of
           None \<Rightarrow> None
         | Some (attr_key, v) \<Rightarrow>
             if trim attr_key \<noteq> key then resource_attribute_in key rest
             else let value = trim_char (CHR 0x27) (trim_char (CHR 0x22) (trim v))
                  in if value = [] then None else Some value)"

definition otel_resource_attribute :: "(string \<Rightarrow> string option) \<Rightarrow> string \<Rightarrow> string option" where
  "otel_resource_attribute lookup key =
     Option.bind (lookup ''OTEL_RESOURCE_ATTRIBUTES'') (\<lambda>raw. resource_attribute_in key (split_on CHR '','' raw))"

definition env_optional_nonempty :: "(string \<Rightarrow> string option) \<Rightarrow> string \<Rightarrow> string option" where
  "env_optional_nonempty lookup key = (case lookup key of Some v \<Rightarrow> if v = [] then None else Some v | None \<Rightarrow> None)"

record ResourceMetadata =
  rm_service_name :: string
  rm_environment :: "string option"
  rm_version :: "string option"

definition resolve_resource_metadata :: "(string \<Rightarrow> string option) \<Rightarrow> ResourceMetadata" where
  "resolve_resource_metadata lookup = \<lparr>
     rm_service_name = (case env_optional_nonempty lookup ''OTEL_SERVICE_NAME'' of
         Some n \<Rightarrow> n
       | None \<Rightarrow> or_default (otel_resource_attribute lookup ''service.name'') ''rrq''),
     rm_environment = otel_resource_attribute lookup ''deployment.environment'',
     rm_version = otel_resource_attribute lookup ''service.version'' \<rparr>"

datatype LogFormat = LogJson | LogPretty

definition parse_log_format :: "string \<Rightarrow> LogFormat" where
  "parse_log_format value =
     (let v = map ascii_lower (trim value)
      in if v = ''pretty'' \<or> v = ''text'' \<or> v = ''human'' then LogPretty else LogJson)"

section \<open>What the signals get\<close>

lemma strip_suffix_iff: "strip_suffix s p = Some b \<longleftrightarrow> s = b @ p"
proof
  assume "strip_suffix s p = Some b"
  then have "drop (length s - length p) s = p" "take (length s - length p) s = b"
    by (simp_all add: strip_suffix_def split: if_splits)
  then show "s = b @ p" by (metis append_take_drop_id)
qed (simp add: strip_suffix_def)

lemma trim_end_char_id: "s = [] \<or> last s \<noteq> c \<Longrightarrow> trim_end_char c s = s"
  by (cases s rule: rev_cases) (simp_all add: trim_end_char_def)

lemma trim_end_char_last: "trim_end_char c s = [] \<or> last (trim_end_char c s) \<noteq> c"
  using hd_dropWhile [of "\<lambda>x. x = c" "rev s"]
  by (cases "dropWhile (\<lambda>x. x = c) (rev s) = []") (simp_all add: trim_end_char_def last_rev)

definition sig_path :: "OtlpSignal \<Rightarrow> string" where
  "sig_path s = ''/v1/'' @ path_suffix s"

lemma sig_path_simps:
  "sig_path Traces = ''/v1/traces''" "sig_path Metrics = ''/v1/metrics''" "sig_path Logs = ''/v1/logs''"
  by (simp_all add: sig_path_def path_suffix_def)

text \<open>The path that a signal gets, from the path of the endpoint without its trailing slashes.\<close>

definition signal_path :: "string \<Rightarrow> OtlpSignal \<Rightarrow> string" where
  "signal_path p s = (if strip_suffix p (sig_path s) \<noteq> None then p else strip_otlp_signal_suffix p @ sig_path s)"

lemma strip_signal: "strip_otlp_signal_suffix (b @ sig_path s) = b"
proof -
  have "strip_suffix (b @ sig_path s) (sig_path t) \<noteq> None \<longleftrightarrow> t = s" for t
    by (cases s; cases t) (auto simp: sig_path_simps strip_suffix_def)
  note other = this [of Traces] this [of Metrics] this [of Logs]
  have "strip_suffix (b @ sig_path s) (sig_path s) = Some b" by (simp add: strip_suffix_iff)
  then show ?thesis
    using other by (cases s) (simp_all add: strip_otlp_signal_suffix_def sig_path_simps)
qed

lemma strip_signal_cases: "(\<exists>s. p = strip_otlp_signal_suffix p @ sig_path s) \<or> strip_otlp_signal_suffix p = p"
proof (cases "\<exists>b s. p = b @ sig_path s")
  case True
  then show ?thesis by (auto simp: strip_signal)
next
  case False
  then have "strip_suffix p (sig_path s) = None" for s by (cases "strip_suffix p (sig_path s)") (auto simp: strip_suffix_iff)
  from this [of Traces] this [of Metrics] this [of Logs] show ?thesis
    by (simp add: strip_otlp_signal_suffix_def sig_path_simps)
qed

lemma signal_path_eq: "signal_path p s = strip_otlp_signal_suffix p @ sig_path s"
  by (auto simp: signal_path_def strip_suffix_iff strip_signal)

lemma ensure_signal_path_eq:
  "ensure_signal_path e (path_suffix s)
    = signal_path (trim_end_char CHR ''/'' (fst (split_endpoint_suffix e))) s @ snd (split_endpoint_suffix e)"
  by (simp add: ensure_signal_path_def signal_path_def sig_path_def Let_def split_def)

lemma dropWhile_twice: "dropWhile P (dropWhile P xs) = dropWhile P xs" "takeWhile P (dropWhile P xs) = []"
  by (induction xs) auto

lemma dropWhile_id: "xs \<noteq> [] \<Longrightarrow> \<not> P (hd xs) \<Longrightarrow> dropWhile P xs = xs"
  by (cases xs) auto

text \<open>A path and a suffix that starts at \<open>?\<close> or \<open>#\<close> are split apart again.\<close>

definition plain :: "string \<Rightarrow> bool" where
  "plain p \<longleftrightarrow> CHR ''?'' \<notin> set p \<and> CHR ''#'' \<notin> set p"

lemma split_endpoint_again:
  assumes "plain p"
  shows "split_endpoint_suffix (p @ snd (split_endpoint_suffix e)) = (p, snd (split_endpoint_suffix e))"
proof -
  let ?P = "\<lambda>c. c \<noteq> CHR ''?'' \<and> c \<noteq> CHR ''#''"
  have "\<forall>c \<in> set p. ?P c" using assms by (auto simp: plain_def)
  then show ?thesis by (simp add: split_endpoint_suffix_def dropWhile_twice)
qed

lemma plain_path: "plain (fst (split_endpoint_suffix e))"
  by (auto simp: plain_def split_endpoint_suffix_def dest: set_takeWhileD)

lemma plain_trim: "plain p \<Longrightarrow> plain (trim_end_char c p)"
  by (auto simp: plain_def trim_end_char_def dest!: set_dropWhileD)

lemma plain_sig [simp]: "plain (p @ sig_path s) \<longleftrightarrow> plain p"
  by (cases s) (auto simp: plain_def sig_path_simps)

lemma plain_strip: "plain p \<Longrightarrow> plain (strip_otlp_signal_suffix p)"
  using strip_signal_cases [of p] by (metis plain_sig)

lemma trim_sig [simp]: "trim_end_char CHR ''/'' (p @ sig_path s) = p @ sig_path s"
  by (cases s) (simp_all add: sig_path_simps trim_end_char_id)

lemma ensure_signal_path_again:
  "ensure_signal_path (ensure_signal_path e (path_suffix s)) (path_suffix t) = ensure_signal_path e (path_suffix t)"
proof -
  let ?b = "strip_otlp_signal_suffix (trim_end_char CHR ''/'' (fst (split_endpoint_suffix e)))"
  have "plain (?b @ sig_path s)" by (simp add: plain_strip plain_trim plain_path)
  then show ?thesis
    by (simp add: ensure_signal_path_eq signal_path_eq split_endpoint_again strip_signal del: append_assoc)
qed

text \<open>An endpoint that a signal is given has no blanks around it.\<close>

definition trimmed :: "string \<Rightarrow> bool" where
  "trimmed s \<longleftrightarrow> s = [] \<or> \<not> is_space (hd s) \<and> \<not> is_space (last s)"

lemma trim_trimmed: "trimmed s \<Longrightarrow> trim s = s"
  by (cases "s = []") (auto simp: trimmed_def trim_def dropWhile_id hd_rev)

lemma trimmed_trim: "trimmed (trim s)"
proof (cases "trim s = []")
  case False
  let ?d = "dropWhile is_space s"
  have last: "\<not> is_space (last (trim s))"
    using False hd_dropWhile [of is_space "rev ?d"] by (simp add: trim_def last_rev)
  have "?d \<noteq> []" using False unfolding trim_def by (metis dropWhile.simps(1) rev.simps(1))
  moreover have "rev ?d = takeWhile is_space (rev ?d) @ rev (trim s)" by (simp add: trim_def)
  then have "?d = trim s @ rev (takeWhile is_space (rev ?d))" by (metis rev_append rev_rev_ident)
  then have "hd ?d = hd (trim s)" using False by (metis hd_append2)
  ultimately have "\<not> is_space (hd (trim s))" using hd_dropWhile [of is_space s] by simp
  with last show ?thesis by (simp add: trimmed_def)
qed (simp add: trimmed_def)

lemma trimmed_endpoint:
  assumes "trimmed e"
  shows "trimmed (ensure_signal_path e (path_suffix s)) \<and> ensure_signal_path e (path_suffix s) \<noteq> []"
proof -
  let ?p = "fst (split_endpoint_suffix e)" and ?q = "snd (split_endpoint_suffix e)"
  let ?b = "strip_otlp_signal_suffix (trim_end_char CHR ''/'' ?p)"
  have e: "e = ?p @ ?q" by (simp add: split_endpoint_suffix_def)
  have "?p = trim_end_char CHR ''/'' ?p @ rev (takeWhile (\<lambda>x. x = CHR ''/'') (rev ?p))"
    unfolding trim_end_char_def by (metis rev_append rev_rev_ident takeWhile_dropWhile_id)
  moreover have "\<exists>r. trim_end_char CHR ''/'' ?p = ?b @ r"
    using strip_signal_cases [of "trim_end_char CHR ''/'' ?p"] by (metis append_Nil2)
  ultimately obtain r where r: "e = ?b @ r" using e by (metis append_assoc)
  have sig: "\<not> is_space (hd (sig_path s)) \<and> \<not> is_space (last (sig_path s)) \<and> sig_path s \<noteq> []"
    by (cases s) (simp_all add: sig_path_simps is_space_def Let_def)
  have "\<not> is_space (hd ?b)" if "?b \<noteq> []"
    using assms that r by (metis trimmed_def append_is_Nil_conv hd_append2)
  moreover have "\<not> is_space (last ?q)" if "?q \<noteq> []"
    using assms that e by (metis trimmed_def append_is_Nil_conv last_appendR)
  ultimately show ?thesis
    using sig by (auto simp: ensure_signal_path_eq signal_path_eq trimmed_def hd_append last_append)
qed

text \<open>C36. The global endpoint may name the path of any signal: when a signal takes its endpoint from the global one,
  an environment whose global endpoint is the endpoint of that signal gives every signal the same settings; and
  a signal with a variable of its own, an empty one included, never looks at the global endpoint.\<close>

theorem otlp_endpoint_of_any_signal:
  assumes "lookup (endpoint_env s) = None"
    and "os_endpoint (otlp_signal (resolve_otlp_env_with_lookup AppendHttpSignalPath lookup) s) = Some g"
  shows "otlp_signal (resolve_otlp_env_with_lookup AppendHttpSignalPath (lookup(''OTEL_EXPORTER_OTLP_ENDPOINT'' := Some g))) t
      = otlp_signal (resolve_otlp_env_with_lookup AppendHttpSignalPath lookup) t
    \<and> (lookup (endpoint_env t) \<noteq> None \<longrightarrow> os_endpoint (otlp_signal (resolve_otlp_env_with_lookup AppendHttpSignalPath lookup) t)
         = nonempty_text (lookup (endpoint_env t)))"
proof -
  let ?G = "''OTEL_EXPORTER_OTLP_ENDPOINT''" and ?H = "''OTEL_EXPORTER_OTLP_HEADERS''"
  have signal: "otlp_signal (resolve_otlp_env_with_lookup style l) u
      = resolve_signal_config l style (nonempty_text (l ?G)) (parse_otlp_headers (l ?H)) u" for style l u
    by (cases u) (simp_all add: otlp_signal_def resolve_otlp_env_with_lookup_def Let_def)
  obtain e where e: "nonempty_text (lookup ?G) = Some e" "g = ensure_signal_path e (path_suffix s)"
    using assms by (auto simp: signal resolve_signal_config_def Let_def apply_global_endpoint_style_def)
  then have "trimmed e" using trimmed_trim by (auto simp: nonempty_text_def split: option.splits if_splits)
  then have "nonempty_text (Some g) = Some g"
    using trimmed_endpoint [of e s] by (simp add: nonempty_text_def trim_trimmed e(2))
  moreover have "endpoint_env u \<noteq> ?G \<and> headers_env u \<noteq> ?G" for u
    by (cases u) (simp_all add: endpoint_env_def headers_env_def)
  ultimately show ?thesis
    using e by (auto simp: signal resolve_signal_config_def Let_def apply_global_endpoint_style_def
        ensure_signal_path_again split: option.splits)
qed

definition collector_env :: "string \<Rightarrow> string option" where
  "collector_env = [''OTEL_EXPORTER_OTLP_ENDPOINT'' \<mapsto> ''http://collector:4318/?k=v'',
     ''OTEL_EXPORTER_OTLP_LOGS_ENDPOINT'' \<mapsto> '''']"

theorem otlp_endpoint_of_any_signal_witness:
  "let env = collector_env(''OTEL_EXPORTER_OTLP_ENDPOINT'' := Some ''http://collector:4318/v1/traces?k=v'')
   in os_endpoint (otlp_signal (resolve_otlp_env_with_lookup AppendHttpSignalPath env) Metrics)
        = Some ''http://collector:4318/v1/metrics?k=v''
      \<and> os_endpoint (otlp_signal (resolve_otlp_env_with_lookup AppendHttpSignalPath env) Logs) = None"
proof -
  have env: "collector_env (endpoint_env Traces) = None" by code_simp
  have "os_endpoint (otlp_signal (resolve_otlp_env_with_lookup AppendHttpSignalPath collector_env) Traces)
      = Some ''http://collector:4318/v1/traces?k=v''" by code_simp
  note same = conjunct1 [OF otlp_endpoint_of_any_signal [OF env this]]
  have "os_endpoint (otlp_signal (resolve_otlp_env_with_lookup AppendHttpSignalPath collector_env) Metrics)
      = Some ''http://collector:4318/v1/metrics?k=v''"
    "os_endpoint (otlp_signal (resolve_otlp_env_with_lookup AppendHttpSignalPath collector_env) Logs) = None"
    by code_simp+
  then show ?thesis by (simp add: same)
qed

end
