(* ===== verification/Parent.thy ===== *)
theory Parent
  imports Prelude
begin

text \<open>
  The guard that ends a runner with its parent (\<open>runner/src/parent_guard.rs\<close>, on Unix): a check of the parent when
  the runtime is made, the signal that Linux sends when the parent dies, and a watchdog thread. The process ids
  the operating system answers are arguments; the global slot of the watchdog is given as each of the three
  accesses finds it, since other threads may use it in between.
\<close>

record ParentWatchdog =
  pw_initial_ppid :: int

datatype watchdog_slot = Slot "ParentWatchdog option" | Poisoned

definition is_orphan_ppid :: "int \<Rightarrow> bool" where
  "is_orphan_ppid pid \<longleftrightarrow> pid = 1"

definition orphaned_parent_error :: "string \<Rightarrow> error" where
  "orphaned_parent_error stage = Bail (''runner parent is not alive ('' @ stage @ '')'')"

definition parent_watchdog_installed :: "watchdog_slot \<Rightarrow> error + bool" where
  "parent_watchdog_installed slot =
     (case slot of Poisoned \<Rightarrow> Inl (Bail ''parent watchdog lock poisoned'') | Slot w \<Rightarrow> Inr (w \<noteq> None))"

text \<open>A watchdog that finds the slot taken is dropped, which stops its thread.\<close>

definition store_parent_watchdog :: "watchdog_slot \<Rightarrow> ParentWatchdog \<Rightarrow> error + watchdog_slot" where
  "store_parent_watchdog slot w =
     (case slot of
        Poisoned \<Rightarrow> Inl (Bail ''parent watchdog lock poisoned'')
      | Slot None \<Rightarrow> Inr (Slot (Some w))
      | Slot (Some v) \<Rightarrow> Inr (Slot (Some v)))"

definition configure_linux_parent_death_signal :: "error + unit \<Rightarrow> error + unit" where
  "configure_linux_parent_death_signal set_pdeathsig =
     (case set_pdeathsig of Inl e \<Rightarrow> Inl (Bail (''failed to configure PR_SET_PDEATHSIG: '' @ err_text e)) | Inr _ \<Rightarrow> Inr ())"

text \<open>The slot that a call leaves behind, or \<open>None\<close> when it has not stored a watchdog.\<close>

definition install_parent_lifecycle_guard_with_hooks ::
  "int \<Rightarrow> int \<Rightarrow> error + unit \<Rightarrow> (int \<Rightarrow> error + ParentWatchdog) \<Rightarrow> watchdog_slot \<Rightarrow> watchdog_slot \<Rightarrow> watchdog_slot
    \<Rightarrow> error + watchdog_slot option" where
  "install_parent_lifecycle_guard_with_hooks initial_ppid current_ppid signal_setup spawn_watchdog slot1 slot2 slot3 =
     (case parent_watchdog_installed slot1 of
        Inl e \<Rightarrow> Inl e
      | Inr True \<Rightarrow> Inr None
      | Inr False \<Rightarrow>
          if is_orphan_ppid initial_ppid then Inl (orphaned_parent_error ''startup'')
          else case signal_setup of
            Inl e \<Rightarrow> Inl e
          | Inr _ \<Rightarrow>
              if is_orphan_ppid current_ppid then Inl (orphaned_parent_error ''post-pdeathsig'')
              else case parent_watchdog_installed slot2 of
                Inl e \<Rightarrow> Inl e
              | Inr True \<Rightarrow> Inr None
              | Inr False \<Rightarrow>
                  (case spawn_watchdog initial_ppid of
                     Inl e \<Rightarrow> Inl e
                   | Inr w \<Rightarrow> map_sum id Some (store_parent_watchdog slot3 w)))"

section \<open>The watchdog\<close>

text \<open>
  A round of the thread: the stop flag before and after its sleep, and the parent it then sees. \<open>None\<close>: it goes on.
\<close>

datatype watchdog_end = WatchdogStopped | ParentChanged int int

fun watchdog_loop :: "int \<Rightarrow> (bool \<times> bool \<times> int) list \<Rightarrow> watchdog_end option" where
  "watchdog_loop initial_ppid [] = None"
| "watchdog_loop initial_ppid ((stop_before, stop_after, current_ppid) # rounds) =
     (if stop_before then Some WatchdogStopped
      else if stop_after then Some WatchdogStopped
      else if current_ppid \<noteq> initial_ppid then Some (ParentChanged initial_ppid current_ppid)
      else watchdog_loop initial_ppid rounds)"

text \<open>Until it is stopped, the watchdog reports the first parent that is not the initial one, and no other.\<close>

lemma watchdog_loop_finds:
  "watchdog_loop p (map (\<lambda>q. (False, False, q)) ps) = map_option (ParentChanged p) (List.find (\<lambda>q. q \<noteq> p) ps)"
  by (induction ps) auto

text \<open>
  A runner whose parent has process id 1 is refused, alive or not: the first process of a container, when that is
  the orchestrator itself, cannot start a runner.
\<close>

lemma child_of_init_refused:
  "install_parent_lifecycle_guard_with_hooks 1 q st sp (Slot None) slot2 slot3 = Inl (orphaned_parent_error ''startup'')"
  by (simp add: install_parent_lifecycle_guard_with_hooks_def parent_watchdog_installed_def is_orphan_ppid_def)

text \<open>
  A first guard that is installed watches the parent it saw first, so a change before the thread starts is found too.
\<close>

lemma guard_watches_initial_parent:
  assumes "install_parent_lifecycle_guard_with_hooks p q st (\<lambda>i. Inr \<lparr>pw_initial_ppid = i\<rparr>) (Slot None) (Slot None) (Slot None) = Inr slot"
  shows "p \<noteq> 1 \<and> q \<noteq> 1 \<and> slot = Some (Slot (Some \<lparr>pw_initial_ppid = p\<rparr>))"
  using assms
  by (auto simp: install_parent_lifecycle_guard_with_hooks_def parent_watchdog_installed_def is_orphan_ppid_def
      store_parent_watchdog_def split: if_splits sum.splits)

end
