(* ===== verification/Reports.thy ===== *)
theory Reports
  imports Commands
begin

text \<open>
  The commands that report on jobs and those that fill a server for a test (\<open>orchestrator/src/commands/\<close>): the
  trace of a job, the statistics of a dead letter queue, generated jobs and workers, the stress test and the
  removal of keys. The random choices, the clock and what the user types are arguments.
\<close>

section \<open>The trace of a job\<close>

record trace_event =
  te_event :: string
  te_time :: rat
  te_details :: string

definition trace_point :: "codec \<Rightarrow> rhash \<Rightarrow> string \<Rightarrow> string \<Rightarrow> string \<Rightarrow> trace_event list" where
  "trace_point C m f event details = (case Option.bind (fmlookup m f) (parse_timestamp C) of
      Some t \<Rightarrow> [\<lparr> te_event = event, te_time = t, te_details = details \<rparr>]
    | None \<Rightarrow> [])"

definition trace_retries :: "codec \<Rightarrow> rhash \<Rightarrow> trace_event list" where
  "trace_retries C m =
     (let retries = or_default (Option.bind (fmlookup m ''current_retries'') parse_i64) 0
      in concat (map (\<lambda>i. trace_point C m (''retry_'' @ show_nat i @ ''_at'') (''Retry '' @ show_nat (i + 1))
             (''Attempt '' @ show_nat (i + 1) @ '' of '' @ field_or m ''max_retries'' ''0'')) [0 ..< nat retries]))"

definition trace_events :: "codec \<Rightarrow> rhash \<Rightarrow> trace_event list" where
  "trace_events C m = sort_key te_time
     (trace_point C m ''enqueue_time'' ''Enqueued'' (''Function: '' @ field_or m ''function_name'' ''unknown'')
      @ trace_point C m ''start_time'' ''Started'' (''Worker: '' @ field_or m ''worker_id'' ''unknown'')
      @ trace_retries C m
      @ trace_point C m ''completion_time'' ''Finished'' (''Status: '' @ field_or m ''status'' ''unknown''))"

text \<open>Each event with the time since the one before, and the time from the first to the last.\<close>

fun trace_gaps :: "rat option \<Rightarrow> trace_event list \<Rightarrow> rat option list" where
  "trace_gaps prev [] = []"
| "trace_gaps prev (e # es) = map_option (\<lambda>p. te_time e - p) prev # trace_gaps (Some (te_time e)) es"

definition total_duration :: "trace_event list \<Rightarrow> rat option" where
  "total_duration events = (if events = [] then None else Some (te_time (last events) - te_time (hd events)))"

definition job_trace :: "'r redis \<Rightarrow> codec \<Rightarrow> string \<Rightarrow> ('r, trace_event list option) io" where
  "job_trace R C job_id =
     andThen (get_job_data_map R job_id) (\<lambda>job_map. ret (map_option (trace_events C) job_map))"

text \<open>The column of a listing: how long a job took, or has been running.\<close>

definition job_duration :: "codec \<Rightarrow> datetime \<Rightarrow> rhash \<Rightarrow> rat option" where
  "job_duration C now m =
     (case (fmlookup m ''start_time'', fmlookup m ''completion_time'', fmlookup m ''status'') of
        (Some start, Some finish, _) \<Rightarrow>
          Some (or_default (parse_timestamp C finish) 0 - or_default (parse_timestamp C start) 0)
      | (Some start, None, Some status) \<Rightarrow>
          if eq_ignore_case status ''active''
          then Some (of_int (timestamp_secs now) - or_default (parse_timestamp C start) 0) else None
      | _ \<Rightarrow> None)"

section \<open>The statistics of a dead letter queue\<close>

definition count_entry :: "string \<Rightarrow> (string \<times> nat) list \<Rightarrow> (string \<times> nat) list" where
  "count_entry k m = (case map_of m k of
      None \<Rightarrow> m @ [(k, 1)]
    | Some _ \<Rightarrow> map (\<lambda>(x, n). (x, if x = k then n + 1 else n)) m)"

record dlq_tally =
  dt_completion_times :: "rat list"
  dt_retries :: "int list"
  dt_by_queue :: "(string \<times> nat) list"
  dt_by_function :: "(string \<times> nat) list"
  dt_errors :: "(string \<times> nat) list"

definition tally_job :: "codec \<Rightarrow> rhash \<Rightarrow> dlq_tally \<Rightarrow> dlq_tally res" where
  "tally_job C m d =
     (let err = (case fmlookup m ''last_error'' of Some e \<Rightarrow> e | None \<Rightarrow> field_or m ''error'' ''Unknown error'')
      in case cli_truncate err 100 of
           Ok key \<Rightarrow> Ok (d\<lparr>
             dt_completion_times := dt_completion_times d
               @ (case Option.bind (fmlookup m ''completion_time'') (parse_timestamp C) of Some t \<Rightarrow> [t] | None \<Rightarrow> []),
             dt_retries := dt_retries d @ [or_default (Option.bind (fmlookup m ''current_retries'') parse_i64) 0],
             dt_by_queue := count_entry (field_or m ''queue_name'' ''Unknown'') (dt_by_queue d),
             dt_by_function := count_entry (field_or m ''function_name'' ''Unknown'') (dt_by_function d),
             dt_errors := count_entry key (dt_errors d)\<rparr>)
         | Err e \<Rightarrow> Err e
         | Panic p \<Rightarrow> Panic p)"

fun tally_jobs :: "codec \<Rightarrow> rhash list \<Rightarrow> dlq_tally \<Rightarrow> dlq_tally res" where
  "tally_jobs C [] d = Ok d"
| "tally_jobs C (m # ms) d =
     (case tally_job C m d of Ok d1 \<Rightarrow> tally_jobs C ms d1 | Err e \<Rightarrow> Err e | Panic p \<Rightarrow> Panic p)"

record dlq_report =
  dr_total :: nat
  dr_oldest :: "rat option"
  dr_newest :: "rat option"
  dr_avg_retries :: "rat option"
  dr_top_queues :: "(string \<times> nat) list"
  dr_top_functions :: "(string \<times> nat) list"
  dr_top_errors :: "(string \<times> nat) list"

definition dlq_report_of :: "nat \<Rightarrow> dlq_tally \<Rightarrow> dlq_report" where
  "dlq_report_of n d =
     (let times = sort (dt_completion_times d)
      in \<lparr> dr_total = n,
           dr_oldest = (if times = [] then None else Some (hd times)),
           dr_newest = (if times = [] then None else Some (last times)),
           dr_avg_retries = (if dt_retries d = [] then None
                             else Some (of_int (sum_list (dt_retries d)) / of_nat (length (dt_retries d)))),
           dr_top_queues = top_counts (dt_by_queue d) 10, dr_top_functions = top_counts (dt_by_function d) 10,
           dr_top_errors = top_counts (dt_errors d) 5 \<rparr>)"

text \<open>\<open>None\<close>: the queue is empty.\<close>

definition dlq_stats :: "'r redis \<Rightarrow> codec \<Rightarrow> RRQSettings \<Rightarrow> string option \<Rightarrow> ('r, dlq_report option) io" where
  "dlq_stats R C settings dlq_name =
     andThen (get_dlq_job_ids R (or_default dlq_name (default_dlq_name settings))) (\<lambda>job_ids.
     if job_ids = [] then ret None
     else andThen (foldIO (\<lambda>job_id jobs. andThen (get_job_data_map R job_id) (\<lambda>m.
              ret (case m of Some h \<Rightarrow> jobs @ [h] | None \<Rightarrow> jobs))) job_ids []) (\<lambda>jobs.
          case tally_jobs C jobs \<lparr> dt_completion_times = [], dt_retries = [], dt_by_queue = [], dt_by_function = [],
                                   dt_errors = [] \<rparr> of
            Ok d \<Rightarrow> ret (Some (dlq_report_of (length jobs) d))
          | Err e \<Rightarrow> fail e
          | Panic p \<Rightarrow> panic p))"

section \<open>Generated jobs and workers\<close>

text \<open>What is drawn for a job, and the time the command started.\<close>

record job_draw =
  jd_id :: string
  jd_function :: string
  jd_queue :: "string option"
  jd_status :: "string option"
  jd_enqueue_delta :: int
  jd_count :: int
  jd_user :: int
  jd_priority :: string
  jd_retries :: int
  jd_start_delta :: int
  jd_run_time :: int
  jd_worker :: int
  jd_processed :: int
  jd_error :: string

definition pending_draw :: "datetime \<Rightarrow> nat \<Rightarrow> job_draw \<Rightarrow> job" where
  "pending_draw start_time i d = \<lparr> j_id = jd_id d, j_function_name = jd_function d,
     j_params = [(''arg'', JStr (''arg_'' @ show_nat i)), (''count'', JInt (jd_count d)), (''user_id'', JInt (jd_user d)),
       (''priority'', JStr (jd_priority d))],
     j_enqueue_time = start_time + secs (jd_enqueue_delta d), j_start_time = None, j_status = Pending,
     j_current_retries = jd_retries d, j_next_scheduled_run_time = None, j_max_retries = 3,
     j_job_timeout_seconds = None, j_result_ttl_seconds = None, j_unique_key = None, j_completion_time = None,
     j_result = None, j_last_error = None, j_queue_name = Some (or_default (jd_queue d) ''default''),
     j_dlq_name = None, j_worker_id = None, j_trace_context = None, j_correlation_context = None \<rparr>"

definition generated_job :: "datetime \<Rightarrow> nat \<Rightarrow> job_draw \<Rightarrow> job" where
  "generated_job start_time i d =
     (let job = pending_draw start_time i d;
          status = or_default (jd_status d) ''pending'';
          start = j_enqueue_time job + secs (jd_start_delta d);
          finish = start + secs (jd_run_time d);
          worker = ''worker_'' @ show_int (jd_worker d)
      in if status = ''completed'' then
           job\<lparr>j_status := Completed, j_start_time := Some start, j_completion_time := Some finish,
               j_worker_id := Some worker,
               j_result := Some (JObj [(''success'', JBool True), (''processed_items'', JInt (jd_processed d))])\<rparr>
         else if status = ''failed'' then
           job\<lparr>j_status := Failed, j_start_time := Some start, j_completion_time := Some finish,
               j_worker_id := Some worker, j_last_error := Some (jd_error d)\<rparr>
         else if status = ''active'' then
           job\<lparr>j_status := Active, j_start_time := Some start, j_worker_id := Some worker\<rparr>
         else if status = ''retrying'' then job\<lparr>j_status := Retrying\<rparr>
         else job)"

definition generated_jobs :: "datetime \<Rightarrow> job_draw list \<Rightarrow> job list" where
  "generated_jobs start_time draws = map (\<lambda>(i, d). generated_job start_time i d) (enumerate 0 draws)"

text \<open>The jobs go to the server in batches.\<close>

definition debug_generate_jobs :: "'r redis \<Rightarrow> codec \<Rightarrow> nat \<Rightarrow> datetime \<Rightarrow> job_draw list \<Rightarrow> ('r, unit) io" where
  "debug_generate_jobs R C batch_size start_time draws =
     andThen (foldIO (\<lambda>job created.
         if batch_size \<le> length (created @ [job])
         then andThen (insert_job_batch R C (created @ [job])) (\<lambda>_. ret [])
         else ret (created @ [job])) (generated_jobs start_time draws) []) (\<lambda>created.
     if created \<noteq> [] then insert_job_batch R C created else ret ())"

definition worker_data :: "string \<Rightarrow> string \<Rightarrow> int \<Rightarrow> int \<Rightarrow> datetime \<Rightarrow> params" where
  "worker_data worker_id status active limit now =
     [(''worker_id'', JStr worker_id), (''status'', JStr status), (''active_jobs'', JInt active),
      (''concurrency_limit'', JInt limit),
      (''queues'', JArr [JStr (normalize_queue_name ''test''), JStr (normalize_queue_name ''default'')]),
      (''timestamp'', JInt (timestamp_secs now))]"

text \<open>The rounds until the time is over, with what is drawn for each worker in each.\<close>

definition debug_generate_workers ::
  "'r redis \<Rightarrow> codec \<Rightarrow> nat \<Rightarrow> (nat \<Rightarrow> string \<times> int \<times> int \<times> datetime) list \<Rightarrow> ('r, unit) io" where
  "debug_generate_workers R C workers rounds =
     forEach rounds (\<lambda>draw. forEach [0 ..< workers] (\<lambda>i.
       let worker_id = ''test_worker_'' @ show_nat i; (status, active, limit, now) = draw i
       in set_worker_health R C worker_id (worker_data worker_id status active limit now) 60))"

section \<open>Stress test and removal\<close>

text \<open>A job of the stress test: its new id, the clock, and the queue that is drawn.\<close>

type_synonym stress_draw = "string \<times> datetime \<times> string option"

fun stress_batch ::
  "'r redis \<Rightarrow> codec \<Rightarrow> (strmap option \<Rightarrow> strmap option) \<Rightarrow> RRQSettings \<Rightarrow> int \<Rightarrow> stress_draw list \<Rightarrow> ('r, unit) io" where
  "stress_batch R C inject settings number [] = ret ()"
| "stress_batch R C inject settings number ((new_id, now, queue) # draws) =
     andThen (enqueue R C inject new_id now settings ''stress_test_job''
        [(''job_number'', JInt number), (''batch'', JInt (timestamp_secs now))]
        (queue_options (or_default queue (default_queue_name settings)) None)) (\<lambda>_.
     stress_batch R C inject settings (number + 1) draws)"

fun debug_stress_test ::
  "'r redis \<Rightarrow> codec \<Rightarrow> (strmap option \<Rightarrow> strmap option) \<Rightarrow> RRQSettings \<Rightarrow> int \<Rightarrow> stress_draw list list \<Rightarrow> ('r, int) io" where
  "debug_stress_test R C inject settings total_jobs [] = ret total_jobs"
| "debug_stress_test R C inject settings total_jobs (batch # batches) =
     andThen (stress_batch R C inject settings total_jobs batch) (\<lambda>_.
     debug_stress_test R C inject settings (total_jobs + int (length batch)) batches)"

text \<open>The keys are looked up for the question and again for the removal.\<close>

definition debug_clear :: "'r redis \<Rightarrow> bool \<Rightarrow> string \<Rightarrow> string list list \<Rightarrow> string list list \<Rightarrow> ('r, nat) io" where
  "debug_clear R confirm input pages pages' =
     (if scan_keys_by_pattern pages = [] then ret 0
      else if confirm \<or> eq_ignore_case (trim input) ''y'' then delete_keys_by_pattern R pages'
      else ret 0)"

section \<open>What the reports say\<close>

lemma gaps_telescope:
  "sum_list (map the (trace_gaps (Some t) es)) = (if es = [] then 0 else te_time (last es) - t)"
  by (induction es arbitrary: t) auto

lemma gaps_positive:
  assumes "sorted (map te_time es)" "\<forall>e \<in> set es. t \<le> te_time e"
  shows "\<forall>g \<in> set (trace_gaps (Some t) es). 0 \<le> the g"
  using assms by (induction es arbitrary: t) auto

text \<open>The gaps of a trace are not negative and add up to the total duration.\<close>

lemma trace_gaps_total:
  assumes "trace_events C m = e # es"
  shows "(\<forall>g \<in> set (trace_gaps (Some (te_time e)) es). 0 \<le> the g)
    \<and> total_duration (trace_events C m) = Some (sum_list (map the (trace_gaps (Some (te_time e)) es)))"
proof -
  have "sorted (map te_time (trace_events C m))" by (simp add: trace_events_def)
  then show ?thesis
    unfolding assms by (auto simp: gaps_telescope total_duration_def intro!: bspec [OF gaps_positive])
qed

text \<open>A trace shows no retries: nothing writes the fields it looks for, \<open>retry_0_at\<close> and so on.\<close>

lemma trace_without_retries:
  assumes "\<forall>i. fmlookup m (''retry_'' @ show_nat i @ ''_at'') = None"
  shows "trace_retries C m = []"
  using assms by (simp add: trace_retries_def trace_point_def Let_def)

text \<open>The size of the batches makes no difference to what is stored.\<close>

lemma foldIO_batches:
  assumes "\<And>xs ys. B (xs @ ys) = andThen (B xs) (\<lambda>_. B ys)" "B [] = ret ()"
  shows "andThen (foldIO (\<lambda>x c. if n \<le> length (c @ [x]) then andThen (B (c @ [x])) (\<lambda>_. ret []) else ret (c @ [x])) xs c)
      (\<lambda>c. if c \<noteq> [] then B c else ret ()) = B (c @ xs)"
proof (induction xs arbitrary: c)
  case Nil
  then show ?case using assms(2) by simp
next
  case (Cons x xs)
  then show ?case
    using Cons.IH [of "[]"] Cons.IH [of "c @ [x]"] assms(1) [of "c @ [x]" xs] by (simp add: andThen_assoc)
qed

lemma forEach_append: "forEach (xs @ ys) f = andThen (forEach xs f) (\<lambda>_. forEach ys f)"
  by (induction xs) (simp_all add: andThen_assoc)

lemma generate_jobs_batches:
  "debug_generate_jobs R C n start_time draws = insert_job_batch R C (generated_jobs start_time draws)"
  unfolding debug_generate_jobs_def
  by (subst foldIO_batches) (simp_all add: insert_job_batch_def forEach_append)

end
