(* ===== verification/Hints.thy ===== *)
theory Hints
  imports Config
begin

text \<open>
  The hint that follows a configuration error (\<open>diagnose_config_error\<close> of \<open>config/src/config.rs\<close>), from the text
  of the deserialisation error and the configuration. \<open>JSON\<close> prints the value a hint quotes.
\<close>

definition contains_text :: "string \<Rightarrow> string \<Rightarrow> bool" where
  "contains_text s p \<longleftrightarrow> split_once s p \<noteq> None"

definition runner_fields :: "string list" where
  "runner_fields = [''type'', ''cmd'', ''pool_size'', ''max_in_flight'', ''env'', ''cwd'', ''tcp_host'', ''tcp_port'',
     ''allowed_hosts'', ''response_timeout_seconds'']"

fun join_text :: "string \<Rightarrow> string list \<Rightarrow> string" where
  "join_text sep [] = []"
| "join_text sep [s] = s"
| "join_text sep (s # ss) = s @ sep @ join_text sep ss"

definition newlines :: string where "newlines = [CHR 0x0A, CHR 0x0A]"

definition quote_mark :: string where "quote_mark = [CHR 0x27]"

definition config_runners :: "json \<Rightarrow> params option" where
  "config_runners config = (case config of
      JObj m \<Rightarrow> Option.bind (map_of m ''runners'') params_of_json | _ \<Rightarrow> None)"

definition is_u64 :: "json \<Rightarrow> bool" where
  "is_u64 v = (case v of JInt n \<Rightarrow> 0 \<le> n \<and> n < 18446744073709551616 | _ \<Rightarrow> False)"

definition is_array :: "json \<Rightarrow> bool" where
  "is_array v = (case v of JArr _ \<Rightarrow> True | _ \<Rightarrow> False)"

text \<open>The first unknown field of the first runner that has one.\<close>

definition unknown_field_hint :: "string \<times> json \<Rightarrow> string option" where
  "unknown_field_hint r =
     (case snd r of
        JObj obj \<Rightarrow>
          map_option (\<lambda>k. newlines @ ''Hint: runner '' @ quote_mark @ fst r @ quote_mark @ '' has unknown field ''
              @ quote_mark @ k @ quote_mark @ ''. Valid fields are: '' @ join_text '', '' runner_fields)
            (List.find (\<lambda>k. k \<notin> set runner_fields) (map fst obj))
      | _ \<Rightarrow> None)"

definition wrong_field :: "params \<Rightarrow> string \<Rightarrow> (json \<Rightarrow> bool) \<Rightarrow> json option" where
  "wrong_field obj k ok = (case map_of obj k of Some v \<Rightarrow> if ok v then None else Some v | None \<Rightarrow> None)"

definition wrong_type_hint :: "(json \<Rightarrow> string) \<Rightarrow> string \<times> json \<Rightarrow> string option" where
  "wrong_type_hint text r =
     (let hint = (\<lambda>field kind v. Some (newlines @ ''Hint: runner '' @ quote_mark @ fst r @ quote_mark @ '' has invalid ''
            @ field @ '' - must be '' @ kind @ '', got: '' @ text v))
      in case snd r of
        JObj obj \<Rightarrow>
          (case wrong_field obj ''pool_size'' is_u64 of
             Some v \<Rightarrow> hint ''pool_size'' ''a positive integer'' v
           | None \<Rightarrow>
               (case wrong_field obj ''max_in_flight'' is_u64 of
                  Some v \<Rightarrow> hint ''max_in_flight'' ''a positive integer'' v
                | None \<Rightarrow>
                    (case wrong_field obj ''cmd'' is_array of
                       Some v \<Rightarrow> hint ''cmd'' ''an array of strings'' v
                     | None \<Rightarrow> None)))
      | _ \<Rightarrow> None)"

fun first_hint :: "('a \<Rightarrow> string option) \<Rightarrow> 'a list \<Rightarrow> string option" where
  "first_hint f [] = None"
| "first_hint f (x # xs) = (case f x of Some h \<Rightarrow> Some h | None \<Rightarrow> first_hint f xs)"

definition diagnose_config_error :: "(json \<Rightarrow> string) \<Rightarrow> json \<Rightarrow> string \<Rightarrow> string" where
  "diagnose_config_error text config err =
     (let err_msg = map ascii_lower err;
          runners = or_default (config_runners config) [];
          unknown = (if contains_text err_msg ''unknown field'' then first_hint unknown_field_hint runners else None);
          wrong = (if contains_text err_msg ''invalid type'' then first_hint (wrong_type_hint text) runners else None)
      in case unknown of Some h \<Rightarrow> h | None \<Rightarrow> or_default wrong [])"

lemma find_in: "List.find P xs = Some x \<Longrightarrow> x \<in> set xs \<and> P x"
  by (induction xs) (auto split: if_splits)

text \<open>A hint about a field names a field that is really unknown.\<close>

lemma unknown_field_hint_sound:
  assumes "unknown_field_hint (name, v) = Some h"
  shows "\<exists>obj k. v = JObj obj \<and> k \<in> set (map fst obj) \<and> k \<notin> set runner_fields"
proof (cases v)
  case (JObj obj)
  then obtain k where "List.find (\<lambda>k. k \<notin> set runner_fields) (map fst obj) = Some k"
    using assms by (auto simp: unknown_field_hint_def)
  then have "k \<in> set (map fst obj) \<and> k \<notin> set runner_fields" by (rule find_in)
  then show ?thesis using JObj by metis
qed (use assms in \<open>simp_all add: unknown_field_hint_def\<close>)

end
