(* ===== verification/Poll_Effects.thy ===== *)
theory Poll_Effects
  imports Worker_Execution
begin

text \<open>
  A poll on any server does what it does on keyspaces, whatever the batch; and the effect of a poll
  that finds exactly one job: which keyspace and which tables its task starts from.
\<close>

section \<open>Refinement\<close>

context redis_server
begin

lemma give_back_sims [sim_rules]:
  "sim db (quarantine_claimed_job_without_definition R C now W q j m)
          (quarantine_claimed_job_without_definition ks_redis C now W q j m)"
  "sim db (release_remaining_claimed_jobs_without_definitions R nowf w q js)
          (release_remaining_claimed_jobs_without_definitions ks_redis nowf w q js)"
  unfolding quarantine_claimed_job_without_definition_def release_remaining_claimed_jobs_without_definitions_def
    Let_def
  by (intro sim_rules sim_case_sum; auto intro!: sim_rules split: bool.split)+

lemma give_back_sim [sim_rules]: "sim db (give_back R C nowf W q j jo e) (give_back ks_redis C nowf W q j jo e)"
  unfolding give_back_def by (intro sim_rules)

lemma release_remaining_sims [sim_rules]:
  "sim db (release_remaining_claimed_jobs R C nowf W q js defs e)
          (release_remaining_claimed_jobs ks_redis C nowf W q js defs e)"
  "sim db (release_claimed_jobs_from_index R C nowf W q js defs i e)
          (release_claimed_jobs_from_index ks_redis C nowf W q js defs i e)"
  unfolding release_remaining_claimed_jobs_def release_claimed_jobs_from_index_def
  by (intro sim_rules)+

lemma dispatch_claimed_sim [sim_rules]:
  "sim (map_prod db id) (dispatch_claimed R C env W m pass off q claimed defs index fetched)
     (dispatch_claimed ks_redis C env W m pass off q claimed defs index fetched)"
proof (induction "length claimed - index" arbitrary: index fetched)
  case 0
  then show ?case by (subst (1 2) dispatch_claimed.simps) (simp add: sim_ret)
next
  case (Suc k)
  have IH: "sim (map_prod db id) (dispatch_claimed R C env W m pass off q claimed defs (index + 1) f)
      (dispatch_claimed ks_redis C env W m pass off q claimed defs (index + 1) f)" for f
    using Suc(1) [of "index + 1" f] Suc(2) by simp
  show ?case
    unfolding dispatch_claimed.simps [where index = index] Let_def
    by (intro sim_rules IH; auto intro!: sim_rules IH IH [simplified] split: bool.split)
qed

lemma poll_slots_sim [sim_rules]:
  "sim (map_prod db id) (poll_slots R C env W m start slots fetched)
     (poll_slots ks_redis C env W m start slots fetched)"
proof (induction slots arbitrary: fetched)
  case (Cons slot slots)
  then show ?case
    by (cases slot) (auto simp only: poll_slots.simps Let_def intro!: sim_rules)
qed (simp add: sim_ret)

lemma poll_for_jobs_sim [sim_rules]:
  "sim (map_prod db id) (poll_for_jobs R C env W m) (poll_for_jobs ks_redis C env W m)"
  unfolding poll_for_jobs_def Let_def by (intro sim_rules)

end

section \<open>A poll that finds one job\<close>

lemma normalized_queue_key [simp]: "format_queue_key (normalize_queue_name q) = format_queue_key q"
  by (simp add: format_queue_key_normalize)

text \<open>The keyspace in which the task of a freshly claimed job starts.\<close>

definition handed_out :: "codec \<Rightarrow> poll_env \<Rightarrow> 'w worker \<Rightarrow> string \<Rightarrow> job \<Rightarrow> int \<Rightarrow> keyspace \<Rightarrow> keyspace" where
  "handed_out C env W q job ms ks =
     put_ttl (format_lock_key (j_id job)) (Some ms)
       (claim_state q (w_id W) (to_rfc3339 C (pe_claim_start env 0 0)) (of_int (timestamp_secs (pe_claim_start env 0 0)))
         (claim_lock_timeout_ms (w_claim_timeout_ms W) (default_lock_timeout_extension_seconds (w_settings W))
            (fmlookup (hash_at ks (format_job_key (j_id job))) ''job_timeout_seconds''))
         (j_id job) ks)"

definition claimed_job :: "poll_env \<Rightarrow> 'w worker \<Rightarrow> job \<Rightarrow> job" where
  "claimed_job env W job =
     job\<lparr>j_status := Active, j_start_time := Some (pe_claim_start env 0 0), j_worker_id := Some (w_id W)\<rparr>"

lemma claimed_job_sel [simp]:
  "j_id (claimed_job env W job) = j_id job" "j_start_time (claimed_job env W job) = Some (pe_claim_start env 0 0)"
  "j_job_timeout_seconds (claimed_job env W job) = j_job_timeout_seconds job"
  "j_function_name (claimed_job env W job) = j_function_name job"
  "j_params (claimed_job env W job) = j_params job" "j_unique_key (claimed_job env W job) = j_unique_key job"
  "j_result_ttl_seconds (claimed_job env W job) = j_result_ttl_seconds job"
  "lock_timeout_of st (claimed_job env W job) = lock_timeout_of st job"
  by (simp_all add: claimed_job_def lock_timeout_of_def)

lemma claimed_hash_parse:
  assumes "codec_laws C" "parse_job_map C h fid n = Inr job"
  shows "parse_job_map C (hash_put [(''status'', ''ACTIVE''), (''start_time'', to_rfc3339 C t), (''worker_id'', w)] h) fid n
    = Inr (job\<lparr>j_status := Active, j_start_time := Some t, j_worker_id := Some w\<rparr>)"
  using assms(2)
  by (cases "Option.bind (fmlookup h ''status'') parse_status";
      cases "Option.bind (fmlookup h ''enqueue_time'') (from_rfc3339 C)")
    (auto simp: parse_job_map_def codec_laws.rfc3339_roundtrip [OF assms(1)] Let_def parse_status_def [of "''ACTIVE''"])

lemma claim_only_job:
  assumes "well_typed ks" "zset_at ks (format_queue_key q) = [(sc, j)]" "sc \<le> of_int (timestamp_millis now)"
    and "ks (format_job_key j) \<noteq> None" "ks (format_lock_key j) = None"
    and "0 < ms" "i64_ok ms" "0 \<le> ext" "0 < n"
  shows "atomic_claim_ready_jobs ks_redis C now q w ms ext n start ks
    = (Ok [j], claim_state q w (to_rfc3339 C start) (of_int (timestamp_secs start))
        (claim_lock_timeout_ms ms ext (fmlookup (hash_at ks (format_job_key j)) ''job_timeout_seconds'')) j ks)"
proof -
  have "take (max (n * 4) n) (zs_upto (of_int (timestamp_millis now)) [(sc, j)]) = [j]"
    using assms(3,9) by (simp add: zs_upto_def)
  moreover have "j \<in> zs_members [(sc, j)]" by (simp add: zs_members_def)
  ultimately show ?thesis
    using assms
    by (simp add: atomic_claim_ready_jobs_def lua_claim_ready_def Let_def andThen_def effects ret_def
        claim_candidate_effect)
qed

lemma claim_no_job:
  assumes "well_typed ks" "zset_at ks (format_queue_key q) = []" "0 < ms" "0 \<le> ext"
  shows "atomic_claim_ready_jobs ks_redis C now q w ms ext n start ks = (Ok [], ks)"
  using assms
  by (simp add: atomic_claim_ready_jobs_def lua_claim_ready_def Let_def andThen_def effects ret_def zs_upto_def)

lemma definitions_of_one:
  assumes "well_typed ks" "hash_at ks (format_job_key j) = h" "h \<noteq> fmempty" "parse_job_map C h j n = Inr job"
  shows "get_job_definitions ks_redis C n [j] ks = (Ok [Some job], ks)"
  using assms by (simp add: get_job_definitions_def get_job_data_maps_def andThen_def ret_def effects)

lemma dispatch_only_job:
  assumes "well_typed ks" "string_at ks (format_lock_key (j_id job)) = Some (w_id W)" "lock_timeout_of (w_settings W) job = Some ms" "0 < ms"
    and "0 < m" "\<not> pe_stop_job env pass off (j_id job)"
  shows "dispatch_claimed ks_redis C env W m pass off q [j_id job] [Some job] 0 0 (ks, l)
    = (Ok (1, False), (put_ttl (format_lock_key (j_id job)) (Some ms) ks, spawn_job q (pe_claim_start env pass off) job l))"
  using assms
  by (simp add: dispatch_claimed.simps [where index = 0] dispatch_claimed.simps [where index = "Suc 0"] nth_def_def Let_def
     andThen_def attempt_def on_db_def refresh_lock_effect ret_def)

lemma poll_only_job:
  assumes laws: "codec_laws C" and wt: "well_typed ks"
    and queued: "zset_at ks (format_queue_key q) = [(sc, j_id job)]" "sc \<le> of_int (timestamp_millis (pe_claim_now env 0 0))"
    and free: "ks (format_job_key (j_id job)) \<noteq> None" "ks (format_lock_key (j_id job)) = None"
    and job: "parse_job_map C (hash_at ks (format_job_key (j_id job))) (j_id job)
        (default_max_retries (w_settings W)) = Inr job"
    and worker: "w_queues W = [q]" "0 < w_claim_timeout_ms W" "i64_ok (w_claim_timeout_ms W)"
      "0 \<le> default_lock_timeout_extension_seconds (w_settings W)"
      "lock_timeout_of (w_settings W) job = Some ms" "0 < ms"
    and poll: "0 < m" "\<not> pe_stop_slot env 0 0" "\<not> pe_stop_job env 0 0 (j_id job)"
  shows "poll_for_jobs ks_redis C env W m (ks, l)
    = (Ok 1, (handed_out C env W q job ms ks,
        spawn_job q (pe_claim_start env 0 0) (claimed_job env W job) (l\<lparr>wl_cursor := 0\<rparr>)))"
proof -
  let ?st = "pe_claim_start env 0 0" and ?j = "j_id job" and ?ext = "default_lock_timeout_extension_seconds (w_settings W)"
  let ?l = "l\<lparr>wl_cursor := 0\<rparr>"
  define ks1 where "ks1 = claim_state q (w_id W) (to_rfc3339 C ?st) (of_int (timestamp_secs ?st))
    (claim_lock_timeout_ms (w_claim_timeout_ms W) ?ext (fmlookup (hash_at ks (format_job_key ?j)) ''job_timeout_seconds'')) ?j ks"
  have claim: "atomic_claim_ready_jobs ks_redis C (pe_claim_now env 0 0) q (w_id W) (w_claim_timeout_ms W) ?ext m ?st ks
      = (Ok [?j], ks1)"
    unfolding ks1_def by (rule claim_only_job) (use assms in auto)
  have wt1: "well_typed ks1" using wt by (simp add: ks1_def claim_state_def)
  have h1: "hash_at ks1 (format_job_key ?j) = hash_put [(''status'', ''ACTIVE''), (''start_time'', to_rfc3339 C ?st),
      (''worker_id'', w_id W)] (hash_at ks (format_job_key ?j))"
    "string_at ks1 (format_lock_key ?j) = Some (w_id W)" "zset_at ks1 (format_queue_key q) = []"
    using wt queued(1) by (simp_all add: ks1_def claim_state_def zs_del_def)
  have defs: "get_job_definitions ks_redis C (default_max_retries (w_settings W)) [?j] ks1
      = (Ok [Some (claimed_job env W job)], ks1)"
    by (rule definitions_of_one [OF wt1 h1(1)])
      (simp_all add: claimed_hash_parse [OF laws job, where t = "?st" and w = "w_id W", simplified] claimed_job_def)
  have go: "dispatch_claimed ks_redis C env W m 0 0 q [?j] [Some (claimed_job env W job)] 0 0 (ks1, ?l)
      = (Ok (1, False), (handed_out C env W q job ms ks, spawn_job q ?st (claimed_job env W job) ?l))"
    using dispatch_only_job [of ks1 "claimed_job env W job" W ms m env 0 0 C q ?l] wt1 h1(2) worker poll
    by (simp add: handed_out_def ks1_def)
  have after: "well_typed (handed_out C env W q job ms ks)" "zset_at (handed_out C env W q job ms ks) (format_queue_key q) = []"
    using wt1 h1(3) by (simp_all add: handed_out_def ks1_def)
  have rest: "poll_slots ks_redis C env W m 0 [(1, 0)] 1 (handed_out C env W q job ms ks, l')
      = (Ok 1, (handed_out C env W q job ms ks, l'))" for l'
    using claim_no_job [OF after worker(2,4)] worker(1)
    by (simp add: Let_def andThen_def on_db_def ret_def)
  show ?thesis
    using poll worker(1) rest
    by (simp add: poll_for_jobs_def Let_def andThen_def attempt_def on_db_def claim defs go)
qed

end
