(* ===== verification/End_To_End.thy ===== *)
theory End_To_End
  imports Poll_Effects Producer_Properties
begin

text \<open>
  The components together: a job from the call of the producer over the poll of a worker and the
  execution of its task to the status the producer reads.
\<close>

section \<open>A task that succeeds\<close>

text \<open>A runner that answers a request with a success, and that leaves the keys of the queue alone.\<close>

definition answers :: "('r \<Rightarrow> keyspace) \<Rightarrow> 'r runner \<Rightarrow> ExecutionRequest \<Rightarrow> int \<Rightarrow> json \<Rightarrow> bool" where
  "answers db runner req n v \<longleftrightarrow> (\<forall>hint s. \<exists>outcome s1.
     rn_execute_with_timeout runner req n hint s = (Ok (ExecCompleted (Inr outcome)), s1) \<and> db s1 = db s
     \<and> xo_status outcome = OSuccess \<and> xo_result outcome = Some v)"

lemma success_recorded:
  assumes "well_typed ks" "xo_status outcome = OSuccess" "xo_result outcome = Some v" "j_unique_key job = None"
    and "i64_ok (or_default (j_result_ttl_seconds job) (default_result_ttl_seconds (w_settings W)) * 1000)"
  shows "handle_exec_result ks_redis C clk W job n (ExecCompleted (Inr outcome)) ks
    = (Ok (), result_state C (clk 0) (j_id job) v
        (or_default (j_result_ttl_seconds job) (default_result_ttl_seconds (w_settings W))) ks)"
  using assms
  by (simp add: handle_exec_result_def handle_execution_outcome_def Let_def andThen_def save_result_effect ret_def)

lemma execute_job_succeeds:
  assumes server: "redis_server R db" and wt: "well_typed (db s)"
    and timeout: "or_default (j_job_timeout_seconds job) (default_job_timeout_seconds (w_settings W)) = n" "0 < n"
      "n \<le> 9223372036854775" "chrono_ok (clk 0 + secs n)"
    and ttl: "or_default (j_result_ttl_seconds job) (default_result_ttl_seconds (w_settings W)) = ttl" "i64_ok (ttl * 1000)"
    and runner: "finds_runner W job q runner"
      "answers db runner (execution_request W job q (snd (split_runner_name (j_function_name job))) rid (clk 0 + secs n)) n v"
    and plain: "j_unique_key job = None"
  shows "\<exists>s' l'. execute_job R C clk rid W job q (s, l) = (Ok (), (s', l'))
    \<and> db s' = settled (w_id W) (j_id job) (result_state C (clk 1) (j_id job) v ttl (db s))
    \<and> j_id job \<notin> fst ` set (wl_running l')"
proof -
  define P where "P x s1 \<longleftrightarrow> (\<exists>outcome. x = ExecCompleted (Inr outcome) \<and> db s1 = db s
     \<and> xo_status outcome = OSuccess \<and> xo_result outcome = Some v)" for x s1
  obtain r s' l' where run: "execute_job R C clk rid W job q (s, l) = (r, (s', l'))"
    by (metis prod.collapse)
  have answer: "\<forall>hint. \<exists>x s1. rn_execute_with_timeout runner (execution_request W job q
      (snd (split_runner_name (j_function_name job))) rid (clk 0 + secs n)) n hint s = (Ok x, s1) \<and> P x s1"
    using runner(2) unfolding answers_def P_def by blast
  show ?thesis
  proof (rule execute_job_run_on [where P = P, OF server timeout runner(1) answer _ run])
    fix x s1 q s2 l2
    assume x: "P x s1" and q: "attempt (handle_exec_result R C (\<lambda>k. clk (Suc k)) W job n x) s1 = (Ok q, s2)"
      and fin: "r = (case q of Inl e \<Rightarrow> Err e | Inr _ \<Rightarrow> Ok ())" "db s' = settled (w_id W) (j_id job) (db s2)"
        "l' = forget_job (j_id job) l2"
    obtain outcome where oc: "x = ExecCompleted (Inr outcome)" "db s1 = db s" "xo_status outcome = OSuccess"
      "xo_result outcome = Some v"
      using x by (auto simp: P_def)
    have "handle_exec_result ks_redis C (\<lambda>k. clk (Suc k)) W job n x (db s1)
        = (Ok (), result_state C (clk 1) (j_id job) v ttl (db s))"
      using success_recorded [where clk = "\<lambda>k. clk (Suc k)" and W = W, OF wt oc(3,4) plain] ttl by (simp add: oc(1,2))
    then obtain s3 where "handle_exec_result R C (\<lambda>k. clk (Suc k)) W job n x s1 = (Ok (), s3)"
      "db s3 = result_state C (clk 1) (j_id job) v ttl (db s)"
      using sim_run [OF redis_server.handle_exec_result_sim [OF server]] by blast
    then have "r = Ok ()" "db s2 = result_state C (clk 1) (j_id job) v ttl (db s)"
      using q fin(1) by (auto simp: attempt_def)
    then show ?thesis
      using run fin(2,3) by (intro exI [of _ s'] exI [of _ l']) simp
  qed (use wt in \<open>auto simp: P_def\<close>)
qed

section \<open>From the producer to the result\<close>

text \<open>What the producer reads of a job that was completed and settled.\<close>

lemma put_opt_ttl_views [simp]:
  "well_typed ks \<Longrightarrow> well_typed (put_opt_ttl k n ks)" "hash_at (put_opt_ttl k n ks) k' = hash_at ks k'"
  "zset_at (put_opt_ttl k n ks) k' = zset_at ks k'" "string_at (put_opt_ttl k n ks) k' = string_at ks k'"
  by (simp_all add: put_opt_ttl_def)

lemma result_state_views [simp]:
  "well_typed ks \<Longrightarrow> well_typed (result_state C t j v ttl ks)"
  "zset_at (result_state C t j v ttl ks) (format_queue_key q) = zset_at ks (format_queue_key q)"
  "zset_at (result_state C t j v ttl ks) (active_jobs_key w) = zset_at ks (active_jobs_key w)"
  "string_at (result_state C t j v ttl ks) (format_lock_key i) = string_at ks (format_lock_key i)"
  "hash_at (result_state C t j v ttl ks) (format_job_key j) = hash_put [(''result'', json_text C v),
     (''completion_time'', to_rfc3339 C t), (''status'', ''COMPLETED'')] (hash_at ks (format_job_key j))"
  by (simp_all add: result_state_def)

lemma settled_keys [simp]:
  "well_typed ks \<Longrightarrow> hash_at (settled w j ks) (format_job_key i) = hash_at ks (format_job_key i)"
  "well_typed ks \<Longrightarrow> zset_at (settled w j ks) (format_queue_key q) = zset_at ks (format_queue_key q)"
  "string_at ks (format_lock_key j) = Some w \<Longrightarrow> settled w j ks (format_lock_key j) = None"
  by (simp_all add: settled_def Let_def)

text \<open>What the producer is told of a job that has been completed and settled.\<close>

lemma status_of_completed:
  assumes laws: "codec_laws C" and wt: "well_typed ks" and v: "json_ok v" "v \<noteq> JNull"
    and err: "fmlookup (hash_at ks (format_job_key j)) ''last_error'' = None"
  shows "get_job_status ks_redis C j (settled w j (result_state C t j v ttl ks))
    = (Ok (Some \<lparr>jr_status = PCompleted, jr_result = Some v, jr_last_error = None\<rparr>),
       settled w j (result_state C t j v ttl ks))"
proof -
  have "json_text C v \<noteq> ''null''"
    using codec_laws.json_null_only [OF laws, of v] v(2) by (auto simp: eq_ignore_case_def)
  then have "parse_result C (json_text C v) = Some v"
    using codec_laws.json_roundtrip [OF laws v(1)] codec_laws.json_not_empty [OF laws]
    by (simp add: parse_result_def)
  moreover have "well_typed (settled w j (result_state C t j v ttl ks))"
    using settled_views(3) wt by simp
  ultimately show ?thesis
    using wt err
    by (simp add: get_job_status_def job_key_unfold andThen_def effects ret_def producer_status_def)
qed


text \<open>The keyspace after the producer has stored a fresh job.\<close>

definition produced_state ::
  "codec \<Rightarrow> (strmap option \<Rightarrow> strmap option) \<Rightarrow> ProducerConfig \<Rightarrow> ProducerOptions \<Rightarrow> string \<Rightarrow> string \<Rightarrow> params
    \<Rightarrow> string \<Rightarrow> datetime \<Rightarrow> keyspace \<Rightarrow> keyspace" where
  "produced_state C inject cfg opts j f ps q now ks =
     (let et = or_default (po_enqueue_time opts) now; st = or_default (po_scheduled_time opts) et;
          a = script_args_of C inject cfg opts j f ps (format_queue_key q) et st
                (or_default (po_idempotency_ttl_seconds opts) (pc_idempotency_ttl_seconds cfg))
      in put_zset (format_queue_key q) (zs_put (of_int (timestamp_millis st)) j (zset_at ks (format_queue_key q)))
           (put_hash (format_job_key j) (producer_hash a) ks))"

lemma produced_effect:
  assumes wt: "well_typed ks"
    and names: "trim f \<noteq> []" "trim (or_default (po_queue_name opts) (pc_queue_name cfg)) \<noteq> []"
    and timeout: "0 < or_default (po_job_timeout_seconds opts) (pc_job_timeout_seconds cfg)"
    and idem: "po_idempotency_key opts = None"
    and fresh: "ks (format_job_key (or_default (po_job_id opts) i)) = None"
  shows "producer_enqueue ks_redis C inject i now cfg f ps opts ks
    = (Ok (or_default (po_job_id opts) i), produced_state C inject cfg opts (or_default (po_job_id opts) i) f ps
         (or_default (po_queue_name opts) (pc_queue_name cfg)) now ks)"
  using assms
  by (simp add: producer_enqueue_def check_name_ok Let_def not_le [symmetric] producer_enqueue_script_def
      producer_enqueue_tail_def job_key_unfold andThen_def ks_exists_effect store_new_job_effect ret_def
      produced_state_def)

lemma zs_put_Nil [simp]: "zs_put sc m [] = [(sc, m)]"
  by (simp add: zs_put_def zs_del_def)

lemma produced_views:
  fixes C :: codec
  assumes wt: "well_typed ks"
  shows "well_typed (produced_state C inject cfg opts j f ps q now ks)"
    "zset_at ks (format_queue_key q) = [] \<Longrightarrow> zset_at (produced_state C inject cfg opts j f ps q now ks) (format_queue_key q)
       = [(of_int (timestamp_millis (or_default (po_scheduled_time opts) (or_default (po_enqueue_time opts) now))), j)]"
    "produced_state C inject cfg opts j f ps q now ks (format_lock_key i) = ks (format_lock_key i)"
    "fmlookup (hash_at (produced_state C inject cfg opts j f ps q now ks) (format_job_key j)) ''last_error'' = None"
    "produced_state C inject cfg opts j f ps q now ks (format_job_key j) \<noteq> None"
  using wt by (simp_all add: produced_state_def Let_def producer_hash_lookups)

lemma produced_parse:
  assumes "well_typed ks" "codec_laws C" "json_ok (JObj ps)"
    "i64_ok (or_default (po_max_retries opts) (pc_max_retries cfg))"
    "i64_ok (or_default (po_job_timeout_seconds opts) (pc_job_timeout_seconds cfg))"
    "i64_ok (or_default (po_result_ttl_seconds opts) (pc_result_ttl_seconds cfg))"
    "case inject (po_trace_context opts) of None \<Rightarrow> True | Some m \<Rightarrow> distinct (map fst m)"
  shows "parse_job_map C (hash_at (produced_state C inject cfg opts j f ps q now ks) (format_job_key j)) j n
    = Inr (produced_job inject cfg opts j f ps (format_queue_key q) (or_default (po_enqueue_time opts) now)
        (or_default (po_scheduled_time opts) (or_default (po_enqueue_time opts) now)))"
  using assms(1) codec_laws.parse_producer_hash [where inject = inject and cfg = cfg and opts = opts, OF assms(2-7)]
  by (simp add: produced_state_def Let_def)

lemma handed_out_views:
  assumes "well_typed ks"
  shows "well_typed (handed_out C env W q job ms ks)"
    "zset_at (handed_out C env W q job ms ks) (format_queue_key q) = zs_del (j_id job) (zset_at ks (format_queue_key q))"
    "string_at (handed_out C env W q job ms ks) (format_lock_key (j_id job)) = Some (w_id W)"
    "fmlookup (hash_at (handed_out C env W q job ms ks) (format_job_key (j_id job))) ''last_error''
       = fmlookup (hash_at ks (format_job_key (j_id job))) ''last_error''"
  using assms by (simp_all add: handed_out_def claim_state_def)

lemma produced_job_sel [simp]:
  "j_id (produced_job inject cfg opts j f ps q et st) = j"
  "j_function_name (produced_job inject cfg opts j f ps q et st) = f"
  "j_params (produced_job inject cfg opts j f ps q et st) = ps"
  "j_unique_key (produced_job inject cfg opts j f ps q et st) = None"
  "j_job_timeout_seconds (produced_job inject cfg opts j f ps q et st)
     = Some (or_default (po_job_timeout_seconds opts) (pc_job_timeout_seconds cfg))"
  "j_result_ttl_seconds (produced_job inject cfg opts j f ps q et st)
     = Some (or_default (po_result_ttl_seconds opts) (pc_result_ttl_seconds cfg))"
  by (simp_all add: produced_job_def)

text \<open>The request the worker sends for a job that a producer has enqueued.\<close>

definition sent_request ::
  "'w worker \<Rightarrow> (strmap option \<Rightarrow> strmap option) \<Rightarrow> ProducerConfig \<Rightarrow> ProducerOptions \<Rightarrow> string \<Rightarrow> string \<Rightarrow> params
    \<Rightarrow> string \<Rightarrow> datetime \<Rightarrow> string \<Rightarrow> datetime \<Rightarrow> ExecutionRequest" where
  "sent_request W inject cfg opts j f ps q et rid deadline =
     \<lparr> xr_protocol_version = PROTOCOL_VERSION, xr_request_id = rid, xr_job_id = j,
       xr_function_name = snd (split_runner_name f), xr_params = ps,
       xr_context = \<lparr> xc_job_id = j, xc_attempt = 1, xc_enqueue_time = et, xc_queue_name = q, xc_deadline = Some deadline,
         xc_trace_context = inject (po_trace_context opts),
         xc_correlation_context =
           extract_correlation_context ps (pc_correlation_mappings cfg) (inject (po_trace_context opts)),
         xc_worker_id = Some (w_id W) \<rparr> \<rparr>"

lemma sent_request_of_claimed:
  "execution_request W (claimed_job env W (produced_job inject cfg opts j f ps q et st)) q (snd (split_runner_name f)) rid deadline
    = sent_request W inject cfg opts j f ps q et rid deadline"
  by (simp add: execution_request_def sent_request_def claimed_job_def produced_job_def wrap64_def)

lemma sent_request_sel [simp]:
  "xr_protocol_version (sent_request W inject cfg opts j f ps q et rid deadline) = PROTOCOL_VERSION"
  "xr_request_id (sent_request W inject cfg opts j f ps q et rid deadline) = rid"
  "xr_job_id (sent_request W inject cfg opts j f ps q et rid deadline) = j"
  "xr_function_name (sent_request W inject cfg opts j f ps q et rid deadline) = snd (split_runner_name f)"
  "xr_params (sent_request W inject cfg opts j f ps q et rid deadline) = ps"
  "xc_deadline (xr_context (sent_request W inject cfg opts j f ps q et rid deadline)) = Some deadline"
  by (simp_all add: sent_request_def)

text \<open>A job travels from the producer to its result. Enqueued into an empty queue under a fresh id, it
  is the one job the next poll of a worker of that queue hands to a task; the task calls the handler
  the function names with the parameters the producer gave and stores its answer; and the producer
  then reads the status COMPLETED with that answer and no error. The job is in no queue, in no table and
  no longer locked.\<close>

theorem job_travels_to_its_result:
  fixes l :: wlocal
  assumes j: "j = or_default (po_job_id opts) i"
    and q: "q = normalize_queue_name (or_default (po_queue_name opts) (pc_queue_name cfg))"
    and n: "n = or_default (po_job_timeout_seconds opts) (pc_job_timeout_seconds cfg)"
    and ttl: "ttl = or_default (po_result_ttl_seconds opts) (pc_result_ttl_seconds cfg)"
    and ready: "ready = or_default (po_scheduled_time opts) (or_default (po_enqueue_time opts) now)"
    and server: "redis_server R db" and laws: "codec_laws C" and wt: "well_typed (db s)"
    and names: "trim f \<noteq> []" "trim (or_default (po_queue_name opts) (pc_queue_name cfg)) \<noteq> []"
    and idem: "po_idempotency_key opts = None"
    and fresh: "db s (format_job_key j) = None" "db s (format_lock_key j) = None" "zset_at (db s) (format_queue_key q) = []"
    and ps: "json_ok (JObj ps)" and retries: "i64_ok (or_default (po_max_retries opts) (pc_max_retries cfg))"
    and tc: "case inject (po_trace_context opts) of None \<Rightarrow> True | Some m \<Rightarrow> distinct (map fst m)"
    and ttl_ok: "i64_ok ttl" "i64_ok (ttl * 1000)"
    and worker: "w_queues W = [q]" "0 < w_claim_timeout_ms W" "i64_ok (w_claim_timeout_ms W)"
      "0 \<le> default_lock_timeout_extension_seconds (w_settings W)"
      "i64_ok ((n + default_lock_timeout_extension_seconds (w_settings W)) * 1000)"
    and poll: "0 < m" "\<not> pe_stop_slot env 0 0" "\<not> pe_stop_job env 0 0 j"
      "timestamp_millis ready \<le> timestamp_millis (pe_claim_now env 0 0)"
    and timeout: "0 < n" "n \<le> 9223372036854775" "chrono_ok (clk 0 + secs n)"
    and runner: "\<And>job. j_function_name job = f \<Longrightarrow> finds_runner W job q runner"
      "answers db runner (sent_request W inject cfg opts j f ps q (or_default (po_enqueue_time opts) now) rid (clk 0 + secs n)) n v"
    and answer: "json_ok v" "v \<noteq> JNull"
  shows "\<exists>s1 s2 l2 s3 l3 s4 job.
      producer_enqueue R C inject i now cfg f ps opts s = (Ok j, s1)
    \<and> poll_for_jobs R C env W m (s1, l) = (Ok 1, (s2, l2)) \<and> wl_spawned l2 = wl_spawned l @ [(job, q)]
    \<and> execute_job R C clk rid W job q (s2, l2) = (Ok (), (s3, l3)) \<and> j \<notin> fst ` set (wl_running l3)
    \<and> get_job_status R C j s3 = (Ok (Some \<lparr>jr_status = PCompleted, jr_result = Some v, jr_last_error = None\<rparr>), s4)
    \<and> zset_at (db s3) (format_queue_key q) = [] \<and> db s3 (format_lock_key j) = None
    \<and> j \<notin> zs_members (zset_at (db s3) (active_jobs_key (w_id W)))"
proof -
  let ?job = "produced_job inject cfg opts j f ps q (or_default (po_enqueue_time opts) now) ready"
  let ?job1 = "claimed_job env W ?job" and ?ext = "default_lock_timeout_extension_seconds (w_settings W)"
  let ?ks1 = "produced_state C inject cfg opts j f ps (or_default (po_queue_name opts) (pc_queue_name cfg)) now (db s)"
  let ?ms = "(n + ?ext) * 1000"
  let ?ks2 = "handed_out C env W q ?job ?ms ?ks1"
  let ?l2 = "spawn_job q (pe_claim_start env 0 0) ?job1 (l\<lparr>wl_cursor := 0\<rparr>)"
  have n_ok: "i64_ok n" "i64_ok (n + ?ext)" using worker(4,5) timeout(1) by (auto simp: i64_ok_def)
  have qk: "format_queue_key (or_default (po_queue_name opts) (pc_queue_name cfg)) = format_queue_key q" "format_queue_key q = q"
    by (simp_all add: q format_queue_key_normalize)
  have "producer_enqueue ks_redis C inject i now cfg f ps opts (db s) = (Ok j, ?ks1)"
    unfolding j by (rule produced_effect) (use wt names timeout(1) idem fresh(1) in \<open>auto simp: j n\<close>)
  then obtain s1 where s1: "producer_enqueue R C inject i now cfg f ps opts s = (Ok j, s1)" "db s1 = ?ks1"
    using sim_run [OF redis_server.producer_sims(1) [OF server]] by blast
  have views1: "well_typed ?ks1" "zset_at ?ks1 (format_queue_key q) = [(of_int (timestamp_millis ready), j)]"
    "?ks1 (format_lock_key j) = None" "?ks1 (format_job_key j) \<noteq> None"
    "fmlookup (hash_at ?ks1 (format_job_key j)) ''last_error'' = None"
    using produced_views [OF wt] fresh qk by (auto simp: ready)
  have "poll_for_jobs ks_redis C env W m (?ks1, l) = (Ok 1, (?ks2, ?l2))"
  proof (rule poll_only_job [OF laws views1(1)])
    show "parse_job_map C (hash_at ?ks1 (format_job_key (j_id ?job))) (j_id ?job) (default_max_retries (w_settings W)) = Inr ?job"
      using produced_parse [where inject = inject and cfg = cfg and opts = opts, OF wt laws ps retries _ _ tc] n_ok ttl_ok(1) qk
      by (simp add: ready n ttl)
    show "lock_timeout_of (w_settings W) ?job = Some ?ms"
      using n_ok worker(5) by (simp add: lock_timeout_of_def checked_i64_def n)
  qed (use views1 worker poll timeout in auto)
  then obtain s2 where s2: "poll_for_jobs R C env W m (s1, l) = (Ok 1, (s2, ?l2))" "db s2 = ?ks2"
    using sim_run [OF redis_server.poll_for_jobs_sim [OF server], of C env W m "(s1, l)"] s1(2) by auto
  note views2 = handed_out_views [OF views1(1), of C env W q ?job ?ms]
  obtain s3 l3 where s3: "execute_job R C clk rid W ?job1 q (s2, ?l2) = (Ok (), (s3, l3))"
    "db s3 = settled (w_id W) j (result_state C (clk 1) j v ttl ?ks2)" "j \<notin> fst ` set (wl_running l3)"
    using execute_job_succeeds [OF server, where s = s2 and job = ?job1 and W = W and n = n and ttl = ttl
        and clk = clk and runner = runner and v = v and C = C and rid = rid and l = ?l2 and q = q]
      views2(1) s2(2) timeout ttl_ok runner sent_request_of_claimed [of W env inject cfg opts j f ps q] by (auto simp: n ttl)
  have "get_job_status ks_redis C j (db s3)
      = (Ok (Some \<lparr>jr_status = PCompleted, jr_result = Some v, jr_last_error = None\<rparr>), db s3)"
    using status_of_completed [OF laws views2(1) answer] views1(5) views2(4) by (simp add: s3(2))
  then obtain s4 where s4: "get_job_status R C j s3
      = (Ok (Some \<lparr>jr_status = PCompleted, jr_result = Some v, jr_last_error = None\<rparr>), s4)"
    using sim_run [OF redis_server.producer_sims(4) [OF server]] by blast
  have "wl_spawned ?l2 = wl_spawned l @ [(?job1, q)]"
    by (simp add: spawn_job_def Let_def claimed_job_def)
  moreover have "zset_at (db s3) (format_queue_key q) = []" "db s3 (format_lock_key j) = None"
    "j \<notin> zs_members (zset_at (db s3) (active_jobs_key (w_id W)))"
    using views2 views1(2) settled_views(1) by (simp_all add: s3(2) zs_del_def)
  ultimately show ?thesis
    using s1(1) s2(1) s3(1,3) s4 by blast
qed

end
