(* ===== verification/Streams.thy ===== *)
theory Streams
  imports Protocol_Properties
begin

text \<open>
  The two directions of a connection as a message queue. The interface says what a frame is: writing
  appends it, and reading takes exactly it off the front, whatever follows, and gives the message as it is
  read. From that alone any interleaving of writes and reads on the byte stream answers as it would on a queue of
  messages. The
  protocol's own \<open>write_message\<close> and \<open>read_message\<close> meet the interface for every codec that meets its laws.
\<close>

section \<open>Runs on a queue and on a stream\<close>

datatype 'm stream_op = Put 'm | Get

fun run_queue :: "'m stream_op list \<Rightarrow> 'm list \<Rightarrow> 'm option list \<times> 'm list" where
  "run_queue [] q = ([], q)"
| "run_queue (Put m # ops) q = run_queue ops (q @ [m])"
| "run_queue (Get # ops) [] = map_prod (Cons None) id (run_queue ops [])"
| "run_queue (Get # ops) (m # q) = map_prod (Cons (Some m)) id (run_queue ops q)"

fun run_stream ::
  "('m \<Rightarrow> (string, unit) io) \<Rightarrow> (string, 'm option) io \<Rightarrow> 'm stream_op list \<Rightarrow> (string, 'm option list) io" where
  "run_stream put get [] = ret []"
| "run_stream put get (Put m # ops) = andThen (put m) (\<lambda>_. run_stream put get ops)"
| "run_stream put get (Get # ops) =
     andThen get (\<lambda>r. andThen (run_stream put get ops) (\<lambda>rs. ret (r # rs)))"

definition puts :: "'m stream_op list \<Rightarrow> 'm set" where
  "puts ops = {m. Put m \<in> set ops}"

lemma puts_simps [simp]: "puts (Put m # ops) = insert m (puts ops)" "puts (Get # ops) = puts ops" "puts [] = {}"
  by (auto simp: puts_def)

section \<open>The interface\<close>

locale message_stream =
  fixes put :: "'m \<Rightarrow> (string, unit) io" and get :: "(string, 'm option) io"
    and frame :: "'m \<Rightarrow> string" and sound :: "'m \<Rightarrow> bool" and read_as :: "'m \<Rightarrow> 'm"
  assumes put_appends: "sound m \<Longrightarrow> put m stream = (Ok (), stream @ frame m)"
    and get_takes: "sound m \<Longrightarrow> get (frame m @ rest) = (Ok (Some (read_as m)), rest)"
    and get_at_end: "get [] = (Ok None, [])"
begin

text \<open>The bytes of the messages that are under way.\<close>

lemma run_refines:
  assumes "Ball (puts ops) sound" "Ball (set q) sound"
  shows "run_stream put get ops (concat (map frame q))
    = (Ok (map (map_option read_as) (fst (run_queue ops q))), concat (map frame (snd (run_queue ops q))))"
  using assms
proof (induction ops q rule: run_queue.induct)
  case (2 m ops q)
  then have "run_stream put get ops (concat (map frame (q @ [m])))
    = (Ok (map (map_option read_as) (fst (run_queue ops (q @ [m])))), concat (map frame (snd (run_queue ops (q @ [m])))))"
    by simp
  with 2 show ?case by (simp add: andThen_def put_appends)
qed (simp_all add: andThen_def ret_def get_at_end get_takes)

text \<open>What has been written to the end is read to the end, in order.\<close>

lemma run_queue_puts: "run_queue (map Put ms @ ops) q = run_queue ops (q @ ms)"
  by (induction ms arbitrary: q) simp_all

lemma run_queue_gets: "run_queue (replicate (length q) Get) q = (map Some q, [])"
  by (induction q) simp_all

lemma sent_is_received:
  assumes "Ball (set ms) sound"
  shows "run_stream put get (map Put ms @ replicate (length ms) Get) [] = (Ok (map (Some \<circ> read_as) ms), [])"
  using run_refines [of "map Put ms @ replicate (length ms) Get" "[]"] assms
  by (auto simp: puts_def run_queue_puts run_queue_gets comp_def)

end

section \<open>The end of the runner\<close>

text \<open>The runner has its own copies of the two functions (\<open>runner/src/runtime.rs\<close>), and a task that writes the
  answers that enter the channel of a connection, until a write fails.\<close>

definition runner_read_message :: "codec \<Rightarrow> (string, RunnerMessage option) io" where
  "runner_read_message C stream =
     (if length stream < 4 then (Ok None, [])
      else let len = be_value (take 4 stream); rest = drop 4 stream in
        if len = 0 then (Err (Bail ''runner message payload cannot be empty''), rest)
        else if 16 * 1024 * 1024 < len then (Err (Bail ''runner message payload too large''), rest)
        else if length rest < len then (Err (Bail ''early eof''), [])
        else case Option.bind (json_parse C (take len rest)) (message_of_json C) of
               None \<Rightarrow> (Err (Bail ''invalid message''), drop len rest)
             | Some m \<Rightarrow> (Ok (Some m), drop len rest))"

definition runner_write_message :: "codec \<Rightarrow> RunnerMessage \<Rightarrow> (string, unit) io" where
  "runner_write_message C message stream = (case encode_frame C message of
      Inl _ \<Rightarrow> (Err (Bail ''invalid frame length''), stream)
    | Inr framed \<Rightarrow> (Ok (), stream @ framed))"

fun writer_task :: "codec \<Rightarrow> ExecutionOutcome list \<Rightarrow> (string, unit) io" where
  "writer_task C [] = ret ()"
| "writer_task C (outcome # outcomes) =
     andThen (attempt (runner_write_message C (MResponse outcome))) (\<lambda>r.
       case r of Inl _ \<Rightarrow> ret () | Inr _ \<Rightarrow> writer_task C outcomes)"

lemma runner_end_agrees: "runner_read_message = read_message" "runner_write_message = write_message"
  by (simp_all add: fun_eq_iff runner_read_message_def read_message_def runner_write_message_def write_message_def
      FRAME_HEADER_LEN_def MAX_FRAME_LEN_def Let_def)

section \<open>The protocol meets it\<close>

definition framed :: "codec \<Rightarrow> RunnerMessage \<Rightarrow> string" where
  "framed C m = (case encode_frame C m of Inl _ \<Rightarrow> [] | Inr f \<Rightarrow> f)"

text \<open>The messages that a frame of at most 16 MiB carries: those that are read back unchanged, and all others whose JSON
  is nested as deep as \<open>serde_json\<close> reads it.\<close>

definition fits :: "codec \<Rightarrow> RunnerMessage \<Rightarrow> bool" where
  "fits C m \<longleftrightarrow> message_ok m \<and> length (json_text C (message_to_json C m)) \<le> MAX_FRAME_LEN"

definition sendable :: "codec \<Rightarrow> RunnerMessage \<Rightarrow> bool" where
  "sendable C m \<longleftrightarrow> message_sent m \<and> nests 127 (message_to_json C m)
     \<and> length (json_text C (message_to_json C m)) \<le> MAX_FRAME_LEN"

sublocale codec_laws \<subseteq> wire: message_stream "write_message C" "read_message C" "framed C" "\<lambda>m. fits C m \<or> sendable C m" "as_read C"
proof unfold_locales
  fix m stream rest
  assume "fits C m \<or> sendable C m"
  then have size: "length (json_text C (message_to_json C m)) \<le> MAX_FRAME_LEN"
    and parse: "Option.bind (json_parse C (json_text C (message_to_json C m))) (message_of_json C) = Some (as_read C m)"
    by (auto simp: fits_def sendable_def json_roundtrip json_ok_message message_json as_read_same
        json_reread json_sent_message message_reread)
  note frame = frame_read [OF codec_laws_axioms size parse]
  show "write_message C m stream = (Ok (), stream @ framed C m)"
    using frame [of "[]"] by (auto simp: write_message_def framed_def)
  show "read_message C (framed C m @ rest) = (Ok (Some (as_read C m)), rest)"
    using frame [of rest] by (auto simp: framed_def)
next
  show "read_message C [] = (Ok None, [])"
    by (simp add: read_message_def FRAME_HEADER_LEN_def)
qed

lemma fits_as_read [simp]: "fits C m \<Longrightarrow> as_read C m = m"
  by (simp add: fits_def as_read_same)

context codec_laws
begin

lemmas protocol_run = wire.run_refines [of _ "[]", simplified]

lemma wire_put: "fits C m \<Longrightarrow> write_message C m stream = (Ok (), stream @ framed C m)"
  using wire.put_appends by simp

lemma wire_get: "fits C m \<Longrightarrow> read_message C (framed C m @ rest) = (Ok (Some m), rest)"
  using wire.get_takes [of m rest] by simp

lemma wire_gets:
  assumes "Ball (set ms) (fits C)"
  shows "run_stream (write_message C) (read_message C) (replicate (length ms) Get) (concat (map (framed C) ms))
    = (Ok (map Some ms), [])"
  using wire.run_refines [of "replicate (length ms) Get" ms] assms by (simp add: wire.run_queue_gets puts_def)

end

text \<open>C37. A connection is a queue of messages in either direction: however the writes of one end and the reads of
  the other interleave, every read gets the oldest message that has been written and not been read, and the
  bytes still under way are the frames of the messages not read yet. The messages are all whose JSON form is at most
  16 MiB long and nested less than 128 deep. A message is read as \<open>as_read\<close> says: a \<open>null\<close> result or \<open>null\<close> details
  are absent, floats, among them a retry delay, are what the reader makes of their text, and all else is as it was; so a
  message without those is read unchanged.\<close>

theorem stream_is_a_queue:
  assumes codec: "codec_laws C" and sendable: "\<forall>m \<in> puts ops. sendable C m"
    and ends: "(put, get) \<in> {(write_message C, runner_read_message C), (runner_write_message C, read_message C)}"
  shows "run_stream put get ops []
      = (Ok (map (map_option (as_read C)) (fst (run_queue ops []))), concat (map (framed C) (snd (run_queue ops []))))
    \<and> (\<forall>m \<in> puts ops. message_ok m \<longrightarrow> as_read C m = m)"
  using codec_laws.protocol_run [OF codec] sendable ends by (auto simp: runner_end_agrees as_read_same)

definition retry_message :: RunnerMessage where
  "retry_message = MResponse ((outcome_retry ''j'' ''r'' ''later'' (Some 5))\<lparr>xo_result := Some JNull\<rparr>)"

theorem stream_is_a_queue_witness:
  "run_stream (write_message simple_codec) (runner_read_message simple_codec) [Put retry_message, Put sample_message, Get, Get, Get] []
    = (Ok [Some (MResponse (outcome_retry ''j'' ''r'' ''later'' (Some 5))), Some sample_message, None], [])"
proof -
  have f: "float_parse simple_codec (float_reread simple_codec (float_text simple_codec 5)) = Some 5"
    by (simp add: simple_codec_def)
  have r: "as_read simple_codec retry_message = MResponse (outcome_retry ''j'' ''r'' ''later'' (Some 5))"
    "as_read simple_codec sample_message = sample_message"
    by (simp_all add: as_read_def retry_message_def sample_message_def outcome_retry_def plain_error_def value_read_def
        absent_null_def error_read_def f)
  have "sendable simple_codec retry_message" "sendable simple_codec sample_message"
    using sample_message_small
    by (simp_all add: sendable_def message_sent_def sample_message_def retry_message_def outcome_retry_def plain_error_def
        message_to_json_def outcome_to_json_def error_to_json_def cancel_to_json_def status_to_json_def skip_none_def
        simple_codec_def MAX_FRAME_LEN_def show_nat.simps show_int_def)
  then show ?thesis
    using stream_is_a_queue [OF simple.codec_laws_axioms, of "[Put retry_message, Put sample_message, Get, Get, Get]"]
    by (simp add: r)
qed

text \<open>The answers that enter the channel arrive at the orchestrator, all and in their order.\<close>

lemma answers_arrive:
  assumes codec: "codec_laws C" and fits: "\<forall>outcome \<in> set outcomes. fits C (MResponse outcome)"
  shows "andThen (writer_task C outcomes) (\<lambda>_. run_stream (write_message C) (read_message C) (replicate (length outcomes) Get)) []
    = (Ok (map (Some \<circ> MResponse) outcomes), [])"
proof -
  have wrote: "writer_task C outcomes stream = (Ok (), stream @ concat (map (framed C \<circ> MResponse) outcomes))" for stream
    using fits
  proof (induction outcomes arbitrary: stream)
    case (Cons outcome outcomes)
    then have "write_message C (MResponse outcome) stream = (Ok (), stream @ framed C (MResponse outcome))"
      using codec_laws.wire_put [OF codec] by simp
    with Cons show ?case by (simp add: andThen_def attempt_def runner_end_agrees)
  qed (simp add: ret_def)
  have "run_stream (write_message C) (read_message C) (replicate (length outcomes) Get)
      (concat (map (framed C) (map MResponse outcomes))) = (Ok (map Some (map MResponse outcomes)), [])"
    using codec_laws.wire_gets [OF codec, of "map MResponse outcomes"] fits by simp
  then show ?thesis by (simp add: andThen_def wrote)
qed

text \<open>A message whose JSON form is longer is written all the same, and the other end gives the connection up.\<close>

lemma oversized_message_breaks_stream:
  assumes "encode_frame C m = Inr f" "MAX_FRAME_LEN < length f - FRAME_HEADER_LEN"
  shows "write_message C m stream = (Ok (), stream @ f)
    \<and> (\<exists>s. read_message C (f @ rest) = (Err (Bail ''runner message payload too large''), s))"
  using assms
  by (auto simp: write_message_def encode_frame_def read_message_def be_value_bytes Let_def split: if_splits)

end
