(* ===== verification/Wire.thy ===== *)
theory Wire
  imports End_To_End Streams Runtime_Properties Pool_Requests
begin

text \<open>
  The whole path of a job: what \<open>End_To_End\<close> leaves to a runner is here the runner of the repository. The worker's
  connection writes the request on the stream (\<open>Pool_Processes\<close>, \<open>Protocol\<close>), the server of the runner reads it,
  spawns its task and sends the outcome of the handler (\<open>Runtime\<close>, \<open>Streams\<close>), and the worker's connection reads it,
  matches it with the request and checks it.
\<close>

section \<open>One request over the wire\<close>

text \<open>The events of the server from a connection with one request up to its answer in the channel.\<close>

definition answering_events :: "RunnerMessage \<Rightarrow> datetime \<Rightarrow> event list" where
  "answering_events m now = [Accept 0, Message 0 True [] m, ListStep 0, ListStep 0, TaskStep 0 now True, TaskStep 0 now True]"

text \<open>What the runner writes after it has read a stream.\<close>

definition runner_side :: "codec \<Rightarrow> registry \<Rightarrow> datetime \<Rightarrow> string \<Rightarrow> string option" where
  "runner_side C reg now stream = (case fst (runner_read_message C stream) of
      Ok (Some m) \<Rightarrow> map_option (\<lambda>s. snd (writer_task C (map snd (sv_sent s)) []))
        (server_run reg (answering_events m now) server_init)
    | _ \<Rightarrow> None)"

text \<open>What the worker makes of the stream that comes back.\<close>

definition worker_side :: "codec \<Rightarrow> ExecutionRequest \<Rightarrow> connection \<Rightarrow> string \<Rightarrow> error + ExecutionOutcome" where
  "worker_side C request c stream =
     (let m = (case fst (read_message C stream) of Ok m \<Rightarrow> Inr m | Err e \<Rightarrow> Inl e | Panic p \<Rightarrow> Inl (Bail p));
          c1 = snd (on_read m c)
      in fst (execute_end request (case map_of (cn_answers c1) (xr_request_id request) of
           Some a \<Rightarrow> Answered a | None \<Rightarrow> NoResponse) c1))"

definition exchange :: "codec \<Rightarrow> registry \<Rightarrow> datetime \<Rightarrow> ExecutionRequest \<Rightarrow> error + ExecutionOutcome" where
  "exchange C reg now request =
     (case execute_begin (xr_request_id request) (\<lambda>c. c) True (new_connection 0) of
        (Inl e, _) \<Rightarrow> Inl e
      | (Inr _, c) \<Rightarrow>
          (case runner_side C reg now (snd (write_message C (MRequest request) [])) of
             None \<Rightarrow> fst (execute_end request NoResponse c)
           | Some stream \<Rightarrow> worker_side C request c stream))"

text \<open>The runner of the worker, with one process that runs: acquired at once and answered in time.\<close>

definition wired_runner :: "codec \<Rightarrow> registry \<Rightarrow> datetime \<Rightarrow> 'r runner" where
  "wired_runner C reg now = \<lparr> rn_execute_with_timeout = \<lambda>request _ hint.
       ret (fst (Pool_Requests.execute_with_timeout True hint True False request (Some (Inr ())) True
                   (Some (exchange C reg now request)) [])),
     rn_cancel = \<lambda>_ _. ret (), rn_close = ret () \<rparr>"

section \<open>The answer is the handler's\<close>

lemma server_answers:
  assumes "xr_protocol_version request = PROTOCOL_VERSION"
  shows "\<exists>s. server_run reg (answering_events (MRequest request) now) server_init = Some s
    \<and> sv_sent s = [(0, execute_with_deadline reg now request)]"
  by (simp add: answering_events_def server_steps assms)

lemma runner_side_answers:
  assumes codec: "codec_laws C" and version: "xr_protocol_version request = PROTOCOL_VERSION"
    and fits: "fits C (MRequest request)" "fits C (MResponse (execute_with_deadline reg now request))"
  shows "runner_side C reg now (snd (write_message C (MRequest request) []))
    = Some (framed C (MResponse (execute_with_deadline reg now request)))"
proof -
  note put = codec_laws.wire_put [OF codec]
  have sent: "snd (write_message C (MRequest request) []) = framed C (MRequest request)"
    using put [OF fits(1), of "[]"] by simp
  have "read_message C (framed C (MRequest request)) = (Ok (Some (MRequest request)), [])"
    using codec_laws.wire_get [OF codec fits(1), of "[]"] by simp
  then show ?thesis
    using server_answers [OF version, of reg now] put [OF fits(2), of "[]"]
    by (auto simp: runner_side_def sent runner_end_agrees andThen_def attempt_def ret_def)
qed

lemma worker_side_answers:
  assumes codec: "codec_laws C" and fits: "fits C (MResponse outcome)"
    and ids: "xo_job_id outcome = Some (xr_job_id request)" "xo_request_id outcome = Some (xr_request_id request)"
    and pending: "cn_pending c = [xr_request_id request]" "cn_answers c = []"
  shows "worker_side C request c (framed C (MResponse outcome)) = Inr outcome"
  using codec_laws.wire_get [OF codec fits, of "[]"] ids pending
  by (simp add: worker_side_def on_read_def on_response_def execute_end_def check_outcome_def)

text \<open>An outcome that names another job or another request than the one asked for is refused, so a handler has to
  leave the ids to the runner, or to name its own.\<close>

lemma exchange_answers:
  assumes codec: "codec_laws C" and version: "xr_protocol_version request = PROTOCOL_VERSION"
    and fits: "fits C (MRequest request)" "fits C (MResponse (execute_with_deadline reg now request))"
    and ids: "xo_job_id (execute_with_deadline reg now request) = Some (xr_job_id request)"
      "xo_request_id (execute_with_deadline reg now request) = Some (xr_request_id request)"
  shows "exchange C reg now request = Inr (execute_with_deadline reg now request)"
proof -
  have start: "execute_begin (xr_request_id request) (\<lambda>c. c) True (new_connection 0)
      = (Inr (), (new_connection 0)\<lparr>cn_pending := [xr_request_id request]\<rparr>)"
    by (simp add: execute_begin_def new_connection_def)
  show ?thesis
    by (simp add: exchange_def start runner_side_answers [OF codec version fits])
      (rule worker_side_answers [OF codec fits(2) ids], simp_all add: new_connection_def)
qed

text \<open>The outcome of a handler that ends in time.\<close>

definition own_outcome :: "ExecutionRequest \<Rightarrow> ExecutionOutcome \<Rightarrow> ExecutionOutcome" where
  "own_outcome request outcome =
     outcome\<lparr>xo_job_id := Some (or_default (xo_job_id outcome) (xr_job_id request)),
             xo_request_id := Some (or_default (xo_request_id outcome) (xr_request_id request))\<rparr>"

lemma handler_in_time:
  assumes "registry_get reg (xr_function_name request) = Some h" "h request = (d, outcome)"
    and "xc_deadline (xr_context request) = Some deadline" "now < deadline" "d \<le> deadline - now"
  shows "execute_with_deadline reg now request = own_outcome request outcome"
  using assms
  by (auto simp: execute_with_deadline_def execute_with_def own_outcome_def or_default_def Let_def split: option.split)

lemma wired_answers:
  assumes codec: "codec_laws C" and version: "xr_protocol_version request = PROTOCOL_VERSION"
    and handler: "registry_get reg (xr_function_name request) = Some h" "h request = (d, outcome)"
    and ids: "xo_job_id outcome \<in> {None, Some (xr_job_id request)}" "xo_request_id outcome \<in> {None, Some (xr_request_id request)}"
    and success: "xo_status outcome = OSuccess" "xo_result outcome = Some v"
    and deadline: "xc_deadline (xr_context request) = Some deadline" "now < deadline" "d \<le> deadline - now"
    and fits: "fits C (MRequest request)" "fits C (MResponse (own_outcome request outcome))"
  shows "answers db (wired_runner C reg now) request n v"
proof -
  note own = handler_in_time [OF handler deadline]
  have own_ids: "xo_job_id (own_outcome request outcome) = Some (xr_job_id request)"
    "xo_request_id (own_outcome request outcome) = Some (xr_request_id request)"
    using ids by (auto simp: own_outcome_def or_default_def)
  have "exchange C reg now request = Inr (own_outcome request outcome)"
    using exchange_answers [OF codec version fits(1), where reg = reg and now = now] fits(2) own_ids by (simp add: own)
  then show ?thesis
    using success
    by (simp add: answers_def wired_runner_def Pool_Requests.execute_with_timeout_def finalize_execute_result_def
        ret_def own_outcome_def Let_def)
qed

section \<open>From the producer through the runner to the result\<close>

text \<open>C4. A job travels from the producer through the runner to its result. Enqueued into an empty queue under a fresh
  id, it is the one job the next poll of a worker of that queue hands to a task; the task sends it over the wire to
  the runner, which calls the handler registered under the name of the function with the parameters the producer
  gave; and if the handler succeeds before the deadline, naming no other job, its result comes back over the wire,
  is stored, and is what the producer reads of the completed job, which is in no queue, locked by nobody and held by no
  worker. Request and answer are at most 16 MiB of JSON.\<close>

theorem job_travels_over_the_wire:
  fixes l :: wlocal
  assumes j: "j = or_default (po_job_id opts) i"
    and q: "q = normalize_queue_name (or_default (po_queue_name opts) (pc_queue_name cfg))"
    and n: "n = or_default (po_job_timeout_seconds opts) (pc_job_timeout_seconds cfg)"
    and ttl: "ttl = or_default (po_result_ttl_seconds opts) (pc_result_ttl_seconds cfg)"
    and ready: "ready = or_default (po_scheduled_time opts) (or_default (po_enqueue_time opts) now)"
    and server: "redis_server R db" and laws: "codec_laws C" and wt: "well_typed (db s)"
    and names: "trim f \<noteq> []" "trim (or_default (po_queue_name opts) (pc_queue_name cfg)) \<noteq> []"
    and idem: "po_idempotency_key opts = None"
    and fresh: "db s (format_job_key j) = None" "db s (format_lock_key j) = None" "zset_at (db s) (format_queue_key q) = []"
    and ps: "json_ok (JObj ps)" and retries: "i64_ok (or_default (po_max_retries opts) (pc_max_retries cfg))"
    and tc: "case inject (po_trace_context opts) of None \<Rightarrow> True | Some m \<Rightarrow> distinct (map fst m)"
    and ttl_ok: "i64_ok ttl" "i64_ok (ttl * 1000)"
    and worker: "w_queues W = [q]" "0 < w_claim_timeout_ms W" "i64_ok (w_claim_timeout_ms W)"
      "0 \<le> default_lock_timeout_extension_seconds (w_settings W)"
      "i64_ok ((n + default_lock_timeout_extension_seconds (w_settings W)) * 1000)"
    and poll: "0 < m" "\<not> pe_stop_slot env 0 0" "\<not> pe_stop_job env 0 0 j"
      "timestamp_millis ready \<le> timestamp_millis (pe_claim_now env 0 0)"
    and timeout: "0 < n" "n \<le> 9223372036854775" "chrono_ok (clk 0 + secs n)"
    and request: "request = sent_request W inject cfg opts j f ps q (or_default (po_enqueue_time opts) now) rid (clk 0 + secs n)"
    and runner: "\<And>job. j_function_name job = f \<Longrightarrow> finds_runner W job q (wired_runner C reg start)"
    and handler: "registry_get reg (snd (split_runner_name f)) = Some h" "h request = (d, outcome)"
      "start < clk 0 + secs n" "d \<le> clk 0 + secs n - start"
    and outcome: "xo_status outcome = OSuccess" "xo_result outcome = Some v"
      "xo_job_id outcome \<in> {None, Some j}" "xo_request_id outcome \<in> {None, Some rid}"
    and fits: "fits C (MRequest request)" "fits C (MResponse (own_outcome request outcome))"
    and answer: "json_ok v" "v \<noteq> JNull"
  shows "\<exists>s1 s2 l2 s3 l3 s4 job.
      producer_enqueue R C inject i now cfg f ps opts s = (Ok j, s1)
    \<and> poll_for_jobs R C env W m (s1, l) = (Ok 1, (s2, l2)) \<and> wl_spawned l2 = wl_spawned l @ [(job, q)]
    \<and> execute_job R C clk rid W job q (s2, l2) = (Ok (), (s3, l3)) \<and> j \<notin> fst ` set (wl_running l3)
    \<and> get_job_status R C j s3 = (Ok (Some \<lparr>jr_status = PCompleted, jr_result = Some v, jr_last_error = None\<rparr>), s4)
    \<and> zset_at (db s3) (format_queue_key q) = [] \<and> db s3 (format_lock_key j) = None
    \<and> j \<notin> zs_members (zset_at (db s3) (active_jobs_key (w_id W)))"
proof -
  have "answers db (wired_runner C reg start) request n v"
    by (rule wired_answers [where h = h and request = request and deadline = "clk 0 + secs n", OF laws _ _ handler(2) _ _ outcome(1,2) _ handler(3,4) fits])
      (use handler(1) outcome(3,4) in \<open>simp_all add: request\<close>)
  then show ?thesis
    using job_travels_to_its_result [where v = v and runner = "wired_runner C reg start" and R = R and C = C and inject = inject
        and i = i and now = now and cfg = cfg and f = f and ps = ps and opts = opts and env = env and W = W and m = m
        and clk = clk and rid = rid and l = l and s = s, OF j q n ttl ready server laws wt names idem fresh ps retries tc
        ttl_ok worker poll timeout runner _ answer]
    by (simp add: request)
qed

definition naming_handler :: handler where
  "naming_handler request = (1000, outcome_success (xr_job_id request) (xr_request_id request) (JStr (xr_function_name request)))"

definition mail_worker :: "registry \<Rightarrow> 'r worker" where
  "mail_worker reg = \<lparr> w_settings = default_settings, w_queues = [''rrq:queue:mail''], w_id = ''w1'',
     w_runners = [(''python'', wired_runner simple_codec reg 5000000)], w_default_runner = ''python'', w_routes = [],
     w_concurrency = 2, w_burst = False, w_claim_timeout_ms = 360000 \<rparr>"

lemma mail_worker_sel [simp]:
  "w_settings (mail_worker reg) = default_settings" "w_queues (mail_worker reg) = [''rrq:queue:mail'']" "w_id (mail_worker reg) = ''w1''"
  "w_claim_timeout_ms (mail_worker reg) = 360000"
  by (simp_all add: mail_worker_def)

lemma mail_finds [simp]: "j_function_name job = ''f'' \<Longrightarrow> finds_runner (mail_worker reg) job q (wired_runner simple_codec reg 5000000)"
  by (simp add: finds_runner_def mail_worker_def split_runner_name_def resolve_routed_runner_def
      strip_prefix_def split: option.split)

lemma still_env_sel [simp]:
  "\<not> pe_stop_slot still_env p off" "\<not> pe_stop_job still_env p off j" "pe_claim_now still_env p off = 10000000"
  by (simp_all add: still_env_def)

definition naming_worker :: "keyspace worker" where
  "naming_worker = mail_worker (register ''f'' naming_handler registry_new)"

lemma naming_worker_sel [simp]:
  "w_settings naming_worker = default_settings" "w_queues naming_worker = [''rrq:queue:mail'']" "w_id naming_worker = ''w1''"
  "w_claim_timeout_ms naming_worker = 360000"
  "j_function_name job = ''f'' \<Longrightarrow> finds_runner naming_worker job q
     (wired_runner simple_codec (register ''f'' naming_handler registry_new) 5000000)"
  by (simp_all add: naming_worker_def)

definition naming_request :: ExecutionRequest where
  "naming_request = sent_request naming_worker (\<lambda>c. c) default_producer_config
     (sample_producer_options None) ''p1'' ''f'' [] ''rrq:queue:mail'' 7 ''r1'' 300005000000"

lemmas json_sizes = message_to_json_def request_to_json_def context_to_json_def outcome_to_json_def status_to_json_def
  skip_none_def or_null_def simple_codec_def MAX_FRAME_LEN_def show_nat.simps show_int_def time_json_def

lemma naming_request_eq:
  "naming_request = \<lparr> xr_protocol_version = ''2'', xr_request_id = ''r1'', xr_job_id = ''p1'', xr_function_name = ''f'', xr_params = [],
     xr_context = \<lparr> xc_job_id = ''p1'', xc_attempt = 1, xc_enqueue_time = 7, xc_queue_name = ''rrq:queue:mail'',
       xc_deadline = Some 300005000000, xc_trace_context = None, xc_correlation_context = None, xc_worker_id = Some ''w1'' \<rparr> \<rparr>"
proof -
  have f: "split_runner_name ''f'' = (None, ''f'')" by code_simp
  show ?thesis
    by (simp add: naming_request_def sent_request_def f PROTOCOL_VERSION_def secs_def extract_correlation_context_def
        default_producer_config_def sample_producer_options_def)
qed

lemma naming_fits:
  "fits simple_codec (MRequest naming_request)" "fits simple_codec (MResponse (own_outcome naming_request (snd (naming_handler naming_request))))"
  by (simp_all add: fits_def message_ok_def context_ok_def outcome_ok_def plain_value_def naming_request_eq own_outcome_def
      naming_handler_def outcome_success_def or_default_def json_sizes)

theorem job_travels_over_the_wire_witness:
  "\<exists>s1 s2 l2 s3 l3 s4 job.
      producer_enqueue ks_redis simple_codec (\<lambda>c. c) ''new'' 7 default_producer_config ''f'' []
        (sample_producer_options None) (\<lambda>_. None) = (Ok ''p1'', s1)
    \<and> poll_for_jobs ks_redis simple_codec still_env naming_worker 2 (s1, idle_tables) = (Ok 1, (s2, l2))
    \<and> wl_spawned l2 = wl_spawned idle_tables @ [(job, ''rrq:queue:mail'')]
    \<and> execute_job ks_redis simple_codec (\<lambda>_. 5000000) ''r1'' naming_worker job ''rrq:queue:mail'' (s2, l2) = (Ok (), (s3, l3))
    \<and> ''p1'' \<notin> fst ` set (wl_running l3)
    \<and> get_job_status ks_redis simple_codec ''p1'' s3
        = (Ok (Some \<lparr>jr_status = PCompleted, jr_result = Some (JStr ''f''), jr_last_error = None\<rparr>), s4)
    \<and> zset_at s3 (format_queue_key ''rrq:queue:mail'') = [] \<and> s3 (format_lock_key ''p1'') = None
    \<and> ''p1'' \<notin> zs_members (zset_at s3 (active_jobs_key ''w1''))"
proof -
  have q: "normalize_queue_name ''mail'' = ''rrq:queue:mail''" by code_simp
  have f: "split_runner_name ''f'' = (None, ''f'')" by code_simp
  have registered: "registry_get (register ''f'' naming_handler registry_new) ''f'' = Some naming_handler"
    by (simp add: registry_get_def register_def)
  have h: "naming_handler naming_request = (1000, snd (naming_handler naming_request))" by (simp add: naming_handler_def)
  have o: "xo_status (snd (naming_handler naming_request)) = OSuccess" "xo_result (snd (naming_handler naming_request)) = Some (JStr ''f'')"
    "xo_job_id (snd (naming_handler naming_request)) = Some ''p1''" "xo_request_id (snd (naming_handler naming_request)) = Some ''r1''"
    by (simp_all add: naming_handler_def outcome_success_def naming_request_eq)
  show ?thesis
    using job_travels_over_the_wire [OF _ _ _ _ _ reference.redis_server_axioms simple.codec_laws_axioms, where
        s = "\<lambda>_. None" and opts = "sample_producer_options None" and cfg = default_producer_config and i = "''new''"
        and f = "''f''" and ps = "[]" and inject = "\<lambda>c. c" and now = 7 and W = naming_worker
        and env = still_env and l = idle_tables and m = 2 and clk = "\<lambda>_. 5000000" and rid = "''r1''"
        and reg = "register ''f'' naming_handler registry_new" and start = 5000000 and h = naming_handler and d = 1000
        and request = naming_request and outcome = "snd (naming_handler naming_request)"
        and j = "''p1''" and q = "''rrq:queue:mail''" and n = 300 and ttl = 86400 and ready = 7 and v = "JStr ''f''"]
    by (simp add: q f h [symmetric] o naming_fits naming_request_def [symmetric] sample_names registered
        i64_ok_def chrono_ok_def secs_def timestamp_millis_def)
qed

end
