(* ===== verification/Command_Line.thy ===== *)
theory Command_Line
  imports Reports Worker_Command Command_Properties Client_Properties
begin

text \<open>
  The command line (\<open>orchestrator/src/main.rs\<close>): the commands as the argument parser hands them over, and the
  dispatch to the functions that carry them out. Every command first loads the settings and connects to
  Redis. A command that goes on as a process of its own, a worker or a Python runner, ends here with what it
  starts. What a command reads from outside, and what the pages of a \<open>SCAN\<close> give, are the environment.
\<close>

section \<open>The commands\<close>

datatype RunnerModeArg = ManagedArg | ExternalArg

definition runner_mode_of :: "RunnerModeArg \<Rightarrow> RunnerManagementMode" where
  "runner_mode_of value = (case value of ManagedArg \<Rightarrow> Managed | ExternalArg \<Rightarrow> External)"

datatype WorkerCommand =
    WorkerRun "string option" "string list" bool "RunnerModeArg option"
    \<comment> \<open>\<open>config\<close>, \<open>queue\<close>, \<open>burst\<close>, \<open>runner_mode\<close>\<close>
  | WorkerWatch "string option" "string list" "string option" "string list" "string list" bool "RunnerModeArg option"
    \<comment> \<open>\<open>config\<close>, \<open>queue\<close>, \<open>path\<close>, \<open>pattern\<close>, \<open>ignore_pattern\<close>, \<open>no_gitignore\<close>, \<open>runner_mode\<close>\<close>

datatype QueueCommand =
    QueueList "string option" bool \<comment> \<open>\<open>config\<close>, \<open>show_empty\<close>\<close>
  | QueueStats "string option" "string list" nat \<comment> \<open>\<open>config\<close>, \<open>queue\<close>, \<open>max_scan\<close>\<close>
  | QueueInspect string "string option" nat nat \<comment> \<open>\<open>queue_name\<close>, \<open>config\<close>, \<open>limit\<close>, \<open>offset\<close>\<close>

datatype JobCommand =
    JobShow string "string option" bool \<comment> \<open>\<open>job_id\<close>, \<open>config\<close>, \<open>raw\<close>\<close>
  | JobList "string option" "string option" "string option" "string option" nat
    \<comment> \<open>\<open>config\<close>, \<open>status\<close>, \<open>queue\<close>, \<open>function\<close>, \<open>limit\<close>\<close>
  | JobReplay string "string option" "string option" \<comment> \<open>\<open>job_id\<close>, \<open>config\<close>, \<open>queue\<close>\<close>
  | JobCancel string "string option" \<comment> \<open>\<open>job_id\<close>, \<open>config\<close>\<close>
  | JobTrace string "string option" \<comment> \<open>\<open>job_id\<close>, \<open>config\<close>\<close>

datatype DlqCommand =
    DlqList "string option" "string option" "string option" nat nat "string option" bool nat
    \<comment> \<open>\<open>config\<close>, \<open>queue\<close>, \<open>function\<close>, \<open>limit\<close>, \<open>offset\<close>, \<open>dlq_name\<close>, \<open>raw\<close>, \<open>batch_size\<close>\<close>
  | DlqStats "string option" "string option" \<comment> \<open>\<open>config\<close>, \<open>dlq_name\<close>\<close>
  | DlqInspect string "string option" bool \<comment> \<open>\<open>job_id\<close>, \<open>config\<close>, \<open>raw\<close>\<close>
  | DlqRequeue "string option" DlqRequeueOptions \<comment> \<open>\<open>config\<close> and the other arguments\<close>

datatype DebugCommand =
    GenerateJobs "string option" nat "string list" "string list" int nat
    \<comment> \<open>\<open>config\<close>, \<open>count\<close>, \<open>queue\<close>, \<open>status\<close>, \<open>age_hours\<close>, \<open>batch_size\<close>\<close>
  | GenerateWorkers "string option" nat nat \<comment> \<open>\<open>config\<close>, \<open>count\<close>, \<open>duration\<close>\<close>
  | DebugSubmit string "string option" "string option" "string option" "string option" "int option"
    \<comment> \<open>\<open>function_name\<close>, \<open>config\<close>, \<open>args\<close>, \<open>kwargs\<close>, \<open>queue\<close>, \<open>delay\<close>\<close>
  | DebugClear "string option" bool string \<comment> \<open>\<open>config\<close>, \<open>confirm\<close>, \<open>pattern\<close>\<close>
  | StressTest "string option" nat nat "string list" \<comment> \<open>\<open>config\<close>, \<open>jobs_per_second\<close>, \<open>duration\<close>, \<open>queues\<close>\<close>

datatype RunnerCommand = RunnerPython string string \<comment> \<open>\<open>settings\<close>, \<open>tcp_socket\<close>\<close>

datatype Commands =
    CWorker WorkerCommand
  | CCheck "string option"
  | CQueue QueueCommand
  | CJob JobCommand
  | CDlq DlqCommand
  | CDebug DebugCommand
  | CRunner RunnerCommand

section \<open>What a command answers\<close>

text \<open>The fields of a job in the order they are printed.\<close>

definition job_fields :: "rhash \<Rightarrow> (string \<times> string) list" where
  "job_fields m = map (\<lambda>k. (k, or_default (fmlookup m k) [])) (sorted_list_of_fset (fmdom m))"

definition job_show :: "'r redis \<Rightarrow> string \<Rightarrow> ('r, (string \<times> string) list option) io" where
  "job_show R job_id = andThen (get_job_data_map R job_id) (\<lambda>job_map. ret (map_option job_fields job_map))"

definition dlq_inspect :: "'r redis \<Rightarrow> string \<Rightarrow> ('r, rhash option) io" where
  "dlq_inspect R job_id = get_job_data_map R job_id"

text \<open>The watch mode: what it starts from. A path or pattern of the command line wins over the settings.\<close>

record watch_plan =
  wp_settings :: RRQSettings
  wp_queues :: "string list"
  wp_path :: string
  wp_include :: "string list"
  wp_ignore :: "string list"
  wp_no_gitignore :: bool
  wp_pre_restart_cmds :: "string list list"
  wp_pre_restart_cwd :: "string option"
  wp_pre_restart_timeout :: "rat option"

text \<open>\<open>Duration::from_secs_f64\<close> of the timeout panics for \<open>2 ^ 64\<close> seconds and more.\<close>

definition pre_restart_timeout :: "rat option \<Rightarrow> ('s, rat option) io" where
  "pre_restart_timeout t = (case t of
      None \<Rightarrow> ret None
    | Some s \<Rightarrow> if s \<le> 0 then ret None
                else if 18446744073709551616 \<le> s then panic ''Duration::from_secs_f64'' else ret (Some s))"

definition watch_start ::
  "RRQSettings \<Rightarrow> string list \<Rightarrow> string option \<Rightarrow> string list \<Rightarrow> string list \<Rightarrow> bool \<Rightarrow> ('s, watch_plan) io" where
  "watch_start settings queues path include_patterns ignore_patterns no_gitignore =
     (let ws = watch settings
      in andThen (pre_restart_timeout (ws_pre_restart_timeout_seconds ws)) (\<lambda>timeout.
         ret \<lparr> wp_settings = settings, wp_queues = queues,
               wp_path = (case path of Some p \<Rightarrow> p | None \<Rightarrow> or_default (ws_path ws) ''.''),
               wp_include = watch_patterns include_patterns (ws_include_patterns ws) default_include_patterns,
               wp_ignore = watch_patterns ignore_patterns (ws_ignore_patterns ws) default_ignore_patterns,
               wp_no_gitignore = (no_gitignore \<or> or_default (ws_no_gitignore ws) False),
               wp_pre_restart_cmds = ws_pre_restart_cmds ws, wp_pre_restart_cwd = ws_pre_restart_cwd ws,
               wp_pre_restart_timeout = timeout \<rparr>))"

datatype cli_output =
    StartWorker RRQSettings "string list" bool
  | StartWatch watch_plan
  | RunnerEnded
  | WorkerHealth "(string \<times> params option \<times> int option) list"
  | QueueRows "(string \<times> int \<times> rat \<times> rat) list"
  | QueueReport "queue_row list"
  | QueuePage "(string \<times> rat \<times> rhash option) list option"
  | JobFields "(string \<times> string) list option"
  | JobRows "(string \<times> rhash) list"
  | ReplayedJob "job option"
  | CancelAnswer cancel_result
  | JobEvents "trace_event list option"
  | DlqRows "rhash list"
  | DlqReport "dlq_report option"
  | DlqJob "rhash option"
  | RequeueAnswer requeue_result
  | GeneratedJobs | GeneratedWorkers
  | SubmittedJob job
  | Deleted nat
  | Stressed int

section \<open>The environment\<close>

text \<open>
  The load of the settings is \<open>load_toml_settings_with_runner_mode\<close> in the environment of the process; the
  connection is \<open>JobStore::new\<close>. Draws stand for the random choices, of which the code draws from the given names.
\<close>

record cli_env =
  ce_load :: "string option \<Rightarrow> RunnerManagementMode option \<Rightarrow> error + RRQSettings"
  ce_connect :: "RRQSettings \<Rightarrow> error + unit"
  ce_codec :: codec
  ce_inject :: "strmap option \<Rightarrow> strmap option"
  ce_now :: datetime
  ce_clk :: "string \<Rightarrow> datetime"
  ce_new_id :: string
  ce_health_pages :: "string list list"
  ce_queue_pages :: "string list list"
  ce_job_pages :: "string list list"
  ce_pages :: "string \<Rightarrow> string list list" \<comment> \<open>keys of a pattern, for the question\<close>
  ce_pages_again :: "string \<Rightarrow> string list list" \<comment> \<open>and for the removal\<close>
  ce_input :: string
  ce_job_draws :: "nat \<Rightarrow> string list \<Rightarrow> string list \<Rightarrow> int \<Rightarrow> job_draw list"
  ce_worker_rounds :: "nat \<Rightarrow> (nat \<Rightarrow> string \<times> int \<times> int \<times> datetime) list"
  ce_stress_rounds :: "nat \<Rightarrow> nat \<Rightarrow> string list \<Rightarrow> stress_draw list list"
  ce_runner_status :: "string \<Rightarrow> string \<Rightarrow> error + bool"

definition with_store :: "cli_env \<Rightarrow> string option \<Rightarrow> (RRQSettings \<Rightarrow> ('r, 'a) io) \<Rightarrow> ('r, 'a) io" where
  "with_store E config f = (case ce_load E config None of
      Inl e \<Rightarrow> fail e
    | Inr settings \<Rightarrow> (case ce_connect E settings of Inl e \<Rightarrow> fail e | Inr _ \<Rightarrow> f settings))"

definition answer :: "('a \<Rightarrow> cli_output) \<Rightarrow> ('r, 'a) io \<Rightarrow> ('r, cli_output) io" where
  "answer g m = andThen m (\<lambda>x. ret (g x))"

section \<open>The dispatch\<close>

definition names_or :: "string list \<Rightarrow> string list \<Rightarrow> string list" where
  "names_or given fallback = (if given = [] then fallback else given)"

text \<open>\<open>now - chrono::Duration::hours(age_hours)\<close>\<close>

definition hours_ago :: "datetime \<Rightarrow> int \<Rightarrow> ('s, datetime) io" where
  "hours_ago now n =
     (if - 9223372036854775 \<le> n * 3600 \<and> n * 3600 \<le> 9223372036854775
      then (if chrono_ok (now - secs (n * 3600)) then ret (now - secs (n * 3600)) else panic ''DateTime - TimeDelta overflowed'')
      else panic ''TimeDelta::hours out of bounds'')"

definition dispatch_worker :: "cli_env \<Rightarrow> WorkerCommand \<Rightarrow> ('r, cli_output) io" where
  "dispatch_worker E command = (case command of
      WorkerRun config queue burst runner_mode \<Rightarrow>
        (case ce_load E config (map_option runner_mode_of runner_mode) of
           Inl e \<Rightarrow> fail e
         | Inr settings \<Rightarrow> ret (StartWorker settings queue burst))
    | WorkerWatch config queue path pattern ignore_pattern no_gitignore runner_mode \<Rightarrow>
        (case ce_load E config (map_option runner_mode_of runner_mode) of
           Inl e \<Rightarrow> fail e
         | Inr settings \<Rightarrow> answer StartWatch (watch_start settings queue path pattern ignore_pattern no_gitignore)))"

definition dispatch_queue :: "'r redis \<Rightarrow> cli_env \<Rightarrow> QueueCommand \<Rightarrow> ('r, cli_output) io" where
  "dispatch_queue R E command = (case command of
      QueueList config show_empty \<Rightarrow>
        with_store E config (\<lambda>_. answer QueueRows (queue_list R show_empty (ce_queue_pages E)))
    | QueueStats config queue max_scan \<Rightarrow>
        with_store E config (\<lambda>settings. answer QueueReport
          (queue_stats R settings (ce_now E) queue max_scan (ce_queue_pages E) (ce_job_pages E)))
    | QueueInspect queue_name config limit offset \<Rightarrow>
        with_store E config (\<lambda>_. answer QueuePage (queue_inspect R queue_name limit offset)))"

definition dispatch_job_command :: "'r redis \<Rightarrow> cli_env \<Rightarrow> JobCommand \<Rightarrow> ('r, cli_output) io" where
  "dispatch_job_command R E command = (case command of
      JobShow job_id config raw \<Rightarrow> with_store E config (\<lambda>_. answer JobFields (job_show R job_id))
    | JobList config status queue function_name limit \<Rightarrow>
        with_store E config (\<lambda>_. answer JobRows (job_list R (ce_codec E) status queue function_name limit (ce_job_pages E)))
    | JobReplay job_id config queue \<Rightarrow>
        with_store E config (\<lambda>settings. answer ReplayedJob
          (job_replay R (ce_codec E) (ce_inject E) (ce_new_id E) (ce_now E) settings job_id queue))
    | JobCancel job_id config \<Rightarrow> with_store E config (\<lambda>_. answer CancelAnswer (job_cancel R job_id))
    | JobTrace job_id config \<Rightarrow> with_store E config (\<lambda>_. answer JobEvents (job_trace R (ce_codec E) job_id)))"

definition dispatch_dlq :: "'r redis \<Rightarrow> cli_env \<Rightarrow> DlqCommand \<Rightarrow> ('r, cli_output) io" where
  "dispatch_dlq R E command = (case command of
      DlqList config queue function_name limit offset dlq_name raw batch_size \<Rightarrow>
        with_store E config (\<lambda>settings. answer DlqRows
          (dlq_list R (ce_codec E) settings dlq_name queue function_name limit offset batch_size))
    | DlqStats config dlq_name \<Rightarrow>
        with_store E config (\<lambda>settings. answer DlqReport (dlq_stats R (ce_codec E) settings dlq_name))
    | DlqInspect job_id config raw \<Rightarrow> with_store E config (\<lambda>_. answer DlqJob (dlq_inspect R job_id))
    | DlqRequeue config options \<Rightarrow>
        with_store E config (\<lambda>settings. answer RequeueAnswer (dlq_requeue R settings (ce_clk E) options)))"

definition dispatch_debug :: "'r redis \<Rightarrow> cli_env \<Rightarrow> DebugCommand \<Rightarrow> ('r, cli_output) io" where
  "dispatch_debug R E command = (case command of
      GenerateJobs config n queue status age_hours batch_size \<Rightarrow>
        with_store E config (\<lambda>_.
          andThen (hours_ago (ce_now E) age_hours) (\<lambda>start_time.
          answer (\<lambda>_. GeneratedJobs) (debug_generate_jobs R (ce_codec E) batch_size start_time
            (ce_job_draws E n (map normalize_queue_name (names_or queue [''test'', ''urgent'', ''low_priority'', ''default'']))
               (names_or status [''pending'', ''completed'', ''failed'', ''retrying'']) age_hours))))
    | GenerateWorkers config n duration \<Rightarrow>
        with_store E config (\<lambda>_. answer (\<lambda>_. GeneratedWorkers)
          (debug_generate_workers R (ce_codec E) n (ce_worker_rounds E duration)))
    | DebugSubmit function_name config args kwargs queue delay \<Rightarrow>
        with_store E config (\<lambda>settings. answer SubmittedJob
          (debug_submit R (ce_codec E) (ce_inject E) (ce_new_id E) (ce_now E) settings function_name args kwargs queue delay))
    | DebugClear config confirm pattern \<Rightarrow>
        with_store E config (\<lambda>_. answer Deleted
          (debug_clear R confirm (ce_input E) (ce_pages E pattern) (ce_pages_again E pattern)))
    | StressTest config jobs_per_second duration queues \<Rightarrow>
        with_store E config (\<lambda>settings. answer Stressed
          (debug_stress_test R (ce_codec E) (ce_inject E) settings 0
            (ce_stress_rounds E jobs_per_second duration (map normalize_queue_name (names_or queues [''stress_test'']))))))"

text \<open>The child process ends with a status, or cannot be started.\<close>

definition runner_python :: "cli_env \<Rightarrow> string \<Rightarrow> string \<Rightarrow> ('r, cli_output) io" where
  "runner_python E settings tcp_socket = (case ce_runner_status E settings tcp_socket of
      Inl e \<Rightarrow> fail e
    | Inr success \<Rightarrow> if success then ret RunnerEnded else fail (Bail ''rrq-runner exited with status''))"

definition dispatch_command :: "'r redis \<Rightarrow> cli_env \<Rightarrow> Commands \<Rightarrow> ('r, cli_output) io" where
  "dispatch_command R E command = (case command of
      CWorker c \<Rightarrow> dispatch_worker E c
    | CCheck config \<Rightarrow>
        with_store E config (\<lambda>_. answer WorkerHealth (check_workers R (ce_codec E) (ce_health_pages E)))
    | CQueue c \<Rightarrow> dispatch_queue R E c
    | CJob c \<Rightarrow> dispatch_job_command R E c
    | CDlq c \<Rightarrow> dispatch_dlq R E c
    | CDebug c \<Rightarrow> dispatch_debug R E c
    | CRunner (RunnerPython settings tcp_socket) \<Rightarrow> runner_python E settings tcp_socket)"

section \<open>Refinement\<close>

text \<open>A step over pairs that also takes the result so far.\<close>

lemma sim_case_prod_arg [sim_rules]:
  "(\<And>x y. sim d (f x y a) (g x y a)) \<Longrightarrow> sim d ((case p of (x, y) \<Rightarrow> f x y) a) ((case p of (x, y) \<Rightarrow> g x y) a)"
  by (simp add: split_beta)

lemma keeps_case_prod_arg [keep_rules]:
  "(\<And>x y. keeps I (f x y a)) \<Longrightarrow> keeps I ((case p of (x, y) \<Rightarrow> f x y) a)"
  by (simp add: split_beta)

context redis_server
begin

lemma queue_command_sims [sim_rules]:
  "sim db (queue_list R b pages) (queue_list ks_redis b pages)"
  "sim db (queue_inspect R q n off) (queue_inspect ks_redis q n off)"
  "sim db (check_workers R C pages) (check_workers ks_redis C pages)"
  "sim db (job_list R C st qo fo n pages) (job_list ks_redis C st qo fo n pages)"
  "sim db (job_show R j) (job_show ks_redis j)" "sim db (dlq_inspect R j) (dlq_inspect ks_redis j)"
  "sim db (job_trace R C j) (job_trace ks_redis C j)"
  "sim db (dlq_list R C settings d qo fo n off n') (dlq_list ks_redis C settings d qo fo n off n')"
  unfolding queue_list_def queue_inspect_def check_workers_def job_list_def job_show_def dlq_inspect_def job_trace_def
    dlq_list_def Let_def
  by (intro sim_rules)+

lemma count_sims [sim_rules]:
  "sim db (count_page R q n keys c) (count_page ks_redis q n keys c)"
  "sim db (count_pages R q n pages c) (count_pages ks_redis q n pages c)"
proof -
  show page: "sim db (count_page R q n keys c) (count_page ks_redis q n keys c)" for keys c
    by (induction keys arbitrary: c) (auto simp only: count_page.simps Let_def intro!: sim_rules)
  show "sim db (count_pages R q n pages c) (count_pages ks_redis q n pages c)"
    by (induction pages arbitrary: c) (auto simp only: count_pages.simps Let_def intro!: sim_rules page)
qed

lemma report_sims [sim_rules]:
  "sim db (queue_stats R settings now qs n pages pages') (queue_stats ks_redis settings now qs n pages pages')"
  "sim db (dlq_stats R C settings d) (dlq_stats ks_redis C settings d)"
  unfolding queue_stats_def queue_stats_row_def count_dlq_for_queue_def dlq_stats_def Let_def
  by (intro sim_rules; auto intro!: sim_rules split: res.split)+

lemma sim_with_store [sim_rules]:
  "(\<And>settings. sim db (f settings) (g settings)) \<Longrightarrow> sim db (with_store E config f) (with_store E config g)"
  unfolding with_store_def by (intro sim_rules)

lemma sim_answer [sim_rules]: "sim db m n \<Longrightarrow> sim db (answer g m) (answer g n)"
  unfolding answer_def by (intro sim_rules)

lemma change_sims [sim_rules]:
  "sim db (job_replay R C inject i now settings j qo) (job_replay ks_redis C inject i now settings j qo)"
  "sim db (debug_submit R C inject i now settings f args kwargs qo delay)
     (debug_submit ks_redis C inject i now settings f args kwargs qo delay)"
  "sim db (debug_generate_jobs R C n start draws) (debug_generate_jobs ks_redis C n start draws)"
  "sim db (debug_generate_workers R C n rounds) (debug_generate_workers ks_redis C n rounds)"
  "sim db (debug_clear R b input pages pages') (debug_clear ks_redis b input pages pages')"
  unfolding job_replay_def debug_submit_def debug_generate_jobs_def insert_job_batch_def debug_generate_workers_def
    debug_clear_def duration_seconds_def Let_def
  by (intro sim_rules)+

lemma stress_batch_sim [sim_rules]:
  "sim db (stress_batch R C inject settings k draws) (stress_batch ks_redis C inject settings k draws)"
proof (induction draws arbitrary: k)
  case (Cons d draws)
  then show ?case by (cases d) (auto simp only: stress_batch.simps intro!: sim_rules)
qed (simp add: sim_ret)

lemma debug_stress_test_sim [sim_rules]:
  "sim db (debug_stress_test R C inject settings k rounds) (debug_stress_test ks_redis C inject settings k rounds)"
  by (induction rounds arbitrary: k) (auto simp only: debug_stress_test.simps intro!: sim_rules)

lemma dispatch_command_sim [sim_rules]:
  "sim db (dispatch_command R E command) (dispatch_command ks_redis E command)"
  unfolding dispatch_command_def dispatch_worker_def dispatch_queue_def dispatch_job_command_def dispatch_dlq_def
    dispatch_debug_def runner_python_def watch_start_def pre_restart_timeout_def hours_ago_def Let_def
  by (auto intro!: sim_rules split: Commands.split WorkerCommand.split QueueCommand.split JobCommand.split
      DlqCommand.split DebugCommand.split RunnerCommand.split option.split)

end

section \<open>Commands that only report\<close>

text \<open>A requeueing that is refused or a dry run, and a removal that is not confirmed, only report.\<close>

definition only_reports :: "cli_env \<Rightarrow> Commands \<Rightarrow> bool" where
  "only_reports E command = (case command of
      CWorker _ \<Rightarrow> False
    | CCheck _ \<Rightarrow> True
    | CQueue _ \<Rightarrow> True
    | CJob c \<Rightarrow> (case c of JobReplay _ _ _ \<Rightarrow> False | JobCancel _ _ \<Rightarrow> False | _ \<Rightarrow> True)
    | CDlq c \<Rightarrow> (case c of
          DlqRequeue _ options \<Rightarrow> do_dry_run options
            \<or> (do_queue options = None \<and> do_function options = None \<and> do_job_id options = None \<and> \<not> do_all options)
        | _ \<Rightarrow> True)
    | CDebug c \<Rightarrow> (case c of
          DebugClear _ confirm _ \<Rightarrow> \<not> confirm \<and> \<not> eq_ignore_case (trim (ce_input E)) ''y''
        | _ \<Rightarrow> False)
    | CRunner _ \<Rightarrow> True)"

definition no_store :: "cli_env \<Rightarrow> bool" where
  "no_store E \<longleftrightarrow> (\<forall>config. case ce_load E config None of Inl _ \<Rightarrow> True
     | Inr settings \<Rightarrow> (case ce_connect E settings of Inl _ \<Rightarrow> True | Inr _ \<Rightarrow> False))"

lemma keeps_with_store [keep_rules]:
  "(\<And>settings. keeps I (f settings)) \<Longrightarrow> keeps I (with_store E config f)"
  unfolding with_store_def by (intro keep_rules)

lemma keeps_answer [keep_rules]: "keeps I m \<Longrightarrow> keeps I (answer g m)"
  unfolding answer_def by (intro keep_rules)

lemma no_store_refuses: "no_store E \<Longrightarrow> \<exists>e. with_store E config f = fail e"
  by (auto simp: no_store_def with_store_def split: sum.splits dest: spec [of _ config])

lemma keeps_no_store: "no_store E \<Longrightarrow> keeps I (with_store E config f)"
  using no_store_refuses [of E config f] by (auto intro: keeps_basic)

lemma queries_keep [keep_rules]:
  "keeps I (get_job_data_map ks_redis j)" "keeps I (get_job_data_map_by_key ks_redis k)"
  "keeps I (get_job_data_maps ks_redis js)" "keeps I (queue_exists ks_redis q)" "keeps I (queue_size ks_redis q)"
  "keeps I (queue_range_with_scores ks_redis q a b)" "keeps I (get_dlq_job_ids ks_redis d)"
  "keeps I (get_worker_health ks_redis C w)"
  unfolding query_op_defs ks_redis_sel by (intro keep_rules)+

lemma counts_keep [keep_rules]:
  "keeps I (count_page ks_redis q n keys c)" "keeps I (count_pages ks_redis q n pages c)"
proof -
  show page: "keeps I (count_page ks_redis q n keys c)" for keys c
    by (induction keys arbitrary: c) (auto simp only: count_page.simps Let_def intro!: keep_rules)
  show "keeps I (count_pages ks_redis q n pages c)"
    by (induction pages arbitrary: c) (auto simp only: count_pages.simps Let_def intro!: keep_rules page)
qed

lemma reports_keep [keep_rules]:
  "keeps I (queue_list ks_redis b pages)" "keeps I (queue_inspect ks_redis q n off)"
  "keeps I (check_workers ks_redis C pages)" "keeps I (job_list ks_redis C st qo fo n pages)"
  "keeps I (job_show ks_redis j)" "keeps I (dlq_inspect ks_redis j)" "keeps I (job_trace ks_redis C j)"
  "keeps I (dlq_list ks_redis C settings d qo fo n off n')"
  "keeps I (queue_stats ks_redis settings now qs n pages pages')" "keeps I (dlq_stats ks_redis C settings d)"
  unfolding queue_list_def queue_inspect_def check_workers_def job_list_def job_show_def dlq_inspect_def job_trace_def
    dlq_list_def queue_stats_def queue_stats_row_def count_dlq_for_queue_def dlq_stats_def Let_def
  by (intro keep_rules; auto intro!: keep_rules split: res.split)+

lemma only_reports_keeps:
  assumes "only_reports E command \<or> no_store E"
  shows "keeps I (dispatch_command ks_redis E command)"
proof -
  have requeue: "keeps I (dlq_requeue ks_redis settings clk options)"
    if "do_dry_run options \<or> (do_queue options = None \<and> do_function options = None \<and> do_job_id options = None \<and> \<not> do_all options)"
    for settings clk options
    unfolding dlq_requeue_def dlq_select_def Let_def using that
    by (intro keep_rules) (auto intro: keep_rules)
  have clear: "keeps I (debug_clear ks_redis confirm input pages pages')"
    if "\<not> confirm" "\<not> eq_ignore_case (trim input) ''y''" for confirm input pages pages'
    unfolding debug_clear_def using that by (auto intro: keep_rules)
  note dispatch_defs = dispatch_command_def dispatch_worker_def dispatch_queue_def dispatch_job_command_def
    dispatch_dlq_def dispatch_debug_def runner_python_def watch_start_def pre_restart_timeout_def Let_def
  show ?thesis
    using assms
  proof
    assume "only_reports E command"
    then show ?thesis
      unfolding dispatch_defs only_reports_def
      by (auto intro!: keep_rules requeue clear split: Commands.splits WorkerCommand.splits QueueCommand.splits
        JobCommand.splits DlqCommand.splits DebugCommand.splits RunnerCommand.splits)
  next
    assume "no_store E"
    note keeps_with_store [keep_rules del]
    from \<open>no_store E\<close> show ?thesis
      unfolding dispatch_defs
      by (auto intro!: keep_rules keeps_no_store split: Commands.split WorkerCommand.split QueueCommand.split
        JobCommand.split DlqCommand.split DebugCommand.split RunnerCommand.split)
  qed
qed

text \<open>C32. A command that reports, a requeueing that is refused or a dry run, a removal that is not confirmed, and
  every command whose settings cannot be loaded or whose server cannot be reached leave Redis as it is.\<close>

theorem reports_change_nothing:
  assumes server: "redis_server R db" and report: "only_reports E command \<or> no_store E"
    and run: "dispatch_command R E command s = (r, s')"
  shows "db s' = db s"
proof -
  have "dispatch_command ks_redis E command (db s) = (r, db s')"
    by (rule simD [OF redis_server.dispatch_command_sim [OF server] run])
  then show ?thesis
    using keepsD [OF only_reports_keeps [OF report, of "\<lambda>ks. ks = db s"]] by blast
qed

definition sample_cli :: "string \<Rightarrow> cli_env" where
  "sample_cli input = \<lparr> ce_load = \<lambda>_ _. Inr default_settings, ce_connect = \<lambda>_. Inr (), ce_codec = simple_codec,
     ce_inject = \<lambda>c. c, ce_now = 7000000, ce_clk = \<lambda>_. 7000000, ce_new_id = ''new'', ce_health_pages = [], ce_queue_pages = [],
     ce_job_pages = [], ce_pages = \<lambda>_. [[format_job_key ''a'']], ce_pages_again = \<lambda>_. [[format_job_key ''a'']],
     ce_input = input, ce_job_draws = \<lambda>_ _ _ _. [], ce_worker_rounds = \<lambda>_. [], ce_stress_rounds = \<lambda>_ _ _. [],
     ce_runner_status = \<lambda>_ _. Inr True \<rparr>"

theorem reports_change_nothing_witness:
  "let ks = put_hash (format_job_key ''a'') (fmupd ''status'' ''PENDING'' fmempty) (\<lambda>_. None)
   in snd (dispatch_command ks_redis (sample_cli ''no'') (CDebug (DebugClear None False ''rrq:*'')) ks) = ks"
proof -
  have n: "\<not> eq_ignore_case (trim ''no'') ''y''" by code_simp
  let ?ks = "put_hash (format_job_key ''a'') (fmupd ''status'' ''PENDING'' fmempty) (\<lambda>_. None)"
  obtain r s' where run: "dispatch_command ks_redis (sample_cli ''no'') (CDebug (DebugClear None False ''rrq:*'')) ?ks = (r, s')"
    by (metis prod.collapse)
  have "s' = ?ks"
    using reports_change_nothing [OF reference.redis_server_axioms _ run] n
    by (simp add: only_reports_def sample_cli_def)
  with run show ?thesis by (simp add: Let_def)
qed

end
