(* ===== verification/Metrics_Base.thy ===== *)
theory Metrics_Base
  imports Otlp Protocol
begin

text \<open>
  The telemetry of orchestrator and runner (\<open>orchestrator/src/telemetry.rs\<close>, \<open>runner/src/telemetry.rs\<close>): what is
  exported, and which measurement each \<open>record_\<close> function hands to the OpenTelemetry library. The library is outside:
  an exporter is built or fails by a parameter, and a measurement is a value.
\<close>

section \<open>Measurements\<close>

datatype emission =
    CounterAdd string nat strmap
  | UpDownAdd string int strmap
  | Recorded string rat strmap

definition add_counter :: "string \<Rightarrow> nat \<Rightarrow> strmap \<Rightarrow> emission list" where
  "add_counter counter value attrs = [CounterAdd counter value attrs]"

definition record_histogram :: "string \<Rightarrow> f64 \<Rightarrow> strmap \<Rightarrow> emission list" where
  "record_histogram histogram value attrs = (case value of
      Finite r \<Rightarrow> if r < 0 then [] else [Recorded histogram r attrs]
    | _ \<Rightarrow> [])"

section \<open>The orchestrator\<close>

text \<open>\<open>on\<close>: the instruments have been created.\<close>

definition record_poll_cycle :: "bool \<Rightarrow> string \<Rightarrow> emission list" where
  "record_poll_cycle on res = (if on then add_counter ''rrq_poll_cycles_total'' 1 [(''result'', res)] else [])"

definition record_enqueue :: "bool \<Rightarrow> string \<Rightarrow> string \<Rightarrow> f64 \<Rightarrow> emission list" where
  "record_enqueue on queue res duration_ms =
     (let attrs = [(''queue'', queue), (''result'', res)]
      in if on then add_counter ''rrq_enqueue_total'' 1 attrs @ record_histogram ''rrq_enqueue_duration_ms'' duration_ms attrs
         else [])"

definition record_claim_attempt :: "bool \<Rightarrow> string \<Rightarrow> emission list" where
  "record_claim_attempt on queue = (if on then add_counter ''rrq_claim_attempt_total'' 1 [(''queue'', queue)] else [])"

definition record_claim_miss :: "bool \<Rightarrow> string \<Rightarrow> string \<Rightarrow> emission list" where
  "record_claim_miss on queue reason =
     (if on then add_counter ''rrq_claim_miss_total'' 1 [(''queue'', queue), (''reason'', reason)] else [])"

definition record_jobs_fetched :: "bool \<Rightarrow> string \<Rightarrow> nat \<Rightarrow> emission list" where
  "record_jobs_fetched on queue fetched =
     (if fetched = 0 \<or> \<not> on then [] else add_counter ''rrq_jobs_fetched_total'' fetched [(''queue'', queue)])"

definition record_lock_acquire :: "bool \<Rightarrow> string \<Rightarrow> string \<Rightarrow> emission list" where
  "record_lock_acquire on queue res =
     (if on then add_counter ''rrq_lock_acquire_total'' 1 [(''queue'', queue), (''result'', res)] else [])"

definition record_queue_wait_ms :: "bool \<Rightarrow> string \<Rightarrow> f64 \<Rightarrow> emission list" where
  "record_queue_wait_ms on queue wait = (if on then record_histogram ''rrq_queue_wait_ms'' wait [(''queue'', queue)] else [])"

definition record_job_processed :: "bool \<Rightarrow> string \<Rightarrow> string \<Rightarrow> string \<Rightarrow> f64 \<Rightarrow> emission list" where
  "record_job_processed on queue runner outcome duration_ms =
     (let attrs = [(''queue'', queue), (''runner'', runner), (''outcome'', outcome)]
      in if on then add_counter ''rrq_jobs_processed_total'' 1 attrs @ record_histogram ''rrq_job_duration_ms'' duration_ms attrs
         else [])"

definition record_orphan_recovered :: "bool \<Rightarrow> nat \<Rightarrow> emission list" where
  "record_orphan_recovered on n = (if n = 0 \<or> \<not> on then [] else [CounterAdd ''rrq_orphan_recovered_total'' n []])"

text \<open>The attributes a span gets from a correlation context.\<close>

definition span_attributes :: "strmap \<Rightarrow> strmap" where
  "span_attributes correlation_context = filter (\<lambda>(key, value). key \<noteq> [] \<and> value \<noteq> []) correlation_context"

section \<open>Start and end of the export\<close>

definition build_resource :: "ResourceMetadata \<Rightarrow> strmap" where
  "build_resource metadata = (''service.name'', rm_service_name metadata)
     # (case rm_environment metadata of Some e \<Rightarrow> [(''deployment.environment'', e)] | None \<Rightarrow> [])
     @ (case rm_version metadata of Some v \<Rightarrow> [(''service.version'', v)] | None \<Rightarrow> [])"

text \<open>The builder of the exporter of a signal, from its endpoint and its headers; and what the start has set up.\<close>

type_synonym exporter_builder = "OtlpSignal \<Rightarrow> string \<Rightarrow> strmap \<Rightarrow> string + unit"

definition build_otlp_exporter :: "exporter_builder \<Rightarrow> OtlpEnvConfig \<Rightarrow> OtlpSignal \<Rightarrow> string + unit" where
  "build_otlp_exporter build otlp s = (case os_endpoint (otlp_signal otlp s) of
      None \<Rightarrow> Inl (''OTLP '' @ path_suffix s @ '' endpoint is not configured'')
    | Some endpoint \<Rightarrow> build s endpoint (os_headers (otlp_signal otlp s)))"

record tracing_setup =
  ts_propagators :: "string list" \<comment> \<open>of the global text map propagator\<close>
  ts_trace_layer :: bool
  ts_metrics :: bool
  ts_log_layer :: bool
  ts_format :: LogFormat
  ts_resource :: strmap
  ts_warnings :: "string list"
  ts_fallback_notice :: bool

text \<open>Metrics and logs are set up alike: nothing without an endpoint, and an error when the exporter cannot be built.\<close>

definition init_signal :: "exporter_builder \<Rightarrow> OtlpEnvConfig \<Rightarrow> OtlpSignal \<Rightarrow> bool \<times> string option" where
  "init_signal build otlp s =
     (if os_endpoint (otlp_signal otlp s) = None then (False, None)
      else case build_otlp_exporter build otlp s of Inl err \<Rightarrow> (False, Some err) | Inr _ \<Rightarrow> (True, None))"

text \<open>The propagators are installed before the exporter is built, and stay when that fails.\<close>

definition init_otel_layer :: "exporter_builder \<Rightarrow> OtlpEnvConfig \<Rightarrow> string list \<times> bool \<times> string option" where
  "init_otel_layer build otlp =
     (if os_endpoint (otlp_signal otlp Traces) = None then ([], False, None)
      else ([''tracecontext'', ''baggage''],
        case build_otlp_exporter build otlp Traces of Inl err \<Rightarrow> (False, Some err) | Inr _ \<Rightarrow> (True, None)))"

definition fallback_notice :: "OtlpEnvConfig \<Rightarrow> bool" where
  "fallback_notice otlp \<longleftrightarrow> has_global_endpoint otlp \<and> explicit_signal_endpoint_count otlp < 3"

definition init_warnings :: "string option \<Rightarrow> string option \<Rightarrow> string option \<Rightarrow> string list" where
  "init_warnings trace_error metrics_error logs_error =
     (case trace_error of Some e \<Rightarrow> [''OpenTelemetry tracing exporter failed to initialize: '' @ e] | None \<Rightarrow> [])
     @ (case metrics_error of Some e \<Rightarrow> [''OpenTelemetry metrics exporter failed to initialize: '' @ e] | None \<Rightarrow> [])
     @ (case logs_error of Some e \<Rightarrow> [''OpenTelemetry logs exporter failed to initialize: '' @ e] | None \<Rightarrow> [])"

definition init_tracing :: "(string \<Rightarrow> string option) \<Rightarrow> exporter_builder \<Rightarrow> tracing_setup" where
  "init_tracing lookup build =
     (let otlp = resolve_otlp_env_with_lookup AppendHttpSignalPath lookup;
          (propagators, otel_layer, trace_error) = init_otel_layer build otlp;
          (metrics, metrics_error) = init_signal build otlp Metrics;
          (otel_log_layer, logs_error) = init_signal build otlp Logs
      in \<lparr> ts_propagators = propagators,
           ts_trace_layer = otel_layer, ts_metrics = metrics, ts_log_layer = otel_log_layer,
           ts_format = parse_log_format (or_default (lookup ''RUST_LOG_FORMAT'') ''json''),
           ts_resource = build_resource (resolve_resource_metadata lookup),
           ts_warnings = init_warnings trace_error metrics_error logs_error,
           ts_fallback_notice = fallback_notice otlp \<rparr>)"

section \<open>The runner\<close>

text \<open>What the statics of the runner hold: its instruments, the cached answer whether metrics are exported, its label.\<close>

record runner_telemetry =
  rt_metrics :: bool
  rt_endpoint :: "bool option"
  rt_label :: "string option"

definition runner_label :: "(string \<Rightarrow> string option) \<Rightarrow> runner_telemetry \<Rightarrow> string" where
  "runner_label lookup t = (case rt_label t of
      Some value \<Rightarrow> value
    | None \<Rightarrow> (case env_optional_nonempty lookup ''OTEL_SERVICE_NAME'' of
         Some value \<Rightarrow> value
       | None \<Rightarrow> or_default (lookup ''SERVICE_NAME'') ''rrq-runner''))"

definition metrics_endpoint_configured :: "(string \<Rightarrow> string option) \<Rightarrow> runner_telemetry \<Rightarrow> bool \<times> runner_telemetry" where
  "metrics_endpoint_configured lookup t = (case rt_endpoint t of
      Some b \<Rightarrow> (b, t)
    | None \<Rightarrow> (let b = os_endpoint (otlp_signal (resolve_otlp_env_with_lookup AppendHttpSignalPath lookup) Metrics) \<noteq> None
              in (b, t\<lparr>rt_endpoint := Some b\<rparr>)))"

definition runner_metrics :: "(string \<Rightarrow> string option) \<Rightarrow> runner_telemetry \<Rightarrow> bool \<times> runner_telemetry" where
  "runner_metrics lookup t = (if rt_metrics t then (True, t) else metrics_endpoint_configured lookup t)"

text \<open>A measurement of the runner carries its label; the other attributes follow.\<close>

definition runner_emit ::
  "(string \<Rightarrow> string option) \<Rightarrow> (strmap \<Rightarrow> emission list) \<Rightarrow> runner_telemetry \<Rightarrow> emission list \<times> runner_telemetry" where
  "runner_emit lookup emit t = (case runner_metrics lookup t of
      (on, t1) \<Rightarrow> (if on then emit [(''runner'', runner_label lookup t1)] else [], t1))"

datatype metric_call =
    InflightDelta int | ChannelPressure nat | DeadlineExpired | Cancellation string | JobOutcome string OutcomeStatus int

definition outcome_label :: "OutcomeStatus \<Rightarrow> string" where
  "outcome_label st = (case st of
      OSuccess \<Rightarrow> ''success'' | ORetry \<Rightarrow> ''retry'' | OTimeout \<Rightarrow> ''timeout'' | OError \<Rightarrow> ''error'')"

text \<open>The \<open>record_\<close> functions of the runner; the duration of a job is in nanoseconds.\<close>

definition runner_record ::
  "(string \<Rightarrow> string option) \<Rightarrow> metric_call \<Rightarrow> runner_telemetry \<Rightarrow> emission list \<times> runner_telemetry" where
  "runner_record lookup call t = (case call of
      InflightDelta delta \<Rightarrow>
        (if delta = 0 then ([], t) else runner_emit lookup (\<lambda>attrs. [UpDownAdd ''rrq_runner_inflight'' delta attrs]) t)
    | ChannelPressure pressure \<Rightarrow>
        runner_emit lookup (\<lambda>attrs. [Recorded ''rrq_runner_channel_pressure'' (of_nat pressure) attrs]) t
    | DeadlineExpired \<Rightarrow> runner_emit lookup (\<lambda>attrs. [CounterAdd ''rrq_deadline_expired_total'' 1 attrs]) t
    | Cancellation scope \<Rightarrow>
        runner_emit lookup (\<lambda>attrs. [CounterAdd ''rrq_cancellations_total'' 1 (attrs @ [(''scope'', scope)])]) t
    | JobOutcome function_name outcome duration \<Rightarrow>
        runner_emit lookup (\<lambda>attrs.
          let attrs1 = attrs @ [(''outcome'', outcome_label outcome), (''function'', function_name)]
          in [CounterAdd ''rrq_runner_jobs_total'' 1 attrs1,
              Recorded ''rrq_runner_job_duration_ms'' (of_int duration / 1000000) attrs1]) t)"

fun runner_records ::
  "(string \<Rightarrow> string option) \<Rightarrow> metric_call list \<Rightarrow> runner_telemetry \<Rightarrow> emission list \<times> runner_telemetry" where
  "runner_records lookup [] t = ([], t)"
| "runner_records lookup (call # calls) t =
     (case runner_record lookup call t of (es, t1) \<Rightarrow>
      case runner_records lookup calls t1 of (es', t2) \<Rightarrow> (es @ es', t2))"

definition runner_init_metrics ::
  "string \<Rightarrow> exporter_builder \<Rightarrow> OtlpEnvConfig \<Rightarrow> runner_telemetry \<Rightarrow> (string + unit) \<times> runner_telemetry" where
  "runner_init_metrics service_name build otlp t = (case os_endpoint (otlp_signal otlp Metrics) of
      None \<Rightarrow> (Inr (), t)
    | Some endpoint \<Rightarrow> (case build Metrics endpoint (os_headers (otlp_signal otlp Metrics)) of
        Inl err \<Rightarrow> (Inl err, t)
      | Inr _ \<Rightarrow> (Inr (), t\<lparr>rt_metrics := True,
          rt_label := (case rt_label t of Some l \<Rightarrow> Some l | None \<Rightarrow> Some service_name)\<rparr>)))"

section \<open>What holds of the export\<close>

text \<open>What became of the exporter of a signal: not configured, failed, or built.\<close>

definition exporter_of :: "exporter_builder \<Rightarrow> (string \<Rightarrow> string option) \<Rightarrow> OtlpSignal \<Rightarrow> (string + unit) option" where
  "exporter_of build lookup s =
     (let c = otlp_signal (resolve_otlp_env_with_lookup AppendHttpSignalPath lookup) s
      in map_option (\<lambda>e. build s e (os_headers c)) (os_endpoint c))"

lemma init_signal_exporter:
  "init_signal build (resolve_otlp_env_with_lookup AppendHttpSignalPath lookup) s
    = (exporter_of build lookup s = Some (Inr ()),
       case exporter_of build lookup s of Some (Inl e) \<Rightarrow> Some e | _ \<Rightarrow> None)"
  by (auto simp: init_signal_def build_otlp_exporter_def exporter_of_def Let_def split: option.split sum.split)

lemma init_otel_layer_signal:
  "init_otel_layer build otlp
     = (if os_endpoint (otlp_signal otlp Traces) = None then [] else [''tracecontext'', ''baggage''], init_signal build otlp Traces)"
  by (simp add: init_otel_layer_def init_signal_def)

text \<open>The signals are exported independently: each one exactly when it has an endpoint and its exporter can be
  built, whatever becomes of the others; and as many warnings are logged as exporters could not be built.\<close>

theorem signals_are_independent:
  "ts_trace_layer (init_tracing lookup build) \<longleftrightarrow> exporter_of build lookup Traces = Some (Inr ())"
  "ts_metrics (init_tracing lookup build) \<longleftrightarrow> exporter_of build lookup Metrics = Some (Inr ())"
  "ts_log_layer (init_tracing lookup build) \<longleftrightarrow> exporter_of build lookup Logs = Some (Inr ())"
  "length (ts_warnings (init_tracing lookup build))
     = length (filter (\<lambda>s. \<exists>e. exporter_of build lookup s = Some (Inl e)) [Traces, Metrics, Logs])"
  by (simp_all add: init_tracing_def init_otel_layer_signal init_signal_exporter Let_def init_warnings_def split: option.split sum.split)

text \<open>A measurement before the start of the export leaves no trace in the state but the cached answer, so the
  instruments and the label are those of the start.\<close>

lemma early_measurement_harmless:
  assumes "runner_records lookup calls \<lparr> rt_metrics = False, rt_endpoint = e, rt_label = None \<rparr> = (es, t)"
  shows "\<not> rt_metrics t \<and> rt_label t = None"
proof -
  have step: "rt_metrics (snd (runner_record lookup call t)) = rt_metrics t \<and> rt_label (snd (runner_record lookup call t)) = rt_label t"
    for call t
    by (auto simp: runner_record_def runner_emit_def runner_metrics_def metrics_endpoint_configured_def Let_def
        split: metric_call.split option.split)
  have "rt_metrics (snd (runner_records lookup calls t)) = rt_metrics t \<and> rt_label (snd (runner_records lookup calls t)) = rt_label t"
    for t
    by (induction calls arbitrary: t) (simp_all add: split_beta step)
  from this [of "\<lparr> rt_metrics = False, rt_endpoint = e, rt_label = None \<rparr>"] assms show ?thesis by simp
qed

end
