(* ===== verification/Runner_Telemetry.thy ===== *)
theory Runner_Telemetry
  imports Metrics_Base Runtime
begin

text \<open>
  The span of a job on the runner and the start of the runner's telemetry (\<open>runner/src/telemetry.rs\<close>, and the outcome
  that \<open>runner/src/registry.rs\<close> records). A span is its name, the fields it declares and what is recorded for them; a
  field that is not declared is dropped by the library. The propagators and the subscriber are parameters.
\<close>

section \<open>Spans\<close>

datatype field_value = FText string | FInt int | FNumber rat | FEmpty

record span =
  sp_name :: string
  sp_fields :: "(string \<times> field_value) list"
  sp_attributes :: strmap
  sp_parent :: "strmap option" \<comment> \<open>the trace context the parent is extracted from\<close>

definition record_field :: "string \<Rightarrow> field_value \<Rightarrow> span \<Rightarrow> span" where
  "record_field key value sp = sp\<lparr>sp_fields := map (\<lambda>(k, v). (k, if k = key then value else v)) (sp_fields sp)\<rparr>"

text \<open>Milliseconds, at least 0.\<close>

definition millis_floor :: "int \<Rightarrow> rat" where
  "millis_floor ns = of_int (max 0 (ns div 1000000))"

definition new_runner_span :: "datetime \<Rightarrow> ExecutionRequest \<Rightarrow> span" where
  "new_runner_span now request =
     \<lparr> sp_name = ''rrq.runner'',
       sp_fields =
         [(''span.kind'', FText ''consumer''),
          (''messaging.system'', FText ''redis''),
          (''messaging.destination.name'', FText (xc_queue_name (xr_context request))),
          (''messaging.destination_kind'', FText ''queue''),
          (''messaging.operation'', FText ''process''),
          (''rrq.job_id'', FText (xr_job_id request)),
          (''rrq.function'', FText (xr_function_name request)),
          (''rrq.queue'', FText (xc_queue_name (xr_context request))),
          (''rrq.attempt'', FInt (int (xc_attempt (xr_context request)))),
          (''rrq.worker_id'', FEmpty), (''rrq.deadline'', FEmpty), (''rrq.deadline_remaining_ms'', FEmpty),
          (''rrq.queue_wait_ms'', FNumber (millis_floor (now - xc_enqueue_time (xr_context request)))),
          (''rrq.outcome'', FEmpty), (''rrq.duration_ms'', FEmpty), (''rrq.retry_delay_ms'', FEmpty),
          (''rrq.error_message'', FEmpty), (''rrq.error_type'', FEmpty)],
       sp_attributes = [], sp_parent = None \<rparr>"

definition runner_span :: "codec \<Rightarrow> datetime \<Rightarrow> ExecutionRequest \<Rightarrow> span" where
  "runner_span C now request =
     (let sp = new_runner_span now request; ctx = xr_context request;
          sp1 = (case xc_worker_id ctx of None \<Rightarrow> sp | Some w \<Rightarrow> record_field ''rrq.worker_id'' (FText w) sp);
          sp2 = (case xc_deadline ctx of
                   None \<Rightarrow> sp1
                 | Some deadline \<Rightarrow> record_field ''rrq.deadline_remaining_ms'' (FNumber (millis_floor (deadline - now)))
                     (record_field ''rrq.deadline'' (FText (to_rfc3339 C deadline)) sp1));
          sp3 = (case xc_trace_context ctx of None \<Rightarrow> sp2 | Some trace_context \<Rightarrow> sp2\<lparr>sp_parent := Some trace_context\<rparr>)
      in case xc_correlation_context ctx of
           None \<Rightarrow> sp3
         | Some correlation_context \<Rightarrow> sp3\<lparr>sp_attributes := sp_attributes sp3 @ span_attributes correlation_context\<rparr>)"

text \<open>The outcome of a job; its duration is in nanoseconds.\<close>

definition record_status :: "ExecutionOutcome \<Rightarrow> span \<Rightarrow> span" where
  "record_status outcome sp = (case xo_status outcome of
      OSuccess \<Rightarrow> record_field ''rrq.outcome'' (FText ''success'') sp
    | ORetry \<Rightarrow>
        (let sp1 = record_field ''rrq.outcome'' (FText ''retry'') sp
         in case xo_retry_after_seconds outcome of
              Some delay \<Rightarrow> record_field ''rrq.retry_delay_ms'' (FNumber (delay * 1000)) sp1
            | None \<Rightarrow> sp1)
    | OTimeout \<Rightarrow> record_field ''rrq.outcome'' (FText ''timeout'') sp
    | OError \<Rightarrow> record_field ''rrq.outcome'' (FText ''error'') sp)"

definition record_error :: "ExecutionOutcome \<Rightarrow> span \<Rightarrow> span" where
  "record_error outcome sp = (case xo_error outcome of
      None \<Rightarrow> sp
    | Some err \<Rightarrow>
        (let sp1 = record_field ''rrq.error_message'' (FText (xe_message err)) sp
         in case xe_type err of Some error_type \<Rightarrow> record_field ''rrq.error_type'' (FText error_type) sp1 | None \<Rightarrow> sp1))"

definition record_outcome :: "string \<Rightarrow> ExecutionOutcome \<Rightarrow> int \<Rightarrow> span \<Rightarrow> metric_call \<times> span" where
  "record_outcome function_name outcome duration sp =
     (JobOutcome function_name (xo_status outcome) duration,
      record_error outcome (record_status outcome
        (record_field ''rrq.duration_ms'' (FNumber (of_int duration / 1000000)) sp)))"

text \<open>The span of a job that is executed to its end.\<close>

definition executed_span :: "codec \<Rightarrow> registry \<Rightarrow> datetime \<Rightarrow> ExecutionRequest \<Rightarrow> metric_call \<times> span" where
  "executed_span C reg now request =
     (case execute_with reg request of (duration, outcome) \<Rightarrow>
        record_outcome (xr_function_name request) outcome duration (runner_span C now request))"


definition set_parent_from_trace_context :: "strmap \<Rightarrow> span \<Rightarrow> span" where
  "set_parent_from_trace_context trace_context sp =
     (if trace_context = [] then sp else sp\<lparr>sp_parent := Some trace_context\<rparr>)"

section \<open>The start of the runner's telemetry\<close>

record runner_setup =
  rs_trace_layer :: bool
  rs_log_layer :: bool
  rs_warnings :: "string list"
  rs_fallback_notice :: bool

text \<open>\<open>try_init\<close> fails when the process has a subscriber; the metrics have been set up by then.\<close>

definition runner_init_tracing :: "(string \<Rightarrow> string option) \<Rightarrow> exporter_builder \<Rightarrow> string + unit \<Rightarrow> string
    \<Rightarrow> runner_telemetry \<Rightarrow> (string + runner_setup) \<times> runner_telemetry" where
  "runner_init_tracing lookup build try_init service_name t =
     (let otlp = resolve_otlp_env_with_lookup AppendHttpSignalPath lookup;
          (trace_layer, trace_error) = init_signal build otlp Traces;
          (log_layer, logs_error) = init_signal build otlp Logs;
          (res, t1) = runner_init_metrics service_name build otlp t;
          metrics_error = (case res of Inl e \<Rightarrow> Some e | Inr _ \<Rightarrow> None)
      in case try_init of
           Inl err \<Rightarrow> (Inl err, t1)
         | Inr _ \<Rightarrow> (Inr \<lparr> rs_trace_layer = trace_layer, rs_log_layer = log_layer,
               rs_warnings = init_warnings trace_error metrics_error logs_error,
               rs_fallback_notice = fallback_notice otlp \<rparr>, t1))"

section \<open>What holds of a span\<close>

lemma record_field_keys [simp]: "map fst (sp_fields (record_field key value sp)) = map fst (sp_fields sp)"
  by (simp add: record_field_def split_beta comp_def)

lemma map_of_record [simp]:
  "map_of (sp_fields (record_field key value sp)) k
     = (if k = key then map_option (\<lambda>_. value) (map_of (sp_fields sp) k) else map_of (sp_fields sp) k)"
proof -
  have "map_of (map (\<lambda>(k, v). (k, if k = key then value else v)) fs) k
      = (if k = key then map_option (\<lambda>_. value) (map_of fs k) else map_of fs k)" for fs
    by (induction fs) auto
  then show ?thesis by (simp add: record_field_def)
qed

lemma record_status_field:
  "map_of (sp_fields (record_status outcome sp)) k
     = (if k = ''rrq.outcome'' then map_option (\<lambda>_. FText (outcome_label (xo_status outcome))) (map_of (sp_fields sp) k)
        else if k = ''rrq.retry_delay_ms'' \<and> xo_status outcome = ORetry then
          (case xo_retry_after_seconds outcome of
             Some delay \<Rightarrow> map_option (\<lambda>_. FNumber (delay * 1000)) (map_of (sp_fields sp) k) | None \<Rightarrow> map_of (sp_fields sp) k)
        else map_of (sp_fields sp) k)"
  by (auto simp: record_status_def outcome_label_def Let_def split: OutcomeStatus.split option.split)

lemma record_error_field:
  "k \<noteq> ''rrq.error_message'' \<Longrightarrow> k \<noteq> ''rrq.error_type'' \<Longrightarrow> map_of (sp_fields (record_error outcome sp)) k = map_of (sp_fields sp) k"
  by (auto simp: record_error_def Let_def split: option.split)

lemma runner_span_fields:
  "k \<notin> {''rrq.worker_id'', ''rrq.deadline'', ''rrq.deadline_remaining_ms''}
    \<Longrightarrow> map_of (sp_fields (runner_span C now request)) k = map_of (sp_fields (new_runner_span now request)) k"
  by (auto simp: runner_span_def Let_def split: option.split)

text \<open>The span and the metrics of a job agree: the outcome in the span is the label under which the job is counted,
  the duration is the one of the histogram, and both are recorded, whatever the handler returns.\<close>

theorem span_agrees_with_metrics:
  assumes "executed_span C reg now request = (JobOutcome f st d, sp)"
  shows "f = xr_function_name request \<and> st = xo_status (snd (execute_with reg request))
    \<and> map_of (sp_fields sp) ''rrq.outcome'' = Some (FText (outcome_label st))
    \<and> map_of (sp_fields sp) ''rrq.duration_ms'' = Some (FNumber (of_int d / 1000000))
    \<and> map_of (sp_fields sp) ''rrq.job_id'' = Some (FText (xr_job_id request))"
  using assms
  by (auto simp: executed_span_def record_outcome_def record_error_field record_status_field runner_span_fields
      new_runner_span_def split: prod.splits)

end
