(* ===== verification/Metrics.thy ===== *)
theory Metrics
  imports Metrics_Base Runtime_Properties
begin

text \<open>
  The measurements of a running runner: which \<open>record_\<close> functions each event of the server calls, and that the
  gauge of the requests in flight is exact.
\<close>

section \<open>The calls of an event\<close>

text \<open>A job that is executed to its end counts under its outcome; one that is not, as a missed deadline.\<close>

definition outcome_call :: "registry \<Rightarrow> ExecutionRequest \<Rightarrow> metric_call" where
  "outcome_call reg request =
     (case execute_with reg request of (duration, outcome) \<Rightarrow>
        JobOutcome (xr_function_name request) (xo_status outcome) duration)"

definition deadline_calls :: "registry \<Rightarrow> datetime \<Rightarrow> ExecutionRequest \<Rightarrow> metric_call list" where
  "deadline_calls reg now request = (case xc_deadline (xr_context request) of
      Some deadline \<Rightarrow>
        if deadline \<le> now then [DeadlineExpired]
        else if fst (execute_with reg request) \<le> deadline - now then [outcome_call reg request] else [DeadlineExpired]
    | None \<Rightarrow> [outcome_call reg request])"

text \<open>\<open>if in_flight.remove(&request_id).is_some() { record_runner_inflight_delta(-1) }\<close>\<close>

definition removal_calls :: "server \<Rightarrow> string \<Rightarrow> metric_call list" where
  "removal_calls s request_id = (if sv_in_flight s request_id = None then [] else [InflightDelta (- 1)])"

definition message_calls :: "nat \<Rightarrow> string list \<Rightarrow> RunnerMessage \<Rightarrow> server \<Rightarrow> metric_call list" where
  "message_calls c ids m s = (case m of
      MRequest payload \<Rightarrow>
        if xr_protocol_version payload \<noteq> PROTOCOL_VERSION \<or> RESPONSE_CHANNEL_CAPACITY \<le> card (sv_active s c) then []
        else [ChannelPressure (card (insert (xr_request_id payload) (sv_active s c)))]
    | MCancel payload \<Rightarrow>
        if cr_protocol_version payload \<noteq> PROTOCOL_VERSION \<or> ids = [] then []
        else [Cancellation (if cr_request_id payload \<noteq> None then ''request'' else ''job'')]
    | MResponse _ \<Rightarrow> [])"

definition task_calls :: "registry \<Rightarrow> datetime \<Rightarrow> nat \<Rightarrow> server \<Rightarrow> metric_call list" where
  "task_calls reg now h s =
     (let t = sv_tasks s ! h; request_id = xr_request_id (tk_request t)
      in case tk_stage t of
        Executing \<Rightarrow> deadline_calls reg now (tk_request t)
      | Unlisting \<Rightarrow> removal_calls s request_id
      | Deactivating \<Rightarrow> [ChannelPressure (card (sv_active s (tk_conn t) - {request_id}))]
      | _ \<Rightarrow> [])"

definition cancel_calls :: "nat \<Rightarrow> server \<Rightarrow> metric_call list" where
  "cancel_calls c s = (case sv_conn s c of
      Cancelling job_id (request_id # ids) \<Rightarrow>
        (case sv_in_flight s request_id of
           None \<Rightarrow> []
         | Some t \<Rightarrow> if tk_completed (sv_tasks s ! ft_handle t) then [] else [InflightDelta (- 1)])
    | Deactivate job_id request_id t ids \<Rightarrow> [ChannelPressure (card (sv_active s (ft_conn t) - {request_id}))]
    | _ \<Rightarrow> [])"

text \<open>
  The calls are made in the step that makes the change they report. The code makes them in the same task, right after it
  has given the lock back, so in between the gauge lags behind by the changes whose calls are still to come; what is
  said of it holds when none is.
\<close>

definition server_calls :: "registry \<Rightarrow> event \<Rightarrow> server \<Rightarrow> metric_call list" where
  "server_calls reg ev s = (case ev of
      Message c sent ids m \<Rightarrow> message_calls c ids m s
    | EndOfStream c ids \<Rightarrow> [ChannelPressure 0]
    | ListStep c \<Rightarrow> (case sv_conn s c of Listing _ _ _ \<Rightarrow> [InflightDelta 1] | _ \<Rightarrow> [])
    | CancelStep c sent \<Rightarrow> cancel_calls c s
    | DrainStep c \<Rightarrow> (case sv_conn s c of Draining (request_id # ids) \<Rightarrow> removal_calls s request_id | _ \<Rightarrow> [])
    | TaskStep h now sent \<Rightarrow> task_calls reg now h s
    | _ \<Rightarrow> [])"

fun metered_run :: "registry \<Rightarrow> event list \<Rightarrow> server \<Rightarrow> (server \<times> metric_call list) option" where
  "metered_run reg [] s = Some (s, [])"
| "metered_run reg (ev # evs) s =
     Option.bind (server_next reg ev s) (\<lambda>s1.
     Option.bind (metered_run reg evs s1) (\<lambda>(s2, calls). Some (s2, server_calls reg ev s @ calls)))"

definition inflight_gauge :: "metric_call list \<Rightarrow> int" where
  "inflight_gauge calls = sum_list (map (\<lambda>call. case call of InflightDelta d \<Rightarrow> d | _ \<Rightarrow> 0) calls)"

lemma inflight_gauge_simps [simp]:
  "inflight_gauge [] = 0" "inflight_gauge (xs @ ys) = inflight_gauge xs + inflight_gauge ys"
  "inflight_gauge (InflightDelta d # xs) = d + inflight_gauge xs"
  "inflight_gauge (ChannelPressure n # xs) = inflight_gauge xs" "inflight_gauge (DeadlineExpired # xs) = inflight_gauge xs"
  "inflight_gauge (Cancellation sc # xs) = inflight_gauge xs" "inflight_gauge (JobOutcome f st d # xs) = inflight_gauge xs"
  by (simp_all add: inflight_gauge_def)

lemma outcome_call_gauge [simp]: "inflight_gauge (outcome_call reg request # xs) = inflight_gauge xs"
  by (simp add: outcome_call_def split: prod.split)

lemma deadline_calls_gauge [simp]: "inflight_gauge (deadline_calls reg now request) = 0"
  by (simp add: deadline_calls_def split: option.split)

lemma metered_run_runs: "metered_run reg evs s = Some (s', calls) \<Longrightarrow> server_run reg evs s = Some s'"
  by (induction evs arbitrary: s calls) (auto simp: bind_eq_Some_conv)

section \<open>The gauge is exact\<close>

text \<open>A request that is about to be listed is not listed yet.\<close>

definition unlisted :: "server \<Rightarrow> bool" where
  "unlisted s \<longleftrightarrow> (\<forall>c r j h. sv_conn s c = Listing r j h \<longrightarrow> sv_in_flight s r = None)"

lemma listing_apart:
  assumes "tracked s" "fresh_requests s" "sv_conn s c = Listing r j h" "sv_conn s c' = Listing r j' h'"
  shows "c = c'"
proof -
  have h: "h < length (sv_tasks s)" "request_of s h = r" "tk_conn (sv_tasks s ! h) = c"
    using trackedD(2) [OF assms(1), of c] assms(3) by simp_all
  have h': "h' < length (sv_tasks s)" "request_of s h' = r" "tk_conn (sv_tasks s ! h') = c'"
    using trackedD(2) [OF assms(1), of c'] assms(4) by simp_all
  have "h = h'" by (rule fresh_same [OF assms(2) h(1) h'(1)]) (simp add: h(2) h'(2))
  then show ?thesis using h(3) h'(3) by simp
qed

lemma new_request_unlisted:
  assumes inv: "tracked s" and fresh: "fresh_requests s'"
    and tasks: "sv_tasks s' = sv_tasks s @ [t]" "xr_request_id (tk_request t) = r"
  shows "sv_in_flight s r = None"
proof (rule ccontr)
  assume "sv_in_flight s r \<noteq> None"
  then obtain e where entry: "sv_in_flight s r = Some e" by blast
  have e: "ft_handle e < length (sv_tasks s)" "request_of s (ft_handle e) = r"
    using trackedD(1) [OF inv entry] by simp_all
  have "request_of s (ft_handle e) \<in> (\<lambda>t. xr_request_id (tk_request t)) ` set (sv_tasks s)"
    using nth_mem [OF e(1)] by blast
  moreover have "r \<notin> (\<lambda>t. xr_request_id (tk_request t)) ` set (sv_tasks s)"
    using fresh by (simp add: fresh_requests_def tasks)
  ultimately show False using e(2) by simp
qed

text \<open>What an event does to the entries, and what it adds to the gauge.\<close>

definition entries_move :: "server \<Rightarrow> server \<Rightarrow> int \<Rightarrow> bool" where
  "entries_move s s' d \<longleftrightarrow> sv_in_flight s' = sv_in_flight s \<and> d = 0
   \<or> (\<exists>r. sv_in_flight s' = (sv_in_flight s)(r := None) \<and> d = (if sv_in_flight s r = None then 0 else - 1))
   \<or> (\<exists>r e. sv_in_flight s r = None \<and> sv_in_flight s' = (sv_in_flight s)(r \<mapsto> e) \<and> d = 1)"

lemma entries_moveI:
  "sv_in_flight s' = sv_in_flight s \<Longrightarrow> d = 0 \<Longrightarrow> entries_move s s' d"
  "sv_in_flight s' = (sv_in_flight s)(r := None) \<Longrightarrow> d = (if sv_in_flight s r = None then 0 else - 1) \<Longrightarrow> entries_move s s' d"
  "sv_in_flight s' = (sv_in_flight s)(r \<mapsto> e) \<Longrightarrow> sv_in_flight s r = None \<Longrightarrow> d = 1 \<Longrightarrow> entries_move s s' d"
  by (auto simp: entries_move_def)

lemma entries_move_card:
  assumes "entries_move s s' d" "finite (dom (sv_in_flight s))"
  shows "finite (dom (sv_in_flight s')) \<and> int (card (dom (sv_in_flight s'))) = int (card (dom (sv_in_flight s))) + d"
proof -
  have less: "card (dom (sv_in_flight s)) = Suc (card (dom (sv_in_flight s) - {r}))" if "sv_in_flight s r \<noteq> None" for r
    using that card_Suc_Diff1 [OF assms(2), of r] by (simp add: domIff)
  have same: "dom (sv_in_flight s) - {r} = dom (sv_in_flight s)" if "sv_in_flight s r = None" for r
    using that by auto
  consider "sv_in_flight s' = sv_in_flight s" "d = 0"
    | r where "sv_in_flight s' = (sv_in_flight s)(r := None)" "d = (if sv_in_flight s r = None then 0 else - 1)"
    | r e where "sv_in_flight s r = None" "sv_in_flight s' = (sv_in_flight s)(r \<mapsto> e)" "d = 1"
    using assms(1) unfolding entries_move_def by blast
  then show ?thesis
  proof cases
    case (2 r)
    then have "dom (sv_in_flight s') = dom (sv_in_flight s) - {r}" by auto
    then show ?thesis using 2 assms(2) less [of r] same [of r] by (cases "sv_in_flight s r = None") (simp_all del: card_Diff_insert)
  next
    case (3 r e)
    then show ?thesis using assms(2) by (simp add: card_insert_if domIff)
  qed (use assms(2) in simp)
qed

section \<open>Every event moves the gauge\<close>

lemma list_step_move:
  assumes "unlisted s" "list_step c s = Some s'"
  shows "entries_move s s' (inflight_gauge (server_calls reg (ListStep c) s))"
proof (cases "sv_conn s c")
  case (Listing r j h)
  then show ?thesis
    using assms by (intro entries_moveI(3) [of _ _ r "\<lparr> ft_job_id = j, ft_handle = h, ft_conn = c \<rparr>"])
      (auto simp: list_step_def server_calls_def unlisted_def)
qed (use assms in \<open>auto simp: list_step_def server_calls_def intro!: entries_moveI(1)\<close>)

lemma cancel_step_move:
  assumes "cancel_step c sent s = Some s'"
  shows "entries_move s s' (inflight_gauge (server_calls reg (CancelStep c sent) s))"
proof (cases "sv_conn s c")
  case (Cancelling j ids)
  show ?thesis
  proof (cases ids)
    case (Cons r rest)
    show ?thesis
    proof (cases "sv_in_flight s r")
      case (Some e)
      then show ?thesis
        using assms Cancelling Cons
        by (cases "tk_completed (sv_tasks s ! ft_handle e)")
          (auto simp: cancel_step_def server_calls_def cancel_calls_def abort_def
            intro: entries_moveI(1) entries_moveI(2) [of _ _ r])
    qed (use assms Cancelling Cons in \<open>auto simp: cancel_step_def server_calls_def cancel_calls_def intro!: entries_moveI(1)\<close>)
  qed (use assms Cancelling in \<open>auto simp: cancel_step_def server_calls_def cancel_calls_def intro!: entries_moveI(1)\<close>)
qed (use assms in \<open>auto simp: cancel_step_def server_calls_def cancel_calls_def intro!: entries_moveI(1)\<close>)

lemma drain_step_move:
  assumes "drain_step c s = Some s'"
  shows "entries_move s s' (inflight_gauge (server_calls reg (DrainStep c) s))"
proof (cases "sv_conn s c")
  case (Draining ids)
  show ?thesis
  proof (cases ids)
    case (Cons r rest)
    show ?thesis
    proof (cases "sv_in_flight s r")
      case None
      then show ?thesis
        using assms Draining Cons by (auto simp: drain_step_def server_calls_def removal_calls_def intro!: entries_moveI(1))
    next
      case (Some e)
      then show ?thesis
        using assms Draining Cons
        by (auto simp: drain_step_def server_calls_def removal_calls_def abort_def intro!: entries_moveI(2) [of _ _ r])
    qed
  qed (use assms Draining in \<open>auto simp: drain_step_def server_calls_def intro!: entries_moveI(1)\<close>)
qed (use assms in \<open>auto simp: drain_step_def server_calls_def intro!: entries_moveI(1)\<close>)

lemma task_step_move:
  assumes "task_step reg now sent h s = Some s'"
  shows "entries_move s s' (inflight_gauge (server_calls reg (TaskStep h now sent) s))"
proof (cases "tk_stage (sv_tasks s ! h)")
  case Unlisting
  then show ?thesis
    using assms by (intro entries_moveI(2) [of _ _ "request_of s h"])
      (auto simp: task_step_def server_calls_def task_calls_def removal_calls_def Let_def split: if_splits)
qed (use assms in \<open>auto simp: task_step_def server_calls_def task_calls_def Let_def split: if_splits intro!: entries_moveI(1)\<close>)

lemma message_calls_gauge [simp]: "inflight_gauge (message_calls c ids m s) = 0"
  by (simp add: message_calls_def split: RunnerMessage.split)

lemma handle_request_in_flight [simp]: "sv_in_flight (handle_request c sent payload s) = sv_in_flight s"
  by (simp add: handle_request_def Let_def)

lemma handle_cancel_in_flight [simp]: "sv_in_flight (handle_cancel c ids payload s) = sv_in_flight s"
  by (simp add: handle_cancel_def)

theorem server_next_move:
  assumes "unlisted s" "server_next reg ev s = Some s'"
  shows "entries_move s s' (inflight_gauge (server_calls reg ev s))"
proof (cases ev)
  case (Message c sent ids m)
  then show ?thesis
    using assms(2) by (cases m) (auto simp: server_next_def server_calls_def split: if_splits intro!: entries_moveI(1))
next
  case (ListStep c)
  then show ?thesis using assms list_step_move by (simp add: server_next_def)
next
  case (CancelStep c sent)
  then show ?thesis using assms cancel_step_move by (simp add: server_next_def)
next
  case (DrainStep c)
  then show ?thesis using assms drain_step_move by (simp add: server_next_def)
next
  case (TaskStep h now sent)
  then show ?thesis using assms task_step_move by (simp add: server_next_def)
qed (use assms(2) in \<open>auto simp: server_next_def server_calls_def split: if_splits intro!: entries_moveI(1)\<close>)

section \<open>What is about to be listed is not listed\<close>

lemma unlistedD: "unlisted s \<Longrightarrow> sv_conn s c = Listing r j h \<Longrightarrow> sv_in_flight s r = None"
  unfolding unlisted_def by blast

lemma unlisted_shrinks:
  assumes "unlisted s"
    and "\<And>c r j h. sv_conn s' c = Listing r j h \<Longrightarrow> sv_conn s c = Listing r j h"
    and "\<And>r. sv_in_flight s r = None \<Longrightarrow> sv_in_flight s' r = None"
  shows "unlisted s'"
  using assms unfolding unlisted_def by blast

lemma list_step_unlisted:
  assumes inv: "tracked s" "fresh_requests s" "unlisted s" and step: "list_step c s = Some s'"
  shows "unlisted s'"
proof (cases "sv_conn s c")
  case (Listing r j h)
  have "sv_in_flight s' r' = None" if at: "sv_conn s' c' = Listing r' j' h'" for c' r' j' h'
  proof -
    have c': "c' \<noteq> c" "sv_conn s c' = Listing r' j' h'"
      using step at Listing by (auto simp: list_step_def split: if_splits)
    then have "r' \<noteq> r" using listing_apart [OF inv(1,2) Listing] by blast
    then show ?thesis using step Listing unlistedD [OF inv(3) c'(2)] by (auto simp: list_step_def)
  qed
  then show ?thesis by (simp add: unlisted_def)
qed (use step in \<open>auto simp: list_step_def split: if_splits intro!: unlisted_shrinks [OF inv(3)]\<close>)

lemma handle_request_unlisted:
  assumes inv: "tracked s" "unlisted s" and fresh: "fresh_requests (handle_request c sent payload s)"
  shows "unlisted (handle_request c sent payload s)"
proof (cases "xr_protocol_version payload \<noteq> PROTOCOL_VERSION \<or> RESPONSE_CHANNEL_CAPACITY \<le> card (sv_active s c)")
  case True
  then show ?thesis
    by (intro unlisted_shrinks [OF inv(2)]) (auto simp: handle_request_def Let_def split: if_splits)
next
  case False
  then have "sv_tasks (handle_request c sent payload s) = sv_tasks s @ [\<lparr> tk_conn = c, tk_request = payload,
      tk_stage = Executing, tk_completed = False, tk_aborted = False \<rparr>]"
    by (simp add: handle_request_def Let_def)
  then have "sv_in_flight s (xr_request_id payload) = None"
    by (rule new_request_unlisted [OF inv(1) fresh]) simp
  then show ?thesis
    using False inv(2) by (auto simp: unlisted_def handle_request_def Let_def)
qed

lemma cancel_step_unlisted: "unlisted s \<Longrightarrow> cancel_step c sent s = Some s' \<Longrightarrow> unlisted s'"
  by (erule unlisted_shrinks)
    (auto simp: cancel_step_def abort_def split: conn_stage.splits list.splits option.splits if_splits)

lemma drain_step_unlisted: "unlisted s \<Longrightarrow> drain_step c s = Some s' \<Longrightarrow> unlisted s'"
  by (erule unlisted_shrinks)
    (auto simp: drain_step_def abort_def split: conn_stage.splits list.splits option.splits if_splits)

lemma task_step_unlisted: "unlisted s \<Longrightarrow> task_step reg now sent h s = Some s' \<Longrightarrow> unlisted s'"
  by (erule unlisted_shrinks) (auto simp: task_step_def Let_def split: task_stage.splits if_splits)

lemma server_next_unlisted:
  assumes inv: "tracked s" "fresh_requests s" "unlisted s"
    and step: "server_next reg ev s = Some s'" and fresh: "fresh_requests s'"
  shows "unlisted s'"
proof (cases ev)
  case (Message c sent ids m)
  show ?thesis
  proof (cases m)
    case (MRequest payload)
    then show ?thesis
      using step fresh Message handle_request_unlisted [OF inv(1,3)] by (auto simp: server_next_def split: if_splits)
  qed (use step Message in \<open>auto simp: server_next_def handle_cancel_def split: if_splits intro!: unlisted_shrinks [OF inv(3)]\<close>)
next
  case (ListStep c)
  then show ?thesis using step list_step_unlisted [OF inv] by (simp add: server_next_def)
next
  case (CancelStep c sent)
  then show ?thesis using step cancel_step_unlisted [OF inv(3)] by (simp add: server_next_def)
next
  case (DrainStep c)
  then show ?thesis using step drain_step_unlisted [OF inv(3)] by (simp add: server_next_def)
next
  case (TaskStep h now sent)
  then show ?thesis using step task_step_unlisted [OF inv(3)] by (simp add: server_next_def)
qed (use step in \<open>auto simp: server_next_def split: if_splits intro!: unlisted_shrinks [OF inv(3)]\<close>)

section \<open>The pressure is bounded\<close>

lemma server_calls_bounded:
  assumes "bounded s" "ChannelPressure n \<in> set (server_calls reg ev s)"
  shows "n \<le> RESPONSE_CHANNEL_CAPACITY"
proof -
  have less: "card (A - {r}) \<le> m" if "finite A" "card A \<le> m" for A :: "string set" and r m
    using that card_Diff1_le [of A r] by simp
  have more: "card (insert r A) \<le> m" if "finite A" "card A < m" for A :: "string set" and r m
    using that by (simp add: card_insert_if)
  have no_outcome: "ChannelPressure n \<noteq> outcome_call reg request" for request
    by (simp add: outcome_call_def split: prod.split)
  show ?thesis
    using assms unfolding bounded_def
    by (cases ev) (auto simp: server_calls_def message_calls_def cancel_calls_def task_calls_def removal_calls_def
        deadline_calls_def no_outcome less more Let_def
        split: RunnerMessage.splits conn_stage.splits list.splits option.splits task_stage.splits if_splits)
qed

section \<open>A run\<close>

lemma metered_run_exact:
  assumes "metered_run reg evs s = Some (s', calls)" "fresh_requests s'"
    and "tracked s" "unlisted s" "bounded s" "finite (dom (sv_in_flight s))"
  shows "finite (dom (sv_in_flight s'))
    \<and> int (card (dom (sv_in_flight s'))) = int (card (dom (sv_in_flight s))) + inflight_gauge calls
    \<and> (\<forall>n. ChannelPressure n \<in> set calls \<longrightarrow> n \<le> RESPONSE_CHANNEL_CAPACITY)"
  using assms
proof (induction evs arbitrary: s calls)
  case (Cons ev evs)
  obtain s1 calls1 where s1: "server_next reg ev s = Some s1" "metered_run reg evs s1 = Some (s', calls1)"
    and calls: "calls = server_calls reg ev s @ calls1"
    using Cons.prems(1) by (auto simp: bind_eq_Some_conv)
  have fresh1: "fresh_requests s1" by (rule server_run_inv(2) [OF metered_run_runs [OF s1(2)] Cons.prems(2)])
  have fresh: "fresh_requests s" by (rule server_next_fresh [OF s1(1) fresh1])
  have step: "finite (dom (sv_in_flight s1))
      \<and> int (card (dom (sv_in_flight s1))) = int (card (dom (sv_in_flight s))) + inflight_gauge (server_calls reg ev s)"
    by (rule entries_move_card [OF server_next_move [OF Cons.prems(4) s1(1)] Cons.prems(6)])
  have "finite (dom (sv_in_flight s'))
    \<and> int (card (dom (sv_in_flight s'))) = int (card (dom (sv_in_flight s1))) + inflight_gauge calls1
    \<and> (\<forall>n. ChannelPressure n \<in> set calls1 \<longrightarrow> n \<le> RESPONSE_CHANNEL_CAPACITY)"
    using Cons.IH [OF s1(2) Cons.prems(2) server_next_tracked [OF Cons.prems(3) fresh s1(1)]
        server_next_unlisted [OF Cons.prems(3) fresh Cons.prems(4) s1(1) fresh1]
        server_next_bounded [OF Cons.prems(5) s1(1)]] step by blast
  then show ?case using step server_calls_bounded [OF Cons.prems(5)] calls by auto
qed auto

text \<open>C39. The measurements of a runner are right: while the ids of the requests are distinct, the deltas recorded since
  it started add up to the number of requests in flight, and the pressure recorded for a channel never
  exceeds its capacity.\<close>

theorem inflight_gauge_exact:
  assumes run: "metered_run reg evs server_init = Some (s, calls)" and fresh: "fresh_requests s"
  shows "finite (dom (sv_in_flight s)) \<and> inflight_gauge calls = int (card (dom (sv_in_flight s)))
    \<and> (\<forall>n. ChannelPressure n \<in> set calls \<longrightarrow> n \<le> RESPONSE_CHANNEL_CAPACITY)"
proof -
  have start: "unlisted server_init" "sv_in_flight server_init = (\<lambda>_. None)"
    by (simp_all add: unlisted_def server_init_def)
  then show ?thesis
    using metered_run_exact [OF run fresh server_init_inv(2) start(1) server_init_inv(1)] by simp
qed

lemmas call_defs = server_calls_def message_calls_def task_calls_def cancel_calls_def removal_calls_def

theorem inflight_gauge_exact_witness:
  "\<exists>s calls. metered_run registry_new [Accept 0, Message 0 True [] (MRequest (sample_request ''r'' ''j'')), ListStep 0, ListStep 0]
      server_init = Some (s, calls) \<and> inflight_gauge calls = int (card (dom (sv_in_flight s)))
    \<and> sv_in_flight s ''r'' \<noteq> None \<and> ChannelPressure 1 \<in> set calls"
proof -
  obtain s calls where run: "metered_run registry_new
      [Accept 0, Message 0 True [] (MRequest (sample_request ''r'' ''j'')), ListStep 0, ListStep 0] server_init = Some (s, calls)"
    and s: "sv_tasks s = [\<lparr> tk_conn = 0, tk_request = sample_request ''r'' ''j'', tk_stage = Executing,
      tk_completed = False, tk_aborted = False \<rparr>]" "sv_in_flight s ''r'' \<noteq> None" "ChannelPressure 1 \<in> set calls"
    by (simp add: server_steps call_defs)
  then show ?thesis
    using inflight_gauge_exact [OF run] by (auto simp: fresh_requests_def)
qed

text \<open>With an id that is used twice the deltas drift: the second entry replaces the first, and one delta is left.\<close>

lemma inflight_gauge_drifts:
  fixes payload :: ExecutionRequest
  assumes version: "xr_protocol_version payload = PROTOCOL_VERSION"
  shows "\<exists>evs s calls. metered_run reg evs server_init = Some (s, calls) \<and> sv_in_flight s = (\<lambda>_. None) \<and> inflight_gauge calls = 1"
  by (rule exI [of _ "[Accept 0, Accept 1, Message 0 True [] (MRequest payload), ListStep 0, ListStep 0,
        Message 1 True [] (MRequest payload), ListStep 1, ListStep 1,
        TaskStep 0 0 True, TaskStep 0 0 True, TaskStep 0 0 True, TaskStep 1 0 True, TaskStep 1 0 True, TaskStep 1 0 True]"])
    (simp add: server_steps call_defs version)

end
