(* ===== verification/Runner_Start.thy ===== *)
theory Runner_Start
  imports Runtime Parent
begin

text \<open>
  The start of a runner (\<open>RunnerRuntime\<close> and \<open>run_tcp_loop\<close> in \<open>runner/src/runtime.rs\<close>): the parent guard, the tokio
  runtime, the address and the listener, in this order. The operating system and tokio answer through arguments.
\<close>

definition runner_runtime_new :: "error + watchdog_slot option \<Rightarrow> error + unit \<Rightarrow> error + unit" where
  "runner_runtime_new guard runtime_new = (case guard of
      Inl e \<Rightarrow> Inl e
    | Inr _ \<Rightarrow> runtime_new)"

text \<open>The server that accepts connections, or why there is none.\<close>

definition run_tcp_loop :: "(IpAddr \<times> nat \<Rightarrow> string) \<Rightarrow> (IpAddr \<times> nat \<Rightarrow> error + unit) \<Rightarrow> IpAddr \<times> nat \<Rightarrow> error + server" where
  "run_tcp_loop addr_text bind sock =
     (if \<not> is_loopback (fst sock)
      then Inl (Bail (''runner tcp_socket must be loopback-only (got '' @ addr_text sock @ '')''))
      else case bind sock of Inl e \<Rightarrow> Inl e | Inr _ \<Rightarrow> Inr server_init)"

definition run_tcp :: "(IpAddr \<times> nat \<Rightarrow> string) \<Rightarrow> error + watchdog_slot option \<Rightarrow> error + unit \<Rightarrow> (IpAddr \<times> nat \<Rightarrow> error + unit)
    \<Rightarrow> IpAddr \<times> nat \<Rightarrow> error + server" where
  "run_tcp addr_text guard runtime_new bind sock = (case runner_runtime_new guard runtime_new of
      Inl e \<Rightarrow> Inl e
    | Inr _ \<Rightarrow> run_tcp_loop addr_text bind sock)"

text \<open>A runner listens on a loopback address only, and only when its guard is in place.\<close>

lemma run_tcp_guarded:
  assumes "run_tcp addr_text guard runtime_new bind sock = Inr s"
  shows "is_loopback (fst sock) \<and> (\<exists>slot. guard = Inr slot) \<and> bind sock = Inr () \<and> s = server_init"
  using assms by (auto simp: run_tcp_def runner_runtime_new_def run_tcp_loop_def split: sum.splits if_splits)

text \<open>An endpoint that the runner reads from its settings is never refused for its address.\<close>

lemma runner_endpoint_accepted:
  assumes "runner_parse_tcp_socket raw = Inr sock"
  shows "run_tcp_loop addr_text bind sock = (case bind sock of Inl e \<Rightarrow> Inl e | Inr _ \<Rightarrow> Inr server_init) \<and> 0 < snd sock"
proof -
  have "is_loopback (V4 [127, 0, 0, 1])" by code_simp
  then have "is_loopback (fst sock) \<and> 0 < snd sock"
    using assms by (auto simp: runner_parse_tcp_socket_def Let_def split: sum.splits option.splits prod.splits if_splits)
  then show ?thesis by (simp add: run_tcp_loop_def)
qed

end
