(* ===== verification/Contexts.thy ===== *)
theory Contexts
  imports Producer
begin

text \<open>
  The contexts a job carries. The orchestrator (\<open>orchestrator/src/telemetry.rs\<close>) and the producer library
  (\<open>producer/src/lib.rs\<close>) each have their own functions for the trace context and for the correlation context of a
  job: the producer's are translated here, and compared with the orchestrator's. What the propagator writes for the
  current span is the parameter \<open>carrier\<close>.
\<close>

section \<open>Trace contexts\<close>

text \<open>The orchestrator's injector replaces an entry of the caller, the producer's keeps it.\<close>

definition injector_set :: "string \<Rightarrow> string \<Rightarrow> strmap \<Rightarrow> strmap" where
  "injector_set key value m = sminsert key value m"

definition producer_injector_set :: "string \<Rightarrow> string \<Rightarrow> strmap \<Rightarrow> strmap" where
  "producer_injector_set key value m = (if map_of m key = None then m @ [(key, value)] else m)"

definition inject_context :: "(string \<Rightarrow> string \<Rightarrow> strmap \<Rightarrow> strmap) \<Rightarrow> strmap \<Rightarrow> strmap \<Rightarrow> strmap" where
  "inject_context set_entry carrier m = foldl (\<lambda>m (key, value). set_entry key value m) m carrier"

definition inject_current_trace_context :: "strmap \<Rightarrow> strmap option \<Rightarrow> strmap option" where
  "inject_current_trace_context carrier trace_context =
     (let merged = inject_context injector_set carrier (case trace_context of Some m \<Rightarrow> m | None \<Rightarrow> [])
      in if merged = [] then None else Some merged)"

definition merge_trace_context :: "strmap \<Rightarrow> strmap option \<Rightarrow> strmap option" where
  "merge_trace_context carrier trace_context =
     (let merged = inject_context producer_injector_set carrier (case trace_context of Some m \<Rightarrow> m | None \<Rightarrow> [])
      in if merged = [] then None else Some merged)"

section \<open>The producer's correlation context\<close>

fun producer_lookup_parts :: "json option \<Rightarrow> string list \<Rightarrow> json option" where
  "producer_lookup_parts current [] = current"
| "producer_lookup_parts current (part # parts) =
     (if part = [] then None
      else producer_lookup_parts
        (Option.bind current (\<lambda>v. case v of JObj m \<Rightarrow> map_of m part | _ \<Rightarrow> None)) parts)"

definition producer_lookup_value_in_params :: "params \<Rightarrow> string \<Rightarrow> json option" where
  "producer_lookup_value_in_params ps path =
     (let trimmed = trim path; cleaned = or_default (strip_prefix trimmed ''params.'') trimmed
      in if cleaned = [] then None
         else let parts = split_dots cleaned in producer_lookup_parts (map_of ps (hd parts)) (tl parts))"

definition producer_scalar_value_to_string :: "json \<Rightarrow> string option" where
  "producer_scalar_value_to_string value = (case value of
      JStr v \<Rightarrow> if v = [] then None else Some v
    | JBool v \<Rightarrow> Some (if v then ''true'' else ''false'')
    | JInt v \<Rightarrow> Some (show_int v)
    | JFloat v \<Rightarrow> Some v
    | _ \<Rightarrow> None)"

text \<open>The longest run of whole characters that fits.\<close>

fun producer_truncate_loop :: "nat \<Rightarrow> nat \<Rightarrow> string \<Rightarrow> string \<Rightarrow> string" where
  "producer_truncate_loop 0 max_len out rest = out"
| "producer_truncate_loop (Suc n) max_len out rest =
     (case rest of
        [] \<Rightarrow> out
      | c # _ \<Rightarrow>
          (let ch = take (utf8_len c) rest
           in if max_len < length out + length ch then out
              else producer_truncate_loop n max_len (out @ ch) (drop (utf8_len c) rest)))"

definition producer_truncate_utf8 :: "string \<Rightarrow> nat \<Rightarrow> string" where
  "producer_truncate_utf8 value max_len =
     (if length value \<le> max_len then value else producer_truncate_loop (length value) max_len [] value)"

definition producer_correlation_step :: "params \<Rightarrow> strmap option \<Rightarrow> string \<times> string \<Rightarrow> strmap \<Rightarrow> strmap" where
  "producer_correlation_step ps trace_context mapping correlation =
     (case mapping of (attr_name, path) \<Rightarrow>
        (let key = trim attr_name;
             existing = (case Option.bind trace_context (\<lambda>ctx. map_of ctx key) of
                Some v \<Rightarrow> if v = [] then None else Some v
              | None \<Rightarrow> None)
         in if key = [] \<or> 64 < length key then correlation
            else case existing of
              Some v \<Rightarrow> sminsert key (producer_truncate_utf8 v 256) correlation
            | None \<Rightarrow>
                (case producer_lookup_value_in_params ps path of
                   None \<Rightarrow> correlation
                 | Some raw \<Rightarrow>
                     (case producer_scalar_value_to_string raw of
                        None \<Rightarrow> correlation
                      | Some v \<Rightarrow> sminsert key (producer_truncate_utf8 v 256) correlation))))"

definition producer_extract_correlation_context :: "params \<Rightarrow> strmap \<Rightarrow> strmap option \<Rightarrow> strmap option" where
  "producer_extract_correlation_context ps mappings trace_context =
     (if mappings = [] then None
      else let correlation = foldl (\<lambda>correlation mapping.
                 if 16 \<le> length correlation then correlation
                 else producer_correlation_step ps trace_context mapping correlation) [] mappings
           in if correlation = [] then None else Some correlation)"

section \<open>The two agree\<close>

lemma producer_lookup_parts_none [simp]: "producer_lookup_parts None parts = None"
  by (induction parts) simp_all

lemma producer_lookup_parts_some: "producer_lookup_parts (Some v) parts = lookup_parts v parts"
  by (induction v parts rule: lookup_parts.induct) (auto split: json.split option.split)

lemma split_dots_nonempty [simp]: "split_dots s \<noteq> []"
  by (cases s) (auto split: list.split)

lemma producer_lookup_agrees: "producer_lookup_value_in_params = lookup_value_in_params"
proof -
  have "producer_lookup_value_in_params ps path = lookup_value_in_params ps path" for ps path
    unfolding producer_lookup_value_in_params_def lookup_value_in_params_def Let_def
    by (auto simp: or_default_def producer_lookup_parts_some split: option.split list.split dest: sym)
  then show ?thesis by blast
qed

lemma producer_scalar_agrees: "producer_scalar_value_to_string = scalar_value_to_string"
  by (auto simp: fun_eq_iff producer_scalar_value_to_string_def scalar_value_to_string_def split: json.split)

lemma producer_truncate_loop_agrees:
  "length rest \<le> n \<Longrightarrow> producer_truncate_loop n max_len out rest = truncate_chars max_len out rest"
proof (induction n max_len out rest rule: producer_truncate_loop.induct)
  case (2 n max_len out rest)
  show ?case
  proof (cases rest)
    case (Cons c cs)
    have "length (drop (utf8_len c) rest) \<le> n" using 2(2) Cons utf8_len_pos [of c] by (simp del: utf8_len_pos)
    then show ?thesis using 2(1) [OF Cons refl] Cons by (simp add: Let_def)
  qed simp
qed simp

lemma producer_truncate_agrees: "producer_truncate_utf8 = truncate_utf8"
  by (simp add: fun_eq_iff producer_truncate_utf8_def truncate_utf8_def producer_truncate_loop_agrees)

lemma producer_correlation_step_agrees:
  "producer_correlation_step ps trace_context mapping correlation = correlation_step ps trace_context mapping correlation"
  by (auto simp: producer_correlation_step_def correlation_step_def Let_def producer_truncate_agrees producer_scalar_agrees
      producer_lookup_agrees MAX_CORRELATION_KEY_LEN_def MAX_CORRELATION_VALUE_LEN_def
      split: prod.split option.split bind_splits)

lemma full_correlation_stays:
  "16 \<le> length correlation \<Longrightarrow> foldl (\<lambda>correlation mapping.
      if 16 \<le> length correlation then correlation else f mapping correlation) correlation mappings = correlation"
  by (induction mappings) simp_all

lemma full_correlation_loop: "16 \<le> length correlation \<Longrightarrow> correlation_loop ps trace_context mappings correlation = correlation"
  by (cases mappings) (simp_all add: MAX_CORRELATION_KEYS_def)

lemma producer_loop_agrees:
  "foldl (\<lambda>correlation mapping. if 16 \<le> length correlation then correlation
      else producer_correlation_step ps trace_context mapping correlation) correlation mappings
    = correlation_loop ps trace_context mappings correlation"
  by (induction mappings arbitrary: correlation)
    (auto simp: full_correlation_stays full_correlation_loop producer_correlation_step_agrees MAX_CORRELATION_KEYS_def)

text \<open>A job gets the same correlation context from the producer library as from the orchestrator.\<close>

theorem producer_correlation_agrees:
  "producer_extract_correlation_context ps mappings trace_context = extract_correlation_context ps mappings trace_context"
  by (simp add: producer_extract_correlation_context_def extract_correlation_context_def producer_loop_agrees)

text \<open>Their trace contexts differ where the caller has an entry of its own.\<close>

lemma map_of_sminsert: "map_of (sminsert k v m) k' = (if k' = k then Some v else map_of m k')"
proof -
  have "map_of (filter (\<lambda>p. fst p \<noteq> k) m) k' = (if k' = k then None else map_of m k')"
    by (induction m) auto
  then show ?thesis by (simp add: sminsert_def map_add_def split: option.split)
qed

lemma map_of_inject_context:
  assumes "distinct (map fst carrier)"
  shows "map_of (inject_context injector_set carrier m) k = (case map_of carrier k of Some v \<Rightarrow> Some v | None \<Rightarrow> map_of m k)"
    "map_of (inject_context producer_injector_set carrier m) k = (case map_of m k of Some v \<Rightarrow> Some v | None \<Rightarrow> map_of carrier k)"
proof -
  show "map_of (inject_context injector_set carrier m) k = (case map_of carrier k of Some v \<Rightarrow> Some v | None \<Rightarrow> map_of m k)"
    using assms
  proof (induction carrier arbitrary: m)
    case (Cons e carrier)
    then show ?case
      by (cases e) (auto simp: inject_context_def injector_set_def map_of_sminsert map_of_eq_None_iff image_iff
          split: option.split)
  qed (simp add: inject_context_def)
  have add: "map_of (m @ [(a, b)]) k = (case map_of m k of Some v \<Rightarrow> Some v | None \<Rightarrow> if k = a then Some b else None)" for m a b
    by (simp add: map_add_def split: option.split)
  show "map_of (inject_context producer_injector_set carrier m) k = (case map_of m k of Some v \<Rightarrow> Some v | None \<Rightarrow> map_of carrier k)"
  proof (induction carrier arbitrary: m)
    case (Cons e carrier)
    obtain a b where e: "e = (a, b)" by (cases e)
    show ?case
    proof (cases "map_of m a")
      case None
      then have "inject_context producer_injector_set (e # carrier) m = inject_context producer_injector_set carrier (m @ [(a, b)])"
        by (simp add: inject_context_def producer_injector_set_def e)
      then show ?thesis using Cons [of "m @ [(a, b)]"] None by (auto simp: add e simp del: map_of_append split: option.splits)
    next
      case (Some v)
      then have "inject_context producer_injector_set (e # carrier) m = inject_context producer_injector_set carrier m"
        by (simp add: inject_context_def producer_injector_set_def e)
      then show ?thesis using Cons [of m] Some by (auto simp: e split: option.split)
    qed
  qed (auto simp: inject_context_def split: option.split)
qed

end
