(* ===== verification/Listings.thy ===== *)
theory Listings
  imports Reports Worker
begin

text \<open>
  The lines the listings of the command line print (\<open>orchestrator/src/cli_utils.rs\<close> and the printing parts of
  \<open>orchestrator/src/commands/\<close>). The terminal is the state of a print, the list of its lines; what the listings show
  is computed by the commands of \<open>Commands\<close> and \<open>Reports\<close>. The clock, the local time zone, the text of a number
  and upper case are parameters; texts are their UTF-8 bytes.
\<close>

section \<open>Texts\<close>

definition continuation_byte :: "char \<Rightarrow> bool" where
  "continuation_byte c \<longleftrightarrow> 128 \<le> (of_char c :: nat) \<and> (of_char c :: nat) < 192"

definition char_count :: "string \<Rightarrow> nat" where
  "char_count s = length (filter (\<lambda>c. \<not> continuation_byte c) s)"

text \<open>A column of a line: its width in characters, at least, filled on the right or on the left.\<close>

datatype column = LeftAligned nat | RightAligned nat | Unaligned

definition pad :: "column \<Rightarrow> string \<Rightarrow> string" where
  "pad col s = (case col of
      LeftAligned w \<Rightarrow> s @ replicate (w - char_count s) (CHR '' '')
    | RightAligned w \<Rightarrow> replicate (w - char_count s) (CHR '' '') @ s
    | Unaligned \<Rightarrow> s)"

fun line_of :: "column list \<Rightarrow> string list \<Rightarrow> string" where
  "line_of (col # col' # cols) (s # ss) = pad col s @ CHR '' '' # line_of (col' # cols) ss"
| "line_of [col] (s # ss) = pad col s"
| "line_of _ _ = []"

text \<open>A number with \<open>n\<close> decimals, ties to even.\<close>

definition fixed :: "nat \<Rightarrow> rat \<Rightarrow> string" where
  "fixed n r =
     (let k = nat (round_half_even (\<bar>r\<bar> * 10 ^ n)); decimals = show_nat (k mod 10 ^ n)
      in (if r < 0 then ''-'' else []) @ show_nat (k div 10 ^ n)
         @ (if n = 0 then [] else ''.'' @ replicate (n - length decimals) (CHR ''0'') @ decimals))"

text \<open>The sign of a microsecond is \<open>\<mu>\<close>, two bytes.\<close>

definition micro :: string where "micro = [char_of (206 :: nat), char_of (188 :: nat)]"

definition format_duration :: "rat option \<Rightarrow> string" where
  "format_duration seconds = (case seconds of
      None \<Rightarrow> ''N/A''
    | Some s \<Rightarrow>
        if s < 1 / 1000 then fixed 0 (s * 1000000) @ micro @ ''s''
        else if s < 1 then fixed 1 (s * 1000) @ ''ms''
        else if s < 60 then fixed 1 s @ ''s''
        else if s < 3600 then
          (let minutes = \<lfloor>s / 60\<rfloor>; rest = \<lfloor>s - 60 * of_int \<lfloor>s / 60\<rfloor>\<rfloor>
           in show_int minutes @ ''m '' @ show_int rest @ ''s'')
        else
          (let hours = \<lfloor>s / 3600\<rfloor>; minutes = \<lfloor>(s - 3600 * of_int hours) / 60\<rfloor>
           in show_int hours @ ''h '' @ show_int minutes @ ''m''))"

record tty =
  tm_now :: datetime
  tm_local :: "int \<Rightarrow> string option" \<comment> \<open>the local date and time of a second, where there is exactly one\<close>
  tm_utc :: "int \<Rightarrow> int \<Rightarrow> string option" \<comment> \<open>\<open>to_rfc3339\<close> of seconds and nanoseconds\<close>
  tm_number :: "rat \<Rightarrow> string" \<comment> \<open>\<open>Display\<close> of a number\<close>
  tm_upper :: "string \<Rightarrow> string"

definition format_timestamp :: "codec \<Rightarrow> tty \<Rightarrow> string option \<Rightarrow> string" where
  "format_timestamp C T raw = (case Option.bind raw (parse_timestamp C) of
      None \<Rightarrow> ''N/A''
    | Some v \<Rightarrow>
        (case tm_local T (trunc_i64 v) of
           None \<Rightarrow> tm_number T v
         | Some date \<Rightarrow>
             (let diff = tm_now T - secs (trunc_i64 v);
                  seconds = (if 0 \<le> diff then diff div secs 1 else - (- diff div secs 1))
              in if seconds < 60 then show_int seconds @ ''s ago''
                 else if seconds < 3600 then show_int (seconds div 60) @ ''m ago''
                 else if seconds < 86400 then show_int (seconds div 3600) @ ''h ago''
                 else date)))"

definition format_status :: "tty \<Rightarrow> string option \<Rightarrow> string" where
  "format_status T raw = tm_upper T (or_default raw ''UNKNOWN'')"

definition to_utc_rfc3339 :: "tty \<Rightarrow> rat \<Rightarrow> string" where
  "to_utc_rfc3339 T epoch_seconds =
     (let seconds = trunc_i64 (of_int \<lfloor>epoch_seconds\<rfloor>);
          nanos = \<lfloor>(epoch_seconds - of_int \<lfloor>epoch_seconds\<rfloor>) * 1000000000\<rfloor>
      in or_default (tm_utc T seconds nanos) (tm_number T epoch_seconds))"

section \<open>Printing\<close>

definition println :: "string \<Rightarrow> (string list, unit) io" where
  "println s lines = (Ok (), lines @ [s])"

definition res_io :: "'a res \<Rightarrow> ('s, 'a) io" where
  "res_io r s = (r, s)"

text \<open>A cell that is cut to a length, which panics inside a character.\<close>

definition cut :: "string \<Rightarrow> nat \<Rightarrow> (string list, string) io" where
  "cut s n = res_io (cli_truncate s n)"

definition job_columns :: "column list" where
  "job_columns = [LeftAligned 36, LeftAligned 30, LeftAligned 24, LeftAligned 10, LeftAligned 18, RightAligned 10]"

definition print_job :: "codec \<Rightarrow> tty \<Rightarrow> string \<times> rhash \<Rightarrow> (string list, unit) io" where
  "print_job C T job = (case job of (job_id, m) \<Rightarrow>
     andThen (cut (field_or m ''function_name'' ''unknown'') 28) (\<lambda>function_name.
     andThen (cut (field_or m ''queue_name'' ''unknown'') 22) (\<lambda>queue_name.
     println (line_of job_columns [job_id, function_name, queue_name, format_status T (fmlookup m ''status''),
       format_timestamp C T (fmlookup m ''enqueue_time''),
       format_duration (job_duration C (tm_now T) m)]))))"

definition print_job_list :: "codec \<Rightarrow> tty \<Rightarrow> (string \<times> rhash) list \<Rightarrow> (string list, unit) io" where
  "print_job_list C T jobs =
     andThen (println (line_of job_columns [''Job ID'', ''Function'', ''Queue'', ''Status'', ''Enqueued'', ''Duration''])) (\<lambda>_.
     foldIO (\<lambda>job _. print_job C T job) jobs ())"

definition first_of :: "rhash \<Rightarrow> string \<Rightarrow> string \<Rightarrow> string \<Rightarrow> string" where
  "first_of m f g d = (case fmlookup m f of Some v \<Rightarrow> v | None \<Rightarrow> field_or m g d)"

definition dlq_columns :: "column list" where
  "dlq_columns = [LeftAligned 36, LeftAligned 18, LeftAligned 16, LeftAligned 25, LeftAligned 18, RightAligned 7]"

definition print_dlq_job :: "codec \<Rightarrow> tty \<Rightarrow> rhash \<Rightarrow> (string list, unit) io" where
  "print_dlq_job C T m =
     andThen (cut (field_or m ''function_name'' ''N/A'') 16) (\<lambda>function_name.
     andThen (cut (field_or m ''queue_name'' ''N/A'') 14) (\<lambda>queue_name.
     andThen (cut (first_of m ''last_error'' ''error'' ''Unknown'') 23) (\<lambda>err.
     println (line_of dlq_columns [field_or m ''id'' [], function_name, queue_name, err,
       format_timestamp C T (fmlookup m ''completion_time''), first_of m ''current_retries'' ''retries'' ''0'']))))"

text \<open>The page of \<open>dlq list\<close> and its footer; \<open>len\<close> is the length of the queue.\<close>

definition print_dlq_list :: "codec \<Rightarrow> tty \<Rightarrow> string \<Rightarrow> nat \<Rightarrow> nat \<Rightarrow> nat \<Rightarrow> rhash list \<Rightarrow> (string list, unit) io" where
  "print_dlq_list C T dlq_name limit offset len jobs =
     (if jobs = [] then println (''No jobs found in DLQ: '' @ dlq_name)
      else andThen (println (line_of dlq_columns [''Job ID'', ''Function'', ''Queue'', ''Error'', ''Failed At'', ''Retries''])) (\<lambda>_.
        andThen (foldIO (\<lambda>m _. print_dlq_job C T m) jobs ()) (\<lambda>_.
        let showing_end = min (offset + length jobs) len
        in andThen (println []) (\<lambda>_.
           andThen (println (''Showing '' @ show_nat (offset + 1) @ ''-'' @ show_nat showing_end @ '' of '' @ show_nat len
             @ '' jobs'')) (\<lambda>_.
           if showing_end < len then println (''Use --offset '' @ show_nat (offset + limit) @ '' to see more'') else ret ())))))"

definition entry_columns :: "column list" where
  "entry_columns = [LeftAligned 4, LeftAligned 36, LeftAligned 20, LeftAligned 10, LeftAligned 20, RightAligned 7]"

definition entry_cells :: "tty \<Rightarrow> rhash option \<Rightarrow> string \<times> string \<times> string" where
  "entry_cells T job_map = (case job_map of
      Some m \<Rightarrow> (field_or m ''function_name'' ''<unknown>'', format_status T (fmlookup m ''status''),
        first_of m ''current_retries'' ''retries'' ''0'')
    | None \<Rightarrow> (''<missing>'', ''MISSING'', ''N/A''))"

definition print_entry :: "codec \<Rightarrow> tty \<Rightarrow> nat \<Rightarrow> string \<times> rat \<times> rhash option \<Rightarrow> (string list, unit) io" where
  "print_entry C T number entry = (case entry of (job_id, score, job_map) \<Rightarrow>
     (case entry_cells T job_map of (function_name, status, retries) \<Rightarrow>
        andThen (cut function_name 18) (\<lambda>function_cell.
        println (line_of entry_columns [show_nat number, job_id, function_cell, status,
          format_timestamp C T (Some (tm_number T (score / 1000))), retries]))))"

definition print_entries :: "codec \<Rightarrow> tty \<Rightarrow> nat \<Rightarrow> (string \<times> rat \<times> rhash option) list \<Rightarrow> (string list, unit) io" where
  "print_entries C T offset entries =
     andThen (println (line_of entry_columns [''#'', ''Job ID'', ''Function'', ''Status'', ''Scheduled'', ''Retries''])) (\<lambda>_.
     foldIO (\<lambda>(idx, entry) _. print_entry C T (offset + idx + 1) entry) (enumerate 0 entries) ())"

definition print_queue :: "string \<times> int \<times> rat \<times> rat \<Rightarrow> (string list, unit) io" where
  "print_queue row = (case row of (queue_name, n, oldest, newest) \<Rightarrow>
     println (line_of [LeftAligned 30, RightAligned 10, RightAligned 20, RightAligned 20]
       [queue_name, show_int n, fixed 0 oldest, fixed 0 newest]))"

text \<open>\<open>job trace\<close>: each event with the time since the one before, and the total.\<close>

definition print_event :: "tty \<Rightarrow> trace_event \<times> rat option \<Rightarrow> (string list, unit) io" where
  "print_event T e = (case e of (ev, gap) \<Rightarrow>
     println (line_of [LeftAligned 12, LeftAligned 20, Unaligned] [te_event ev, to_utc_rfc3339 T (te_time ev),
       te_details ev @ (case gap of None \<Rightarrow> [] | Some g \<Rightarrow> '' (+'' @ format_duration (Some g) @ '')'')]))"

definition print_trace :: "tty \<Rightarrow> string \<Rightarrow> trace_event list \<Rightarrow> (string list, unit) io" where
  "print_trace T job_id events =
     (if events = [] then println (''No trace data found for job '' @ job_id)
      else andThen (println (''Job trace for '' @ job_id)) (\<lambda>_.
        andThen (println (line_of [LeftAligned 12, LeftAligned 20, Unaligned] [''Event'', ''Timestamp'', ''Details''])) (\<lambda>_.
        andThen (foldIO (\<lambda>e _. print_event T e) (zip events (trace_gaps None events)) ()) (\<lambda>_.
        andThen (println []) (\<lambda>_. println (''Total Duration: '' @ format_duration (total_duration events)))))))"

section \<open>What holds of a listing\<close>

lemma char_count_append [simp]: "char_count (s @ t) = char_count s + char_count t"
  by (simp add: char_count_def)

lemma char_count_spaces [simp]: "char_count (replicate n (CHR '' '')) = n"
  by (simp add: char_count_def continuation_byte_def)

text \<open>A column is as wide as asked for, or as its text, so that columns line up whatever characters they hold.\<close>

lemma pad_width:
  "char_count (pad (LeftAligned w) s) = max w (char_count s)" "char_count (pad (RightAligned w) s) = max w (char_count s)"
  by (auto simp: pad_def)

text \<open>The minutes and seconds of a duration below an hour are those of the number, with no second of 60.\<close>

lemma format_duration_minutes:
  assumes "60 \<le> s" "s < 3600"
  shows "\<exists>m r. format_duration (Some s) = show_int m @ ''m '' @ show_int r @ ''s''
    \<and> 1 \<le> m \<and> m < 60 \<and> 0 \<le> r \<and> r < 60 \<and> \<lfloor>s\<rfloor> = 60 * m + r"
proof -
  let ?m = "\<lfloor>s / 60\<rfloor>" and ?r = "\<lfloor>s - 60 * of_int \<lfloor>s / 60\<rfloor>\<rfloor>"
  have m: "of_int ?m \<le> s / 60" "s / 60 < of_int ?m + 1" by linarith+
  have "1 \<le> ?m" "?m < 60" using assms by linarith+
  moreover have "0 \<le> ?r" "?r < 60" using m by linarith+
  moreover have "\<lfloor>s\<rfloor> = 60 * ?m + ?r" by linarith
  moreover have "format_duration (Some s) = show_int ?m @ ''m '' @ show_int ?r @ ''s''"
    using assms by (simp add: format_duration_def Let_def)
  ultimately show ?thesis by blast
qed

text \<open>Whether a text can be cut to a length.\<close>

definition cuttable :: "string \<Rightarrow> nat \<Rightarrow> bool" where
  "cuttable s n \<longleftrightarrow> length s \<le> n \<or> char_boundary s (n - 3)"

lemma cut_cuttable: "fst (cut s n lines) = (if cuttable s n then Ok (if length s \<le> n then s else take (n - 3) s @ ''...'')
    else Panic ''byte index is not a char boundary'') \<and> snd (cut s n lines) = lines"
  by (simp add: cut_def res_io_def cli_truncate_def cuttable_def Let_def)

lemma ascii_cuttable:
  assumes "\<forall>c \<in> set s. (of_char c :: nat) < 128"
  shows "cuttable s n"
proof (cases "length s \<le> n")
  case False
  then have "(of_char (s ! (n - 3)) :: nat) < 128" using assms nth_mem [of "n - 3" s] by auto
  moreover have "n - 3 < length s" using False by simp
  ultimately show ?thesis by (simp add: cuttable_def char_boundary_def)
qed (simp add: cuttable_def)

text \<open>A row that is printed adds one line, and a row with a cell that is cut inside a character panics.\<close>

lemma andThen_cut:
  "andThen (cut s n) f lines = (if cuttable s n then f (if length s \<le> n then s else take (n - 3) s @ ''...'') lines
    else (Panic ''byte index is not a char boundary'', lines))"
  using cut_cuttable [of s n lines] by (auto simp: andThen_def split: prod.split)

definition dlq_row_ok :: "rhash \<Rightarrow> bool" where
  "dlq_row_ok m \<longleftrightarrow> cuttable (field_or m ''function_name'' ''N/A'') 16 \<and> cuttable (field_or m ''queue_name'' ''N/A'') 14
     \<and> cuttable (first_of m ''last_error'' ''error'' ''Unknown'') 23"

lemma print_dlq_job_cases:
  "if dlq_row_ok m then \<exists>l. print_dlq_job C T m lines = (Ok (), lines @ [l])
   else print_dlq_job C T m lines = (Panic ''byte index is not a char boundary'', lines)"
  by (auto simp: print_dlq_job_def dlq_row_ok_def andThen_cut println_def)

lemma print_rows:
  assumes "\<And>x lines. if ok x then \<exists>l. f x lines = (Ok (), lines @ [l]) else f x lines = (Panic p, lines)"
  shows "if \<forall>x \<in> set xs. ok x then \<exists>ls. foldIO (\<lambda>x _. f x) xs () lines = (Ok (), lines @ ls) \<and> length ls = length xs
    else fst (foldIO (\<lambda>x _. f x) xs () lines) = Panic p"
proof (induction xs arbitrary: lines)
  case (Cons x xs)
  show ?case
  proof (cases "ok x")
    case True
    then obtain l where l: "f x lines = (Ok (), lines @ [l])" using assms [of x lines] by auto
    then have run: "foldIO (\<lambda>x _. f x) (x # xs) () lines = foldIO (\<lambda>x _. f x) xs () (lines @ [l])"
      by (simp add: andThen_def)
    show ?thesis
    proof (cases "\<forall>y \<in> set xs. ok y")
      case all: True
      then obtain ls where "foldIO (\<lambda>x _. f x) xs () (lines @ [l]) = (Ok (), (lines @ [l]) @ ls)" "length ls = length xs"
        using Cons.IH [of "lines @ [l]"] by auto
      then have "foldIO (\<lambda>x _. f x) (x # xs) () lines = (Ok (), lines @ (l # ls)) \<and> length (l # ls) = length (x # xs)"
        using run by simp
      then show ?thesis using True all by (metis set_ConsD)
    next
      case False
      then show ?thesis using True run Cons.IH [of "lines @ [l]"] by auto
    qed
  next
    case False
    then show ?thesis using assms [of x lines] by (auto simp: andThen_def)
  qed
qed (simp add: ret_def)

text \<open>The listing of a dead letter queue prints one line for each job, a title and its footer, unless a name or an
  error of one of them is cut inside a character, which panics.\<close>

theorem dlq_listing_printed:
  assumes "jobs \<noteq> []"
  shows "if \<forall>m \<in> set jobs. dlq_row_ok m
    then \<exists>ls. print_dlq_list C T dlq_name limit offset len jobs [] = (Ok (), ls)
      \<and> length ls = length jobs + (if min (offset + length jobs) len < len then 4 else 3)
    else fst (print_dlq_list C T dlq_name limit offset len jobs []) = Panic ''byte index is not a char boundary''"
proof -
  define head where "head = line_of dlq_columns [''Job ID'', ''Function'', ''Queue'', ''Error'', ''Failed At'', ''Retries'']"
  note rows = print_rows [of dlq_row_ok "print_dlq_job C T", OF print_dlq_job_cases, of jobs "[head]"]
  show ?thesis
  proof (cases "\<forall>m \<in> set jobs. dlq_row_ok m")
    case True
    then obtain ls where "foldIO (\<lambda>m _. print_dlq_job C T m) jobs () [head] = (Ok (), [head] @ ls)" "length ls = length jobs"
      using rows by auto
    then show ?thesis
      using assms True by (simp add: print_dlq_list_def andThen_def println_def ret_def Let_def head_def)
  next
    case False
    then have "fst (foldIO (\<lambda>m _. print_dlq_job C T m) jobs () [head]) = Panic ''byte index is not a char boundary''"
      using rows by auto
    then show ?thesis
      using assms False by (auto simp: print_dlq_list_def andThen_def println_def head_def split: prod.split)
  qed
qed

end
