(* ===== verification/Pauses.thy ===== *)
theory Pauses
  imports Worker_Upkeep
begin

text \<open>
  How long a worker sleeps between its rounds (\<open>calculate_jittered_delay\<close>, the end of \<open>heartbeat_loop\<close> and
  \<open>sleep_with_shutdown\<close> in \<open>orchestrator/src/worker.rs\<close>). A duration is a number of nanoseconds. The random
  number generator is the parameter \<open>draw\<close>, and the shutdown flag is given as each look at it finds it.
\<close>

section \<open>Durations\<close>

definition calculate_jittered_delay :: "(rat \<Rightarrow> rat \<Rightarrow> rat) \<Rightarrow> rat \<Rightarrow> rat \<Rightarrow> nat res" where
  "calculate_jittered_delay draw base_delay jitter_factor =
     (if base_delay \<le> 0 then Ok 0
      else let jitter = max 0 (min (99 / 100) jitter_factor);
               min_delay = max 0 (base_delay * (1 - jitter));
               max_delay = max min_delay (base_delay * (1 + jitter))
           in duration_from_secs_f64 (draw min_delay max_delay))"

text \<open>The pause of the heartbeat.\<close>

definition heartbeat_pause :: "RRQSettings \<Rightarrow> nat res" where
  "heartbeat_pause settings = duration_from_secs_f64 (min (worker_health_check_interval_seconds settings) 60)"

section \<open>Sleeping\<close>

definition sleep_step :: nat where "sleep_step = 100 * 1000000"

text \<open>The sleeps made one after the other; \<open>None\<close> when the loop looks at the flag once more than it is given.\<close>

function sleep_with_shutdown :: "nat \<Rightarrow> bool list \<Rightarrow> nat list option" where
  "sleep_with_shutdown remaining flags =
     (if remaining = 0 then Some []
      else case flags of
        [] \<Rightarrow> None
      | shutdown # rest \<Rightarrow>
          if shutdown then Some []
          else let n = (if sleep_step < remaining then sleep_step else remaining)
               in map_option (Cons n) (sleep_with_shutdown (remaining - n) rest))"
  by pat_completeness auto
termination by (relation "measure (length \<circ> snd)") auto

declare sleep_with_shutdown.simps [simp del]

lemma sleep_with_shutdown_simps [simp]:
  "sleep_with_shutdown 0 flags = Some []" "remaining \<noteq> 0 \<Longrightarrow> sleep_with_shutdown remaining [] = None"
  "remaining \<noteq> 0 \<Longrightarrow> sleep_with_shutdown remaining (True # rest) = Some []"
  "remaining \<noteq> 0 \<Longrightarrow> sleep_with_shutdown remaining (False # rest)
     = map_option (Cons (min sleep_step remaining)) (sleep_with_shutdown (remaining - min sleep_step remaining) rest)"
  by (subst sleep_with_shutdown.simps, simp add: Let_def min_def)+

section \<open>What holds of the pauses\<close>

text \<open>A sleep ends after at most one look at the flag for each started tenth of a second.\<close>

theorem sleep_returns:
  "remaining \<le> length flags * sleep_step \<Longrightarrow> sleep_with_shutdown remaining flags \<noteq> None"
proof (induction flags arbitrary: remaining)
  case (Cons f flags)
  have "remaining - min sleep_step remaining \<le> length flags * sleep_step"
    using Cons.prems by (auto simp: min_def)
  then show ?case using Cons.IH by (cases "remaining = 0"; cases f) auto
qed simp

text \<open>It lasts as long as it is asked to when nobody shuts the worker down, and no step of it more than a tenth of a
  second, so a shutdown is noticed within that time.\<close>

lemma sleep_bounded:
  "sleep_with_shutdown remaining flags = Some ns \<Longrightarrow> sum_list ns \<le> remaining \<and> (\<forall>n \<in> set ns. n \<le> sleep_step)"
proof (induction flags arbitrary: remaining ns)
  case Nil
  then show ?case by (cases "remaining = 0") auto
next
  case (Cons f flags)
  show ?case
  proof (cases "remaining = 0 \<or> f")
    case False
    then obtain ns' where ns: "ns = min sleep_step remaining # ns'"
      "sleep_with_shutdown (remaining - min sleep_step remaining) flags = Some ns'"
      using Cons.prems by auto
    then show ?thesis using Cons.IH [OF ns(2)] by auto
  qed (use Cons.prems in \<open>cases "remaining = 0"; auto\<close>)
qed

lemma sleep_undisturbed:
  "sleep_with_shutdown remaining flags = Some ns \<Longrightarrow> True \<notin> set flags \<Longrightarrow> sum_list ns = remaining"
proof (induction flags arbitrary: remaining ns)
  case Nil
  then show ?case by (cases "remaining = 0") auto
next
  case (Cons f flags)
  show ?case
  proof (cases "remaining = 0")
    case False
    then obtain ns' where ns: "ns = min sleep_step remaining # ns'"
      "sleep_with_shutdown (remaining - min sleep_step remaining) flags = Some ns'"
      using Cons.prems by (cases f) auto
    then show ?thesis using Cons.IH [OF ns(2)] Cons.prems(2) by auto
  qed (use Cons.prems in auto)
qed

text \<open>A delay with jitter of one half is between half of and one and a half times what is asked for.\<close>

lemma jittered_delay_within:
  assumes "0 < base_delay" "base_delay < 12000000000000000000"
    and draw: "\<And>lo hi. lo \<le> hi \<Longrightarrow> lo \<le> draw lo hi \<and> draw lo hi \<le> hi"
  shows "\<exists>s. calculate_jittered_delay draw base_delay (1 / 2) = Ok (nat (round_half_even (s * 1000000000)))
    \<and> base_delay / 2 \<le> s \<and> s \<le> base_delay * 3 / 2"
proof -
  let ?s = "draw (base_delay / 2) (base_delay * 3 / 2)"
  have s: "base_delay / 2 \<le> ?s" "?s \<le> base_delay * 3 / 2" using draw [of "base_delay / 2" "base_delay * 3 / 2"] assms(1) by simp_all
  have "calculate_jittered_delay draw base_delay (1 / 2) = duration_from_secs_f64 ?s"
    using assms(1) by (simp add: calculate_jittered_delay_def Let_def max_def min_def algebra_simps)
  moreover have "\<not> (?s < 0 \<or> 18446744073709551616 \<le> ?s)" using s assms(1,2) by auto
  ultimately show ?thesis using s by (auto simp: duration_from_secs_f64_def)
qed

text \<open>A negative interval, which the validation of the settings lets through, ends the heartbeat in a panic after its
  first round, while the worker goes on.\<close>

lemma heartbeat_pause_panics:
  "worker_health_check_interval_seconds settings < 0 \<longleftrightarrow> heartbeat_pause settings = Panic ''Duration::from_secs_f64''"
  by (auto simp: heartbeat_pause_def duration_from_secs_f64_def min_def)

end
