(* ===== verification/Spec2Isabelle.thy ===== *)
theory Spec2Isabelle
  imports Prelude Redis Redis_Effects Keys Codec Job Framing Scripts Script_Facts Store Store_Facts Store_Effects Store_Properties Sockets Config Config_Facts Client Client_Properties Producer Waiting Producer_Properties Protocol Protocol_Properties Worker Worker_Claims Worker_Upkeep Worker_Facts Worker_Properties Worker_Polling Worker_Execution Worker_Recovery Custody System System_Invariant System_Refinement System_Example System_Properties Runtime Runtime_Facts Runtime_Properties Pool Pool_Processes Pool_Requests Pool_Properties Request_Properties Commands Command_Properties Worker_Command Worker_Command_Properties Ffi Ffi_Properties Otlp Parent Reports Hints End_To_End Wire Streams Command_Line Metrics_Base Runner_Telemetry Metrics Runner_Start Contexts Listings Pauses
begin

text \<open>
  A model of RRQ, a Redis-backed job queue: producers store jobs in Redis, workers (the orchestrator) claim them
  and pass them to runner processes over TCP, and record what the runners answer. The Rust crates under
  \<open>src/rrq-rs/\<close> and the Lua scripts they load are translated into definitions; the theorems state what makes
  each part correct, and, where the code falls short of it, what happens instead.

  \<^bold>\<open>Parts of the program and their theories.\<close> File names are relative to \<open>src/rrq-rs/\<close>.

  \<^item> \<^bold>\<open>Shared ground.\<close> \<open>Prelude\<close>: results (\<open>Ok\<close>, \<open>Err\<close>, a panic), programs over a state, the simulation relation
    between two programs, machine integers, decimal numerals. \<open>Redis\<close>: the server. It is no code of the
    repository, so a program takes its commands as a record \<open>redis\<close>; the locale \<open>redis_server\<close> says what a
    command must do to the keyspace an implementation stands for, and \<open>reference\<close> interprets it with the
    \<open>ks_\<close> commands on a keyspace. \<open>Redis_Effects\<close> and \<open>Framing\<close> hold the equations of those commands and the
    rules for "never panics", "keeps an invariant" and "changes only these keys". \<open>Codec\<close>: JSON text and times,
    of third-party crates; the locale \<open>codec_laws\<close> states what is read back of what has been printed, and
    \<open>simple\<close> interprets it.
  \<^item> \<^bold>\<open>Keys and jobs.\<close> \<open>Keys\<close> (\<open>orchestrator/src/constants.rs\<close>, \<open>config/src/queue.rs\<close>, the \<open>format_\<close> functions of
    \<open>store.rs\<close>) and \<open>Job\<close> (\<open>orchestrator/src/job.rs\<close>, \<open>build_job_mapping\<close> and \<open>parse_job_map\<close> of \<open>store.rs\<close>).
  \<^item> \<^bold>\<open>Store.\<close> \<open>Scripts\<close> has the eight scripts of \<open>orchestrator/src/lua\<close>, \<open>Store\<close> the operations of
    \<open>JobStore\<close> (\<open>orchestrator/src/store.rs\<close>). \<open>Script_Facts\<close>, \<open>Store_Facts\<close> and \<open>Store_Effects\<close> say what each does
    to the keyspace; \<open>Store_Properties\<close> carries that over to every server by simulation: claiming, locking,
    retrying, dead-lettering, requeueing, results.
  \<^item> \<^bold>\<open>Settings.\<close> \<open>Sockets\<close> (\<open>config/src/tcp_socket.rs\<close>) and \<open>Config\<close> (\<open>settings.rs\<close>, \<open>config.rs\<close>, \<open>cron.rs\<close>,
    \<open>producer.rs\<close> of \<open>config/src\<close>); \<open>Config_Facts\<close> has what loading and validation guarantee,
    \<open>Hints\<close> the hints of configuration errors.
  \<^item> \<^bold>\<open>Those who enqueue.\<close> \<open>Client\<close> (\<open>orchestrator/src/client.rs\<close>) and \<open>Producer\<close> (\<open>producer/src/lib.rs\<close> with its
    scripts), with \<open>Client_Properties\<close> and \<open>Producer_Properties\<close>: unique keys, idempotency, rate limits,
    debouncing, waiting. \<open>Waiting\<close>: what a wait for a job relies on of the clock and of \<open>XREAD\<close> (the locale
    \<open>wait_server\<close>), that it then ends, and a server with a clock that interprets it. \<open>Contexts\<close> has the producer's
    own copy of the correlation and trace contexts and shows where it agrees with the orchestrator's.
  \<^item> \<^bold>\<open>Worker\<close> (\<open>orchestrator/src/worker.rs\<close>). \<open>Worker\<close>: start-up and the execution of a job up to its recorded
    outcome; \<open>Worker_Claims\<close>: polling and dispatching; \<open>Worker_Upkeep\<close>: orphan recovery, heartbeat, cron, draining
    and the main loop; \<open>Pauses\<close>: its sleeps. \<open>Worker_Facts\<close>, \<open>Worker_Properties\<close>, \<open>Worker_Polling\<close>, \<open>Worker_Execution\<close> and
    \<open>Worker_Recovery\<close> hold the theorems about each.
  \<^item> \<^bold>\<open>From end to end.\<close> \<open>Poll_Effects\<close> computes what a poll does to the keyspace when one job is due;
    \<open>End_To_End\<close> composes producer, worker and store: what becomes of a job from the call that enqueues it to the
    result the producer reads; \<open>Wire\<close> adds the connection, the runner's server and the handler in between.
  \<^item> \<^bold>\<open>The system of workers.\<close> \<open>System\<close> is the abstract specification: a step relation of tasks, recoveries,
    crashes and passing time over one keyspace. \<open>Custody\<close> says what each store operation does to the place of a
    job, \<open>System_Invariant\<close> has the invariant of the reachable states, \<open>System_Refinement\<close> shows that a run of
    \<open>execute_job\<close> or \<open>recover_job\<close> is a sequence of steps, \<open>System_Example\<close> and \<open>System_Properties\<close> instances and
    the properties.
  \<^item> \<^bold>\<open>Runner pool\<close> (\<open>orchestrator/src/runner.rs\<close>). \<open>Pool\<close>: limits, the choice of runners for queues, the checks
    of a pool; \<open>Pool_Processes\<close>: starting, connecting to, acquiring, replacing and ending processes, and the
    connection with the requests that wait on it; \<open>Pool_Requests\<close>: a request, its timeout and its cancellation.
    \<open>Pool_Properties\<close> and \<open>Request_Properties\<close> hold the theorems.
  \<^item> \<^bold>\<open>Runner.\<close> \<open>Protocol\<close> (\<open>protocol/src/lib.rs\<close>): messages, their JSON and their frames; \<open>Runtime\<close>
    (\<open>registry.rs\<close> and \<open>runtime.rs\<close> of \<open>runner/src\<close>): the registry and the server, as a function on the events of
    its connections and tasks; \<open>Runner_Start\<close>: what precedes it. \<open>Protocol_Properties\<close>, \<open>Runtime_Facts\<close> and
    \<open>Runtime_Properties\<close> hold the theorems. \<open>Streams\<close>: the locale \<open>message_stream\<close> says what writing and reading a
    frame do, and that makes the bytes of a connection a queue of messages; it holds (\<open>sublocale\<close>) for the
    functions of both ends and every codec that meets its laws.
  \<^item> \<^bold>\<open>Telemetry\<close> (both \<open>telemetry.rs\<close>). \<open>Metrics_Base\<close>: the measurement each \<open>record_\<close> function makes, and what the
    start of the export sets up; \<open>Runner_Telemetry\<close>: the span of a job; \<open>Metrics\<close>: which measurements each event
    of the runner's server makes, and that they add up.
  \<^item> \<^bold>\<open>Command line\<close> (\<open>orchestrator/src/commands\<close>, \<open>cli_utils.rs\<close>). \<open>Commands\<close>: listing, counting, cancelling,
    replaying, requeueing and submitting jobs; \<open>Reports\<close>: traces, statistics, generated jobs and the removal of
    keys; \<open>Listings\<close>: the lines they print; \<open>Command_Line\<close>: the arguments of \<open>main.rs\<close> and the dispatch of every
    command; \<open>Worker_Command\<close>: the command that runs a worker, which composes the settings, the pool and the worker,
    and its watch mode. \<open>Command_Properties\<close> and \<open>Worker_Command_Properties\<close> hold the theorems.
  \<^item> \<^bold>\<open>At the edges.\<close> \<open>Ffi\<close> (\<open>producer/src/ffi.rs\<close>): the C interface of the producer; \<open>Ffi_Properties\<close>: a
    refused call has no effect on jobs and queues. \<open>Otlp\<close> (\<open>config/src/otlp.rs\<close> and the start of
    \<open>orchestrator/src/telemetry.rs\<close>): the settings of the telemetry export. \<open>Parent\<close>
    (\<open>runner/src/parent_guard.rs\<close>): the guard that ends a runner with its parent.

  \<^bold>\<open>How code becomes definitions.\<close> A function that talks to Redis is a program in \<open>io\<close>: it takes the server's
  state and returns a result and the new state, also after an error, since a command that has been executed is
  not rolled back. A struct is a record with the prefix of its name, an enum a datatype. \<open>i64\<close> is \<open>int\<close> with the
  checked operations written out, \<open>u32\<close> is a word where the code lets it wrap; an \<open>f64\<close> is a rational, or of type
  \<open>f64\<close> where the code asks whether it is finite. A string is its UTF-8 bytes. A \<open>HashMap\<close> is the list of its
  entries in some order. The clock, random ids, the operating system and handlers are arguments. A loop that asks
  the outside until something happens runs over the list of the answers (\<open>connect_socket\<close>,
  \<open>get_or_create_connection\<close>), with \<open>None\<close> when the list ends first. The wait for a job acts on the state of the
  server, which others change meanwhile; it need not end, and is a partial function with \<open>None\<close> for that;
  \<open>wait_for_completion_returns\<close> says when it does. Loops over data recurse on it; the other loops have a measure.

  \<^bold>\<open>What the theorems show.\<close> Of the store: every script does what its comment says, for every server that meets
  the interface, and an enqueued job is read back as it was. Of the system: whatever workers and recoveries run,
  crash or come late, one agent at a time holds a job, and an open job stays where the recovery finds it. The
  step relation assumes what the code relies on without checking: a task ends before the lock of its job expires,
  a worker that died does not come back under its id, no worker id has the form of a recovery's owner; operations
  that fail in Redis are not steps, their effects are looked at by the theorems on the execution of a job. Of
  the execution of a job: it ends with its outcome recorded and nothing left over, or in one of the two ways
  found in which a failing Redis loses a job. Of producers and client: the keys of uniqueness, idempotency, rate
  limit and debouncing do what they promise, a refused call leaves no job, and a wait ends. Of the pool and the runtime: the
  ports of a pool however its processes start, the end of a request that times out, one answer per request, no
  request that cannot be found. Of
  the commands: cancelling and requeueing do what they say and nothing else, what only reports changes nothing, a
  worker is started with as many slots as its runners have, and when the watch mode panics: as its worker ends by
  itself, or as a worker is set up. Of the whole: a job that is enqueued is polled, run and read back with its
  result, and the messages between worker and runner arrive once and in order, as JSON keeps them.

  \<^bold>\<open>Not modelled.\<close> Log lines and the spans of the worker; the OpenTelemetry library behind the measurements, and
  the shutdown of the exporters; connecting to Redis, TLS; reading and parsing of files; the forwarding of the
  output of runners; how the clap library reads the arguments, the table of \<open>queue stats\<close> and the messages of the
  debugging commands; globs, ignore files and file events of the watch mode, which are libraries; the set-up of the
  tokio runtime; the memory that the C interface hands out; build scripts, examples and test support.
\<close>

end
